(* ===== verification/Prelude.thy ===== *)
theory Prelude
  imports Complex_Main "HOL-Library.Char_ord"
begin

text \<open>
  Shared vocabulary of the development.

  \<^item> The Python values that occur in the options dictionary (\<open>pyval\<close>), the exceptions the
    sources raise or catch (\<open>exn\<close>) and the string operations they call (\<open>str.lower\<close>,
    \<open>str.strip\<close>, \<open>str.split\<close>, \<open>str.replace\<close>, \<open>int\<close>, \<open>uuid.UUID\<close>, \<dots>) on ASCII text.
  \<^item> The effects of a fence agent: a program is a function from the state of the process
    (options dictionary, standard output, error log, clock, outside world) to an outcome and
    the next state. An outcome is a value, an exception, the end of the process with an exit
    code (\<open>sys.exit\<close>), or \<open>Running\<close>: the loop was still running when the fuel of the
    model was used up.
  \<^item> The collections \<open>ret_iff\<close>, \<open>exit_iff\<close>, \<open>running_iff\<close>,
    \<open>keeps_intro\<close> and \<open>run_simps\<close> that carry the proofs.
\<close>

section \<open>Collections\<close>

named_theorems ret_iff \<open>when a program returns a value\<close>
named_theorems exit_iff \<open>when a program ends the process\<close>
named_theorems running_iff \<open>when a program runs out of fuel\<close>
named_theorems keeps_intro \<open>what a program leaves unchanged when it returns\<close>
named_theorems agrees_intro \<open>programs that leave the options of the library alone\<close>
named_theorems run_simps \<open>running the primitive programs\<close>

section \<open>Python values, exceptions, outcomes\<close>

datatype pyval = PNone | PInt int | PStr string | PList "string list"

type_synonym pydict = "string \<rightharpoonup> pyval"

datatype exn =
    KeyError string
  | ValueError string
  | TypeError string
  | AttributeError string
  | IndexError string
  | OSErr string
  | PexpectEOF
  | PexpectTIMEOUT
  | PexpectError string
  | PycurlError string
  | SocketTimeout string
  | OtherError string
  | ClassError string string   \<comment> \<open>the name of the class, and the text\<close>

datatype 'a outcome = Ret 'a | Raise exn | Exit int | Running

record 'w st =
  opts :: pydict
  outp :: "string list"
  errs :: "string list"
  clock :: rat
  world :: 'w

type_synonym ('w, 'a) prog = "'w st \<Rightarrow> 'a outcome \<times> 'w st"

section \<open>Programs\<close>

definition retM :: "'a \<Rightarrow> ('w, 'a) prog" where
  "retM x s = (Ret x, s)"

definition raiseM :: "exn \<Rightarrow> ('w, 'a) prog" where
  "raiseM e s = (Raise e, s)"

definition exitM :: "int \<Rightarrow> ('w, 'a) prog" where
  "exitM c s = (Exit c, s)"

definition runningM :: "('w, 'a) prog" where
  "runningM s = (Running, s)"

definition bindM :: "('w, 'a) prog \<Rightarrow> ('a \<Rightarrow> ('w, 'b) prog) \<Rightarrow> ('w, 'b) prog" where
  "bindM m f s = (case m s of
      (Ret x, s') \<Rightarrow> f x s'
    | (Raise e, s') \<Rightarrow> (Raise e, s')
    | (Exit c, s') \<Rightarrow> (Exit c, s')
    | (Running, s') \<Rightarrow> (Running, s'))"

abbreviation seqM :: "('w, 'a) prog \<Rightarrow> ('w, 'b) prog \<Rightarrow> ('w, 'b) prog" where
  "seqM m n \<equiv> bindM m (\<lambda>_. n)"

text \<open>
  \<open>try: m except E: h\<close>. The handler is given as a function that answers \<open>None\<close> for the
  exceptions it does not name. \<open>sys.exit\<close> raises SystemExit, which is not a subclass of
  Exception: no handler of the sources catches it, so \<open>Exit\<close> passes through.
\<close>

definition tryM :: "('w, 'a) prog \<Rightarrow> (exn \<Rightarrow> ('w, 'a) prog option) \<Rightarrow> ('w, 'a) prog" where
  "tryM m h s = (case m s of
      (Raise e, s') \<Rightarrow> (case h e of None \<Rightarrow> (Raise e, s') | Some n \<Rightarrow> n s')
    | r \<Rightarrow> r)"

definition getM :: "('w st \<Rightarrow> 'a) \<Rightarrow> ('w, 'a) prog" where
  "getM f s = (Ret (f s), s)"

definition modM :: "('w st \<Rightarrow> 'w st) \<Rightarrow> ('w, unit) prog" where
  "modM f s = (Ret (), f s)"

definition liftM :: "'a outcome \<Rightarrow> ('w, 'a) prog" where
  "liftM r s = (r, s)"

text \<open>Computations without effects that may raise.\<close>

definition bindO :: "'a outcome \<Rightarrow> ('a \<Rightarrow> 'b outcome) \<Rightarrow> 'b outcome" where
  "bindO m f = (case m of Ret x \<Rightarrow> f x | Raise e \<Rightarrow> Raise e | Exit c \<Rightarrow> Exit c | Running \<Rightarrow> Running)"

lemma bindO_simps [simp]:
  "bindO (Ret x) f = f x" "bindO (Raise e) f = Raise e" "bindO (Exit c) f = Exit c" "bindO Running f = Running"
  by (simp_all add: bindO_def)

lemma bindO_Ret [ret_iff]: "bindO m f = Ret y \<longleftrightarrow> (\<exists>x. m = Ret x \<and> f x = Ret y)"
  by (cases m) simp_all

text \<open>A loop over a list whose body is run for its effects.\<close>

fun forM :: "'a list \<Rightarrow> ('a \<Rightarrow> ('w, unit) prog) \<Rightarrow> ('w, unit) prog" where
  "forM [] f = retM ()"
| "forM (x # xs) f = seqM (f x) (forM xs f)"

text \<open>A loop over a list that carries a local variable.\<close>

fun foldM :: "('b \<Rightarrow> 'a \<Rightarrow> ('w, 'b) prog) \<Rightarrow> 'b \<Rightarrow> 'a list \<Rightarrow> ('w, 'b) prog" where
  "foldM f b [] = retM b"
| "foldM f b (x # xs) = bindM (f b x) (\<lambda>b'. foldM f b' xs)"

subsection \<open>The options dictionary, output, log and clock\<close>

definition optM :: "string \<Rightarrow> ('w, pyval) prog" where
  \<comment> \<open>\<open>options[k]\<close>\<close>
  "optM k s = (case opts s k of None \<Rightarrow> (Raise (KeyError k), s) | Some v \<Rightarrow> (Ret v, s))"

definition setoptM :: "string \<Rightarrow> pyval \<Rightarrow> ('w, unit) prog" where
  \<comment> \<open>\<open>options[k] = v\<close>\<close>
  "setoptM k v = modM (\<lambda>s. s\<lparr>opts := (opts s)(k \<mapsto> v)\<rparr>)"

definition deloptM :: "string \<Rightarrow> ('w, unit) prog" where
  \<comment> \<open>\<open>del options[k]\<close>\<close>
  "deloptM k s = (case opts s k of
      None \<Rightarrow> (Raise (KeyError k), s)
    | Some _ \<Rightarrow> (Ret (), s\<lparr>opts := (opts s)(k := None)\<rparr>))"

definition hasoptM :: "string \<Rightarrow> ('w, bool) prog" where
  \<comment> \<open>\<open>k in options\<close>\<close>
  "hasoptM k = getM (\<lambda>s. opts s k \<noteq> None)"

definition printM :: "string \<Rightarrow> ('w, unit) prog" where
  "printM t = modM (\<lambda>s. s\<lparr>outp := outp s @ [t]\<rparr>)"

definition logM :: "string \<Rightarrow> ('w, unit) prog" where
  \<comment> \<open>\<open>logging.error\<close>; the lower log levels leave no trace in the model\<close>
  "logM t = modM (\<lambda>s. s\<lparr>errs := errs s @ [t]\<rparr>)"

definition sleepM :: "rat \<Rightarrow> ('w, unit) prog" where
  "sleepM t s = (if t < 0 then (Raise (ValueError ''sleep length must be non-negative''), s)
                 else (Ret (), s\<lparr>clock := clock s + t\<rparr>))"

subsection \<open>Running the primitives\<close>

lemma run_prims [run_simps]:
  "retM x s = (Ret x, s)" "raiseM e s = (Raise e, s)" "exitM c s = (Exit c, s)"
  "runningM s = (Running, s)" "getM f s = (Ret (f s), s)" "modM g s = (Ret (), g s)"
  "liftM r s = (r, s)" "hasoptM k s = (Ret (opts s k \<noteq> None), s)"
  "setoptM k v s = (Ret (), s\<lparr>opts := (opts s)(k \<mapsto> v)\<rparr>)"
  "printM t s = (Ret (), s\<lparr>outp := outp s @ [t]\<rparr>)"
  "logM t s = (Ret (), s\<lparr>errs := errs s @ [t]\<rparr>)"
  by (simp_all add: retM_def raiseM_def exitM_def runningM_def getM_def modM_def liftM_def
      hasoptM_def setoptM_def printM_def logM_def)

lemma bindM_step:
  "m s = (Ret x, s1) \<Longrightarrow> bindM m f s = f x s1"
  "m s = (Raise e, s1) \<Longrightarrow> bindM m f s = (Raise e, s1)"
  "m s = (Exit c, s1) \<Longrightarrow> bindM m f s = (Exit c, s1)"
  "m s = (Running, s1) \<Longrightarrow> bindM m f s = (Running, s1)"
  by (simp_all add: bindM_def)

lemma bindM_prims [run_simps]:
  "bindM (retM x) f s = f x s" "bindM (raiseM e) f s = (Raise e, s)"
  "bindM (exitM c) f s = (Exit c, s)" "bindM runningM f s = (Running, s)"
  "bindM (liftM (Ret x)) f s = f x s"
  by (simp_all add: bindM_def run_prims)

lemma bindM_getM [run_simps]:
  "bindM (getM g) f s = f (g s) s" "bindM (hasoptM k) f' s = f' (opts s k \<noteq> None) s"
  by (simp_all add: bindM_def run_prims)

lemma bindM_modM [run_simps]:
  "bindM (modM h) f s = f () (h s)"
  "bindM (setoptM k v) f s = f () (s\<lparr>opts := (opts s)(k \<mapsto> v)\<rparr>)"
  "bindM (printM t) f s = f () (s\<lparr>outp := outp s @ [t]\<rparr>)"
  "bindM (logM t) f s = f () (s\<lparr>errs := errs s @ [t]\<rparr>)"
  by (simp_all add: bindM_def run_prims)

lemma bindM_assoc [run_simps]: "bindM (bindM m n) f s = bindM m (\<lambda>x. bindM (n x) f) s"
  by (simp add: bindM_def split: prod.splits outcome.splits)

lemma tryM_step:
  "m s = (Ret x, s1) \<Longrightarrow> tryM m h s = (Ret x, s1)"
  "m s = (Exit c, s1) \<Longrightarrow> tryM m h s = (Exit c, s1)"
  "m s = (Running, s1) \<Longrightarrow> tryM m h s = (Running, s1)"
  "m s = (Raise e, s1) \<Longrightarrow> h e = None \<Longrightarrow> tryM m h s = (Raise e, s1)"
  "m s = (Raise e, s1) \<Longrightarrow> h e = Some n \<Longrightarrow> tryM m h s = n s1"
  by (simp_all add: tryM_def)

lemma optM_step [run_simps]:
  "opts s k = Some v \<Longrightarrow> optM k s = (Ret v, s)"
  "opts s k = None \<Longrightarrow> optM k s = (Raise (KeyError k), s)"
  by (simp_all add: optM_def)

lemma bindM_optM [run_simps]:
  "opts s k = Some v \<Longrightarrow> bindM (optM k) f s = f v s"
  "opts s k = None \<Longrightarrow> bindM (optM k) f s = (Raise (KeyError k), s)"
  by (simp_all add: bindM_def optM_def)

lemma bindM_sleepM [run_simps]:
  "0 \<le> t \<Longrightarrow> bindM (sleepM t) f s = f () (s\<lparr>clock := clock s + t\<rparr>)"
  by (simp add: bindM_def sleepM_def)

lemma bindM_deloptM [run_simps]:
  "opts s k = Some v \<Longrightarrow> bindM (deloptM k) f s = f () (s\<lparr>opts := (opts s)(k := None)\<rparr>)"
  by (simp add: bindM_def deloptM_def)

lemma deloptM_step [run_simps]:
  "opts s k = Some v \<Longrightarrow> deloptM k s = (Ret (), s\<lparr>opts := (opts s)(k := None)\<rparr>)"
  "opts s k = None \<Longrightarrow> deloptM k s = (Raise (KeyError k), s)"
  by (simp_all add: deloptM_def)

lemma sleepM_step [run_simps]:
  "0 \<le> t \<Longrightarrow> sleepM t s = (Ret (), s\<lparr>clock := clock s + t\<rparr>)"
  "t < 0 \<Longrightarrow> sleepM t s = (Raise (ValueError ''sleep length must be non-negative''), s)"
  by (simp_all add: sleepM_def)

subsection \<open>When a program returns, and when it exits\<close>

lemma bindM_Ret [ret_iff]:
  "bindM m f s = (Ret y, s') \<longleftrightarrow> (\<exists>x s1. m s = (Ret x, s1) \<and> f x s1 = (Ret y, s'))"
  by (auto simp: bindM_def split: prod.splits outcome.splits)

lemma tryM_Ret [ret_iff]:
  "tryM m h s = (Ret y, s') \<longleftrightarrow>
     m s = (Ret y, s') \<or> (\<exists>e n s1. m s = (Raise e, s1) \<and> h e = Some n \<and> n s1 = (Ret y, s'))"
  by (auto simp: tryM_def split: prod.splits outcome.splits option.splits)

lemma prims_Ret [ret_iff]:
  "retM x s = (Ret y, s') \<longleftrightarrow> y = x \<and> s' = s"
  "raiseM e s = (Ret y, s') \<longleftrightarrow> False"
  "exitM c s = (Ret y, s') \<longleftrightarrow> False"
  "runningM s = (Ret y, s') \<longleftrightarrow> False"
  "getM f s = (Ret y, s') \<longleftrightarrow> y = f s \<and> s' = s"
  "modM g s = (Ret u, s') \<longleftrightarrow> s' = g s"
  "liftM r s = (Ret y, s') \<longleftrightarrow> r = Ret y \<and> s' = s"
  "hasoptM k s = (Ret b, s') \<longleftrightarrow> b = (opts s k \<noteq> None) \<and> s' = s"
  "setoptM k v s = (Ret u, s') \<longleftrightarrow> s' = s\<lparr>opts := (opts s)(k \<mapsto> v)\<rparr>"
  "printM t s = (Ret u, s') \<longleftrightarrow> s' = s\<lparr>outp := outp s @ [t]\<rparr>"
  "logM t s = (Ret u, s') \<longleftrightarrow> s' = s\<lparr>errs := errs s @ [t]\<rparr>"
  "optM k s = (Ret v, s') \<longleftrightarrow> opts s k = Some v \<and> s' = s"
  "sleepM d s = (Ret u, s') \<longleftrightarrow> 0 \<le> d \<and> s' = s\<lparr>clock := clock s + d\<rparr>"
  by (auto simp: run_simps optM_def sleepM_def split: option.splits)

lemma deloptM_Ret [ret_iff]:
  "deloptM k s = (Ret u, s') \<longleftrightarrow> opts s k \<noteq> None \<and> s' = s\<lparr>opts := (opts s)(k := None)\<rparr>"
  by (auto simp: deloptM_def split: option.splits)

lemma bindM_Exit [exit_iff]:
  "bindM m f s = (Exit c, s') \<longleftrightarrow>
     m s = (Exit c, s') \<or> (\<exists>x s1. m s = (Ret x, s1) \<and> f x s1 = (Exit c, s'))"
  by (auto simp: bindM_def split: prod.splits outcome.splits)

lemma tryM_Exit [exit_iff]:
  "tryM m h s = (Exit c, s') \<longleftrightarrow>
     m s = (Exit c, s') \<or> (\<exists>e n s1. m s = (Raise e, s1) \<and> h e = Some n \<and> n s1 = (Exit c, s'))"
  by (auto simp: tryM_def split: prod.splits outcome.splits option.splits)

lemma prims_Exit [exit_iff]:
  "retM x s = (Exit c, s') \<longleftrightarrow> False"
  "raiseM e s = (Exit c, s') \<longleftrightarrow> False"
  "exitM c' s = (Exit c, s') \<longleftrightarrow> c = c' \<and> s' = s"
  "runningM s = (Exit c, s') \<longleftrightarrow> False"
  "getM f s = (Exit c, s') \<longleftrightarrow> False"
  "modM g s = (Exit c, s') \<longleftrightarrow> False"
  "liftM r s = (Exit c, s') \<longleftrightarrow> r = Exit c \<and> s' = s"
  "hasoptM k s = (Exit c, s') \<longleftrightarrow> False"
  "setoptM k v s = (Exit c, s') \<longleftrightarrow> False"
  "printM t s = (Exit c, s') \<longleftrightarrow> False"
  "logM t s = (Exit c, s') \<longleftrightarrow> False"
  "optM k s = (Exit c, s') \<longleftrightarrow> False"
  "deloptM k s = (Exit c, s') \<longleftrightarrow> False"
  "sleepM d s = (Exit c, s') \<longleftrightarrow> False"
  by (auto simp: run_simps optM_def deloptM_def sleepM_def split: option.splits)

lemma bindM_Running [running_iff]:
  "bindM m f s = (Running, s') \<longleftrightarrow>
     m s = (Running, s') \<or> (\<exists>x s1. m s = (Ret x, s1) \<and> f x s1 = (Running, s'))"
  by (auto simp: bindM_def split: prod.splits outcome.splits)

lemma tryM_Running [running_iff]:
  "tryM m h s = (Running, s') \<longleftrightarrow>
     m s = (Running, s') \<or> (\<exists>e n s1. m s = (Raise e, s1) \<and> h e = Some n \<and> n s1 = (Running, s'))"
  by (auto simp: tryM_def split: prod.splits outcome.splits option.splits)

lemma prims_Running [running_iff]:
  "retM x s = (Running, s') \<longleftrightarrow> False"
  "raiseM e s = (Running, s') \<longleftrightarrow> False"
  "exitM c s = (Running, s') \<longleftrightarrow> False"
  "runningM s = (Running, s') \<longleftrightarrow> s' = s"
  "getM f s = (Running, s') \<longleftrightarrow> False"
  "modM g s = (Running, s') \<longleftrightarrow> False"
  "liftM r s = (Running, s') \<longleftrightarrow> r = Running \<and> s' = s"
  "hasoptM k s = (Running, s') \<longleftrightarrow> False"
  "setoptM k v s = (Running, s') \<longleftrightarrow> False"
  "printM t s = (Running, s') \<longleftrightarrow> False"
  "logM t s = (Running, s') \<longleftrightarrow> False"
  "optM k s = (Running, s') \<longleftrightarrow> False"
  "deloptM k s = (Running, s') \<longleftrightarrow> False"
  "sleepM d s = (Running, s') \<longleftrightarrow> False"
  by (auto simp: run_simps optM_def deloptM_def sleepM_def split: option.splits)

subsection \<open>What a program leaves unchanged\<close>

definition keeps :: "('w st \<Rightarrow> 'b) \<Rightarrow> ('w, 'a) prog \<Rightarrow> bool" where
  \<comment> \<open>when \<open>m\<close> returns, the view \<open>f\<close> of the state is what it was\<close>
  "keeps f m \<longleftrightarrow> (\<forall>s r s'. m s = (Ret r, s') \<longrightarrow> f s' = f s)"

lemma keepsD: "keeps f m \<Longrightarrow> m s = (Ret r, s') \<Longrightarrow> f s' = f s"
  by (simp add: keeps_def)

lemma keeps_bindM [keeps_intro]:
  "keeps f m \<Longrightarrow> (\<And>x. keeps f (n x)) \<Longrightarrow> keeps f (bindM m n)"
  unfolding keeps_def ret_iff by metis

lemma keeps_pure [keeps_intro]:
  "keeps f (retM x)" "keeps f (raiseM e)" "keeps f (exitM c)" "keeps f runningM"
  "keeps f (getM g)" "keeps f (liftM r)" "keeps f (hasoptM k)" "keeps f (optM k)"
  by (simp_all add: keeps_def ret_iff)

lemma keeps_setoptM [keeps_intro]:
  "k \<noteq> j \<Longrightarrow> keeps (\<lambda>s. opts s j) (setoptM k v)" "keeps world (setoptM k v)"
  "keeps outp (setoptM k v)"
  by (simp_all add: keeps_def ret_iff)

lemma keeps_deloptM [keeps_intro]:
  "k \<noteq> j \<Longrightarrow> keeps (\<lambda>s. opts s j) (deloptM k)" "keeps world (deloptM k)"
  by (simp_all add: keeps_def ret_iff)

lemma keeps_print_log [keeps_intro]:
  "keeps opts (printM t)" "keeps opts (logM t)" "keeps world (printM t)" "keeps world (logM t)"
  "keeps (\<lambda>s. opts s j) (printM t)" "keeps (\<lambda>s. opts s j) (logM t)"
  "keeps opts (sleepM d)" "keeps world (sleepM d)" "keeps (\<lambda>s. opts s j) (sleepM d)"
  by (simp_all add: keeps_def ret_iff)

lemma keeps_if [keeps_intro]:
  "(b \<Longrightarrow> keeps f m) \<Longrightarrow> (\<not> b \<Longrightarrow> keeps f n) \<Longrightarrow> keeps f (if b then m else n)"
  by simp

lemma keeps_cases [keeps_intro]:
  "keeps f m \<Longrightarrow> (\<And>x. keeps f (n x)) \<Longrightarrow> keeps f (case v of None \<Rightarrow> m | Some x \<Rightarrow> n x)"
  "(\<And>x y. keeps f (g x y)) \<Longrightarrow> keeps f (case p of (x, y) \<Rightarrow> g x y)"
  by (auto split: option.splits prod.splits)

lemma keeps_list_case [keeps_intro]:
  "keeps f a \<Longrightarrow> (\<And>x xs. keeps f (b x xs)) \<Longrightarrow> keeps f (case l of [] \<Rightarrow> a | x # xs \<Rightarrow> b x xs)"
  by (auto split: list.splits)

lemma keeps_Let [keeps_intro]: "(\<And>x. keeps f (g x)) \<Longrightarrow> keeps f (Let v g)"
  by (simp add: Let_def)

lemma keeps_pyval [keeps_intro]:
  "keeps f a \<Longrightarrow> (\<And>n. keeps f (b n)) \<Longrightarrow> (\<And>t. keeps f (c t)) \<Longrightarrow> (\<And>l. keeps f (d l)) \<Longrightarrow>
     keeps f (case v of PNone \<Rightarrow> a | PInt n \<Rightarrow> b n | PStr t \<Rightarrow> c t | PList l \<Rightarrow> d l)"
  by (auto split: pyval.splits)

lemma keeps_forM [keeps_intro]: "(\<And>x. keeps f (g x)) \<Longrightarrow> keeps f (forM xs g)"
  by (induction xs) (auto intro!: keeps_intro)

lemma keeps_foldM [keeps_intro]: "(\<And>b x. keeps f (g b x)) \<Longrightarrow> keeps f (foldM g b xs)"
  by (induction xs arbitrary: b) (auto intro!: keeps_intro)

lemma keeps_opts_at: "keeps opts m \<Longrightarrow> keeps (\<lambda>s. opts s j) m"
  by (simp add: keeps_def)

section \<open>Lists\<close>

lemma count_list_pos [simp]: "0 < count_list xs x \<longleftrightarrow> x \<in> set xs"
  by (induction xs) auto

end
