(* ===== verification/Py_String.thy ===== *)
theory Py_String
  imports Prelude
begin

text \<open>
  The operations of Python's \<open>str\<close>, \<open>int\<close> and \<open>uuid\<close> that the sources call, on ASCII
  text: a \<open>char\<close> stands for one code point below 128. Conversions that raise ValueError
  answer \<open>None\<close> here and are raised by the callers.
\<close>

section \<open>Case, blanks, prefixes\<close>

definition upper_letter :: "char \<Rightarrow> bool" where
  "upper_letter c \<longleftrightarrow> CHR ''A'' \<le> c \<and> c \<le> CHR ''Z''"

definition lower_letter :: "char \<Rightarrow> bool" where
  "lower_letter c \<longleftrightarrow> CHR ''a'' \<le> c \<and> c \<le> CHR ''z''"

text \<open>The two cases of an ASCII letter differ in bit 5.\<close>

definition lower_char :: "char \<Rightarrow> char" where
  "lower_char c = (if upper_letter c
     then Char (digit0 c) (digit1 c) (digit2 c) (digit3 c) (digit4 c) True (digit6 c) (digit7 c)
     else c)"

definition upper_char :: "char \<Rightarrow> char" where
  "upper_char c = (if lower_letter c
     then Char (digit0 c) (digit1 c) (digit2 c) (digit3 c) (digit4 c) False (digit6 c) (digit7 c)
     else c)"

definition py_lower :: "string \<Rightarrow> string" where
  "py_lower s = map lower_char s"

definition py_upper :: "string \<Rightarrow> string" where
  "py_upper s = map upper_char s"

definition is_space :: "char \<Rightarrow> bool" where
  \<comment> \<open>TAB, LF, VT, FF, CR, the separators FS, GS, RS, US, and the blank\<close>
  "is_space c \<longleftrightarrow> c \<in> {CHR 0x09, CHR 0x0A, CHR 0x0B, CHR 0x0C, CHR 0x0D,
                        CHR 0x1C, CHR 0x1D, CHR 0x1E, CHR 0x1F, CHR '' ''}"

definition strip_by :: "(char \<Rightarrow> bool) \<Rightarrow> string \<Rightarrow> string" where
  "strip_by P s = rev (dropWhile P (rev (dropWhile P s)))"

definition rstrip_by :: "(char \<Rightarrow> bool) \<Rightarrow> string \<Rightarrow> string" where
  "rstrip_by P s = rev (dropWhile P (rev s))"

abbreviation py_strip :: "string \<Rightarrow> string" where
  "py_strip s \<equiv> strip_by is_space s"

abbreviation py_rstrip :: "string \<Rightarrow> string" where
  "py_rstrip s \<equiv> rstrip_by is_space s"

definition py_startswith :: "string \<Rightarrow> string \<Rightarrow> bool" where
  "py_startswith p s \<longleftrightarrow> take (length p) s = p"

definition py_endswith :: "string \<Rightarrow> string \<Rightarrow> bool" where
  "py_endswith p s \<longleftrightarrow> py_startswith (rev p) (rev s)"

section \<open>Searching, splitting, joining, replacing\<close>

fun py_find :: "string \<Rightarrow> string \<Rightarrow> nat option" where
  "py_find p [] = (if p = [] then Some 0 else None)"
| "py_find p (c # cs) =
     (if py_startswith p (c # cs) then Some 0 else map_option Suc (py_find p cs))"

definition py_in :: "string \<Rightarrow> string \<Rightarrow> bool" where
  "py_in p s \<longleftrightarrow> py_find p s \<noteq> None"

lemma py_find_bound: "py_find p s = Some i \<Longrightarrow> i + length p \<le> length s"
proof (induction p s arbitrary: i rule: py_find.induct)
  case (1 p)
  then show ?case by (simp split: if_splits)
next
  case (2 p c cs)
  then show ?case
    by (auto simp: py_startswith_def split: if_splits) (metis length_Cons length_take min.cobounded1)
qed

lemma py_find_shorter:
  "p \<noteq> [] \<Longrightarrow> py_find p s = Some i \<Longrightarrow> length s - (i + length p) < length s"
  using py_find_bound [of p s i] by (cases p) auto

text \<open>\<open>s.split(sep)\<close> for a non-empty separator (an empty one raises ValueError).\<close>

function py_split :: "string \<Rightarrow> string \<Rightarrow> string list" where
  "py_split sep s = (if sep = [] then [s] else
     (case py_find sep s of
        None \<Rightarrow> [s]
      | Some i \<Rightarrow> take i s # py_split sep (drop (i + length sep) s)))"
  by pat_completeness auto

termination
  by (relation "measure (\<lambda>(sep, s). length s)") (auto simp: py_find_shorter)

declare py_split.simps [simp del]

fun py_join :: "string \<Rightarrow> string list \<Rightarrow> string" where
  "py_join sep [] = []"
| "py_join sep [x] = x"
| "py_join sep (x # y # zs) = x @ sep @ py_join sep (y # zs)"

definition py_replace :: "string \<Rightarrow> string \<Rightarrow> string \<Rightarrow> string" where
  \<comment> \<open>\<open>s.replace(a, b)\<close>, a non-empty\<close>
  "py_replace a b s = py_join b (py_split a s)"

definition py_split1 :: "string \<Rightarrow> string \<Rightarrow> string \<times> string" where
  \<comment> \<open>\<open>s.partition(sep)[::2]\<close>: what is before and after the first separator\<close>
  "py_split1 sep s = (case py_find sep s of
      None \<Rightarrow> (s, [])
    | Some i \<Rightarrow> (take i s, drop (i + length sep) s))"

lemma py_find_split: "py_find p s = Some i \<Longrightarrow> s = take i s @ p @ drop (i + length p) s"
proof (induction p s arbitrary: i rule: py_find.induct)
  case (1 p)
  then show ?case by (simp split: if_splits)
next
  case (2 p c cs)
  show ?case
  proof (cases "py_startswith p (c # cs)")
    case True
    with "2.prems" show ?thesis by (simp add: py_startswith_def) (metis append_take_drop_id)
  next
    case False
    with "2.prems" obtain j where j: "py_find p cs = Some j" "i = Suc j" by auto
    with "2.IH" [OF False] have "cs = take j cs @ p @ drop (j + length p) cs" by simp
    with j show ?thesis by simp
  qed
qed

lemma py_split_ne [simp]: "py_split sep s \<noteq> []"
  by (subst py_split.simps) (auto split: option.splits)

lemma py_join_Cons: "xs \<noteq> [] \<Longrightarrow> py_join sep (x # xs) = x @ sep @ py_join sep xs"
  by (cases xs) auto

text \<open>Splitting loses nothing: joining the fields with the separator gives the text back.\<close>

lemma py_join_split: "py_join sep (py_split sep s) = s"
proof (induction sep s rule: py_split.induct)
  case (1 sep s)
  show ?case
  proof (cases "sep = [] \<or> py_find sep s = None")
    case True
    then show ?thesis by (subst py_split.simps) auto
  next
    case False
    then obtain i where i: "sep \<noteq> []" "py_find sep s = Some i" by auto
    then have "py_join sep (py_split sep (drop (i + length sep) s)) = drop (i + length sep) s"
      using "1.IH" by blast
    with i show ?thesis
      by (subst py_split.simps) (simp add: py_join_Cons py_find_split [OF i(2), symmetric])
  qed
qed

lemma py_find_sing: "py_find [c] s = None \<longleftrightarrow> c \<notin> set s"
  by (induction "[c]" s rule: py_find.induct) (auto simp: py_startswith_def)

lemma py_split_no_sep:
  "sep \<noteq> [] \<Longrightarrow> py_find sep s = None \<Longrightarrow> py_split sep s = [s]"
  by (subst py_split.simps) simp

section \<open>Numbers\<close>

fun digit_val :: "char \<Rightarrow> int option" where
  "digit_val c =
     (let n = of_char c :: int in
      if 48 \<le> n \<and> n \<le> 57 then Some (n - 48)
      else if 97 \<le> n \<and> n \<le> 122 then Some (n - 87)
      else if 65 \<le> n \<and> n \<le> 90 then Some (n - 55)
      else None)"

text \<open>Digits in base \<open>b\<close>; single underscores may stand between digits.\<close>

fun digits_val :: "int \<Rightarrow> int \<Rightarrow> bool \<Rightarrow> string \<Rightarrow> int option" where
  "digits_val b acc prev [] = (if prev then Some acc else None)"
| "digits_val b acc prev (c # cs) =
     (if c = CHR ''_'' then (if prev then digits_val b acc False cs else None)
      else (case digit_val c of
          None \<Rightarrow> None
        | Some d \<Rightarrow> if d < b then digits_val b (acc * b + d) True cs else None))"

definition drop_hex_prefix :: "string \<Rightarrow> string" where
  "drop_hex_prefix s =
     (if py_startswith ''0x'' s \<or> py_startswith ''0X'' s
      then (let r = drop 2 s in if py_startswith ''_'' r then drop 1 r else r)
      else s)"

definition py_int_base :: "int \<Rightarrow> string \<Rightarrow> int option" where
  "py_int_base b s =
     (let t = py_strip s;
          (neg, u) = (if py_startswith ''-'' t then (True, drop 1 t)
                      else if py_startswith ''+'' t then (False, drop 1 t) else (False, t));
          v = (if b = 16 then drop_hex_prefix u else u)
      in map_option (\<lambda>n. if neg then - n else n) (digits_val b 0 False v))"

definition py_int_str :: "string \<Rightarrow> int option" where
  "py_int_str s = py_int_base 10 s"

definition py_int :: "pyval \<Rightarrow> int outcome" where
  \<comment> \<open>\<open>int(v)\<close>\<close>
  "py_int v = (case v of
      PInt n \<Rightarrow> Ret n
    | PStr s \<Rightarrow> (case py_int_str s of None \<Rightarrow> Raise (ValueError s) | Some n \<Rightarrow> Ret n)
    | _ \<Rightarrow> Raise (TypeError ''int() argument''))"

definition intoptM :: "string \<Rightarrow> ('w, int) prog" where
  \<comment> \<open>\<open>int(options[k])\<close>\<close>
  "intoptM k = bindM (optM k) (\<lambda>v. liftM (py_int v))"

definition int_opt :: "pydict \<Rightarrow> string \<Rightarrow> int option" where
  "int_opt d k = (case d k of
      None \<Rightarrow> None
    | Some v \<Rightarrow> (case py_int v of Ret n \<Rightarrow> Some n | _ \<Rightarrow> None))"

lemma intoptM_Ret [ret_iff]:
  "intoptM k s = (Ret n, s') \<longleftrightarrow> int_opt (opts s) k = Some n \<and> s' = s"
  by (auto simp: intoptM_def ret_iff int_opt_def split: option.splits outcome.splits)

lemma intoptM_run [run_simps]:
  "int_opt (opts s) k = Some n \<Longrightarrow> intoptM k s = (Ret n, s)"
  "int_opt (opts s) k = Some n \<Longrightarrow> bindM (intoptM k) f s = f n s"
  by (simp_all add: intoptM_Ret bindM_step(1))

lemma py_int_not_Exit [simp]: "py_int v \<noteq> Exit c" "py_int v \<noteq> Running"
  by (auto simp: py_int_def split: pyval.splits option.splits)

lemma intoptM_Exit [exit_iff]: "intoptM k s = (Exit c, s') \<longleftrightarrow> False"
  by (auto simp: intoptM_def exit_iff)

lemma intoptM_Running [running_iff]: "intoptM k s = (Running, s') \<longleftrightarrow> False"
  by (auto simp: intoptM_def running_iff)

lemma int_opt_upd [simp]:
  "j \<noteq> k \<Longrightarrow> int_opt (d(j \<mapsto> v)) k = int_opt d k"
  "j \<noteq> k \<Longrightarrow> int_opt (d(j := None)) k = int_opt d k"
  by (simp_all add: int_opt_def)

definition exponent :: "string \<Rightarrow> (string \<times> int) option" where
  "exponent t = (case dropWhile (\<lambda>c. c \<notin> {CHR ''e'', CHR ''E''}) t of
      [] \<Rightarrow> Some (t, 0)
    | _ # e \<Rightarrow> if e = py_strip e then
        map_option (\<lambda>n. (takeWhile (\<lambda>c. c \<notin> {CHR ''e'', CHR ''E''}) t, n)) (py_int_str e) else None)"

definition decimal :: "string \<Rightarrow> rat option" where
  \<comment> \<open>digits with at most one point\<close>
  "decimal t = (let (a, b) = py_split1 ''.'' t in
     map_option (\<lambda>n. of_int n / 10 ^ length b) (digits_val 10 0 False (a @ b)))"

definition py_float :: "string \<Rightarrow> rat option" where
  \<comment> \<open>\<open>float(text)\<close> for decimal notation with an optional exponent (no nan or infinity, and no underscores)\<close>
  "py_float s =
     (let t = py_strip s;
          (neg, u) = (if py_startswith ''-'' t then (True, drop 1 t)
                      else if py_startswith ''+'' t then (False, drop 1 t) else (False, t))
      in if CHR ''_'' \<in> set u then None else
         (case exponent u of
            None \<Rightarrow> None
          | Some (m, e) \<Rightarrow> map_option (\<lambda>x. (if neg then - x else x) *
              (if e \<ge> 0 then 10 ^ nat e else 1 / 10 ^ nat (- e))) (decimal m)))"

definition py_float_val :: "pyval \<Rightarrow> rat outcome" where
  \<comment> \<open>\<open>float(v)\<close>\<close>
  "py_float_val v = (case v of
      PInt n \<Rightarrow> Ret (of_int n)
    | PStr t \<Rightarrow> (case py_float t of None \<Rightarrow> Raise (ValueError t) | Some x \<Rightarrow> Ret x)
    | _ \<Rightarrow> Raise (TypeError ''float() argument''))"

section \<open>UUIDs\<close>

definition hex_digit :: "nat \<Rightarrow> char" where
  "hex_digit n = ''0123456789abcdef'' ! n"

fun hex_of :: "nat \<Rightarrow> int \<Rightarrow> string" where
  "hex_of 0 n = []"
| "hex_of (Suc w) n = hex_of w (n div 16) @ [hex_digit (nat (n mod 16))]"

definition py_uuid :: "string \<Rightarrow> string option" where
  \<comment> \<open>\<open>str(uuid.UUID(s))\<close>; \<open>None\<close> for ValueError\<close>
  "py_uuid s =
     (let h = py_replace ''-'' [] (strip_by (\<lambda>c. c \<in> set ''{}'')
                (py_replace ''uuid:'' [] (py_replace ''urn:'' [] s)))
      in if length h \<noteq> 32 then None
         else (case py_int_base 16 h of
             None \<Rightarrow> None
           | Some n \<Rightarrow> if 0 \<le> n \<and> n < 2 ^ 128
               then (let x = hex_of 32 n in
                 Some (take 8 x @ ''-'' @ take 4 (drop 8 x) @ ''-'' @ take 4 (drop 12 x)
                       @ ''-'' @ take 4 (drop 16 x) @ ''-'' @ drop 20 x))
               else None))"

section \<open>Printing numbers\<close>

text \<open>\<open>str(n)\<close> and \<open>%d\<close>.\<close>

fun show_nat :: "nat \<Rightarrow> string" where
  "show_nat n = (if n < 10 then [hex_digit n] else show_nat (n div 10) @ [hex_digit (n mod 10)])"

declare show_nat.simps [simp del]

definition show_int :: "int \<Rightarrow> string" where
  "show_int n = (if n < 0 then ''-'' @ show_nat (nat (- n)) else show_nat (nat n))"

lemma hex_digit_less_10:
  "n < 10 \<Longrightarrow> digit_val (hex_digit n) = Some (int n) \<and> hex_digit n \<noteq> CHR ''_'' \<and> \<not> is_space (hex_digit n)
     \<and> hex_digit n \<noteq> CHR ''-'' \<and> hex_digit n \<noteq> CHR ''+''"
proof -
  have "\<forall>n\<in>{..<10}. digit_val (hex_digit n) = Some (int n) \<and> hex_digit n \<noteq> CHR ''_'' \<and> \<not> is_space (hex_digit n)
     \<and> hex_digit n \<noteq> CHR ''-'' \<and> hex_digit n \<noteq> CHR ''+''"
    by code_simp
  then show "n < 10 \<Longrightarrow> ?thesis" by blast
qed

lemma digits_val_append:
  "digits_val b acc p xs = Some n \<Longrightarrow> digits_val b acc p (xs @ ys) = digits_val b n True ys"
proof (induction xs arbitrary: acc p)
  case (Cons c cs)
  then show ?case by (auto split: if_splits option.splits simp del: digit_val.simps)
qed (simp split: if_splits)

lemma show_nat_ne [simp]: "show_nat n \<noteq> []"
  by (subst show_nat.simps) simp

lemma show_nat_chars: "c \<in> set (show_nat n) \<Longrightarrow> \<exists>d<10. c = hex_digit d"
proof (induction n rule: show_nat.induct)
  case (1 n)
  have "\<exists>d<10. hex_digit (n mod 10) = hex_digit d" by (rule exI [of _ "n mod 10"]) simp
  with 1 show ?case by (subst (asm) (2) show_nat.simps) (auto split: if_splits)
qed

lemma show_nat_val: "digits_val 10 0 False (show_nat n) = Some (int n)"
proof (induction n rule: show_nat.induct)
  case (1 n)
  show ?case
  proof (cases "n < 10")
    case True
    with hex_digit_less_10 [OF True] show ?thesis by (subst show_nat.simps) simp
  next
    case False
    have "n mod 10 < 10" by simp
    note d = hex_digit_less_10 [OF this]
    have "digits_val 10 0 False (show_nat (n div 10) @ [hex_digit (n mod 10)]) = Some (int n)"
      using d by (simp add: digits_val_append [OF "1.IH" [OF False]] zdiv_int zmod_int del: digit_val.simps)
    with False show ?thesis by (subst show_nat.simps) simp
  qed
qed

lemma strip_by_id:
  assumes "\<forall>c\<in>set s. \<not> P c" shows "strip_by P s = s"
proof -
  have id: "\<forall>c\<in>set t. \<not> P c \<Longrightarrow> dropWhile P t = t" for t by (cases t) auto
  show ?thesis using id [of s] id [of "rev s"] assms by (simp add: strip_by_def)
qed

lemma show_nat_char_facts:
  "c \<in> set (show_nat n) \<Longrightarrow> \<not> is_space c \<and> c \<noteq> CHR ''-'' \<and> c \<noteq> CHR ''+'' \<and> c \<noteq> CHR ''_''"
  using show_nat_chars [of c n] by (auto dest: hex_digit_less_10)

text \<open>\<open>int(str(n)) == n\<close>.\<close>

lemma py_int_show: "py_int_str (show_int n) = Some n"
proof (cases "n < 0")
  case True
  have "\<forall>c\<in>set (CHR ''-'' # show_nat (nat (- n))). \<not> is_space c"
    using show_nat_char_facts by (auto simp: is_space_def)
  then have "py_strip (show_int n) = show_int n" using True by (intro strip_by_id) (simp add: show_int_def)
  with True show_nat_val [of "nat (- n)"] show ?thesis
    by (simp add: py_int_str_def py_int_base_def show_int_def py_startswith_def)
next
  case False
  have "\<forall>c\<in>set (show_nat (nat n)). \<not> is_space c" using show_nat_char_facts by blast
  then have strip: "py_strip (show_int n) = show_int n" using False by (intro strip_by_id) (simp add: show_int_def)
  obtain c cs where c: "show_nat (nat n) = c # cs" by (cases "show_nat (nat n)") simp_all
  then have "c \<noteq> CHR ''-''" "c \<noteq> CHR ''+''" using show_nat_char_facts [of c "nat n"] by simp_all
  with strip c False show_nat_val [of "nat n"] show ?thesis
    by (simp add: py_int_str_def py_int_base_def show_int_def py_startswith_def)
qed

definition py_str :: "pyval \<Rightarrow> string" where
  \<comment> \<open>\<open>str(v)\<close>\<close>
  "py_str v = (case v of
      PNone \<Rightarrow> ''None''
    | PInt n \<Rightarrow> show_int n
    | PStr t \<Rightarrow> t
    | PList l \<Rightarrow> ''['' @ py_join '', '' (map (\<lambda>t. [CHR 0x27] @ t @ [CHR 0x27]) l) @ '']'')"

definition basename :: "string \<Rightarrow> string" where
  \<comment> \<open>\<open>os.path.basename\<close>\<close>
  "basename p = rev (takeWhile (\<lambda>c. c \<noteq> CHR ''/'') (rev p))"

section \<open>Lines and words\<close>

definition is_linebreak :: "char \<Rightarrow> bool" where
  "is_linebreak c \<longleftrightarrow> c \<in> {CHR 0x0A, CHR 0x0B, CHR 0x0C, CHR 0x0D, CHR 0x1C, CHR 0x1D, CHR 0x1E}"

fun splitlines :: "string \<Rightarrow> string \<Rightarrow> string list" where
  \<comment> \<open>with the line read so far; CR LF is one line break\<close>
  "splitlines line [] = (if line = [] then [] else [line])"
| "splitlines line [c] = (if is_linebreak c then [line] else [line @ [c]])"
| "splitlines line (c # d # cs) =
     (if c = CHR 0x0D \<and> d = CHR 0x0A then line # splitlines [] cs
      else if is_linebreak c then line # splitlines [] (d # cs)
      else splitlines (line @ [c]) (d # cs))"

definition py_splitlines :: "string \<Rightarrow> string list" where
  \<comment> \<open>\<open>s.splitlines()\<close>\<close>
  "py_splitlines s = splitlines [] s"

definition py_split_once :: "string \<Rightarrow> string list" where
  \<comment> \<open>\<open>s.split(None, 1)\<close>\<close>
  "py_split_once s =
     (let t = dropWhile is_space s; w = takeWhile (\<lambda>c. \<not> is_space c) t;
          r = dropWhile is_space (dropWhile (\<lambda>c. \<not> is_space c) t)
      in if w = [] then [] else if r = [] then [w] else [w, r])"

function py_words :: "string \<Rightarrow> string list" where
  \<comment> \<open>\<open>s.split()\<close>\<close>
  "py_words s = (let t = dropWhile is_space s in
     if t = [] then []
     else takeWhile (\<lambda>c. \<not> is_space c) t # py_words (dropWhile (\<lambda>c. \<not> is_space c) t))"
  by pat_completeness auto
termination
proof (relation "measure length")
  fix s t assume t: "t = dropWhile is_space s" "t \<noteq> []"
  then have "\<not> is_space (hd t)" by (simp add: hd_dropWhile)
  with t(2) have "length (dropWhile (\<lambda>c. \<not> is_space c) t) < length t"
    by (cases t) (auto simp: less_Suc_eq_le length_dropWhile_le)
  also have "\<dots> \<le> length s" using t by (simp add: length_dropWhile_le)
  finally show "(dropWhile (\<lambda>c. \<not> is_space c) t, s) \<in> measure length" by simp
qed simp

declare py_words.simps [simp del]

definition py_isdigit :: "string \<Rightarrow> bool" where
  \<comment> \<open>\<open>s.isdigit()\<close>\<close>
  "py_isdigit s \<longleftrightarrow> s \<noteq> [] \<and> (\<forall>c\<in>set s. CHR ''0'' \<le> c \<and> c \<le> CHR ''9'')"

section \<open>Separators of one character\<close>

lemma py_find_sing_Cons:
  "py_find [c] (x # xs) = (if x = c then Some 0 else map_option Suc (py_find [c] xs))"
  by (simp add: py_startswith_def)

lemma py_split_sing:
  "py_split [c] [] = [[]]"
  "py_split [c] (x # xs) =
     (if x = c then [] # py_split [c] xs else (x # hd (py_split [c] xs)) # tl (py_split [c] xs))"
proof -
  show "py_split [c] [] = [[]]" by (subst py_split.simps) simp
  show "py_split [c] (x # xs) =
     (if x = c then [] # py_split [c] xs else (x # hd (py_split [c] xs)) # tl (py_split [c] xs))"
  proof (cases "x = c")
    case True
    then show ?thesis by (subst py_split.simps) (simp add: py_find_sing_Cons del: py_find.simps)
  next
    case False
    then show ?thesis
      by (subst (1 2 3) py_split.simps) (simp add: py_find_sing_Cons del: py_find.simps split: option.splits)
  qed
qed

lemma py_join_hd: "xs \<noteq> [] \<Longrightarrow> py_join sep ((c # hd xs) # tl xs) = c # py_join sep xs"
  by (cases xs; cases "tl xs") auto

text \<open>Replacing one character acts on every character alone.\<close>

lemma py_replace_sing: "py_replace [c] b s = concat (map (\<lambda>x. if x = c then b else [x]) s)"
proof (induction s)
  case Nil
  then show ?case by (simp add: py_replace_def py_split_sing)
next
  case (Cons x xs)
  then show ?case by (simp add: py_replace_def py_split_sing py_join_Cons py_join_hd)
qed

section \<open>The representation of a text\<close>

definition hex_byte :: "char \<Rightarrow> string" where
  "hex_byte c = (let n = (of_char c :: nat) in [hex_digit (n div 16), hex_digit (n mod 16)])"

definition repr_char :: "char \<Rightarrow> char \<Rightarrow> string" where
  \<comment> \<open>\<open>q\<close> is the quote that surrounds the text\<close>
  "repr_char q c =
     (if c = q \<or> c = CHR 0x5C then [CHR 0x5C, c]
      else if c = CHR 0x09 then [CHR 0x5C, CHR ''t'']
      else if c = CHR 0x0A then [CHR 0x5C, CHR ''n'']
      else if c = CHR 0x0D then [CHR 0x5C, CHR ''r'']
      else if (of_char c :: nat) < 32 \<or> (of_char c :: nat) \<in> {127..160} \<or> (of_char c :: nat) = 173 then [CHR 0x5C, CHR ''x''] @ hex_byte c
      else [c])"

definition py_repr :: "string \<Rightarrow> string" where
  "py_repr t = (let q = (if CHR 0x27 \<in> set t \<and> CHR 0x22 \<notin> set t then CHR 0x22 else CHR 0x27)
     in [q] @ concat (map (repr_char q) t) @ [q])"

definition exn_text :: "exn \<Rightarrow> string" where
  \<comment> \<open>\<open>str(e)\<close>; the texts of the pexpect exceptions EOF and TIMEOUT are left out\<close>
  "exn_text e = (case e of
      KeyError k \<Rightarrow> py_repr k
    | ValueError m \<Rightarrow> m | TypeError m \<Rightarrow> m | AttributeError m \<Rightarrow> m | IndexError m \<Rightarrow> m | OSErr m \<Rightarrow> m
    | PexpectError m \<Rightarrow> m | PycurlError m \<Rightarrow> m | SocketTimeout m \<Rightarrow> m | OtherError m \<Rightarrow> m | ClassError c m \<Rightarrow> m
    | PexpectEOF \<Rightarrow> [] | PexpectTIMEOUT \<Rightarrow> [])"

section \<open>Paths\<close>

definition dirname :: "string \<Rightarrow> string" where
  "dirname p = (let head = rev (dropWhile (\<lambda>c. c \<noteq> CHR ''/'') (rev p)) in
     if \<forall>c\<in>set head. c = CHR ''/'' then head else rstrip_by (\<lambda>c. c = CHR ''/'') head)"

definition path_join :: "string \<Rightarrow> string \<Rightarrow> string" where
  \<comment> \<open>\<open>os.path.join\<close>\<close>
  "path_join a b = (if py_startswith ''/'' b then b else if a = [] \<or> last a = CHR ''/'' then a @ b else a @ ''/'' @ b)"

end
