(* ===== verification/Multi_Power.thy ===== *)
theory Multi_Power
  imports Py_String
begin

text \<open>
  \<open>lib/fencing.py.py\<close>: exit codes, \<open>fail\<close>, \<open>fail_usage\<close>, and the functions that drive
  the callbacks of an agent over its plugs: \<open>get_multi_power_fn\<close>,
  \<open>async_set_multi_power_fn\<close>, \<open>sync_set_multi_power_fn\<close>, \<open>set_multi_power_fn\<close>,
  \<open>multi_reboot_cycle_fn\<close>. The connection object is part of the world. A callback is a
  program of its own: it may change the options dictionary and the world, raise or exit.
  The status a callback answers is a text or Python's None (\<open>string option\<close>).
\<close>

section \<open>Exit codes and failures\<close>

definition EC_OK :: int where "EC_OK = 0"
definition EC_GENERIC_ERROR :: int where "EC_GENERIC_ERROR = 1"
definition EC_BAD_ARGS :: int where "EC_BAD_ARGS = 2"
definition EC_LOGIN_DENIED :: int where "EC_LOGIN_DENIED = 3"
definition EC_CONNECTION_LOST :: int where "EC_CONNECTION_LOST = 4"
definition EC_TIMED_OUT :: int where "EC_TIMED_OUT = 5"
definition EC_WAITING_ON :: int where "EC_WAITING_ON = 6"
definition EC_WAITING_OFF :: int where "EC_WAITING_OFF = 7"
definition EC_STATUS :: int where "EC_STATUS = 8"
definition EC_STATUS_HMC :: int where "EC_STATUS_HMC = 9"
definition EC_PASSWORD_MISSING :: int where "EC_PASSWORD_MISSING = 10"
definition EC_INVALID_PRIVILEGES :: int where "EC_INVALID_PRIVILEGES = 11"
definition EC_FETCH_VM_UUID :: int where "EC_FETCH_VM_UUID = 12"

lemmas EC_defs = EC_OK_def EC_GENERIC_ERROR_def EC_BAD_ARGS_def EC_LOGIN_DENIED_def
  EC_CONNECTION_LOST_def EC_TIMED_OUT_def EC_WAITING_ON_def EC_WAITING_OFF_def EC_STATUS_def
  EC_STATUS_HMC_def EC_PASSWORD_MISSING_def EC_INVALID_PRIVILEGES_def EC_FETCH_VM_UUID_def

definition nl :: string where "nl = [CHR 0x0A]"

definition fail_usage :: "string \<Rightarrow> bool \<Rightarrow> ('w, unit) prog" where
  "fail_usage message stop =
     seqM (if length message > 0 then logM (message @ nl) else retM ())
       (if stop then seqM (logM (''Please use '' @ [CHR 0x27] @ ''-h'' @ [CHR 0x27] @ '' for usage'' @ nl))
                          (exitM EC_GENERIC_ERROR)
        else retM ())"

definition fail_message :: "int \<Rightarrow> string option" where
  "fail_message code = map_of
    [(EC_GENERIC_ERROR, ''Failed: Generic error''),
     (EC_LOGIN_DENIED, ''Unable to connect/login to fencing device''),
     (EC_CONNECTION_LOST, ''Connection lost''),
     (EC_TIMED_OUT, ''Connection timed out''),
     (EC_WAITING_ON, ''Failed: Timed out waiting to power ON''),
     (EC_WAITING_OFF, ''Failed: Timed out waiting to power OFF''),
     (EC_STATUS, ''Failed: Unable to obtain correct plug status or plug is not available''),
     (EC_STATUS_HMC, ''Failed: Either unable to obtain correct plug status, partition is not available or incorrect HMC version used''),
     (EC_PASSWORD_MISSING, ''Failed: You have to set login password''),
     (EC_INVALID_PRIVILEGES, ''Failed: The user does not have the correct privileges to do the requested action.''),
     (EC_FETCH_VM_UUID, ''Failed: Can not find VM UUID by its VM name given in the <plug> parameter.'')]
    code"

definition fail :: "int \<Rightarrow> bool \<Rightarrow> ('w, unit) prog" where
  "fail error_code stop = (case fail_message error_code of
      None \<Rightarrow> raiseM (KeyError ''error_code'')
    | Some m \<Rightarrow> seqM (logM (m @ nl @ nl)) (if stop then exitM EC_GENERIC_ERROR else retM ()))"

definition stroptM :: "string \<Rightarrow> ('w, string) prog" where
  \<comment> \<open>an option used as text\<close>
  "stroptM k = bindM (optM k) (\<lambda>v. case v of PStr t \<Rightarrow> retM t | _ \<Rightarrow> raiseM (TypeError k))"

lemma stroptM_Ret [ret_iff]: "stroptM k s = (Ret t, s') \<longleftrightarrow> opts s k = Some (PStr t) \<and> s' = s"
  by (auto simp: stroptM_def optM_def bindM_def retM_def raiseM_def split: option.splits pyval.splits)

lemma stroptM_run [run_simps]:
  "opts s k = Some (PStr t) \<Longrightarrow> stroptM k s = (Ret t, s)"
  "opts s k = Some (PStr t) \<Longrightarrow> bindM (stroptM k) f s = f t s"
  by (simp_all add: stroptM_Ret bindM_step(1))

lemma stroptM_ends [exit_iff, running_iff]:
  "stroptM k s = (Exit c, s') \<longleftrightarrow> False" "stroptM k s = (Running, s') \<longleftrightarrow> False"
  by (auto simp: stroptM_def optM_def bindM_def retM_def raiseM_def split: option.splits pyval.splits)

lemma keeps_stroptM [keeps_intro]: "keeps f (stroptM k)"
  by (auto simp: keeps_def ret_iff)

section \<open>Plugs\<close>

text \<open>
  The block the four loops over plugs share: try to set \<open>--uuid\<close> (a text that is no UUID
  raises ValueError, which is swallowed), then set \<open>--plug\<close>.
\<close>

definition set_plug :: "string \<Rightarrow> ('w, unit) prog" where
  "set_plug plug =
     seqM (case py_uuid plug of None \<Rightarrow> retM () | Some u \<Rightarrow> setoptM ''--uuid'' (PStr u))
          (setoptM ''--plug'' (PStr plug))"

definition plugs_of :: "pydict \<Rightarrow> string list option" where
  \<comment> \<open>\<open>options["--plugs"] if "--plugs" in options else [""]\<close>, as what a for loop walks over\<close>
  "plugs_of d = (case d ''--plugs'' of
      None \<Rightarrow> Some ['''']
    | Some (PList ps) \<Rightarrow> Some ps
    | Some (PStr t) \<Rightarrow> Some (map (\<lambda>c. [c]) t)
    | Some _ \<Rightarrow> None)"

definition plugsM :: "('w, string list) prog" where
  "plugsM s = (case plugs_of (opts s) of
      None \<Rightarrow> (Raise (TypeError ''object is not iterable''), s)
    | Some ps \<Rightarrow> (Ret ps, s))"

definition status_val :: "string option \<Rightarrow> pyval" where
  "status_val r = (case r of None \<Rightarrow> PNone | Some t \<Rightarrow> PStr t)"

section \<open>Reading the status of several plugs\<close>

definition get_multi_power_fn :: "('w, string option) prog \<Rightarrow> ('w, string option) prog" where
  "get_multi_power_fn get_power_fn =
     bindM plugsM (\<lambda>plugs.
       foldM (\<lambda>status plug.
           seqM (set_plug plug)
             (bindM get_power_fn (\<lambda>plug_status.
               retM (if plug_status \<noteq> Some ''off'' then plug_status else status))))
         (Some ''off'') plugs)"

section \<open>Switching several plugs\<close>

definition sleep_opt :: "string \<Rightarrow> ('w, unit) prog" where
  \<comment> \<open>\<open>time.sleep(int(options[k]))\<close>\<close>
  "sleep_opt k = bindM (intoptM k) (\<lambda>t. sleepM (of_int t))"

text \<open>
  The polling loop of \<open>async_set_multi_power_fn\<close>, \<open>for _ in itertools.count(1)\<close>, with
  \<open>i\<close> the loop variable: \<open>True\<close> when the wanted status was read, \<open>False\<close> when the loop
  was left by break. With a power timeout of 0 the loop has no bound, so it runs on fuel.
\<close>

fun poll_status :: "nat \<Rightarrow> int \<Rightarrow> ('w, string option) prog \<Rightarrow> ('w, bool) prog" where
  "poll_status 0 i get_power_fn = runningM"
| "poll_status (Suc n) i get_power_fn =
     bindM (get_multi_power_fn get_power_fn) (\<lambda>status.
     bindM (optM ''--action'') (\<lambda>action.
       if status_val status \<noteq> action then
         seqM (sleep_opt ''--stonith-status-sleep'')
           (bindM (intoptM ''--power-timeout'') (\<lambda>timeout.
             if timeout > 0 \<and> i \<ge> timeout then retM False
             else poll_status n (i + 1) get_power_fn))
       else retM True))"

definition set_all_plugs :: "('w, unit) prog \<Rightarrow> string list \<Rightarrow> ('w, unit) prog" where
  "set_all_plugs set_power_fn plugs =
     forM plugs (\<lambda>plug. seqM (set_plug plug) (seqM set_power_fn (sleep_opt ''--power-wait'')))"

fun async_attempts ::
  "nat \<Rightarrow> ('w, unit) prog \<Rightarrow> ('w, string option) prog \<Rightarrow> string list \<Rightarrow> nat \<Rightarrow> ('w, bool) prog" where
  "async_attempts fuel set_power_fn get_power_fn plugs 0 = retM False"
| "async_attempts fuel set_power_fn get_power_fn plugs (Suc k) =
     seqM (set_all_plugs set_power_fn plugs)
       (bindM (poll_status fuel 1 get_power_fn) (\<lambda>reached.
          if reached then retM True
          else async_attempts fuel set_power_fn get_power_fn plugs k))"

definition async_set_multi_power_fn ::
  "nat \<Rightarrow> ('w, unit) prog \<Rightarrow> ('w, string option) prog \<Rightarrow> int \<Rightarrow> ('w, bool) prog" where
  "async_set_multi_power_fn fuel set_power_fn get_power_fn retry_attempts =
     bindM plugsM (\<lambda>plugs.
       async_attempts fuel set_power_fn get_power_fn plugs (nat retry_attempts))"

text \<open>
  \<open>for retry in range(n): if fn(): break; if retry == n - 1: success = False\<close>: whether
  \<open>success\<close> survives.
\<close>

fun retry_until :: "nat \<Rightarrow> ('w, bool) prog \<Rightarrow> ('w, bool) prog" where
  "retry_until 0 fn = retM True"
| "retry_until (Suc k) fn =
     bindM fn (\<lambda>ok. if ok then retM True else if k = 0 then retM False else retry_until k fn)"

definition sync_set_multi_power_fn :: "('w, bool) prog \<Rightarrow> int \<Rightarrow> ('w, bool) prog" where
  "sync_set_multi_power_fn sync_set_power_fn retry_attempts =
     bindM plugsM (\<lambda>plugs.
       foldM (\<lambda>success plug.
           seqM (set_plug plug)
             (bindM (retry_until (nat retry_attempts) sync_set_power_fn) (\<lambda>ok.
               seqM (sleep_opt ''--power-wait'') (retM (success \<and> ok)))))
         True plugs)"

definition set_multi_power_fn ::
  "nat \<Rightarrow> ('w, unit) prog option \<Rightarrow> ('w, string option) prog option \<Rightarrow> ('w, bool) prog option
   \<Rightarrow> int \<Rightarrow> ('w, bool) prog" where
  "set_multi_power_fn fuel set_power_fn get_power_fn sync_set_power_fn retry_attempts =
     (case set_power_fn of
        Some set_fn \<Rightarrow> (case get_power_fn of
            Some get_fn \<Rightarrow> async_set_multi_power_fn fuel set_fn get_fn retry_attempts
          | None \<Rightarrow> retM False)
      | None \<Rightarrow> (case sync_set_power_fn of
            Some sync_fn \<Rightarrow> sync_set_multi_power_fn sync_fn retry_attempts
          | None \<Rightarrow> retM False))"

definition multi_reboot_cycle_fn :: "('w, bool) prog \<Rightarrow> int \<Rightarrow> ('w, bool) prog" where
  "multi_reboot_cycle_fn reboot_cycle_fn retry_attempts =
     bindM plugsM (\<lambda>plugs.
       foldM (\<lambda>success plug.
           seqM (set_plug plug)
             (bindM (retry_until (nat retry_attempts) reboot_cycle_fn) (\<lambda>ok.
               seqM (sleep_opt ''--power-wait'') (retM (success \<and> ok)))))
         True plugs)"

section \<open>Basic facts\<close>

lemma fail_message_known: "fail_message code \<noteq> None \<longleftrightarrow> code \<in> {1, 3, 4, 5, 6, 7, 8, 9, 10, 11, 12}"
  by (auto simp: fail_message_def EC_defs)

lemma fail_Ret [ret_iff]:
  "fail code stop s = (Ret u, s') \<longleftrightarrow>
     \<not> stop \<and> (\<exists>m. fail_message code = Some m \<and> s' = s\<lparr>errs := errs s @ [m @ nl @ nl]\<rparr>)"
  by (auto simp: fail_def ret_iff split: option.splits)

lemma fail_Exit [exit_iff]:
  "fail code stop s = (Exit c, s') \<longleftrightarrow>
     stop \<and> c = 1 \<and> (\<exists>m. fail_message code = Some m \<and> s' = s\<lparr>errs := errs s @ [m @ nl @ nl]\<rparr>)"
  by (auto simp: fail_def ret_iff exit_iff EC_defs split: option.splits)

lemma fail_usage_Ret [ret_iff]:
  "fail_usage m stop s = (Ret u, s') \<longleftrightarrow>
     \<not> stop \<and> s' = (if m = [] then s else s\<lparr>errs := errs s @ [m @ nl]\<rparr>)"
  by (auto simp: fail_usage_def ret_iff)

lemma fail_usage_Exit: "fail_usage m stop s = (Exit c, s') \<Longrightarrow> stop \<and> c = 1"
  by (auto simp: fail_usage_def exit_iff ret_iff EC_defs split: if_splits)

lemma plugsM_Ret [ret_iff]: "plugsM s = (Ret ps, s') \<longleftrightarrow> plugs_of (opts s) = Some ps \<and> s' = s"
  by (auto simp: plugsM_def split: option.splits)

lemma plugsM_run [run_simps]:
  "plugs_of (opts s) = Some ps \<Longrightarrow> plugsM s = (Ret ps, s)"
  "plugs_of (opts s) = Some ps \<Longrightarrow> bindM plugsM f s = f ps s"
  by (simp_all add: plugsM_def bindM_def)

lemma plugsM_Exit [exit_iff]: "plugsM s = (Exit c, s') \<longleftrightarrow> False"
  by (auto simp: plugsM_def split: option.splits)

definition plug_opts :: "string \<Rightarrow> pydict \<Rightarrow> pydict" where
  "plug_opts plug d = (case py_uuid plug of
      None \<Rightarrow> d(''--plug'' \<mapsto> PStr plug)
    | Some u \<Rightarrow> d(''--uuid'' \<mapsto> PStr u, ''--plug'' \<mapsto> PStr plug))"

lemma set_plug_run [run_simps]:
  "set_plug plug s = (Ret (), s\<lparr>opts := plug_opts plug (opts s)\<rparr>)"
  "bindM (set_plug plug) f s = f () (s\<lparr>opts := plug_opts plug (opts s)\<rparr>)"
  by (simp_all add: set_plug_def plug_opts_def bindM_def run_prims split: option.splits)

lemma plug_opts_other [simp]:
  "k \<noteq> ''--plug'' \<Longrightarrow> k \<noteq> ''--uuid'' \<Longrightarrow> plug_opts plug d k = d k"
  "plug_opts plug d ''--plug'' = Some (PStr plug)"
  by (simp_all add: plug_opts_def split: option.splits)

lemma sleep_opt_Ret [ret_iff]:
  "sleep_opt k s = (Ret u, s') \<longleftrightarrow>
     (\<exists>t. int_opt (opts s) k = Some t \<and> 0 \<le> t \<and> s' = s\<lparr>clock := clock s + of_int t\<rparr>)"
  by (auto simp: sleep_opt_def ret_iff)

lemma sleep_opt_run [run_simps]:
  "int_opt (opts s) k = Some t \<Longrightarrow> 0 \<le> t \<Longrightarrow>
     sleep_opt k s = (Ret (), s\<lparr>clock := clock s + of_int t\<rparr>)"
  "int_opt (opts s) k = Some t \<Longrightarrow> 0 \<le> t \<Longrightarrow>
     bindM (sleep_opt k) f s = f () (s\<lparr>clock := clock s + of_int t\<rparr>)"
  by (simp_all add: sleep_opt_Ret bindM_step(1))

lemma sleep_opt_Exit [exit_iff]: "sleep_opt k s = (Exit c, s') \<longleftrightarrow> False"
  by (auto simp: sleep_opt_def exit_iff)

lemma Running_simps [running_iff]:
  "plugsM s = (Running, s') \<longleftrightarrow> False"
  "set_plug p s = (Running, s') \<longleftrightarrow> False"
  "sleep_opt k s = (Running, s') \<longleftrightarrow> False"
  "fail code stop s = (Running, s') \<longleftrightarrow> False"
  "fail_usage m stop s = (Running, s') \<longleftrightarrow> False"
  by (auto simp: plugsM_def sleep_opt_def fail_def fail_usage_def running_iff run_simps
      split: option.splits)

lemma status_val_inj [simp]: "status_val a = status_val b \<longleftrightarrow> a = b"
  by (auto simp: status_val_def split: option.splits)

lemma status_val_PStr [simp]:
  "status_val a = PStr t \<longleftrightarrow> a = Some t" "PStr t = status_val a \<longleftrightarrow> a = Some t"
  by (auto simp: status_val_def split: option.splits)

lemma keeps_fail [keeps_intro]:
  "keeps opts (fail code stop)" "keeps opts (fail_usage m stop)"
  "keeps world (fail code stop)" "keeps world (fail_usage m stop)"
  "keeps (\<lambda>s. opts s j) (fail code stop)" "keeps (\<lambda>s. opts s j) (fail_usage m stop)"
  by (auto simp: keeps_def ret_iff)

end
