(* ===== verification/Power_Contract.thy ===== *)
theory Power_Contract
  imports Multi_Power
begin

text \<open>
  The contract between the library and the callbacks of an agent, as locales, and what the
  loops over plugs guarantee under it: the status of several plugs, the polling loop (its
  result, its bound, its termination), and the confirmation that a switched plug is off.
\<close>

section \<open>What several plugs read as one\<close>

definition multi_status :: "string option list \<Rightarrow> string option" where
  "multi_status xs = fold (\<lambda>x status. if x \<noteq> Some ''off'' then x else status) xs (Some ''off'')"

lemma fold_last_not_off:
  "fold (\<lambda>x status. if x \<noteq> Some ''off'' then x else status) xs a =
     (case filter (\<lambda>x. x \<noteq> Some ''off'') xs of [] \<Rightarrow> a | ys \<Rightarrow> last ys)"
proof (induction xs arbitrary: a)
  case Nil
  then show ?case by simp
next
  case (Cons x xs)
  then show ?case by (auto split: list.splits)
qed

lemma multi_status_eq:
  "multi_status xs =
     (case filter (\<lambda>x. x \<noteq> Some ''off'') xs of [] \<Rightarrow> Some ''off'' | ys \<Rightarrow> last ys)"
  by (simp add: multi_status_def fold_last_not_off)

lemma last_filter_in: "filter P xs \<noteq> [] \<Longrightarrow> last (filter P xs) \<in> set xs \<and> P (last (filter P xs))"
  using last_in_set [of "filter P xs"] by auto

lemma multi_status_cases:
  "(\<forall>x\<in>set xs. x = Some ''off'') \<and> multi_status xs = Some ''off'' \<or>
   multi_status xs \<in> set xs \<and> multi_status xs \<noteq> Some ''off''"
proof (cases "filter (\<lambda>x. x \<noteq> Some ''off'') xs = []")
  case True
  then show ?thesis by (auto simp: multi_status_eq filter_empty_conv)
next
  case False
  then have "multi_status xs = last (filter (\<lambda>x. x \<noteq> Some ''off'') xs)"
    by (auto simp: multi_status_eq split: list.splits)
  with last_filter_in [OF False] show ?thesis by simp
qed

lemma multi_status_off: "multi_status xs = Some ''off'' \<longleftrightarrow> (\<forall>x\<in>set xs. x = Some ''off'')"
  using multi_status_cases [of xs] by auto

lemma multi_status_in: "multi_status xs \<noteq> Some ''off'' \<Longrightarrow> multi_status xs \<in> set xs"
  using multi_status_cases [of xs] by auto

section \<open>Contracts of callbacks\<close>

definition lib_keys :: "string set" where
  \<comment> \<open>the options the library itself reads while it drives the callbacks\<close>
  "lib_keys = {''--action'', ''--plugs'', ''device_opt'', ''--power-timeout'', ''--stonith-status-sleep'',
     ''--power-wait'', ''--retry-on'', ''--method'', ''--separator'', ''--plug-separator''}"

declare lib_keys_def [simp]

definition agree :: "pydict \<Rightarrow> pydict \<Rightarrow> bool" where
  \<comment> \<open>equal on the options the library relies on; a callback may change others\<close>
  "agree d e \<longleftrightarrow> (\<forall>k\<in>lib_keys. e k = d k)"

lemma agree_refl [simp, intro]: "agree d d"
  by (simp add: agree_def)

lemma agree_trans [trans]: "agree d e \<Longrightarrow> agree e f \<Longrightarrow> agree d f"
  by (simp add: agree_def)

lemma agree_plug_opts [simp, intro]: "agree d (plug_opts p d)"
  by (simp add: agree_def)

lemma agreeD: "agree d e \<Longrightarrow> k \<in> lib_keys \<Longrightarrow> e k = d k"
  unfolding agree_def by blast

lemma agree_plugs: "agree d e \<Longrightarrow> plugs_of e = plugs_of d"
  by (simp add: agree_def plugs_of_def)

lemma agree_int: "agree d e \<Longrightarrow> k \<in> lib_keys \<Longrightarrow> int_opt e k = int_opt d k"
  by (simp add: agreeD int_opt_def del: lib_keys_def)

lemmas agree_facts = agreeD agree_plugs agree_int

lemma plugs_of_plug_opts [simp]: "plugs_of (plug_opts p d) = plugs_of d"
  by (rule agree_plugs) simp

subsection \<open>Programs that leave the options of the library alone\<close>

definition agrees :: "('w, 'a) prog \<Rightarrow> bool" where
  "agrees m \<longleftrightarrow> (\<forall>s r s'. m s = (Ret r, s') \<longrightarrow> agree (opts s) (opts s'))"

lemma agreesD: "agrees m \<Longrightarrow> m s = (Ret r, s') \<Longrightarrow> agree (opts s) (opts s')"
  by (simp add: agrees_def)

lemma agrees_bind [agrees_intro]: "agrees m \<Longrightarrow> (\<And>x. agrees (f x)) \<Longrightarrow> agrees (bindM m f)"
  unfolding agrees_def ret_iff by (blast intro: agree_trans)

lemma agrees_keeps: "keeps opts m \<Longrightarrow> agrees m"
  by (simp add: agrees_def keeps_def)

lemma agrees_prims [agrees_intro]:
  "agrees (retM x)" "agrees (raiseM e)" "agrees (exitM c)" "agrees runningM" "agrees (getM g)" "agrees (liftM r)"
  "agrees (hasoptM k)" "agrees (optM k)" "agrees (stroptM k)" "agrees (intoptM k)" "agrees (printM t)" "agrees (logM t)"
  "agrees (sleepM d)" "agrees (fail code stop)" "agrees (fail_usage t stop)"
  by (auto simp: agrees_def ret_iff)

lemma agrees_setoptM [agrees_intro]: "k \<notin> lib_keys \<Longrightarrow> agrees (setoptM k v)"
  by (auto simp: agrees_def ret_iff agree_def)

lemma agrees_modM [agrees_intro]: "(\<And>s. agree (opts s) (opts (f s))) \<Longrightarrow> agrees (modM f)"
  by (simp add: agrees_def ret_iff)

lemma agrees_split [agrees_intro]:
  "agrees m \<Longrightarrow> agrees n \<Longrightarrow> agrees (if b then m else n)"
  "agrees m \<Longrightarrow> (\<And>x. agrees (f x)) \<Longrightarrow> agrees (case v of None \<Rightarrow> m | Some x \<Rightarrow> f x)"
  "(\<And>x y. agrees (g x y)) \<Longrightarrow> agrees (case p of (x, y) \<Rightarrow> g x y)"
  "agrees m \<Longrightarrow> (\<And>x xs. agrees (h x xs)) \<Longrightarrow> agrees (case l of [] \<Rightarrow> m | x # xs \<Rightarrow> h x xs)"
  "agrees a \<Longrightarrow> (\<And>n. agrees (b' n)) \<Longrightarrow> (\<And>t. agrees (c t)) \<Longrightarrow> (\<And>l. agrees (d l)) \<Longrightarrow>
     agrees (case w of PNone \<Rightarrow> a | PInt n \<Rightarrow> b' n | PStr t \<Rightarrow> c t | PList l \<Rightarrow> d l)"
  by (auto split: option.splits prod.splits list.splits pyval.splits)

lemma agrees_Let [agrees_intro]: "(\<And>x. agrees (f x)) \<Longrightarrow> agrees (Let v f)"
  by (simp add: Let_def)

lemma agrees_loops [agrees_intro]:
  "(\<And>x. agrees (f x)) \<Longrightarrow> agrees (forM xs f)"
  "(\<And>b x. agrees (g b x)) \<Longrightarrow> agrees (foldM g b xs)"
proof -
  show "(\<And>x. agrees (f x)) \<Longrightarrow> agrees (forM xs f)" by (induction xs) (auto intro: agrees_intro)
  show "(\<And>b x. agrees (g b x)) \<Longrightarrow> agrees (foldM g b xs)"
    by (induction xs arbitrary: b) (auto intro: agrees_intro)
qed

subsection \<open>The contracts\<close>

locale callback =
  fixes fn :: "('w, 'a) prog"
  assumes keeps_opts: "fn s = (Ret r, s') \<Longrightarrow> agree (opts s) (opts s')"

locale status_callback = callback get_power for get_power :: "('w, string option) prog"

locale setter_callback = callback set_power for set_power :: "('w, unit) prog"

locale sync_callback = callback sync_fn for sync_fn :: "('w, bool) prog"

definition at_plug :: "'w st \<Rightarrow> string \<Rightarrow> bool" where
  \<comment> \<open>the callbacks are asked about the plug \<open>p\<close>, one of those named in the options\<close>
  "at_plug s p \<longleftrightarrow> opts s ''--plug'' = Some (PStr p) \<and> (\<exists>ps. plugs_of (opts s) = Some ps \<and> p \<in> set ps)"

lemma at_plug_plug_opts:
  "plugs_of (opts s) = Some ps \<Longrightarrow> p \<in> set ps \<Longrightarrow> at_plug (s\<lparr>opts := plug_opts p (opts s)\<rparr>) p"
  by (simp add: at_plug_def)

text \<open>
  A reader that tells the truth about the plugs in the states that satisfy \<open>cfg_ok\<close> (what the
  agent relies on about its configuration), and leaves them so.
\<close>

locale status_reader = status_callback +
  fixes cfg_ok :: "'w st \<Rightarrow> bool" and status_of :: "'w st \<Rightarrow> string \<Rightarrow> string option"
  assumes reads_plug: "cfg_ok s \<Longrightarrow> at_plug s p \<Longrightarrow> get_power s = (Ret r, s') \<Longrightarrow> r = status_of s p"
    and reading_keeps: "cfg_ok s \<Longrightarrow> at_plug s p \<Longrightarrow> get_power s = (Ret r, s') \<Longrightarrow> status_of s' = status_of s"
    and reading_cfg: "cfg_ok s \<Longrightarrow> at_plug s p \<Longrightarrow> get_power s = (Ret r, s') \<Longrightarrow> cfg_ok s'"
    and power_plug_opts: "status_of (s\<lparr>opts := plug_opts p (opts s)\<rparr>) = status_of s"
    and power_outp: "status_of (s\<lparr>outp := t\<rparr>) = status_of s"
    and cfg_plug_opts: "cfg_ok (s\<lparr>opts := plug_opts p (opts s)\<rparr>) = cfg_ok s"
    and cfg_clock: "cfg_ok (s\<lparr>clock := c\<rparr>) = cfg_ok s"

text \<open>A reader that also takes no time on the model's clock.\<close>

locale timed_reader = status_callback +
  assumes reading_time: "get_power s = (Ret r, s') \<Longrightarrow> clock s' = clock s"

section \<open>Reading under the contract\<close>

definition read_plugs ::
  "('w, string option) prog \<Rightarrow> string option \<Rightarrow> string list \<Rightarrow> ('w, string option) prog" where
  \<comment> \<open>the loop of \<open>get_multi_power_fn\<close> from a given status\<close>
  "read_plugs get_power = foldM (\<lambda>status plug.
     seqM (set_plug plug)
       (bindM get_power (\<lambda>plug_status.
         retM (if plug_status \<noteq> Some ''off'' then plug_status else status))))"

lemma get_multi_read_plugs:
  "get_multi_power_fn get_power = bindM plugsM (read_plugs get_power (Some ''off''))"
  by (simp add: get_multi_power_fn_def read_plugs_def)

lemma read_plugs_simps:
  "read_plugs get_power status [] = retM status"
  "read_plugs get_power status (p # ps) =
     seqM (set_plug p) (bindM get_power (\<lambda>plug_status.
       read_plugs get_power (if plug_status \<noteq> Some ''off'' then plug_status else status) ps))"
  by (rule ext, simp add: read_plugs_def bindM_def retM_def split: prod.splits outcome.splits)+

lemma read_plugs_Cons_Ret:
  "read_plugs get_power status (p # ps) s = (Ret r, s') \<longleftrightarrow>
     (\<exists>x s1. get_power (s\<lparr>opts := plug_opts p (opts s)\<rparr>) = (Ret x, s1) \<and>
        read_plugs get_power (if x \<noteq> Some ''off'' then x else status) ps s1 = (Ret r, s'))"
  by (simp add: read_plugs_simps run_simps ret_iff)

context callback
begin

lemma plug_call_agree:
  assumes "fn (s\<lparr>opts := plug_opts p (opts s)\<rparr>) = (Ret r, s')"
  shows "agree (opts s) (opts s')"
proof -
  have "agree (opts s) (plug_opts p (opts s))" by simp
  also have "agree (plug_opts p (opts s)) (opts s')" using keeps_opts [OF assms] by simp
  finally show ?thesis .
qed

end

context status_callback
begin

lemma read_plugs_agree:
  "read_plugs get_power status ps s = (Ret r, s') \<Longrightarrow> agree (opts s) (opts s')"
proof (induction ps arbitrary: status s)
  case Nil
  then show ?case by (simp add: read_plugs_simps ret_iff)
next
  case (Cons p ps)
  then obtain x s1 where "get_power (s\<lparr>opts := plug_opts p (opts s)\<rparr>) = (Ret x, s1)"
    and "agree (opts s1) (opts s')"
    by (auto simp: read_plugs_Cons_Ret)
  then show ?case by (blast intro: plug_call_agree agree_trans)
qed

lemma get_multi_agree: "get_multi_power_fn get_power s = (Ret r, s') \<Longrightarrow> agree (opts s) (opts s')"
  using read_plugs_agree by (auto simp: get_multi_read_plugs ret_iff)

end

context status_reader
begin

lemma read_plugs_power:
  "read_plugs get_power status ps s = (Ret r, s') \<Longrightarrow> cfg_ok s \<Longrightarrow>
   plugs_of (opts s) = Some named \<Longrightarrow> set ps \<subseteq> set named \<Longrightarrow>
     status_of s' = status_of s \<and> cfg_ok s' \<and>
     r = fold (\<lambda>x st. if x \<noteq> Some ''off'' then x else st) (map (status_of s) ps) status"
proof (induction ps arbitrary: status s)
  case Nil
  then show ?case by (simp add: read_plugs_simps ret_iff)
next
  case (Cons p ps)
  let ?s = "s\<lparr>opts := plug_opts p (opts s)\<rparr>"
  from Cons.prems obtain x s1 where x: "get_power ?s = (Ret x, s1)"
    and rest: "read_plugs get_power (if x \<noteq> Some ''off'' then x else status) ps s1 = (Ret r, s')"
    by (auto simp: read_plugs_Cons_Ret)
  have i: "cfg_ok ?s" using Cons.prems(2) by (simp add: cfg_plug_opts)
  have p: "at_plug ?s p" using Cons.prems(3,4) by (simp add: at_plug_plug_opts)
  have "x = status_of s p" using reads_plug [OF i p x] by (simp add: power_plug_opts)
  moreover have "status_of s1 = status_of s" using reading_keeps [OF i p x] by (simp add: power_plug_opts)
  moreover have "plugs_of (opts s1) = Some named" using Cons.prems(3) by (simp add: agree_plugs [OF plug_call_agree [OF x]])
  ultimately show ?case using Cons.IH [OF rest reading_cfg [OF i p x]] Cons.prems(4) by auto
qed

theorem get_multi_power_fn_reads:
  assumes "get_multi_power_fn get_power s = (Ret r, s')" and "plugs_of (opts s) = Some ps" and "cfg_ok s"
  shows "r = multi_status (map (status_of s) ps)" and "status_of s' = status_of s"
    and "agree (opts s) (opts s')" and "cfg_ok s'"
  using assms read_plugs_power [of "Some ''off''" ps s r s' ps] read_plugs_agree [of "Some ''off''" ps s r s']
  by (auto simp: get_multi_read_plugs ret_iff multi_status_def)

end

section \<open>Polling under the contract\<close>

text \<open>The three ways a poll ends: the status is reached, the time is up, or it is tried again.\<close>

lemma poll_status_cases:
  assumes "poll_status (Suc n) i get_power s = (Ret b, s')"
  obtains
    (reached) st where "get_multi_power_fn get_power s = (Ret st, s')"
      and "opts s' ''--action'' = Some (status_val st)" and "b"
  | (gave_up) st s1 d T where "get_multi_power_fn get_power s = (Ret st, s1)"
      and "int_opt (opts s1) ''--stonith-status-sleep'' = Some d"
      and "int_opt (opts s1) ''--power-timeout'' = Some T" and "0 < T" and "T \<le> i"
      and "\<not> b" and "s' = s1\<lparr>clock := clock s1 + of_int d\<rparr>"
  | (again) st s1 d T where "get_multi_power_fn get_power s = (Ret st, s1)"
      and "int_opt (opts s1) ''--stonith-status-sleep'' = Some d"
      and "int_opt (opts s1) ''--power-timeout'' = Some T" and "\<not> (0 < T \<and> T \<le> i)"
      and "poll_status n (i + 1) get_power (s1\<lparr>clock := clock s1 + of_int d\<rparr>) = (Ret b, s')"
proof -
  from assms obtain st s1 a where st: "get_multi_power_fn get_power s = (Ret st, s1)"
    and a: "opts s1 ''--action'' = Some a"
    and rest: "(if status_val st \<noteq> a then
        seqM (sleep_opt ''--stonith-status-sleep'')
          (bindM (intoptM ''--power-timeout'') (\<lambda>timeout.
             if timeout > 0 \<and> i \<ge> timeout then retM False
             else poll_status n (i + 1) get_power))
       else retM True) s1 = (Ret b, s')"
    by (auto simp: ret_iff)
  show thesis
  proof (cases "status_val st = a")
    case True
    with st a rest show thesis by (intro reached) (auto simp: ret_iff)
  next
    case False
    with rest obtain d T where d: "int_opt (opts s1) ''--stonith-status-sleep'' = Some d"
      and T: "int_opt (opts s1) ''--power-timeout'' = Some T"
      and step: "(if T > 0 \<and> i \<ge> T then retM False else poll_status n (i + 1) get_power)
        (s1\<lparr>clock := clock s1 + of_int d\<rparr>) = (Ret b, s')"
      by (auto simp: ret_iff)
    show thesis
    proof (cases "0 < T \<and> T \<le> i")
      case True
      with st d T step show thesis by (intro gave_up) (auto simp: ret_iff)
    next
      case False
      with st d T step show thesis by (intro again) auto
    qed
  qed
qed

context status_callback
begin

lemma poll_agree: "poll_status n i get_power s = (Ret b, s') \<Longrightarrow> agree (opts s) (opts s')"
proof (induction n arbitrary: i s)
  case 0
  then show ?case by (simp add: ret_iff)
next
  case (Suc n)
  from Suc.prems show ?case
  proof (cases rule: poll_status_cases)
    case (again st s1 d T)
    with Suc.IH [OF again(5)] show ?thesis by (auto dest: get_multi_agree intro: agree_trans)
  qed (auto dest: get_multi_agree)
qed

text \<open>With timeouts disabled the loop never gives up.\<close>

lemma poll_never_gives_up:
  "int_opt (opts s) ''--power-timeout'' = Some T \<Longrightarrow> T \<le> 0 \<Longrightarrow>
     poll_status n i get_power s = (Ret b, s') \<Longrightarrow> b"
proof (induction n arbitrary: i s)
  case 0
  then show ?case by (simp add: ret_iff)
next
  case (Suc n)
  from Suc.prems(3) show ?case
  proof (cases rule: poll_status_cases)
    case (again st s1 d T')
    with Suc.prems(1,2) show ?thesis
      by (intro Suc.IH [OF _ _ again(5)]) (simp_all add: agree_int [OF get_multi_agree])
  qed (use Suc.prems(1,2) in \<open>auto simp: agree_int [OF get_multi_agree]\<close>)
qed

end

context timed_reader
begin

lemma get_multi_time: "get_multi_power_fn get_power s = (Ret r, s') \<Longrightarrow> clock s' = clock s"
proof -
  have "read_plugs get_power st ps s = (Ret r, s') \<Longrightarrow> clock s' = clock s" for st ps s
    by (induction ps arbitrary: st s)
      (fastforce simp: read_plugs_simps ret_iff run_simps dest: reading_time)+
  then show "get_multi_power_fn get_power s = (Ret r, s') \<Longrightarrow> clock s' = clock s"
    by (auto simp: get_multi_read_plugs ret_iff)
qed

text \<open>Giving up takes exactly the configured number of polls.\<close>

lemma poll_give_up_time:
  "int_opt (opts s) ''--power-timeout'' = Some T \<Longrightarrow>
   int_opt (opts s) ''--stonith-status-sleep'' = Some d \<Longrightarrow> i \<le> T \<Longrightarrow>
   poll_status n i get_power s = (Ret False, s') \<Longrightarrow>
     clock s' = clock s + of_int ((T - i + 1) * d)"
proof (induction n arbitrary: i s)
  case 0
  then show ?case by (simp add: ret_iff)
next
  case (Suc n)
  from Suc.prems(4) show ?case
  proof (cases rule: poll_status_cases)
    case (gave_up st s1 d' T')
    with Suc.prems show ?thesis
      by (simp add: agree_int [OF get_multi_agree] get_multi_time)
  next
    case (again st s1 d' T')
    let ?s = "s1\<lparr>clock := clock s1 + of_int d\<rparr>"
    have o: "int_opt (opts ?s) ''--power-timeout'' = Some T"
      "int_opt (opts ?s) ''--stonith-status-sleep'' = Some d" "T' = T" "d' = d"
      using Suc.prems(1,2) again(1,2,3) by (simp_all add: agree_int [OF get_multi_agree])
    have "0 < T" using poll_never_gives_up [OF o(1) _ again(5) [unfolded o]] by force
    then have "clock s' = clock ?s + of_int ((T - (i + 1) + 1) * d)"
      using again(4,5) o by (intro Suc.IH) auto
    then show ?thesis using get_multi_time [OF again(1)]
      by (simp add: algebra_simps of_int_add of_int_mult)
  qed simp
qed

end

context status_reader
begin

lemma poll_reached:
  "poll_status n i get_power s = (Ret b, s') \<Longrightarrow> plugs_of (opts s) = Some ps \<Longrightarrow> cfg_ok s \<Longrightarrow>
   opts s ''--action'' = Some (PStr a) \<Longrightarrow>
     cfg_ok s' \<and> (b \<longrightarrow> multi_status (map (status_of s') ps) = Some a)"
proof (induction n arbitrary: i s)
  case 0
  then show ?case by (simp add: ret_iff)
next
  case (Suc n)
  from Suc.prems(1) show ?case
  proof (cases rule: poll_status_cases)
    case (reached st)
    note reads = get_multi_power_fn_reads [OF reached(1) Suc.prems(2,3)]
    with reached Suc.prems(4) show ?thesis by (simp add: agreeD [OF reads(3)])
  next
    case (gave_up st s1 d T)
    with get_multi_power_fn_reads(4) [OF gave_up(1) Suc.prems(2,3)] show ?thesis by (simp add: cfg_clock)
  next
    case (again st s1 d T)
    note reads = get_multi_power_fn_reads [OF again(1) Suc.prems(2,3)]
    show ?thesis
      by (rule Suc.IH [OF again(5)])
        (use Suc.prems(2,4) reads(4) in \<open>simp_all add: agree_facts [OF reads(3)] cfg_clock\<close>)
  qed
qed

end

section \<open>Switching under the contract\<close>

text \<open>A device: a reader that tells the truth and a setter that leaves the options alone.\<close>

locale power_device = status_reader get_power cfg_ok status_of + setter: setter_callback set_power
  for get_power :: "('w, string option) prog"
    and cfg_ok :: "'w st \<Rightarrow> bool"
    and status_of :: "'w st \<Rightarrow> string \<Rightarrow> string option"
    and set_power :: "('w, unit) prog" +
  assumes setting_cfg: "cfg_ok s \<Longrightarrow> at_plug s p \<Longrightarrow> set_power s = (Ret u, s') \<Longrightarrow> cfg_ok s'"
    and cfg_action: "cfg_ok (s\<lparr>opts := (opts s)(''--action'' \<mapsto> v)\<rparr>) = cfg_ok s"

lemma set_all_plugs_Cons:
  "set_all_plugs set_power (p # ps) =
     seqM (seqM (set_plug p) (seqM set_power (sleep_opt ''--power-wait''))) (set_all_plugs set_power ps)"
  by (simp add: set_all_plugs_def)

context setter_callback
begin

lemma set_all_plugs_agree:
  "set_all_plugs set_power ps s = (Ret u, s') \<Longrightarrow> agree (opts s) (opts s')"
proof (induction ps arbitrary: s)
  case Nil
  then show ?case by (simp add: set_all_plugs_def ret_iff)
next
  case (Cons p ps)
  from Cons.prems obtain r s1 t where call: "set_power (s\<lparr>opts := plug_opts p (opts s)\<rparr>) = (Ret r, s1)"
    and rest: "set_all_plugs set_power ps (s1\<lparr>clock := clock s1 + of_int t\<rparr>) = (Ret u, s')"
    by (auto simp: set_all_plugs_Cons ret_iff run_simps)
  have "agree (opts s) (opts s1)" by (rule plug_call_agree [OF call])
  also have "agree (opts s1) (opts s')" using Cons.IH [OF rest] by simp
  finally show ?case .
qed

end

context sync_callback
begin

lemma retry_until_agree:
  "retry_until n sync_fn s = (Ret b, s') \<Longrightarrow> agree (opts s) (opts s')"
  by (induction n arbitrary: s)
    (auto simp: ret_iff split: if_splits dest: keeps_opts intro: agree_trans)

end

context power_device
begin

lemma set_all_plugs_cfg:
  "set_all_plugs set_power ps s = (Ret u, s') \<Longrightarrow> cfg_ok s \<Longrightarrow>
   plugs_of (opts s) = Some named \<Longrightarrow> set ps \<subseteq> set named \<Longrightarrow> cfg_ok s'"
proof (induction ps arbitrary: s)
  case Nil
  then show ?case by (simp add: set_all_plugs_def ret_iff)
next
  case (Cons p ps)
  from Cons.prems(1) obtain r s1 t where call: "set_power (s\<lparr>opts := plug_opts p (opts s)\<rparr>) = (Ret r, s1)"
    and rest: "set_all_plugs set_power ps (s1\<lparr>clock := clock s1 + of_int t\<rparr>) = (Ret u, s')"
    by (auto simp: set_all_plugs_Cons ret_iff run_simps)
  have "cfg_ok s1" using setting_cfg [OF _ _ call, of p] Cons.prems(2-4) by (simp add: cfg_plug_opts at_plug_plug_opts)
  moreover have "plugs_of (opts s1) = Some named"
    using Cons.prems(3) by (simp add: agree_plugs [OF setter.plug_call_agree [OF call]])
  ultimately show ?case using Cons.prems(4) by (intro Cons.IH [OF rest]) (simp_all add: cfg_clock)
qed

lemma async_attempts_reached:
  "async_attempts fuel set_power get_power ps k s = (Ret b, s') \<Longrightarrow>
   plugs_of (opts s) = Some ps \<Longrightarrow> cfg_ok s \<Longrightarrow> opts s ''--action'' = Some (PStr a) \<Longrightarrow>
     cfg_ok s' \<and> (b \<longrightarrow> multi_status (map (status_of s') ps) = Some a)"
proof (induction k arbitrary: s)
  case 0
  then show ?case by (simp add: ret_iff)
next
  case (Suc k)
  from Suc.prems(1) obtain s1 b1 s2 where s1: "set_all_plugs set_power ps s = (Ret (), s1)"
    and poll: "poll_status fuel 1 get_power s1 = (Ret b1, s2)"
    and rest: "(if b1 then retM True else async_attempts fuel set_power get_power ps k) s2 = (Ret b, s')"
    by (auto simp: ret_iff)
  have one: "agree (opts s) (opts s1)" by (rule setter.set_all_plugs_agree [OF s1])
  have two: "agree (opts s) (opts s2)" using one poll_agree [OF poll] by (rule agree_trans)
  have polled: "cfg_ok s2 \<and> (b1 \<longrightarrow> multi_status (map (status_of s2) ps) = Some a)"
    by (rule poll_reached [OF poll _ set_all_plugs_cfg [OF s1 Suc.prems(3,2) order_refl]])
      (use Suc.prems(2,4) in \<open>simp_all add: agree_facts [OF one]\<close>)
  show ?case
  proof (cases b1)
    case True
    with polled rest show ?thesis by (auto simp: ret_iff)
  next
    case False
    with rest polled show ?thesis using Suc.prems(2,4)
      by (intro Suc.IH [of s2]) (simp_all add: agree_facts [OF two])
  qed
qed

theorem async_switch_confirmed:
  assumes "async_set_multi_power_fn fuel set_power get_power n s = (Ret True, s')"
    and "plugs_of (opts s) = Some ps" and "cfg_ok s" and "opts s ''--action'' = Some (PStr a)"
  shows "multi_status (map (status_of s') ps) = Some a"
  using assms async_attempts_reached by (auto simp: async_set_multi_power_fn_def ret_iff)

end

section \<open>Callbacks that end\<close>

lemma get_multi_not_Running:
  assumes "\<And>s s'. get_power s \<noteq> (Running, s')"
  shows "get_multi_power_fn get_power s \<noteq> (Running, s')"
proof -
  have "read_plugs get_power st ps s \<noteq> (Running, s')" for st ps s
    by (induction ps arbitrary: st s)
      (auto simp: read_plugs_simps running_iff ret_iff run_simps assms)
  then show ?thesis by (auto simp: get_multi_read_plugs running_iff)
qed

lemma set_all_plugs_not_Running:
  "(\<And>s s'. set_power s \<noteq> (Running, s')) \<Longrightarrow> set_all_plugs set_power ps s \<noteq> (Running, s')"
  by (induction ps arbitrary: s) (auto simp: set_all_plugs_def running_iff)

lemma retry_until_not_Running:
  "(\<And>s s'. sync_fn s \<noteq> (Running, s')) \<Longrightarrow> retry_until n sync_fn s \<noteq> (Running, s')"
  by (induction n arbitrary: s) (auto simp: running_iff split: if_splits)

locale ending_device = power_device +
  assumes get_ends: "get_power s \<noteq> (Running, s')"
    and set_ends: "set_power s \<noteq> (Running, s')"
begin

text \<open>A positive power timeout bounds the number of polls, so that much fuel is enough.\<close>

lemma poll_enough_fuel:
  "int_opt (opts s) ''--power-timeout'' = Some T \<Longrightarrow> 0 < T \<Longrightarrow> nat (T - i) < n \<Longrightarrow>
     poll_status n i get_power s \<noteq> (Running, s')"
proof (induction n arbitrary: i s)
  case 0
  then show ?case by simp
next
  case (Suc n)
  show ?case
  proof
    assume "poll_status (Suc n) i get_power s = (Running, s')"
    then obtain st s1 d where s1: "get_multi_power_fn get_power s = (Ret st, s1)"
      and step: "\<not> (0 < T \<and> T \<le> i)"
        "poll_status n (i + 1) get_power (s1\<lparr>clock := clock s1 + of_int d\<rparr>) = (Running, s')"
      using Suc.prems(1)
      by (auto simp: running_iff ret_iff get_multi_not_Running [OF get_ends] agree_int [OF get_multi_agree]
          split: if_splits)
    have "int_opt (opts (s1\<lparr>clock := clock s1 + of_int d\<rparr>)) ''--power-timeout'' = Some T"
      using Suc.prems(1) by (simp add: agree_int [OF get_multi_agree [OF s1]])
    with Suc.IH [OF this] step Suc.prems(2,3) show False by auto
  qed
qed

lemma async_enough_fuel:
  "int_opt (opts s) ''--power-timeout'' = Some T \<Longrightarrow> 0 < T \<Longrightarrow> nat T \<le> fuel \<Longrightarrow>
     async_attempts fuel set_power get_power ps k s \<noteq> (Running, s')"
proof (induction k arbitrary: s)
  case 0
  then show ?case by (simp add: running_iff)
next
  case (Suc k)
  have no_poll: "poll_status fuel 1 get_power s1 \<noteq> (Running, s')"
    if "set_all_plugs set_power ps s = (Ret u, s1)" for u s1
    using Suc.prems by (intro poll_enough_fuel [where T = T])
      (simp_all add: agree_int [OF setter.set_all_plugs_agree [OF that]])
  have no_rest: "async_attempts fuel set_power get_power ps k s2 \<noteq> (Running, s')"
    if "set_all_plugs set_power ps s = (Ret u, s1)" "poll_status fuel 1 get_power s1 = (Ret b, s2)"
    for u s1 b s2
    using Suc.prems agree_int [OF agree_trans [OF setter.set_all_plugs_agree [OF that(1)]
          poll_agree [OF that(2)]]]
    by (intro Suc.IH) simp_all
  show ?case
    by (auto simp: running_iff set_all_plugs_not_Running [OF set_ends] no_poll no_rest split: if_splits)
qed

theorem async_switch_ends:
  assumes "int_opt (opts s) ''--power-timeout'' = Some T" "0 < T" "nat T \<le> fuel"
  shows "async_set_multi_power_fn fuel set_power get_power n s \<noteq> (Running, s')"
  using async_enough_fuel [OF assms] by (auto simp: async_set_multi_power_fn_def running_iff ret_iff)

end

end
