(* ===== verification/Fence_Action.thy ===== *)
theory Fence_Action
  imports Power_Contract
begin

text \<open>
  \<open>lib/fencing.py.py\<close>: \<open>fence_action\<close>, the function every agent calls to perform the
  requested action, and \<open>run_delay\<close>. The callbacks an agent passes are a record of
  optional programs (None for an argument that is left out). \<open>fuel\<close> bounds the number of
  status polls per attempt; \<open>Power_Contract\<close> and the termination theorems below say how
  much is enough.
\<close>

section \<open>Callbacks and small readers\<close>

type_synonym outlet = "string \<times> string \<times> string option"
  \<comment> \<open>outlet id, alias, status; the dictionary of outlets in its iteration order\<close>

record 'w power_fns =
  set_power_fn :: "('w, unit) prog option"
  get_power_fn :: "('w, string option) prog option"
  get_outlet_list :: "('w, outlet list) prog option"
  reboot_cycle_fn :: "('w, bool) prog option"
  sync_set_power_fn :: "('w, bool) prog option"

definition device_optM :: "('w, string list) prog" where
  \<comment> \<open>\<open>options["device_opt"]\<close>\<close>
  "device_optM = bindM (optM ''device_opt'') (\<lambda>v. case v of
      PList l \<Rightarrow> retM l
    | _ \<Rightarrow> raiseM (AttributeError ''count''))"

definition lowerM :: "pyval \<Rightarrow> ('w, string) prog" where
  "lowerM v = (case v of PStr t \<Rightarrow> retM (py_lower t) | _ \<Rightarrow> raiseM (AttributeError ''lower''))"

definition upperM :: "string option \<Rightarrow> ('w, string) prog" where
  "upperM r = (case r of Some t \<Rightarrow> retM (py_upper t) | None \<Rightarrow> raiseM (AttributeError ''upper''))"

definition callM :: "('w, 'a) prog option \<Rightarrow> ('w, 'a) prog" where
  \<comment> \<open>calling an argument that may be None\<close>
  "callM f = (case f of Some m \<Rightarrow> m | None \<Rightarrow> raiseM (TypeError ''NoneType is not callable''))"

section \<open>The steps of \<open>fence_action\<close>\<close>

definition split_plugs :: "('w, unit) prog" where
  "split_plugs = bindM (getM opts) (\<lambda>d.
     case d ''--plug'' of
       None \<Rightarrow> retM ()
     | Some v \<Rightarrow> bindM (optM ''--plug-separator'') (\<lambda>sep.
         (case (v, sep) of
            (PStr plug, PStr sp) \<Rightarrow>
              if sp = [] then raiseM (ValueError ''empty separator'')
              else setoptM ''--plugs'' (PList (py_split sp plug))
          | (PStr _, _) \<Rightarrow> raiseM (TypeError ''split'')
          | _ \<Rightarrow> raiseM (AttributeError ''split''))))"

definition is_list_action :: "pyval \<Rightarrow> ('w, bool) prog" where
  "is_list_action action =
     (if action \<in> {PStr ''list'', PStr ''list-status''} then retM True
      else if action = PStr ''monitor'' then
        bindM device_optM (\<lambda>dev.
          retM (count_list dev ''port'' = 1 \<and> count_list dev ''port_as_ip'' = 0))
      else retM False)"

definition shown_status :: "string option \<Rightarrow> string" where
  \<comment> \<open>the status column of list-status\<close>
  "shown_status status = (case status of
      None \<Rightarrow> ''UNKNOWN''
    | Some t \<Rightarrow> if py_upper t \<in> {''ON'', ''OFF''} then t else ''UNKNOWN'')"

definition print_outlet :: "outlet \<Rightarrow> ('w, unit) prog" where
  "print_outlet outlet = (case outlet of (outlet_id, alias, status) \<Rightarrow>
     bindM (optM ''--action'') (\<lambda>action.
       if action = PStr ''list'' then
         bindM (optM ''--separator'') (\<lambda>sep. case sep of
             PStr sp \<Rightarrow> printM (outlet_id @ sp @ alias)
           | _ \<Rightarrow> raiseM (TypeError ''format''))
       else if action = PStr ''list-status'' then
         bindM (optM ''--separator'') (\<lambda>sep. case sep of
             PStr sp \<Rightarrow> printM (outlet_id @ sp @ alias @ sp @ shown_status status)
           | _ \<Rightarrow> raiseM (TypeError ''format''))
       else retM ()))"

definition list_outlets :: "'w power_fns \<Rightarrow> ('w, unit) prog" where
  "list_outlets F = bindM device_optM (\<lambda>dev.
     if count_list dev ''port'' = 0 then printM ''N/A''
     else (case get_outlet_list F of
         None \<Rightarrow> printM ''NOTICE: List option is not working on this device yet''
       | Some outlets_fn \<Rightarrow>
           bindM (optM ''--action'') (\<lambda>action.
           seqM (setoptM ''--original-action'' action)
          (seqM (setoptM ''--action'' (PStr ''list''))
          (bindM outlets_fn (\<lambda>outlets.
           bindM (optM ''--original-action'') (\<lambda>original.
           seqM (setoptM ''--action'' original)
          (seqM (deloptM ''--original-action'')
                (forM outlets print_outlet)))))))))"

definition read_status :: "'w power_fns \<Rightarrow> ('w, string option) prog" where
  "read_status F = bindM device_optM (\<lambda>dev.
     if ''no_status'' \<in> set dev then retM None
     else bindM (get_multi_power_fn (callM (get_power_fn F))) (\<lambda>status.
       if status \<noteq> Some ''on'' \<and> status \<noteq> Some ''off''
       then seqM (fail EC_STATUS True) (retM status)
       else retM status))"

definition switch :: "nat \<Rightarrow> 'w power_fns \<Rightarrow> int \<Rightarrow> ('w, bool) prog" where
  "switch fuel F attempts =
     set_multi_power_fn fuel (set_power_fn F) (get_power_fn F) (sync_set_power_fn F) attempts"

definition do_on :: "nat \<Rightarrow> 'w power_fns \<Rightarrow> ('w, unit) prog" where
  "do_on fuel F =
     bindM (intoptM ''--retry-on'') (\<lambda>r.
     bindM (switch fuel F (1 + r)) (\<lambda>ok.
       if ok then printM ''Success: Powered ON'' else fail EC_WAITING_ON True))"

definition do_off :: "nat \<Rightarrow> 'w power_fns \<Rightarrow> ('w, unit) prog" where
  "do_off fuel F =
     bindM (switch fuel F 1) (\<lambda>ok.
       if ok then printM ''Success: Powered OFF'' else fail EC_WAITING_OFF True)"

definition reboot_cycle :: "('w, bool) prog \<Rightarrow> ('w, bool) prog" where
  "reboot_cycle cycle =
     bindM (tryM (bindM (intoptM ''--retry-on'') (\<lambda>r. multi_reboot_cycle_fn cycle (1 + r)))
                 (\<lambda>_. Some (retM False)))
       (\<lambda>power_on. seqM (if \<not> power_on then fail EC_TIMED_OUT True else retM ()) (retM power_on))"

definition reboot_onoff :: "nat \<Rightarrow> 'w power_fns \<Rightarrow> string option \<Rightarrow> ('w, bool) prog" where
  "reboot_onoff fuel F status =
     seqM (if status \<noteq> Some ''off'' then
             seqM (setoptM ''--action'' (PStr ''off''))
               (bindM (switch fuel F 1) (\<lambda>ok.
                  if \<not> ok then fail EC_WAITING_OFF True else retM ()))
           else retM ())
    (seqM (setoptM ''--action'' (PStr ''on''))
    (bindM (tryM (bindM (intoptM ''--retry-on'') (\<lambda>r. switch fuel F r))
                 (\<lambda>_. Some (retM False)))
       (\<lambda>power_on. seqM (setoptM ''--action'' (PStr ''reboot'')) (retM power_on))))"

definition do_reboot :: "nat \<Rightarrow> 'w power_fns \<Rightarrow> string option \<Rightarrow> ('w, unit) prog" where
  "do_reboot fuel F status =
     bindM (getM opts) (\<lambda>d.
     bindM (lowerM (case d ''--method'' of None \<Rightarrow> PStr '''' | Some v \<Rightarrow> v)) (\<lambda>how.
     bindM (case reboot_cycle_fn F of
         Some cycle \<Rightarrow> if how = ''cycle'' then reboot_cycle cycle else reboot_onoff fuel F status
       | None \<Rightarrow> reboot_onoff fuel F status) (\<lambda>power_on.
     seqM (if \<not> power_on then logM (''Timed out waiting to power ON'' @ nl) else retM ())
          (printM ''Success: Rebooted''))))"

definition perform :: "nat \<Rightarrow> 'w power_fns \<Rightarrow> string option \<Rightarrow> ('w, int) prog" where
  \<comment> \<open>the chain \<open>if action == "on" \<dots> elif \<dots>\<close> after the status is known\<close>
  "perform fuel F status = bindM (optM ''--action'') (\<lambda>action.
     if action = PStr ''on'' then seqM (do_on fuel F) (retM EC_OK)
     else if action = PStr ''off'' then seqM (do_off fuel F) (retM EC_OK)
     else if action = PStr ''reboot'' then seqM (do_reboot fuel F status) (retM EC_OK)
     else if action = PStr ''status'' then
       bindM (upperM status) (\<lambda>up.
         seqM (printM (''Status: '' @ up)) (retM (if up = ''OFF'' then 2 else EC_OK)))
     else retM EC_OK)"

definition already_done :: "string option \<Rightarrow> ('w, bool) prog" where
  "already_done status = bindM (optM ''--action'') (\<lambda>action.
     if action = status_val status then
       (if status = Some ''on''
        then bindM device_optM (\<lambda>dev. retM (''force_on'' \<notin> set dev))
        else retM True)
     else retM False)"

definition fence_body :: "nat \<Rightarrow> 'w power_fns \<Rightarrow> ('w, int) prog" where
  "fence_body fuel F =
     seqM split_plugs
    (bindM (optM ''--action'') (\<lambda>action.
     bindM (is_list_action action) (\<lambda>listing.
       if listing then seqM (list_outlets F) (retM EC_OK)
       else bindM (if action = PStr ''monitor''
                   then bindM device_optM (\<lambda>dev.
                     retM (''port'' \<notin> set dev \<and> ''no_status'' \<in> set dev))
                   else retM False) (\<lambda>no_monitor.
         if no_monitor then retM EC_OK
         else bindM (read_status F) (\<lambda>status.
           bindM (already_done status) (\<lambda>reached.
             if reached then bindM (upperM status) (\<lambda>up.
               seqM (printM (''Success: Already '' @ up)) (retM EC_OK))
             else perform fuel F status))))))"

definition fence_handler :: "exn \<Rightarrow> ('w, int) prog option" where
  "fence_handler e = (case e of
      PexpectEOF \<Rightarrow> Some (seqM (fail EC_CONNECTION_LOST True) (retM EC_OK))
    | PexpectTIMEOUT \<Rightarrow> Some (seqM (fail EC_TIMED_OUT True) (retM EC_OK))
    | PycurlError m \<Rightarrow> Some (seqM (logM (m @ nl)) (seqM (fail EC_TIMED_OUT True) (retM EC_OK)))
    | SocketTimeout m \<Rightarrow> Some (seqM (logM (m @ nl)) (seqM (fail EC_TIMED_OUT True) (retM EC_OK)))
    | _ \<Rightarrow> None)"

definition fence_action :: "nat \<Rightarrow> 'w power_fns \<Rightarrow> ('w, int) prog" where
  "fence_action fuel F = tryM (fence_body fuel F) fence_handler"

section \<open>Delaying the action\<close>

definition run_delay :: "rat \<Rightarrow> rat \<Rightarrow> int \<Rightarrow> ('w, unit) prog" where
  \<comment> \<open>\<open>time_start\<close> is the function attribute \<open>run_delay.time_start\<close>\<close>
  "run_delay time_start reserve result =
     bindM (optM ''--action'') (\<lambda>action.
       if action \<in> {PStr ''off'', PStr ''reboot''} then
         bindM (optM ''--delay'') (\<lambda>delay.
           if delay \<noteq> PStr ''0'' \<and> result = 0 \<and> reserve \<ge> 0 then
             bindM (intoptM ''--delay'') (\<lambda>d.
             bindM (getM clock) (\<lambda>now.
               let time_left = 1 + of_int d - (now - time_start) - reserve
               in if time_left > 0 then sleepM time_left else retM ()))
           else retM ())
       else retM ())"

end
