(* ===== verification/Fence_Action_Props.thy ===== *)
theory Fence_Action_Props
  imports Fence_Action
begin

text \<open>
  What \<open>fence_action\<close> guarantees: which branch runs for which action, what is true of the
  plugs when it returns, which exit codes it can end with, and that it ends.
\<close>

section \<open>The steps, from the outside\<close>

definition split_opts :: "pydict \<Rightarrow> pydict" where
  \<comment> \<open>the options after \<open>--plug\<close> is split at the plug separator\<close>
  "split_opts d = (case (d ''--plug'', d ''--plug-separator'') of
      (Some (PStr plug), Some (PStr sep)) \<Rightarrow> d(''--plugs'' \<mapsto> PList (py_split sep plug))
    | _ \<Rightarrow> d)"

definition split_ok :: "pydict \<Rightarrow> bool" where
  "split_ok d = (case d ''--plug'' of
      None \<Rightarrow> True
    | Some (PStr _) \<Rightarrow> (case d ''--plug-separator'' of Some (PStr sep) \<Rightarrow> sep \<noteq> [] | _ \<Rightarrow> False)
    | _ \<Rightarrow> False)"

lemma split_plugs_Ret [ret_iff]:
  "split_plugs s = (Ret u, s') \<longleftrightarrow> split_ok (opts s) \<and> s' = s\<lparr>opts := split_opts (opts s)\<rparr>"
  by (auto simp: split_plugs_def split_ok_def split_opts_def ret_iff run_simps
      split: option.splits pyval.splits if_splits)

lemma split_plugs_run [run_simps]:
  "split_ok (opts s) \<Longrightarrow> split_plugs s = (Ret (), s\<lparr>opts := split_opts (opts s)\<rparr>)"
  "split_ok (opts s) \<Longrightarrow> bindM split_plugs f s = f () (s\<lparr>opts := split_opts (opts s)\<rparr>)"
  by (simp_all add: split_plugs_Ret bindM_step(1))

lemma split_opts_other [simp]: "k \<noteq> ''--plugs'' \<Longrightarrow> split_opts d k = d k"
  by (simp add: split_opts_def split: option.splits pyval.splits)

lemma split_opts_int [simp]: "k \<noteq> ''--plugs'' \<Longrightarrow> int_opt (split_opts d) k = int_opt d k"
  by (simp add: int_opt_def)

lemma device_optM_Ret [ret_iff]:
  "device_optM s = (Ret l, s') \<longleftrightarrow> opts s ''device_opt'' = Some (PList l) \<and> s' = s"
  by (auto simp: device_optM_def optM_def bindM_def retM_def raiseM_def
      split: pyval.splits option.splits)

lemma device_optM_run [run_simps]:
  "opts s ''device_opt'' = Some (PList l) \<Longrightarrow> device_optM s = (Ret l, s)"
  "opts s ''device_opt'' = Some (PList l) \<Longrightarrow> bindM device_optM f s = f l s"
  by (simp_all add: device_optM_Ret bindM_step(1))

lemma lowerM_Ret [ret_iff]: "lowerM v s = (Ret t, s') \<longleftrightarrow> (\<exists>x. v = PStr x \<and> t = py_lower x) \<and> s' = s"
  by (auto simp: lowerM_def ret_iff split: pyval.splits)

lemma upperM_Ret [ret_iff]: "upperM v s = (Ret t, s') \<longleftrightarrow> (\<exists>x. v = Some x \<and> t = py_upper x) \<and> s' = s"
  by (auto simp: upperM_def ret_iff split: option.splits)

lemma callM_Some [simp]: "callM (Some m) = m"
  by (simp add: callM_def)

lemma not_Exit_simps [exit_iff]:
  "device_optM s = (Exit c, s') \<longleftrightarrow> False"
  "lowerM v s = (Exit c, s') \<longleftrightarrow> False"
  "upperM w s = (Exit c, s') \<longleftrightarrow> False"
  "split_plugs s = (Exit c, s') \<longleftrightarrow> False"
  by (auto simp: device_optM_def lowerM_def upperM_def split_plugs_def exit_iff ret_iff
      split: pyval.splits option.splits if_splits)

lemma not_Running_simps [running_iff]:
  "device_optM s = (Running, s') \<longleftrightarrow> False"
  "lowerM v s = (Running, s') \<longleftrightarrow> False"
  "upperM w s = (Running, s') \<longleftrightarrow> False"
  "split_plugs s = (Running, s') \<longleftrightarrow> False"
  "is_list_action a s = (Running, s') \<longleftrightarrow> False"
  "already_done w s = (Running, s') \<longleftrightarrow> False"
  by (auto simp: device_optM_def lowerM_def upperM_def split_plugs_def is_list_action_def
      already_done_def running_iff ret_iff split: pyval.splits option.splits if_splits)

lemma read_status_Ret [ret_iff]:
  "read_status F s = (Ret st, s') \<longleftrightarrow>
     (\<exists>dev. opts s ''device_opt'' = Some (PList dev) \<and>
       (if ''no_status'' \<in> set dev then st = None \<and> s' = s
        else get_multi_power_fn (callM (get_power_fn F)) s = (Ret st, s') \<and>
          st \<in> {Some ''on'', Some ''off''}))"
  by (auto simp: read_status_def ret_iff split: if_splits)

lemma fence_handler_Ret: "fence_handler e = Some n \<Longrightarrow> n s \<noteq> (Ret r, s')"
  by (auto simp: fence_handler_def ret_iff split: exn.splits)

lemma fence_handler_Exit: "fence_handler e = Some n \<Longrightarrow> n s = (Exit c, s') \<Longrightarrow> c = 1"
  by (auto simp: fence_handler_def ret_iff exit_iff split: exn.splits)

lemma fence_handler_Running: "fence_handler e = Some n \<Longrightarrow> n s \<noteq> (Running, s')"
  by (auto simp: fence_handler_def ret_iff running_iff split: exn.splits)

lemma fence_action_Ret: "fence_action fuel F s = (Ret r, s') \<longleftrightarrow> fence_body fuel F s = (Ret r, s')"
  using fence_handler_Ret by (fastforce simp: fence_action_def ret_iff)

text \<open>
  For the actions that change the power state \<open>fence_body\<close> is: split, read the status,
  stop if it is already reached, perform.
\<close>

definition status_then_perform :: "nat \<Rightarrow> 'w power_fns \<Rightarrow> ('w, int) prog" where
  "status_then_perform fuel F =
     bindM (read_status F) (\<lambda>status.
       bindM (already_done status) (\<lambda>reached.
         if reached then bindM (upperM status) (\<lambda>up.
           seqM (printM (''Success: Already '' @ up)) (retM EC_OK))
         else perform fuel F status))"

lemma fence_body_power_action:
  assumes "opts s ''--action'' = Some (PStr a)" and "a \<notin> {''list'', ''list-status'', ''monitor''}"
    and "split_ok (opts s)"
  shows "fence_body fuel F s = status_then_perform fuel F (s\<lparr>opts := split_opts (opts s)\<rparr>)"
  using assms by (simp add: fence_body_def status_then_perform_def run_simps is_list_action_def)

lemma fence_body_split_ok: "fence_body fuel F s = (Ret r, s') \<Longrightarrow> split_ok (opts s)"
  by (auto simp: fence_body_def ret_iff)

lemma already_done_Ret [ret_iff]:
  "already_done st s = (Ret b, s') \<longleftrightarrow> s' = s \<and> (\<exists>a. opts s ''--action'' = Some a \<and>
     (if a = status_val st then
        (if st = Some ''on'' then \<exists>dev. opts s ''device_opt'' = Some (PList dev) \<and> b = (''force_on'' \<notin> set dev)
         else b)
      else \<not> b))"
  by (auto simp: already_done_def ret_iff split: if_splits)

lemma fence_power_stages:
  assumes run: "fence_action fuel F s = (Ret r, s')"
    and a: "opts s ''--action'' = Some (PStr a)" "a \<notin> {''list'', ''list-status'', ''monitor''}"
  obtains st s1 reached where "read_status F (s\<lparr>opts := split_opts (opts s)\<rparr>) = (Ret st, s1)"
    and "already_done st s1 = (Ret reached, s1)"
    and "reached \<Longrightarrow> r = 0 \<and> (\<exists>t. s' = s1\<lparr>outp := t\<rparr>)"
    and "\<not> reached \<Longrightarrow> perform fuel F st s1 = (Ret r, s')"
proof -
  let ?s = "s\<lparr>opts := split_opts (opts s)\<rparr>"
  have body: "fence_body fuel F s = (Ret r, s')" using run by (simp add: fence_action_Ret)
  then have "status_then_perform fuel F ?s = (Ret r, s')"
    using fence_body_power_action [OF a fence_body_split_ok [OF body], of fuel F] by simp
  then obtain st s1 reached where st: "read_status F ?s = (Ret st, s1)"
    and dn: "already_done st s1 = (Ret reached, s1)"
    and rest: "(if reached then bindM (upperM st) (\<lambda>up.
        seqM (printM (''Success: Already '' @ up)) (retM EC_OK)) else perform fuel F st) s1 = (Ret r, s')"
    by (auto simp: status_then_perform_def ret_iff)
  show thesis
  proof (rule that [OF st dn])
    show "reached \<Longrightarrow> r = 0 \<and> (\<exists>t. s' = s1\<lparr>outp := t\<rparr>)" using rest by (auto simp: ret_iff EC_defs)
    show "\<not> reached \<Longrightarrow> perform fuel F st s1 = (Ret r, s')" using rest by simp
  qed
qed

lemma perform_power:
  "opts s ''--action'' = Some (PStr ''on'') \<Longrightarrow> perform fuel F st s = seqM (do_on fuel F) (retM 0) s"
  "opts s ''--action'' = Some (PStr ''off'') \<Longrightarrow> perform fuel F st s = seqM (do_off fuel F) (retM 0) s"
  "opts s ''--action'' = Some (PStr ''reboot'') \<Longrightarrow> perform fuel F st s = seqM (do_reboot fuel F st) (retM 0) s"
  "opts s ''--action'' = Some (PStr ''status'') \<Longrightarrow> perform fuel F st s =
     bindM (upperM st) (\<lambda>up. seqM (printM (''Status: '' @ up)) (retM (if up = ''OFF'' then 2 else 0))) s"
  by (simp_all add: perform_def run_simps EC_defs cong: if_cong)

lemma already_done_reached:
  "already_done st s = (Ret True, s') \<Longrightarrow> opts s ''--action'' = Some (PStr a) \<Longrightarrow> st = Some a"
  by (auto simp: ret_iff status_val_def split: if_splits option.splits)

section \<open>Off\<close>

lemma switch_async:
  "set_power_fn F = Some set_power \<Longrightarrow> get_power_fn F = Some get_power \<Longrightarrow>
     switch fuel F n = async_set_multi_power_fn fuel set_power get_power n"
  by (simp add: switch_def set_multi_power_fn_def)

context status_reader
begin

lemma read_status_reads:
  assumes "get_power_fn F = Some get_power" and "read_status F s = (Ret (Some t), s')"
    and "plugs_of (opts s) = Some ps" and "cfg_ok s"
  shows "multi_status (map (status_of s) ps) = Some t" "status_of s' = status_of s" "agree (opts s) (opts s')"
  using assms get_multi_power_fn_reads [of s "Some t" s' ps] by (auto simp: ret_iff split: if_splits)

lemma read_status_cfg:
  assumes "get_power_fn F = Some get_power" and "read_status F s = (Ret st, s')"
    and "plugs_of (opts s) = Some ps" and "cfg_ok s"
  shows "cfg_ok s'"
  using assms get_multi_power_fn_reads(4) [of s st s' ps] by (auto simp: ret_iff split: if_splits)

end

context power_device
begin

lemma read_status_agree:
  assumes "get_power_fn F = Some get_power" and "read_status F s = (Ret st, s')"
  shows "agree (opts s) (opts s')"
  using assms by (auto simp: ret_iff dest: get_multi_agree split: if_splits)

lemma do_off_confirmed:
  assumes F: "get_power_fn F = Some get_power" "set_power_fn F = Some set_power"
    and run: "do_off fuel F s = (Ret u, s')"
    and ps: "plugs_of (opts s) = Some ps" and i: "cfg_ok s" and a: "opts s ''--action'' = Some (PStr ''off'')"
  shows "\<forall>p\<in>set ps. status_of s' p = Some ''off''"
proof -
  from run obtain s1 where "async_set_multi_power_fn fuel set_power get_power 1 s = (Ret True, s1)"
    and s': "s' = s1\<lparr>outp := outp s1 @ [''Success: Powered OFF'']\<rparr>"
    by (auto simp: do_off_def ret_iff switch_async [OF F(2,1)] split: if_splits)
  with ps a i have "multi_status (map (status_of s1) ps) = Some ''off''"
    by (blast intro: async_switch_confirmed)
  with s' show ?thesis by (auto simp: multi_status_off power_outp)
qed

lemma off_confirmed_aux:
  assumes F: "get_power_fn F = Some get_power" "set_power_fn F = Some set_power"
    and a: "opts s ''--action'' = Some (PStr ''off'')"
    and run: "fence_action fuel F s = (Ret r, s')"
    and ps: "plugs_of (split_opts (opts s)) = Some ps"
    and i: "cfg_ok (s\<lparr>opts := split_opts (opts s)\<rparr>)"
  shows "r = 0 \<and> (\<forall>p\<in>set ps. status_of s' p = Some ''off'')"
  using run a
proof (rule fence_power_stages)
  fix st s1 reached
  assume st: "read_status F (s\<lparr>opts := split_opts (opts s)\<rparr>) = (Ret st, s1)"
    and dn: "already_done st s1 = (Ret reached, s1)"
    and yes: "reached \<Longrightarrow> r = 0 \<and> (\<exists>t. s' = s1\<lparr>outp := t\<rparr>)"
    and no: "\<not> reached \<Longrightarrow> perform fuel F st s1 = (Ret r, s')"
  note agr = read_status_agree [OF F(1) st]
  have a1: "opts s1 ''--action'' = Some (PStr ''off'')" using a agreeD [OF agr] by simp
  have ps1: "plugs_of (opts s1) = Some ps" using ps agree_plugs [OF agr] by simp
  have i1: "cfg_ok s1" using read_status_cfg [OF F(1) st _ i] ps by simp
  show ?thesis
  proof (cases reached)
    case True
    with dn a1 have "st = Some ''off''" by (simp add: already_done_reached)
    with read_status_reads [OF F(1), of "s\<lparr>opts := split_opts (opts s)\<rparr>"] st ps i
    have "multi_status (map (status_of s1) ps) = Some ''off''" by simp
    with yes [OF True] show ?thesis by (auto simp: multi_status_off power_outp)
  next
    case False
    with no perform_power(2) [OF a1] have "do_off fuel F s1 = (Ret (), s')" "r = 0"
      by (auto simp: ret_iff)
    with do_off_confirmed [OF F _ ps1 i1 a1] show ?thesis by blast
  qed
qed simp

end

section \<open>What the action ends with\<close>

text \<open>A returned result is 0, or 2 for a status action that read off.\<close>

lemma list_outlets_result: "seqM (list_outlets F) (retM EC_OK) s = (Ret r, s') \<Longrightarrow> r = 0"
  by (auto simp: ret_iff EC_defs)

lemma perform_Ret:
  assumes "perform fuel F st s = (Ret r, s')"
  shows "r = 0 \<or> r = 2 \<and> opts s ''--action'' = Some (PStr ''status'') \<and> (\<exists>t. st = Some t \<and> py_upper t = ''OFF'')"
  using assms by (auto simp: perform_def ret_iff EC_defs split: if_splits)

lemma read_status_action:
  "opts s ''--action'' = Some a \<Longrightarrow> is_list_action a s = (Ret b, s') \<Longrightarrow> s' = s"
  by (auto simp: is_list_action_def ret_iff split: if_splits)

lemma status_then_perform_Ret:
  assumes "status_then_perform fuel F s = (Ret r, s')"
  obtains st s1 where "read_status F s = (Ret st, s1)"
    and "r = 0 \<or> r = 2 \<and> opts s1 ''--action'' = Some (PStr ''status'') \<and> st = Some ''off''"
proof -
  from assms obtain st s1 reached where st: "read_status F s = (Ret st, s1)"
    and dn: "already_done st s1 = (Ret reached, s1)"
    and rest: "(if reached then bindM (upperM st) (\<lambda>up.
        seqM (printM (''Success: Already '' @ up)) (retM EC_OK)) else perform fuel F st) s1 = (Ret r, s')"
    by (auto simp: status_then_perform_def ret_iff)
  from st have two: "st \<in> {None, Some ''on'', Some ''off''}" by (auto simp: ret_iff split: if_splits)
  have up: "py_upper ''on'' \<noteq> ''OFF''" by code_simp
  show thesis
  proof (rule that [OF st])
    show "r = 0 \<or> r = 2 \<and> opts s1 ''--action'' = Some (PStr ''status'') \<and> st = Some ''off''"
    proof (cases reached)
      case True
      with rest show ?thesis by (auto simp: ret_iff EC_defs)
    next
      case False
      with rest perform_Ret [of fuel F st s1 r s'] two up show ?thesis by auto
    qed
  qed
qed

lemma fence_body_status:
  assumes "fence_body fuel F s = (Ret r, s')" and "r \<noteq> 0"
  shows "status_then_perform fuel F (s\<lparr>opts := split_opts (opts s)\<rparr>) = (Ret r, s')"
  using assms unfolding fence_body_def status_then_perform_def [symmetric]
  by (auto simp: ret_iff EC_defs is_list_action_def split: if_splits)

section \<open>Status\<close>

context status_reader
begin

lemma status_answer:
  assumes F: "get_power_fn F = Some get_power"
    and a: "opts s ''--action'' = Some (PStr ''status'')"
    and run: "fence_action fuel F s = (Ret r, s')"
    and ps: "plugs_of (split_opts (opts s)) = Some ps"
    and i: "cfg_ok (s\<lparr>opts := split_opts (opts s)\<rparr>)"
    and frame: "status_of (s\<lparr>opts := split_opts (opts s)\<rparr>) = status_of s"
  shows "(r = 2 \<longleftrightarrow> (\<forall>p\<in>set ps. status_of s p = Some ''off'')) \<and>
     (r \<noteq> 2 \<longrightarrow> r = 0 \<and> multi_status (map (status_of s) ps) = Some ''on'')"
  using run a
proof (rule fence_power_stages)
  fix st s1 reached
  assume st: "read_status F (s\<lparr>opts := split_opts (opts s)\<rparr>) = (Ret st, s1)"
    and dn: "already_done st s1 = (Ret reached, s1)"
    and no: "\<not> reached \<Longrightarrow> perform fuel F st s1 = (Ret r, s')"
  have a1: "opts s1 ''--action'' = Some (PStr ''status'')"
    using st a agreeD [OF get_multi_agree] by (auto simp: ret_iff F split: if_splits)
  have st_val: "st \<in> {None, Some ''on'', Some ''off''}" using st by (auto simp: ret_iff split: if_splits)
  with dn a1 already_done_reached have "\<not> reached" by fastforce
  with no perform_power(4) [OF a1] obtain t where t: "st = Some t" and r: "r = (if py_upper t = ''OFF'' then 2 else 0)"
    by (auto simp: ret_iff)
  have m: "multi_status (map (status_of s) ps) = Some t"
    using read_status_reads(1) [OF F st [unfolded t] _ i] ps frame by simp
  have up: "py_upper ''on'' \<noteq> ''OFF''" "py_upper ''off'' = ''OFF''" by code_simp+
  show ?thesis
    using m r t st_val up multi_status_off [of "map (status_of s) ps"] by auto
qed simp

end

section \<open>On and reboot\<close>

context power_device
begin

lemma on_confirmed_aux:
  assumes F: "get_power_fn F = Some get_power" "set_power_fn F = Some set_power"
    and a: "opts s ''--action'' = Some (PStr ''on'')"
    and run: "fence_action fuel F s = (Ret r, s')"
    and ps: "plugs_of (split_opts (opts s)) = Some ps"
    and i: "cfg_ok (s\<lparr>opts := split_opts (opts s)\<rparr>)"
  shows "r = 0 \<and> multi_status (map (status_of s') ps) = Some ''on''"
  using run a
proof (rule fence_power_stages)
  fix st s1 reached
  assume st: "read_status F (s\<lparr>opts := split_opts (opts s)\<rparr>) = (Ret st, s1)"
    and dn: "already_done st s1 = (Ret reached, s1)"
    and yes: "reached \<Longrightarrow> r = 0 \<and> (\<exists>t. s' = s1\<lparr>outp := t\<rparr>)"
    and no: "\<not> reached \<Longrightarrow> perform fuel F st s1 = (Ret r, s')"
  note agr = read_status_agree [OF F(1) st]
  have a1: "opts s1 ''--action'' = Some (PStr ''on'')" using a agreeD [OF agr] by simp
  have ps1: "plugs_of (opts s1) = Some ps" using ps agree_plugs [OF agr] by simp
  have i1: "cfg_ok s1" using read_status_cfg [OF F(1) st _ i] ps by simp
  show ?thesis
  proof (cases reached)
    case True
    with dn a1 have "st = Some ''on''" by (simp add: already_done_reached)
    with read_status_reads [OF F(1), of "s\<lparr>opts := split_opts (opts s)\<rparr>"] st ps i
    have "multi_status (map (status_of s1) ps) = Some ''on''" by simp
    with yes [OF True] show ?thesis by (auto simp: power_outp)
  next
    case False
    with no perform_power(1) [OF a1] have on: "do_on fuel F s1 = (Ret (), s')" and "r = 0"
      by (auto simp: ret_iff)
    from on obtain n s2 where "async_set_multi_power_fn fuel set_power get_power (1 + n) s1 = (Ret True, s2)"
      and s': "s' = s2\<lparr>outp := outp s2 @ [''Success: Powered ON'']\<rparr>"
      by (auto simp: do_on_def ret_iff switch_async [OF F(2,1)] split: if_splits)
    with async_switch_confirmed [OF this(1) ps1 i1 a1] \<open>r = 0\<close> show ?thesis by (simp add: power_outp)
  qed
qed simp

end

subsection \<open>Reboot by off and on\<close>

definition on_phase :: "nat \<Rightarrow> 'w power_fns \<Rightarrow> ('w, bool) prog" where
  "on_phase fuel F =
     seqM (setoptM ''--action'' (PStr ''on''))
    (bindM (tryM (bindM (intoptM ''--retry-on'') (\<lambda>r. switch fuel F r)) (\<lambda>_. Some (retM False)))
       (\<lambda>power_on. seqM (setoptM ''--action'' (PStr ''reboot'')) (retM power_on)))"

lemma reboot_onoff_Ret:
  "reboot_onoff fuel F st s = (Ret b, s') \<longleftrightarrow>
     (if st = Some ''off'' then on_phase fuel F s = (Ret b, s')
      else \<exists>s2. switch fuel F 1 (s\<lparr>opts := (opts s)(''--action'' \<mapsto> PStr ''off'')\<rparr>) = (Ret True, s2) \<and>
         on_phase fuel F s2 = (Ret b, s'))"
proof (cases "st = Some ''off''")
  case True
  then show ?thesis by (simp add: reboot_onoff_def on_phase_def run_simps)
next
  case False
  then show ?thesis
    unfolding reboot_onoff_def on_phase_def [symmetric]
    by (auto simp: bindM_Ret [of "switch fuel F 1"] bindM_Ret [of "seqM m n" for m n] run_simps ret_iff split: if_splits)
qed

lemma do_reboot_Ret:
  assumes "do_reboot fuel F st s = (Ret u, s')" and "reboot_cycle_fn F = None"
  obtains b s1 where "reboot_onoff fuel F st s = (Ret b, s1)"
    and "s' = s1\<lparr>errs := errs s1 @ (if b then [] else [''Timed out waiting to power ON'' @ nl]),
           outp := outp s1 @ [''Success: Rebooted'']\<rparr>"
proof -
  from assms obtain b s1 where r: "reboot_onoff fuel F st s = (Ret b, s1)"
    and rest: "seqM (if \<not> b then logM (''Timed out waiting to power ON'' @ nl) else retM ())
          (printM ''Success: Rebooted'') s1 = (Ret u, s')"
    by (auto simp: do_reboot_def bindM_Ret [of "getM f" for f] bindM_Ret [of "lowerM v" for v]
        bindM_Ret [of "reboot_onoff fuel F st"] prims_Ret lowerM_Ret)
  show thesis by (rule that [OF r]) (use rest in \<open>cases b; auto simp: ret_iff\<close>)
qed

context power_device
begin

lemma reboot_off_first:
  assumes F: "get_power_fn F = Some get_power" "set_power_fn F = Some set_power" "reboot_cycle_fn F = None"
    and a: "opts s ''--action'' = Some (PStr ''reboot'')"
    and run: "fence_action fuel F s = (Ret r, s')"
    and ps: "plugs_of (split_opts (opts s)) = Some ps"
    and i: "cfg_ok (s\<lparr>opts := split_opts (opts s)\<rparr>)"
  shows "r = 0 \<and> (\<exists>s2 b s3. (\<forall>p\<in>set ps. status_of s2 p = Some ''off'') \<and> on_phase fuel F s2 = (Ret b, s3) \<and>
     s' = s3\<lparr>errs := errs s3 @ (if b then [] else [''Timed out waiting to power ON'' @ nl]),
             outp := outp s3 @ [''Success: Rebooted'']\<rparr>)"
  using run a
proof (rule fence_power_stages)
  fix st s1 reached
  assume st: "read_status F (s\<lparr>opts := split_opts (opts s)\<rparr>) = (Ret st, s1)"
    and dn: "already_done st s1 = (Ret reached, s1)"
    and no: "\<not> reached \<Longrightarrow> perform fuel F st s1 = (Ret r, s')"
  note agr = read_status_agree [OF F(1) st]
  have a1: "opts s1 ''--action'' = Some (PStr ''reboot'')" using a agreeD [OF agr] by simp
  have ps1: "plugs_of (opts s1) = Some ps" using ps agree_plugs [OF agr] by simp
  have i1: "cfg_ok s1" using read_status_cfg [OF F(1) st _ i] ps by simp
  have "st \<in> {None, Some ''on'', Some ''off''}" using st by (auto simp: ret_iff split: if_splits)
  with dn a1 already_done_reached have "\<not> reached" by fastforce
  with no perform_power(3) [OF a1] have rb: "do_reboot fuel F st s1 = (Ret (), s')" and "r = 0"
    by (auto simp: ret_iff)
  from rb F(3) obtain b s3 where onoff: "reboot_onoff fuel F st s1 = (Ret b, s3)"
    and s': "s' = s3\<lparr>errs := errs s3 @ (if b then [] else [''Timed out waiting to power ON'' @ nl]),
           outp := outp s3 @ [''Success: Rebooted'']\<rparr>"
    by (rule do_reboot_Ret)
  have "\<exists>s2. (\<forall>p\<in>set ps. status_of s2 p = Some ''off'') \<and> on_phase fuel F s2 = (Ret b, s3)"
  proof (cases "st = Some ''off''")
    case True
    with read_status_reads [OF F(1), of "s\<lparr>opts := split_opts (opts s)\<rparr>"] st ps i
    have "multi_status (map (status_of s1) ps) = Some ''off''" by simp
    with True onoff show ?thesis by (auto simp: reboot_onoff_Ret multi_status_off)
  next
    case False
    let ?s = "s1\<lparr>opts := (opts s1)(''--action'' \<mapsto> PStr ''off'')\<rparr>"
    from False onoff obtain s2 where sw: "async_set_multi_power_fn fuel set_power get_power 1 ?s = (Ret True, s2)"
      and on: "on_phase fuel F s2 = (Ret b, s3)"
      by (auto simp: reboot_onoff_Ret switch_async [OF F(2,1)])
    have "plugs_of (opts ?s) = Some ps" using ps1 by (simp add: plugs_of_def)
    from async_switch_confirmed [OF sw this] i1 on show ?thesis by (auto simp: multi_status_off cfg_action)
  qed
  with \<open>r = 0\<close> s' show ?thesis by blast
qed simp

end

section \<open>Reaching a state that holds already, and unknown states\<close>

lemma already_there:
  assumes a: "opts s ''--action'' = Some (PStr a)" "a \<in> {''on'', ''off''}" and ok: "split_ok (opts s)"
    and dev: "opts s ''device_opt'' = Some (PList dev)" "''no_status'' \<notin> set dev" "''force_on'' \<notin> set dev"
    and rd: "get_power_fn F = Some get_power"
      "get_multi_power_fn get_power (s\<lparr>opts := split_opts (opts s)\<rparr>) = (Ret (Some a), s1)"
    and k: "opts s1 ''--action'' = Some (PStr a)" "opts s1 ''device_opt'' = Some (PList dev)"
  shows "fence_action fuel F s = (Ret 0, s1\<lparr>outp := outp s1 @ [''Success: Already '' @ py_upper a]\<rparr>)"
proof -
  let ?s = "s\<lparr>opts := split_opts (opts s)\<rparr>"
  have st: "read_status F ?s = (Ret (Some a), s1)" using assms by (auto simp: read_status_Ret)
  have dn: "already_done (Some a) s1 = (Ret True, s1)"
    using k dev a(2) by (auto simp: already_done_Ret status_val_def)
  have "status_then_perform fuel F ?s = (Ret 0, s1\<lparr>outp := outp s1 @ [''Success: Already '' @ py_upper a]\<rparr>)"
    using st dn by (simp add: status_then_perform_def bindM_step(1) upperM_def run_simps EC_defs)
  with fence_body_power_action [OF a(1) _ ok, of fuel F] a(2) show ?thesis
    by (auto simp: fence_action_Ret)
qed

lemma unknown_status:
  assumes a: "opts s ''--action'' = Some (PStr a)" "a \<notin> {''list'', ''list-status'', ''monitor''}"
    and ok: "split_ok (opts s)" and dev: "opts s ''device_opt'' = Some (PList dev)" "''no_status'' \<notin> set dev"
    and rd: "get_power_fn F = Some get_power"
      "get_multi_power_fn get_power (s\<lparr>opts := split_opts (opts s)\<rparr>) = (Ret st, s1)"
    and st: "st \<notin> {Some ''on'', Some ''off''}"
  shows "\<exists>m. fence_action fuel F s = (Exit 1, s1\<lparr>errs := errs s1 @ [m @ nl @ nl]\<rparr>)"
proof -
  let ?s = "s\<lparr>opts := split_opts (opts s)\<rparr>"
  have "\<exists>m. fail_message EC_STATUS = Some m" using fail_message_known [of EC_STATUS] by (auto simp: EC_defs)
  then obtain m where m: "fail_message EC_STATUS = Some m" ..
  then have fl: "fail EC_STATUS True s1 = (Exit 1, s1\<lparr>errs := errs s1 @ [m @ nl @ nl]\<rparr>)" by (simp add: fail_Exit)
  have "read_status F ?s = (Exit 1, s1\<lparr>errs := errs s1 @ [m @ nl @ nl]\<rparr>)"
    using dev st rd fl unfolding read_status_def by (simp add: run_simps bindM_step(1,3))
  then have "fence_body fuel F s = (Exit 1, s1\<lparr>errs := errs s1 @ [m @ nl @ nl]\<rparr>)"
    using fence_body_power_action [OF a ok, of fuel F] by (simp add: status_then_perform_def bindM_step(3))
  then show ?thesis by (auto simp: fence_action_def tryM_step)
qed

section \<open>Exit codes\<close>

text \<open>A process that ends through \<open>sys.exit\<close> inside the library ends with code 1.\<close>

named_theorems exits_intro \<open>programs that exit with code 1 only\<close>

definition exits_1 :: "('w, 'a) prog \<Rightarrow> bool" where
  "exits_1 m \<longleftrightarrow> (\<forall>s c s'. m s = (Exit c, s') \<longrightarrow> c = 1)"

lemma exits_1_bind [exits_intro]: "exits_1 m \<Longrightarrow> (\<And>x. exits_1 (n x)) \<Longrightarrow> exits_1 (bindM m n)"
  unfolding exits_1_def bindM_Exit by blast

lemma exits_1_prims [exits_intro]:
  "exits_1 (retM x)" "exits_1 (raiseM e)" "exits_1 (getM f)" "exits_1 (modM g)" "exits_1 (hasoptM k)"
  "exits_1 (setoptM k v)" "exits_1 (deloptM k)" "exits_1 (optM k)" "exits_1 (printM t)" "exits_1 (logM t)"
  "exits_1 (sleepM d)" "exits_1 (intoptM k)" "exits_1 (sleep_opt k)" "exits_1 plugsM" "exits_1 runningM"
  "exits_1 device_optM" "exits_1 (lowerM v)" "exits_1 (upperM w)" "exits_1 split_plugs" "exits_1 (fail c stop)"
  by (auto simp: exits_1_def exit_iff ret_iff plugsM_def split: option.splits)

lemma exits_1_if [exits_intro]: "exits_1 m \<Longrightarrow> exits_1 n \<Longrightarrow> exits_1 (if b then m else n)"
  by simp

lemma exits_1_try [exits_intro]:
  "exits_1 m \<Longrightarrow> (\<And>e n. h e = Some n \<Longrightarrow> exits_1 n) \<Longrightarrow> exits_1 (tryM m h)"
  unfolding exits_1_def tryM_Exit by blast

lemma exits_1_forM [exits_intro]: "(\<And>x. exits_1 (f x)) \<Longrightarrow> exits_1 (forM xs f)"
  by (induction xs) (auto intro: exits_intro)

lemma exits_1_foldM [exits_intro]: "(\<And>b x. exits_1 (f b x)) \<Longrightarrow> exits_1 (foldM f b xs)"
  by (induction xs arbitrary: b) (auto intro: exits_intro)

lemma exits_1_set_plug [exits_intro]: "exits_1 (set_plug p)"
  unfolding set_plug_def by (cases "py_uuid p") (auto intro: exits_intro)

lemma exits_1_get_multi [exits_intro]: "exits_1 g \<Longrightarrow> exits_1 (get_multi_power_fn g)"
  unfolding get_multi_power_fn_def by (intro exits_intro)

lemma exits_1_poll [exits_intro]: "exits_1 g \<Longrightarrow> exits_1 (poll_status n i g)"
  by (induction n arbitrary: i) (simp_all add: exits_intro)

lemma exits_1_attempts [exits_intro]: "exits_1 f \<Longrightarrow> exits_1 g \<Longrightarrow> exits_1 (async_attempts fuel f g ps k)"
  by (induction k) (simp_all add: exits_intro set_all_plugs_def)

lemma exits_1_retry [exits_intro]: "exits_1 f \<Longrightarrow> exits_1 (retry_until k f)"
  by (induction k) (simp_all add: exits_intro)

definition fns_exit_1 :: "'w power_fns \<Rightarrow> bool" where
  "fns_exit_1 F \<longleftrightarrow> (\<forall>m. set_power_fn F = Some m \<longrightarrow> exits_1 m) \<and> (\<forall>m. get_power_fn F = Some m \<longrightarrow> exits_1 m) \<and>
     (\<forall>m. get_outlet_list F = Some m \<longrightarrow> exits_1 m) \<and> (\<forall>m. reboot_cycle_fn F = Some m \<longrightarrow> exits_1 m) \<and>
     (\<forall>m. sync_set_power_fn F = Some m \<longrightarrow> exits_1 m)"

lemma exits_1_callM: "(\<And>m. f = Some m \<Longrightarrow> exits_1 m) \<Longrightarrow> exits_1 (callM f)"
  by (cases f) (auto simp: callM_def intro: exits_intro)

lemma exits_1_switch: "fns_exit_1 F \<Longrightarrow> exits_1 (switch fuel F n)"
  unfolding switch_def set_multi_power_fn_def async_set_multi_power_fn_def sync_set_multi_power_fn_def
  by (auto simp: fns_exit_1_def intro!: exits_intro split: option.splits)

lemma exits_1_read_status: "fns_exit_1 F \<Longrightarrow> exits_1 (read_status F)"
  unfolding read_status_def by (auto simp: fns_exit_1_def intro!: exits_intro exits_1_callM)

lemma exits_1_print_outlet: "exits_1 (print_outlet x)"
  by (auto simp: print_outlet_def intro!: exits_intro split: prod.splits pyval.splits)

lemma exits_1_list_outlets: "fns_exit_1 F \<Longrightarrow> exits_1 (list_outlets F)"
  unfolding list_outlets_def
  by (auto simp: fns_exit_1_def intro!: exits_intro exits_1_print_outlet split: option.splits)

lemma exits_1_do_reboot: "fns_exit_1 F \<Longrightarrow> exits_1 (do_reboot fuel F st)"
  unfolding do_reboot_def reboot_onoff_def reboot_cycle_def multi_reboot_cycle_fn_def
  by (auto simp: fns_exit_1_def intro!: exits_intro exits_1_switch split: option.splits)

lemma exits_1_perform: "fns_exit_1 F \<Longrightarrow> exits_1 (perform fuel F st)"
  unfolding perform_def do_on_def do_off_def
  by (intro exits_intro exits_1_do_reboot exits_1_switch)

lemma exits_1_fence_action: "fns_exit_1 F \<Longrightarrow> exits_1 (fence_action fuel F)"
  unfolding fence_action_def fence_body_def is_list_action_def already_done_def
  using fence_handler_Exit
  by (intro exits_intro exits_1_perform exits_1_read_status exits_1_list_outlets) (auto simp: exits_1_def)

section \<open>Termination\<close>

text \<open>
  \<open>ends_from I m\<close>: started in a state that satisfies \<open>I\<close>, \<open>m\<close> does not run out of fuel;
  \<open>safe I m\<close>: and it leaves \<open>I\<close> true when it returns.
\<close>

definition ends_from :: "('w st \<Rightarrow> bool) \<Rightarrow> ('w, 'a) prog \<Rightarrow> bool" where
  "ends_from I m \<longleftrightarrow> (\<forall>s s'. I s \<longrightarrow> m s \<noteq> (Running, s'))"

definition safe :: "('w st \<Rightarrow> bool) \<Rightarrow> ('w, 'a) prog \<Rightarrow> bool" where
  "safe I m \<longleftrightarrow> ends_from I m \<and> (\<forall>s r s'. I s \<longrightarrow> m s = (Ret r, s') \<longrightarrow> I s')"

named_theorems ends_intro \<open>programs that end\<close>

lemma ends_bind [ends_intro]: "safe I m \<Longrightarrow> (\<And>x. ends_from I (n x)) \<Longrightarrow> ends_from I (bindM m n)"
  unfolding ends_from_def safe_def bindM_Running by blast

lemma ends_if [ends_intro]: "ends_from I m \<Longrightarrow> ends_from I n \<Longrightarrow> ends_from I (if b then m else n)"
  by simp

lemma ends_retM [ends_intro]: "ends_from I (retM x)"
  by (simp add: ends_from_def running_iff)

lemma safe_if [ends_intro]: "safe I m \<Longrightarrow> safe I n \<Longrightarrow> safe I (if b then m else n)"
  by simp

lemma safe_bind [ends_intro]: "safe I m \<Longrightarrow> (\<And>x. safe I (n x)) \<Longrightarrow> safe I (bindM m n)"
  unfolding safe_def ends_from_def bindM_Running bindM_Ret by blast

lemma ends_try: "ends_from I m \<Longrightarrow> (\<And>e n s s'. h e = Some n \<Longrightarrow> n s \<noteq> (Running, s')) \<Longrightarrow> ends_from I (tryM m h)"
  unfolding ends_from_def tryM_Running by blast

lemma ends_bind_total:
  "ends_from I m \<Longrightarrow> (\<And>x s s'. n x s \<noteq> (Running, s')) \<Longrightarrow> ends_from I (bindM m n)"
  unfolding ends_from_def bindM_Running by blast

lemma foldM_not_Running:
  "(\<And>b x s s'. f b x s \<noteq> (Running, s')) \<Longrightarrow> foldM f b xs s \<noteq> (Running, s')"
  by (induction xs arbitrary: b s) (auto simp: running_iff)

lemma ends_total: "(\<And>s s'. m s \<noteq> (Running, s')) \<Longrightarrow> ends_from I m"
  by (simp add: ends_from_def)

definition timeout_is :: "int \<Rightarrow> 'w st \<Rightarrow> bool" where
  "timeout_is T s \<longleftrightarrow> int_opt (opts s) ''--power-timeout'' = Some T"

lemma safe_prims [ends_intro]:
  "safe (timeout_is T) (retM x)" "safe (timeout_is T) (getM f)" "safe (timeout_is T) (optM k)"
  "safe (timeout_is T) device_optM" "safe (timeout_is T) (intoptM k)" "safe (timeout_is T) split_plugs"
  "safe (timeout_is T) (already_done st)" "safe (timeout_is T) (fail c stop)" "safe (timeout_is T) (printM t)"
  "safe (timeout_is T) (logM t)"  "safe (timeout_is T) (lowerM v)" "safe (timeout_is T) (upperM u)"
  "k \<noteq> ''--power-timeout'' \<Longrightarrow> safe (timeout_is T) (setoptM k v)"
  by (auto simp: safe_def ends_from_def running_iff ret_iff timeout_is_def)

lemma safe_agree:
  assumes m: "ends_from (timeout_is T) m" and keeps: "\<And>s r s'. m s = (Ret r, s') \<Longrightarrow> agree (opts s) (opts s')"
  shows "safe (timeout_is T) m"
  unfolding safe_def
proof (intro conjI allI impI m)
  fix s r s' assume "timeout_is T s" and run: "m s = (Ret r, s')"
  then show "timeout_is T s'" using agree_int [OF keeps [OF run], of "''--power-timeout''"]
    by (simp add: timeout_is_def)
qed

lemma ends_safe: "safe I m \<Longrightarrow> ends_from I m"
  by (simp add: safe_def)

lemma print_outlet_not_Running: "forM xs print_outlet s \<noteq> (Running, s')"
  by (induction xs arbitrary: s)
    (auto simp: print_outlet_def running_iff ret_iff split: prod.splits if_splits pyval.splits)

context power_device
begin

lemma async_attempts_agree:
  "async_attempts fuel set_power get_power ps k s = (Ret b, s') \<Longrightarrow> agree (opts s) (opts s')"
proof (induction k arbitrary: s)
  case 0
  then show ?case by (simp add: ret_iff)
next
  case (Suc k)
  from Suc.prems obtain s1 b1 s2 where s1: "set_all_plugs set_power ps s = (Ret (), s1)"
    and poll: "poll_status fuel 1 get_power s1 = (Ret b1, s2)"
    and rest: "(if b1 then retM True else async_attempts fuel set_power get_power ps k) s2 = (Ret b, s')"
    by (auto simp: bindM_Ret)
  have "agree (opts s) (opts s2)"
    using setter.set_all_plugs_agree [OF s1] poll_agree [OF poll] by (rule agree_trans)
  moreover have "agree (opts s2) (opts s')"
    using rest Suc.IH [of s2] by (cases b1) (auto simp: ret_iff)
  ultimately show ?case by (rule agree_trans)
qed

end

context ending_device
begin

lemma safe_switch:
  assumes F: "get_power_fn F = Some get_power" "set_power_fn F = Some set_power"
    and T: "0 < T" "nat T \<le> fuel"
  shows "safe (timeout_is T) (switch fuel F n)"
proof (rule safe_agree)
  show "ends_from (timeout_is T) (switch fuel F n)"
    unfolding ends_from_def timeout_is_def switch_async [OF F(2,1)] using async_switch_ends T by blast
next
  fix s r s' assume "switch fuel F n s = (Ret r, s')"
  then show "agree (opts s) (opts s')"
    using async_attempts_agree by (auto simp: switch_async [OF F(2,1)] async_set_multi_power_fn_def ret_iff)
qed

lemma safe_read_status: "get_power_fn F = Some get_power \<Longrightarrow> safe (timeout_is T) (read_status F)"
proof (rule safe_agree)
  assume F: "get_power_fn F = Some get_power"
  show "ends_from (timeout_is T) (read_status F)"
    unfolding ends_from_def read_status_def F
    by (auto simp: running_iff ret_iff get_multi_not_Running [OF get_ends] split: if_splits)
  show "agree (opts s) (opts s')" if "read_status F s = (Ret r, s')" for s r s'
    by (rule read_status_agree [OF F that])
qed

lemma ends_reboot:
  assumes F: "get_power_fn F = Some get_power" "set_power_fn F = Some set_power"
    and cyc: "\<And>m s s'. reboot_cycle_fn F = Some m \<Longrightarrow> m s \<noteq> (Running, s')"
    and T: "0 < T" "nat T \<le> fuel"
  shows "ends_from (timeout_is T) (do_reboot fuel F st)"
proof -
  have attempt: "ends_from (timeout_is T) (tryM (bindM (intoptM ''--retry-on'') (switch fuel F)) (\<lambda>_. Some (retM False)))"
    by (rule ends_try) (auto intro!: ends_intro safe_switch F T ends_safe simp: running_iff)
  have onoff: "ends_from (timeout_is T) (reboot_onoff fuel F st)"
    unfolding reboot_onoff_def
    by (intro ends_intro safe_switch F T ends_bind_total [OF attempt]) (auto simp: running_iff)
  have cycle: "ends_from (timeout_is T) (reboot_cycle m)" if "reboot_cycle_fn F = Some m" for m
  proof -
    have "retry_until n m s \<noteq> (Running, s')" for n s s'
      using cyc [OF that] by (rule retry_until_not_Running)
    then have "multi_reboot_cycle_fn m n s \<noteq> (Running, s')" for n s s'
      unfolding multi_reboot_cycle_fn_def bindM_Running
      by (auto intro!: foldM_not_Running simp: running_iff)
    then show ?thesis
      unfolding reboot_cycle_def by (intro ends_total) (auto simp: running_iff split: if_splits)
  qed
  show ?thesis unfolding do_reboot_def
    by (intro ends_intro ends_bind_total) (auto simp: onoff cycle running_iff split: option.splits if_splits)
qed

lemma fence_action_ends:
  assumes F: "get_power_fn F = Some get_power" "set_power_fn F = Some set_power"
    and cyc: "\<And>m s s'. reboot_cycle_fn F = Some m \<Longrightarrow> m s \<noteq> (Running, s')"
    and lst: "\<And>m s s'. get_outlet_list F = Some m \<Longrightarrow> m s \<noteq> (Running, s')"
    and T: "0 < T" "nat T \<le> fuel"
  shows "ends_from (timeout_is T) (fence_action fuel F)"
proof -
  have lists: "list_outlets F s \<noteq> (Running, s')" for s s'
    using lst by (auto simp: list_outlets_def running_iff print_outlet_not_Running split: option.splits if_splits)
  have perform: "ends_from (timeout_is T) (perform fuel F st)" for st
  proof -
    have tail: "retM (x::int) s \<noteq> (Running, s')" for x and s s' :: "'a st" by (simp add: running_iff)
    have "ends_from (timeout_is T) (do_on fuel F)" "ends_from (timeout_is T) (do_off fuel F)"
      unfolding do_on_def do_off_def
      by (intro ends_intro ends_total safe_switch [OF F T]; simp add: running_iff split: if_splits)+
    moreover have "ends_from (timeout_is T) (do_reboot fuel F st)"
      by (rule ends_reboot [OF F _ T]) (rule cyc)
    ultimately have parts: "ends_from (timeout_is T) (do_on fuel F)" "ends_from (timeout_is T) (do_off fuel F)"
      "ends_from (timeout_is T) (do_reboot fuel F st)" by blast+
    show ?thesis unfolding perform_def
      by (intro ends_intro parts [THEN ends_bind_total [OF _ tail]])
  qed
  have "ends_from (timeout_is T) (fence_body fuel F)"
    unfolding fence_body_def is_list_action_def
    by (intro ends_intro ends_total safe_read_status F perform)
      (auto simp: running_iff lists split: if_splits)
  then show ?thesis
    unfolding fence_action_def by (rule ends_try) (rule fence_handler_Running)
qed

end

section \<open>What an action leaves alone\<close>

context status_reader
begin

lemma status_keeps:
  assumes F: "get_power_fn F = Some get_power"
    and a: "opts s ''--action'' = Some (PStr ''status'')"
    and run: "fence_action fuel F s = (Ret r, s')"
    and ps: "plugs_of (split_opts (opts s)) = Some ps"
    and i: "cfg_ok (s\<lparr>opts := split_opts (opts s)\<rparr>)"
  shows "status_of s' = status_of (s\<lparr>opts := split_opts (opts s)\<rparr>) \<and> opts s' ''--action'' = opts s ''--action''"
  using run a
proof (rule fence_power_stages)
  fix st s1 reached
  assume st: "read_status F (s\<lparr>opts := split_opts (opts s)\<rparr>) = (Ret st, s1)"
    and dn: "already_done st s1 = (Ret reached, s1)"
    and no: "\<not> reached \<Longrightarrow> perform fuel F st s1 = (Ret r, s')"
  have a1: "opts s1 ''--action'' = Some (PStr ''status'')"
    using st a agreeD [OF get_multi_agree] by (auto simp: ret_iff F split: if_splits)
  have "st \<in> {None, Some ''on'', Some ''off''}" using st by (auto simp: ret_iff split: if_splits)
  with dn a1 already_done_reached have "\<not> reached" by fastforce
  with no perform_power(4) [OF a1] obtain t x where t: "st = Some t" and s': "s' = s1\<lparr>outp := x\<rparr>"
    by (auto simp: ret_iff)
  show ?thesis using read_status_reads(2) [OF F st [unfolded t] _ i] ps s' a a1 by (simp add: power_outp)
qed simp

end

context power_device
begin

lemma switching_keeps_action:
  assumes F: "get_power_fn F = Some get_power" "set_power_fn F = Some set_power"
    and a: "opts s ''--action'' = Some (PStr a)" "a \<in> {''on'', ''off''}"
    and run: "fence_action fuel F s = (Ret r, s')"
  shows "opts s' ''--action'' = Some (PStr a)"
proof -
  have no_list: "a \<notin> {''list'', ''list-status'', ''monitor''}" using a(2) by auto
  show ?thesis using run a(1) no_list
  proof (rule fence_power_stages)
    fix st s1 reached
    assume st: "read_status F (s\<lparr>opts := split_opts (opts s)\<rparr>) = (Ret st, s1)"
      and yes: "reached \<Longrightarrow> r = 0 \<and> (\<exists>t. s' = s1\<lparr>outp := t\<rparr>)"
      and no: "\<not> reached \<Longrightarrow> perform fuel F st s1 = (Ret r, s')"
    have a1: "opts s1 ''--action'' = Some (PStr a)" using a(1) agreeD [OF read_status_agree [OF F(1) st]] by simp
    show ?thesis
    proof (cases reached)
      case True
      with yes a1 show ?thesis by auto
    next
      case False
      with no a1 a(2) obtain n s2 where "async_set_multi_power_fn fuel set_power get_power n s1 = (Ret True, s2)"
        and "opts s' = opts s2"
        by (auto simp: perform_power(1,2) do_on_def do_off_def ret_iff switch_async [OF F(2,1)] split: if_splits)
      then have "agree (opts s1) (opts s')"
        using async_attempts_agree by (auto simp: async_set_multi_power_fn_def ret_iff)
      with a1 show ?thesis by (simp add: agree_def)
    qed
  qed
qed

end

end
