(* ===== verification/Fence_Dummy.thy ===== *)
theory Fence_Dummy
  imports Fence_Action_Props
begin

text \<open>
  \<open>agents/dummy/fence_dummy.py\<close>: the callbacks of the three modes of the dummy agent. In mode
  file the status is the text of a file, in mode fail it is a variable of the process that the
  setter spoils, in mode recorder a request file is written and the agent waits for the
  response file of an external component.

  The world: the files the agent can read with their text, the paths it can write, the variable
  \<open>plug_status\<close>, and for the recorder mode the directories that can be made, the UUIDs the
  process draws, the request files written so far, and what the external component shows at
  a path at a given time.
\<close>

section \<open>The world of the agent\<close>

datatype response =
    Absent
  | Large int                                  \<comment> \<open>more than 1 MB\<close>
  | Garbled                                    \<comment> \<open>no JSON object, or the file vanished\<close>
  | Answer "bool option" "string option"       \<comment> \<open>the keys success and message of the object\<close>

record request =
  req_id :: string
  req_action :: pyval
  req_target :: pyval

record dummy_world =
  files :: "string \<rightharpoonup> string"
  writable :: "string \<Rightarrow> bool"
  plug_status :: string
  makeable :: "string \<Rightarrow> bool"
  uuids :: "nat \<Rightarrow> string"
  drawn :: nat
  requests :: "(string \<times> request) list"
  responses :: "rat \<Rightarrow> string \<Rightarrow> response"

type_synonym 'a dummy_prog = "(dummy_world, 'a) prog"

section \<open>Mode file\<close>

definition get_power_status_file :: "string option dummy_prog" where
  "get_power_status_file = bindM (getM (\<lambda>s. (opts s, files (world s)))) (\<lambda>(od, fs).
     case od ''--status-file'' of
       Some (PStr f) \<Rightarrow> (case fs f of
           None \<Rightarrow> retM (Some ''off'')
         | Some status \<Rightarrow> retM (Some (py_lower status)))
     | _ \<Rightarrow> retM (Some ''off''))"

definition set_power_status_file :: "unit dummy_prog" where
  "set_power_status_file = bindM (optM ''--action'') (\<lambda>action.
     case action of
       PStr a \<Rightarrow>
         if a \<notin> {''on'', ''off''} then retM ()
         else bindM (optM ''--status-file'') (\<lambda>file. case file of
             PStr f \<Rightarrow> bindM (getM (\<lambda>s. writable (world s) f)) (\<lambda>ok.
               if ok then modM (\<lambda>s. s\<lparr>world := (world s)\<lparr>files := (files (world s))(f \<mapsto> a)\<rparr>\<rparr>)
               else raiseM (OSErr f))
           | _ \<Rightarrow> raiseM (TypeError ''open''))
     | _ \<Rightarrow> retM ())"

section \<open>Mode fail\<close>

definition set_plug_status :: "string \<Rightarrow> unit dummy_prog" where
  "set_plug_status t = modM (\<lambda>s. s\<lparr>world := (world s)\<lparr>plug_status := t\<rparr>\<rparr>)"

definition get_outlets_fail :: "(pyval \<times> string \<times> string) list dummy_prog" where
  \<comment> \<open>port, status, the fixed alias; the port is a value of the options dictionary\<close>
  "get_outlets_fail =
     bindM (optM ''--action'') (\<lambda>action.
     seqM (if action = PStr ''on'' then set_plug_status ''off'' else retM ())
    (bindM (getM (\<lambda>s. (opts s, plug_status (world s)))) (\<lambda>(od, st).
       if action = PStr ''list'' then
         retM [(PStr ''fake_port_1'', st, ''fake''), (PStr ''fake_port_2'', st, ''fake'')]
       else (case od ''--plug'' of
           None \<Rightarrow> seqM (fail_usage ''Failed: You have to enter existing machine!'' True) (retM [])
         | Some port \<Rightarrow> retM [(port, st, ''fake'')]))))"

definition get_power_status_fail :: "string option dummy_prog" where
  "get_power_status_fail =
     bindM get_outlets_fail (\<lambda>outlets.
     bindM (getM opts) (\<lambda>od. case od ''--plug'' of
         Some port \<Rightarrow>
           if outlets = [] then seqM (fail_usage ''Failed: You have to enter existing machine!'' True) (retM None)
           else (case map_of outlets port of
               Some (st, _) \<Rightarrow> retM (Some st)
             | None \<Rightarrow> raiseM (KeyError ''port''))
       | None \<Rightarrow> seqM (fail_usage ''Failed: You have to enter existing machine!'' True) (retM None)))"

definition set_power_status_fail :: "unit dummy_prog" where
  "set_power_status_fail =
     seqM (set_plug_status ''unknown'')
    (bindM (optM ''--action'') (\<lambda>action.
       if action = PStr ''on'' then set_plug_status ''off'' else retM ()))"

section \<open>Mode recorder\<close>

definition makedirs :: "string \<Rightarrow> unit dummy_prog" where
  "makedirs d = bindM (getM (\<lambda>s. makeable (world s) d)) (\<lambda>ok. if ok then retM () else raiseM (OSErr d))"

definition uuid4 :: "string dummy_prog" where
  "uuid4 = bindM (getM (\<lambda>s. uuids (world s) (drawn (world s)))) (\<lambda>u.
     seqM (modM (\<lambda>s. s\<lparr>world := (world s)\<lparr>drawn := Suc (drawn (world s))\<rparr>\<rparr>)) (retM u))"

definition write_request :: "string \<Rightarrow> string \<Rightarrow> request \<Rightarrow> unit dummy_prog" where
  \<comment> \<open>writing the temporary file and renaming it: the two paths must be writable\<close>
  "write_request temp_file final_file data =
     bindM (getM (\<lambda>s. writable (world s) temp_file \<and> writable (world s) final_file)) (\<lambda>ok.
       if ok then modM (\<lambda>s. s\<lparr>world := (world s)\<lparr>requests := requests (world s) @ [(final_file, data)]\<rparr>\<rparr>)
       else raiseM (OSErr temp_file))"

definition write_fence_request_recorder ::
  "pyval \<Rightarrow> string \<Rightarrow> string \<Rightarrow> string option dummy_prog" where
  "write_fence_request_recorder action target_node request_dir =
     seqM (makedirs request_dir)
    (bindM uuid4 (\<lambda>request_id.
     let filename = target_node @ ''-'' @ request_id @ ''.json'';
         temp_file = path_join request_dir (''.'' @ filename @ ''.tmp'');
         final_file = path_join request_dir filename
     in tryM (seqM (write_request temp_file final_file
                \<lparr>req_id = request_id, req_action = action, req_target = PStr target_node\<rparr>)
                (retM (Some request_id)))
             (\<lambda>_. Some (seqM (logM ''Failed to write fence request'') (retM None)))))"

text \<open>
  The waiting loop \<open>while time.time() - start_time < timeout\<close>: one round looks at the
  response file and sleeps. An answer without the key \<open>success\<close> counts as failure.
\<close>

fun wait_rounds :: "nat \<Rightarrow> string \<Rightarrow> rat \<Rightarrow> int \<Rightarrow> rat \<Rightarrow> (bool \<times> string) dummy_prog" where
  "wait_rounds 0 response_file start timeout poll_interval = runningM"
| "wait_rounds (Suc n) response_file start timeout poll_interval =
     bindM (getM clock) (\<lambda>now.
       if now - start < of_int timeout then
         bindM (getM (\<lambda>s. responses (world s) (clock s) response_file)) (\<lambda>r. case r of
             Large _ \<Rightarrow> seqM (logM ''Response file too large'')
                 (retM (False, ''Response file exceeds size limit''))
           | Answer success message \<Rightarrow>
               retM ((case success of None \<Rightarrow> False | Some b \<Rightarrow> b),
                     (case message of None \<Rightarrow> ''Fence operation completed'' | Some m \<Rightarrow> m))
           | _ \<Rightarrow> seqM (sleepM poll_interval)
                   (wait_rounds n response_file start timeout poll_interval))
       else seqM (logM ''Fence response timeout'') (retM (False, ''Fence operation timed out'')))"

definition wait_for_fence_response_recorder ::
  "nat \<Rightarrow> string \<Rightarrow> string \<Rightarrow> string \<Rightarrow> int \<Rightarrow> rat \<Rightarrow> (bool \<times> string) dummy_prog" where
  "wait_for_fence_response_recorder fuel request_id target_node response_dir timeout poll_interval =
     seqM (makedirs response_dir)
    (bindM (getM clock) (\<lambda>start_time.
       wait_rounds fuel (path_join response_dir (target_node @ ''-'' @ request_id @ ''.json''))
         start_time timeout poll_interval))"

definition get_power_status_recorder :: "string option dummy_prog" where
  "get_power_status_recorder = retM (Some ''on'')"

definition sync_set_power_status_recorder :: "nat \<Rightarrow> bool dummy_prog" where
  "sync_set_power_status_recorder fuel =
     bindM (optM ''--action'') (\<lambda>action.
     bindM (stroptM ''--plug'') (\<lambda>target_node.
     bindM (stroptM ''--request-path'') (\<lambda>request_path.
     bindM (stroptM ''--response-path'') (\<lambda>response_path.
     bindM (intoptM ''--recorder-timeout'') (\<lambda>timeout.
     bindM (stroptM ''--recorder-poll-interval'') (\<lambda>text.
     bindM (case py_float text of None \<Rightarrow> raiseM (ValueError text) | Some x \<Rightarrow> retM x) (\<lambda>poll_interval.
       if action \<notin> {PStr ''off'', PStr ''reboot''} then retM True
       else bindM (write_fence_request_recorder action target_node request_path) (\<lambda>r. case r of
           None \<Rightarrow> retM False
         | Some request_id \<Rightarrow>
             if request_id = [] then retM False
             else bindM (wait_for_fence_response_recorder fuel request_id target_node response_path
                      timeout poll_interval) (\<lambda>(success, message).
               if \<not> success then seqM (logM (''Fence operation failed: '' @ message)) (retM False)
               else retM True)))))))))"

section \<open>The modes as callbacks of \<open>fence_action\<close>\<close>

definition dummy_file_fns :: "dummy_world power_fns" where
  "dummy_file_fns = \<lparr>set_power_fn = Some set_power_status_file, get_power_fn = Some get_power_status_file,
     get_outlet_list = None, reboot_cycle_fn = None, sync_set_power_fn = None\<rparr>"

definition dummy_fail_fns :: "dummy_world power_fns" where
  "dummy_fail_fns = \<lparr>set_power_fn = Some set_power_status_fail, get_power_fn = Some get_power_status_fail,
     get_outlet_list = Some (bindM get_outlets_fail (\<lambda>l. retM (map (\<lambda>(p, st, alias).
       (case p of PStr t \<Rightarrow> t | _ \<Rightarrow> [], st, Some alias)) l))),
     reboot_cycle_fn = None, sync_set_power_fn = None\<rparr>"

definition dummy_recorder_fns :: "nat \<Rightarrow> dummy_world power_fns" where
  "dummy_recorder_fns fuel = \<lparr>set_power_fn = None, get_power_fn = Some get_power_status_recorder,
     get_outlet_list = None, reboot_cycle_fn = None,
     sync_set_power_fn = Some (sync_set_power_status_recorder fuel)\<rparr>"

section \<open>The file mode is a power device\<close>

definition file_text :: "dummy_world st \<Rightarrow> string" where
  "file_text s = (case opts s ''--status-file'' of
      Some (PStr f) \<Rightarrow> (case files (world s) f of None \<Rightarrow> ''off'' | Some t \<Rightarrow> py_lower t)
    | _ \<Rightarrow> ''off'')"

definition file_status :: "dummy_world st \<Rightarrow> string \<Rightarrow> string option" where
  "file_status s p = Some (file_text s)"

lemma get_power_status_file_run [run_simps]: "get_power_status_file s = (Ret (Some (file_text s)), s)"
  by (simp add: get_power_status_file_def file_text_def run_simps split: option.splits pyval.splits)

lemma file_text_frame [simp]:
  "file_text (s\<lparr>opts := plug_opts p (opts s)\<rparr>) = file_text s"
  "file_text (s\<lparr>outp := t\<rparr>) = file_text s" "file_text (s\<lparr>errs := e\<rparr>) = file_text s"
  "file_text (s\<lparr>clock := c\<rparr>) = file_text s"
  by (auto simp: file_text_def split: option.splits pyval.splits)

lemma set_power_status_file_cases:
  "(\<exists>e. set_power_status_file s = (Raise e, s)) \<or> set_power_status_file s = (Ret (), s) \<or>
   (\<exists>a f. opts s ''--action'' = Some (PStr a) \<and> a \<in> {''on'', ''off''} \<and> opts s ''--status-file'' = Some (PStr f) \<and>
     set_power_status_file s = (Ret (), s\<lparr>world := (world s)\<lparr>files := (files (world s))(f \<mapsto> a)\<rparr>\<rparr>))"
  by (cases "opts s ''--action''"; cases "the (opts s ''--action'')";
      cases "opts s ''--status-file''"; cases "the (opts s ''--status-file'')")
    (auto simp: set_power_status_file_def run_simps)

lemma set_power_status_file_Ret:
  "set_power_status_file s = (Ret u, s') \<Longrightarrow> agree (opts s) (opts s') \<and> clock s' = clock s"
  using set_power_status_file_cases [of s] by auto

lemma set_power_status_file_ends: "set_power_status_file s \<noteq> (Running, s')"
  using set_power_status_file_cases [of s] by auto

interpretation file_mode: ending_device get_power_status_file "\<lambda>_. True" file_status set_power_status_file
  by unfold_locales
    (auto simp: get_power_status_file_run file_status_def fun_eq_iff set_power_status_file_ends
      dest: set_power_status_file_Ret)

interpretation file_mode_time: timed_reader get_power_status_file
  by unfold_locales (simp add: get_power_status_file_run)

section \<open>The fail mode is a power device\<close>

definition fail_status :: "dummy_world st \<Rightarrow> string \<Rightarrow> string option" where
  \<comment> \<open>reading for the action on resets the variable to off\<close>
  "fail_status s p = Some (if opts s ''--action'' = Some (PStr ''on'') then ''off'' else plug_status (world s))"

lemma get_power_status_fail_cases:
  defines "s1 \<equiv> \<lambda>s. if opts s ''--action'' = Some (PStr ''on'') then s\<lparr>world := (world s)\<lparr>plug_status := ''off''\<rparr>\<rparr> else s"
  shows "(\<exists>e s'. get_power_status_fail s = (Raise e, s')) \<or> (\<exists>c s'. get_power_status_fail s = (Exit c, s')) \<or>
     get_power_status_fail s = (Ret (Some (plug_status (world (s1 s)))), s1 s)"
proof (cases "opts s ''--action''")
  case None
  then show ?thesis by (simp add: get_power_status_fail_def get_outlets_fail_def run_simps)
next
  case (Some a)
  then show ?thesis
    by (cases "a = PStr ''on''"; cases "a = PStr ''list''"; cases "opts s ''--plug''")
      (auto simp: get_power_status_fail_def get_outlets_fail_def set_plug_status_def s1_def fail_usage_def run_simps)
qed

lemma get_power_status_fail_Ret:
  assumes "get_power_status_fail s = (Ret r, s')"
  shows "r = fail_status s p" "agree (opts s) (opts s')" "clock s' = clock s" "fail_status s' = fail_status s"
  using assms get_power_status_fail_cases [of s]
  by (auto simp: fail_status_def fun_eq_iff split: if_splits)

lemma get_power_status_fail_ends: "get_power_status_fail s \<noteq> (Running, s')"
  using get_power_status_fail_cases [of s] by auto

lemma set_power_status_fail_Ret: "set_power_status_fail s = (Ret u, s') \<Longrightarrow> agree (opts s) (opts s') \<and>
    plug_status (world s') = (if opts s ''--action'' = Some (PStr ''on'') then ''off'' else ''unknown'')"
  by (auto simp: set_power_status_fail_def set_plug_status_def ret_iff split: if_splits)

lemma set_power_status_fail_ends: "set_power_status_fail s \<noteq> (Running, s')"
  by (auto simp: set_power_status_fail_def set_plug_status_def running_iff ret_iff)

lemma fail_status_frame:
  "fail_status (s\<lparr>opts := plug_opts p (opts s)\<rparr>) = fail_status s" "fail_status (s\<lparr>outp := t\<rparr>) = fail_status s"
  by (auto simp: fun_eq_iff fail_status_def)

interpretation fail_mode: ending_device get_power_status_fail "\<lambda>_. True" fail_status set_power_status_fail
  by unfold_locales (auto simp: get_power_status_fail_ends set_power_status_fail_ends fail_status_frame
      dest: get_power_status_fail_Ret set_power_status_fail_Ret)

section \<open>Waiting for the recorder\<close>

text \<open>The loop answers True only for a response with success at a time before the timeout.\<close>

lemma wait_rounds_success:
  "wait_rounds n file start timeout d s = (Ret (b, m), s') \<Longrightarrow> b \<Longrightarrow>
     clock s' - start < of_int timeout \<and> (\<exists>msg. responses (world s) (clock s') file = Answer (Some True) msg)"
proof (induction n arbitrary: s)
  case 0
  then show ?case by (simp add: ret_iff)
next
  case (Suc n)
  show ?case
  proof (cases "responses (world s) (clock s) file")
    case Absent
    with Suc.prems obtain "wait_rounds n file start timeout d (s\<lparr>clock := clock s + d\<rparr>) = (Ret (b, m), s')"
      by (auto simp: run_simps ret_iff split: if_splits)
    from Suc.IH [OF this Suc.prems(2)] show ?thesis by simp
  next
    case Garbled
    with Suc.prems obtain "wait_rounds n file start timeout d (s\<lparr>clock := clock s + d\<rparr>) = (Ret (b, m), s')"
      by (auto simp: run_simps ret_iff split: if_splits)
    from Suc.IH [OF this Suc.prems(2)] show ?thesis by simp
  next
    case (Answer ok msg)
    with Suc.prems show ?thesis by (auto simp: run_simps ret_iff split: if_splits option.splits)
  next
    case (Large sz)
    with Suc.prems show ?thesis by (auto simp: run_simps ret_iff split: if_splits)
  qed
qed

text \<open>With a positive interval the loop ends after at most timeout / interval rounds and one more.\<close>

lemma wait_rounds_ends:
  assumes "0 < d" and "of_int timeout - (clock s - start) < of_nat n * d"
  shows "wait_rounds (Suc n) file start timeout d s \<noteq> (Running, s')"
  using assms(2)
proof (induction n arbitrary: s)
  case 0
  then show ?case by (auto simp: run_simps running_iff split: response.splits)
next
  case (Suc n)
  let ?s = "s\<lparr>clock := clock s + d\<rparr>"
  have again: "wait_rounds (Suc n) file start timeout d ?s \<noteq> (Running, s')"
    using Suc.prems by (intro Suc.IH) (simp add: algebra_simps)
  have "wait_rounds (Suc (Suc n)) file start timeout d s \<noteq> (Running, s')"
    if "clock s - start < of_int timeout"
    using that again assms(1) unfolding wait_rounds.simps(2) [of "Suc n"] bindM_getM
    by (cases "responses (world s) (clock s) file") (simp_all add: bindM_getM bindM_sleepM bindM_modM running_iff del: wait_rounds.simps)
  moreover have "wait_rounds (Suc (Suc n)) file start timeout d s \<noteq> (Running, s')"
    if "\<not> clock s - start < of_int timeout"
    using that unfolding wait_rounds.simps(2) [of "Suc n"] bindM_getM by (simp add: running_iff)
  ultimately show ?case by blast
qed

end
