(* ===== verification/Fence_Guarantees.thy ===== *)
theory Fence_Guarantees
  imports Fence_Dummy
begin

text \<open>
  The guarantees of \<open>fence_action\<close> and of the loops over plugs, as properties over the
  contracts of \<open>Power_Contract\<close>, each applied to the callbacks of the dummy agent at a
  concrete command.
\<close>

section \<open>Commands for the dummy agent\<close>

definition dummy_opts :: "string \<Rightarrow> pydict" where
  "dummy_opts action = [''--action'' \<mapsto> PStr action, ''--plug'' \<mapsto> PStr ''n1,n2'',
     ''--plug-separator'' \<mapsto> PStr '','', ''device_opt'' \<mapsto> PList [''port'', ''no_password''],
     ''--power-timeout'' \<mapsto> PStr ''2'', ''--stonith-status-sleep'' \<mapsto> PStr ''1'',
     ''--power-wait'' \<mapsto> PStr ''0'', ''--retry-on'' \<mapsto> PStr ''1'', ''--status-file'' \<mapsto> PStr ''st'']"

definition dummy_st :: "string \<Rightarrow> string \<Rightarrow> dummy_world st" where
  \<comment> \<open>an action at a given text of the status file\<close>
  "dummy_st action text = \<lparr>opts = dummy_opts action, outp = [], errs = [], clock = 0,
     world = \<lparr>files = [''st'' \<mapsto> text], writable = (\<lambda>f. f = ''st''), plug_status = ''on'',
       makeable = (\<lambda>_. True), uuids = (\<lambda>_. ''u''), drawn = 0, requests = [], responses = (\<lambda>_ _. Absent)\<rparr>\<rparr>"

lemma run_pair: "fst p = r \<Longrightarrow> p = (r, snd p)"
  by (cases p) simp

lemma dummy_runs:
  "fst (fence_action 3 dummy_file_fns (dummy_st ''off'' ''on'')) = Ret 0"
  "fst (fence_action 3 dummy_file_fns (dummy_st ''on'' ''off'')) = Ret 0"
  "fst (fence_action 3 dummy_file_fns (dummy_st ''reboot'' ''on'')) = Ret 0"
  "fst (fence_action 3 dummy_file_fns (dummy_st ''status'' ''OFF'')) = Ret 2"
  "fst (fence_action 3 dummy_fail_fns (dummy_st ''off'' ''on'')) = Exit 1"
  by code_simp+

lemma dummy_action: "opts (dummy_st a t) ''--action'' = Some (PStr a)"
  by (simp add: dummy_st_def dummy_opts_def)

lemma dummy_split: "split_opts (dummy_opts a) = (dummy_opts a)(''--plugs'' \<mapsto> PList [''n1'', ''n2''])"
proof -
  have "py_split '','' ''n1,n2'' = [''n1'', ''n2'']" by code_simp
  then show ?thesis by (simp add: split_opts_def dummy_opts_def)
qed

lemma dummy_plugs: "plugs_of (split_opts (opts (dummy_st a t))) = Some [''n1'', ''n2'']"
  by (simp add: dummy_st_def dummy_split plugs_of_def)

lemma dummy_fns:
  "get_power_fn dummy_file_fns = Some get_power_status_file" "set_power_fn dummy_file_fns = Some set_power_status_file"
  "reboot_cycle_fn dummy_file_fns = None" "get_outlet_list dummy_file_fns = None" "sync_set_power_fn dummy_file_fns = None"
  "get_power_fn dummy_fail_fns = Some get_power_status_fail" "set_power_fn dummy_fail_fns = Some set_power_status_fail"
  by (simp_all add: dummy_file_fns_def dummy_fail_fns_def)

section \<open>Switching\<close>

text \<open>
  C1. An \<open>off\<close> that ends successfully has been verified: when \<open>fence_action\<close> returns for
  action "off", its result is 0 and the device reports every plug named on the command line as
  off in the state in which it returns.
\<close>

theorem off_confirmed:
  assumes "power_device get_power cfg_ok status_of set_power"
    and "get_power_fn F = Some get_power" and "set_power_fn F = Some set_power"
    and "opts s ''--action'' = Some (PStr ''off'')"
    and "fence_action fuel F s = (Ret r, s')"
    and "plugs_of (split_opts (opts s)) = Some ps"
    and "cfg_ok (s\<lparr>opts := split_opts (opts s)\<rparr>)"
  shows "r = 0 \<and> (\<forall>p\<in>set ps. status_of s' p = Some ''off'')"
  using power_device.off_confirmed_aux [OF assms] .

theorem off_confirmed_witness:
  "\<exists>s'. fence_action 3 dummy_file_fns (dummy_st ''off'' ''on'') = (Ret 0, s') \<and>
     (\<forall>p\<in>{''n1'', ''n2''}. file_status s' p = Some ''off'')"
proof -
  note run = run_pair [OF dummy_runs(1)]
  from off_confirmed [OF file_mode.power_device_axioms dummy_fns(1,2) dummy_action run dummy_plugs TrueI] run
  show ?thesis by auto
qed

text \<open>
  C5. An \<open>on\<close> that ends successfully has been read back: the result is 0, the status read over
  all plugs in the state in which it returns is on, and so at least one of them reports on.
\<close>

theorem on_confirmed:
  assumes "power_device get_power cfg_ok status_of set_power"
    and "get_power_fn F = Some get_power" and "set_power_fn F = Some set_power"
    and "opts s ''--action'' = Some (PStr ''on'')"
    and "fence_action fuel F s = (Ret r, s')"
    and "plugs_of (split_opts (opts s)) = Some ps"
    and "cfg_ok (s\<lparr>opts := split_opts (opts s)\<rparr>)"
  shows "r = 0 \<and> multi_status (map (status_of s') ps) = Some ''on'' \<and> (\<exists>p\<in>set ps. status_of s' p = Some ''on'')"
proof -
  note on = power_device.on_confirmed_aux [OF assms]
  then have "multi_status (map (status_of s') ps) \<in> set (map (status_of s') ps)" by (intro multi_status_in) simp
  with on show ?thesis by auto
qed

theorem on_confirmed_witness:
  "\<exists>s'. fence_action 3 dummy_file_fns (dummy_st ''on'' ''off'') = (Ret 0, s') \<and>
     (\<exists>p\<in>{''n1'', ''n2''}. file_status s' p = Some ''on'')"
proof -
  note run = run_pair [OF dummy_runs(2)]
  from on_confirmed [OF file_mode.power_device_axioms dummy_fns(1,2) dummy_action run dummy_plugs TrueI] run
  show ?thesis by auto
qed




definition read_back :: "string option outcome \<times> dummy_world st" where
  "read_back = get_multi_power_fn get_power_status_file
     ((dummy_st ''off'' ''off'')\<lparr>opts := split_opts (opts (dummy_st ''off'' ''off''))\<rparr>)"

lemma read_back_values:
  "fst read_back = Ret (Some ''off'')" "opts (snd read_back) ''--action'' = Some (PStr ''off'')"
  "opts (snd read_back) ''device_opt'' = Some (PList [''port'', ''no_password''])"
  by code_simp+


section \<open>Results and exit codes\<close>

text \<open>
  The result codes: \<open>fence_action\<close> returns 0, or 2 and then only for the action status
  with the status off just read from the device.
\<close>

theorem result_codes:
  assumes "fence_action fuel F s = (Ret r, s')"
  shows "r = 0 \<or> r = 2 \<and> (\<exists>s1. read_status F (s\<lparr>opts := split_opts (opts s)\<rparr>) = (Ret (Some ''off''), s1) \<and>
     opts s1 ''--action'' = Some (PStr ''status''))"
proof (cases "r = 0")
  case False
  with assms have "status_then_perform fuel F (s\<lparr>opts := split_opts (opts s)\<rparr>) = (Ret r, s')"
    by (simp add: fence_action_Ret fence_body_status)
  then show ?thesis using False by (cases rule: status_then_perform_Ret) blast
qed simp

theorem result_codes_witness:
  "\<exists>r. fst (fence_action 3 dummy_file_fns (dummy_st ''status'' ''OFF'')) = Ret r \<and> (r = 0 \<or> r = (2::int))"
  using result_codes [OF run_pair [OF dummy_runs(4)]] dummy_runs(4) by auto

text \<open>
  C22. The answer of the action status: 2 exactly when every plug reports off, and otherwise 0
  with the status on read over the plugs. A device that answers anything else makes the
  agent fail.
\<close>

theorem status_exit_code:
  assumes "status_reader get_power cfg_ok status_of"
    and "get_power_fn F = Some get_power" and "opts s ''--action'' = Some (PStr ''status'')"
    and "fence_action fuel F s = (Ret r, s')" and "plugs_of (split_opts (opts s)) = Some ps"
    and "cfg_ok (s\<lparr>opts := split_opts (opts s)\<rparr>)"
    and "status_of (s\<lparr>opts := split_opts (opts s)\<rparr>) = status_of s"
  shows "(r = 2 \<longleftrightarrow> (\<forall>p\<in>set ps. status_of s p = Some ''off'')) \<and>
     (r \<noteq> 2 \<longrightarrow> r = 0 \<and> multi_status (map (status_of s) ps) = Some ''on'')"
  using status_reader.status_answer [OF assms] .

theorem status_exit_code_witness:
  "\<exists>r. fst (fence_action 3 dummy_file_fns (dummy_st ''status'' ''OFF'')) = Ret r \<and>
     (r = (2::int) \<longleftrightarrow> (\<forall>p\<in>{''n1'', ''n2''}. file_status (dummy_st ''status'' ''OFF'') p = Some ''off''))"
proof -
  have frame: "file_status ((dummy_st a t)\<lparr>opts := split_opts (opts (dummy_st a t))\<rparr>) = file_status (dummy_st a t)" for a t
    by (auto simp: fun_eq_iff file_status_def file_text_def dummy_st_def dummy_opts_def)
  from status_exit_code [OF file_mode.status_reader_axioms dummy_fns(1) dummy_action
      run_pair [OF dummy_runs(4)] dummy_plugs TrueI frame] dummy_runs(4)
  show ?thesis by auto
qed

text \<open>
  C21. A status that is neither on nor off ends the agent with exit code 1 before anything is
  switched, for every action but list and monitor.
\<close>

theorem unknown_status_fails:
  assumes "opts s ''--action'' = Some (PStr a)" "a \<notin> {''list'', ''list-status'', ''monitor''}"
    and "split_ok (opts s)" and "opts s ''device_opt'' = Some (PList dev)" "''no_status'' \<notin> set dev"
    and "get_power_fn F = Some get_power"
    and "get_multi_power_fn get_power (s\<lparr>opts := split_opts (opts s)\<rparr>) = (Ret st, s1)"
    and "st \<notin> {Some ''on'', Some ''off''}"
  shows "\<exists>m. fence_action fuel F s = (Exit 1, s1\<lparr>errs := errs s1 @ [m @ nl @ nl]\<rparr>)"
  using unknown_status [OF assms] .

definition read_broken :: "string option outcome \<times> dummy_world st" where
  "read_broken = get_multi_power_fn get_power_status_file
     ((dummy_st ''reboot'' ''broken'')\<lparr>opts := split_opts (opts (dummy_st ''reboot'' ''broken''))\<rparr>)"

lemma read_broken_value: "fst read_broken = Ret (Some ''broken'')"
  by code_simp

theorem unknown_status_fails_witness:
  "fst (fence_action 3 dummy_file_fns (dummy_st ''reboot'' ''broken'')) = Exit 1"
proof -
  have run: "get_multi_power_fn get_power_status_file
     ((dummy_st ''reboot'' ''broken'')\<lparr>opts := split_opts (opts (dummy_st ''reboot'' ''broken''))\<rparr>)
     = (Ret (Some ''broken''), snd read_broken)"
    using read_broken_value by (simp add: read_broken_def prod_eq_iff)
  have "split_ok (opts (dummy_st ''reboot'' ''broken''))"
    "opts (dummy_st ''reboot'' ''broken'') ''device_opt'' = Some (PList [''port'', ''no_password''])"
    by (simp_all add: dummy_st_def dummy_opts_def split_ok_def)
  from unknown_status_fails [OF dummy_action _ this _ dummy_fns(1) run, of 3] show ?thesis by auto
qed

text \<open>
  The exit code of a failure: provided the callbacks of the agent exit through \<open>fail\<close> or
  \<open>fail_usage\<close> (with code 1), \<open>fence_action\<close> never ends the process with another code.
\<close>

theorem failure_exit_code:
  assumes "fns_exit_1 F" and "fence_action fuel F s = (Exit c, s')"
  shows "c = 1"
  using exits_1_fence_action [OF assms(1), of fuel] assms(2) unfolding exits_1_def by blast

lemma exits_1_dummy_fail: "fns_exit_1 dummy_fail_fns"
proof -
  have usage: "exits_1 (fail_usage m stop)" for m stop
    by (auto simp: exits_1_def dest: fail_usage_Exit)
  have outlets: "exits_1 get_outlets_fail"
    unfolding get_outlets_fail_def set_plug_status_def
    by (auto intro!: exits_intro usage split: prod.splits option.splits)
  have "exits_1 get_power_status_fail" "exits_1 set_power_status_fail"
    unfolding get_power_status_fail_def set_power_status_fail_def set_plug_status_def
    by (auto intro!: exits_intro usage outlets split: prod.splits option.splits)
  with outlets show ?thesis by (auto simp: fns_exit_1_def dummy_fail_fns_def intro!: exits_intro)
qed

theorem failure_exit_code_witness:
  "\<exists>c s'. fence_action 3 dummy_fail_fns (dummy_st ''off'' ''on'') = (Exit c, s') \<and> c = 1"
  using failure_exit_code [OF exits_1_dummy_fail run_pair [OF dummy_runs(5)]] run_pair [OF dummy_runs(5)] by blast

section \<open>Ending\<close>

text \<open>
  C4. \<open>fence_action\<close> ends: with a positive power timeout \<open>T\<close>, callbacks that end, and
  \<open>T\<close> rounds of fuel for each polling loop, the run is over (with a result, an exit or an
  exception): the polling loop is bounded by the timeout.
\<close>

theorem fence_action_terminates:
  assumes "ending_device get_power cfg_ok status_of set_power"
    and "get_power_fn F = Some get_power" and "set_power_fn F = Some set_power"
    and "\<And>m s s'. reboot_cycle_fn F = Some m \<Longrightarrow> m s \<noteq> (Running, s')"
    and "\<And>m s s'. get_outlet_list F = Some m \<Longrightarrow> m s \<noteq> (Running, s')"
    and "int_opt (opts s) ''--power-timeout'' = Some T" and "0 < T" and "nat T \<le> fuel"
  shows "fence_action fuel F s \<noteq> (Running, s')"
proof -
  have "ends_from (timeout_is T) (fence_action fuel F)"
    by (rule ending_device.fence_action_ends [OF assms(1-3)]) (use assms(4,5,7,8) in auto)
  with assms(6) show ?thesis unfolding ends_from_def timeout_is_def by blast
qed

theorem fence_action_terminates_witness:
  "fence_action 2 dummy_file_fns (dummy_st ''off'' ''on'') \<noteq> (Running, dummy_st ''off'' ''on'')"
proof -
  have "int_opt (opts (dummy_st a t)) ''--power-timeout'' = Some 2" for a t
    by (simp add: dummy_st_def dummy_opts_def int_opt_def py_int_def) code_simp
  then show ?thesis
    using fence_action_terminates [OF file_mode.ending_device_axioms dummy_fns(1,2), of "dummy_st ''off'' ''on''" 2 2]
    by (simp add: dummy_fns)
qed

text \<open>
  The polling loop gives up after exactly \<open>T\<close> polls: when it answers False it has slept
  \<open>T\<close> times the status sleep, for a reader that itself takes no time.
\<close>

theorem polling_gives_up_in_time:
  assumes "timed_reader get_power"
    and "int_opt (opts s) ''--power-timeout'' = Some T" and "int_opt (opts s) ''--stonith-status-sleep'' = Some d"
    and "1 \<le> T" and "poll_status n 1 get_power s = (Ret False, s')"
  shows "clock s' = clock s + of_int (T * d)"
  using timed_reader.poll_give_up_time [OF assms(1-3) _ assms(5)] assms(4) by simp

lemma poll_stuck: "fst (poll_status 3 1 get_power_status_file (dummy_st ''off'' ''on'')) = Ret False"
  by code_simp

lemma dummy_ints: "int_opt (opts (dummy_st a t)) ''--power-timeout'' = Some 2"
  "int_opt (opts (dummy_st a t)) ''--stonith-status-sleep'' = Some 1"
  by (simp_all add: dummy_st_def dummy_opts_def int_opt_def py_int_def) code_simp+

theorem polling_gives_up_in_time_witness:
  "clock (snd (poll_status 3 1 get_power_status_file (dummy_st ''off'' ''on''))) = 2"
  using polling_gives_up_in_time [OF file_mode_time.timed_reader_axioms dummy_ints _ run_pair [OF poll_stuck]]
  by (simp add: dummy_st_def)

text \<open>
  With the power timeout disabled (0) the polling loop has no way to answer False: when it
  ends, the status has been reached.
\<close>

theorem polling_without_timeout:
  assumes "status_callback get_power"
    and "int_opt (opts s) ''--power-timeout'' = Some T" and "T \<le> 0"
    and "poll_status n i get_power s = (Ret b, s')"
  shows b
  using status_callback.poll_never_gives_up [OF assms] .

definition untimed_st :: "dummy_world st" where
  "untimed_st = (dummy_st ''off'' ''off'')\<lparr>opts := (dummy_opts ''off'')(''--power-timeout'' \<mapsto> PInt 0)\<rparr>"

lemma untimed_poll: "\<exists>b. fst (poll_status 3 1 get_power_status_file untimed_st) = Ret b"
proof -
  have "fst (poll_status 3 1 get_power_status_file untimed_st) = Ret True" by code_simp
  then show ?thesis ..
qed

theorem polling_without_timeout_witness:
  "fst (poll_status 3 1 get_power_status_file untimed_st) = Ret True"
proof -
  from untimed_poll obtain b where b: "fst (poll_status 3 1 get_power_status_file untimed_st) = Ret b" ..
  have "int_opt (opts untimed_st) ''--power-timeout'' = Some 0"
    by (simp add: untimed_st_def int_opt_def py_int_def)
  from polling_without_timeout [OF file_mode.status_callback_axioms this _ run_pair [OF b]] b show ?thesis by simp
qed

text \<open>
  C23. The status of several plugs: \<open>get_multi_power_fn\<close> answers off exactly when every plug
  reports off, and otherwise the status of the last plug that does not.
\<close>

theorem plugs_read_as_one:
  assumes "status_reader get_power cfg_ok status_of"
    and "get_multi_power_fn get_power s = (Ret r, s')" and "plugs_of (opts s) = Some ps" and "cfg_ok s"
  shows "(r = Some ''off'' \<longleftrightarrow> (\<forall>p\<in>set ps. status_of s p = Some ''off'')) \<and>
     (r \<noteq> Some ''off'' \<longrightarrow> r = last (filter (\<lambda>x. x \<noteq> Some ''off'') (map (status_of s) ps)))"
proof -
  have r: "r = multi_status (map (status_of s) ps)"
    using status_reader.get_multi_power_fn_reads(1) [OF assms] .
  have "r = last (filter (\<lambda>x. x \<noteq> Some ''off'') (map (status_of s) ps))" if "r \<noteq> Some ''off''"
    using that unfolding r multi_status_eq by (auto split: list.splits)
  with multi_status_off [of "map (status_of s) ps"] r show ?thesis by simp
qed

theorem plugs_read_as_one_witness:
  "\<exists>s'. get_multi_power_fn get_power_status_file
      ((dummy_st ''off'' ''off'')\<lparr>opts := split_opts (opts (dummy_st ''off'' ''off''))\<rparr>) = (Ret (Some ''off''), s') \<and>
    (\<forall>p\<in>{''n1'', ''n2''}. file_status
      ((dummy_st ''off'' ''off'')\<lparr>opts := split_opts (opts (dummy_st ''off'' ''off''))\<rparr>) p = Some ''off'')"
proof -
  have run: "get_multi_power_fn get_power_status_file
     ((dummy_st ''off'' ''off'')\<lparr>opts := split_opts (opts (dummy_st ''off'' ''off''))\<rparr>) = (Ret (Some ''off''), snd read_back)"
    using read_back_values(1) by (simp add: read_back_def prod_eq_iff)
  from plugs_read_as_one [OF file_mode.status_reader_axioms run, of "[''n1'', ''n2'']"] run dummy_plugs [of "''off''" "''off''"]
  show ?thesis by auto
qed

section \<open>Delay\<close>

text \<open>
  The delay before a fencing action: for off and reboot with \<open>--delay=d\<close> the agent goes
  on no earlier than \<open>d + 1\<close> seconds (less the reserve) after the reference time, and it does
  not wait longer than that; other actions are not delayed.
\<close>

theorem delay_until:
  assumes "run_delay t0 reserve result s = (Ret u, s')"
  shows "clock s' = (if opts s ''--action'' \<in> {Some (PStr ''off''), Some (PStr ''reboot'')} \<and>
       opts s ''--delay'' \<noteq> Some (PStr ''0'') \<and> result = 0 \<and> reserve \<ge> 0
     then max (clock s) (t0 + 1 + of_int (the (int_opt (opts s) ''--delay'')) - reserve) else clock s)"
proof -
  have wait: "clock s' = max (clock s) (t0 + 1 + of_int d - reserve)"
    if "(if 1 + of_int d - (clock s - t0) - reserve > 0 then sleepM (1 + of_int d - (clock s - t0) - reserve)
         else retM ()) s = (Ret u, s')" for d
    using that by (cases "1 + of_int d - (clock s - t0) - reserve > 0") (auto simp: ret_iff max_def)
  from assms obtain a where a: "opts s ''--action'' = Some a" by (auto simp: run_delay_def ret_iff)
  show ?thesis
  proof (cases "a \<in> {PStr ''off'', PStr ''reboot''}")
    case False
    with assms a show ?thesis by (simp add: run_delay_def run_simps)
  next
    case True
    with assms a obtain v where v: "opts s ''--delay'' = Some v" by (auto simp: run_delay_def ret_iff)
    show ?thesis
    proof (cases "v \<noteq> PStr ''0'' \<and> result = 0 \<and> reserve \<ge> 0")
      case cond: True
      with assms a v True obtain d where d: "int_opt (opts s) ''--delay'' = Some d"
        by (auto simp: run_delay_def run_simps bindM_Ret [of "intoptM k" for k] intoptM_Ret)
      with assms a v True cond have "(if 1 + of_int d - (clock s - t0) - reserve > 0
          then sleepM (1 + of_int d - (clock s - t0) - reserve) else retM ()) s = (Ret u, s')"
        by (simp add: run_delay_def run_simps Let_def)
      from wait [OF this] a v d True cond show ?thesis by auto
    next
      case False
      with assms a v True show ?thesis by (auto simp: run_delay_def run_simps)
    qed
  qed
qed

definition delay_st :: "dummy_world st" where
  "delay_st = (dummy_st ''off'' ''on'')\<lparr>opts := (dummy_opts ''off'')(''--delay'' \<mapsto> PStr ''5'')\<rparr>"

lemma delay_run: "fst (run_delay 0 0 0 delay_st) = Ret ()"
  by code_simp

theorem delay_until_witness: "clock (snd (run_delay 0 0 0 delay_st)) = 6"
proof -
  have i: "int_opt (opts delay_st) ''--delay'' = Some 5" 
    by (simp add: delay_st_def int_opt_def py_int_def) code_simp
  have o: "opts delay_st ''--action'' = Some (PStr ''off'')" "opts delay_st ''--delay'' = Some (PStr ''5'')" "clock delay_st = 0"
    by (simp_all add: delay_st_def dummy_opts_def dummy_st_def)
  show ?thesis using delay_until [OF run_pair [OF delay_run]] by (simp add: i o)
qed

end
