(* ===== verification/All_Opt.thy ===== *)
theory All_Opt
  imports Multi_Power
begin

text \<open>
  \<open>lib/fencing.py.py\<close>: the table \<open>all_opt\<close> of every option the library knows, and
  \<open>DEPENDENCY_OPT\<close>, the options that come with others. The Python dictionary is mutable and
  shared; a component that changes an entry works on a map \<open>string \<rightharpoonup> optdef\<close> that starts as
  \<open>all_opt\<close>.
\<close>

section \<open>Option definitions\<close>

record optdef =
  o_getopt :: string
  o_longopt :: "string option"
  o_help :: string
  o_required :: "string option"
  o_shortdesc :: "string option"
  o_type :: "string option"
  o_default :: "pyval option"
  o_choices :: "string list option"
  o_order :: int

definition all_opt_1 :: "(string \<times> optdef) list" where
  "all_opt_1 =
    [(''help'', \<lparr>o_getopt = ''h'', o_longopt = Some ''help'',
        o_help = ''-h, --help                     Display this help and exit'',
        o_required = Some ''0'', o_shortdesc = Some ''Display help and exit'',
        o_type = None, o_default = None, o_choices = None, o_order = 55\<rparr>),
     (''version'', \<lparr>o_getopt = ''V'', o_longopt = Some ''version'',
        o_help = ''-V, --version                  Display version information and exit'',
        o_required = Some ''0'', o_shortdesc = Some ''Display version information and exit'',
        o_type = None, o_default = None, o_choices = None, o_order = 54\<rparr>),
     (''verbose'', \<lparr>o_getopt = ''v'', o_longopt = Some ''verbose'',
        o_help = ''-v, --verbose                  Verbose mode. Multiple -v flags can be stacked on the command line (e.g., -vvv) to increase verbosity.'',
        o_required = Some ''0'', o_shortdesc = None,
        o_type = None, o_default = None, o_choices = None, o_order = 51\<rparr>),
     (''verbose_level'', \<lparr>o_getopt = '':'', o_longopt = Some ''verbose-level'',
        o_help = ''--verbose-level                Level of debugging detail in output. Defaults to the number of --verbose flags specified on the command line, or to 1 if verbose=1 in a stonith device configuration (i.e., on stdin).'',
        o_required = Some ''0'', o_shortdesc = None,
        o_type = Some ''integer'', o_default = None, o_choices = None, o_order = 52\<rparr>),
     (''debug'', \<lparr>o_getopt = ''D:'', o_longopt = Some ''debug-file'',
        o_help = ''-D, --debug-file=[debugfile]   Debugging to output file'',
        o_required = Some ''0'', o_shortdesc = Some ''Write debug information to given file'',
        o_type = None, o_default = None, o_choices = None, o_order = 53\<rparr>),
     (''delay'', \<lparr>o_getopt = '':'', o_longopt = Some ''delay'',
        o_help = ''--delay=[seconds]              Wait X seconds before fencing is started'',
        o_required = Some ''0'', o_shortdesc = None,
        o_type = Some ''second'', o_default = Some (PStr ''0''), o_choices = None, o_order = 200\<rparr>),
     (''agent'', \<lparr>o_getopt = '''', o_longopt = None,
        o_help = '''',
        o_required = None, o_shortdesc = None,
        o_type = None, o_default = None, o_choices = None, o_order = 1\<rparr>),
     (''web'', \<lparr>o_getopt = '''', o_longopt = None,
        o_help = '''',
        o_required = None, o_shortdesc = None,
        o_type = None, o_default = None, o_choices = None, o_order = 1\<rparr>),
     (''force_on'', \<lparr>o_getopt = '''', o_longopt = None,
        o_help = '''',
        o_required = None, o_shortdesc = None,
        o_type = None, o_default = None, o_choices = None, o_order = 1\<rparr>),
     (''action'', \<lparr>o_getopt = ''o:'', o_longopt = Some ''action'',
        o_help = ''-o, --action=[action]          Action: status, reboot (default), off or on'',
        o_required = Some ''1'', o_shortdesc = Some ''Fencing action'',
        o_type = None, o_default = Some (PStr ''reboot''), o_choices = None, o_order = 1\<rparr>),
     (''fabric_fencing'', \<lparr>o_getopt = '''', o_longopt = None,
        o_help = '''',
        o_required = None, o_shortdesc = None,
        o_type = None, o_default = None, o_choices = None, o_order = 1\<rparr>),
     (''ipaddr'', \<lparr>o_getopt = ''a:'', o_longopt = Some ''ip'',
        o_help = ''-a, --ip=[ip]                  IP address or hostname of fencing device'',
        o_required = Some ''1'', o_shortdesc = None,
        o_type = None, o_default = None, o_choices = None, o_order = 1\<rparr>),
     (''ipport'', \<lparr>o_getopt = ''u:'', o_longopt = Some ''ipport'',
        o_help = ''-u, --ipport=[port]            TCP/UDP port to use for connection'',
        o_required = Some ''0'', o_shortdesc = Some ''TCP/UDP port to use for connection with device'',
        o_type = Some ''integer'', o_default = None, o_choices = None, o_order = 1\<rparr>),
     (''login'', \<lparr>o_getopt = ''l:'', o_longopt = Some ''username'',
        o_help = ''-l, --username=[name]          Login name'',
        o_required = Some ''0'', o_shortdesc = None,
        o_type = None, o_default = None, o_choices = None, o_order = 1\<rparr>),
     (''no_login'', \<lparr>o_getopt = '''', o_longopt = None,
        o_help = '''',
        o_required = None, o_shortdesc = None,
        o_type = None, o_default = None, o_choices = None, o_order = 1\<rparr>),
     (''no_password'', \<lparr>o_getopt = '''', o_longopt = None,
        o_help = '''',
        o_required = None, o_shortdesc = None,
        o_type = None, o_default = None, o_choices = None, o_order = 1\<rparr>),
     (''no_port'', \<lparr>o_getopt = '''', o_longopt = None,
        o_help = '''',
        o_required = None, o_shortdesc = None,
        o_type = None, o_default = None, o_choices = None, o_order = 1\<rparr>),
     (''no_status'', \<lparr>o_getopt = '''', o_longopt = None,
        o_help = '''',
        o_required = None, o_shortdesc = None,
        o_type = None, o_default = None, o_choices = None, o_order = 1\<rparr>),
     (''no_on'', \<lparr>o_getopt = '''', o_longopt = None,
        o_help = '''',
        o_required = None, o_shortdesc = None,
        o_type = None, o_default = None, o_choices = None, o_order = 1\<rparr>),
     (''no_off'', \<lparr>o_getopt = '''', o_longopt = None,
        o_help = '''',
        o_required = None, o_shortdesc = None,
        o_type = None, o_default = None, o_choices = None, o_order = 1\<rparr>),
     (''telnet'', \<lparr>o_getopt = '''', o_longopt = None,
        o_help = '''',
        o_required = None, o_shortdesc = None,
        o_type = None, o_default = None, o_choices = None, o_order = 1\<rparr>),
     (''diag'', \<lparr>o_getopt = '''', o_longopt = None,
        o_help = '''',
        o_required = None, o_shortdesc = None,
        o_type = None, o_default = None, o_choices = None, o_order = 1\<rparr>)]"

definition all_opt_2 :: "(string \<times> optdef) list" where
  "all_opt_2 =
    [(''passwd'', \<lparr>o_getopt = ''p:'', o_longopt = Some ''password'',
        o_help = ''-p, --password=[password]      Login password or passphrase'',
        o_required = Some ''0'', o_shortdesc = None,
        o_type = None, o_default = None, o_choices = None, o_order = 1\<rparr>),
     (''passwd_script'', \<lparr>o_getopt = ''S:'', o_longopt = Some ''password-script'',
        o_help = ''-S, --password-script=[script] Script to run to retrieve password'',
        o_required = Some ''0'', o_shortdesc = None,
        o_type = None, o_default = None, o_choices = None, o_order = 1\<rparr>),
     (''identity_file'', \<lparr>o_getopt = ''k:'', o_longopt = Some ''identity-file'',
        o_help = ''-k, --identity-file=[filename] Identity file (private key) for SSH'',
        o_required = Some ''0'', o_shortdesc = None,
        o_type = None, o_default = None, o_choices = None, o_order = 1\<rparr>),
     (''cmd_prompt'', \<lparr>o_getopt = ''c:'', o_longopt = Some ''command-prompt'',
        o_help = ''-c, --command-prompt=[prompt]  Force Python regex for command prompt'',
        o_required = Some ''0'', o_shortdesc = None,
        o_type = None, o_default = None, o_choices = None, o_order = 1\<rparr>),
     (''secure'', \<lparr>o_getopt = ''x'', o_longopt = Some ''ssh'',
        o_help = ''-x, --ssh                      Use SSH connection'',
        o_required = Some ''0'', o_shortdesc = None,
        o_type = None, o_default = None, o_choices = None, o_order = 1\<rparr>),
     (''ssh_options'', \<lparr>o_getopt = '':'', o_longopt = Some ''ssh-options'',
        o_help = ''--ssh-options=[options]        SSH options to use'',
        o_required = Some ''0'', o_shortdesc = None,
        o_type = None, o_default = None, o_choices = None, o_order = 1\<rparr>),
     (''ssl'', \<lparr>o_getopt = ''z'', o_longopt = Some ''ssl'',
        o_help = ''-z, --ssl                      Use SSL connection with verifying certificate'',
        o_required = Some ''0'', o_shortdesc = None,
        o_type = None, o_default = None, o_choices = None, o_order = 1\<rparr>),
     (''ssl_insecure'', \<lparr>o_getopt = '''', o_longopt = Some ''ssl-insecure'',
        o_help = ''--ssl-insecure                 Use SSL connection without verifying certificate'',
        o_required = Some ''0'', o_shortdesc = None,
        o_type = None, o_default = None, o_choices = None, o_order = 1\<rparr>),
     (''ssl_secure'', \<lparr>o_getopt = '''', o_longopt = Some ''ssl-secure'',
        o_help = ''--ssl-secure                   Use SSL connection with verifying certificate'',
        o_required = Some ''0'', o_shortdesc = None,
        o_type = None, o_default = None, o_choices = None, o_order = 1\<rparr>),
     (''notls'', \<lparr>o_getopt = ''t'', o_longopt = Some ''notls'',
        o_help = ''-t, --notls                    Disable TLS negotiation and force SSL3.0. This should only be used for devices that do not support TLS1.0 and up.'',
        o_required = Some ''0'', o_shortdesc = None,
        o_type = None, o_default = None, o_choices = None, o_order = 1\<rparr>),
     (''tls1.0'', \<lparr>o_getopt = '''', o_longopt = Some ''tls1.0'',
        o_help = ''--tls1.0                       Disable TLS negotiation and force TLS1.0. This should only be used for devices that do not support TLS1.1 and up.'',
        o_required = Some ''0'', o_shortdesc = None,
        o_type = None, o_default = None, o_choices = None, o_order = 1\<rparr>),
     (''port'', \<lparr>o_getopt = ''n:'', o_longopt = Some ''plug'',
        o_help = ''-n, --plug=[id]                Physical plug number on device, UUID or identification of machine'',
        o_required = Some ''1'', o_shortdesc = None,
        o_type = None, o_default = None, o_choices = None, o_order = 1\<rparr>),
     (''switch'', \<lparr>o_getopt = ''s:'', o_longopt = Some ''switch'',
        o_help = ''-s, --switch=[id]              Physical switch number on device'',
        o_required = Some ''0'', o_shortdesc = None,
        o_type = None, o_default = None, o_choices = None, o_order = 1\<rparr>),
     (''exec'', \<lparr>o_getopt = ''e:'', o_longopt = Some ''exec'',
        o_help = ''-e, --exec=[command]           Command to execute'',
        o_required = Some ''0'', o_shortdesc = None,
        o_type = None, o_default = None, o_choices = None, o_order = 1\<rparr>),
     (''vmware_type'', \<lparr>o_getopt = ''d:'', o_longopt = Some ''vmware_type'',
        o_help = ''-d, --vmware_type=[type]       Type of VMware to connect'',
        o_required = Some ''0'', o_shortdesc = None,
        o_type = None, o_default = None, o_choices = None, o_order = 1\<rparr>),
     (''vmware_datacenter'', \<lparr>o_getopt = ''s:'', o_longopt = Some ''vmware-datacenter'',
        o_help = ''-s, --vmware-datacenter=[dc]   VMWare datacenter filter'',
        o_required = Some ''0'', o_shortdesc = None,
        o_type = None, o_default = None, o_choices = None, o_order = 2\<rparr>),
     (''snmp_version'', \<lparr>o_getopt = ''d:'', o_longopt = Some ''snmp-version'',
        o_help = ''-d, --snmp-version=[version]   Specifies SNMP version to use (1|2c|3)'',
        o_required = Some ''0'', o_shortdesc = Some ''Specifies SNMP version to use'',
        o_type = None, o_default = None, o_choices = Some [''1'', ''2c'', ''3''], o_order = 1\<rparr>),
     (''community'', \<lparr>o_getopt = ''c:'', o_longopt = Some ''community'',
        o_help = ''-c, --community=[community]    Set the community string'',
        o_required = Some ''0'', o_shortdesc = None,
        o_type = None, o_default = None, o_choices = None, o_order = 1\<rparr>),
     (''snmp_auth_prot'', \<lparr>o_getopt = ''b:'', o_longopt = Some ''snmp-auth-prot'',
        o_help = ''-b, --snmp-auth-prot=[prot]    Set authentication protocol (MD5|SHA)'',
        o_required = Some ''0'', o_shortdesc = Some ''Set authentication protocol'',
        o_type = None, o_default = None, o_choices = Some [''MD5'', ''SHA''], o_order = 1\<rparr>)]"

definition all_opt_3 :: "(string \<times> optdef) list" where
  "all_opt_3 =
    [(''snmp_sec_level'', \<lparr>o_getopt = ''E:'', o_longopt = Some ''snmp-sec-level'',
        o_help = ''-E, --snmp-sec-level=[level]   Set security level (noAuthNoPriv|authNoPriv|authPriv)'',
        o_required = Some ''0'', o_shortdesc = Some ''Set security level'',
        o_type = None, o_default = None, o_choices = Some [''noAuthNoPriv'', ''authNoPriv'', ''authPriv''], o_order = 1\<rparr>),
     (''snmp_priv_prot'', \<lparr>o_getopt = ''B:'', o_longopt = Some ''snmp-priv-prot'',
        o_help = ''-B, --snmp-priv-prot=[prot]    Set privacy protocol (DES|AES)'',
        o_required = Some ''0'', o_shortdesc = Some ''Set privacy protocol'',
        o_type = None, o_default = None, o_choices = Some [''DES'', ''AES''], o_order = 1\<rparr>),
     (''snmp_priv_passwd'', \<lparr>o_getopt = ''P:'', o_longopt = Some ''snmp-priv-passwd'',
        o_help = ''-P, --snmp-priv-passwd=[pass]  Set privacy protocol password'',
        o_required = Some ''0'', o_shortdesc = None,
        o_type = None, o_default = None, o_choices = None, o_order = 1\<rparr>),
     (''snmp_priv_passwd_script'', \<lparr>o_getopt = ''R:'', o_longopt = Some ''snmp-priv-passwd-script'',
        o_help = ''-R, --snmp-priv-passwd-script  Script to run to retrieve privacy password'',
        o_required = Some ''0'', o_shortdesc = None,
        o_type = None, o_default = None, o_choices = None, o_order = 1\<rparr>),
     (''inet4_only'', \<lparr>o_getopt = ''4'', o_longopt = Some ''inet4-only'',
        o_help = ''-4, --inet4-only               Forces agent to use IPv4 addresses only'',
        o_required = Some ''0'', o_shortdesc = None,
        o_type = None, o_default = None, o_choices = None, o_order = 1\<rparr>),
     (''inet6_only'', \<lparr>o_getopt = ''6'', o_longopt = Some ''inet6-only'',
        o_help = ''-6, --inet6-only               Forces agent to use IPv6 addresses only'',
        o_required = Some ''0'', o_shortdesc = None,
        o_type = None, o_default = None, o_choices = None, o_order = 1\<rparr>),
     (''plug_separator'', \<lparr>o_getopt = '':'', o_longopt = Some ''plug-separator'',
        o_help = ''--plug-separator=[char]        Separator for plug parameter when specifying more than 1 plug'',
        o_required = Some ''0'', o_shortdesc = None,
        o_type = None, o_default = Some (PStr '',''), o_choices = None, o_order = 100\<rparr>),
     (''separator'', \<lparr>o_getopt = ''C:'', o_longopt = Some ''separator'',
        o_help = ''-C, --separator=[char]         Separator for CSV created by 'list' operation'',
        o_required = Some ''0'', o_shortdesc = None,
        o_type = None, o_default = Some (PStr '',''), o_choices = None, o_order = 100\<rparr>),
     (''login_timeout'', \<lparr>o_getopt = '':'', o_longopt = Some ''login-timeout'',
        o_help = ''--login-timeout=[seconds]      Wait X seconds for cmd prompt after login'',
        o_required = Some ''0'', o_shortdesc = None,
        o_type = Some ''second'', o_default = Some (PStr ''5''), o_choices = None, o_order = 200\<rparr>),
     (''shell_timeout'', \<lparr>o_getopt = '':'', o_longopt = Some ''shell-timeout'',
        o_help = ''--shell-timeout=[seconds]      Wait X seconds for cmd prompt after issuing command'',
        o_required = Some ''0'', o_shortdesc = None,
        o_type = Some ''second'', o_default = Some (PStr ''3''), o_choices = None, o_order = 200\<rparr>),
     (''power_timeout'', \<lparr>o_getopt = '':'', o_longopt = Some ''power-timeout'',
        o_help = ''--power-timeout=[seconds]      Test X seconds for status change after ON/OFF'',
        o_required = Some ''0'', o_shortdesc = None,
        o_type = Some ''second'', o_default = Some (PStr ''20''), o_choices = None, o_order = 200\<rparr>),
     (''disable_timeout'', \<lparr>o_getopt = '':'', o_longopt = Some ''disable-timeout'',
        o_help = ''--disable-timeout=[true/false]     Disable timeout (true/false) (default: true when run from Pacemaker 2.0+)'',
        o_required = Some ''0'', o_shortdesc = None,
        o_type = None, o_default = None, o_choices = None, o_order = 200\<rparr>),
     (''power_wait'', \<lparr>o_getopt = '':'', o_longopt = Some ''power-wait'',
        o_help = ''--power-wait=[seconds]         Wait X seconds after issuing ON/OFF'',
        o_required = Some ''0'', o_shortdesc = None,
        o_type = Some ''second'', o_default = Some (PStr ''0''), o_choices = None, o_order = 200\<rparr>),
     (''stonith_status_sleep'', \<lparr>o_getopt = '':'', o_longopt = Some ''stonith-status-sleep'',
        o_help = ''--stonith-status-sleep=[seconds]   Sleep X seconds between status calls during a STONITH action'',
        o_required = Some ''0'', o_shortdesc = None,
        o_type = Some ''second'', o_default = Some (PStr ''1''), o_choices = None, o_order = 200\<rparr>),
     (''missing_as_off'', \<lparr>o_getopt = '''', o_longopt = Some ''missing-as-off'',
        o_help = ''--missing-as-off               Missing port returns OFF instead of failure'',
        o_required = Some ''0'', o_shortdesc = None,
        o_type = None, o_default = None, o_choices = None, o_order = 200\<rparr>),
     (''retry_on'', \<lparr>o_getopt = '':'', o_longopt = Some ''retry-on'',
        o_help = ''--retry-on=[attempts]          Count of attempts to retry power on'',
        o_required = Some ''0'', o_shortdesc = None,
        o_type = Some ''integer'', o_default = Some (PStr ''1''), o_choices = None, o_order = 201\<rparr>),
     (''session_url'', \<lparr>o_getopt = ''s:'', o_longopt = Some ''session-url'',
        o_help = ''-s, --session-url              URL to connect to XenServer on'',
        o_required = Some ''1'', o_shortdesc = None,
        o_type = None, o_default = None, o_choices = None, o_order = 1\<rparr>)]"

definition all_opt_4 :: "(string \<times> optdef) list" where
  "all_opt_4 =
    [(''sudo'', \<lparr>o_getopt = '''', o_longopt = Some ''use-sudo'',
        o_help = ''--use-sudo                     Use sudo (without password) when calling 3rd party software'',
        o_required = Some ''0'', o_shortdesc = None,
        o_type = None, o_default = None, o_choices = None, o_order = 205\<rparr>),
     (''method'', \<lparr>o_getopt = ''m:'', o_longopt = Some ''method'',
        o_help = ''-m, --method=[method]          Method to fence (onoff|cycle) (Default: onoff)'',
        o_required = Some ''0'', o_shortdesc = Some ''Method to fence'',
        o_type = None, o_default = Some (PStr ''onoff''), o_choices = Some [''onoff'', ''cycle''], o_order = 1\<rparr>),
     (''telnet_path'', \<lparr>o_getopt = '':'', o_longopt = Some ''telnet-path'',
        o_help = ''--telnet-path=[path]           Path to telnet binary'',
        o_required = Some ''0'', o_shortdesc = None,
        o_type = None, o_default = Some (PStr ''@TELNET_PATH@''), o_choices = None, o_order = 300\<rparr>),
     (''ssh_path'', \<lparr>o_getopt = '':'', o_longopt = Some ''ssh-path'',
        o_help = ''--ssh-path=[path]              Path to ssh binary'',
        o_required = Some ''0'', o_shortdesc = None,
        o_type = None, o_default = Some (PStr ''@SSH_PATH@''), o_choices = None, o_order = 300\<rparr>),
     (''gnutlscli_path'', \<lparr>o_getopt = '':'', o_longopt = Some ''gnutlscli-path'',
        o_help = ''--gnutlscli-path=[path]        Path to gnutls-cli binary'',
        o_required = Some ''0'', o_shortdesc = None,
        o_type = None, o_default = Some (PStr ''@GNUTLSCLI_PATH@''), o_choices = None, o_order = 300\<rparr>),
     (''sudo_path'', \<lparr>o_getopt = '':'', o_longopt = Some ''sudo-path'',
        o_help = ''--sudo-path=[path]             Path to sudo binary'',
        o_required = Some ''0'', o_shortdesc = None,
        o_type = None, o_default = Some (PStr ''@SUDO_PATH@''), o_choices = None, o_order = 300\<rparr>),
     (''snmpwalk_path'', \<lparr>o_getopt = '':'', o_longopt = Some ''snmpwalk-path'',
        o_help = ''--snmpwalk-path=[path]         Path to snmpwalk binary'',
        o_required = Some ''0'', o_shortdesc = None,
        o_type = None, o_default = Some (PStr ''@SNMPWALK_PATH@''), o_choices = None, o_order = 300\<rparr>),
     (''snmpset_path'', \<lparr>o_getopt = '':'', o_longopt = Some ''snmpset-path'',
        o_help = ''--snmpset-path=[path]          Path to snmpset binary'',
        o_required = Some ''0'', o_shortdesc = None,
        o_type = None, o_default = Some (PStr ''@SNMPSET_PATH@''), o_choices = None, o_order = 300\<rparr>),
     (''snmpget_path'', \<lparr>o_getopt = '':'', o_longopt = Some ''snmpget-path'',
        o_help = ''--snmpget-path=[path]          Path to snmpget binary'',
        o_required = Some ''0'', o_shortdesc = None,
        o_type = None, o_default = Some (PStr ''@SNMPGET_PATH@''), o_choices = None, o_order = 300\<rparr>),
     (''snmp'', \<lparr>o_getopt = '''', o_longopt = None,
        o_help = '''',
        o_required = None, o_shortdesc = None,
        o_type = None, o_default = None, o_choices = None, o_order = 1\<rparr>),
     (''port_as_ip'', \<lparr>o_getopt = '''', o_longopt = Some ''port-as-ip'',
        o_help = ''--port-as-ip                   Make \"port/plug\" to be an alias to IP address'',
        o_required = Some ''0'', o_shortdesc = None,
        o_type = None, o_default = None, o_choices = None, o_order = 200\<rparr>),
     (''on_target'', \<lparr>o_getopt = '''', o_longopt = None,
        o_help = '''',
        o_required = None, o_shortdesc = None,
        o_type = None, o_default = None, o_choices = None, o_order = 1\<rparr>),
     (''quiet'', \<lparr>o_getopt = ''q'', o_longopt = Some ''quiet'',
        o_help = ''-q, --quiet                    Disable logging to stderr. Does not affect --verbose or --debug-file or logging to syslog.'',
        o_required = Some ''0'', o_shortdesc = None,
        o_type = None, o_default = None, o_choices = None, o_order = 50\<rparr>)]"

definition all_opt_list :: "(string \<times> optdef) list" where
  "all_opt_list = all_opt_1 @ all_opt_2 @ all_opt_3 @ all_opt_4"

type_synonym opt_table = "string \<rightharpoonup> optdef"

definition all_opt :: opt_table where
  "all_opt = map_of all_opt_list"

section \<open>Options that come with others\<close>

definition DEPENDENCY_OPT :: "string \<rightharpoonup> string list" where
  "DEPENDENCY_OPT = map_of
    [(''default'', [''help'', ''debug'', ''verbose'', ''verbose_level'',
        ''version'', ''action'', ''agent'', ''power_timeout'',
        ''shell_timeout'', ''login_timeout'', ''disable_timeout'',
        ''power_wait'', ''stonith_status_sleep'', ''retry_on'', ''delay'',
        ''plug_separator'', ''quiet'']),
     (''passwd'', [''passwd_script'']),
     (''sudo'', [''sudo_path'']),
     (''secure'', [''identity_file'', ''ssh_options'', ''ssh_path'', ''inet4_only'', ''inet6_only'']),
     (''telnet'', [''telnet_path'']),
     (''ipaddr'', [''ipport'']),
     (''port'', [''separator'']),
     (''ssl'', [''ssl_secure'', ''ssl_insecure'', ''gnutlscli_path'']),
     (''snmp'', [''snmp_auth_prot'', ''snmp_sec_level'', ''snmp_priv_prot'',
        ''snmp_priv_passwd'', ''snmp_priv_passwd_script'', ''community'',
        ''snmpset_path'', ''snmpget_path'', ''snmpwalk_path''])]"

end
