(* ===== verification/Join_Wrap.thy ===== *)
theory Join_Wrap
  imports Py_String
begin

text \<open>
  \<open>lib/fencing.py.py\<close>: \<open>_join2\<close>, \<open>_join_wrap\<close> and \<open>_encode_html_entities\<close>, the text
  helpers behind the help and metadata output. \<open>_join_wrap\<close> uses \<open>textwrap.TextWrapper\<close>
  with \<open>break_long_words\<close> and \<open>break_on_hyphens\<close> off; the wrapper is modelled for that
  configuration.
\<close>

section \<open>Joining\<close>

definition join2 :: "string list \<Rightarrow> string \<Rightarrow> string \<Rightarrow> string" where
  \<comment> \<open>\<open>_join2(words, normal_separator, last_separator)\<close>\<close>
  "join2 words normal_separator last_separator =
     (if length words \<le> 1 then concat words
      else py_join last_separator [py_join normal_separator (butlast words), last words])"

section \<open>textwrap.TextWrapper\<close>

definition is_wrap_space :: "char \<Rightarrow> bool" where
  \<comment> \<open>textwrap's own whitespace: TAB, LF, VT, FF, CR and the blank\<close>
  "is_wrap_space c \<longleftrightarrow> c \<in> {CHR 0x09, CHR 0x0A, CHR 0x0B, CHR 0x0C, CHR 0x0D, CHR '' ''}"

definition blanks :: "nat \<Rightarrow> string" where
  "blanks n = replicate n CHR '' ''"

fun expandtabs :: "nat \<Rightarrow> string \<Rightarrow> string" where
  \<comment> \<open>\<open>str.expandtabs(8)\<close> from a given column\<close>
  "expandtabs col [] = []"
| "expandtabs col (c # cs) =
     (if c = CHR 0x09 then blanks (8 - col mod 8) @ expandtabs (col + (8 - col mod 8)) cs
      else if c = CHR 0x0A \<or> c = CHR 0x0D then c # expandtabs 0 cs
      else c # expandtabs (Suc col) cs)"

definition munge_whitespace :: "string \<Rightarrow> string" where
  "munge_whitespace t = map (\<lambda>c. if is_wrap_space c then CHR '' '' else c) (expandtabs 0 t)"

text \<open>The chunks of a text: maximal runs of blanks and of other characters.\<close>

function chunks :: "string \<Rightarrow> string list" where
  "chunks [] = []"
| "chunks (c # cs) =
     (c # takeWhile (\<lambda>x. is_wrap_space x = is_wrap_space c) cs) #
     chunks (dropWhile (\<lambda>x. is_wrap_space x = is_wrap_space c) cs)"
  by pat_completeness auto
termination
  by (relation "measure length") (auto simp: le_imp_less_Suc length_dropWhile_le)

definition blank_chunk :: "string \<Rightarrow> bool" where
  "blank_chunk t \<longleftrightarrow> py_strip t = []"

text \<open>As many leading chunks as fit into the width.\<close>

fun fill :: "nat \<Rightarrow> string list \<Rightarrow> string list \<times> string list" where
  "fill room [] = ([], [])"
| "fill room (x # xs) =
     (if length x \<le> room then (let (l, r) = fill (room - length x) xs in (x # l, r))
      else ([], x # xs))"

definition drop_trailing_blank :: "string list \<Rightarrow> string list" where
  "drop_trailing_blank l = (if l \<noteq> [] \<and> blank_chunk (last l) then butlast l else l)"

text \<open>One line of \<open>_wrap_chunks\<close>: the chunks of the line and the chunks left.\<close>

definition wrap_line :: "nat \<Rightarrow> string list \<Rightarrow> string list \<times> string list" where
  "wrap_line width xs =
     (let (l, r) = fill width xs;
          (l, r) = (if r \<noteq> [] \<and> length (hd r) > width \<and> l = [] then ([hd r], tl r) else (l, r))
      in (l, r))"

lemma fill_append: "fill room xs = (l, r) \<Longrightarrow> l @ r = xs"
  by (induction room xs arbitrary: l r rule: fill.induct) (auto split: if_splits prod.splits)

lemma fill_stuck: "fill room xs = ([], r) \<Longrightarrow> xs \<noteq> [] \<Longrightarrow> length (hd xs) > room \<and> r = xs"
  by (cases xs) (auto split: if_splits prod.splits)

lemma wrap_line_append: "wrap_line width xs = (l, r) \<Longrightarrow> l @ r = xs"
  by (auto simp: wrap_line_def dest: fill_append split: prod.splits if_splits)

lemma wrap_line_progress:
  assumes "wrap_line width xs = (l, r)" "xs \<noteq> []"
  shows "l \<noteq> []"
proof (cases "fill width xs")
  case (Pair l' r')
  then show ?thesis
    using assms fill_stuck [of width xs r'] by (cases "l' = []") (auto simp: wrap_line_def)
qed

lemma wrap_line_shorter: "wrap_line width xs = (l, r) \<Longrightarrow> xs \<noteq> [] \<Longrightarrow> length r < length xs"
  using wrap_line_append [of width xs l r] wrap_line_progress [of width xs l r] by auto

function wrap_chunks :: "nat \<Rightarrow> string \<Rightarrow> string \<Rightarrow> bool \<Rightarrow> string list \<Rightarrow> string list" where
  \<comment> \<open>\<open>started\<close>: some line has been produced already\<close>
  "wrap_chunks width first rest started xs =
     (if xs = [] then []
      else let indent = (if started then rest else first);
               ys = (if started \<and> blank_chunk (hd xs) then tl xs else xs)
           in if ys = [] then []
              else let (l, r) = wrap_line (width - length indent) ys;
                       line = drop_trailing_blank l
                   in if line = [] then wrap_chunks width first rest started r
                      else (indent @ concat line) # wrap_chunks width first rest True r)"
  by pat_completeness auto
termination
proof (relation "measure (\<lambda>(w, f, r, s, xs). length xs)", goal_cases)
  case 1
  then show ?case by simp
next
  case (2 width first rest started xs indent ys p l r line)
  then have "length r < length ys" by (metis wrap_line_shorter)
  with 2 show ?case by (auto split: if_splits)
next
  case (3 width first rest started xs indent ys p l r line)
  then have "length r < length ys" by (metis wrap_line_shorter)
  with 3 show ?case by (auto split: if_splits)
qed

declare wrap_chunks.simps [simp del]

definition py_wrap :: "nat \<Rightarrow> string \<Rightarrow> string \<Rightarrow> string \<Rightarrow> string list" where
  "py_wrap width first rest t = wrap_chunks width first rest False (chunks (munge_whitespace t))"

definition join_wrap :: "string list \<Rightarrow> string \<Rightarrow> string \<Rightarrow> nat \<Rightarrow> string" where
  \<comment> \<open>\<open>_join_wrap(words, normal_separator, last_separator, first_indent)\<close>\<close>
  "join_wrap words normal_separator last_separator first_indent =
     (let x = join2 words normal_separator last_separator;
          wrapped_text = concat (map (\<lambda>line. line @ [CHR 0x0A])
            (py_wrap 85 (blanks first_indent) (blanks 40) x))
      in rstrip_by (\<lambda>c. c = CHR 0x0A) (dropWhile is_space wrapped_text))"

section \<open>Entities\<close>

definition encode_html_entities :: "string \<Rightarrow> string" where
  "encode_html_entities text =
     py_replace [CHR 0x27] ''&apos;'' (py_replace ''>'' ''&gt;'' (py_replace ''<'' ''&lt;''
       (py_replace [CHR 0x22] ''&quot;'' (py_replace ''&'' ''&amp;'' text))))"

end
