(* ===== verification/Check_Input.thy ===== *)
theory Check_Input
  imports All_Opt Join_Wrap
begin

text \<open>
  \<open>lib/fencing.py.py\<close>: completing and checking the options of an agent:
  \<open>_add_dependency_options\<close>, \<open>_get_available_actions\<close>, \<open>_update_metadata\<close>,
  \<open>_set_default_values\<close>, \<open>_get_opts_with_invalid_choices\<close>, \<open>_get_opts_with_invalid_types\<close>,
  \<open>_validate_input\<close> and \<open>check_input\<close>.

  The world of these programs holds what they reach outside the options dictionary: the
  shared table \<open>all_opt\<close>, the environment variables, which paths are regular files, which
  log files can be created, what a password script prints, the name the program was called by,
  the arguments of the command line (\<open>sys.argv[1:]\<close>) and the lines of standard input.
\<close>

section \<open>The world of the option checks\<close>

record lib_world =
  tab :: opt_table
  environ :: "string \<rightharpoonup> string"
  isfile :: "string \<Rightarrow> bool"
  creatable :: "string \<Rightarrow> bool"
  popen :: "string \<Rightarrow> string"
  argv0 :: string                \<comment> \<open>\<open>sys.argv[0]\<close>\<close>
  argv :: "string list"
  stdin_lines :: "string list"

type_synonym 'a lib = "(lib_world, 'a) prog"

definition tabM :: "string \<Rightarrow> optdef lib" where
  \<comment> \<open>\<open>all_opt[k]\<close>\<close>
  "tabM k = bindM (getM (\<lambda>s. tab (world s) k)) (\<lambda>r. case r of
      None \<Rightarrow> raiseM (KeyError k)
    | Some d \<Rightarrow> retM d)"

definition settabM :: "string \<Rightarrow> (optdef \<Rightarrow> optdef) \<Rightarrow> unit lib" where
  \<comment> \<open>\<open>all_opt[k][...] = ...\<close>\<close>
  "settabM k f = bindM (tabM k) (\<lambda>d.
     modM (\<lambda>s. s\<lparr>world := (world s)\<lparr>tab := (tab (world s))(k \<mapsto> f d)\<rparr>\<rparr>))"

definition longoptM :: "string \<Rightarrow> string lib" where
  \<comment> \<open>\<open>"--" + all_opt[k]["longopt"]\<close>\<close>
  "longoptM k = bindM (tabM k) (\<lambda>d. case o_longopt d of
      None \<Rightarrow> raiseM (KeyError ''longopt'')
    | Some l \<Rightarrow> retM (''--'' @ l))"

section \<open>Dependencies and actions\<close>

definition added_dependencies :: "string list \<Rightarrow> string list" where
  "added_dependencies options =
     concat (map (\<lambda>opt. case DEPENDENCY_OPT opt of
         None \<Rightarrow> []
       | Some ys \<Rightarrow> filter (\<lambda>y. count_list options y = 0) ys) (options @ [''default'']))"

definition needs_port_as_ip :: "string list \<Rightarrow> bool" where
  "needs_port_as_ip have \<longleftrightarrow>
     ''port'' \<notin> set have \<and> ''nodename'' \<notin> set have \<and> ''ipaddr'' \<in> set have"

definition add_dependency_options :: "string list \<Rightarrow> string list lib" where
  "add_dependency_options options =
     (let added_opt = added_dependencies options in
      if needs_port_as_ip (options @ added_opt) then
        seqM (settabM ''port'' (\<lambda>d. d\<lparr>o_help :=
            ''-n, --plug=[ip]                IP address or hostname of fencing device (together with --port-as-ip)''\<rparr>))
          (retM (added_opt @ [''port_as_ip'']))
      else retM added_opt)"

definition get_available_actions :: "string list \<Rightarrow> string list \<times> string" where
  "get_available_actions device_opt =
     (let has = (\<lambda>od. count_list device_opt od > 0);
          acts0 = [''on'', ''off'', ''reboot'', ''status'', ''list'', ''list-status'',
                   ''monitor'', ''metadata'', ''manpage'', ''validate-all''];
          (acts1, default_value) = (if has ''fabric_fencing'' then (remove1 ''reboot'' acts0, ''off'')
                                    else (acts0, ''reboot''));
          acts2 = (if has ''no_status'' then remove1 ''status'' acts1 else acts1);
          acts3 = (if has ''no_on'' then remove1 ''on'' acts2 else acts2);
          acts4 = (if has ''no_off'' then remove1 ''off'' acts3 else acts3);
          acts5 = (if \<not> has ''separator'' then remove1 ''list-status'' (remove1 ''list'' acts4) else acts4);
          acts6 = (if has ''diag'' then acts5 @ [''diag''] else acts5)
      in (acts6, default_value))"

section \<open>Metadata and default values\<close>

definition update_login_metadata :: "string list \<Rightarrow> unit lib" where
  "update_login_metadata device_opt =
     seqM (settabM ''login'' (\<lambda>d. d\<lparr>o_required := Some
              (if count_list device_opt ''login'' > 0 \<and> count_list device_opt ''no_login'' = 0
               then ''1'' else ''0'')\<rparr>))
          (if count_list device_opt ''port_as_ip'' > 0 then
             seqM (settabM ''ipaddr'' (\<lambda>d. d\<lparr>o_required := Some ''0''\<rparr>))
                  (settabM ''port'' (\<lambda>d. d\<lparr>o_required := Some ''0''\<rparr>))
           else retM ())"

definition update_action_metadata :: "string list \<Rightarrow> unit lib" where
  "update_action_metadata device_opt =
     (let (available_actions, default_value) = get_available_actions device_opt;
          actions_with_default = map (\<lambda>x. if x = default_value then x @ '' (default)'' else x)
            available_actions
      in seqM (settabM ''action'' (\<lambda>d. d\<lparr>o_default := Some (PStr default_value)\<rparr>))
              (settabM ''action'' (\<lambda>d. d\<lparr>o_help :=
                 ''-o, --action=[action]          Action: '' @
                 join_wrap actions_with_default '', '' '' or '' 42\<rparr>)))"

definition show_val :: "pyval \<Rightarrow> string" where
  \<comment> \<open>an action\<close>
  "show_val v = (case v of PStr t \<Rightarrow> t | _ \<Rightarrow> '''')"

definition ipport_default :: "string list \<Rightarrow> (pyval \<times> string option) lib" where
  "ipport_default device_opt = bindM (tabM ''ipport'') (\<lambda>d.
     case o_default d of
       Some v \<Rightarrow> retM (v, None)
     | None \<Rightarrow>
         if count_list device_opt ''web'' > 0 \<and> count_list device_opt ''ssl'' > 0
         then retM (PStr ''80'', Some ''(default 80, 443 if --ssl option is used)'')
         else if count_list device_opt ''telnet'' > 0 \<and> count_list device_opt ''secure'' > 0
         then retM (PStr ''23'', Some ''(default 23, 22 if --ssh option is used)'')
         else (case filter (\<lambda>(x, _). count_list device_opt x > 0)
                 [(''community'', ''161''), (''secure'', ''22''), (''ssl'', ''443''),
                  (''web'', ''80''), (''telnet'', ''23'')] of
             [] \<Rightarrow> raiseM (IndexError ''list index out of range'')
           | (_, port) # _ \<Rightarrow> retM (PStr port, None)))"

definition update_ipport_metadata :: "string list \<Rightarrow> unit lib" where
  "update_ipport_metadata device_opt =
     (if count_list device_opt ''ipport'' > 0 then
        bindM (ipport_default device_opt) (\<lambda>(default_value, default_string).
          settabM ''ipport'' (\<lambda>d. d\<lparr>o_help := (case default_string of
              None \<Rightarrow> ''-u, --ipport=[port]            TCP/UDP port to use (default ''
                        @ py_str default_value @ '')''
            | Some t \<Rightarrow> ''-u, --ipport=[port]            TCP/UDP port to use'' @ nl @ blanks 40 @ t)\<rparr>))
      else retM ())"

definition update_metadata :: "string list \<Rightarrow> unit lib" where
  "update_metadata device_opt =
     seqM (update_login_metadata device_opt)
    (seqM (update_action_metadata device_opt)
          (update_ipport_metadata device_opt))"

definition default_is_1 :: "string \<Rightarrow> bool lib" where
  \<comment> \<open>\<open>all_opt[k].get("default", "0") == "1"\<close>\<close>
  "default_is_1 k = bindM (tabM k) (\<lambda>d. retM (o_default d = Some (PStr ''1'')))"

definition hasopt_or_default :: "string \<Rightarrow> string \<Rightarrow> bool lib" where
  "hasopt_or_default od k = bindM (hasoptM od) (\<lambda>b. if b then retM True else default_is_1 k)"

definition set_default_ipport :: "string list \<Rightarrow> unit lib" where
  "set_default_ipport device_opt =
     seqM (bindM (tabM ''ipport'') (\<lambda>d. case o_default d of
         Some v \<Rightarrow> setoptM ''--ipport'' v
       | None \<Rightarrow>
          if ''community'' \<in> set device_opt then setoptM ''--ipport'' (PStr ''161'')
          else bindM (hasopt_or_default ''--ssh'' ''secure'') (\<lambda>ssh.
            if ssh then setoptM ''--ipport'' (PStr ''22'')
          else bindM (hasopt_or_default ''--ssl'' ''ssl'') (\<lambda>ssl.
            if ssl then setoptM ''--ipport'' (PStr ''443'')
          else bindM (hasopt_or_default ''--ssl-secure'' ''ssl_secure'') (\<lambda>sec.
            if sec then setoptM ''--ipport'' (PStr ''443'')
          else bindM (hasopt_or_default ''--ssl-insecure'' ''ssl_insecure'') (\<lambda>insec.
            if insec then setoptM ''--ipport'' (PStr ''443'')
          else if ''web'' \<in> set device_opt then setoptM ''--ipport'' (PStr ''80'')
          else if ''telnet'' \<in> set device_opt then setoptM ''--ipport'' (PStr ''23'')
          else retM ()))))))
    (bindM (getM opts) (\<lambda>od. case od ''--ipport'' of
         None \<Rightarrow> retM ()
       | Some v \<Rightarrow> settabM ''ipport'' (\<lambda>d. d\<lparr>o_default := Some v\<rparr>)))"

definition set_default_opt :: "string \<Rightarrow> unit lib" where
  "set_default_opt opt = bindM (tabM opt) (\<lambda>d.
     case o_default d of
       Some v \<Rightarrow>
         if opt = ''ipport'' then retM ()
         else bindM (longoptM opt) (\<lambda>getopt_long.
           bindM (hasoptM getopt_long) (\<lambda>given.
             if given then retM () else setoptM getopt_long v))
     | None \<Rightarrow> retM ())"

definition set_default_values :: "string list \<Rightarrow> unit lib" where
  "set_default_values device_opt =
     seqM (if ''ipport'' \<in> set device_opt then
             bindM (hasoptM ''--ipport'') (\<lambda>given.
               if given then retM () else set_default_ipport device_opt)
           else retM ())
          (forM device_opt set_default_opt)"

section \<open>Validation\<close>

definition upper_opt :: "string \<Rightarrow> string lib" where
  \<comment> \<open>\<open>options[k] = options[k].upper()\<close>, giving the new value\<close>
  "upper_opt k = bindM (optM k) (\<lambda>v. case v of
      PStr t \<Rightarrow> seqM (setoptM k (PStr (py_upper t))) (retM (py_upper t))
    | _ \<Rightarrow> raiseM (AttributeError ''upper''))"

definition bad_choice :: "string \<Rightarrow> bool lib" where
  "bad_choice opt = bindM (tabM opt) (\<lambda>d. case o_choices d of
      None \<Rightarrow> retM False
    | Some choices \<Rightarrow>
        bindM (longoptM opt) (\<lambda>longopt.
        bindM (hasoptM longopt) (\<lambda>given.
          if given then bindM (upper_opt longopt) (\<lambda>v. retM (v \<notin> set (map py_upper choices)))
          else retM False)))"

definition get_opts_with_invalid_choices :: "string list \<Rightarrow> string list lib" where
  "get_opts_with_invalid_choices device_opt =
     foldM (\<lambda>failed opt. bindM (bad_choice opt) (\<lambda>bad.
       retM (if bad then failed @ [opt] else failed))) [] device_opt"

definition bad_type :: "string \<Rightarrow> bool lib" where
  "bad_type opt = bindM (tabM opt) (\<lambda>d. case o_type d of
      None \<Rightarrow> retM False
    | Some ty \<Rightarrow>
        bindM (longoptM opt) (\<lambda>longopt.
        bindM (hasoptM longopt) (\<lambda>given.
          if given \<and> ty \<in> {''integer'', ''second''} then
            bindM (optM longopt) (\<lambda>v. case py_int v of
                Raise (ValueError _) \<Rightarrow> retM True
              | Raise e \<Rightarrow> raiseM e
              | _ \<Rightarrow> retM False)
          else retM False)))"

definition get_opts_with_invalid_types :: "string list \<Rightarrow> string list lib" where
  "get_opts_with_invalid_types device_opt =
     foldM (\<lambda>failed opt. bindM (bad_type opt) (\<lambda>bad.
       retM (if bad then failed @ [opt] else failed))) [] device_opt"

definition need :: "bool \<Rightarrow> string \<Rightarrow> bool \<Rightarrow> bool \<Rightarrow> bool lib" where
  \<comment> \<open>\<open>if cond: valid_input = False; fail_usage(message, stop)\<close>\<close>
  "need cond message stop valid_input =
     (if cond then seqM (fail_usage message stop) (retM False) else retM valid_input)"

definition repr_choices :: "string list \<Rightarrow> string" where
  \<comment> \<open>\<open>str(list of texts)\<close>\<close>
  "repr_choices xs = ''['' @ py_join '', '' (map (\<lambda>x. [CHR 0x27] @ x @ [CHR 0x27]) xs) @ '']''"

definition choice_message :: "string \<Rightarrow> string lib" where
  "choice_message opt = bindM (longoptM opt) (\<lambda>l. bindM (tabM opt) (\<lambda>d.
     retM (''Failed: You have to enter a valid choice for '' @ l @ '' from the valid values: ''
       @ (case o_choices d of None \<Rightarrow> '''' | Some cs \<Rightarrow> repr_choices cs))))"

definition type_message :: "string \<Rightarrow> string lib" where
  "type_message opt = bindM (longoptM opt) (\<lambda>l. bindM (tabM opt) (\<lambda>d.
     retM (''Failed: The value you have entered for '' @ l @ '' is not a valid '' @
       (case o_type d of
          None \<Rightarrow> ''''
        | Some ty \<Rightarrow> if ty = ''second'' then ''time in seconds'' else ty))))"

definition missing_login :: "string list \<Rightarrow> pydict \<Rightarrow> bool" where
  "missing_login device_opt od \<longleftrightarrow> od ''--username'' = None \<and>
     count_list device_opt ''login'' > 0 \<and> count_list device_opt ''no_login'' = 0"

definition missing_address :: "string list \<Rightarrow> pydict \<Rightarrow> bool" where
  "missing_address device_opt od \<longleftrightarrow> count_list device_opt ''ipaddr'' > 0 \<and>
     od ''--ip'' = None \<and> od ''--managed'' = None \<and> od ''--target'' = None"

definition missing_password :: "string list \<Rightarrow> pydict \<Rightarrow> bool" where
  "missing_password device_opt od \<longleftrightarrow>
     count_list device_opt ''no_password'' = 0 \<and>
     od ''--password'' = None \<and> od ''--password-script'' = None \<and>
     (count_list device_opt ''identity_file'' = 0 \<or> od ''--identity-file'' = None)"

definition password_message :: "string list \<Rightarrow> string" where
  "password_message device_opt =
     (if count_list device_opt ''identity_file'' = 0
      then ''Failed: You have to enter password or password script''
      else ''Failed: You have to enter password, password script or identity file'')"

definition missing_plug :: "string list \<Rightarrow> pydict \<Rightarrow> bool" where
  "missing_plug device_opt od \<longleftrightarrow>
     (\<forall>a\<in>{''list'', ''list-status'', ''monitor''}. od ''--action'' \<noteq> Some (PStr a)) \<and>
     od ''--plug'' = None \<and> count_list device_opt ''port'' > 0 \<and>
     count_list device_opt ''no_port'' = 0 \<and> count_list device_opt ''port_as_ip'' = 0"

definition identity_file_problem :: "bool \<Rightarrow> bool \<Rightarrow> bool lib" where
  \<comment> \<open>\<open>os.path.isfile(options["--identity-file"])\<close>\<close>
  "identity_file_problem stop valid_input = bindM (getM (\<lambda>s. (opts s, world s))) (\<lambda>(od, w).
     case od ''--identity-file'' of
       Some (PStr f) \<Rightarrow>
         need (\<not> isfile w f) (''Failed: Identity file '' @ f @ '' does not exist'') stop valid_input
     | Some _ \<Rightarrow> raiseM (TypeError ''isfile'')
     | None \<Rightarrow> retM valid_input)"

definition validate_input :: "bool \<Rightarrow> string list \<Rightarrow> bool lib" where
  "validate_input stop device_opt =
     bindM (getM opts) (\<lambda>od.
     bindM (need (missing_login device_opt od) ''Failed: You have to set login name'' stop True) (\<lambda>v1.
     bindM (need (missing_address device_opt od) ''Failed: You have to enter fence address'' stop v1) (\<lambda>v2.
     bindM (need (missing_password device_opt od) (password_message device_opt) stop v2) (\<lambda>v3.
     bindM (need (od ''--ssh'' = None \<and> od ''--identity-file'' \<noteq> None)
        ''Failed: You have to use identity file together with ssh connection (-x)'' stop v3) (\<lambda>v4.
     bindM (identity_file_problem stop v4) (\<lambda>v5.
     bindM (need (missing_plug device_opt od)
        ''Failed: You have to enter plug number or machine identification'' stop v5) (\<lambda>v6.
     bindM (get_opts_with_invalid_choices device_opt) (\<lambda>bad_choices.
     bindM (foldM (\<lambda>v opt. bindM (choice_message opt) (\<lambda>m. need True m stop v)) v6 bad_choices) (\<lambda>v7.
     bindM (get_opts_with_invalid_types device_opt) (\<lambda>bad_types.
     foldM (\<lambda>v opt. bindM (type_message opt) (\<lambda>m. need True m stop v)) v7 bad_types))))))))))"

section \<open>check_input\<close>

definition optgetM :: "string \<Rightarrow> string \<Rightarrow> pyval lib" where
  \<comment> \<open>\<open>options.get(k, dflt)\<close>\<close>
  "optgetM k dflt = getM (\<lambda>s. case opts s k of None \<Rightarrow> PStr dflt | Some v \<Rightarrow> v)"

definition lower_val :: "pyval \<Rightarrow> string lib" where
  "lower_val v = (case v of PStr t \<Rightarrow> retM (py_lower t) | _ \<Rightarrow> raiseM (AttributeError ''lower''))"

definition normalise_action :: "unit lib" where
  \<comment> \<open>lower case, and the OCF spelling of metadata\<close>
  "normalise_action =
     bindM (optM ''--action'') (\<lambda>v.
     bindM (lower_val v) (\<lambda>a.
     seqM (setoptM ''--action'' (PStr a))
          (if a = ''meta-data'' then setoptM ''--action'' (PStr ''metadata'') else retM ())))"

definition shows_docs_only :: "bool lib" where
  "shows_docs_only =
     bindM (optM ''--action'') (\<lambda>a.
     bindM (getM opts) (\<lambda>od.
       retM (a \<in> {PStr ''metadata'', PStr ''manpage''} \<or> od ''--help'' \<noteq> None \<or> od ''--version'' \<noteq> None)))"

definition check_verbosity :: "unit lib" where
  "check_verbosity =
     bindM (optM ''--verbose-level'') (\<lambda>v.
     bindM (case py_int v of
         Ret n \<Rightarrow> retM n
       | Raise (ValueError _) \<Rightarrow> retM (-1)
       | r \<Rightarrow> liftM r) (\<lambda>n.
     let level = (if n < 0 then 0 else n) in
     seqM (setoptM ''--verbose-level'' (PInt level))
    (bindM (hasoptM ''--verbose'') (\<lambda>verbose.
     seqM (if level = 0 \<and> verbose then deloptM ''--verbose'' else retM ())
          (if level > 0 then setoptM ''--verbose'' (PInt 1) else retM ())))))"

definition acceptable_actions :: "string list \<Rightarrow> string list" where
  "acceptable_actions device_opt =
     fst (get_available_actions device_opt)
     @ (if count_list device_opt ''fabric_fencing'' = 1 then [''enable'', ''disable''] else [])"

definition check_action :: "string list \<Rightarrow> unit lib" where
  "check_action device_opt =
     bindM (optM ''--action'') (\<lambda>v.
     let a = show_val v in
     seqM (if count_list (acceptable_actions device_opt) a = 0
           then fail_usage (''Failed: Unrecognised action '' @ [CHR 0x27] @ a @ [CHR 0x27]) True
           else retM ())
    (seqM (if a = ''enable'' then setoptM ''--action'' (PStr ''on'') else retM ())
          (if a = ''disable'' then setoptM ''--action'' (PStr ''off'') else retM ())))"

definition check_debug_file :: "unit lib" where
  "check_debug_file = bindM (getM (\<lambda>s. (opts s, world s))) (\<lambda>(od, w).
     case od ''--debug-file'' of
       None \<Rightarrow> retM ()
     | Some (PStr f) \<Rightarrow>
         if creatable w f then retM ()
         else seqM (logM (''Unable to create file '' @ f))
                   (fail_usage (''Failed: Unable to create file '' @ f) True)
     | Some _ \<Rightarrow> raiseM (TypeError ''FileHandler''))"

definition run_script :: "string \<Rightarrow> string \<Rightarrow> unit lib" where
  \<comment> \<open>\<open>if k in options: options[target] = os.popen(options[k]).read().rstrip()\<close>\<close>
  "run_script k target = bindM (getM (\<lambda>s. (opts s, world s))) (\<lambda>(od, w).
     case od k of
       None \<Rightarrow> retM ()
     | Some (PStr script) \<Rightarrow> setoptM target (PStr (py_rstrip (popen w script)))
     | Some _ \<Rightarrow> raiseM (TypeError ''invalid cmd type''))"

definition complete_ssl :: "unit lib" where
  "complete_ssl =
     seqM (bindM (getM opts) (\<lambda>od.
        if od ''--ssl-secure'' \<noteq> None \<or> od ''--ssl-insecure'' \<noteq> None
        then setoptM ''--ssl'' (PStr []) else retM ()))
    (bindM (getM opts) (\<lambda>od.
        if od ''--ssl'' \<noteq> None \<and> od ''--ssl-insecure'' = None
        then setoptM ''--ssl-secure'' (PStr []) else retM ()))"

definition truth_words :: "string list" where
  "truth_words = [''1'', ''yes'', ''on'', ''true'']"

definition complete_timeouts :: "unit lib" where
  "complete_timeouts =
     seqM (bindM (getM (\<lambda>s. (opts s, world s))) (\<lambda>(od, w).
        if environ w ''PCMK_service'' = Some ''pacemaker-fenced'' \<and> od ''--disable-timeout'' = None
        then setoptM ''--disable-timeout'' (PStr ''1'') else retM ()))
    (bindM (optgetM ''--disable-timeout'' []) (\<lambda>v.
     bindM (lower_val v) (\<lambda>t.
        if t \<in> set truth_words then
          seqM (setoptM ''--power-timeout'' (PInt 0))
         (seqM (setoptM ''--shell-timeout'' (PInt 0)) (setoptM ''--login-timeout'' (PInt 0)))
        else retM ())))"

definition complete_options :: "unit lib" where
  "complete_options =
     seqM check_debug_file
    (seqM (run_script ''--snmp-priv-passwd-script'' ''--snmp-priv-passwd'')
    (seqM (run_script ''--password-script'' ''--password'')
    (seqM complete_ssl complete_timeouts)))"

definition check_valid :: "bool \<Rightarrow> string list \<Rightarrow> unit lib" where
  "check_valid other_conditions device_opt =
     bindM (optM ''--action'') (\<lambda>a.
       if a = PStr ''validate-all'' \<and> \<not> other_conditions then
         bindM (validate_input False device_opt) (\<lambda>ok.
           seqM (if \<not> ok then fail_usage ''validate-all failed'' True else retM ())
                (exitM EC_OK))
       else seqM (validate_input True device_opt) (retM ()))"

text \<open>
  \<open>check_input(device_opt, opt, other_conditions)\<close>: the options dictionary of the state is
  the copy \<open>dict(opt)\<close> at the start and the returned dictionary at the end. The changes of
  the logging configuration (level and handlers) are left out.
\<close>

definition check_input :: "string list \<Rightarrow> bool \<Rightarrow> unit lib" where
  "check_input device_opt0 other_conditions =
     bindM (add_dependency_options device_opt0) (\<lambda>added.
     let device_opt = device_opt0 @ added in
     seqM (setoptM ''device_opt'' (PList device_opt))
    (seqM (update_metadata device_opt)
    (seqM (set_default_values device_opt)
    (seqM normalise_action
    (bindM shows_docs_only (\<lambda>docs_only.
       if docs_only then retM ()
       else seqM check_verbosity
           (seqM (check_action device_opt)
           (seqM (check_valid other_conditions device_opt)
                 complete_options))))))))"

end
