(* ===== verification/Check_Input_Props.thy ===== *)
theory Check_Input_Props
  imports Check_Input
begin

text \<open>
  What the option checks of \<open>check_input\<close> guarantee to the agent that goes on with the
  returned options.
\<close>

section \<open>Available actions\<close>

definition base_actions :: "string list" where
  "base_actions = [''on'', ''off'', ''reboot'', ''status'', ''list'', ''list-status'',
                   ''monitor'', ''metadata'', ''manpage'', ''validate-all'']"

lemma distinct_base_actions: "distinct base_actions"
  by (simp add: base_actions_def)

definition drop_action :: "string list \<Rightarrow> string \<Rightarrow> string \<Rightarrow> string list \<Rightarrow> string list" where
  "drop_action dev flag a acts = (if flag \<in> set dev then remove1 a acts else acts)"

lemma drop_action_simps [simp]:
  "distinct acts \<Longrightarrow> distinct (drop_action dev flag a acts)"
  "distinct acts \<Longrightarrow> x \<in> set (drop_action dev flag a acts) \<longleftrightarrow> x \<in> set acts \<and> (flag \<in> set dev \<longrightarrow> x \<noteq> a)"
  by (auto simp: drop_action_def)

lemma available_actions_eq:
  "get_available_actions dev =
     (let acts = drop_action dev ''no_off'' ''off'' (drop_action dev ''no_on'' ''on''
                  (drop_action dev ''no_status'' ''status''
                   (drop_action dev ''fabric_fencing'' ''reboot'' base_actions)));
          listed = (if ''separator'' \<in> set dev then acts else remove1 ''list-status'' (remove1 ''list'' acts))
      in (listed @ (if ''diag'' \<in> set dev then [''diag''] else []),
          if ''fabric_fencing'' \<in> set dev then ''off'' else ''reboot''))"
  unfolding get_available_actions_def Let_def drop_action_def base_actions_def count_list_pos
  by (cases "''fabric_fencing'' \<in> set dev"; cases "''diag'' \<in> set dev"; cases "''separator'' \<in> set dev")
    (simp_all cong: if_cong split del: if_split del: remove1.simps)

lemma available_action_iff:
  "a \<in> set (fst (get_available_actions dev)) \<longleftrightarrow>
     (a \<in> set base_actions \<and>
      (''fabric_fencing'' \<in> set dev \<longrightarrow> a \<noteq> ''reboot'') \<and>
      (''no_status'' \<in> set dev \<longrightarrow> a \<noteq> ''status'') \<and>
      (''no_on'' \<in> set dev \<longrightarrow> a \<noteq> ''on'') \<and>
      (''no_off'' \<in> set dev \<longrightarrow> a \<noteq> ''off'') \<and>
      (''separator'' \<notin> set dev \<longrightarrow> a \<noteq> ''list'' \<and> a \<noteq> ''list-status''))
     \<or> a = ''diag'' \<and> ''diag'' \<in> set dev"
  by (auto simp: available_actions_eq Let_def distinct_base_actions)

lemma default_action: "snd (get_available_actions dev) =
    (if ''fabric_fencing'' \<in> set dev then ''off'' else ''reboot'')"
  by (simp add: available_actions_eq Let_def)

section \<open>The table behind the checks\<close>

lemma tabM_Ret [ret_iff]: "tabM k s = (Ret d, s') \<longleftrightarrow> tab (world s) k = Some d \<and> s' = s"
  by (auto simp: tabM_def ret_iff split: option.splits)

lemma settabM_Ret [ret_iff]:
  "settabM k f s = (Ret u, s') \<longleftrightarrow> (\<exists>d. tab (world s) k = Some d \<and>
     s' = s\<lparr>world := (world s)\<lparr>tab := (tab (world s))(k \<mapsto> f d)\<rparr>\<rparr>)"
  by (auto simp: settabM_def ret_iff)

lemma longoptM_Ret [ret_iff]:
  "longoptM k s = (Ret r, s') \<longleftrightarrow>
     (\<exists>d l. tab (world s) k = Some d \<and> o_longopt d = Some l \<and> r = ''--'' @ l) \<and> s' = s"
  by (auto simp: longoptM_def ret_iff split: option.splits)

text \<open>The checks change the help, required and default entries of the table, nothing else.\<close>

definition optstatic :: "optdef \<Rightarrow> string \<times> string option \<times> string option \<times> string list option" where
  "optstatic d = (o_getopt d, o_longopt d, o_type d, o_choices d)"

definition statics :: "lib_world st \<Rightarrow> string \<Rightarrow> (string \<times> string option \<times> string option \<times> string list option) option" where
  "statics s k = map_option optstatic (tab (world s) k)"

lemma keeps_statics_prims [keeps_intro]:
  "keeps statics (setoptM k v)" "keeps statics (deloptM k)" "keeps statics (tabM k)"
  "keeps statics (longoptM k)" "keeps statics (fail_usage m stop)"
  by (auto simp: keeps_def ret_iff statics_def)

lemma keeps_statics_settabM [keeps_intro]:
  "(\<And>d. optstatic (f d) = optstatic d) \<Longrightarrow> keeps statics (settabM k f)"
  by (auto simp: keeps_def ret_iff statics_def)

lemma keeps_opts_tab [keeps_intro]:
  "keeps opts (settabM k f)" "keeps opts (tabM k)" "keeps opts (longoptM k)"
  "keeps (\<lambda>s. opts s j) (settabM k f)" "keeps (\<lambda>s. opts s j) (tabM k)" "keeps (\<lambda>s. opts s j) (longoptM k)"
  "keeps world (tabM k)" "keeps world (longoptM k)"
  by (auto simp: keeps_def ret_iff)

lemma keeps_tab_prims:
  "keeps (\<lambda>s. tab (world s) j) (tabM k)" "keeps (\<lambda>s. tab (world s) j) (longoptM k)"
  "keeps (\<lambda>s. tab (world s) j) (setoptM k' v)" "k \<noteq> j \<Longrightarrow> keeps (\<lambda>s. tab (world s) j) (settabM k f)"
  by (auto simp: keeps_def ret_iff)

lemma keeps_ipport_default: "keeps statics (ipport_default dev)" "keeps opts (ipport_default dev)"
  unfolding ipport_default_def by (intro keeps_intro)+

lemma keeps_update_metadata:
  "keeps statics (update_metadata dev)" "keeps opts (update_metadata dev)"
  unfolding update_metadata_def update_login_metadata_def update_action_metadata_def
    update_ipport_metadata_def
  by (intro keeps_intro keeps_ipport_default; simp add: optstatic_def)+

lemma keeps_set_default_opt: "keeps statics (set_default_opt opt)"
  unfolding set_default_opt_def by (auto intro!: keeps_intro)

lemma keeps_set_default_ipport: "keeps statics (set_default_ipport dev)"
  unfolding set_default_ipport_def hasopt_or_default_def default_is_1_def
  by (intro keeps_intro) (simp_all add: optstatic_def)

lemma keeps_set_default_values: "keeps statics (set_default_values dev)"
  unfolding set_default_values_def
  by (intro keeps_intro keeps_set_default_opt keeps_set_default_ipport)

section \<open>Default values\<close>

text \<open>A default never replaces a value that was given.\<close>

definition grows :: "('a, 'b) prog \<Rightarrow> bool" where
  "grows m \<longleftrightarrow> (\<forall>s r s'. m s = (Ret r, s') \<longrightarrow> opts s \<subseteq>\<^sub>m opts s')"

lemma growsD: "grows m \<Longrightarrow> m s = (Ret r, s') \<Longrightarrow> opts s \<subseteq>\<^sub>m opts s'"
  by (simp add: grows_def)

lemma grows_bindM: "grows m \<Longrightarrow> (\<And>x. grows (n x)) \<Longrightarrow> grows (bindM m n)"
  unfolding grows_def ret_iff by (meson map_le_trans)

lemma grows_keeps: "keeps opts m \<Longrightarrow> grows m"
  by (auto simp: grows_def keeps_def)

lemma grows_retM: "grows (retM x)"
  by (rule grows_keeps) (rule keeps_intro)

lemma grows_forM: "(\<And>x. grows (f x)) \<Longrightarrow> grows (forM xs f)"
  by (induction xs) (auto intro: grows_bindM grows_retM)

lemma set_default_opt_Ret:
  assumes "set_default_opt opt s = (Ret u, s')" and "tab (world s) opt = Some d"
  shows "case o_default d of
      None \<Rightarrow> s' = s
    | Some v \<Rightarrow> if opt = ''ipport'' then s' = s
        else \<exists>l. o_longopt d = Some l \<and>
          (if opts s (''--'' @ l) = None then s' = s\<lparr>opts := (opts s)(''--'' @ l \<mapsto> v)\<rparr> else s' = s)"
  using assms by (auto simp: set_default_opt_def ret_iff split: option.splits if_splits)

lemma grows_set_default_opt: "grows (set_default_opt opt)"
  unfolding grows_def
proof (intro allI impI)
  fix s :: "lib_world st" and u s'
  assume run: "set_default_opt opt s = (Ret u, s')"
  then obtain d where "tab (world s) opt = Some d" by (auto simp: set_default_opt_def ret_iff)
  from set_default_opt_Ret [OF run this] show "opts s \<subseteq>\<^sub>m opts s'"
    by (auto simp: map_le_def split: option.splits if_splits)
qed

text \<open>\<open>--ipport\<close> is set only when it is missing.\<close>

lemma set_default_ipport_grows:
  assumes "set_default_ipport dev s = (Ret u, s')" and "opts s ''--ipport'' = None"
  shows "opts s \<subseteq>\<^sub>m opts s'"
proof -
  have "keeps (\<lambda>s. opts s j) (set_default_ipport dev)" if "j \<noteq> ''--ipport''" for j
    unfolding set_default_ipport_def hasopt_or_default_def default_is_1_def
    using that by (intro keeps_intro) simp_all
  then have eq: "opts s' j = opts s j" if "j \<noteq> ''--ipport''" for j
    using assms(1) that by (auto dest: keepsD)
  show ?thesis unfolding map_le_def
  proof
    fix j assume "j \<in> dom (opts s)"
    then have "j \<noteq> ''--ipport''" using assms(2) by auto
    then show "opts s j = opts s' j" by (rule eq [symmetric])
  qed
qed

lemma grows_set_default_opts: "grows (forM dev set_default_opt)"
  by (rule grows_forM) (rule grows_set_default_opt)

lemma set_default_values_grows: "grows (set_default_values dev)"
  unfolding grows_def
proof (intro allI impI)
  fix s :: "lib_world st" and u s'
  assume "set_default_values dev s = (Ret u, s')"
  then obtain s1 where one: "opts s \<subseteq>\<^sub>m opts s1" and "forM dev set_default_opt s1 = (Ret u, s')"
    by (auto simp: set_default_values_def ret_iff dest: set_default_ipport_grows
        intro: map_le_refl split: if_splits)
  then have "opts s1 \<subseteq>\<^sub>m opts s'"
    by (blast dest: growsD [OF grows_set_default_opts])
  with one show "opts s \<subseteq>\<^sub>m opts s'" by (rule map_le_trans)
qed

text \<open>Every option with a default has a value afterwards.\<close>

lemma set_default_opts_filled:
  "forM dev set_default_opt s = (Ret u, s') \<Longrightarrow> opt \<in> set dev \<Longrightarrow> opt \<noteq> ''ipport'' \<Longrightarrow>
   tab (world s) opt = Some d \<Longrightarrow> o_default d \<noteq> None \<Longrightarrow> o_longopt d = Some l \<Longrightarrow>
     opts s' (''--'' @ l) \<noteq> None"
proof (induction dev arbitrary: s)
  case Nil
  then show ?case by simp
next
  case (Cons x xs)
  from Cons.prems(1) obtain s1 where x: "set_default_opt x s = (Ret (), s1)"
    and xs: "forM xs set_default_opt s1 = (Ret u, s')" by (auto simp: ret_iff)
  have "keeps world (set_default_opt x)" unfolding set_default_opt_def by (intro keeps_intro)
  then have w: "world s1 = world s" by (rule keepsD) (rule x)
  have le: "opts s1 \<subseteq>\<^sub>m opts s'" by (rule growsD [OF grows_set_default_opts xs])
  show ?case
  proof (cases "opt = x")
    case True
    have "opts s1 (''--'' @ l) \<noteq> None"
      using set_default_opt_Ret [OF x] Cons.prems(3-6) True by (auto split: if_splits)
    then obtain v where "opts s1 (''--'' @ l) = Some v" by auto
    with le have "opts s' (''--'' @ l) = Some v" by (metis domI map_le_def)
    then show ?thesis by simp
  next
    case False
    with Cons.prems w show ?thesis by (intro Cons.IH [OF xs]) auto
  qed
qed

lemma set_default_values_filled:
  assumes "set_default_values dev s = (Ret u, s')" and "opt \<in> set dev" "opt \<noteq> ''ipport''"
    and "tab (world s) opt = Some d" "o_default d \<noteq> None" "o_longopt d = Some l"
  shows "opts s' (''--'' @ l) \<noteq> None"
proof -
  from assms(1) obtain s1 where first: "(if ''ipport'' \<in> set dev then
             bindM (hasoptM ''--ipport'') (\<lambda>given.
               if given then retM () else set_default_ipport dev)
           else retM ()) s = (Ret (), s1)" and rest: "forM dev set_default_opt s1 = (Ret u, s')"
    by (auto simp: set_default_values_def bindM_Ret)
  have other: "keeps (\<lambda>s. tab (world s) opt) (set_default_ipport dev)"
    unfolding set_default_ipport_def hasopt_or_default_def default_is_1_def
    using assms(3) by (intro keeps_intro keeps_tab_prims) auto
  have "tab (world s1) opt = tab (world s) opt"
    using first keepsD [OF other] by (auto simp: ret_iff split: if_splits)
  with set_default_opts_filled [OF rest assms(2,3)] assms(4-6) show ?thesis by auto
qed

section \<open>Validation\<close>

lemma need_Ret [ret_iff]:
  "need cond m stop v s = (Ret b, s') \<longleftrightarrow>
     (if cond then \<not> stop \<and> \<not> b \<and> s' = (if m = [] then s else s\<lparr>errs := errs s @ [m @ nl]\<rparr>)
      else b = v \<and> s' = s)"
  by (auto simp: need_def ret_iff split: if_splits)

lemma need_True: "need cond m stop v s = (Ret True, s') \<longleftrightarrow> \<not> cond \<and> v \<and> s' = s"
  by (auto simp: ret_iff split: if_splits)

text \<open>Once the verdict is False it stays False.\<close>

definition doomed :: "(bool \<Rightarrow> bool lib) \<Rightarrow> bool" where
  "doomed f \<longleftrightarrow> (\<forall>s s'. f False s \<noteq> (Ret True, s'))"

abbreviation complain :: "bool \<Rightarrow> ('a \<Rightarrow> string lib) \<Rightarrow> bool \<Rightarrow> 'a list \<Rightarrow> bool lib" where
  "complain stop msg \<equiv> foldM (\<lambda>v opt. bindM (msg opt) (\<lambda>m. need True m stop v))"

lemma complain_False: "complain stop msg False xs s = (Ret b, s') \<Longrightarrow> \<not> b"
proof (induction xs arbitrary: s)
  case Nil
  then show ?case by (simp add: ret_iff)
next
  case (Cons x xs)
  from Cons.prems obtain m s0 v s1 where "need True m stop False s0 = (Ret v, s1)"
    and rest: "complain stop msg v xs s1 = (Ret b, s')"
    by (auto simp: bindM_Ret)
  then have "v = False" by (simp add: need_Ret)
  with rest have "complain stop msg False xs s1 = (Ret b, s')" by simp
  then show ?case by (rule Cons.IH)
qed

lemma complain_True:
  "complain stop msg v xs s = (Ret True, s') \<longleftrightarrow> xs = [] \<and> v \<and> s' = s"
proof (cases xs)
  case Nil
  then show ?thesis by (auto simp: ret_iff)
next
  case (Cons x ys)
  have False if t: "complain stop msg v (x # ys) s = (Ret True, s')"
  proof -
    from t obtain m s0 v1 s1 where n: "need True m stop v s0 = (Ret v1, s1)"
      and r: "complain stop msg v1 ys s1 = (Ret True, s')" by (auto simp: bindM_Ret)
    from n have "v1 = False" by (simp add: need_Ret)
    with r have "complain stop msg False ys s1 = (Ret True, s')" by simp
    from complain_False [OF this] show False by simp
  qed
  with Cons show ?thesis by auto
qed

lemma doomed_complain: "doomed (\<lambda>v. complain stop msg v xs)"
  unfolding doomed_def using complain_True by blast

lemma doomed_after: "(\<And>x. doomed (f x)) \<Longrightarrow> doomed (\<lambda>v. bindM m (\<lambda>x. f x v))"
  unfolding doomed_def bindM_Ret by blast

lemma doomed_need: "doomed f \<Longrightarrow> doomed (\<lambda>v. bindM (need c m stop v) f)"
  unfolding doomed_def by (auto simp: bindM_Ret need_Ret split: if_splits)

lemma doomed_via:
  assumes m: "\<And>s b s'. m False s = (Ret b, s') \<Longrightarrow> \<not> b" and f: "doomed f"
  shows "doomed (\<lambda>v. bindM (m v) f)"
  unfolding doomed_def
proof (intro allI notI)
  fix s s' assume "bindM (m False) f s = (Ret True, s')"
  then obtain b s1 where b: "m False s = (Ret b, s1)" and r: "f b s1 = (Ret True, s')"
    by (auto simp: bindM_Ret)
  from m [OF b] r have "f False s1 = (Ret True, s')" by simp
  with f show False unfolding doomed_def by blast
qed

lemma identity_file_problem_False: "identity_file_problem stop False s = (Ret b, s') \<Longrightarrow> \<not> b"
  by (auto simp: identity_file_problem_def ret_iff split: option.splits pyval.splits if_splits)

lemmas doomed_complain_then =
  doomed_via [where m = "\<lambda>v. complain stop msg v xs" for stop msg xs, OF complain_False]
lemmas doomed_identity = doomed_via [where m = "identity_file_problem stop" for stop, OF identity_file_problem_False]

lemmas doomed_rules = doomed_complain doomed_need doomed_complain_then doomed_identity doomed_after

lemma need_bind_True:
  "doomed f \<Longrightarrow> bindM (need c m stop v) f s = (Ret True, s') \<longleftrightarrow> \<not> c \<and> f v s = (Ret True, s')"
  unfolding doomed_def by (auto simp: bindM_Ret need_Ret split: if_splits)

lemma complain_bind_True:
  assumes d: "doomed f"
  shows "bindM (complain stop msg v xs) f s = (Ret True, s') \<longleftrightarrow>
     (xs = [] \<and> f v s = (Ret True, s'))"
proof
  assume "bindM (complain stop msg v xs) f s = (Ret True, s')"
  then obtain b s1 where c: "complain stop msg v xs s = (Ret b, s1)" and r: "f b s1 = (Ret True, s')"
    by (auto simp: bindM_Ret)
  have "b \<or> v = b \<and> xs = [] \<and> s1 = s" 
  proof (cases b)
    case False
    with r d show ?thesis unfolding doomed_def by auto
  qed simp
  with c r show "xs = [] \<and> f v s = (Ret True, s')" by (auto simp: complain_True)
next
  assume "xs = [] \<and> f v s = (Ret True, s')"
  then show "bindM (complain stop msg v xs) f s = (Ret True, s')" by (simp add: run_simps)
qed

definition identity_ok :: "lib_world \<Rightarrow> pydict \<Rightarrow> bool" where
  "identity_ok w od = (case od ''--identity-file'' of
     None \<Rightarrow> True | Some (PStr f) \<Rightarrow> isfile w f | _ \<Rightarrow> False)"

lemma identity_bind_True:
  "doomed f \<Longrightarrow> bindM (identity_file_problem stop v) f s = (Ret True, s') \<longleftrightarrow>
     identity_ok (world s) (opts s) \<and> f v s = (Ret True, s')"
  unfolding doomed_def identity_ok_def identity_file_problem_def
  by (auto simp: bindM_Ret bindM_getM need_Ret run_prims retM_def split: option.splits pyval.splits if_splits)

text \<open>What \<open>_validate_input\<close> demands before it looks at choices and types.\<close>

definition well_specified :: "lib_world \<Rightarrow> string list \<Rightarrow> pydict \<Rightarrow> bool" where
  "well_specified w dev od \<longleftrightarrow>
     \<not> missing_login dev od \<and> \<not> missing_address dev od \<and> \<not> missing_password dev od \<and>
     \<not> (od ''--ssh'' = None \<and> od ''--identity-file'' \<noteq> None) \<and>
     identity_ok w od \<and> \<not> missing_plug dev od"

lemma validate_input_True:
  "validate_input stop dev s = (Ret True, s') \<longleftrightarrow>
     well_specified (world s) dev (opts s) \<and>
     (\<exists>s1. get_opts_with_invalid_choices dev s = (Ret [], s1) \<and>
           get_opts_with_invalid_types dev s1 = (Ret [], s'))"
proof -
  have types: "bindM (get_opts_with_invalid_types dev) (\<lambda>bad. complain stop type_message True bad) s1 = (Ret True, s')
      \<longleftrightarrow> get_opts_with_invalid_types dev s1 = (Ret [], s')" for s1
    unfolding bindM_Ret complain_True by auto
  have choices: "bindM (get_opts_with_invalid_choices dev) (\<lambda>bad. bindM (complain stop choice_message True bad)
      (\<lambda>v. bindM (get_opts_with_invalid_types dev) (\<lambda>bad. complain stop type_message v bad))) s = (Ret True, s')
      \<longleftrightarrow> (\<exists>s1. get_opts_with_invalid_choices dev s = (Ret [], s1) \<and>
           get_opts_with_invalid_types dev s1 = (Ret [], s'))"
    unfolding bindM_Ret [of "get_opts_with_invalid_choices dev"]
    by (subst complain_bind_True, intro doomed_rules) (auto simp: types)
  show ?thesis
    unfolding validate_input_def bindM_getM well_specified_def
    by (simp only: need_bind_True identity_bind_True choices doomed_rules) blast
qed

text \<open>With \<open>stop\<close> set, \<open>_validate_input\<close> returns only when everything was in order.\<close>

definition strict :: "(bool \<Rightarrow> bool lib) \<Rightarrow> bool" where
  "strict f \<longleftrightarrow> (\<forall>s b s'. f True s = (Ret b, s') \<longrightarrow> b)"

lemma strict_via: "strict m \<Longrightarrow> strict f \<Longrightarrow> strict (\<lambda>v. bindM (m v) f)"
  unfolding strict_def bindM_Ret by (metis (full_types))

lemma strict_after: "(\<And>x. strict (f x)) \<Longrightarrow> strict (\<lambda>v. bindM m (\<lambda>x. f x v))"
  unfolding strict_def bindM_Ret by blast

lemma strict_need: "strict (need c m True)"
  by (auto simp: strict_def need_Ret split: if_splits)

lemma strict_identity: "strict (identity_file_problem True)"
  by (auto simp: strict_def identity_file_problem_def ret_iff split: option.splits pyval.splits if_splits)

lemma strict_complain: "strict (\<lambda>v. complain True msg v xs)"
proof (cases xs)
  case Nil
  then show ?thesis by (simp add: strict_def ret_iff)
next
  case (Cons x ys)
  have "complain True msg True (x # ys) s \<noteq> (Ret b, s')" for s b s'
    by (simp add: bindM_Ret need_Ret)
  with Cons show ?thesis by (simp add: strict_def)
qed

lemma validate_input_stop: "validate_input True dev s = (Ret b, s') \<Longrightarrow> b"
proof -
  have types: "strict (\<lambda>v. bindM (get_opts_with_invalid_types dev) (\<lambda>bad. complain True type_message v bad))"
    by (intro strict_after strict_complain)
  have choices: "strict (\<lambda>v. bindM (get_opts_with_invalid_choices dev) (\<lambda>bad.
      bindM (complain True choice_message v bad) (\<lambda>v. bindM (get_opts_with_invalid_types dev)
        (\<lambda>bad. complain True type_message v bad))))"
    by (intro strict_after strict_via [OF strict_complain types])
  note needs = strict_via [OF strict_need]
  note chain = needs [OF needs [OF needs [OF needs [OF strict_via [OF strict_identity, OF needs [OF choices]]]]]]
  assume "validate_input True dev s = (Ret b, s')"
  with chain show b unfolding validate_input_def bindM_getM strict_def by blast
qed

subsection \<open>Types and choices\<close>

lemma py_int_cases: "(\<exists>n. py_int v = Ret n) \<or> (\<exists>e. py_int v = Raise e)"
  by (cases v) (auto simp: py_int_def split: option.splits)

lemma number_check_Ret:
  "(case py_int v of Raise (ValueError _) \<Rightarrow> retM True | Raise e \<Rightarrow> raiseM e | _ \<Rightarrow> retM False) s = (Ret b, s')
     \<longleftrightarrow> s' = s \<and> (if b then \<exists>t. py_int v = Raise (ValueError t) else \<exists>n. py_int v = Ret n)"
proof (cases "\<exists>n. py_int v = Ret n")
  case True
  then show ?thesis by (auto simp: retM_def)
next
  case False
  with py_int_cases [of v] obtain e where e: "py_int v = Raise e" by blast
  show ?thesis by (cases e) (auto simp: e retM_def raiseM_def)
qed

definition numeric :: "optdef \<Rightarrow> bool" where
  "numeric d \<longleftrightarrow> o_type d \<in> {Some ''integer'', Some ''second''}"

lemma bad_type_Ret:
  assumes "bad_type opt s = (Ret b, s')"
  shows "s' = s" and "\<not> b \<Longrightarrow> tab (world s) opt = Some d \<Longrightarrow> numeric d \<Longrightarrow> o_longopt d = Some l \<Longrightarrow>
     opts s (''--'' @ l) = Some v \<Longrightarrow> \<exists>n. py_int v = Ret n"
  using assms
  by (auto simp: bad_type_def numeric_def ret_iff number_check_Ret split: option.splits if_splits)

lemma collect_none:
  assumes "\<And>x s b s'. p x s = (Ret b, s') \<Longrightarrow> s' = s"
  shows "foldM (\<lambda>failed opt. bindM (p opt) (\<lambda>bad. retM (if bad then failed @ [opt] else failed))) acc xs s
      = (Ret [], s') \<longleftrightarrow> acc = [] \<and> s' = s \<and> (\<forall>x\<in>set xs. p x s = (Ret False, s))"
proof (induction xs arbitrary: acc)
  case Nil
  then show ?case by (auto simp: ret_iff)
next
  case (Cons x xs)
  show ?case
  proof (cases "p x s")
    case (Pair r s1)
    with Cons.IH assms [of x s] show ?thesis
      by (cases r) (auto simp: bindM_def retM_def)
  qed
qed

lemma invalid_types_none:
  "get_opts_with_invalid_types dev s = (Ret [], s') \<longleftrightarrow>
     s' = s \<and> (\<forall>opt\<in>set dev. bad_type opt s = (Ret False, s))"
  unfolding get_opts_with_invalid_types_def
  by (subst collect_none) (auto dest: bad_type_Ret)

definition chooses :: "lib_world \<Rightarrow> string list \<Rightarrow> string \<Rightarrow> bool" where
  \<comment> \<open>\<open>j\<close> is the key of an option with a list of choices, whose value the check turns to upper case\<close>
  "chooses w dev j \<longleftrightarrow> (\<exists>opt\<in>set dev. \<exists>d l. tab w opt = Some d \<and> o_choices d \<noteq> None \<and>
     o_longopt d = Some l \<and> j = ''--'' @ l)"

lemma upper_opt_Ret: "upper_opt k s = (Ret v, s') \<longleftrightarrow>
    (\<exists>t. opts s k = Some (PStr t) \<and> v = py_upper t \<and> s' = s\<lparr>opts := (opts s)(k \<mapsto> PStr (py_upper t))\<rparr>)"
proof (cases "opts s k")
  case None
  then show ?thesis by (simp add: upper_opt_def ret_iff)
next
  case (Some x)
  then show ?thesis by (cases x) (auto simp: upper_opt_def run_simps ret_iff)
qed

lemma bad_choice_Ret:
  assumes "bad_choice opt s = (Ret b, s')"
  shows "world s' = world s" and "\<not> chooses (world s) [opt] j \<Longrightarrow> opts s' j = opts s j"
  using assms
  by (auto simp: bad_choice_def upper_opt_Ret chooses_def ret_iff split: option.splits if_splits)

lemma chooses_Cons: "chooses w (x # xs) j \<longleftrightarrow> chooses w [x] j \<or> chooses w xs j"
  by (auto simp: chooses_def)

lemma invalid_choices_frame:
  "foldM (\<lambda>failed opt. bindM (bad_choice opt) (\<lambda>bad. retM (if bad then failed @ [opt] else failed))) acc dev s
     = (Ret r, s') \<Longrightarrow> world s' = world s \<and> (\<not> chooses (world s) dev j \<longrightarrow> opts s' j = opts s j)"
proof (induction dev arbitrary: acc s)
  case Nil
  then show ?case by (simp add: ret_iff)
next
  case (Cons x xs)
  from Cons.prems obtain b s1 acc1 where x: "bad_choice x s = (Ret b, s1)"
    and xs: "foldM (\<lambda>failed opt. bindM (bad_choice opt) (\<lambda>bad. retM (if bad then failed @ [opt] else failed)))
       acc1 xs s1 = (Ret r, s')" by (auto simp: ret_iff split del: if_split)
  from bad_choice_Ret [OF x] Cons.IH [OF xs] chooses_Cons [of "world s" x xs j] show ?case by auto
qed

lemma validate_input_frame:
  assumes "validate_input True dev s = (Ret b, s')"
  shows "world s' = world s" and "\<not> chooses (world s) dev j \<Longrightarrow> opts s' j = opts s j"
    and "well_specified (world s) dev (opts s)"
    and "opt \<in> set dev \<Longrightarrow> bad_type opt s' = (Ret False, s')"
proof -
  from assms validate_input_stop have "b" by blast
  with assms have ok: "validate_input True dev s = (Ret True, s')" by simp
  then obtain s1 where c: "get_opts_with_invalid_choices dev s = (Ret [], s1)"
    and t: "get_opts_with_invalid_types dev s1 = (Ret [], s')" and w: "well_specified (world s) dev (opts s)"
    unfolding validate_input_True by blast
  note frame = invalid_choices_frame [OF c [unfolded get_opts_with_invalid_choices_def]]
  from t have "s' = s1" by (simp add: invalid_types_none)
  with frame show "world s' = world s" and "\<not> chooses (world s) dev j \<Longrightarrow> opts s' j = opts s j" by auto
  from w show "well_specified (world s) dev (opts s)" .
  from t show "opt \<in> set dev \<Longrightarrow> bad_type opt s' = (Ret False, s')" by (simp add: invalid_types_none)
qed

section \<open>The stages of check_input\<close>

definition device_opts :: "string list \<Rightarrow> string list" where
  \<comment> \<open>the options of the agent with those they depend on\<close>
  "device_opts dev = dev @ added_dependencies dev @
     (if needs_port_as_ip (dev @ added_dependencies dev) then [''port_as_ip''] else [])"

definition docs_only :: "pydict \<Rightarrow> bool" where
  "docs_only od \<longleftrightarrow> od ''--action'' \<in> {Some (PStr ''metadata''), Some (PStr ''manpage'')} \<or>
     od ''--help'' \<noteq> None \<or> od ''--version'' \<noteq> None"

lemma add_dependency_options_Ret:
  "add_dependency_options dev s = (Ret added, s') \<Longrightarrow> dev @ added = device_opts dev \<and> opts s' = opts s \<and> statics s' = statics s"
  by (auto simp: add_dependency_options_def device_opts_def Let_def ret_iff statics_def optstatic_def split: if_splits)

lemma shows_docs_only_Ret: "shows_docs_only s = (Ret b, s') \<Longrightarrow> s' = s \<and> b = docs_only (opts s)"
  by (auto simp: shows_docs_only_def docs_only_def ret_iff)

definition allowed_action :: "string list \<Rightarrow> string \<Rightarrow> bool" where
  "allowed_action dev a \<longleftrightarrow> a \<in> set (fst (get_available_actions dev)) \<or>
     count_list dev ''fabric_fencing'' = 1 \<and> a \<in> {''on'', ''off''}"

lemma check_action_Ret:
  assumes "check_action dev s = (Ret u, s')"
  shows "\<exists>a. opts s' ''--action'' = Some (PStr a) \<and> allowed_action dev a"
    and "world s' = world s"
proof -
  from assms obtain v where v: "opts s ''--action'' = Some v"
    and acc: "show_val v \<in> set (acceptable_actions dev)" and w: "world s' = world s"
    and new: "opts s' ''--action'' = (if show_val v = ''enable'' then Some (PStr ''on'')
       else if show_val v = ''disable'' then Some (PStr ''off'') else Some v)"
    by (auto simp: check_action_def Let_def ret_iff count_list_0_iff split: if_splits)
  from w show "world s' = world s" .
  from acc have "show_val v \<noteq> []"
    by (auto simp: acceptable_actions_def available_action_iff base_actions_def split: if_splits)
  then have "v = PStr (show_val v)" by (simp add: show_val_def split: pyval.splits)
  with new acc show "\<exists>a. opts s' ''--action'' = Some (PStr a) \<and> allowed_action dev a"
    by (auto simp: acceptable_actions_def allowed_action_def available_action_iff base_actions_def
        split: if_splits)
qed

lemma check_valid_Ret:
  "check_valid other dev s = (Ret u, s') \<Longrightarrow> \<exists>b. validate_input True dev s = (Ret b, s')"
  by (auto simp: check_valid_def ret_iff split: if_splits)

lemma keeps_number: "keeps f (case py_int v of Ret n \<Rightarrow> retM n | Raise (ValueError _) \<Rightarrow> retM k | r \<Rightarrow> liftM r)"
  by (auto simp: keeps_def ret_iff split: outcome.splits exn.splits)

lemma check_input_stages:
  assumes "check_input dev other s = (Ret u, s')"
  obtains (docs) "docs_only (opts s')"
  | (checked) s1 s2 s3 b where "check_action (device_opts dev) s1 = (Ret (), s2)"
      "validate_input True (device_opts dev) s2 = (Ret b, s3)" "complete_options s3 = (Ret (), s')"
      "statics s1 = statics s"
proof -
  from assms obtain added s1 where add: "add_dependency_options dev s = (Ret added, s1)"
    and rest: "(let device_opt = dev @ added in
     seqM (setoptM ''device_opt'' (PList device_opt))
    (seqM (update_metadata device_opt)
    (seqM (set_default_values device_opt)
    (seqM normalise_action
    (bindM shows_docs_only (\<lambda>docs_only.
       if docs_only then retM ()
       else seqM check_verbosity
           (seqM (check_action device_opt)
           (seqM (check_valid other device_opt)
                 complete_options)))))))) s1 = (Ret u, s')"
    by (auto simp: check_input_def bindM_Ret)
  note dev = add_dependency_options_Ret [OF add]
  from rest obtain s2 s3 s4 s5 where
      s2: "setoptM ''device_opt'' (PList (device_opts dev)) s1 = (Ret (), s2)"
    and s3: "update_metadata (device_opts dev) s2 = (Ret (), s3)"
    and s4: "set_default_values (device_opts dev) s3 = (Ret (), s4)"
    and s5: "normalise_action s4 = (Ret (), s5)"
    and fin': "bindM shows_docs_only (\<lambda>d. if d then retM () else seqM check_verbosity (seqM (check_action (device_opts dev))
           (seqM (check_valid other (device_opts dev)) complete_options))) s5 = (Ret (), s')"
    unfolding conjunct1 [OF dev] bindM_Ret [of "setoptM k v" for k v] bindM_Ret [of "update_metadata x" for x]
      bindM_Ret [of "set_default_values x" for x] bindM_Ret [of normalise_action] Let_def by auto
  from fin' obtain d s5' where "shows_docs_only s5 = (Ret d, s5')"
    and "(if d then retM () else seqM check_verbosity (seqM (check_action (device_opts dev))
           (seqM (check_valid other (device_opts dev)) complete_options))) s5' = (Ret (), s')"
    unfolding bindM_Ret [of shows_docs_only] by blast
  with shows_docs_only_Ret have d: "d = docs_only (opts s5)" and fin: "(if d then retM () else seqM check_verbosity (seqM (check_action (device_opts dev))
           (seqM (check_valid other (device_opts dev)) complete_options))) s5 = (Ret (), s')"
    by blast+
  have "keeps statics normalise_action"
    unfolding normalise_action_def lower_val_def by (intro keeps_intro)
  from keepsD [OF this s5] keepsD [OF keeps_set_default_values s4] keepsD [OF keeps_update_metadata(1) s3]
    keepsD [OF keeps_statics_prims(1) s2] dev
  have st: "statics s5 = statics s" by simp
  have cv: "keeps statics check_verbosity" 
    unfolding check_verbosity_def by (intro keeps_intro keeps_number)
  show thesis
  proof (cases d)
    case True
    with fin d docs show thesis by (simp add: ret_iff)
  next
    case False
    with fin obtain s6 s7 s8 where s6: "check_verbosity s5 = (Ret (), s6)"
      and s7: "check_action (device_opts dev) s6 = (Ret (), s7)"
      and s8: "check_valid other (device_opts dev) s7 = (Ret (), s8)" and fin: "complete_options s8 = (Ret (), s')"
      by (auto simp: bindM_Ret)
    from check_valid_Ret [OF s8] obtain b where "validate_input True (device_opts dev) s7 = (Ret b, s8)" ..
    with fin st keepsD [OF cv s6] show thesis by (intro checked [OF s7]) auto
  qed
qed

subsection \<open>The last completions\<close>

definition script_keys :: "string set" where
  \<comment> \<open>the options whose text \<open>check_input\<close> writes after the validation\<close>
  "script_keys = {''--snmp-priv-passwd'', ''--password'', ''--ssl'', ''--ssl-secure'', ''--disable-timeout''}"

definition timeout_keys :: "string set" where
  "timeout_keys = {''--power-timeout'', ''--shell-timeout'', ''--login-timeout''}"

lemma lower_val_Ret: "lower_val v s = (Ret t, s') \<longleftrightarrow> (\<exists>x. v = PStr x \<and> t = py_lower x) \<and> s' = s"
  by (cases v) (auto simp: lower_val_def ret_iff)

lemma optgetM_Ret [ret_iff]:
  "optgetM k t s = (Ret v, s') \<longleftrightarrow> v = (case opts s k of None \<Rightarrow> PStr t | Some v \<Rightarrow> v) \<and> s' = s"
  by (auto simp: optgetM_def ret_iff)

definition disable_value :: "lib_world st \<Rightarrow> pyval" where
  \<comment> \<open>the value of \<open>--disable-timeout\<close>: pacemaker's own daemon asks for it by its environment\<close>
  "disable_value s = (case opts s ''--disable-timeout'' of
      Some v \<Rightarrow> v
    | None \<Rightarrow> PStr (if environ (world s) ''PCMK_service'' = Some ''pacemaker-fenced'' then ''1'' else []))"

lemma complete_timeouts_Ret:
  assumes "complete_timeouts s = (Ret u, s')"
  obtains t where "disable_value s = PStr t"
    and "\<And>j. j \<in> timeout_keys \<Longrightarrow> opts s' j = (if py_lower t \<in> set truth_words then Some (PInt 0) else opts s j)"
    and "\<And>j. j \<noteq> ''--disable-timeout'' \<Longrightarrow> j \<notin> timeout_keys \<Longrightarrow> opts s' j = opts s j"
proof -
  define s1 where "s1 = (if environ (world s) ''PCMK_service'' = Some ''pacemaker-fenced'' \<and>
      opts s ''--disable-timeout'' = None
    then s\<lparr>opts := (opts s)(''--disable-timeout'' \<mapsto> PStr ''1'')\<rparr> else s)"
  have s1: "opts s1 j = opts s j" if "j \<noteq> ''--disable-timeout''" for j using that by (simp add: s1_def)
  have val: "(case opts s1 ''--disable-timeout'' of None \<Rightarrow> PStr [] | Some v \<Rightarrow> v) = disable_value s"
    by (simp add: s1_def disable_value_def split: option.splits)
  from assms have "(bindM (optgetM ''--disable-timeout'' []) (\<lambda>v. bindM (lower_val v) (\<lambda>t.
        if t \<in> set truth_words then
          seqM (setoptM ''--power-timeout'' (PInt 0))
         (seqM (setoptM ''--shell-timeout'' (PInt 0)) (setoptM ''--login-timeout'' (PInt 0)))
        else retM ()))) s1 = (Ret u, s')"
    by (auto simp: complete_timeouts_def s1_def bindM_assoc bindM_getM run_simps bindM_modM split: if_splits)
  then obtain t where t: "disable_value s = PStr t" and "(if py_lower t \<in> set truth_words then
          seqM (setoptM ''--power-timeout'' (PInt 0))
         (seqM (setoptM ''--shell-timeout'' (PInt 0)) (setoptM ''--login-timeout'' (PInt 0)))
        else retM ()) s1 = (Ret u, s')"
    unfolding bindM_Ret [of "optgetM k d" for k d] bindM_Ret [of "lower_val v" for v] optgetM_Ret lower_val_Ret val
    by blast
  then have "s' = (if py_lower t \<in> set truth_words then
      s1\<lparr>opts := (opts s1)(''--power-timeout'' \<mapsto> PInt 0, ''--shell-timeout'' \<mapsto> PInt 0, ''--login-timeout'' \<mapsto> PInt 0)\<rparr>
    else s1)" by (auto simp: ret_iff split: if_splits)
  with s1 t show thesis by (intro that [of t]) (auto simp: timeout_keys_def)
qed

lemma keeps_run_script: "target \<noteq> j \<Longrightarrow> keeps (\<lambda>s. opts s j) (run_script k target)"
  unfolding run_script_def by (intro keeps_intro)

lemma keeps_check_debug_file: "keeps (\<lambda>s. opts s j) check_debug_file"
  unfolding check_debug_file_def fail_usage_def by (intro keeps_intro)

lemma keeps_complete_ssl: "j \<noteq> ''--ssl'' \<Longrightarrow> j \<noteq> ''--ssl-secure'' \<Longrightarrow> keeps (\<lambda>s. opts s j) complete_ssl"
  unfolding complete_ssl_def by (intro keeps_intro) auto

lemma complete_options_Ret:
  assumes run: "complete_options s = (Ret u, s')" and j: "j \<notin> script_keys"
  shows "opts s' j = opts s j \<or> j \<in> timeout_keys \<and> opts s' j = Some (PInt 0)"
proof -
  from run obtain s1 s2 s3 s4 where s1: "check_debug_file s = (Ret (), s1)"
    and s2: "run_script ''--snmp-priv-passwd-script'' ''--snmp-priv-passwd'' s1 = (Ret (), s2)"
    and s3: "run_script ''--password-script'' ''--password'' s2 = (Ret (), s3)"
    and s4: "complete_ssl s3 = (Ret (), s4)" and s5: "complete_timeouts s4 = (Ret u, s')"
    by (auto simp: complete_options_def bindM_Ret)
  from j have ne: "j \<noteq> ''--ssl''" "j \<noteq> ''--ssl-secure''" "''--password'' \<noteq> j"
    "''--snmp-priv-passwd'' \<noteq> j" "j \<noteq> ''--disable-timeout''" by (auto simp: script_keys_def)
  have "opts s4 j = opts s j"
    using keepsD [OF keeps_complete_ssl [OF ne(1,2)] s4] keepsD [OF keeps_run_script [OF ne(3)] s3]
      keepsD [OF keeps_run_script [OF ne(4)] s2] keepsD [OF keeps_check_debug_file s1] by simp
  with ne(5) show ?thesis
    by (cases "j \<in> timeout_keys"; cases rule: complete_timeouts_Ret [OF s5]) (auto split: if_splits)
qed

section \<open>What an agent may rely on\<close>

lemma chooses_statics: "statics s1 = statics s \<Longrightarrow> chooses (world s1) dev j = chooses (world s) dev j"
proof -
  have *: "chooses (world s) dev j \<longleftrightarrow> (\<exists>opt\<in>set dev. \<exists>g l t c. statics s opt = Some (g, Some l, t, Some c) \<and> j = ''--'' @ l)"
    for s by (fastforce simp: chooses_def statics_def optstatic_def)
  then show "statics s1 = statics s \<Longrightarrow> chooses (world s1) dev j = chooses (world s) dev j" by simp
qed

lemma checked_action:
  assumes run: "check_input dev other s = (Ret u, s')" and run_on: "\<not> docs_only (opts s')"
    and free: "\<not> chooses (world s) (device_opts dev) ''--action''"
  shows "\<exists>a. opts s' ''--action'' = Some (PStr a) \<and> allowed_action (device_opts dev) a"
  using run
proof (cases rule: check_input_stages)
  case docs
  with run_on show ?thesis by simp
next
  case (checked s1 s2 s3 b)
  note act = check_action_Ret [OF checked(1)]
  have "\<not> chooses (world s2) (device_opts dev) ''--action''"
    using free chooses_statics [OF checked(4)] act(2) by simp
  with validate_input_frame(2) [OF checked(2)] have "opts s3 ''--action'' = opts s2 ''--action''" by simp
  moreover have "opts s' ''--action'' = opts s3 ''--action''"
    using complete_options_Ret [OF checked(3), of "''--action''"] by (simp add: script_keys_def timeout_keys_def)
  ultimately show ?thesis using act(1) by simp
qed

lemma checked_numeric:
  assumes run: "check_input dev other s = (Ret u, s')" and run_on: "\<not> docs_only (opts s')"
    and opt: "opt \<in> set (device_opts dev)" "tab (world s) opt = Some d" "numeric d" "o_longopt d = Some l"
    and j: "''--'' @ l \<notin> script_keys" and v: "opts s' (''--'' @ l) = Some v"
  shows "\<exists>n. py_int v = Ret n"
  using run
proof (cases rule: check_input_stages)
  case docs
  with run_on show ?thesis by simp
next
  case (checked s1 s2 s3 b)
  from complete_options_Ret [OF checked(3) j] v
  consider "opts s3 (''--'' @ l) = Some v" | "v = PInt 0" by auto
  then show ?thesis
  proof cases
    case 1
    have "world s3 = world s1"
      using validate_input_frame(1) [OF checked(2)] check_action_Ret(2) [OF checked(1)] by simp
    with checked(4) opt(2) obtain d' where d': "tab (world s3) opt = Some d'" "optstatic d' = optstatic d"
      by (auto simp: statics_def fun_eq_iff dest!: spec [of _ opt])
    with opt(3,4) have "numeric d'" "o_longopt d' = Some l" by (auto simp: numeric_def optstatic_def)
    with bad_type_Ret(2) [OF validate_input_frame(4) [OF checked(2) opt(1)] _ d'(1)] 1 show ?thesis by blast
  next
    case 2
    then show ?thesis by (simp add: py_int_def)
  qed
qed

end
