(* ===== verification/Option_Guarantees.thy ===== *)
theory Option_Guarantees
  imports Check_Input_Props
begin

text \<open>
  The guarantees of the option checks as properties of \<open>check_input\<close> and its stages, with a
  run of \<open>check_input\<close> for a fabric agent at a concrete command
  (\<open>action=Enable plug=node1 power_wait=" 20 "\<close> under pacemaker-fenced).
\<close>

section \<open>A run of check_input\<close>

text \<open>The entries of \<open>all_opt\<close> the run consults, without their help texts.\<close>

definition entry :: "string option \<Rightarrow> string option \<Rightarrow> pyval option \<Rightarrow> optdef" where
  "entry l t v = \<lparr>o_getopt = [], o_longopt = l, o_help = [], o_required = None, o_shortdesc = None, o_type = t, o_default = v, o_choices = None, o_order = 0\<rparr>"

definition sample_dev where "sample_dev = [''no_password'', ''no_login'', ''fabric_fencing'']"

lemma entry_sel [simp]: "o_longopt (entry l t v) = l" "o_type (entry l t v) = t" "o_default (entry l t v) = v" "o_choices (entry l t v) = None"
  by (simp_all add: entry_def)

lemma tabM_run [run_simps]: "tab (world s) k = Some d \<Longrightarrow> bindM (tabM k) f s = f d s"
 "tab (world s) k = Some d \<Longrightarrow> tabM k s = (Ret d, s)"
  by (simp_all add: tabM_def run_simps)

lemma settabM_run [run_simps]: "tab (world s) k = Some d \<Longrightarrow> bindM (settabM k g) f s = f () (s\<lparr>world := (world s)\<lparr>tab := (tab (world s))(k \<mapsto> g d)\<rparr>\<rparr>)"
 "tab (world s) k = Some d \<Longrightarrow> settabM k g s = (Ret (), s\<lparr>world := (world s)\<lparr>tab := (tab (world s))(k \<mapsto> g d)\<rparr>\<rparr>)"
  by (simp_all add: settabM_def run_simps)

lemma longoptM_run [run_simps]: "tab (world s) k = Some d \<Longrightarrow> o_longopt d = Some l \<Longrightarrow> bindM (longoptM k) f s = f (''--'' @ l) s"
  by (simp_all add: longoptM_def run_simps)

definition sample_tab :: opt_table where
  "sample_tab = map_of
    [(''login'', entry (Some ''username'') None None),
     (''no_password'', entry None None None), (''no_login'', entry None None None), (''fabric_fencing'', entry None None None),
     (''help'', entry (Some ''help'') None None), (''debug'', entry (Some ''debug-file'') None None),
     (''verbose'', entry (Some ''verbose'') None None), (''verbose_level'', entry (Some ''verbose-level'') (Some ''integer'') None),
     (''version'', entry (Some ''version'') None None), (''action'', entry (Some ''action'') None (Some (PStr ''reboot''))),
     (''agent'', entry None None None), (''power_timeout'', entry (Some ''power-timeout'') (Some ''second'') (Some (PStr ''20''))),
     (''shell_timeout'', entry (Some ''shell-timeout'') (Some ''second'') (Some (PStr ''3''))),
     (''login_timeout'', entry (Some ''login-timeout'') (Some ''second'') (Some (PStr ''5''))),
     (''disable_timeout'', entry (Some ''disable-timeout'') None None),
     (''power_wait'', entry (Some ''power-wait'') (Some ''second'') (Some (PStr ''0''))),
     (''stonith_status_sleep'', entry (Some ''stonith-status-sleep'') (Some ''second'') (Some (PStr ''1''))),
     (''retry_on'', entry (Some ''retry-on'') (Some ''integer'') (Some (PStr ''1''))),
     (''delay'', entry (Some ''delay'') (Some ''second'') (Some (PStr ''0''))),
     (''plug_separator'', entry (Some ''plug-separator'') None (Some (PStr '',''))),
     (''quiet'', entry (Some ''quiet'') None None)]"

lemma sample_dependencies: "add_dependency_options sample_dev s = (Ret [''help'', ''debug'', ''verbose'', ''verbose_level'',
        ''version'', ''action'', ''agent'', ''power_timeout'',
        ''shell_timeout'', ''login_timeout'', ''disable_timeout'',
        ''power_wait'', ''stonith_status_sleep'', ''retry_on'', ''delay'',
        ''plug_separator'', ''quiet''], s)"
  by (simp add: add_dependency_options_def needs_port_as_ip_def added_dependencies_def sample_dev_def DEPENDENCY_OPT_def run_simps)

definition sample_opts where "sample_opts = sample_dev @ [''help'', ''debug'', ''verbose'', ''verbose_level'',
        ''version'', ''action'', ''agent'', ''power_timeout'',
        ''shell_timeout'', ''login_timeout'', ''disable_timeout'',
        ''power_wait'', ''stonith_status_sleep'', ''retry_on'', ''delay'',
        ''plug_separator'', ''quiet'']"

definition world0 :: lib_world where
  "world0 = \<lparr>tab = sample_tab, environ = [''PCMK_service'' \<mapsto> ''pacemaker-fenced''], isfile = (\<lambda>_. False),
     creatable = (\<lambda>_. False), popen = (\<lambda>_. []), argv0 = ''fence_agent'', argv = [], stdin_lines = []\<rparr>"

abbreviation sample :: "pydict \<Rightarrow> lib_world \<Rightarrow> lib_world st" where
  "sample od w \<equiv> \<lparr>opts = od, outp = [], errs = [], clock = 0, world = w\<rparr>"

definition options0 where "options0 = [''--action'' \<mapsto> PStr ''Enable'', ''--plug'' \<mapsto> PStr ''node1'',
       ''--power-wait'' \<mapsto> PStr '' 20 '', ''--verbose-level'' \<mapsto> PInt 1]"

lemma sample_tab_at:
  "sample_tab ''login'' = Some (entry (Some ''username'') None None)"
  "sample_tab ''no_password'' = Some (entry None None None)"
  "sample_tab ''no_login'' = Some (entry None None None)"
  "sample_tab ''fabric_fencing'' = Some (entry None None None)"
  "sample_tab ''help'' = Some (entry (Some ''help'') None None)"
  "sample_tab ''debug'' = Some (entry (Some ''debug-file'') None None)"
  "sample_tab ''verbose'' = Some (entry (Some ''verbose'') None None)"
  "sample_tab ''verbose_level'' = Some (entry (Some ''verbose-level'') (Some ''integer'') None)"
  "sample_tab ''version'' = Some (entry (Some ''version'') None None)"
  "sample_tab ''action'' = Some (entry (Some ''action'') None (Some (PStr ''reboot'')))"
  "sample_tab ''agent'' = Some (entry None None None)"
  "sample_tab ''power_timeout'' = Some (entry (Some ''power-timeout'') (Some ''second'') (Some (PStr ''20'')))"
  "sample_tab ''shell_timeout'' = Some (entry (Some ''shell-timeout'') (Some ''second'') (Some (PStr ''3'')))"
  "sample_tab ''login_timeout'' = Some (entry (Some ''login-timeout'') (Some ''second'') (Some (PStr ''5'')))"
  "sample_tab ''disable_timeout'' = Some (entry (Some ''disable-timeout'') None None)"
  "sample_tab ''power_wait'' = Some (entry (Some ''power-wait'') (Some ''second'') (Some (PStr ''0'')))"
  "sample_tab ''stonith_status_sleep'' = Some (entry (Some ''stonith-status-sleep'') (Some ''second'') (Some (PStr ''1'')))"
  "sample_tab ''retry_on'' = Some (entry (Some ''retry-on'') (Some ''integer'') (Some (PStr ''1'')))"
  "sample_tab ''delay'' = Some (entry (Some ''delay'') (Some ''second'') (Some (PStr ''0'')))"
  "sample_tab ''plug_separator'' = Some (entry (Some ''plug-separator'') None (Some (PStr '','')))"
  "sample_tab ''quiet'' = Some (entry (Some ''quiet'') None None)"
  by (simp_all add: sample_tab_def)

definition login1 where "login1 = (entry (Some ''username'') None None)\<lparr>o_required := Some ''0''\<rparr>"

definition action1 where "action1 = (entry (Some ''action'') None (Some (PStr ''off'')))\<lparr>o_help :=
   ''-o, --action=[action]          Action: '' @ join_wrap (map (\<lambda>x. if x = ''off'' then x @ '' (default)'' else x) (fst (get_available_actions sample_opts))) '', '' '' or '' 42\<rparr>"

lemma action1_at [simp]: "o_default action1 = Some (PStr ''off'')" "o_longopt action1 = Some ''action''" "o_choices action1 = None" "o_type action1 = None" by (simp_all add: action1_def)

definition tab1 where "tab1 = sample_tab(''login'' \<mapsto> login1, ''action'' \<mapsto> action1)"

lemma tab1_at:
  "tab1 ''login'' = Some login1"
  "tab1 ''no_password'' = Some (entry None None None)"
  "tab1 ''no_login'' = Some (entry None None None)"
  "tab1 ''fabric_fencing'' = Some (entry None None None)"
  "tab1 ''help'' = Some (entry (Some ''help'') None None)"
  "tab1 ''debug'' = Some (entry (Some ''debug-file'') None None)"
  "tab1 ''verbose'' = Some (entry (Some ''verbose'') None None)"
  "tab1 ''verbose_level'' = Some (entry (Some ''verbose-level'') (Some ''integer'') None)"
  "tab1 ''version'' = Some (entry (Some ''version'') None None)"
  "tab1 ''action'' = Some action1"
  "tab1 ''agent'' = Some (entry None None None)"
  "tab1 ''power_timeout'' = Some (entry (Some ''power-timeout'') (Some ''second'') (Some (PStr ''20'')))"
  "tab1 ''shell_timeout'' = Some (entry (Some ''shell-timeout'') (Some ''second'') (Some (PStr ''3'')))"
  "tab1 ''login_timeout'' = Some (entry (Some ''login-timeout'') (Some ''second'') (Some (PStr ''5'')))"
  "tab1 ''disable_timeout'' = Some (entry (Some ''disable-timeout'') None None)"
  "tab1 ''power_wait'' = Some (entry (Some ''power-wait'') (Some ''second'') (Some (PStr ''0'')))"
  "tab1 ''stonith_status_sleep'' = Some (entry (Some ''stonith-status-sleep'') (Some ''second'') (Some (PStr ''1'')))"
  "tab1 ''retry_on'' = Some (entry (Some ''retry-on'') (Some ''integer'') (Some (PStr ''1'')))"
  "tab1 ''delay'' = Some (entry (Some ''delay'') (Some ''second'') (Some (PStr ''0'')))"
  "tab1 ''plug_separator'' = Some (entry (Some ''plug-separator'') None (Some (PStr '','')))"
  "tab1 ''quiet'' = Some (entry (Some ''quiet'') None None)"
  by (simp_all add: tab1_def sample_tab_at login1_def action1_def)

definition world1 where "world1 = world0\<lparr>tab := tab1\<rparr>"

lemma sample_worlds: "tab world0 = sample_tab" "tab world1 = tab1" "environ world1 = [''PCMK_service'' \<mapsto> ''pacemaker-fenced'']" by (simp_all add: world0_def world1_def)

lemma sample_metadata: "update_metadata sample_opts (sample od world0) = (Ret (), sample od world1)"
proof -
  have d: "get_available_actions sample_opts = (fst (get_available_actions sample_opts), ''off'')" by (simp add: default_action prod_eq_iff sample_opts_def sample_dev_def)
  have c: "count_list sample_opts ''login'' = 0" "count_list sample_opts ''port_as_ip'' = 0" "count_list sample_opts ''ipport'' = 0"
     by (simp_all add: sample_opts_def sample_dev_def)
  show ?thesis unfolding update_metadata_def update_login_metadata_def update_action_metadata_def update_ipport_metadata_def c
    by (subst d) (simp add: run_simps sample_tab_at sample_worlds Let_def world1_def tab1_def login1_def action1_def fun_upd_twist entry_def)
qed

definition options1 where "options1 = options0(''device_opt'' \<mapsto> PList sample_opts)"

definition options2 where "options2 = options1(''--power-timeout'' \<mapsto> PStr ''20'', ''--shell-timeout'' \<mapsto> PStr ''3'', ''--login-timeout'' \<mapsto> PStr ''5'',
   ''--stonith-status-sleep'' \<mapsto> PStr ''1'', ''--retry-on'' \<mapsto> PStr ''1'', ''--delay'' \<mapsto> PStr ''0'', ''--plug-separator'' \<mapsto> PStr '','')"

definition options3 where "options3 = options2(''--verbose-level'' \<mapsto> PInt 1, ''--verbose'' \<mapsto> PInt 1, ''--action'' \<mapsto> PStr ''on'')"

definition options4 where "options4 = options3(''--disable-timeout'' \<mapsto> PStr ''1'', ''--power-timeout'' \<mapsto> PInt 0, ''--shell-timeout'' \<mapsto> PInt 0, ''--login-timeout'' \<mapsto> PInt 0)"

lemma sample_defaults: "set_default_values sample_opts (sample options1 world1) = (Ret (), sample options2 world1)"
  by (simp add: set_default_values_def set_default_opt_def sample_opts_def sample_dev_def run_simps tab1_at sample_worlds options1_def options0_def options2_def)

lemma options2_at: "options2 ''--action'' = Some (PStr ''Enable'')" "options2 ''--help'' = None" "options2 ''--version'' = None"
  "options2 ''--verbose-level'' = Some (PInt 1)" "options2 ''--verbose'' = None" by (simp_all add: options2_def options1_def options0_def)

lemma sample_lower: "py_lower ''Enable'' = ''enable''" "py_lower ''1'' = ''1''" by code_simp+

lemma sample_actions: "acceptable_actions sample_opts = [''on'', ''off'', ''status'', ''monitor'', ''metadata'', ''manpage'', ''validate-all'', ''enable'', ''disable'']"
  by (simp add: acceptable_actions_def available_actions_eq drop_action_def base_actions_def sample_opts_def sample_dev_def Let_def)

lemma sample_action_stage: "seqM normalise_action (bindM shows_docs_only (\<lambda>d. if d then m else seqM check_verbosity (seqM (check_action sample_opts) f))) (sample options2 world1) = f (sample options3 world1)"
  by (simp add: normalise_action_def shows_docs_only_def check_verbosity_def check_action_def run_simps options2_at py_int_def Let_def sample_actions show_val_def options3_def lower_val_def sample_lower)

lemma sample_well_specified: "well_specified world1 sample_opts options3"
  by (simp add: well_specified_def missing_login_def missing_address_def missing_password_def missing_plug_def identity_ok_def
   sample_opts_def sample_dev_def options3_def options2_def options1_def options0_def)

lemma sample_choices: "get_opts_with_invalid_choices sample_opts (sample options3 world1) = (Ret [], sample options3 world1)"
  by (simp add: get_opts_with_invalid_choices_def bad_choice_def sample_opts_def sample_dev_def run_simps tab1_at sample_worlds)

lemma sample_ints: "py_int (PStr ''20'') = Ret 20" "py_int (PStr '' 20 '') = Ret 20" "py_int (PStr ''0'') = Ret 0" "py_int (PStr ''1'') = Ret 1"
 "py_int (PStr ''3'') = Ret 3" "py_int (PStr ''5'') = Ret 5" "py_int (PInt 1) = Ret 1" by code_simp+

lemma sample_many: "py_int_str ''many'' = None"
  by code_simp

lemma sample_types: "get_opts_with_invalid_types sample_opts (sample options3 world1) = (Ret [], sample options3 world1)"
  by (simp add: get_opts_with_invalid_types_def bad_type_def sample_opts_def sample_dev_def run_simps tab1_at sample_worlds options3_def options2_def options1_def options0_def sample_ints)

lemma sample_validated: "validate_input True sample_opts (sample options3 world1) = (Ret True, sample options3 world1)"
  unfolding validate_input_True using sample_well_specified sample_choices sample_types by auto

lemma sample_valid: "check_valid True sample_opts (sample options3 world1) = (Ret (), sample options3 world1)"
proof -
  have a: "options3 ''--action'' = Some (PStr ''on'')" by (simp add: options3_def)
  show ?thesis using sample_validated by (simp add: check_valid_def run_simps a bindM_step)
qed

lemma options3_at: "options3 ''--debug-file'' = None" "options3 ''--ssl'' = None" "options3 ''--ssl-secure'' = None" "options3 ''--ssl-insecure'' = None" "options3 ''--disable-timeout'' = None"
  "options3 ''--password-script'' = None" "options3 ''--snmp-priv-passwd-script'' = None"
  by (simp_all add: options3_def options2_def options1_def options0_def)

lemma sample_completed: "complete_options (sample options3 world1) = (Ret (), sample options4 world1)"
  by (simp add: complete_options_def check_debug_file_def run_script_def complete_ssl_def complete_timeouts_def run_simps
    options3_at options4_def sample_worlds optgetM_def lower_val_def truth_words_def sample_lower)

lemma sample_check_input: "check_input sample_dev True (sample options0 world0) = (Ret (), sample options4 world1)"
proof -
  note steps = bindM_step(1) [of "update_metadata sample_opts", OF sample_metadata]
    bindM_step(1) [of "set_default_values sample_opts", OF sample_defaults]
    bindM_step(1) [of "check_valid True sample_opts", OF sample_valid]
  show ?thesis
    unfolding check_input_def bindM_step(1) [OF sample_dependencies] Let_def sample_opts_def [symmetric] bindM_modM
    by (simp add: options1_def [symmetric] steps sample_action_stage sample_completed)
qed

section \<open>Properties\<close>

text \<open>
  The actions an agent offers: the ten base actions less those its flags exclude, plus
  \<open>diag\<close> for the agents that have it. A fabric agent never offers \<open>reboot\<close>, and the
  default is \<open>off\<close> for it and \<open>reboot\<close> for every other agent.
\<close>

theorem offered_actions:
  "a \<in> set (fst (get_available_actions dev)) \<longleftrightarrow>
     (a \<in> {''on'', ''off'', ''reboot'', ''status'', ''list'', ''list-status'', ''monitor'', ''metadata'',
           ''manpage'', ''validate-all''} \<and>
      \<not> (''fabric_fencing'' \<in> set dev \<and> a = ''reboot'') \<and>
      \<not> (''no_status'' \<in> set dev \<and> a = ''status'') \<and>
      \<not> (''no_on'' \<in> set dev \<and> a = ''on'') \<and>
      \<not> (''no_off'' \<in> set dev \<and> a = ''off'') \<and>
      \<not> (''separator'' \<notin> set dev \<and> a \<in> {''list'', ''list-status''}))
     \<or> a = ''diag'' \<and> ''diag'' \<in> set dev"
  unfolding available_action_iff base_actions_def list.set de_Morgan_conj not_not imp_conv_disj insert_iff empty_iff simp_thms
  by argo

text \<open>
  The default values: no value the user gave is replaced, and afterwards every option of
  the agent that has a default in the table has a value (\<open>ipport\<close>, whose default depends on
  the connection, apart).
\<close>

theorem defaults_fill:
  assumes "set_default_values dev s = (Ret u, s')"
  shows "opts s \<subseteq>\<^sub>m opts s' \<and>
     (\<forall>opt\<in>set dev. \<forall>d l. opt \<noteq> ''ipport'' \<and> tab (world s) opt = Some d \<and> o_default d \<noteq> None \<and> o_longopt d = Some l
        \<longrightarrow> opts s' (''--'' @ l) \<noteq> None)"
  using growsD [OF set_default_values_grows assms] set_default_values_filled [OF assms] by blast

theorem defaults_fill_witness:
  "options1 \<subseteq>\<^sub>m options2 \<and> options2 ''--retry-on'' \<noteq> None"
proof -
  have "''retry_on'' \<in> set sample_opts" "tab1 ''retry_on'' = Some (entry (Some ''retry-on'') (Some ''integer'') (Some (PStr ''1'')))"
    by (simp_all add: sample_opts_def tab1_at)
  with defaults_fill [OF sample_defaults] show ?thesis by (fastforce simp: sample_worlds)
qed

text \<open>
  C25. The two modes of \<open>_validate_input\<close> agree: the mode that stops at the first problem
  returns exactly when the mode of \<open>validate-all\<close>, which collects every problem, answers
  True, and it leaves the same state.
\<close>

theorem validation_modes_agree:
  "(\<exists>b. validate_input True dev s = (Ret b, s')) \<longleftrightarrow> validate_input False dev s = (Ret True, s')"
  unfolding validate_input_True [of False] validate_input_True [of True, symmetric]
  using validate_input_stop by fastforce


text \<open>
  C7. When \<open>check_input\<close> returns and the agent goes on to act, the action is one the agent
  offers (\<open>enable\<close> and \<open>disable\<close> of a fabric agent have become \<open>on\<close> and \<open>off\<close>), so the
  action of a fabric agent is never \<open>reboot\<close>.
\<close>

theorem checked_action_offered:
  assumes "check_input dev other s = (Ret u, s')" and "\<not> docs_only (opts s')"
    and "\<not> chooses (world s) (device_opts dev) ''--action''"
  shows "\<exists>a. opts s' ''--action'' = Some (PStr a) \<and>
     (a \<in> set (fst (get_available_actions (device_opts dev))) \<or>
      count_list (device_opts dev) ''fabric_fencing'' = 1 \<and> a \<in> {''on'', ''off''}) \<and>
     \<not> (''fabric_fencing'' \<in> set (device_opts dev) \<and> a = ''reboot'')"
  using checked_action [OF assms] unfolding allowed_action_def available_action_iff by fastforce

theorem checked_action_offered_witness:
  "check_input sample_dev True (sample options0 world0) = (Ret (), sample options4 world1) \<and>
   (\<exists>a. options4 ''--action'' = Some (PStr a) \<and> a \<noteq> ''reboot'')"
proof -
  have "\<not> docs_only options4" by (simp add: docs_only_def options4_def options3_def options2_def options1_def options0_def)
  moreover have "\<not> chooses world0 (device_opts sample_dev) ''--action''"
    by (auto simp: chooses_def sample_worlds sample_tab_def entry_def split: if_splits)
  moreover have "''fabric_fencing'' \<in> set (device_opts sample_dev)" by (simp add: device_opts_def sample_dev_def)
  ultimately show ?thesis
    using checked_action_offered [OF sample_check_input] sample_check_input by fastforce
qed

text \<open>
  C8. When \<open>check_input\<close> returns and the agent goes on to act, every option of type integer
  or second holds a number: the \<open>int(options[...])\<close> of the library on them cannot fail.
\<close>

theorem checked_numbers:
  assumes "check_input dev other s = (Ret u, s')" and "\<not> docs_only (opts s')"
    and "opt \<in> set (device_opts dev)" "tab (world s) opt = Some d"
    and "o_type d \<in> {Some ''integer'', Some ''second''}" "o_longopt d = Some l" "''--'' @ l \<notin> script_keys"
    and "opts s' (''--'' @ l) = Some v"
  shows "\<exists>n. int_opt (opts s') (''--'' @ l) = Some n"
  using checked_numeric [OF assms(1-4) _ assms(6-8)] assms(5,8) by (auto simp: numeric_def int_opt_def)

theorem checked_numbers_witness:
  "check_input sample_dev True (sample options0 world0) = (Ret (), sample options4 world1) \<and>
   (\<exists>n. int_opt options4 ''--power-wait'' = Some n)"
proof -
  have "\<not> docs_only options4" by (simp add: docs_only_def options4_def options3_def options2_def options1_def options0_def)
  moreover have "''power_wait'' \<in> set (device_opts sample_dev)"
    by (simp add: device_opts_def sample_dev_def added_dependencies_def DEPENDENCY_OPT_def)
  moreover have "options4 ''--power-wait'' = Some (PStr '' 20 '')"
    by (simp add: options4_def options3_def options2_def options1_def options0_def)
  ultimately show ?thesis
    using checked_numbers [OF sample_check_input, of "''power_wait''" _ "''power-wait''"] sample_check_input
    by (simp add: sample_worlds sample_tab_at script_keys_def)
qed

text \<open>
  Timeouts are switched off when \<open>--disable-timeout\<close> has a true value, which is what
  pacemaker's daemon gets by default from its environment: the power, shell and login timeouts
  become 0, and without a true value they are left alone.
\<close>

theorem timeouts_disabled:
  assumes "complete_timeouts s = (Ret u, s')" and "k \<in> timeout_keys"
  shows "\<exists>t. disable_value s = PStr t \<and>
     opts s' k = (if py_lower t \<in> {''1'', ''yes'', ''on'', ''true''} then Some (PInt 0) else opts s k)"
  using assms(2) by (cases rule: complete_timeouts_Ret [OF assms(1)]) (auto simp: truth_words_def)

theorem timeouts_disabled_witness:
  "complete_timeouts (sample options3 world1) = (Ret (), sample options4 world1) \<and>
   options4 ''--power-timeout'' = Some (PInt 0)"
proof -
  have run: "complete_timeouts (sample options3 world1) = (Ret (), sample options4 world1)"
    by (simp add: complete_timeouts_def run_simps options3_at options4_def sample_worlds optgetM_def
        lower_val_def truth_words_def sample_lower)
  have "disable_value (sample options3 world1) = PStr ''1''"
    by (simp add: disable_value_def options3_at sample_worlds)
  with timeouts_disabled [OF run, of "''--power-timeout''"] run show ?thesis
    by (simp add: timeout_keys_def sample_lower)
qed

lemma bind_tail:
  assumes "bindM m (\<lambda>v. bindM (f v) g) s = (Ret u, s')"
  obtains n s1 where "g n s1 = (Ret u, s')"
  using assms by (auto simp: bindM_Ret)

text \<open>
  After the verbosity check the level is a number that is not negative, whatever text was
  given, and \<open>--verbose\<close> is present exactly when the level is positive.
\<close>

theorem verbosity_consistent:
  assumes "check_verbosity s = (Ret u, s')"
  shows "\<exists>n\<ge>0. opts s' ''--verbose-level'' = Some (PInt n) \<and> (opts s' ''--verbose'' \<noteq> None \<longleftrightarrow> n > 0)"
proof -
  from assms obtain n s1 where run: "(let level = (if n < 0 then 0 else n) in
     seqM (setoptM ''--verbose-level'' (PInt level))
    (bindM (hasoptM ''--verbose'') (\<lambda>verbose.
     seqM (if level = 0 \<and> verbose then deloptM ''--verbose'' else retM ())
          (if level > 0 then setoptM ''--verbose'' (PInt 1) else retM ())))) s1 = (Ret u, s')"
    unfolding check_verbosity_def by (elim bind_tail) blast
  define level where "level = (if n < 0 then 0 else n)"
  have "0 \<le> level" by (simp add: level_def)
  with run show ?thesis unfolding level_def [symmetric]
    by (cases "level = 0"; cases "opts s1 ''--verbose''") (auto simp: run_simps Let_def)
qed

theorem verbosity_consistent_witness:
  "\<exists>n\<ge>0. opts (snd (check_verbosity (sample [''--verbose-level'' \<mapsto> PStr ''many'', ''--verbose'' \<mapsto> PInt 1] world0))) ''--verbose-level''
      = Some (PInt n)"
proof -
  have "fst (check_verbosity (sample [''--verbose-level'' \<mapsto> PStr ''many'', ''--verbose'' \<mapsto> PInt 1] w)) = Ret ()" for w
    by (simp add: check_verbosity_def run_simps py_int_def sample_many Let_def)
  then have "check_verbosity (sample [''--verbose-level'' \<mapsto> PStr ''many'', ''--verbose'' \<mapsto> PInt 1] world0)
     = (Ret (), snd (check_verbosity (sample [''--verbose-level'' \<mapsto> PStr ''many'', ''--verbose'' \<mapsto> PInt 1] world0)))"
    by (simp add: prod_eq_iff)
  from verbosity_consistent [OF this] show ?thesis by blast
qed

end
