(* ===== verification/Parse_Input.thy ===== *)
theory Parse_Input
  imports Check_Input
begin

text \<open>
  \<open>lib/fencing.py.py\<close>: reading the options of an agent, from standard input
  (\<open>_parse_input_stdin\<close>) or from the command line (\<open>_parse_input_cmdline\<close> with
  \<open>_verify_unique_getopt\<close> and \<open>_prepare_getopt_args\<close>), and \<open>process_input\<close>. The standard
  library's \<open>getopt.gnu_getopt\<close> is modelled as the sources use it: a GetoptError is its
  message.
\<close>

section \<open>getopt.gnu\_getopt\<close>

type_synonym entered = "(string \<times> string) list"

definition short_has_arg :: "char \<Rightarrow> string \<Rightarrow> string + bool" where
  "short_has_arg opt shortopts =
     (if opt \<noteq> CHR '':'' \<and> opt \<in> set shortopts
      then Inr (py_startswith '':'' (tl (dropWhile (\<lambda>c. c \<noteq> opt) shortopts)))
      else Inl (''option -'' @ [opt] @ '' not recognized''))"

function do_shorts :: "entered \<Rightarrow> string \<Rightarrow> string \<Rightarrow> string list \<Rightarrow> string + (entered \<times> string list)" where
  "do_shorts acc [] shortopts args = Inr (acc, args)"
| "do_shorts acc (opt # rest) shortopts args = (case short_has_arg opt shortopts of
      Inl e \<Rightarrow> Inl e
    | Inr False \<Rightarrow> do_shorts (acc @ [(''-'' @ [opt], [])]) rest shortopts args
    | Inr True \<Rightarrow>
        if rest = [] then
          (case args of
             [] \<Rightarrow> Inl (''option -'' @ [opt] @ '' requires argument'')
           | a # args' \<Rightarrow> Inr (acc @ [(''-'' @ [opt], a)], args'))
        else Inr (acc @ [(''-'' @ [opt], rest)], args))"
  by pat_completeness auto
termination
  by (relation "measure (\<lambda>(acc, optstring, shortopts, args). length optstring)") auto

definition long_has_args :: "string \<Rightarrow> string list \<Rightarrow> string + (bool \<times> string)" where
  "long_has_args opt longopts =
     (let possibilities = filter (py_startswith opt) longopts in
      if possibilities = [] then Inl (''option --'' @ opt @ '' not recognized'')
      else if opt \<in> set possibilities then Inr (False, opt)
      else if opt @ ''='' \<in> set possibilities then Inr (True, opt)
      else if length possibilities > 1 then Inl (''option --'' @ opt @ '' not a unique prefix'')
      else (let unique_match = hd possibilities in
        if py_endswith ''='' unique_match then Inr (True, butlast unique_match)
        else Inr (False, unique_match)))"

definition do_longs :: "entered \<Rightarrow> string \<Rightarrow> string list \<Rightarrow> string list \<Rightarrow> string + (entered \<times> string list)" where
  "do_longs acc opt0 longopts args =
     (let (opt, optarg) = (case py_find ''='' opt0 of
            None \<Rightarrow> (opt0, None)
          | Some i \<Rightarrow> (take i opt0, Some (drop (Suc i) opt0)))
      in case long_has_args opt longopts of
           Inl e \<Rightarrow> Inl e
         | Inr (True, name) \<Rightarrow> (case optarg of
               Some v \<Rightarrow> Inr (acc @ [(''--'' @ name, v)], args)
             | None \<Rightarrow> (case args of
                   [] \<Rightarrow> Inl (''option --'' @ name @ '' requires argument'')
                 | a # args' \<Rightarrow> Inr (acc @ [(''--'' @ name, a)], args')))
         | Inr (False, name) \<Rightarrow> (case optarg of
               Some v \<Rightarrow> Inl (''option --'' @ name @ '' must not have an argument'')
             | None \<Rightarrow> Inr (acc @ [(''--'' @ name, [])], args)))"

lemma do_shorts_args: "do_shorts acc t shortopts args = Inr (acc', args') \<Longrightarrow> length args' \<le> length args"
  by (induction acc t shortopts args rule: do_shorts.induct)
    (auto split: sum.splits bool.splits if_splits list.splits)

lemma do_longs_args: "do_longs acc t longopts args = Inr (acc', args') \<Longrightarrow> length args' \<le> length args"
  by (auto simp: do_longs_def split: sum.splits bool.splits option.splits list.splits prod.splits)

function gnu_getopt_loop ::
  "bool \<Rightarrow> string \<Rightarrow> string list \<Rightarrow> entered \<Rightarrow> string list \<Rightarrow> string list \<Rightarrow> string + (entered \<times> string list)" where
  "gnu_getopt_loop first short long acc left [] = Inr (acc, left)"
| "gnu_getopt_loop first short long acc left (a # args) =
     (if a = ''--'' then Inr (acc, left @ args)
      else if py_startswith ''--'' a then
        (case do_longs acc (drop 2 a) long args of
           Inl e \<Rightarrow> Inl e
         | Inr (acc', args') \<Rightarrow> gnu_getopt_loop first short long acc' left args')
      else if py_startswith ''-'' a \<and> a \<noteq> ''-'' then
        (case do_shorts acc (drop 1 a) short args of
           Inl e \<Rightarrow> Inl e
         | Inr (acc', args') \<Rightarrow> gnu_getopt_loop first short long acc' left args')
      else if first then Inr (acc, left @ a # args)
      else gnu_getopt_loop first short long acc (left @ [a]) args)"
  by pat_completeness auto
termination
  by (relation "measure (\<lambda>(f, sh, lo, acc, left, args). length args)")
    (auto dest!: do_longs_args do_shorts_args)

definition gnu_getopt :: "bool \<Rightarrow> string list \<Rightarrow> string \<Rightarrow> string list \<Rightarrow> string + (entered \<times> string list)" where
  \<comment> \<open>\<open>posix\<close>: the environment variable POSIXLY\_CORRECT is set to a non-empty text\<close>
  "gnu_getopt posix args shortopts longopts =
     (if py_startswith ''+'' shortopts
      then gnu_getopt_loop True (drop 1 shortopts) longopts [] [] args
      else gnu_getopt_loop posix shortopts longopts [] [] args)"

section \<open>Command line\<close>

definition rstrip_colon :: "string \<Rightarrow> string" where
  "rstrip_colon t = rstrip_by (\<lambda>c. c = CHR '':'') t"

fun verify_unique_getopt :: "string list \<Rightarrow> string set \<Rightarrow> unit lib" where
  "verify_unique_getopt [] used = retM ()"
| "verify_unique_getopt (opt # avail) used =
     bindM (tabM opt) (\<lambda>d.
       let getopt_value = rstrip_colon (o_getopt d) in
       if getopt_value \<noteq> [] \<and> getopt_value \<in> used then
         seqM (fail_usage (''Short getopt for '' @ opt @ '' (-'' @ getopt_value @ '') is not unique'') True)
              (verify_unique_getopt avail used)
       else verify_unique_getopt avail (insert getopt_value used))"

definition prepare_one :: "string \<times> string list \<Rightarrow> string \<Rightarrow> (string \<times> string list) lib" where
  "prepare_one acc k = (case acc of (getopt_string, longopt_list) \<Rightarrow>
     bindM (getM (\<lambda>s. tab (world s) k)) (\<lambda>e. case e of
         None \<Rightarrow> seqM (fail_usage (''Parse error: unknown option '' @ [CHR 0x27] @ k @ [CHR 0x27]) True)
                      (retM acc)
       | Some d \<Rightarrow>
           let gs = (if o_getopt d \<noteq> '':'' then getopt_string @ o_getopt d else getopt_string)
           in retM (case o_longopt d of
               None \<Rightarrow> (gs, longopt_list)
             | Some l \<Rightarrow> (gs, longopt_list @ [if py_endswith '':'' (o_getopt d) then l @ ''='' else l]))))"

definition prepare_getopt_args :: "string list \<Rightarrow> (string \<times> string list) lib" where
  "prepare_getopt_args options = foldM prepare_one ([], []) options"

definition opt_key_matches :: "string \<Rightarrow> optdef \<Rightarrow> bool" where
  "opt_key_matches arg_name d \<longleftrightarrow>
     ''--'' @ (case o_longopt d of None \<Rightarrow> [] | Some l \<Rightarrow> l) = arg_name \<or>
     ''-'' @ rstrip_colon (o_getopt d) = arg_name"

definition take_entered ::
  "(string \<times> optdef) list \<Rightarrow> entered \<Rightarrow> pydict \<times> int \<Rightarrow> string \<Rightarrow> (pydict \<times> int) lib" where
  \<comment> \<open>one turn of the loop that renames the entered options to their long names\<close>
  "take_entered filtered entered acc arg_name = (case acc of (long_opts, verbose_count) \<Rightarrow>
     (case filter (\<lambda>(k, d). opt_key_matches arg_name d) filtered of
        [] \<Rightarrow> raiseM (IndexError ''list index out of range'')
      | (all_key, d) # _ \<Rightarrow> (case o_longopt d of
            None \<Rightarrow> raiseM (KeyError ''longopt'')
          | Some l \<Rightarrow> retM (long_opts(''--'' @ l := map_option PStr (map_of (rev entered) arg_name)),
                            if all_key = ''verbose'' then verbose_count + 1 else verbose_count))))"

definition filtered_options :: "string list \<Rightarrow> (string \<times> optdef) list lib" where
  \<comment> \<open>the dictionary \<open>filtered_opts\<close> in its insertion order\<close>
  "filtered_options avail_opt =
     foldM (\<lambda>acc opt. bindM (tabM opt) (\<lambda>d.
        retM (if opt \<in> fst ` set acc then acc else acc @ [(opt, d)]))) [] avail_opt"

definition posixly_correct :: "lib_world \<Rightarrow> bool" where
  "posixly_correct w = (case environ w ''POSIXLY_CORRECT'' of None \<Rightarrow> False | Some t \<Rightarrow> t \<noteq> [])"

definition run_getopt :: "string \<Rightarrow> string list \<Rightarrow> entered lib" where
  "run_getopt getopt_string longopt_list = bindM (getM world) (\<lambda>w.
     case gnu_getopt (posixly_correct w) (argv w) getopt_string longopt_list of
       Inl msg \<Rightarrow> seqM (fail_usage (''Parse error: '' @ msg) True) (retM [])
     | Inr (entered, left_arg) \<Rightarrow> retM entered)"

definition setdefault :: "pydict \<Rightarrow> string \<Rightarrow> pyval \<Rightarrow> pydict" where
  "setdefault d k v = (case d k of None \<Rightarrow> d(k \<mapsto> v) | Some _ \<Rightarrow> d)"

definition parse_input_cmdline :: "string list \<Rightarrow> pydict lib" where
  "parse_input_cmdline avail_opt =
     seqM (verify_unique_getopt avail_opt {})
    (bindM (prepare_getopt_args avail_opt) (\<lambda>(getopt_string, longopt_list).
     bindM (run_getopt getopt_string longopt_list) (\<lambda>entered.
     bindM (filtered_options avail_opt) (\<lambda>filtered.
     bindM (foldM (take_entered filtered entered) (Map.empty, 0) (map fst entered)) (\<lambda>(long_opts, n).
     let long_opts' = setdefault long_opts ''--verbose-level'' (PInt n) in
     seqM (if ''port_as_ip'' \<in> set avail_opt \<and> long_opts' ''--port-as-ip'' = None
              \<and> long_opts' ''--plug'' \<noteq> None
           then fail_usage ''Parser error: option -n/--plug is not recognized'' True else retM ())
          (retM long_opts'))))))"

section \<open>Standard input\<close>

definition unquote :: "string \<Rightarrow> string" where
  \<comment> \<open>\<open>re.sub(r"^\"(.*)\"$", r"\1", value)\<close> on a text without line breaks\<close>
  "unquote v = (if length v \<ge> 2 \<and> hd v = CHR 0x22 \<and> last v = CHR 0x22 then butlast (tl v) else v)"

definition split_line :: "string \<Rightarrow> string \<times> string" where
  \<comment> \<open>\<open>(name, value) = (line + "=").split("=", 1); value = value[:-1]\<close>, unquoted\<close>
  "split_line line = (let (name, value) = py_split1 ''='' (line @ ''='') in (name, unquote (butlast value)))"

definition longopt_names :: "opt_table \<Rightarrow> string list \<Rightarrow> string \<rightharpoonup> string" where
  \<comment> \<open>\<open>mapping_longopt_names\<close>: long name to option, the last one wins\<close>
  "longopt_names t avail_opt =
     map_of (rev (concat (map (\<lambda>opt. case t opt of
         None \<Rightarrow> []
       | Some d \<Rightarrow> (case o_longopt d of None \<Rightarrow> [] | Some l \<Rightarrow> [(l, opt)])) avail_opt)))"

definition canonical_name :: "(string \<rightharpoonup> string) \<Rightarrow> string \<Rightarrow> string" where
  "canonical_name mapping name =
     (case mapping (py_replace ''-'' ''_'' name) of
        Some opt \<Rightarrow> opt
      | None \<Rightarrow> (case mapping (py_replace ''_'' ''-'' name) of Some opt \<Rightarrow> opt | None \<Rightarrow> name))"

definition store_option :: "pydict \<Rightarrow> string \<Rightarrow> string \<Rightarrow> pydict lib" where
  "store_option opt name value = bindM (tabM name) (\<lambda>d.
     if py_endswith '':'' (o_getopt d) then
       (case o_longopt d of
          None \<Rightarrow> raiseM (KeyError ''longopt'')
        | Some l \<Rightarrow> retM (opt(''--'' @ rstrip_colon l \<mapsto> PStr value)))
     else if py_lower value \<in> {''1'', ''yes'', ''on'', ''true''} then
       bindM (longoptM name) (\<lambda>l. retM (opt(l \<mapsto> PStr ''1'')))
     else if py_lower value \<in> {''0'', ''no'', ''off'', ''false''} then
       bindM (longoptM name) (\<lambda>l. retM (opt(l \<mapsto> PStr ''0'')))
     else retM opt)"

definition stdin_line :: "(string \<rightharpoonup> string) \<Rightarrow> string list \<Rightarrow> pydict \<Rightarrow> string \<Rightarrow> pydict lib" where
  "stdin_line mapping avail_opt opt line0 =
     (let line = py_strip line0 in
      if py_startswith ''#'' line \<or> line = [] then retM opt
      else let (name0, value) = split_line line; name = canonical_name mapping name0
           in if name \<notin> set avail_opt then retM opt
              else store_option opt name value)"

definition parse_input_stdin :: "string list \<Rightarrow> pydict lib" where
  "parse_input_stdin avail_opt =
     seqM (forM avail_opt (\<lambda>opt. seqM (tabM opt) (retM ())))
    (bindM (getM world) (\<lambda>w.
     bindM (foldM (stdin_line (longopt_names (tab w) avail_opt) avail_opt) Map.empty (stdin_lines w)) (\<lambda>opt.
       retM (setdefault opt ''--verbose-level''
         (case opt ''--verbose'' of None \<Rightarrow> PInt 0 | Some v \<Rightarrow> v)))))"

section \<open>process\_input\<close>

definition process_input :: "string list \<Rightarrow> (string list \<times> pydict) lib" where
  \<comment> \<open>the list of options, which the call extends, and the options read\<close>
  "process_input avail_opt0 =
     bindM (add_dependency_options avail_opt0) (\<lambda>added.
     let avail_opt = avail_opt0 @ added @
           (if ''port_as_ip'' \<in> set (avail_opt0 @ added) then [''port''] else []) in
     bindM (getM world) (\<lambda>w.
     bindM (if argv w \<noteq> [] then parse_input_cmdline avail_opt else parse_input_stdin avail_opt) (\<lambda>opt.
       retM (avail_opt, case (opt ''--port-as-ip'', opt ''--plug'') of
           (Some _, Some plug) \<Rightarrow> opt(''--ip'' \<mapsto> plug)
         | _ \<Rightarrow> opt))))"

end
