(* ===== verification/Py_Regex.thy ===== *)
theory Py_Regex
  imports Py_String
begin

text \<open>
  Python's \<open>re\<close> for the patterns of the sources: classes, sequence, alternation, greedy
  repetition, groups and the multi-line anchor. A match is a backtracking search: \<open>re_match\<close>
  gives all ways a pattern can match at a position, in the order in which the search of Python
  tries them, so the first one is the match \<open>re\<close> reports.
\<close>

section \<open>Patterns\<close>

datatype re =
    Cls "char \<Rightarrow> bool"
  | Emp
  | Bol                      \<comment> \<open>the anchor for the start of a line (MULTILINE)\<close>
  | Eol                      \<comment> \<open>the anchor for the end of a line (MULTILINE)\<close>
  | Eos                      \<comment> \<open>the anchor for the end of the text, or before a last line break\<close>
  | Seq re re
  | Alt re re
  | Star re                  \<comment> \<open>greedy\<close>
  | LStar re                 \<comment> \<open>lazy\<close>
  | NotAhead re              \<comment> \<open>negative look-ahead\<close>
  | Grp nat re

record rst =
  prev_char :: "char option"    \<comment> \<open>the character before the position\<close>
  rest :: string
  caps :: "(nat \<times> string) list"

definition Lit :: "string \<Rightarrow> re" where
  "Lit t = foldr (\<lambda>c. Seq (Cls (\<lambda>x. x = c))) t Emp"

definition LitI :: "string \<Rightarrow> re" where
  \<comment> \<open>IGNORECASE\<close>
  "LitI t = foldr (\<lambda>c. Seq (Cls (\<lambda>x. lower_char x = lower_char c))) t Emp"

definition Plus :: "re \<Rightarrow> re" where
  "Plus r = Seq r (Star r)"

definition Opt :: "re \<Rightarrow> re" where
  "Opt r = Alt r Emp"

definition Spc :: re where
  "Spc = Cls is_space"

definition NonSpc :: re where
  "NonSpc = Cls (\<lambda>c. \<not> is_space c)"

definition is_digit :: "char \<Rightarrow> bool" where
  "is_digit c \<longleftrightarrow> CHR ''0'' \<le> c \<and> c \<le> CHR ''9''"

definition Dig :: re where
  "Dig = Cls is_digit"

definition Any :: re where
  "Any = Cls (\<lambda>c. c \<noteq> CHR 0x0A)"

definition OneOf :: "string \<Rightarrow> re" where
  \<comment> \<open>a bracketed set of characters\<close>
  "OneOf t = Cls (\<lambda>c. c \<in> set t)"

text \<open>
  Text that the sources paste into a pattern unescaped. A dot stands for any character; the
  other metacharacters are outside what the model covers.
\<close>

definition Pasted :: "string \<Rightarrow> re" where
  "Pasted t = foldr (\<lambda>c. Seq (if c = CHR ''.'' then Any else Cls (\<lambda>x. x = c))) t Emp"

section \<open>Matching\<close>

function re_match :: "re \<Rightarrow> rst \<Rightarrow> rst list" where
  "re_match (Cls p) st = (case rest st of
      [] \<Rightarrow> []
    | c # cs \<Rightarrow> if p c then [st\<lparr>prev_char := Some c, rest := cs\<rparr>] else [])"
| "re_match Emp st = [st]"
| "re_match Bol st = (if prev_char st = None \<or> prev_char st = Some (CHR 0x0A) then [st] else [])"
| "re_match (Seq a b) st = concat (map (re_match b) (re_match a st))"
| "re_match (Alt a b) st = re_match a st @ re_match b st"
| "re_match (Star a) st =
     concat (map (re_match (Star a)) (filter (\<lambda>st'. length (rest st') < length (rest st)) (re_match a st))) @ [st]"
| "re_match (LStar a) st =
     st # concat (map (re_match (LStar a)) (filter (\<lambda>st'. length (rest st') < length (rest st)) (re_match a st)))"
| "re_match (NotAhead a) st = (if re_match a st = [] then [st] else [])"
| "re_match Eol st = (case rest st of [] \<Rightarrow> [st] | c # _ \<Rightarrow> if c = CHR 0x0A then [st] else [])"
| "re_match Eos st = (if rest st = [] \<or> rest st = [CHR 0x0A] then [st] else [])"
| "re_match (Grp n a) st =
     map (\<lambda>st'. st'\<lparr>caps := (n, take (length (rest st) - length (rest st')) (rest st)) # caps st'\<rparr>) (re_match a st)"
  by pat_completeness auto
termination
  by (relation "measures [\<lambda>(r, st). size r, \<lambda>(r, st). length (rest st)]") auto

declare re_match.simps(6) [simp del] re_match.simps(7) [simp del]

definition re_at :: "re \<Rightarrow> char option \<Rightarrow> string \<Rightarrow> rst option" where
  "re_at r b s = (case re_match r \<lparr>prev_char = b, rest = s, caps = []\<rparr> of [] \<Rightarrow> None | st # _ \<Rightarrow> Some st)"

fun re_search_from :: "re \<Rightarrow> char option \<Rightarrow> string \<Rightarrow> rst option" where
  "re_search_from r b [] = re_at r b []"
| "re_search_from r b (c # cs) = (case re_at r b (c # cs) of
      Some st \<Rightarrow> Some st
    | None \<Rightarrow> re_search_from r (Some c) cs)"

definition re_search :: "re \<Rightarrow> string \<Rightarrow> rst option" where
  "re_search r s = re_search_from r None s"

definition group :: "nat \<Rightarrow> rst \<Rightarrow> string" where
  "group n st = (case map_of (caps st) n of None \<Rightarrow> [] | Some t \<Rightarrow> t)"

definition search_group :: "re \<Rightarrow> string \<Rightarrow> string option" where
  \<comment> \<open>\<open>m.group(1) if m else None\<close>\<close>
  "search_group r s = map_option (group 1) (re_search r s)"

text \<open>
  \<open>re.findall\<close>: the search goes on where a match ended, one character further after an empty
  match.
\<close>

function re_findall :: "re \<Rightarrow> char option \<Rightarrow> string \<Rightarrow> rst list" where
  "re_findall r b s = (case re_search_from r b s of
      None \<Rightarrow> []
    | Some st \<Rightarrow>
        if length (rest st) < length s then st # re_findall r (prev_char st) (rest st)
        else st # (case s of [] \<Rightarrow> [] | c # cs \<Rightarrow> re_findall r (Some c) cs))"
  by pat_completeness auto
termination
  by (relation "measure (\<lambda>(r, b, s). length s)") auto

declare re_findall.simps [simp del]

text \<open>
  \<open>re.sub(r, "", s)\<close> and \<open>re.split(r, s)\<close>: both walk over the text and cut out the matches
  (an empty match cuts nothing out).
\<close>

function re_remove :: "re \<Rightarrow> char option \<Rightarrow> string \<Rightarrow> string" where
  "re_remove r b [] = []"
| "re_remove r b (c # cs) = (case re_at r b (c # cs) of
      None \<Rightarrow> c # re_remove r (Some c) cs
    | Some st \<Rightarrow> if length (rest st) \<le> length cs then re_remove r (prev_char st) (rest st)
        else c # re_remove r (Some c) cs)"
  by pat_completeness auto
termination
  by (relation "measure (\<lambda>(r, b, s). length s)") auto

function re_split :: "re \<Rightarrow> char option \<Rightarrow> string \<Rightarrow> string \<Rightarrow> string list" where
  \<comment> \<open>the field read so far is an argument\<close>
  "re_split r b field [] = [field]"
| "re_split r b field (c # cs) = (case re_at r b (c # cs) of
      None \<Rightarrow> re_split r (Some c) (field @ [c]) cs
    | Some st \<Rightarrow> if length (rest st) \<le> length cs then field # re_split r (prev_char st) [] (rest st)
        else re_split r (Some c) (field @ [c]) cs)"
  by pat_completeness auto
termination
  by (relation "measure (\<lambda>(r, b, field, s). length s)") auto

section \<open>Basic facts\<close>

lemma re_match_shorter: "st' \<in> set (re_match r st) \<Longrightarrow> length (rest st') \<le> length (rest st)"
proof (induction r st arbitrary: st' rule: re_match.induct)
  case (1 p st)
  then show ?case by (cases "rest st") (auto split: if_splits)
next
  case (4 a b st)
  then show ?case by (fastforce intro: order_trans)
next
  case (6 a st)
  from "6.prems" consider "st' = st"
    | x where "x \<in> set (re_match a st)" "length (rest x) < length (rest st)" "st' \<in> set (re_match (Star a) x)"
    by (subst (asm) re_match.simps(6)) auto
  then show ?case
  proof cases
    case (2 x)
    with "6.IH"(2) [of x st'] show ?thesis by simp
  qed simp
next
  case (7 a st)
  from "7.prems" consider "st' = st"
    | x where "x \<in> set (re_match a st)" "length (rest x) < length (rest st)" "st' \<in> set (re_match (LStar a) x)"
    by (subst (asm) re_match.simps(7)) auto
  then show ?case
  proof cases
    case (2 x)
    with "7.IH"(2) [of x st'] show ?thesis by simp
  qed simp
qed (auto split: list.splits if_splits)

end
