(* ===== verification/Show_Docs.thy ===== *)
theory Show_Docs
  imports Parse_Input Py_Regex Fence_Action "HOL-Library.Product_Lexorder" "HOL-Library.List_Lexorder"
begin

text \<open>
  \<open>lib/fencing.py.py\<close>: the help text (\<open>usage\<close>), the XML description of an agent (\<open>metadata\<close>)
  and \<open>show_docs\<close>, which prints one of them and ends the process when it was asked for.
\<close>

section \<open>Documentation of an agent\<close>

record docs =
  agent_name :: "string option"
  shortdesc :: string
  longdesc :: string
  vendorurl :: "string option"
  symlink :: "(string \<times> string) list"

definition RELEASE_VERSION :: string where
  "RELEASE_VERSION = ''@RELEASE_VERSION@''"

definition entriesM :: "string list \<Rightarrow> (string \<times> optdef) list lib" where
  \<comment> \<open>\<open>[(key, all_opt[key]) for key in keys]\<close>\<close>
  "entriesM keys = foldM (\<lambda>acc k. bindM (tabM k) (\<lambda>d. retM (acc @ [(k, d)]))) [] keys"

section \<open>usage\<close>

definition usage :: "string list \<Rightarrow> unit lib" where
  "usage avail_opt =
     seqM (printM ''Usage:'')
    (bindM (getM (\<lambda>s. argv0 (world s))) (\<lambda>name.
     seqM (printM ([CHR 0x09] @ basename name @ '' [options]''))
    (seqM (printM ''Options:'')
    (bindM (entriesM avail_opt) (\<lambda>entries.
       forM (sort_key (\<lambda>(key, d). o_order d) entries) (\<lambda>(key, d).
         if o_help d \<noteq> []
         then printM (''   '' @ join_wrap [o_help d] '', '' '' and '' 3)
         else retM ()))))))"

section \<open>metadata\<close>

definition underscored :: "string \<Rightarrow> string" where
  "underscored t = py_replace ''-'' ''_'' t"

definition has_longopt :: "string \<times> optdef \<Rightarrow> bool" where
  "has_longopt e \<longleftrightarrow> o_longopt (snd e) \<noteq> None"

text \<open>
  The names that replace inconsistent ones: long name to option. The dictionary keeps the first
  position and the last value of a name.
\<close>

definition renames :: "(string \<times> optdef) list \<Rightarrow> (string \<times> string) list" where
  "renames entries = filter (\<lambda>(name, key). key \<noteq> name)
     (map (\<lambda>(key, d). (underscored (the (o_longopt d)), key)) entries)"

definition mapping_of :: "(string \<times> optdef) list \<Rightarrow> string \<rightharpoonup> string" where
  "mapping_of entries = map_of (rev (renames entries))"

definition new_options :: "opt_table \<Rightarrow> (string \<times> optdef) list \<Rightarrow> (string \<times> optdef) list" where
  "new_options t entries = map (\<lambda>name. (name, the (t (the (mapping_of entries name)))))
     (rev (remdups (rev (map fst (renames entries)))))"

definition sorted_parameters :: "opt_table \<Rightarrow> (string \<times> optdef) list \<Rightarrow> (string \<times> optdef) list" where
  "sorted_parameters t entries =
     sort_key (\<lambda>(key, d). (o_order d, key)) (entries @ new_options t entries)"

definition parameter_info :: "opt_table \<Rightarrow> (string \<rightharpoonup> string) \<Rightarrow> string \<Rightarrow> string" where
  "parameter_info t mapping key = (case t key of
      Some d \<Rightarrow> if key \<noteq> underscored (case o_longopt d of None \<Rightarrow> key | Some l \<Rightarrow> l)
               then ''deprecated=\"1\"'' else []
    | None \<Rightarrow> ''obsoletes=\"'' @ (case mapping key of None \<Rightarrow> ''None'' | Some k \<Rightarrow> k) @ ''\"'')"

definition getopt_mixed_re :: re where
  "getopt_mixed_re = Seq (Grp 1 (Seq (LStar (Cls (\<lambda>_. True))) (Seq (Lit ''--'') (Plus NonSpc)))) (Plus Spc)"

definition getopt_mixed :: "string \<Rightarrow> string" where
  \<comment> \<open>the part of the help text that names the option\<close>
  "getopt_mixed help = encode_html_entities
     (case re_at getopt_mixed_re None help of None \<Rightarrow> help | Some st \<Rightarrow> group 1 st)"

definition help_lead_re :: re where
  "help_lead_re = Seq (Star Any) (Seq Spc (Plus Spc))"

definition parameter_shortdesc :: "optdef \<Rightarrow> string" where
  "parameter_shortdesc d = (case o_shortdesc d of
      Some t \<Rightarrow> t
    | None \<Rightarrow> re_remove help_lead_re None (drop 31 (o_help d)))"

definition content_lines :: "optdef \<Rightarrow> string \<Rightarrow> string list" where
  "content_lines d default_text = (case o_choices d of
      Some choices \<Rightarrow>
        [[CHR 0x09, CHR 0x09] @ ''<content type=\"select\" '' @ default_text @ '' >''] @
        map (\<lambda>choice. [CHR 0x09, CHR 0x09, CHR 0x09] @ ''<option value=\"'' @ choice @ ''\" />'') choices @
        [[CHR 0x09, CHR 0x09] @ ''</content>'']
    | None \<Rightarrow>
        if count_list (o_getopt d) CHR '':'' > 0
        then [[CHR 0x09, CHR 0x09] @ ''<content type=\"'' @ (case o_type d of None \<Rightarrow> ''string'' | Some t \<Rightarrow> t)
               @ ''\" '' @ default_text @ '' />'']
        else [[CHR 0x09, CHR 0x09] @ ''<content type=\"boolean\" '' @ default_text @ '' />''])"

definition print_parameter :: "opt_table \<Rightarrow> (string \<rightharpoonup> string) \<Rightarrow> string \<times> optdef \<Rightarrow> unit lib" where
  "print_parameter t mapping e = (case e of (key, d) \<Rightarrow>
     let info = parameter_info t mapping key in
     if o_help d = [] then retM ()
     else (case o_required d of
         None \<Rightarrow> raiseM (KeyError ''required'')
       | Some required \<Rightarrow>
           let default_text = (case o_default d of
                 None \<Rightarrow> []
               | Some v \<Rightarrow> ''default=\"'' @ encode_html_entities (py_str v) @ ''\" '')
           in forM ([[CHR 0x09] @ ''<parameter name=\"'' @ key @ ''\" unique=\"0\" required=\"'' @ required @ ''\"''
                     @ (if info \<noteq> [] then '' '' @ info else []) @ ''>'',
                     [CHR 0x09, CHR 0x09] @ ''<getopt mixed=\"'' @ getopt_mixed (o_help d) @ ''\" />''] @
                    content_lines d default_text @
                    [[CHR 0x09, CHR 0x09] @ ''<shortdesc lang=\"en\">'' @ parameter_shortdesc d @ ''</shortdesc>'',
                     [CHR 0x09] @ ''</parameter>'']) printM))"

definition action_lines :: "string list \<Rightarrow> string list" where
  "action_lines avail_opt =
     (let available = fst (get_available_actions avail_opt) in
      (if ''on'' \<in> set available
       then [[CHR 0x09] @ ''<action name=\"on\"'' @ (if ''on_target'' \<in> set avail_opt then '' on_target=\"1\"'' else [])
              @ '' automatic=\"'' @ show_nat (count_list avail_opt ''fabric_fencing'') @ ''\"/>'']
       else []) @
      map (\<lambda>action. [CHR 0x09] @ ''<action name=\"'' @ action @ ''\" />'') (remove1 ''on'' available))"

definition roff_re :: re where
  \<comment> \<open>the markup of manual pages\<close>
  "roff_re = Alt (Seq (Lit [CHR 0x5C, CHR ''f'']) (OneOf ''BPIR''))
     (Alt (Lit ''.P'') (Alt (Lit ''.TP'') (Lit (''.br'' @ nl))))"

text \<open>
  \<open>uniq\<close> is \<open>list(set(avail_opt))\<close>: the options without duplicates, in the order of Python's
  set, which is unspecified.
\<close>

definition metadata :: "string list \<Rightarrow> string list \<Rightarrow> docs \<Rightarrow> string \<Rightarrow> unit lib" where
  "metadata uniq avail_opt D name =
     bindM (entriesM uniq) (\<lambda>all_entries.
     let entries = filter has_longopt all_entries; mapping = mapping_of entries in
     bindM (getM (\<lambda>s. tab (world s))) (\<lambda>t.
     bindM (optM ''--action'') (\<lambda>action.
     let longdesc = (if action = PStr ''metadata'' then re_remove roff_re None (longdesc D) else longdesc D) in
     seqM (printM ''<?xml version=\"1.0\" ?>'')
    (seqM (printM (''<resource-agent name=\"'' @ name @ ''\" shortdesc=\"'' @ shortdesc D @ ''\" >''))
    (seqM (forM (symlink D) (\<lambda>(link, desc).
       printM (''<symlink name=\"'' @ link @ ''\" shortdesc=\"'' @ desc @ ''\"/>'')))
    (seqM (printM (''<longdesc>'' @ longdesc @ ''</longdesc>''))
    (case vendorurl D of
       None \<Rightarrow> raiseM (KeyError ''vendorurl'')
     | Some url \<Rightarrow>
         seqM (printM (''<vendor-url>'' @ url @ ''</vendor-url>''))
        (seqM (printM ''<parameters>'')
        (seqM (forM (sorted_parameters t entries) (print_parameter t mapping))
        (seqM (printM ''</parameters>'')
        (seqM (printM ''<actions>'')
        (seqM (forM (action_lines avail_opt) printM)
        (seqM (printM ''</actions>'')
              (printM ''</resource-agent>''))))))))))))))"

section \<open>show\_docs\<close>

definition default_docs :: docs where
  "default_docs = \<lparr>agent_name = None, shortdesc = ''Fence agent'', longdesc = [], vendorurl = None, symlink = []\<rparr>"

definition show_docs :: "(string list \<Rightarrow> string list) \<Rightarrow> docs option \<Rightarrow> unit lib" where
  \<comment> \<open>\<open>set_order\<close> iterates over the set of the elements of a list\<close>
  "show_docs set_order docs0 =
     bindM device_optM (\<lambda>device_opt.
     let D = (case docs0 of None \<Rightarrow> default_docs | Some D \<Rightarrow> D) in
     bindM (getM (\<lambda>s. (opts s, argv0 (world s)))) (\<lambda>(od, name0).
     seqM (if od ''--help'' \<noteq> None then seqM (usage device_opt) (exitM 0) else retM ())
    (seqM (if od ''--action'' \<in> {Some (PStr ''metadata''), Some (PStr ''manpage'')} then
             (let name = (case agent_name D of
                  Some n \<Rightarrow> if od ''--action'' = Some (PStr ''metadata'') then basename name0 else n
                | None \<Rightarrow> basename name0)
              in if ''port_as_ip'' \<in> set device_opt then
                   (if ''separator'' \<in> set device_opt then
                      (let shown = remove1 ''separator'' device_opt in
                       seqM (metadata (set_order shown) shown D name) (exitM 0))
                    else raiseM (ValueError ''list.remove(x): x not in list''))
                 else seqM (metadata (set_order device_opt) device_opt D name) (exitM 0))
           else retM ())
          (if od ''--version'' \<noteq> None then seqM (printM RELEASE_VERSION) (exitM 0) else retM ()))))"

end
