(* ===== verification/Agent_Main.thy ===== *)
theory Agent_Main
  imports Show_Docs Fence_Action_Props
begin

text \<open>
  What the \<open>main\<close> functions of the agents have in common: they extend the table of options,
  read and check the options (\<open>process_input\<close>, \<open>check_input\<close>), show the documentation if that
  was asked for, and call \<open>fence_action\<close> with their callbacks. The library works on its own
  world and the callbacks on the world of the agent, so a main function runs on a pair of them;
  \<open>on_lib\<close> and \<open>on_dev\<close> run a program on one side.
\<close>

section \<open>Two worlds\<close>

record 'w agent_world =
  lib :: lib_world
  dev :: 'w

definition with_world :: "'v \<Rightarrow> 'w st \<Rightarrow> 'v st" where
  "with_world v s = \<lparr>opts = opts s, outp = outp s, errs = errs s, clock = clock s, world = v\<rparr>"

definition on_lib :: "'a lib \<Rightarrow> ('w agent_world, 'a) prog" where
  "on_lib m s = (case m (with_world (lib (world s)) s) of
     (r, t) \<Rightarrow> (r, with_world ((world s)\<lparr>lib := world t\<rparr>) t))"

definition on_dev :: "('w, 'a) prog \<Rightarrow> ('w agent_world, 'a) prog" where
  "on_dev m s = (case m (with_world (dev (world s)) s) of
     (r, t) \<Rightarrow> (r, with_world ((world s)\<lparr>dev := world t\<rparr>) t))"

lemma with_world_simps [simp]:
  "opts (with_world v s) = opts s" "outp (with_world v s) = outp s" "errs (with_world v s) = errs s"
  "clock (with_world v s) = clock s" "world (with_world v s) = v"
  by (simp_all add: with_world_def)

lemma on_dev_Ret [ret_iff]:
  "on_dev m s = (Ret x, s') \<longleftrightarrow>
     (\<exists>t. m (with_world (dev (world s)) s) = (Ret x, t) \<and> s' = with_world ((world s)\<lparr>dev := world t\<rparr>) t)"
  by (auto simp: on_dev_def split: prod.splits)

lemma on_dev_Exit [exit_iff]:
  "on_dev m s = (Exit c, s') \<longleftrightarrow>
     (\<exists>t. m (with_world (dev (world s)) s) = (Exit c, t) \<and> s' = with_world ((world s)\<lparr>dev := world t\<rparr>) t)"
  by (auto simp: on_dev_def split: prod.splits)

lemma on_lib_Ret [ret_iff]:
  "on_lib m s = (Ret x, s') \<longleftrightarrow>
     (\<exists>t. m (with_world (lib (world s)) s) = (Ret x, t) \<and> s' = with_world ((world s)\<lparr>lib := world t\<rparr>) t)"
  by (auto simp: on_lib_def split: prod.splits)

lemma on_lib_Exit [exit_iff]:
  "on_lib m s = (Exit c, s') \<longleftrightarrow>
     (\<exists>t. m (with_world (lib (world s)) s) = (Exit c, t) \<and> s' = with_world ((world s)\<lparr>lib := world t\<rparr>) t)"
  by (auto simp: on_lib_def split: prod.splits)

section \<open>The table of options\<close>

definition add_opts :: "(string \<times> optdef) list \<Rightarrow> unit lib" where
  \<comment> \<open>\<open>all_opt[k] = {...}\<close> for a list of entries, in order\<close>
  "add_opts entries = modM (\<lambda>s. s\<lparr>world := (world s)\<lparr>tab := tab (world s) ++ map_of (rev entries)\<rparr>\<rparr>)"

definition set_default :: "string \<Rightarrow> pyval \<Rightarrow> unit lib" where
  \<comment> \<open>\<open>all_opt[k]["default"] = v\<close>\<close>
  "set_default k v = settabM k (\<lambda>d. d\<lparr>o_default := Some v\<rparr>)"

definition set_help :: "string \<Rightarrow> string \<Rightarrow> unit lib" where
  "set_help k t = settabM k (\<lambda>d. d\<lparr>o_help := t\<rparr>)"

definition set_shortdesc :: "string \<Rightarrow> string \<Rightarrow> unit lib" where
  "set_shortdesc k t = settabM k (\<lambda>d. d\<lparr>o_shortdesc := Some t\<rparr>)"

section \<open>Input, and the end of the process\<close>

definition read_options :: "string list \<Rightarrow> bool \<Rightarrow> unit lib" where
  \<comment> \<open>\<open>options = check_input(device_opt, process_input(device_opt), other_conditions)\<close>\<close>
  "read_options device_opt other_conditions =
     bindM (process_input device_opt) (\<lambda>(avail_opt, opt).
     seqM (modM (\<lambda>s. s\<lparr>opts := opt\<rparr>))
          (check_input avail_opt other_conditions))"

definition exit_with :: "('w, int) prog \<Rightarrow> ('w, unit) prog" where
  \<comment> \<open>\<open>sys.exit(m)\<close>\<close>
  "exit_with m = bindM m exitM"

lemma exit_with_Exit: "exit_with m s = (Exit c, s') \<longleftrightarrow> m s = (Exit c, s') \<or> m s = (Ret c, s')"
  by (auto simp: exit_with_def exit_iff)

end
