(* ===== verification/Fencing_Snmp.thy ===== *)
theory Fencing_Snmp
  imports Agent_Main
begin

text \<open>
  \<open>lib/fencing_snmp.py.py\<close>: the class \<open>FencingSnmp\<close>, which reads and writes values of an SNMP
  device by running the net-snmp programs. The options of the object are the options dictionary
  of the agent. The programs are run with \<open>pexpect.run\<close>, a parameter of the model: it gets the
  command line and the timeout and answers with the output and the exit status (None when the
  time was over), or raises a pexpect exception.

  The world of an SNMP agent holds the state of the network and the global variables of the
  agent's module.
\<close>

section \<open>The world of an SNMP agent\<close>

datatype run_result = RunOutput string "int option" | RunError

type_synonym 'd pexpect_run = "string \<Rightarrow> int option \<Rightarrow> 'd \<Rightarrow> run_result \<times> 'd"

record ('d, 'g) snmp_world =
  net :: 'd
  globals :: 'g

type_synonym ('d, 'g, 'a) snmp = "(('d, 'g) snmp_world, 'a) prog"

definition frun :: "'d pexpect_run \<Rightarrow> string \<Rightarrow> int \<Rightarrow> ('d, 'g, string \<times> int option) snmp" where
  \<comment> \<open>\<open>frun(command, timeout, True)\<close> of \<open>lib/fencing.py.py\<close>: a timeout of 0 is none at all\<close>
  "frun run command timeout s =
     (case run command (if timeout \<noteq> 0 then Some timeout else None) (net (world s)) of
        (RunOutput output code, d) \<Rightarrow> (Ret (output, code), s\<lparr>world := (world s)\<lparr>net := d\<rparr>\<rparr>)
      | (RunError, d) \<Rightarrow> (Raise (PexpectError command), s\<lparr>world := (world s)\<lparr>net := d\<rparr>\<rparr>))"

section \<open>Building commands\<close>

definition quote_for_run :: "string \<Rightarrow> string" where
  "quote_for_run t = py_replace [CHR 0x27] [CHR 0x27, CHR 0x5C, CHR 0x27, CHR 0x27] t"

definition in_quotes :: "string \<Rightarrow> string" where
  "in_quotes t = [CHR 0x27] @ t @ [CHR 0x27]"

definition complete_sec_level :: "pydict \<Rightarrow> pydict" where
  "complete_sec_level od =
     (if od ''--snmp-priv-passwd'' \<noteq> None \<and> od ''--password'' \<noteq> None \<and> od ''--snmp-sec-level'' = None
      then od(''--snmp-sec-level'' \<mapsto> PStr ''authPriv'') else od)"

definition complete_version :: "pydict \<Rightarrow> pydict" where
  "complete_version od =
     (if od ''--snmp-version'' = None \<and> od ''--community'' \<noteq> None \<and> od ''--username'' = None
         \<and> od ''--snmp-priv-passwd'' = None \<and> od ''--password'' = None
      then od(''--snmp-version'' \<mapsto> PStr ''2c'') else od)"

definition complete_missed_params :: "pydict \<Rightarrow> pydict" where
  "complete_missed_params od = complete_version (complete_sec_level od)"

definition quoted_opt :: "pydict \<Rightarrow> string \<Rightarrow> string outcome" where
  \<comment> \<open>\<open>self.quote_for_run(self.options[k])\<close>\<close>
  "quoted_opt od k = (case od k of
      None \<Rightarrow> Raise (KeyError k)
    | Some (PStr t) \<Rightarrow> Ret (quote_for_run t)
    | Some _ \<Rightarrow> Raise (AttributeError ''replace''))"

fun add_flags :: "pydict \<Rightarrow> (string \<times> string) list \<Rightarrow> string \<Rightarrow> string outcome" where
  \<comment> \<open>the loops over the mappings from our options to those of the program\<close>
  "add_flags od [] cmd = Ret cmd"
| "add_flags od ((name, flag) # items) cmd =
     (if od (''--'' @ name) = None then add_flags od items cmd
      else bindO (quoted_opt od (''--'' @ name)) (\<lambda>v.
        add_flags od items (cmd @ '' -'' @ flag @ '' '' @ in_quotes v)))"

definition mapping_v2 :: "(string \<times> string) list" where
  "mapping_v2 = [(''snmp-version'', ''v''), (''community'', ''c'')]"

definition mapping_v3 :: "(string \<times> string) list" where
  "mapping_v3 = [(''snmp-auth-prot'', ''a''), (''snmp-sec-level'', ''l''), (''snmp-priv-prot'', ''x''),
     (''snmp-priv-passwd'', ''X''), (''password'', ''A''), (''username'', ''u'')]"

definition force_ipvx :: "pydict \<Rightarrow> string" where
  "force_ipvx od = (if od ''--inet4-only'' \<noteq> None then ''udp:''
     else if od ''--inet6-only'' \<noteq> None then ''udp6:'' else [])"

definition build_cmd :: "pydict \<Rightarrow> string \<Rightarrow> string outcome" where
  \<comment> \<open>\<open>prepare_cmd\<close> after the missing parameters are completed\<close>
  "build_cmd od command =
     bindO (add_flags od mapping_v2 (command @ '' -m '' @ in_quotes [] @ '' -Oeqn '')) (\<lambda>cmd.
     bindO (if od ''--snmp-version'' = Some (PStr ''3'') then add_flags od mapping_v3 cmd else Ret cmd) (\<lambda>cmd'.
     bindO (quoted_opt od ''--ip'') (\<lambda>ip.
       Ret (cmd' @ '' '' @ in_quotes (force_ipvx od @ ip @
         (case od ''--ipport'' of None \<Rightarrow> [] | Some v \<Rightarrow> quote_for_run ('':'' @ py_str v)))))))"

definition prepare_cmd :: "string \<Rightarrow> ('d, 'g, string) snmp" where
  "prepare_cmd command =
     seqM (modM (\<lambda>s. s\<lparr>opts := complete_missed_params (opts s)\<rparr>))
    (bindM (getM opts) (\<lambda>od. liftM (build_cmd od command)))"

section \<open>Running commands\<close>

definition shown_optM :: "string \<Rightarrow> ('d, 'g, string) snmp" where
  \<comment> \<open>\<open>str(options[k])\<close>, or an option formatted with \<open>%s\<close>\<close>
  "shown_optM k = bindM (optM k) (\<lambda>v. retM (py_str v))"

definition error_re :: re where
  "error_re = Seq Bol (Lit ''Error '')"

definition checked_output :: "string \<Rightarrow> int option \<Rightarrow> ('d, 'g, string) snmp" where
  "checked_output res_output res_code = (case res_code of
      None \<Rightarrow> seqM (fail EC_TIMED_OUT True) (retM res_output)
    | Some code \<Rightarrow>
        seqM (if code \<noteq> 0 \<or> re_search error_re res_output \<noteq> None
              then fail_usage (''Returned '' @ show_int code @ '': '' @ res_output) True else retM ())
             (retM res_output))"

definition snmp_run_command :: "'d pexpect_run \<Rightarrow> string \<Rightarrow> int \<Rightarrow> ('d, 'g, string) snmp" where
  \<comment> \<open>the method \<open>run_command\<close>\<close>
  "snmp_run_command run command additional_timeout =
     tryM
      (bindM (intoptM ''--shell-timeout'') (\<lambda>shell.
       bindM (intoptM ''--login-timeout'') (\<lambda>login.
       bindM (frun run command (shell + login + additional_timeout)) (\<lambda>(res_output, res_code).
         checked_output res_output res_code))))
      (\<lambda>e. case e of
         PexpectError _ \<Rightarrow> Some (seqM (fail_usage (''Cannot run command '' @ command) True)
                                      (raiseM (OtherError ''UnboundLocalError'')))
       | _ \<Rightarrow> None)"

definition last_words :: "string \<Rightarrow> string list outcome" where
  \<comment> \<open>\<open>output[len(output)-1].split(None, 1)\<close> of the lines of the output\<close>
  "last_words res = (if py_splitlines res = [] then Raise (IndexError ''list index out of range'')
     else Ret (py_split_once (last (py_splitlines res))))"

definition snmp_get :: "'d pexpect_run \<Rightarrow> string \<Rightarrow> ('d, 'g, string list) snmp" where
  "snmp_get run oid =
     bindM (shown_optM ''--snmpget-path'') (\<lambda>path.
     bindM (prepare_cmd path) (\<lambda>cmd.
     bindM (snmp_run_command run (cmd @ '' '' @ in_quotes (quote_for_run oid)) 0) (\<lambda>output.
       liftM (last_words output))))"

definition unpack_two :: "string list \<Rightarrow> string outcome" where
  \<comment> \<open>the second of exactly two\<close>
  "unpack_two ws = (if length ws = 2 then Ret (ws ! 1) else Raise (ValueError ''wrong number of values to unpack''))"

definition snmp_value :: "'d pexpect_run \<Rightarrow> string \<Rightarrow> ('d, 'g, string) snmp" where
  \<comment> \<open>\<open>(_, status) = conn.get(oid)\<close>\<close>
  "snmp_value run oid = bindM (snmp_get run oid) (\<lambda>ws. liftM (unpack_two ws))"

definition snmp_set :: "'d pexpect_run \<Rightarrow> string \<Rightarrow> pyval \<Rightarrow> ('d, 'g, unit) snmp" where
  "snmp_set run oid value =
     (let type_of_value = (case value of PInt _ \<Rightarrow> ''i'' | PStr _ \<Rightarrow> ''s'' | _ \<Rightarrow> []) in
      bindM (shown_optM ''--snmpset-path'') (\<lambda>path.
      bindM (prepare_cmd path) (\<lambda>cmd.
      seqM (snmp_run_command run (cmd @ '' '' @ in_quotes (quote_for_run oid) @ '' '' @ type_of_value
              @ '' '' @ in_quotes (quote_for_run (py_str value))) 0)
           (retM ()))))"

definition snmp_walk :: "'d pexpect_run \<Rightarrow> string \<Rightarrow> int \<Rightarrow> ('d, 'g, string list list) snmp" where
  "snmp_walk run oid additional_timeout =
     bindM (shown_optM ''--snmpwalk-path'') (\<lambda>path.
     bindM (prepare_cmd path) (\<lambda>cmd.
     bindM (snmp_run_command run (cmd @ '' '' @ in_quotes (quote_for_run oid)) additional_timeout) (\<lambda>output.
       retM (map py_split_once (filter (py_startswith ''.'') (py_splitlines output))))))"

section \<open>Helpers of the agents\<close>

definition row_value :: "string list \<Rightarrow> ('d, 'g, string) snmp" where
  \<comment> \<open>\<open>x[1]\<close> of a row of a walk\<close>
  "row_value x = (case x of _ # v # _ \<Rightarrow> retM v | _ \<Rightarrow> raiseM (IndexError ''list index out of range''))"

definition row_oid :: "string list \<Rightarrow> ('d, 'g, string list) snmp" where
  \<comment> \<open>\<open>x[0].split('.')\<close>\<close>
  "row_oid x = (case x of k # _ \<Rightarrow> retM (py_split ''.'' k) | _ \<Rightarrow> raiseM (IndexError ''list index out of range''))"

definition unquoted :: "string \<Rightarrow> string" where
  \<comment> \<open>\<open>s.strip('"')\<close>\<close>
  "unquoted t = strip_by (\<lambda>c. c = CHR 0x22) t"

definition array_to_dict :: "string list list \<Rightarrow> ('d, 'g, string \<rightharpoonup> string) snmp" where
  \<comment> \<open>of \<open>lib/fencing.py.py\<close>: the last component of the OID to the value, the last row wins\<close>
  "array_to_dict array = foldM (\<lambda>d x.
     bindM (row_oid x) (\<lambda>t. bindM (row_value x) (\<lambda>v. retM (d(last t \<mapsto> v))))) Map.empty array"

definition put_outlet :: "outlet list \<Rightarrow> outlet \<Rightarrow> outlet list" where
  \<comment> \<open>\<open>result[key] = (alias, status)\<close>: a dictionary keeps the place of the first insertion\<close>
  "put_outlet os e = (if fst e \<in> fst ` set os then map (\<lambda>x. if fst x = fst e then e else x) os else os @ [e])"

definition snmp_globals :: "('g \<Rightarrow> 'g) \<Rightarrow> ('d, 'g, unit) snmp" where
  \<comment> \<open>assignment to the module's global variables\<close>
  "snmp_globals f = modM (\<lambda>s. s\<lparr>world := (world s)\<lparr>globals := f (globals (world s))\<rparr>\<rparr>)"

definition and_or :: "bool \<Rightarrow> int \<Rightarrow> int \<Rightarrow> int" where
  \<comment> \<open>\<open>c and x or y\<close>: 0 is false\<close>
  "and_or c x y = (if c \<and> x \<noteq> 0 then x else y)"

definition on_off :: "bool \<Rightarrow> string" where
  "on_off b = (if b then ''on'' else ''off'')"

fun format_d :: "string \<Rightarrow> int list \<Rightarrow> string" where
  \<comment> \<open>\<open>s % (n, ...)\<close> for a format with \<open>%d\<close> only\<close>
  "format_d (c # d # cs) (n # ns) =
     (if c = CHR ''%'' \<and> d = CHR ''d'' then show_int n @ format_d cs ns else c # format_d (d # cs) (n # ns))"
| "format_d cs ns = cs"

text \<open>What the main functions of the SNMP agents do after the options are known.\<close>

definition snmp_operate ::
  "(string list \<Rightarrow> string list) \<Rightarrow> rat \<Rightarrow> docs \<Rightarrow> nat \<Rightarrow> ('d, 'g) snmp_world power_fns
   \<Rightarrow> (('d, 'g) snmp_world agent_world, unit) prog" where
  \<comment> \<open>show the documentation, make the \<open>FencingSnmp\<close> object (which waits for the delay), act, exit\<close>
  "snmp_operate set_order time_start D fuel fns =
     seqM (on_lib (show_docs set_order (Some D)))
    (seqM (run_delay time_start 0 0)
          (exit_with (on_dev (fence_action fuel fns))))"

end
