(* ===== verification/Snmp_Agents.thy ===== *)
theory Snmp_Agents
  imports Fencing_Snmp
begin

text \<open>
  The SNMP agents that address an outlet by a fixed OID:
  \<open>agents/emerson/fence_emerson.py\<close>, \<open>agents/ibmblade/fence_ibmblade.py\<close>,
  \<open>agents/intelmodular/fence_intelmodular.py\<close> (the plug is the end of the OID) and
  \<open>agents/cisco_mds/fence_cisco_mds.py\<close> (the OID of the port is a global variable set in
  \<open>main\<close>).
\<close>

section \<open>Outlets by plug number\<close>

definition plug_oid :: "string \<Rightarrow> ('d, 'g, string) snmp" where
  \<comment> \<open>\<open>"%s.%s" % (OID, options["--plug"])\<close>\<close>
  "plug_oid base = bindM (shown_optM ''--plug'') (\<lambda>p. retM (base @ ''.'' @ p))"

definition plug_status_is :: "'d pexpect_run \<Rightarrow> string \<Rightarrow> int \<Rightarrow> ('d, 'g, string option) snmp" where
  "plug_status_is run base up =
     bindM (plug_oid base) (\<lambda>oid.
     bindM (snmp_value run oid) (\<lambda>status. retM (Some (on_off (status = show_int up)))))"

definition set_plug_to :: "'d pexpect_run \<Rightarrow> string \<Rightarrow> int \<Rightarrow> int \<Rightarrow> ('d, 'g, unit) snmp" where
  "set_plug_to run base set_on set_off =
     bindM (plug_oid base) (\<lambda>oid.
     bindM (optM ''--action'') (\<lambda>action.
       snmp_set run oid (PInt (and_or (action = PStr ''on'') set_on set_off))))"

definition list_blades :: "'d pexpect_run \<Rightarrow> string \<Rightarrow> int \<Rightarrow> ('d, 'g, outlet list) snmp" where
  \<comment> \<open>the loop of the two blade agents\<close>
  "list_blades run base up =
     bindM (snmp_walk run base 30) (\<lambda>rows.
     foldM (\<lambda>result x.
       bindM (row_oid x) (\<lambda>t.
       bindM (row_value x) (\<lambda>v.
         retM (put_outlet result (last t, [], Some (on_off (v = show_int up))))))) [] rows)"

definition snmp_device_opt :: "string list" where
  "snmp_device_opt = [''ipaddr'', ''login'', ''passwd'', ''no_login'', ''no_password'', ''port'', ''snmp_version'', ''snmp'']"

section \<open>Emerson\<close>

definition STATUSES_OID_emerson :: string where
  "STATUSES_OID_emerson = ''.1.3.6.1.4.1.476.1.42.3.8.50.20.1.95''"

definition CONTROL_OID_emerson :: string where
  "CONTROL_OID_emerson = ''.1.3.6.1.4.1.476.1.42.3.8.50.20.1.100''"

definition NAMES_OID_emerson :: string where
  "NAMES_OID_emerson = ''.1.3.6.1.4.1.476.1.42.3.8.50.20.1.10''"

definition get_power_status_emerson :: "'d pexpect_run \<Rightarrow> ('d, 'g, string option) snmp" where
  "get_power_status_emerson run = plug_status_is run STATUSES_OID_emerson 2"

definition set_power_status_emerson :: "'d pexpect_run \<Rightarrow> ('d, 'g, unit) snmp" where
  "set_power_status_emerson run = set_plug_to run CONTROL_OID_emerson 1 0"

definition get_outlets_status_emerson :: "'d pexpect_run \<Rightarrow> ('d, 'g, outlet list) snmp" where
  "get_outlets_status_emerson run =
     bindM (snmp_walk run STATUSES_OID_emerson 30) (\<lambda>rows.
     foldM (\<lambda>result x.
       bindM (row_oid x) (\<lambda>t.
       let port_num = py_join ''.'' (drop (length t - 3) t) in
       bindM (snmp_get run (NAMES_OID_emerson @ ''.'' @ port_num)) (\<lambda>name.
       bindM (row_value name) (\<lambda>port_alias.
       bindM (row_value x) (\<lambda>v.
         retM (put_outlet result (port_num, port_alias, Some (on_off (v = ''2'')))))))))
       [] rows)"

definition fns_emerson :: "'d pexpect_run \<Rightarrow> ('d, 'g) snmp_world power_fns" where
  "fns_emerson run = \<lparr>set_power_fn = Some (set_power_status_emerson run),
     get_power_fn = Some (get_power_status_emerson run),
     get_outlet_list = Some (get_outlets_status_emerson run), reboot_cycle_fn = None, sync_set_power_fn = None\<rparr>"

definition docs_emerson :: docs where
  "docs_emerson = \<lparr>agent_name = None, shortdesc = ''Fence agent for Emerson over SNMP'',
     longdesc = ''fence_emerson is a Power Fencing agent which can be used with MPX and MPH2 managed rack PDU.'',
     vendorurl = Some ''http://www.emersonnetworkpower.com'', symlink = []\<rparr>"

definition main_emerson where
  "main_emerson run set_order time_start fuel =
     seqM (on_lib (set_default ''power_wait'' (PStr ''5'')))
    (seqM (on_lib (read_options snmp_device_opt False))
          (snmp_operate set_order time_start docs_emerson fuel (fns_emerson run)))"

section \<open>IBM BladeCenter\<close>

definition STATUSES_OID_ibmblade :: string where
  "STATUSES_OID_ibmblade = ''.1.3.6.1.4.1.2.3.51.2.22.1.5.1.1.4''"

definition CONTROL_OID_ibmblade :: string where
  "CONTROL_OID_ibmblade = ''.1.3.6.1.4.1.2.3.51.2.22.1.6.1.1.7''"

definition get_power_status_ibmblade :: "'d pexpect_run \<Rightarrow> ('d, 'g, string option) snmp" where
  "get_power_status_ibmblade run = plug_status_is run STATUSES_OID_ibmblade 1"

definition set_power_status_ibmblade :: "'d pexpect_run \<Rightarrow> ('d, 'g, unit) snmp" where
  "set_power_status_ibmblade run = set_plug_to run CONTROL_OID_ibmblade 1 0"

definition get_outlets_status_ibmblade :: "'d pexpect_run \<Rightarrow> ('d, 'g, outlet list) snmp" where
  "get_outlets_status_ibmblade run = list_blades run STATUSES_OID_ibmblade 1"

definition fns_ibmblade :: "'d pexpect_run \<Rightarrow> ('d, 'g) snmp_world power_fns" where
  "fns_ibmblade run = \<lparr>set_power_fn = Some (set_power_status_ibmblade run),
     get_power_fn = Some (get_power_status_ibmblade run),
     get_outlet_list = Some (get_outlets_status_ibmblade run), reboot_cycle_fn = None, sync_set_power_fn = None\<rparr>"

definition docs_ibmblade :: docs where
  "docs_ibmblade = \<lparr>agent_name = None, shortdesc = ''Fence agent for IBM BladeCenter over SNMP'',
     longdesc = ''fence_ibmblade is a Power Fencing agent which can be used with IBM BladeCenter chassis. It issues SNMP Set request to BladeCenter chassis, rebooting, powering up or down the specified Blade Server.'',
     vendorurl = Some ''http://www.ibm.com'', symlink = []\<rparr>"

definition main_ibmblade where
  "main_ibmblade run set_order time_start fuel =
     seqM (on_lib (set_default ''snmp_version'' (PStr ''1'')))
    (seqM (on_lib (read_options snmp_device_opt False))
          (snmp_operate set_order time_start docs_ibmblade fuel (fns_ibmblade run)))"

section \<open>Intel Modular\<close>

definition STATUSES_OID_intelmodular :: string where
  "STATUSES_OID_intelmodular = ''.1.3.6.1.4.1.343.2.19.1.2.10.202.1.1.6''"

definition get_power_status_intelmodular :: "'d pexpect_run \<Rightarrow> ('d, 'g, string option) snmp" where
  "get_power_status_intelmodular run = plug_status_is run STATUSES_OID_intelmodular 2"

definition set_power_status_intelmodular :: "'d pexpect_run \<Rightarrow> ('d, 'g, unit) snmp" where
  "set_power_status_intelmodular run = set_plug_to run STATUSES_OID_intelmodular 2 3"

definition get_outlets_status_intelmodular :: "'d pexpect_run \<Rightarrow> ('d, 'g, outlet list) snmp" where
  "get_outlets_status_intelmodular run = list_blades run STATUSES_OID_intelmodular 2"

definition fns_intelmodular :: "'d pexpect_run \<Rightarrow> ('d, 'g) snmp_world power_fns" where
  "fns_intelmodular run = \<lparr>set_power_fn = Some (set_power_status_intelmodular run),
     get_power_fn = Some (get_power_status_intelmodular run),
     get_outlet_list = Some (get_outlets_status_intelmodular run), reboot_cycle_fn = None, sync_set_power_fn = None\<rparr>"

definition docs_intelmodular :: docs where
  "docs_intelmodular = \<lparr>agent_name = None, shortdesc = ''Fence agent for Intel Modular'',
     longdesc = ''fence_intelmodular is a Power Fencing agent which can be used with Intel Modular device (tested on Intel MFSYS25, should work with MFSYS35 as well). '' @ nl @ ''.P'' @ nl @
       ''Note: Since firmware update version 2.7, SNMP v2 write support is removed, and replaced by SNMP v3 support. So agent now has default SNMP version 3. If you are using older firmware, please supply -d for command line and snmp_version option for your cluster.conf.'',
     vendorurl = Some ''http://www.intel.com'', symlink = []\<rparr>"

definition main_intelmodular where
  "main_intelmodular run set_order time_start fuel =
     seqM (on_lib (read_options snmp_device_opt False))
          (snmp_operate set_order time_start docs_intelmodular fuel (fns_intelmodular run))"

section \<open>Cisco MDS\<close>

definition PORT_ADMIN_STATUS_OID :: string where
  "PORT_ADMIN_STATUS_OID = ''.1.3.6.1.2.1.75.1.2.2.1.1''"

definition ALIASES_OID :: string where
  "ALIASES_OID = ''.1.3.6.1.2.1.31.1.1.1.18''"

definition PORTS_OID :: string where
  "PORTS_OID = ''.1.3.6.1.2.1.2.2.1.2''"

definition fc_port_re :: re where
  "fc_port_re = Seq (Lit ''fc'') (Seq (Grp 1 (Plus Dig)) (Seq (Lit ''/'') (Seq (Grp 2 (Plus Dig)) Eos)))"

definition cisco_port2oid :: "string \<Rightarrow> ('d, 'g, string) snmp" where
  "cisco_port2oid port0 =
     (let port = py_lower port0 in
      case re_at fc_port_re None port of
        Some st \<Rightarrow>
          bindM (liftM (py_int (PStr (group 1 st)))) (\<lambda>slot.
          bindM (liftM (py_int (PStr (group 2 st)))) (\<lambda>number.
            retM (PORT_ADMIN_STATUS_OID @ ''.'' @ show_int (slot + 21) @ ''.'' @ show_int (number - 1))))
      | None \<Rightarrow> seqM (fail_usage (''Mangled port number: '' @ port) True) (retM []))"

definition get_power_status_cisco :: "'d pexpect_run \<Rightarrow> ('d, string, string option) snmp" where
  \<comment> \<open>the global variable \<open>PORT_OID\<close> is a text\<close>
  "get_power_status_cisco run =
     bindM (getM (\<lambda>s. globals (world s))) (\<lambda>PORT_OID.
     bindM (snmp_value run PORT_OID) (\<lambda>status. retM (Some (on_off (status = ''1'')))))"

definition set_power_status_cisco :: "'d pexpect_run \<Rightarrow> ('d, string, unit) snmp" where
  "set_power_status_cisco run =
     bindM (getM (\<lambda>s. globals (world s))) (\<lambda>PORT_OID.
     bindM (optM ''--action'') (\<lambda>action. snmp_set run PORT_OID (PInt (and_or (action = PStr ''on'') 1 2))))"

definition fc_name_re :: re where
  "fc_name_re = Seq (Lit ''\"fc'') (Seq (Plus Dig) (Seq (Lit ''/'') (Seq (Plus Dig) (Seq (Lit ''\"'') Eos))))"

definition port_alias_in :: "(string \<rightharpoonup> string) \<Rightarrow> string \<Rightarrow> string" where
  "port_alias_in aliases n = (case aliases n of None \<Rightarrow> [] | Some a \<Rightarrow> unquoted a)"

definition get_outlets_status_cisco :: "'d pexpect_run \<Rightarrow> ('d, string, outlet list) snmp" where
  "get_outlets_status_cisco run =
     bindM (snmp_walk run PORTS_OID 30) (\<lambda>res_fc.
     bindM (snmp_walk run ALIASES_OID 30) (\<lambda>alias_rows.
     bindM (array_to_dict alias_rows) (\<lambda>res_aliases.
     foldM (\<lambda>result x.
       bindM (row_value x) (\<lambda>v.
         if re_at fc_name_re None v = None then retM result
         else bindM (row_oid x) (\<lambda>t.
           retM (put_outlet result (unquoted v, port_alias_in res_aliases (last t), Some [])))))
       [] res_fc)))"

definition fns_cisco :: "'d pexpect_run \<Rightarrow> ('d, string) snmp_world power_fns" where
  "fns_cisco run = \<lparr>set_power_fn = Some (set_power_status_cisco run),
     get_power_fn = Some (get_power_status_cisco run),
     get_outlet_list = Some (get_outlets_status_cisco run), reboot_cycle_fn = None, sync_set_power_fn = None\<rparr>"

definition docs_cisco :: docs where
  "docs_cisco = \<lparr>agent_name = None, shortdesc = ''Fence agent for Cisco MDS'',
     longdesc = ''fence_cisco_mds is an I/O Fencing agent which can be used with any Cisco MDS 9000 series with SNMP enabled device.'',
     vendorurl = Some ''http://www.cisco.com'', symlink = []\<rparr>"

definition set_port_oid :: "('d, string, unit) snmp" where
  "set_port_oid = bindM (optM ''--action'') (\<lambda>action.
     if action \<in> {PStr ''list'', PStr ''monitor''} then retM ()
     else bindM (stroptM ''--plug'') (\<lambda>p. bindM (cisco_port2oid p) (\<lambda>oid. snmp_globals (\<lambda>_. oid))))"

definition main_cisco where
  "main_cisco run set_order time_start fuel =
     seqM (on_lib (read_options (''fabric_fencing'' # snmp_device_opt) False))
    (seqM (on_lib (show_docs set_order (Some docs_cisco)))
    (seqM (on_dev set_port_oid)
    (seqM (run_delay time_start 0 0)
          (exit_with (on_dev (fence_action fuel (fns_cisco run)))))))"

end
