(* ===== verification/Snmp_Pdu.thy ===== *)
theory Snmp_Pdu
  imports Snmp_Agents
begin

text \<open>
  The SNMP agents that look up their device model and resolve the plug to an outlet number:
  \<open>agents/apc_snmp/fence_apc_snmp.py\<close>, \<open>agents/ipdu/fence_ipdu.py\<close>,
  \<open>agents/eaton_snmp/fence_eaton_snmp.py\<close> and \<open>agents/ifmib/fence_ifmib.py\<close>. The global
  variables \<open>device\<close>, \<open>port_id\<close>, \<open>switch_id\<close> and \<open>after_set\<close> of the modules are fields of a
  record; a class of constants is a value of type \<open>pdu\<close>.
\<close>

section \<open>Device models and global variables\<close>

record pdu =
  status_oid :: string
  control_oid :: string
  outlet_table_oid :: string
  ident_str :: string
  state_on :: int
  state_off :: int
  turn_on :: int
  turn_off :: int
  has_switches :: bool

record pdu_globals =
  device :: "pdu option"
  port_id :: "int option"
  switch_id :: "int option"
  after_set :: bool          \<comment> \<open>fence\_eaton\_snmp only\<close>

type_synonym ('d, 'a) pdu_prog = "('d, pdu_globals, 'a) snmp"

definition globalM :: "(pdu_globals \<Rightarrow> 'a) \<Rightarrow> ('d, 'a) pdu_prog" where
  "globalM f = getM (\<lambda>s. f (globals (world s)))"

definition OID_SYS_OBJECT_ID :: string where
  "OID_SYS_OBJECT_ID = ''.1.3.6.1.2.1.1.2.0''"

definition set_device :: "'d pexpect_run \<Rightarrow> (string \<rightharpoonup> pdu) \<Rightarrow> pdu option \<Rightarrow> ('d, unit) pdu_prog" where
  \<comment> \<open>the model found under the system OID, else the entry of the dictionary under None\<close>
  "set_device run agents_dir fallback =
     bindM (snmp_walk run OID_SYS_OBJECT_ID 0) (\<lambda>rows.
     bindM (case rows of
         [x] \<Rightarrow> bindM (row_value x) (\<lambda>v. retM (agents_dir v))
       | _ \<Rightarrow> retM None) (\<lambda>found.
       case (case found of None \<Rightarrow> fallback | Some m \<Rightarrow> Some m) of
         None \<Rightarrow> raiseM (KeyError ''None'')
       | Some m \<Rightarrow> snmp_globals (\<lambda>g. g\<lparr>device := Some m\<rparr>)))"

definition the_device :: "('d, pdu) pdu_prog" where
  \<comment> \<open>an attribute of \<open>device\<close>\<close>
  "the_device = bindM (globalM device) (\<lambda>d. case d of
      None \<Rightarrow> raiseM (AttributeError ''NoneType'')
    | Some m \<Rightarrow> retM m)"

definition third_last :: "string list \<Rightarrow> ('d, string) pdu_prog" where
  \<comment> \<open>\<open>t[len(t)-3]\<close>; a negative index counts from the end\<close>
  "third_last t = (if length t \<ge> 3 then retM (t ! (length t - 3))
     else if length t = 2 then retM (t ! 1) else raiseM (IndexError ''list index out of range''))"

definition int_of :: "string \<Rightarrow> ('d, int) pdu_prog" where
  "int_of t = liftM (py_int (PStr t))"

definition outlet_oid :: "(pdu \<Rightarrow> string) \<Rightarrow> pdu \<Rightarrow> ('d, string) pdu_prog" where
  \<comment> \<open>\<open>device.has_switches and oid % (switch_id, port_id) or oid % port_id\<close>\<close>
  "outlet_oid oid m =
     bindM (globalM (\<lambda>g. (switch_id g, port_id g))) (\<lambda>(sw, port). case port of
         None \<Rightarrow> raiseM (TypeError ''%d format'')
       | Some p \<Rightarrow>
           if has_switches m then
             (case sw of
                None \<Rightarrow> raiseM (TypeError ''%d format'')
              | Some w \<Rightarrow> retM (format_d (oid m) [w, p]))
           else retM (format_d (oid m) [p]))"

section \<open>Resolving the outlet (fence\_apc\_snmp, fence\_ipdu)\<close>

definition match_row :: "pdu \<Rightarrow> string \<Rightarrow> string list \<Rightarrow> ('d, unit) pdu_prog" where
  "match_row m plug x = bindM (row_value x) (\<lambda>v.
     if unquoted v \<noteq> plug then retM ()
     else bindM (row_oid x) (\<lambda>t.
          bindM (int_of (last t)) (\<lambda>port.
          seqM (snmp_globals (\<lambda>g. g\<lparr>port_id := Some port\<rparr>))
            (if has_switches m
             then bindM (third_last t) (\<lambda>w. bindM (int_of w) (\<lambda>sw. snmp_globals (\<lambda>g. g\<lparr>switch_id := Some sw\<rparr>)))
             else retM ()))))"

definition numbered_outlet :: "pdu \<Rightarrow> string \<Rightarrow> ('d, bool) pdu_prog" where
  \<comment> \<open>\<open>options["--plug"].isdigit() and (not device.has_switches or options["--switch"].isdigit())\<close>\<close>
  "numbered_outlet m plug =
     (if \<not> py_isdigit plug then retM False
      else if \<not> has_switches m then retM True
      else bindM (optM ''--switch'') (\<lambda>v. case v of
          PStr t \<Rightarrow> retM (py_isdigit t)
        | _ \<Rightarrow> raiseM (AttributeError ''isdigit'')))"

definition resolv_port_id :: "'d pexpect_run \<Rightarrow> ('d, unit) pdu_prog \<Rightarrow> ('d, unit) pdu_prog" where
  "resolv_port_id run find_device =
     bindM (globalM device) (\<lambda>d.
     seqM (if d = None then find_device else retM ())
    (bindM the_device (\<lambda>m.
     bindM (stroptM ''--plug'') (\<lambda>plug.
     bindM (numbered_outlet m plug) (\<lambda>numbered.
     seqM (if numbered then
             bindM (int_of plug) (\<lambda>port.
             seqM (snmp_globals (\<lambda>g. g\<lparr>port_id := Some port\<rparr>))
               (if has_switches m
                then bindM (intoptM ''--switch'') (\<lambda>sw. snmp_globals (\<lambda>g. g\<lparr>switch_id := Some sw\<rparr>))
                else retM ()))
           else bindM (snmp_walk run (outlet_table_oid m) 30) (\<lambda>table. forM table (match_row m plug)))
    (bindM (globalM port_id) (\<lambda>port.
       if port = None then fail_usage (''Can'' @ [CHR 0x27] @ ''t find port with name '' @ plug @ ''!'') True
       else retM ())))))))"

definition pdu_get_power_status ::
  "'d pexpect_run \<Rightarrow> ('d, unit) pdu_prog \<Rightarrow> ('d, string option) pdu_prog" where
  \<comment> \<open>\<open>get_power_status\<close> of fence\_apc\_snmp and of fence\_ipdu\<close>
  "pdu_get_power_status run resolve =
     bindM (globalM port_id) (\<lambda>port.
     seqM (if port = None then resolve else retM ())
    (bindM the_device (\<lambda>m.
     bindM (outlet_oid status_oid m) (\<lambda>oid.
     bindM (snmp_value run oid) (\<lambda>status.
       retM (Some (on_off (status = show_int (state_on m)))))))))"

definition pdu_set_power_status :: "'d pexpect_run \<Rightarrow> ('d, unit) pdu_prog \<Rightarrow> ('d, unit) pdu_prog" where
  "pdu_set_power_status run resolve =
     bindM (globalM port_id) (\<lambda>port.
     seqM (if port = None then resolve else retM ())
    (bindM the_device (\<lambda>m.
     bindM (outlet_oid control_oid m) (\<lambda>oid.
     bindM (optM ''--action'') (\<lambda>action.
       snmp_set run oid (PInt (and_or (action = PStr ''on'') (turn_on m) (turn_off m))))))))"

definition pdu_get_outlets_status :: "'d pexpect_run \<Rightarrow> ('d, unit) pdu_prog \<Rightarrow> ('d, outlet list) pdu_prog" where
  "pdu_get_outlets_status run find_device =
     bindM (globalM device) (\<lambda>d.
     seqM (if d = None then find_device else retM ())
    (bindM the_device (\<lambda>m.
     bindM (snmp_walk run (outlet_table_oid m) 30) (\<lambda>res_ports.
     foldM (\<lambda>result x.
       bindM (row_oid x) (\<lambda>t.
       bindM (if has_switches m then bindM (third_last t) (\<lambda>w. retM (w @ '':'' @ last t)) else retM (last t)) (\<lambda>port_num.
       bindM (row_value x) (\<lambda>v. retM (put_outlet result (port_num, unquoted v, Some []))))))
       [] res_ports))))"

section \<open>APC and Tripplite\<close>

definition TripplitePDU :: pdu where
  "TripplitePDU = \<lparr>status_oid = ''.1.3.6.1.4.1.850.10.2.3.5.1.2.1.%d'',
     control_oid = ''.1.3.6.1.4.1.850.10.2.3.5.1.4.1.%d'', outlet_table_oid = ''.1.3.6.1.4.1.850.10.2.3.5.1.5'',
     ident_str = ''Tripplite'', state_on = 2, state_off = 1, turn_on = 2, turn_off = 1, has_switches = False\<rparr>"

definition TrippliteLXPDU :: pdu where
  "TrippliteLXPDU = \<lparr>status_oid = ''.1.3.6.1.4.1.850.1.1.3.2.3.3.1.1.4.1.%d'',
     control_oid = ''.1.3.6.1.4.1.850.1.1.3.2.3.3.1.1.6.1.%d'',
     outlet_table_oid = ''.1.3.6.1.4.1.850.1.1.3.2.3.3.1.1.2.1'',
     ident_str = ''Tripplite LX'', state_on = 2, state_off = 1, turn_on = 2, turn_off = 1, has_switches = False\<rparr>"

definition ApcRPDU :: pdu where
  "ApcRPDU = \<lparr>status_oid = ''.1.3.6.1.4.1.318.1.1.12.3.5.1.1.4.%d'',
     control_oid = ''.1.3.6.1.4.1.318.1.1.12.3.3.1.1.4.%d'', outlet_table_oid = ''.1.3.6.1.4.1.318.1.1.12.3.5.1.1.2'',
     ident_str = ''APC rPDU'', state_on = 1, state_off = 2, turn_on = 1, turn_off = 2, has_switches = False\<rparr>"

definition ApcMSP :: pdu where
  "ApcMSP = \<lparr>status_oid = ''.1.3.6.1.4.1.318.1.1.6.7.1.1.5.%d.1.%d'',
     control_oid = ''.1.3.6.1.4.1.318.1.1.6.5.1.1.5.%d.1.%d'', outlet_table_oid = ''.1.3.6.1.4.1.318.1.1.6.7.1.1.4'',
     ident_str = ''APC Master Switch+'', state_on = 1, state_off = 2, turn_on = 1, turn_off = 3, has_switches = True\<rparr>"

definition ApcMS :: pdu where
  "ApcMS = \<lparr>status_oid = ''.1.3.6.1.4.1.318.1.1.4.4.2.1.3.%d'',
     control_oid = ''.1.3.6.1.4.1.318.1.1.4.4.2.1.3.%d'', outlet_table_oid = ''.1.3.6.1.4.1.318.1.1.4.4.2.1.4'',
     ident_str = ''APC Master Switch (fallback)'', state_on = 1, state_off = 2, turn_on = 1, turn_off = 2,
     has_switches = False\<rparr>"

definition ApcMS6 :: pdu where
  "ApcMS6 = \<lparr>status_oid = ''.1.3.6.1.4.1.318.1.1.4.4.2.1.3.%d'',
     control_oid = ''.1.3.6.1.4.1.318.1.1.12.3.3.1.1.4.%d'', outlet_table_oid = ''1.3.6.1.4.1.318.1.1.4.4.2.1.4'',
     ident_str = ''APC Master Switch with firmware v6.x'', state_on = 1, state_off = 2, turn_on = 1, turn_off = 2,
     has_switches = False\<rparr>"

definition apc_agents_dir :: "string \<rightharpoonup> pdu" where
  "apc_agents_dir = map_of
    [(''.1.3.6.1.4.1.318.1.3.4.5'', ApcRPDU), (''.1.3.6.1.4.1.318.1.3.4.4'', ApcMSP),
     (''.1.3.6.1.4.1.850.1'', TripplitePDU), (''.1.3.6.1.4.1.850.1.1.1'', TrippliteLXPDU),
     (''.1.3.6.1.4.1.318.1.3.4.6'', ApcMS6)]"

definition apc_set_device :: "'d pexpect_run \<Rightarrow> ('d, unit) pdu_prog" where
  "apc_set_device run = set_device run apc_agents_dir (Some ApcMS)"

definition apc_resolv_port_id :: "'d pexpect_run \<Rightarrow> ('d, unit) pdu_prog" where
  "apc_resolv_port_id run = resolv_port_id run (apc_set_device run)"

definition get_power_status_apc :: "'d pexpect_run \<Rightarrow> ('d, string option) pdu_prog" where
  "get_power_status_apc run = pdu_get_power_status run (apc_resolv_port_id run)"

definition set_power_status_apc :: "'d pexpect_run \<Rightarrow> ('d, unit) pdu_prog" where
  "set_power_status_apc run = pdu_set_power_status run (apc_resolv_port_id run)"

definition get_outlets_status_apc :: "'d pexpect_run \<Rightarrow> ('d, outlet list) pdu_prog" where
  "get_outlets_status_apc run = pdu_get_outlets_status run (apc_set_device run)"

definition fns_apc :: "'d pexpect_run \<Rightarrow> ('d, pdu_globals) snmp_world power_fns" where
  "fns_apc run = \<lparr>set_power_fn = Some (set_power_status_apc run), get_power_fn = Some (get_power_status_apc run),
     get_outlet_list = Some (get_outlets_status_apc run), reboot_cycle_fn = None, sync_set_power_fn = None\<rparr>"

definition split_switch :: "('w, unit) prog" where
  \<comment> \<open>the notation switch:plug, and the default of the switch\<close>
  "split_switch =
     bindM (getM opts) (\<lambda>od.
     seqM (case od ''--plug'' of
         Some (PStr p) \<Rightarrow>
           if py_find '':'' p = None then retM ()
           else (let (sw, plug) = py_split1 '':'' p in
             if py_isdigit sw \<and> py_isdigit plug
             then seqM (setoptM ''--switch'' (PStr sw)) (setoptM ''--plug'' (PStr plug)) else retM ())
       | Some _ \<Rightarrow> raiseM (AttributeError ''find'')
       | None \<Rightarrow> retM ())
    (bindM (hasoptM ''--switch'') (\<lambda>present. if present then retM () else setoptM ''--switch'' (PStr ''1''))))"

definition docs_apc :: "string \<Rightarrow> docs" where
  \<comment> \<open>with the file name of the agent\<close>
  "docs_apc file = \<lparr>agent_name = Some ''fence_apc_snmp'', shortdesc = ''Fence agent for APC, Tripplite PDU over SNMP'',
     longdesc = basename file @ '' is a Power Fencing agent which can be used with the APC network power switch or Tripplite PDU devices.It logs into a device via SNMP and reboots a specified outlet. It supports SNMP v1, v2c, v3 with all combinations of  authenticity/privacy settings.'',
     vendorurl = Some ''http://www.apc.com'',
     symlink = [(''fence_tripplite_snmp'', ''Fence agent for Tripplife over SNMP'')]\<rparr>"

definition main_apc where
  "main_apc run set_order file time_start fuel =
     seqM (on_lib (set_default ''snmp_version'' (PStr ''1'')))
    (seqM (on_lib (set_default ''community'' (PStr ''private'')))
    (seqM (on_lib (read_options snmp_device_opt False))
    (seqM split_switch
          (snmp_operate set_order time_start (docs_apc file) fuel (fns_apc run)))))"

section \<open>IBM iPDU\<close>

definition IBMiPDU :: pdu where
  "IBMiPDU = \<lparr>status_oid = ''.1.3.6.1.4.1.2.6.223.8.2.2.1.11.%d'',
     control_oid = ''.1.3.6.1.4.1.2.6.223.8.2.2.1.11.%d'', outlet_table_oid = ''.1.3.6.1.4.1.2.6.223.8.2.2.1.2'',
     ident_str = ''IBM iPDU'', state_on = 1, state_off = 0, turn_on = 1, turn_off = 0, has_switches = False\<rparr>"

definition ipdu_set_device :: "'d pexpect_run \<Rightarrow> ('d, unit) pdu_prog" where
  "ipdu_set_device run = set_device run [''.1.3.6.1.4.1.2.6.223'' \<mapsto> IBMiPDU] (Some IBMiPDU)"

definition ipdu_resolv_port_id :: "'d pexpect_run \<Rightarrow> ('d, unit) pdu_prog" where
  "ipdu_resolv_port_id run = resolv_port_id run (ipdu_set_device run)"

definition get_power_status_ipdu :: "'d pexpect_run \<Rightarrow> ('d, string option) pdu_prog" where
  "get_power_status_ipdu run = pdu_get_power_status run (ipdu_resolv_port_id run)"

definition set_power_status_ipdu :: "'d pexpect_run \<Rightarrow> ('d, unit) pdu_prog" where
  "set_power_status_ipdu run = pdu_set_power_status run (ipdu_resolv_port_id run)"

definition get_outlets_status_ipdu :: "'d pexpect_run \<Rightarrow> ('d, outlet list) pdu_prog" where
  "get_outlets_status_ipdu run = pdu_get_outlets_status run (ipdu_set_device run)"

definition fns_ipdu :: "'d pexpect_run \<Rightarrow> ('d, pdu_globals) snmp_world power_fns" where
  "fns_ipdu run = \<lparr>set_power_fn = Some (set_power_status_ipdu run), get_power_fn = Some (get_power_status_ipdu run),
     get_outlet_list = Some (get_outlets_status_ipdu run), reboot_cycle_fn = None, sync_set_power_fn = None\<rparr>"

definition docs_ipdu :: docs where
  "docs_ipdu = \<lparr>agent_name = None, shortdesc = ''Fence agent for iPDU over SNMP'',
     longdesc = ''fence_ipdu is a Power Fencing agent which can be used with the IBM iPDU network power switch. It logs into a device via SNMP and reboots a specified outlet. It supports SNMP v3 with all combinations of authenticity/privacy settings.'',
     vendorurl = Some ''http://www.ibm.com'', symlink = []\<rparr>"

definition main_ipdu where
  "main_ipdu run set_order time_start fuel =
     seqM (on_lib (set_default ''snmp_version'' (PStr ''3'')))
    (seqM (on_lib (set_default ''community'' (PStr ''private'')))
    (seqM (on_lib (set_default ''switch'' (PStr ''1'')))
    (seqM (on_dev (snmp_globals (\<lambda>g. g\<lparr>device := Some IBMiPDU\<rparr>)))
    (seqM (on_lib (read_options snmp_device_opt False))
          (snmp_operate set_order time_start docs_ipdu fuel (fns_ipdu run))))))"

section \<open>Eaton\<close>

definition EatonManagedePDU :: pdu where
  "EatonManagedePDU = \<lparr>status_oid = ''.1.3.6.1.4.1.534.6.6.6.1.2.2.1.3.%d'',
     control_oid = ''.1.3.6.1.4.1.534.6.6.6.1.2.2.1.3.%d'', outlet_table_oid = ''.1.3.6.1.4.1.534.6.6.6.1.2.2.1.1'',
     ident_str = ''Eaton Managed ePDU'', state_on = 1, state_off = 0, turn_on = 1, turn_off = 0, has_switches = False\<rparr>"

definition EatonSwitchedePDU :: pdu where
  "EatonSwitchedePDU = \<lparr>status_oid = ''.1.3.6.1.4.1.20677.2.6.3.%d.0'',
     control_oid = ''.1.3.6.1.4.1.20677.2.6.2.%d.0'', outlet_table_oid = ''.1.3.6.1.4.1.20677.2.6.3'',
     ident_str = ''Eaton Switched ePDU'', state_on = 1, state_off = 2, turn_on = 1, turn_off = 2, has_switches = False\<rparr>"

definition is_switched :: "pdu \<Rightarrow> bool" where
  "is_switched m \<longleftrightarrow> ident_str m = ''Eaton Switched ePDU''"

definition eaton_set_device :: "'d pexpect_run \<Rightarrow> ('d, unit) pdu_prog" where
  "eaton_set_device run = set_device run
     (map_of [(''.1.3.6.1.4.1.534.6.6.6'', EatonManagedePDU), (''.1.3.6.1.4.1.20677.1'', EatonSwitchedePDU),
              (''.1.3.6.1.4.1.20677.2'', EatonSwitchedePDU)]) None"

definition shift_plug :: "('d, unit) pdu_prog" where
  \<comment> \<open>\<open>options["--plug"] = str(int(options["--plug"]) + 1)\<close>\<close>
  "shift_plug = bindM (intoptM ''--plug'') (\<lambda>n. setoptM ''--plug'' (PStr (show_int (n + 1))))"

definition eaton_match_row :: "pdu \<Rightarrow> string \<Rightarrow> string list \<Rightarrow> ('d, unit) pdu_prog" where
  "eaton_match_row m plug x = bindM (row_value x) (\<lambda>v.
     if unquoted v \<noteq> plug then retM ()
     else bindM (row_oid x) (\<lambda>t.
       if has_switches m then
         bindM (int_of (last t)) (\<lambda>port.
         seqM (snmp_globals (\<lambda>g. g\<lparr>port_id := Some port\<rparr>))
              (bindM (third_last t) (\<lambda>w. bindM (int_of w) (\<lambda>sw. snmp_globals (\<lambda>g. g\<lparr>switch_id := Some sw\<rparr>)))))
       else bindM (if is_switched m then third_last t else retM (last t)) (\<lambda>w.
            bindM (int_of w) (\<lambda>port. snmp_globals (\<lambda>g. g\<lparr>port_id := Some port\<rparr>)))))"

definition eaton_resolv_port_id :: "'d pexpect_run \<Rightarrow> ('d, unit) pdu_prog" where
  "eaton_resolv_port_id run =
     bindM (globalM device) (\<lambda>d.
     seqM (if d = None then eaton_set_device run else retM ())
    (bindM the_device (\<lambda>m.
     seqM (if is_switched m then shift_plug else retM ())
    (bindM (stroptM ''--plug'') (\<lambda>plug.
     bindM (numbered_outlet m plug) (\<lambda>numbered.
     seqM (if numbered then
             bindM (int_of plug) (\<lambda>port.
             seqM (snmp_globals (\<lambda>g. g\<lparr>port_id := Some port\<rparr>))
               (if has_switches m
                then bindM (intoptM ''--switch'') (\<lambda>sw. snmp_globals (\<lambda>g. g\<lparr>switch_id := Some sw\<rparr>))
                else retM ()))
           else bindM (snmp_walk run (outlet_table_oid m) 30) (\<lambda>table. forM table (eaton_match_row m plug)))
    (bindM (globalM port_id) (\<lambda>port.
       if port = None then
         seqM (if \<not> is_switched m then shift_plug else retM ())
        (bindM (shown_optM ''--plug'') (\<lambda>p.
           fail_usage (''Can'' @ [CHR 0x27] @ ''t find port with name '' @ p @ ''!'') True))
       else retM ()))))))))"

definition get_power_status_eaton :: "'d pexpect_run \<Rightarrow> ('d, string option) pdu_prog" where
  "get_power_status_eaton run =
     bindM (globalM port_id) (\<lambda>port.
     seqM (if port = None then eaton_resolv_port_id run else retM ())
    (bindM (globalM after_set) (\<lambda>after.
     bindM the_device (\<lambda>m.
     seqM (if after \<and> is_switched m
           then snmp_globals (\<lambda>g. g\<lparr>port_id := map_option (\<lambda>n. n - 1) (port_id g), after_set := False\<rparr>) else retM ())
    (bindM (outlet_oid status_oid m) (\<lambda>oid.
       tryM (bindM (snmp_value run oid) (\<lambda>status.
               retM (if status = show_int (state_on m) then Some ''on''
                     else if status = show_int (state_off m) then Some ''off'' else None)))
            (\<lambda>_. Some (retM None))))))))"

definition set_power_status_eaton :: "'d pexpect_run \<Rightarrow> ('d, unit) pdu_prog" where
  "set_power_status_eaton run =
     seqM (snmp_globals (\<lambda>g. g\<lparr>after_set := True\<rparr>))
    (bindM (globalM port_id) (\<lambda>port.
     seqM (if port = None then eaton_resolv_port_id run else retM ())
    (bindM the_device (\<lambda>m.
     seqM (if is_switched m then snmp_globals (\<lambda>g. g\<lparr>port_id := map_option (\<lambda>n. n + 1) (port_id g)\<rparr>) else retM ())
    (bindM (outlet_oid control_oid m) (\<lambda>oid.
     bindM (optM ''--action'') (\<lambda>action.
       snmp_set run oid (PInt (and_or (action = PStr ''on'') (turn_on m) (turn_off m))))))))))"

definition eaton_outlet :: "pdu \<Rightarrow> int \<times> outlet list \<Rightarrow> string list \<Rightarrow> ('d, int \<times> outlet list) pdu_prog" where
  "eaton_outlet m acc x = (case acc of (count, result) \<Rightarrow>
     bindM (row_value x) (\<lambda>status.
     bindM (row_oid x) (\<lambda>t.
       if ident_str m = ''Eaton Managed ePDU'' then
         bindM (if has_switches m then bindM (third_last t) (\<lambda>w. retM (w @ '':'' @ last t)) else retM (last t)) (\<lambda>num.
         bindM (int_of num) (\<lambda>n.
         bindM (int_of (unquoted status)) (\<lambda>name.
           retM (count + 1, put_outlet result (show_int (n + 1), show_int (name + 1), Some [])))))
       else retM (count + 1, if status \<noteq> ''0''
              then put_outlet result (show_int (count + 1), show_int (count + 1), Some []) else result))))"

definition get_outlets_status_eaton :: "'d pexpect_run \<Rightarrow> ('d, outlet list) pdu_prog" where
  "get_outlets_status_eaton run =
     bindM (globalM device) (\<lambda>d.
     seqM (if d = None then eaton_set_device run else retM ())
    (bindM the_device (\<lambda>m.
     bindM (snmp_walk run (outlet_table_oid m) 30) (\<lambda>res_ports.
     bindM (foldM (eaton_outlet m) (0, []) res_ports) (\<lambda>(_, result). retM result)))))"

definition fns_eaton :: "'d pexpect_run \<Rightarrow> ('d, pdu_globals) snmp_world power_fns" where
  "fns_eaton run = \<lparr>set_power_fn = Some (set_power_status_eaton run), get_power_fn = Some (get_power_status_eaton run),
     get_outlet_list = Some (get_outlets_status_eaton run), reboot_cycle_fn = None, sync_set_power_fn = None\<rparr>"

definition unshift_plug :: "('w, unit) prog" where
  "unshift_plug = bindM (getM opts) (\<lambda>od. case od ''--plug'' of
      None \<Rightarrow> retM ()
    | Some (PStr p) \<Rightarrow> if py_isdigit p
        then bindM (liftM (py_int (PStr p))) (\<lambda>n. setoptM ''--plug'' (PStr (show_int (n - 1)))) else retM ()
    | Some _ \<Rightarrow> raiseM (AttributeError ''isdigit''))"

definition docs_eaton :: docs where
  "docs_eaton = \<lparr>agent_name = None, shortdesc = ''Fence agent for Eaton over SNMP'',
     longdesc = ''fence_eaton_snmp is a Power Fencing agent which can be used with the Eaton network power switch. It logs into a device via SNMP and reboots a specified outlet. It supports SNMP v1 and v3 with all combinations of  authenticity/privacy settings.'',
     vendorurl = Some ''http://powerquality.eaton.com'', symlink = []\<rparr>"

definition main_eaton where
  "main_eaton run set_order time_start fuel =
     seqM (on_lib (set_default ''switch'' (PInt 1)))
    (seqM (on_lib (set_default ''power_wait'' (PInt 2)))
    (seqM (on_lib (set_default ''snmp_version'' (PStr ''1'')))
    (seqM (on_lib (set_default ''community'' (PStr ''private'')))
    (seqM (on_lib (read_options snmp_device_opt False))
    (seqM unshift_plug
          (snmp_operate set_order time_start docs_eaton fuel (fns_eaton run)))))))"

section \<open>IF-MIB\<close>

definition STATUSES_OID_ifmib :: string where
  "STATUSES_OID_ifmib = ''.1.3.6.1.2.1.2.2.1.7''"

fun find_port :: "string \<Rightarrow> string list list \<Rightarrow> ('d, 'g, int option) snmp" where
  "find_port port [] = retM None"
| "find_port port (x # xs) = bindM (row_value x) (\<lambda>v.
     if unquoted v = port then bindM (row_oid x) (\<lambda>t. bindM (liftM (py_int (PStr (last t)))) (\<lambda>n. retM (Some n)))
     else find_port port xs)"

definition port2index :: "'d pexpect_run \<Rightarrow> string \<Rightarrow> ('d, 'g, int) snmp" where
  "port2index run port =
     bindM (if py_isdigit port then bindM (liftM (py_int (PStr port))) (\<lambda>n. retM (Some n))
            else bindM (snmp_walk run PORTS_OID 30) (find_port port)) (\<lambda>res. case res of
       None \<Rightarrow> seqM (fail_usage (''Can'' @ [CHR 0x27] @ ''t find port with name '' @ port @ ''!'') True) (retM 0)
     | Some n \<Rightarrow> retM n)"

definition port_num :: "'d pexpect_run \<Rightarrow> ('d, int option, int) snmp" where
  \<comment> \<open>the global variable \<open>port_num\<close>, resolved when it is first needed\<close>
  "port_num run = bindM (getM (\<lambda>s. globals (world s))) (\<lambda>g. case g of
      Some n \<Rightarrow> retM n
    | None \<Rightarrow> bindM (stroptM ''--plug'') (\<lambda>p.
        bindM (port2index run p) (\<lambda>n. seqM (snmp_globals (\<lambda>_. Some n)) (retM n))))"

definition get_power_status_ifmib :: "'d pexpect_run \<Rightarrow> ('d, int option, string option) snmp" where
  "get_power_status_ifmib run =
     bindM (port_num run) (\<lambda>n.
     bindM (snmp_value run (STATUSES_OID_ifmib @ ''.'' @ show_int n)) (\<lambda>status.
       retM (Some (on_off (status = show_int 1)))))"

definition set_power_status_ifmib :: "'d pexpect_run \<Rightarrow> ('d, int option, unit) snmp" where
  "set_power_status_ifmib run =
     bindM (port_num run) (\<lambda>n.
     bindM (optM ''--action'') (\<lambda>action.
       snmp_set run (STATUSES_OID_ifmib @ ''.'' @ show_int n) (PInt (and_or (action = PStr ''on'') 1 2))))"

definition get_outlets_status_ifmib :: "'d pexpect_run \<Rightarrow> ('d, int option, outlet list) snmp" where
  "get_outlets_status_ifmib run =
     bindM (snmp_walk run PORTS_OID 30) (\<lambda>res_fc.
     bindM (snmp_walk run ALIASES_OID 30) (\<lambda>alias_rows.
     bindM (array_to_dict alias_rows) (\<lambda>res_aliases.
     foldM (\<lambda>result x.
       bindM (row_oid x) (\<lambda>t.
       bindM (row_value x) (\<lambda>v.
         retM (put_outlet result (unquoted v, port_alias_in res_aliases (last t), Some [])))))
       [] res_fc)))"

definition fns_ifmib :: "'d pexpect_run \<Rightarrow> ('d, int option) snmp_world power_fns" where
  "fns_ifmib run = \<lparr>set_power_fn = Some (set_power_status_ifmib run), get_power_fn = Some (get_power_status_ifmib run),
     get_outlet_list = Some (get_outlets_status_ifmib run), reboot_cycle_fn = None, sync_set_power_fn = None\<rparr>"

definition docs_ifmib :: docs where
  "docs_ifmib = \<lparr>agent_name = None, shortdesc = ''Fence agent for IF MIB'',
     longdesc = ''fence_ifmib is an I/O Fencing agent which can be used with any SNMP IF-MIB capable device. '' @ nl @ ''.P'' @ nl @
       ''It was written with managed ethernet switches in mind, in order to fence iSCSI SAN connections. However, there are many devices that support the IF-MIB interface. The agent uses IF-MIB::ifAdminStatus to control the state of an interface.'',
     vendorurl = Some ''http://www.ietf.org/wg/concluded/ifmib.html'', symlink = []\<rparr>"

definition main_ifmib where
  "main_ifmib run set_order time_start fuel =
     seqM (on_lib (set_default ''snmp_version'' (PStr ''2c'')))
    (seqM (on_lib (read_options (''fabric_fencing'' # snmp_device_opt) False))
          (snmp_operate set_order time_start docs_ifmib fuel (fns_ifmib run)))"

end
