(* ===== verification/Run_Command.thy ===== *)
theory Run_Command
  imports Multi_Power
begin

text \<open>
  \<open>lib/fencing.py.py\<close>: \<open>run_command\<close>, with \<open>shlex.split\<close>. What a program does when it is
  started is a parameter: \<open>spawn argv\<close> is a program of the model that may change the world and
  says how the process went.
\<close>

section \<open>\<open>shlex.split\<close>\<close>

text \<open>
  The state machine of \<open>shlex\<close> in POSIX mode with white space splitting: between words, in a
  word, in quotes, after a backslash (in a word, or in double quotes). The word read so far is
  kept with a flag that it had quotes, so that an empty quoted word is a word.
\<close>

datatype sh_state = Between | InWord | InQuote char | Escaped "char option"

definition sh_space :: "char \<Rightarrow> bool" where
  "sh_space c \<longleftrightarrow> c \<in> {CHR '' '', CHR 0x09, CHR 0x0D, CHR 0x0A}"

abbreviation squote :: char where "squote \<equiv> CHR 0x27"
abbreviation dquote :: char where "dquote \<equiv> CHR 0x22"
abbreviation bslash :: char where "bslash \<equiv> CHR 0x5C"

fun shlex :: "sh_state \<Rightarrow> string \<Rightarrow> bool \<Rightarrow> string \<Rightarrow> string list outcome" where
  "shlex Between w q [] = Ret []"
| "shlex InWord w q [] = Ret (if w \<noteq> [] \<or> q then [w] else [])"
| "shlex (InQuote d) w q [] = Raise (ValueError ''No closing quotation'')"
| "shlex (Escaped d) w q [] = Raise (ValueError ''No escaped character'')"
| "shlex Between w q (c # cs) =
     (if sh_space c then shlex Between [] False cs
      else if c = bslash then shlex (Escaped None) [] False cs
      else if c = squote \<or> c = dquote then shlex (InQuote c) [] False cs
      else shlex InWord [c] False cs)"
| "shlex InWord w q (c # cs) =
     (if sh_space c then
        (if w \<noteq> [] \<or> q then (case shlex Between [] False cs of
            Ret ws \<Rightarrow> Ret (w # ws)
          | r \<Rightarrow> r)
         else shlex Between [] False cs)
      else if c = squote \<or> c = dquote then shlex (InQuote c) w q cs
      else if c = bslash then shlex (Escaped None) w q cs
      else shlex InWord (w @ [c]) q cs)"
| "shlex (InQuote d) w q (c # cs) =
     (if c = d then shlex InWord w True cs
      else if c = bslash \<and> d = dquote then shlex (Escaped (Some d)) w True cs
      else shlex (InQuote d) (w @ [c]) True cs)"
| "shlex (Escaped d) w q (c # cs) = (case d of
      None \<Rightarrow> shlex InWord (w @ [c]) q cs
    | Some dq \<Rightarrow> shlex (InQuote dq) (w @ (if c \<noteq> bslash \<and> c \<noteq> dq then [bslash, c] else [c])) q cs)"

definition shlex_split :: "string \<Rightarrow> string list outcome" where
  "shlex_split s = shlex Between [] False s"

section \<open>Running a command\<close>

record proc =
  takes :: "rat option"      \<comment> \<open>seconds until it ends; None if it never does\<close>
  exit_code :: int
  stdout :: string
  stderr :: string
  cut_out :: string          \<comment> \<open>what it had written when it was killed\<close>
  cut_err :: string

definition timeout_opt :: "pydict \<Rightarrow> rat option outcome" where
  \<comment> \<open>the timeout from \<open>--power-timeout\<close>; 0 stands for none\<close>
  "timeout_opt od = (case od ''--power-timeout'' of
      None \<Rightarrow> Ret None
    | Some v \<Rightarrow> (case py_float_val v of
        Ret t \<Rightarrow> Ret (if t = 0 then None else Some (max t 0))
      | Raise e \<Rightarrow> Raise e
      | _ \<Rightarrow> Ret None))"

definition passM :: "rat \<Rightarrow> ('w, unit) prog" where
  \<comment> \<open>time that passes while the agent waits\<close>
  "passM d = modM (\<lambda>s. s\<lparr>clock := clock s + d\<rparr>)"

definition killed :: "rat \<Rightarrow> proc \<Rightarrow> ('w, int \<times> string \<times> string) prog" where
  \<comment> \<open>the timeout \<open>t\<close> is over: kill the process and fail, unless retries are configured\<close>
  "killed t p =
     seqM (passM t)
    (bindM (getM opts) (\<lambda>od.
     bindM (liftM (case od ''retry'' of None \<Rightarrow> Ret 0 | Some v \<Rightarrow> py_int v)) (\<lambda>retry.
     seqM (fail EC_TIMED_OUT (retry < 1)) (retM (-9, cut_out p, cut_err p)))))"

definition await :: "rat option \<Rightarrow> proc \<Rightarrow> ('w, int \<times> string \<times> string) prog" where
  "await limit p = (case takes p of
      None \<Rightarrow> (case limit of None \<Rightarrow> runningM | Some t \<Rightarrow> killed t p)
    | Some d \<Rightarrow>
        (case limit of
           None \<Rightarrow> seqM (passM d) (retM (exit_code p, stdout p, stderr p))
         | Some t \<Rightarrow> if d \<le> t then seqM (passM d) (retM (exit_code p, stdout p, stderr p)) else killed t p))"

definition run_command ::
  "(string list \<Rightarrow> ('w, proc option) prog) \<Rightarrow> string \<Rightarrow> ('w, int \<times> string \<times> string) prog" where
  "run_command spawn command =
     bindM (getM opts) (\<lambda>od.
     bindM (liftM (timeout_opt od)) (\<lambda>limit.
     bindM (liftM (shlex_split command)) (\<lambda>args.
     bindM (spawn args) (\<lambda>r. case r of
         None \<Rightarrow> seqM (fail_usage (''Unable to run '' @ command @ nl) True) (raiseM (OSErr command))
       | Some p \<Rightarrow> await limit p))))"

text \<open>
  Most agents run programs of which the model knows nothing but what they do to the part of the
  world they work on: \<open>'d tools\<close> gives, for the words of a command and the state of that part,
  the process (None if it cannot be started) and the next state.
\<close>

type_synonym 'd tools = "string list \<Rightarrow> 'd \<Rightarrow> proc option \<times> 'd"

definition start :: "'d tools \<Rightarrow> string list \<Rightarrow> ('d, proc option) prog" where
  "start tool args s = (case tool args (world s) of (r, d) \<Rightarrow> (Ret r, s\<lparr>world := d\<rparr>))"

lemma start_Ret [ret_iff]:
  "start tool args s = (Ret r, s') \<longleftrightarrow> (\<exists>d. tool args (world s) = (r, d) \<and> s' = s\<lparr>world := d\<rparr>)"
  by (auto simp: start_def split: prod.splits)

definition is_executable :: "(string \<Rightarrow> (bool \<times> bool) option) \<Rightarrow> string \<Rightarrow> bool" where
  \<comment> \<open>\<open>file_stat\<close> gives for a path that exists whether it is a regular file and whether it may be executed\<close>
  "is_executable file_stat path = (case file_stat path of None \<Rightarrow> False | Some (regular, x_ok) \<Rightarrow> regular \<and> x_ok)"

section \<open>\<open>shlex.quote\<close>\<close>

definition shell_safe :: "char \<Rightarrow> bool" where
  "shell_safe c \<longleftrightarrow> c \<in> set ''abcdefghijklmnopqrstuvwxyzABCDEFGHIJKLMNOPQRSTUVWXYZ0123456789_@%+=:,./-''"

definition shlex_quote :: "string \<Rightarrow> string" where
  "shlex_quote t = (if t = [] then [squote, squote]
     else if list_all shell_safe t then t
     else [squote] @ py_replace [squote] [squote, dquote, squote, dquote, squote] t @ [squote])"

section \<open>Splitting plain words\<close>

definition plain :: "string \<Rightarrow> bool" where
  "plain w \<longleftrightarrow> w \<noteq> [] \<and> (\<forall>c\<in>set w. \<not> sh_space c \<and> c \<noteq> squote \<and> c \<noteq> dquote \<and> c \<noteq> bslash)"

lemma shlex_plain_word:
  "\<forall>c\<in>set v. \<not> sh_space c \<and> c \<noteq> squote \<and> c \<noteq> dquote \<and> c \<noteq> bslash \<Longrightarrow>
     shlex InWord w q (v @ cs) = shlex InWord (w @ v) q cs"
  by (induction v arbitrary: w) auto

section \<open>Quoted words\<close>

lemma shlex_closes_quote:
  "squote \<notin> set v \<Longrightarrow> shlex (InQuote squote) w q (v @ squote # cs) = shlex InWord (w @ v) True cs"
  by (induction v arbitrary: w q) auto

text \<open>A word behaves as \<open>t\<close> when it is read as the argument \<open>t\<close> at the end of the text or before a blank.\<close>

definition reads_as :: "string \<Rightarrow> string \<Rightarrow> bool" where
  "reads_as word t \<longleftrightarrow> shlex Between [] False word = Ret [t] \<and>
     (\<forall>cs. shlex Between [] False (word @ CHR '' '' # cs) =
        (case shlex Between [] False cs of Ret ws \<Rightarrow> Ret (t # ws) | r \<Rightarrow> r))"

lemma reads_asI:
  assumes "\<And>cs. shlex Between [] False (word @ cs) = shlex InWord t q cs" and "t \<noteq> [] \<or> q"
  shows "reads_as word t"
proof -
  have "shlex Between [] False (word @ []) = Ret [t]" using assms(2) by (simp only: assms(1)) auto
  moreover have "shlex Between [] False (word @ CHR '' '' # cs) =
        (case shlex Between [] False cs of Ret ws \<Rightarrow> Ret (t # ws) | r \<Rightarrow> r)" for cs
    using assms(2) by (simp only: assms(1)) (auto simp: sh_space_def)
  ultimately show ?thesis by (simp add: reads_as_def)
qed

lemma shlex_split_words:
  "list_all2 reads_as words ts \<Longrightarrow> shlex_split (py_join '' '' words) = Ret ts"
proof (induction words ts rule: list_all2_induct)
  case Nil
  then show ?case by (simp add: shlex_split_def)
next
  case (Cons word words t ts)
  then show ?case by (cases "words = []") (auto simp: shlex_split_def reads_as_def py_join_Cons)
qed

lemma plain_reads_as: "plain w \<Longrightarrow> reads_as w w"
proof -
  assume w: "plain w"
  then obtain c cs where c: "w = c # cs" by (cases w) (auto simp: plain_def)
  show "reads_as w w"
  proof (rule reads_asI)
    show "shlex Between [] False (w @ rest) = shlex InWord w False rest" for rest
      using w c shlex_plain_word [of cs "[c]" False rest] by (auto simp: plain_def)
    show "w \<noteq> [] \<or> False" using c by simp
  qed
qed

text \<open>Words without quotes and backslashes, joined by single blanks, split into themselves.\<close>

lemma shlex_split_plain: "list_all plain ws \<Longrightarrow> shlex_split (py_join '' '' ws) = Ret ws"
  by (rule shlex_split_words) (simp add: list_all2_same list_all_iff plain_reads_as)

lemma shlex_quote_body:
  "shlex (InQuote squote) w q (py_replace [squote] [squote, dquote, squote, dquote, squote] t @ squote # cs) =
     shlex InWord (w @ t) True cs"
proof (induction t arbitrary: w q)
  case Nil
  then show ?case by (simp add: py_replace_sing)
next
  case (Cons c t)
  then show ?case
    using Cons.IH [of "w @ [squote]" True] Cons.IH [of "w @ [c]" True] by (simp add: py_replace_sing sh_space_def)
qed

lemma shell_safe_plain: "t \<noteq> [] \<Longrightarrow> list_all shell_safe t \<Longrightarrow> plain t"
proof -
  assume t: "t \<noteq> []" "list_all shell_safe t"
  have "\<forall>c\<in>set ''abcdefghijklmnopqrstuvwxyzABCDEFGHIJKLMNOPQRSTUVWXYZ0123456789_@%+=:,./-''.
      \<not> sh_space c \<and> c \<noteq> squote \<and> c \<noteq> dquote \<and> c \<noteq> bslash" by code_simp
  with t(2) have "\<forall>c\<in>set t. \<not> sh_space c \<and> c \<noteq> squote \<and> c \<noteq> dquote \<and> c \<noteq> bslash"
    unfolding list_all_iff shell_safe_def by blast
  with t(1) show "plain t" by (simp add: plain_def)
qed

text \<open>A quoted word is read back as the word.\<close>

lemma shlex_quote_reads_as: "reads_as (shlex_quote t) t"
proof (cases "t \<noteq> [] \<and> list_all shell_safe t")
  case True
  then show ?thesis by (simp add: shlex_quote_def plain_reads_as shell_safe_plain)
next
  case False
  show ?thesis
  proof (rule reads_asI)
    show "shlex Between [] False (shlex_quote t @ cs) = shlex InWord t True cs" for cs
      using False shlex_quote_body [of "[]" False t cs] by (auto simp: shlex_quote_def sh_space_def)
  qed simp
qed

end
