(* ===== verification/Snmp_Props.thy ===== *)
theory Snmp_Props
  imports Snmp_Pdu Run_Command
begin

text \<open>
  What the SNMP agents guarantee: they satisfy the contract of \<open>Power_Contract\<close> whenever the
  program behind \<open>--snmpget-path\<close> prints the value it was asked for and changes nothing.
\<close>

section \<open>Commands\<close>

lemma prepare_cmd_run [run_simps]:
  "prepare_cmd c s = (build_cmd (complete_missed_params (opts s)) c, s\<lparr>opts := complete_missed_params (opts s)\<rparr>)"
  by (simp add: prepare_cmd_def run_simps)

definition snmp_keys :: "string set" where
  \<comment> \<open>the options that take part in building a command\<close>
  "snmp_keys = {''--snmp-version'', ''--community'', ''--snmp-auth-prot'', ''--snmp-sec-level'', ''--snmp-priv-prot'',
     ''--snmp-priv-passwd'', ''--password'', ''--username'', ''--inet4-only'', ''--inet6-only'', ''--ip'', ''--ipport''}"

lemma complete_missed_params_upd:
  assumes "k \<notin> snmp_keys"
  shows "complete_missed_params (od(k := v)) = (complete_missed_params od)(k := v)"
proof -
  have other: "(od(k := v)) j = od j" if "j \<in> snmp_keys" for od j using assms that by auto
  have neq: "''--snmp-sec-level'' \<noteq> k" "''--snmp-version'' \<noteq> k" using assms by (auto simp: snmp_keys_def)
  have "complete_sec_level (od(k := v)) = (complete_sec_level od)(k := v)" for od
    unfolding complete_sec_level_def
    by (simp add: other snmp_keys_def fun_upd_twist [OF neq(1)] del: fun_upd_apply not_None_eq)
  moreover have "complete_version (od(k := v)) = (complete_version od)(k := v)" for od
    unfolding complete_version_def
    by (simp add: other snmp_keys_def fun_upd_twist [OF neq(2)] del: fun_upd_apply not_None_eq)
  ultimately show ?thesis by (simp add: complete_missed_params_def)
qed

lemma complete_missed_params_other:
  "k \<noteq> ''--snmp-version'' \<Longrightarrow> k \<noteq> ''--snmp-sec-level'' \<Longrightarrow> complete_missed_params od k = od k"
  by (simp add: complete_missed_params_def complete_version_def complete_sec_level_def)

lemma complete_missed_params_idem [simp]:
  "complete_missed_params (complete_missed_params od) = complete_missed_params od"
proof -
  have version: "complete_version (complete_version od) = complete_version od" for od
    by (simp add: complete_version_def del: not_None_eq)
  have level: "complete_sec_level (complete_version (complete_sec_level od)) = complete_version (complete_sec_level od)"
    by (simp add: complete_version_def complete_sec_level_def del: not_None_eq)
  show ?thesis by (simp only: complete_missed_params_def level version)
qed

lemma quoted_opt_upd: "k \<noteq> j \<Longrightarrow> quoted_opt (od(k := v)) j = quoted_opt od j"
  by (simp add: quoted_opt_def)

lemma add_flags_upd:
  "k \<notin> (\<lambda>(name, _). ''--'' @ name) ` set items \<Longrightarrow> add_flags (od(k := v)) items cmd = add_flags od items cmd"
  by (induction od items cmd rule: add_flags.induct) (auto simp: quoted_opt_upd bindO_def split: outcome.splits)

lemma build_cmd_upd:
  assumes "k \<notin> snmp_keys" shows "build_cmd (od(k := v)) c = build_cmd od c"
proof -
  from assms have flags: "add_flags (od(k := v)) mapping_v2 cmd = add_flags od mapping_v2 cmd"
    "add_flags (od(k := v)) mapping_v3 cmd = add_flags od mapping_v3 cmd" for cmd
    by (simp_all add: add_flags_upd mapping_v2_def mapping_v3_def snmp_keys_def del: add_flags.simps)
  from assms have "quoted_opt (od(k := v)) ''--ip'' = quoted_opt od ''--ip''"
    "force_ipvx (od(k := v)) = force_ipvx od" "(od(k := v)) ''--ipport'' = od ''--ipport''"
    "(od(k := v)) ''--snmp-version'' = od ''--snmp-version''"
    by (auto simp: quoted_opt_upd force_ipvx_def snmp_keys_def)
  with flags show ?thesis unfolding build_cmd_def by (simp only:)
qed

lemma agree_complete [simp]: "agree od (complete_missed_params od)"
  by (simp add: agree_def complete_missed_params_other)

section \<open>Running\<close>

lemma snmp_handler_Ret:
  "(case e of PexpectError _ \<Rightarrow> Some (seqM (fail_usage m True) (raiseM x)) | _ \<Rightarrow> None) = Some n \<Longrightarrow> n s \<noteq> (Ret r, s')"
  by (auto simp: ret_iff split: exn.splits)

lemma frun_Ret:
  "frun run command timeout s = (Ret (res, code), s') \<longleftrightarrow>
     (\<exists>d. run command (if timeout \<noteq> 0 then Some timeout else None) (net (world s)) = (RunOutput res code, d) \<and>
       s' = s\<lparr>world := (world s)\<lparr>net := d\<rparr>\<rparr>)"
  by (auto simp: frun_def split: run_result.splits prod.splits)

lemma checked_output_Ret:
  "checked_output res code s = (Ret x, s') \<longleftrightarrow> code = Some 0 \<and> re_search error_re res = None \<and> x = res \<and> s' = s"
  by (cases code) (auto simp: checked_output_def ret_iff split: if_splits)

lemma snmp_run_command_Ret:
  "snmp_run_command run command extra s = (Ret res, s') \<Longrightarrow>
     \<exists>t d. run command t (net (world s)) = (RunOutput res (Some 0), d) \<and> s' = s\<lparr>world := (world s)\<lparr>net := d\<rparr>\<rparr>"
  unfolding snmp_run_command_def tryM_Ret
  by (auto simp: bindM_Ret intoptM_Ret checked_output_Ret frun_Ret dest: snmp_handler_Ret)

definition snmp_ready :: "string \<Rightarrow> ('d, 'g) snmp_world st \<Rightarrow> bool" where
  \<comment> \<open>the options give \<open>get_cmd\<close> as the beginning of the commands that read a value\<close>
  "snmp_ready get_cmd s \<longleftrightarrow> (\<exists>path. opts s ''--snmpget-path'' = Some path \<and>
     build_cmd (complete_missed_params (opts s)) (py_str path) = Ret get_cmd)"

lemma snmp_ready_upd:
  "k \<notin> snmp_keys \<Longrightarrow> k \<noteq> ''--snmpget-path'' \<Longrightarrow> snmp_ready c (s\<lparr>opts := (opts s)(k := v)\<rparr>) = snmp_ready c s"
  by (simp add: snmp_ready_def complete_missed_params_upd build_cmd_upd)

lemma snmp_ready_frame [simp]:
  "snmp_ready c (s\<lparr>clock := x\<rparr>) = snmp_ready c s" "snmp_ready c (s\<lparr>world := w\<rparr>) = snmp_ready c s"
  "snmp_ready c (s\<lparr>opts := complete_missed_params (opts s)\<rparr>) = snmp_ready c s"
  "snmp_ready c (s\<lparr>opts := (opts s)(''--action'' := v)\<rparr>) = snmp_ready c s"
  using snmp_ready_upd [of "''--action''" c s v]
  by (simp_all add: snmp_ready_def snmp_keys_def complete_missed_params_other)

lemma snmp_ready_plug [simp]: "snmp_ready c (s\<lparr>opts := plug_opts p (opts s)\<rparr>) = snmp_ready c s"
proof (cases "py_uuid p")
  case None
  then show ?thesis using snmp_ready_upd [of "''--plug''" c s "Some (PStr p)"] by (simp add: plug_opts_def snmp_keys_def)
next
  case (Some u)
  then show ?thesis
    using snmp_ready_upd [of "''--uuid''" c s "Some (PStr u)"]
      snmp_ready_upd [of "''--plug''" c "s\<lparr>opts := (opts s)(''--uuid'' \<mapsto> PStr u)\<rparr>" "Some (PStr p)"]
    by (simp add: plug_opts_def snmp_keys_def)
qed

definition snmp_truthful :: "'d pexpect_run \<Rightarrow> string \<Rightarrow> ('d \<Rightarrow> string \<Rightarrow> string) \<Rightarrow> bool" where
  \<comment> \<open>snmpget changes nothing, and when it succeeds its last line is the OID and the value there\<close>
  "snmp_truthful run get_cmd value_at \<longleftrightarrow> (\<forall>oid t d res d'.
     run (get_cmd @ '' '' @ in_quotes (quote_for_run oid)) t d = (RunOutput res (Some 0), d') \<longrightarrow>
       d' = d \<and> (\<forall>x v. py_split_once (last (py_splitlines res)) = [x, v] \<longrightarrow> v = value_at d oid))"

lemma last_words_Ret:
  "last_words res = Ret ws \<longleftrightarrow> py_splitlines res \<noteq> [] \<and> ws = py_split_once (last (py_splitlines res))"
  by (auto simp: last_words_def)

lemma unpack_two_Ret: "unpack_two ws = Ret v \<longleftrightarrow> (\<exists>x. ws = [x, v])"
  by (auto simp: unpack_two_def length_Suc_conv eval_nat_numeral)

lemma snmp_value_reads:
  assumes "snmp_truthful run get_cmd value_at" and "snmp_ready get_cmd s"
    and "snmp_value run oid s = (Ret v, s')"
  shows "v = value_at (net (world s)) oid \<and> s' = s\<lparr>opts := complete_missed_params (opts s)\<rparr>"
proof -
  from assms(3) obtain path cmd res s1 x
    where path: "opts s ''--snmpget-path'' = Some path"
      and cmd: "build_cmd (complete_missed_params (opts s)) (py_str path) = Ret cmd"
      and out: "snmp_run_command run (cmd @ '' '' @ in_quotes (quote_for_run oid)) 0
        (s\<lparr>opts := complete_missed_params (opts s)\<rparr>) = (Ret res, s1)"
      and ans: "py_split_once (last (py_splitlines res)) = [x, v]" and s': "s' = s1"
    by (auto simp: snmp_value_def snmp_get_def shown_optM_def ret_iff run_simps last_words_Ret unpack_two_Ret)
  from assms(2) path cmd have "cmd = get_cmd" by (simp add: snmp_ready_def)
  with snmp_run_command_Ret [OF out] obtain t d
    where "run (get_cmd @ '' '' @ in_quotes (quote_for_run oid)) t (net (world s)) = (RunOutput res (Some 0), d)"
      and "s1 = s\<lparr>opts := complete_missed_params (opts s), world := (world s)\<lparr>net := d\<rparr>\<rparr>" by auto
  with assms(1) ans s' show ?thesis unfolding snmp_truthful_def by fastforce
qed

lemma snmp_set_Ret:
  "snmp_set run oid value s = (Ret u, s') \<Longrightarrow>
     \<exists>d. s' = s\<lparr>opts := complete_missed_params (opts s), world := (world s)\<lparr>net := d\<rparr>\<rparr>"
  by (auto simp: snmp_set_def shown_optM_def ret_iff run_simps Let_def dest!: snmp_run_command_Ret)

lemma agrees_snmp [agrees_intro]:
  "agrees (shown_optM k)" "agrees (snmp_run_command run command extra)" "agrees (prepare_cmd c)"
  "agrees (snmp_globals f)"
  by (auto simp: agrees_def shown_optM_def snmp_globals_def ret_iff run_simps dest: snmp_run_command_Ret)

lemma agrees_snmp_methods [agrees_intro]:
  "agrees (snmp_get run oid)" "agrees (snmp_set run oid v)" "agrees (snmp_walk run oid extra)"
  unfolding snmp_get_def snmp_set_def snmp_walk_def by (intro agrees_intro)+

lemma agrees_snmp_helpers [agrees_intro]:
  "agrees (snmp_value run oid)" "agrees (row_value x)" "agrees (row_oid x)"
  unfolding snmp_value_def row_value_def row_oid_def by (intro agrees_intro)+

section \<open>Outlets by plug number\<close>

definition plug_value_status ::
  "('d \<Rightarrow> string \<Rightarrow> string) \<Rightarrow> string \<Rightarrow> int \<Rightarrow> ('d, 'g) snmp_world st \<Rightarrow> string \<Rightarrow> string option" where
  "plug_value_status value_at base up s p = Some (on_off (value_at (net (world s)) (base @ ''.'' @ p) = show_int up))"

lemma plug_status_is_Ret:
  assumes "snmp_truthful run get_cmd value_at" and "snmp_ready get_cmd s"
    and "plug_status_is run base up s = (Ret r, s')"
  shows "s' = s\<lparr>opts := complete_missed_params (opts s)\<rparr> \<and>
    (opts s ''--plug'' = Some (PStr p) \<longrightarrow> r = plug_value_status value_at base up s p)"
  using assms(3) snmp_value_reads [OF assms(1,2)]
  by (auto simp: plug_status_is_def plug_oid_def shown_optM_def plug_value_status_def ret_iff py_str_def)

lemma set_plug_to_Ret:
  "set_plug_to run base set_on set_off s = (Ret u, s') \<Longrightarrow>
     \<exists>d. s' = s\<lparr>opts := complete_missed_params (opts s), world := (world s)\<lparr>net := d\<rparr>\<rparr>"
  by (auto simp: set_plug_to_def plug_oid_def shown_optM_def ret_iff dest: snmp_set_Ret)

lemma agrees_plug: "agrees (plug_status_is run base up)"
  unfolding plug_status_is_def plug_oid_def by (intro agrees_intro)

lemma plug_device:
  fixes run :: "'d pexpect_run"
  assumes "snmp_truthful run get_cmd value_at"
  shows "power_device (plug_status_is run base up :: ('d, 'g, string option) snmp) (snmp_ready get_cmd)
    (plug_value_status value_at base up) (set_plug_to run control set_on set_off)"
proof unfold_locales
  fix s s' :: "('d, 'g) snmp_world st" and r u p
  show "agree (opts s) (opts s')" if "plug_status_is run base up s = (Ret r, s')"
    using that by (rule agreesD [OF agrees_plug])
  show "agree (opts s) (opts s')" if "set_plug_to run control set_on set_off s = (Ret u, s')"
    using set_plug_to_Ret [OF that] by auto
  show "snmp_ready get_cmd s'" if "snmp_ready get_cmd s" "set_plug_to run control set_on set_off s = (Ret u, s')"
    using set_plug_to_Ret [OF that(2)] that(1) snmp_ready_frame by auto
  assume ready: "snmp_ready get_cmd s" and read: "plug_status_is run base up s = (Ret r, s')"
  note after = plug_status_is_Ret [OF assms ready read]
  show "r = plug_value_status value_at base up s p" if "at_plug s p"
    using after that by (simp add: at_plug_def)
  show "plug_value_status value_at base up s' = plug_value_status value_at base up s" "snmp_ready get_cmd s'"
    using after ready by (simp_all add: plug_value_status_def fun_eq_iff)
qed (simp_all add: plug_value_status_def fun_eq_iff)

section \<open>Outlets of a known model\<close>

text \<open>
  The outlet agents with a single plug, given as a number, and a known model without switches:
  the number in the cache, if there is one, is the number of the plug.
\<close>

definition pdu_ready :: "string \<Rightarrow> pdu \<Rightarrow> string \<Rightarrow> ('d, pdu_globals) snmp_world st \<Rightarrow> bool" where
  "pdu_ready get_cmd m p s \<longleftrightarrow> snmp_ready get_cmd s \<and> plugs_of (opts s) = Some [p] \<and> py_isdigit p \<and>
     device (globals (world s)) = Some m \<and> \<not> has_switches m \<and>
     (\<forall>n. port_id (globals (world s)) = Some n \<longrightarrow> py_int_str p = Some n)"

definition outlet_status ::
  "('d \<Rightarrow> string \<Rightarrow> string) \<Rightarrow> pdu \<Rightarrow> ('d, 'g) snmp_world st \<Rightarrow> string \<Rightarrow> string option" where
  "outlet_status value_at m s p = map_option (\<lambda>n.
     on_off (value_at (net (world s)) (format_d (status_oid m) [n]) = show_int (state_on m))) (py_int_str p)"

lemma globalM_run [run_simps]:
  "globalM f s = (Ret (f (globals (world s))), s)" "bindM (globalM f) h s = h (f (globals (world s))) s"
  "snmp_globals g s = (Ret (), s\<lparr>world := (world s)\<lparr>globals := g (globals (world s))\<rparr>\<rparr>)"
  "bindM (snmp_globals g) h' s = h' () (s\<lparr>world := (world s)\<lparr>globals := g (globals (world s))\<rparr>\<rparr>)"
  by (simp_all add: globalM_def snmp_globals_def run_simps)

lemma the_device_run [run_simps]:
  "device (globals (world s)) = Some m \<Longrightarrow> bindM the_device f s = f m s"
  by (simp add: the_device_def run_simps)

lemma resolv_numbered:
  assumes "pdu_ready get_cmd m p s" and "opts s ''--plug'' = Some (PStr p)"
    and "resolv_port_id run find_device s = (Ret u, s')"
  obtains n where "py_int_str p = Some n"
    and "s' = s\<lparr>world := (world s)\<lparr>globals := (globals (world s))\<lparr>port_id := Some n\<rparr>\<rparr>\<rparr>"
proof -
  from assms(1) have m: "device (globals (world s)) = Some m" "py_isdigit p" "\<not> has_switches m"
    by (simp_all add: pdu_ready_def)
  obtain n where n: "py_int_str p = Some n"
    using assms(3) m assms(2)
    by (cases "py_int_str p") (auto simp: resolv_port_id_def numbered_outlet_def int_of_def py_int_def run_simps ret_iff)
  with assms(3) m assms(2) show thesis
    by (intro that [of n]) (auto simp: resolv_port_id_def numbered_outlet_def int_of_def py_int_def run_simps ret_iff)
qed

lemma pdu_ready_frame [simp]:
  "pdu_ready c m p (s\<lparr>clock := x\<rparr>) = pdu_ready c m p s"
  "pdu_ready c m p (s\<lparr>opts := (opts s)(''--action'' := v)\<rparr>) = pdu_ready c m p s"
  "pdu_ready c m p (s\<lparr>opts := plug_opts q (opts s)\<rparr>) = pdu_ready c m p s"
  "pdu_ready c m p (s\<lparr>opts := complete_missed_params (opts s)\<rparr>) = pdu_ready c m p s"
  "pdu_ready c m p (s\<lparr>world := (world s)\<lparr>net := d\<rparr>\<rparr>) = pdu_ready c m p s"
  by (simp_all add: pdu_ready_def agree_plugs [OF agree_complete])
    (simp add: plugs_of_def)

lemma pdu_ready_resolved:
  "pdu_ready c m p s \<Longrightarrow> py_int_str p = Some n \<Longrightarrow>
     pdu_ready c m p (s\<lparr>world := (world s)\<lparr>globals := (globals (world s))\<lparr>port_id := Some n\<rparr>\<rparr>\<rparr>)"
  by (simp add: pdu_ready_def)

text \<open>After the cache is filled, the outlet is the one of the plug.\<close>

lemma cached_or_resolved:
  assumes "pdu_ready get_cmd m p s" and "opts s ''--plug'' = Some (PStr p)"
    and "(if port_id (globals (world s)) = None then resolv_port_id run find_device else retM ()) s = (Ret u, s')"
  obtains n where "py_int_str p = Some n" and "pdu_ready get_cmd m p s'" and "opts s' = opts s" and "net (world s') = net (world s)"
    and "port_id (globals (world s')) = Some n" and "device (globals (world s')) = Some m"
proof (cases "port_id (globals (world s))")
  case None
  with assms(3) have "resolv_port_id run find_device s = (Ret u, s')" by simp
  from resolv_numbered [OF assms(1,2) this] obtain n where "py_int_str p = Some n"
    and "s' = s\<lparr>world := (world s)\<lparr>globals := (globals (world s))\<lparr>port_id := Some n\<rparr>\<rparr>\<rparr>" .
  with pdu_ready_resolved [OF assms(1)] assms(1) show thesis by (intro that [of n]) (simp_all add: pdu_ready_def)
next
  case (Some n)
  with assms show thesis by (intro that [of n]) (auto simp: pdu_ready_def ret_iff)
qed

lemma outlet_oid_run [run_simps]:
  "port_id (globals (world s)) = Some n \<Longrightarrow> \<not> has_switches m \<Longrightarrow>
     bindM (outlet_oid oid m) f s = f (format_d (oid m) [n]) s"
  by (simp add: outlet_oid_def run_simps)

lemma pdu_reads:
  assumes true: "snmp_truthful run get_cmd value_at" and ready: "pdu_ready get_cmd m p s"
    and plug: "opts s ''--plug'' = Some (PStr p)"
    and read: "pdu_get_power_status run (resolv_port_id run find_device) s = (Ret r, s')"
  shows "r = outlet_status value_at m s p" and "pdu_ready get_cmd m p s'" and "net (world s') = net (world s)"
proof -
  from read obtain u s1 where
    "(if port_id (globals (world s)) = None then resolv_port_id run find_device else retM ()) s = (Ret u, s1)"
    and rest: "bindM the_device (\<lambda>m. bindM (outlet_oid status_oid m) (\<lambda>oid. bindM (snmp_value run oid) (\<lambda>status.
       retM (Some (on_off (status = show_int (state_on m))))))) s1 = (Ret r, s')"
    unfolding pdu_get_power_status_def globalM_run bindM_Ret [of "if _ then _ else _"] by blast
  from cached_or_resolved [OF ready plug this(1)] obtain n where n: "py_int_str p = Some n"
    and s1: "pdu_ready get_cmd m p s1" "opts s1 = opts s" "net (world s1) = net (world s)"
      "port_id (globals (world s1)) = Some n" "device (globals (world s1)) = Some m" .
  from s1(1) have m: "snmp_ready get_cmd s1" "\<not> has_switches m" by (simp_all add: pdu_ready_def)
  with rest s1 obtain v where v: "snmp_value run (format_d (status_oid m) [n]) s1 = (Ret v, s')"
    and r: "r = Some (on_off (v = show_int (state_on m)))"
    by (auto simp: the_device_run outlet_oid_run ret_iff)
  from snmp_value_reads [OF true m(1) v] s1 n r
  show "r = outlet_status value_at m s p" and "pdu_ready get_cmd m p s'" and "net (world s') = net (world s)"
    by (auto simp: outlet_status_def simp del: pdu_ready_frame(4)) (simp add: s1(2) [symmetric])
qed

lemma pdu_sets:
  assumes ready: "pdu_ready get_cmd m p s" and plug: "opts s ''--plug'' = Some (PStr p)"
    and switched: "pdu_set_power_status run (resolv_port_id run find_device) s = (Ret u, s')"
  shows "pdu_ready get_cmd m p s'"
proof -
  from switched obtain v s1 where
    "(if port_id (globals (world s)) = None then resolv_port_id run find_device else retM ()) s = (Ret v, s1)"
    and rest: "bindM the_device (\<lambda>m. bindM (outlet_oid control_oid m) (\<lambda>oid. bindM (optM ''--action'') (\<lambda>action.
       snmp_set run oid (PInt (and_or (action = PStr ''on'') (turn_on m) (turn_off m)))))) s1 = (Ret u, s')"
    unfolding pdu_set_power_status_def globalM_run bindM_Ret [of "if _ then _ else _"] by blast
  from cached_or_resolved [OF ready plug this(1)] obtain n where
    s1: "pdu_ready get_cmd m p s1" "port_id (globals (world s1)) = Some n" "device (globals (world s1)) = Some m" .
  from s1(1) have "\<not> has_switches m" by (simp add: pdu_ready_def)
  with rest s1 show ?thesis
    by (auto simp: the_device_run outlet_oid_run ret_iff dest!: snmp_set_Ret)
      (metis pdu_ready_frame(4,5) st.select_convs st.surjective st.update_convs)
qed

lemma agrees_pdu_helpers [agrees_intro]:
  "agrees (globalM f)" "agrees the_device" "agrees (third_last t)" "agrees (int_of w)"
  "agrees (outlet_oid oid m)" "agrees (numbered_outlet m plug)"
  unfolding globalM_def the_device_def third_last_def int_of_def outlet_oid_def numbered_outlet_def
  by (intro agrees_intro)+

lemma agrees_pdu_resolve [agrees_intro]:
  "agrees (set_device run dir fallback)" "agrees (match_row m plug x)"
  "agrees find_device \<Longrightarrow> agrees (resolv_port_id run find_device)"
  unfolding set_device_def match_row_def resolv_port_id_def by (intro agrees_intro | assumption)+

lemma agrees_pdu_callbacks:
  assumes "agrees find_device"
  shows "agrees (pdu_get_power_status run (resolv_port_id run find_device))"
    "agrees (pdu_set_power_status run (resolv_port_id run find_device))"
  unfolding pdu_get_power_status_def pdu_set_power_status_def by (intro agrees_intro assms)+

lemma pdu_device:
  assumes "snmp_truthful run get_cmd value_at" and "agrees find_device"
  shows "power_device (pdu_get_power_status run (resolv_port_id run find_device)) (pdu_ready get_cmd m p)
    (\<lambda>s. (\<lambda>_. None)(p := outlet_status value_at m s p))
    (pdu_set_power_status run (resolv_port_id run find_device))"
proof unfold_locales
  fix s s' r u q
  show "agree (opts s) (opts s')" if "pdu_get_power_status run (resolv_port_id run find_device) s = (Ret r, s')"
    using that by (rule agreesD [OF agrees_pdu_callbacks(1) [OF assms(2)]])
  show "agree (opts s) (opts s')" if "pdu_set_power_status run (resolv_port_id run find_device) s = (Ret u, s')"
    using that by (rule agreesD [OF agrees_pdu_callbacks(2) [OF assms(2)]])
  assume ready: "pdu_ready get_cmd m p s" and "at_plug s q"
  then have q: "q = p" "opts s ''--plug'' = Some (PStr p)" by (auto simp: at_plug_def pdu_ready_def)
  show "pdu_ready get_cmd m p s'" if "pdu_set_power_status run (resolv_port_id run find_device) s = (Ret u, s')"
    by (rule pdu_sets [OF ready q(2) that])
  assume read: "pdu_get_power_status run (resolv_port_id run find_device) s = (Ret r, s')"
  note after = pdu_reads [OF assms(1) ready q(2) read]
  show "r = ((\<lambda>_. None)(p := outlet_status value_at m s p)) q" "pdu_ready get_cmd m p s'"
    "(\<lambda>_. None)(p := outlet_status value_at m s' p) = (\<lambda>_. None)(p := outlet_status value_at m s p)"
    using after q(1) by (simp_all add: outlet_status_def)
qed (simp_all add: outlet_status_def)

end
