(* ===== verification/Snmp_Guarantees.thy ===== *)
theory Snmp_Guarantees
  imports Snmp_Props
begin

text \<open>
  The properties of the SNMP agents. The witnesses run them against a simulated outlet strip
  whose programs are found under the paths snmpget, snmpset and snmpwalk.
\<close>

section \<open>A simulated outlet strip\<close>

type_synonym strip = "(string \<times> string) list"
  \<comment> \<open>OID and value\<close>

fun put_value :: "string \<Rightarrow> string \<Rightarrow> strip \<Rightarrow> strip" where
  "put_value k v [] = [(k, v)]"
| "put_value k v ((j, w) # d) = (if j = k then (k, v) # d else (j, w) # put_value k v d)"

definition value_of :: "strip \<Rightarrow> string \<Rightarrow> string" where
  "value_of d k = (case map_of d k of None \<Rightarrow> ''0'' | Some v \<Rightarrow> v)"

definition one_word :: "string \<Rightarrow> bool" where
  "one_word t \<longleftrightarrow> t \<noteq> [] \<and> list_all (\<lambda>c. \<not> is_space c) t"

definition strip_run :: "(string \<Rightarrow> string) \<Rightarrow> strip pexpect_run" where
  \<comment> \<open>\<open>linked\<close> gives the OID that shows the status controlled by an OID\<close>
  "strip_run linked command timeout d = (case shlex_split command of
      Ret ws \<Rightarrow>
        (let n = length ws; oid = last ws in
         if n \<ge> 5 \<and> hd ws = ''snmpget'' \<and> one_word oid \<and> one_word (value_of d oid) then
           (RunOutput (oid @ '' '' @ value_of d oid @ nl) (Some 0), d)
         else if n \<ge> 5 \<and> hd ws = ''snmpset'' then
           (RunOutput [] (Some 0), put_value (linked (ws ! (n - 3))) (last ws) d)
         else if n \<ge> 5 \<and> hd ws = ''snmpwalk'' then
           (RunOutput (concat (map (\<lambda>(k, v). if py_startswith oid k then k @ '' '' @ v @ nl else []) d)) (Some 0), d)
         else (RunOutput ''Error: bad command'' (Some 1), d))
    | _ \<Rightarrow> (RunError, d))"

definition snmp_opts :: "string \<Rightarrow> string \<Rightarrow> pydict" where
  "snmp_opts action plug = [''--action'' \<mapsto> PStr action, ''--plug'' \<mapsto> PStr plug, ''--plug-separator'' \<mapsto> PStr '','',
     ''--ip'' \<mapsto> PStr ''pdu'', ''--community'' \<mapsto> PStr ''private'', ''--snmp-version'' \<mapsto> PStr ''1'',
     ''--snmpget-path'' \<mapsto> PStr ''snmpget'', ''--snmpset-path'' \<mapsto> PStr ''snmpset'', ''--snmpwalk-path'' \<mapsto> PStr ''snmpwalk'',
     ''--shell-timeout'' \<mapsto> PStr ''3'', ''--login-timeout'' \<mapsto> PStr ''5'', ''--power-timeout'' \<mapsto> PStr ''2'',
     ''--power-wait'' \<mapsto> PStr ''0'', ''--stonith-status-sleep'' \<mapsto> PStr ''1'', ''--retry-on'' \<mapsto> PStr ''1'',
     ''--switch'' \<mapsto> PStr ''1'', ''device_opt'' \<mapsto> PList [''port'', ''snmp'']]"



definition rpdu_linked :: "string \<Rightarrow> string" where
  \<comment> \<open>the status of an outlet follows its control\<close>
  "rpdu_linked oid = py_replace ''.12.3.3.1.1.4.'' ''.12.3.5.1.1.4.'' oid"

section \<open>Quoting\<close>

lemma shlex_quote_for_run:
  "shlex (InQuote squote) w q (quote_for_run t @ squote # cs) = shlex InWord (w @ t) True cs"
proof (induction t arbitrary: w q)
  case Nil
  then show ?case by (simp add: quote_for_run_def py_replace_sing)
next
  case (Cons c t)
  show ?case
  proof (cases "c = squote")
    case True
    with Cons.IH [of "w @ [squote]" True] show ?thesis by (simp add: quote_for_run_def py_replace_sing sh_space_def)
  next
    case False
    with Cons.IH [of "w @ [c]" True] show ?thesis by (simp add: quote_for_run_def py_replace_sing)
  qed
qed

lemma quoted_reads_as: "reads_as (in_quotes (quote_for_run t)) t"
proof (rule reads_asI)
  show "shlex Between [] False (in_quotes (quote_for_run t) @ cs) = shlex InWord t True cs" for cs
    using shlex_quote_for_run [of "[]" False t cs] by (simp add: in_quotes_def sh_space_def)
qed simp


lemma splitlines_one: "\<forall>c\<in>set t. \<not> is_linebreak c \<Longrightarrow> splitlines l (t @ [CHR 0x0A]) = [l @ t]"
proof (induction t arbitrary: l)
  case Nil
  then show ?case by (simp add: is_linebreak_def)
next
  case (Cons c t)
  then show ?case by (cases t) (auto simp: is_linebreak_def)
qed

lemma one_word_dropWhile: "one_word w \<Longrightarrow> dropWhile is_space (w @ t) = w @ t"
  by (cases w) (auto simp: one_word_def)

lemma split_once_words:
  assumes "one_word x" "one_word v" shows "py_split_once (x @ CHR '' '' # v) = [x, v]"
proof -
  have x: "\<forall>c\<in>set x. \<not> is_space c" using assms(1) by (simp add: one_word_def list_all_iff)
  have "takeWhile (\<lambda>c. \<not> is_space c) (x @ CHR '' '' # v) = x"
    "dropWhile (\<lambda>c. \<not> is_space c) (x @ CHR '' '' # v) = CHR '' '' # v"
    using x by (simp_all add: takeWhile_append dropWhile_append3 is_space_def dropWhile_eq_Nil_conv takeWhile_eq_all_conv)
  moreover have "dropWhile is_space (CHR '' '' # v) = v"
    using one_word_dropWhile [OF assms(2), of "[]"] by (simp add: is_space_def)
  ultimately show ?thesis using assms one_word_dropWhile [OF assms(1), of "CHR '' '' # v"]
    by (simp add: py_split_once_def one_word_def)
qed

lemma linebreak_space: "is_linebreak c \<Longrightarrow> is_space c"
  by (auto simp: is_linebreak_def is_space_def)

lemma answer_line:
  "one_word x \<Longrightarrow> one_word v \<Longrightarrow> py_split_once (last (py_splitlines (x @ '' '' @ v @ nl))) = [x, v]"
proof -
  assume words: "one_word x" "one_word v"
  then have "\<forall>c\<in>set x \<union> set v. \<not> is_linebreak c" by (auto simp: one_word_def list_all_iff dest: linebreak_space)
  then have "\<forall>c\<in>set (x @ '' '' @ v). \<not> is_linebreak c" by (auto simp: is_linebreak_def)
  from splitlines_one [OF this, of "[]"] split_once_words [OF words] show ?thesis by (simp add: py_splitlines_def nl_def)
qed

definition demo_cmd :: string where
  "demo_cmd = ''snmpget -m '' @ in_quotes [] @ '' -Oeqn  -v '' @ in_quotes ''1'' @ '' -c '' @ in_quotes ''private''
     @ '' '' @ in_quotes ''pdu''"

lemma demo_cmd_words:
  "shlex_split (demo_cmd @ '' '' @ in_quotes (quote_for_run oid)) =
     Ret [''snmpget'', ''-m'', [], ''-Oeqn'', ''-v'', ''1'', ''-c'', ''private'', ''pdu'', oid]"
  using quoted_reads_as [of oid]
  by (simp add: shlex_split_def demo_cmd_def in_quotes_def [of "[]"] in_quotes_def [of "''1''"]
      in_quotes_def [of "''private''"] in_quotes_def [of "''pdu''"] sh_space_def reads_as_def)

lemma strip_truthful: "snmp_truthful (strip_run linked) demo_cmd value_of"
  unfolding snmp_truthful_def strip_run_def demo_cmd_words by (auto simp: Let_def answer_line [simplified])

lemma demo_ready: "opts s = snmp_opts a p \<Longrightarrow> snmp_ready demo_cmd s"
proof -
  have "build_cmd (complete_missed_params (snmp_opts a p)) ''snmpget'' = Ret demo_cmd"
    by (simp add: build_cmd_def complete_missed_params_def complete_version_def complete_sec_level_def snmp_opts_def
        mapping_v2_def quoted_opt_def force_ipvx_def demo_cmd_def quote_for_run_def py_replace_sing)
  then show "opts s = snmp_opts a p \<Longrightarrow> snmp_ready demo_cmd s"
    by (simp add: snmp_ready_def snmp_opts_def py_str_def)
qed

lemma demo_split:
  "split_opts (snmp_opts a ''1'') = (snmp_opts a ''1'')(''--plugs'' \<mapsto> PList [''1''])"
  by (simp add: split_opts_def snmp_opts_def py_split_sing)

section \<open>Switching outlets\<close>

lemma snmp_ready_split: "snmp_ready c (s\<lparr>opts := split_opts (opts s)\<rparr>) = snmp_ready c s"
  using snmp_ready_upd [of "''--plugs''" c s]
  by (auto simp: split_opts_def snmp_keys_def split: option.splits pyval.splits)

text \<open>
  C9. An \<open>off\<close> by fence\_emerson, fence\_ibmblade or fence\_intelmodular that ends successfully
  leaves no plug on: as long as snmpget prints the value it was asked for and changes nothing,
  the value at the status OID of every plug is not the one that stands for on.
\<close>

theorem snmp_off_confirmed:
  assumes "snmp_truthful run get_cmd value_at" and "snmp_ready get_cmd s"
    and "(F, base, up) \<in> {(fns_emerson run, STATUSES_OID_emerson, 2), (fns_ibmblade run, STATUSES_OID_ibmblade, 1),
      (fns_intelmodular run, STATUSES_OID_intelmodular, 2)}"
    and "opts s ''--action'' = Some (PStr ''off'')" and "fence_action fuel F s = (Ret r, s')"
    and "plugs_of (split_opts (opts s)) = Some ps"
  shows "r = 0 \<and> (\<forall>p\<in>set ps. value_at (net (world s')) (base @ ''.'' @ p) \<noteq> show_int up)"
proof -
  from assms(3) obtain control set_on set_off where F: "get_power_fn F = Some (plug_status_is run base up)"
    "set_power_fn F = Some (set_plug_to run control set_on set_off)"
    by (auto simp: fns_emerson_def fns_ibmblade_def fns_intelmodular_def get_power_status_emerson_def
        get_power_status_ibmblade_def get_power_status_intelmodular_def set_power_status_emerson_def
        set_power_status_ibmblade_def set_power_status_intelmodular_def)
  from power_device.off_confirmed_aux [OF plug_device [OF assms(1)] F assms(4,5,6)] assms(2)
  show ?thesis by (auto simp: snmp_ready_split plug_value_status_def on_off_def split: if_splits)
qed

definition blade_st :: "(strip, unit) snmp_world st" where
  \<comment> \<open>blade 1 is on\<close>
  "blade_st = \<lparr>opts = snmp_opts ''off'' ''1'', outp = [], errs = [], clock = 0,
     world = \<lparr>net = [(''.1.3.6.1.4.1.2.3.51.2.22.1.5.1.1.4.1'', ''1'')], globals = ()\<rparr>\<rparr>"

definition blade_linked :: "string \<Rightarrow> string" where
  "blade_linked oid = py_replace ''.22.1.6.1.1.7.'' ''.22.1.5.1.1.4.'' oid"

lemma blade_run: "fst (fence_action 3 (fns_ibmblade (strip_run blade_linked)) blade_st) = Ret 0"
  by code_simp

theorem snmp_off_confirmed_witness:
  "\<exists>s'. fence_action 3 (fns_ibmblade (strip_run blade_linked)) blade_st = (Ret 0, s') \<and>
     value_of (net (world s')) (STATUSES_OID_ibmblade @ ''.'' @ ''1'') \<noteq> show_int 1"
proof -
  let ?r = "fence_action 3 (fns_ibmblade (strip_run blade_linked)) blade_st"
  have run: "?r = (Ret 0, snd ?r)" using blade_run by (simp add: prod_eq_iff)
  have o: "opts blade_st = snmp_opts ''off'' ''1''" by (simp add: blade_st_def)
  have "plugs_of (split_opts (opts blade_st)) = Some [''1'']" by (simp add: o demo_split plugs_of_def)
  from snmp_off_confirmed [OF strip_truthful demo_ready [OF o] _ _ run this, of STATUSES_OID_ibmblade 1] run
  show ?thesis by (auto simp: o snmp_opts_def)
qed






text \<open>
  The cache of fence\_apc\_snmp holds one outlet for all plugs: once \<open>port_id\<close> is set, the
  status answered is that of the cached outlet, whatever the option \<open>--plug\<close> says.
\<close>

theorem cached_outlet_answers:
  assumes "snmp_truthful run get_cmd value_at" and "snmp_ready get_cmd s"
    and "device (globals (world s)) = Some m" and "\<not> has_switches m" and "port_id (globals (world s)) = Some n"
    and "get_power_status_apc run (s\<lparr>opts := plug_opts p (opts s)\<rparr>) = (Ret r, s')"
  shows "r = Some (on_off (value_at (net (world s)) (format_d (status_oid m) [n]) = show_int (state_on m)))"
proof -
  let ?s = "s\<lparr>opts := plug_opts p (opts s)\<rparr>"
  from assms(3-6) obtain v where "snmp_value run (format_d (status_oid m) [n]) ?s = (Ret v, s')"
    and "r = Some (on_off (v = show_int (state_on m)))"
    by (auto simp: get_power_status_apc_def pdu_get_power_status_def globalM_run the_device_run outlet_oid_run run_simps ret_iff)
  with snmp_value_reads [OF assms(1), of ?s] assms(2) show ?thesis by simp
qed

definition cached_st :: "(strip, pdu_globals) snmp_world st" where
  \<comment> \<open>outlet 1 is cached and off, outlet 2 is on\<close>
  "cached_st = \<lparr>opts = snmp_opts ''off'' ''1'', outp = [], errs = [], clock = 0,
     world = \<lparr>net = [(''.1.3.6.1.4.1.318.1.1.12.3.5.1.1.4.1'', ''2''), (''.1.3.6.1.4.1.318.1.1.12.3.5.1.1.4.2'', ''1'')],
       globals = \<lparr>device = Some ApcRPDU, port_id = Some 1, switch_id = None, after_set = False\<rparr>\<rparr>\<rparr>"

lemma cached_read:
  "fst (get_power_status_apc (strip_run rpdu_linked) (cached_st\<lparr>opts := plug_opts ''2'' (opts cached_st)\<rparr>)) = Ret (Some ''off'')"
  by code_simp

theorem cached_outlet_answers_witness:
  "Some ''off'' = Some (on_off (value_of (net (world cached_st)) (format_d (status_oid ApcRPDU) [1]) = show_int (state_on ApcRPDU)))"
proof -
  let ?r = "get_power_status_apc (strip_run rpdu_linked) (cached_st\<lparr>opts := plug_opts ''2'' (opts cached_st)\<rparr>)"
  have run: "?r = (Ret (Some ''off''), snd ?r)" using cached_read by (simp add: prod_eq_iff)
  show ?thesis
    by (rule cached_outlet_answers [OF strip_truthful demo_ready _ _ _ run])
      (simp_all add: cached_st_def ApcRPDU_def)
qed



end
