(* ===== verification/Fence_Heuristics_Ping.thy ===== *)
theory Fence_Heuristics_Ping
  imports Agent_Main Run_Command
begin

text \<open>
  \<open>agents/heuristics_ping/fence_heuristics_ping.py\<close>: an agent that switches nothing. It pings a
  list of targets and succeeds when enough of them answer, so that another agent on the same
  fencing level is run or not. The ping programs are a parameter; their paths are set when the
  package is built (\<open>@PING_CMD@\<close> and so on) and so are parameters too.
\<close>

section \<open>Ping processes\<close>

record ping_paths =
  PING_CMD :: string
  PING6_CMD :: string
  PING4_CMD :: string

text \<open>The options of a test.\<close>

record ping_cfg =
  timeout :: int
  pings :: int              \<comment> \<open>\<open>count\<close>\<close>
  interval :: int
  good_required :: int
  maxfail :: int

definition mangled :: "string \<Rightarrow> string" where
  \<comment> \<open>\<open>target.split(':', 2)[1]\<close> of a target that contains a colon\<close>
  "mangled target = (case py_split '':'' target of _ # a # _ \<Rightarrow> a | _ \<Rightarrow> [])"

definition ping_target :: "ping_paths \<Rightarrow> string \<Rightarrow> (string \<times> string) option" where
  \<comment> \<open>program and address for a target; None if there is no program\<close>
  "ping_target P target =
     (if py_startswith ''inet6:'' target then
        (if PING6_CMD P = [] then None else Some (PING6_CMD P, mangled target))
      else if py_startswith ''inet:'' target then Some (PING4_CMD P, mangled target)
      else Some (PING_CMD P, target))"

definition ping_cmd :: "ping_cfg \<Rightarrow> string \<times> string \<Rightarrow> string" where
  "ping_cmd C pt = (case pt of (path, address) \<Rightarrow>
     path @ '' -n -q -W '' @ show_int (timeout C) @ '' -c '' @ show_int (pings C) @ '' -i '' @ show_int (interval C)
     @ '' '' @ address)"

definition out_lines :: "string \<Rightarrow> string list" where
  \<comment> \<open>the lines a file yields, with their line breaks\<close>
  "out_lines t = (let ls = py_split nl t in map (\<lambda>l. l @ nl) (butlast ls) @ (if last ls = [] then [] else [last ls]))"

text \<open>The dictionary \<open>p\<close> of the processes, newest entry first. The output of a process is a file: what
  one loop over its lines has read, the next does not see.\<close>

record ping_process =
  began :: rat
  process :: proc
  unread :: "string list"

type_synonym running = "(string \<times> ping_process option) list"

definition start_ping :: "ping_paths \<Rightarrow> 'd tools \<Rightarrow> ping_cfg \<Rightarrow> running \<Rightarrow> string \<Rightarrow> ('d, running) prog" where
  "start_ping P tool C p target = (case ping_target P target of
      None \<Rightarrow> retM ((target, None) # p)
    | Some pt \<Rightarrow>
        bindM (liftM (shlex_split (ping_cmd C pt))) (\<lambda>args.
        bindM (getM clock) (\<lambda>now.
        bindM (start tool args) (\<lambda>r.
          retM ((target, map_option (\<lambda>q. \<lparr>began = now, process = q, unread = out_lines (stdout q)\<rparr>) r) # p)))))"

section \<open>Collecting the results\<close>

definition packet_count_re :: re where
  "packet_count_re = Seq (Star Any) (Seq (Lit ''transmitted, '') (Seq (Grp 1 (Star Dig))
     (Seq (Opt (Grp 2 (Lit '' packets''))) (Seq (Lit '' received'') (Star Any)))))"

fun received :: "string list \<Rightarrow> (int \<times> string list) outcome" where
  \<comment> \<open>the number in the first line that has one, 0 if no line has; and the lines left unread\<close>
  "received [] = Ret (0, [])"
| "received (line # ls) = (case search_group packet_count_re line of
      Some n \<Rightarrow> bindO (py_int (PStr n)) (\<lambda>good. Ret (good, ls))
    | None \<Rightarrow> received ls)"

definition wait_for :: "rat \<Rightarrow> proc \<Rightarrow> ('d, unit) prog" where
  \<comment> \<open>wait for a process that was started at a given time\<close>
  "wait_for since p = (case takes p of
      None \<Rightarrow> runningM
    | Some d \<Rightarrow> modM (\<lambda>s. s\<lparr>clock := max (clock s) (since + d)\<rparr>))"

definition read_ping :: "ping_cfg \<Rightarrow> running \<Rightarrow> string \<Rightarrow> ping_process \<Rightarrow> (running \<times> bool) outcome" where
  \<comment> \<open>whether a finished process counts as an answer; a later read goes on behind the lines read here\<close>
  "read_ping C p target q =
     (if exit_code (process q) = 0 then
        bindO (received (unread q)) (\<lambda>(good, ls).
          Ret ((target, Some (q\<lparr>unread := ls\<rparr>)) # p, good \<ge> good_required C))
      else Ret (p, False))"

definition collect_ping :: "ping_cfg \<Rightarrow> running \<times> int \<Rightarrow> string \<Rightarrow> ('d, running \<times> int) prog" where
  \<comment> \<open>one turn of the second loop, which counts the targets that failed\<close>
  "collect_ping C pf target = (case map_of (fst pf) target of
      Some (Some q) \<Rightarrow>
        seqM (wait_for (began q) (process q))
          (bindM (liftM (read_ping C (fst pf) target q)) (\<lambda>(p', answered).
             retM (p', if answered then snd pf else snd pf + 1)))
    | Some None \<Rightarrow>
        seqM (logM (''ping target '' @ target @ '' failed on OS level'')) (retM (fst pf, snd pf + 1))
    | None \<Rightarrow> raiseM (KeyError target))"

definition read_cfg :: "('d, ping_cfg) prog" where
  "read_cfg =
     bindM (intoptM ''--ping-timeout'') (\<lambda>t.
     bindM (intoptM ''--ping-count'') (\<lambda>n.
     bindM (intoptM ''--ping-interval'') (\<lambda>i.
     bindM (intoptM ''--ping-good-count'') (\<lambda>g.
     bindM (intoptM ''--ping-maxfail'') (\<lambda>m.
       retM \<lparr>timeout = t, pings = n, interval = i, good_required = g, maxfail = m\<rparr>)))))"

definition ping_test :: "ping_paths \<Rightarrow> 'd tools \<Rightarrow> ('d, bool) prog" where
  "ping_test P tool =
     bindM (optM ''--action'') (\<lambda>action.
       if action = PStr ''on'' then retM True
       else bindM (getM opts) (\<lambda>od.
         if od ''--ping-targets'' = None \<or> od ''--ping-targets'' = Some (PStr [])
         then seqM (logM ''ping target required'') (retM False)
         else bindM read_cfg (\<lambda>C.
              bindM (stroptM ''--ping-targets'') (\<lambda>text.
              let targets = py_split '','' text in
              bindM (foldM (start_ping P tool C) [] targets) (\<lambda>p.
              bindM (foldM (collect_ping C) (p, 0) targets) (\<lambda>pf.
                retM (snd pf \<le> maxfail C)))))))"

definition fns_ping :: "ping_paths \<Rightarrow> 'd tools \<Rightarrow> 'd power_fns" where
  "fns_ping P tool = \<lparr>set_power_fn = None, get_power_fn = None, get_outlet_list = None,
     reboot_cycle_fn = Some (ping_test P tool), sync_set_power_fn = Some (ping_test P tool)\<rparr>"

section \<open>The main function\<close>

definition new_opts_ping :: "(string \<times> optdef) list" where
  "new_opts_ping =
    [(''ping_count'', \<lparr>o_getopt = '':'', o_longopt = Some ''ping-count'',
        o_help = ''--ping-count=[number]          Number of ping-probes to send'',
        o_required = Some ''0'', o_shortdesc = Some ''The number of ping-probes that is being sent per target'',
        o_type = None, o_default = Some (PStr ''10''), o_choices = None, o_order = 1\<rparr>),
     (''ping_good_count'', \<lparr>o_getopt = '':'', o_longopt = Some ''ping-good-count'',
        o_help = ''--ping-good-count=[number]     Number of positive ping-probes required'',
        o_required = Some ''0'', o_shortdesc = Some ''The number of positive ping-probes required to account a target as available'',
        o_type = None, o_default = Some (PStr ''8''), o_choices = None, o_order = 1\<rparr>),
     (''ping_interval'', \<lparr>o_getopt = '':'', o_longopt = Some ''ping-interval'',
        o_help = ''--ping-interval=[seconds]      Seconds between ping-probes'',
        o_required = Some ''0'', o_shortdesc = Some ''The interval in seconds between ping-probes'',
        o_type = None, o_default = Some (PStr ''1''), o_choices = None, o_order = 1\<rparr>),
     (''ping_timeout'', \<lparr>o_getopt = '':'', o_longopt = Some ''ping-timeout'',
        o_help = ''--ping-timeout=[seconds]       Timeout for individual ping-probes'',
        o_required = Some ''0'', o_shortdesc = Some ''The timeout in seconds till an individual ping-probe is accounted as lost'',
        o_type = None, o_default = Some (PStr ''2''), o_choices = None, o_order = 1\<rparr>),
     (''ping_maxfail'', \<lparr>o_getopt = '':'', o_longopt = Some ''ping-maxfail'',
        o_help = ''--ping-maxfail=[number]        Number of failed ping-targets allowed'',
        o_required = Some ''0'', o_shortdesc = Some ''The number of failed ping-targets to still account as overall success'',
        o_type = None, o_default = Some (PStr ''0''), o_choices = None, o_order = 1\<rparr>),
     (''ping_targets'', \<lparr>o_getopt = '':'', o_longopt = Some ''ping-targets'',
        o_help = ''--ping-targets=tgt1,[inet6:]tgt2  Comma separated list of ping-targets'',
        o_required = Some ''1'', o_shortdesc = Some (''A comma separated list of ping-targets (optionally prepended by '' @ [CHR 0x27] @ ''inet:'' @ [CHR 0x27] @ '' or '' @ [CHR 0x27] @ ''inet6:'' @ [CHR 0x27] @ '') to be probed''),
        o_type = None, o_default = Some (PStr []), o_choices = None, o_order = 1\<rparr>)]"

definition device_opt_ping :: "string list" where
  "device_opt_ping = [''no_status'', ''no_password'', ''ping_count'', ''ping_good_count'', ''ping_interval'',
     ''ping_timeout'', ''ping_maxfail'', ''ping_targets'', ''method'']"

definition docs_ping :: docs where
  "docs_ping = \<lparr>agent_name = None, shortdesc = ''Fence agent for ping-heuristic based fencing'',
     longdesc = ''fence_heuristics_ping uses ping-heuristics to control execution of another fence agent on the same fencing level.''
       @ nl @ ''.P'' @ nl @ ''This is not a fence agent by itself! Its only purpose is to enable/disable another fence agent that lives on the same fencing level but after fence_heuristics_ping.'',
     vendorurl = Some [], symlink = []\<rparr>"

definition max_pingcheck :: "('w, int) prog" where
  "max_pingcheck =
     bindM (intoptM ''--ping-count'') (\<lambda>n.
     bindM (intoptM ''--ping-interval'') (\<lambda>i.
     bindM (intoptM ''--ping-timeout'') (\<lambda>t. retM ((n - 1) * i + t))))"

definition main_ping where
  "main_ping P tool set_order time_start fuel =
     seqM (on_lib (add_opts new_opts_ping))
    (seqM (on_lib (set_default ''method'' (PStr ''cycle'')))
    (seqM (on_lib (set_help ''method'' ''-m, --method=[method]          Method to fence (cycle|onoff) (Default: cycle)''))
    (seqM (on_lib (read_options device_opt_ping False))
    (seqM (on_lib (show_docs set_order (Some docs_ping)))
    (bindM max_pingcheck (\<lambda>reserve.
     seqM (run_delay time_start (of_int reserve) 0)
    (bindM (on_dev (fence_action fuel (fns_ping P tool))) (\<lambda>result.
     seqM (run_delay time_start 0 result)
          (exitM result)))))))))"

section \<open>What a test decides\<close>

text \<open>
  The network as the test sees it: \<open>reply\<close> gives for the words of a command the process it
  starts, if any. A target answers when its process ends with exit code 0 and reports enough
  packets.
\<close>

definition ping_words :: "ping_paths \<Rightarrow> ping_cfg \<Rightarrow> string \<Rightarrow> string list outcome option" where
  "ping_words P C target = map_option (\<lambda>pt. shlex_split (ping_cmd C pt)) (ping_target P target)"

definition ping_reply :: "ping_paths \<Rightarrow> (string list \<Rightarrow> proc option) \<Rightarrow> ping_cfg \<Rightarrow> string \<Rightarrow> proc option" where
  "ping_reply P reply C target = (case ping_words P C target of Some (Ret args) \<Rightarrow> reply args | _ \<Rightarrow> None)"

definition good_answer :: "ping_cfg \<Rightarrow> proc \<Rightarrow> bool" where
  "good_answer C q \<longleftrightarrow> exit_code q = 0 \<and> (case received (out_lines (stdout q)) of
      Ret (good, _) \<Rightarrow> good \<ge> good_required C | _ \<Rightarrow> False)"

definition answers :: "ping_paths \<Rightarrow> (string list \<Rightarrow> proc option) \<Rightarrow> ping_cfg \<Rightarrow> string \<Rightarrow> bool" where
  "answers P reply C target \<longleftrightarrow> (case ping_reply P reply C target of None \<Rightarrow> False | Some q \<Rightarrow> good_answer C q)"

text \<open>The command of a target can be split, its process ends and prints a count that is a number.\<close>

definition conclusive :: "ping_paths \<Rightarrow> (string list \<Rightarrow> proc option) \<Rightarrow> ping_cfg \<Rightarrow> string \<Rightarrow> bool" where
  "conclusive P reply C target \<longleftrightarrow>
     (case ping_words P C target of None \<Rightarrow> True | Some (Ret _) \<Rightarrow> True | _ \<Rightarrow> False) \<and>
     (case ping_reply P reply C target of None \<Rightarrow> True | Some q \<Rightarrow> takes q \<noteq> None \<and>
        (exit_code q = 0 \<longrightarrow> (case received (out_lines (stdout q)) of Ret _ \<Rightarrow> True | _ \<Rightarrow> False)))"

definition ping_entry ::
  "ping_paths \<Rightarrow> (string list \<Rightarrow> proc option) \<Rightarrow> ping_cfg \<Rightarrow> rat \<Rightarrow> string \<Rightarrow> ping_process option" where
  "ping_entry P reply C now target =
     map_option (\<lambda>q. \<lparr>began = now, process = q, unread = out_lines (stdout q)\<rparr>) (ping_reply P reply C target)"

abbreviation replies :: "(string list \<Rightarrow> proc option) \<Rightarrow> 'd tools" where
  "replies reply \<equiv> \<lambda>args d. (reply args, d)"

lemma start_ping_run:
  "conclusive P reply C t \<Longrightarrow>
     start_ping P (replies reply) C p t s = (Ret ((t, ping_entry P reply C (clock s) t) # p), s)"
  by (auto simp: start_ping_def conclusive_def ping_words_def ping_reply_def ping_entry_def start_def run_simps
      bindM_def split: option.splits outcome.splits)

lemma start_all_run:
  "list_all (conclusive P reply C) ts \<Longrightarrow>
     foldM (start_ping P (replies reply) C) p ts s =
       (Ret (rev (map (\<lambda>t. (t, ping_entry P reply C (clock s) t)) ts) @ p), s)"
  by (induction ts arbitrary: p) (simp_all add: run_simps bindM_step(1) [OF start_ping_run])

lemma collect_ping_run:
  assumes "conclusive P reply C t" and "map_of p t = Some (ping_entry P reply C now t)"
  shows "\<exists>q s'. collect_ping C (p, n) t s = (Ret (q, if answers P reply C t then n else n + 1), s') \<and>
    opts s' = opts s \<and> (\<forall>u. u \<noteq> t \<longrightarrow> map_of q u = map_of p u)"
  using assms
  by (auto simp: collect_ping_def conclusive_def ping_entry_def answers_def good_answer_def read_ping_def wait_for_def
      run_simps bindM_def split: option.splits outcome.splits prod.splits)

lemma collect_all_run:
  "list_all (conclusive P reply C) ts \<Longrightarrow> distinct ts \<Longrightarrow>
   (\<forall>t\<in>set ts. map_of p t = Some (ping_entry P reply C now t)) \<Longrightarrow>
     \<exists>q s'. foldM (collect_ping C) (p, n) ts s =
       (Ret (q, n + int (length (filter (\<lambda>t. \<not> answers P reply C t) ts))), s') \<and> opts s' = opts s"
proof (induction ts arbitrary: p n s)
  case Nil
  then show ?case by (simp add: run_simps)
next
  case (Cons t ts)
  then obtain q s1 where one: "collect_ping C (p, n) t s = (Ret (q, if answers P reply C t then n else n + 1), s1)"
    and keep: "opts s1 = opts s" "\<forall>u. u \<noteq> t \<longrightarrow> map_of q u = map_of p u"
    using collect_ping_run [of P reply C t p now n s] by auto
  have "\<forall>u\<in>set ts. map_of q u = Some (ping_entry P reply C now u)" using Cons.prems keep(2) by auto
  from Cons.IH [OF _ _ this, of "if answers P reply C t then n else n + 1" s1] Cons.prems
  obtain q' s2 where "foldM (collect_ping C) (q, if answers P reply C t then n else n + 1) ts s1 =
     (Ret (q', (if answers P reply C t then n else n + 1) + int (length (filter (\<lambda>t. \<not> answers P reply C t) ts))), s2)"
    "opts s2 = opts s" using keep(1) by auto
  then show ?case using one by (auto simp: bindM_def)
qed

lemma map_of_entries:
  "t \<in> set ts \<Longrightarrow> map_of (rev (map (\<lambda>t. (t, f t)) ts)) t = Some (f t)"
  by (simp add: rev_map map_of_map_keys [of "rev ts", symmetric] map_of_map_restrict)

text \<open>What a test needs of the options.\<close>

definition ping_options :: "pydict \<Rightarrow> ping_cfg \<Rightarrow> string \<Rightarrow> bool" where
  "ping_options od C text \<longleftrightarrow> int_opt od ''--ping-timeout'' = Some (timeout C) \<and>
     int_opt od ''--ping-count'' = Some (pings C) \<and> int_opt od ''--ping-interval'' = Some (interval C) \<and>
     int_opt od ''--ping-good-count'' = Some (good_required C) \<and> int_opt od ''--ping-maxfail'' = Some (maxfail C) \<and>
     od ''--ping-targets'' = Some (PStr text) \<and> text \<noteq> []"

lemma read_cfg_run: "ping_options (opts s) C text \<Longrightarrow> read_cfg s = (Ret C, s)"
  by (simp add: read_cfg_def ping_options_def run_simps)

lemma ping_test_run:
  assumes "ping_options (opts s) C text" "opts s ''--action'' = Some (PStr a)" "a \<noteq> ''on''"
    and "list_all (conclusive P reply C) (py_split '','' text)" "distinct (py_split '','' text)"
  shows "\<exists>s'. ping_test P (replies reply) s =
    (Ret (int (length (filter (\<lambda>t. \<not> answers P reply C t) (py_split '','' text))) \<le> maxfail C), s') \<and> opts s' = opts s"
proof -
  let ?p = "rev (map (\<lambda>t. (t, ping_entry P reply C (clock s) t)) (py_split '','' text))"
  from collect_all_run [OF assms(4,5), of ?p "clock s" 0 s] obtain q s' where
    "foldM (collect_ping C) (?p, 0) (py_split '','' text) s =
      (Ret (q, int (length (filter (\<lambda>t. \<not> answers P reply C t) (py_split '','' text)))), s')" "opts s' = opts s"
    by (auto simp: map_of_entries)
  moreover have "opts s ''--ping-targets'' = Some (PStr text)" "text \<noteq> []" using assms(1) by (auto simp: ping_options_def)
  ultimately show ?thesis using assms(2,3)
    by (auto simp: ping_test_def run_simps bindM_def read_cfg_run [OF assms(1)] Let_def start_all_run [OF assms(4)])
qed

section \<open>The test as a callback\<close>

lemma agrees_start [agrees_intro]: "agrees (start tool args)"
  by (auto simp: agrees_def ret_iff)

lemma agrees_ping_test: "agrees (ping_test P tool)"
  unfolding ping_test_def read_cfg_def start_ping_def collect_ping_def wait_for_def
  by (intro agrees_intro) auto

interpretation ping: sync_callback "ping_test P tool" for P tool
  by unfold_locales (rule agreesD [OF agrees_ping_test])

lemma sync_off_run:
  assumes "opts s ''--action'' = Some (PStr ''off'')" "opts s ''--plug'' = None" "opts s ''--plugs'' = None"
    and "opts s ''device_opt'' = Some (PList names)" "''no_status'' \<in> set names"
    and "int_opt (opts s) ''--power-wait'' = Some w" "0 \<le> w"
    and "ping_test P tool (s\<lparr>opts := plug_opts [] (opts s)\<rparr>) = (Ret b, s1)"
  shows "fst (fence_action fuel (fns_ping P tool) s) = (if b then Ret 0 else Exit 1)"
proof -
  have agree: "agree (opts s) (opts s1)" by (rule ping.plug_call_agree [OF assms(8)])
  have "retry_until (nat 1) (ping_test P tool) (s\<lparr>opts := plug_opts [] (opts s)\<rparr>) = (Ret b, s1)"
    using assms(8) by (auto simp: bindM_def run_simps)
  then have "sync_set_multi_power_fn (ping_test P tool) 1 s = (Ret b, s1\<lparr>clock := clock s1 + of_int w\<rparr>)"
    using assms(3,6,7) agree_facts [OF agree]
    by (simp add: sync_set_multi_power_fn_def plugs_of_def run_simps bindM_def)
  then show ?thesis using assms(1-5)
    by (simp add: fence_action_def tryM_def fence_body_def split_plugs_def is_list_action_def read_status_def device_optM_def
        already_done_def perform_def do_off_def switch_def set_multi_power_fn_def fns_ping_def run_simps bindM_def
        fail_def fail_message_def EC_defs status_val_def)
qed

end
