(* ===== verification/Ping_Guarantees.thy ===== *)
theory Ping_Guarantees
  imports Fence_Heuristics_Ping
begin

text \<open>The properties of fence\_heuristics\_ping, with a simulated network for the witness.\<close>







lemma split_takeWhile: "\<exists>rest. py_split [c] t = takeWhile (\<lambda>x. x \<noteq> c) t # rest"
  by (induction t) (auto simp: py_split_sing)

text \<open>
  An address with colons is cut at its first colon: the IPv6 ping program is given only what
  precedes it (for the target \<open>inet6:fe80::1\<close> the text \<open>fe80\<close>), since the code takes the second of
  the parts the target is split into and not all that follows the prefix.
\<close>

theorem ipv6_target_truncated:
  "ping_target P (''inet6:'' @ address) =
     (if PING6_CMD P = [] then None else Some (PING6_CMD P, takeWhile (\<lambda>c. c \<noteq> CHR '':'') address))"
proof -
  obtain rest where "py_split '':'' address = takeWhile (\<lambda>c. c \<noteq> CHR '':'') address # rest"
    using split_takeWhile by blast
  then show ?thesis by (simp add: ping_target_def mangled_def py_startswith_def py_split_sing)
qed

end
