(* ===== verification/Md5.thy ===== *)
theory Md5
  imports Py_String "HOL-Library.Word"
begin

text \<open>
  \<open>hashlib.md5(text).hexdigest()\<close> on ASCII text, over 32-bit words: the SCSI agents derive the
  keys of nodes and clusters from it.
\<close>

unbundle bit_operations_syntax

definition md5_shifts :: "nat list" where
  "md5_shifts = concat (map (\<lambda>r. concat (replicate 4 r))
     [[7, 12, 17, 22], [5, 9, 14, 20], [4, 11, 16, 23], [6, 10, 15, 21]])"

definition md5_consts :: "32 word list" where
  "md5_consts =
    [0xD76AA478, 0xE8C7B756, 0x242070DB, 0xC1BDCEEE, 0xF57C0FAF, 0x4787C62A,
     0xA8304613, 0xFD469501, 0x698098D8, 0x8B44F7AF, 0xFFFF5BB1, 0x895CD7BE,
     0x6B901122, 0xFD987193, 0xA679438E, 0x49B40821, 0xF61E2562, 0xC040B340,
     0x265E5A51, 0xE9B6C7AA, 0xD62F105D, 0x02441453, 0xD8A1E681, 0xE7D3FBC8,
     0x21E1CDE6, 0xC33707D6, 0xF4D50D87, 0x455A14ED, 0xA9E3E905, 0xFCEFA3F8,
     0x676F02D9, 0x8D2A4C8A, 0xFFFA3942, 0x8771F681, 0x6D9D6122, 0xFDE5380C,
     0xA4BEEA44, 0x4BDECFA9, 0xF6BB4B60, 0xBEBFBC70, 0x289B7EC6, 0xEAA127FA,
     0xD4EF3085, 0x04881D05, 0xD9D4D039, 0xE6DB99E5, 0x1FA27CF8, 0xC4AC5665,
     0xF4292244, 0x432AFF97, 0xAB9423A7, 0xFC93A039, 0x655B59C3, 0x8F0CCC92,
     0xFFEFF47D, 0x85845DD1, 0x6FA87E4F, 0xFE2CE6E0, 0xA3014314, 0x4E0811A1,
     0xF7537E82, 0xBD3AF235, 0x2AD7D2BB, 0xEB86D391]"

definition md5_mix :: "nat \<Rightarrow> 32 word \<Rightarrow> 32 word \<Rightarrow> 32 word \<Rightarrow> 32 word \<times> nat" where
  \<comment> \<open>the function of the round and the index of the message word it takes\<close>
  "md5_mix i b c d =
     (if i < 16 then ((b AND c) OR (NOT b AND d), i)
      else if i < 32 then ((d AND b) OR (NOT d AND c), (5 * i + 1) mod 16)
      else if i < 48 then (b XOR c XOR d, (3 * i + 5) mod 16)
      else (c XOR (b OR NOT d), (7 * i) mod 16))"

type_synonym md5_state = "32 word \<times> 32 word \<times> 32 word \<times> 32 word"

definition md5_step :: "32 word list \<Rightarrow> nat \<Rightarrow> md5_state \<Rightarrow> md5_state" where
  "md5_step m i = (\<lambda>(a, b, c, d).
     let (f, g) = md5_mix i b c d
     in (d, b + word_rotl (md5_shifts ! i) (f + a + md5_consts ! i + m ! g), b, c))"

definition md5_block :: "32 word list \<Rightarrow> md5_state \<Rightarrow> md5_state" where
  "md5_block m st = (case (st, fold (md5_step m) [0..<64] st) of
     ((a0, b0, c0, d0), (a, b, c, d)) \<Rightarrow> (a0 + a, b0 + b, c0 + c, d0 + d))"

fun groups_of :: "nat \<Rightarrow> 'a list \<Rightarrow> 'a list list" where
  "groups_of n xs = (if n = 0 \<or> xs = [] then [] else take n xs # groups_of n (drop n xs))"

declare groups_of.simps [simp del]

definition le_word :: "int list \<Rightarrow> 32 word" where
  \<comment> \<open>four bytes, the least significant first\<close>
  "le_word bs = word_of_int (foldr (\<lambda>x n. x + 256 * n) bs 0)"

fun le_bytes :: "nat \<Rightarrow> int \<Rightarrow> int list" where
  "le_bytes 0 x = []"
| "le_bytes (Suc n) x = x mod 256 # le_bytes n (x div 256)"

definition md5_pad :: "int list \<Rightarrow> int list" where
  "md5_pad bs = bs @ 128 # replicate (nat ((55 - int (length bs)) mod 64)) 0 @ le_bytes 8 (8 * int (length bs))"

definition md5_bytes :: "int list \<Rightarrow> int list" where
  "md5_bytes bs =
     (case fold (\<lambda>blk. md5_block (map le_word (groups_of 4 blk))) (groups_of 64 (md5_pad bs))
         (0x67452301, 0xEFCDAB89, 0x98BADCFE, 0x10325476) of
       (a, b, c, d) \<Rightarrow> concat (map (\<lambda>x. le_bytes 4 (uint x)) [a, b, c, d]))"

definition md5_hex :: "string \<Rightarrow> string" where
  "md5_hex t = concat (map (\<lambda>x. [hex_digit (nat (x div 16)), hex_digit (nat (x mod 16))]) (md5_bytes (map of_char t)))"

section \<open>Shape of the digest\<close>

lemma length_le_bytes [simp]: "length (le_bytes n x) = n"
  by (induction n x rule: le_bytes.induct) auto

lemma length_md5_pad: "64 dvd length (md5_pad bs)"
proof -
  have "(int (length bs) + 9 + (55 - int (length bs)) mod 64) mod 64 = (int (length bs) + 9 + (55 - int (length bs))) mod 64"
    by (rule mod_add_right_eq)
  also have "\<dots> = 0" by simp
  finally have "int (length (md5_pad bs)) mod 64 = 0" by (simp add: md5_pad_def algebra_simps)
  then have "64 dvd int (length (md5_pad bs))" by (rule mod_0_imp_dvd)
  then show ?thesis by (metis int_dvd_int_iff of_nat_numeral)
qed

lemma length_md5_hex [simp]: "length (md5_hex t) = 32"
proof -
  have l: "length (md5_bytes bs) = 16" for bs
    by (simp add: md5_bytes_def length_concat split: prod.splits)
  have "length (concat (map (\<lambda>x. [f x, g x]) bs)) = 2 * length bs" for f g :: "int \<Rightarrow> char" and bs
    by (induction bs) auto
  then show ?thesis by (simp add: md5_hex_def l)
qed

end
