(* ===== verification/Fence_Scsi.thy ===== *)
theory Fence_Scsi
  imports Fence_Action_Props Run_Command Py_Regex Md5
begin

text \<open>
  \<open>agents/scsi/fence_scsi.py\<close>: fencing by SCSI-3 persistent reservations. The agent works by
  running \<open>sg_persist\<close>, \<open>sg_turs\<close>, \<open>vgs\<close> and \<open>corosync-cmapctl\<close>: what these programs do is the
  parameter \<open>tool\<close>, a function from the words of the command and the state of the storage to
  the process and the next state of the storage.

  The world holds the state of the storage, the files the agent reads and writes, and what it
  asks of the file system (kinds of paths, real paths, the slaves of a multipath device).
\<close>

section \<open>The world of the agent\<close>

datatype path_kind = Missing | BlockDevice | OtherPath

record 'd scsi_world =
  storage :: 'd
  sfiles :: "string \<rightharpoonup> string"
  swritable :: "string \<Rightarrow> bool"
  sdirs :: "string \<Rightarrow> bool"          \<comment> \<open>directories that exist\<close>
  smakeable :: "string \<Rightarrow> bool"      \<comment> \<open>directories that can be made\<close>
  kind :: "string \<Rightarrow> path_kind"
  realpath :: "string \<Rightarrow> string"
  listdir :: "string \<rightharpoonup> string list"
  reboots :: nat                      \<comment> \<open>calls of \<open>reboot(2)\<close>\<close>

type_synonym ('d, 'a) scsi = "('d scsi_world, 'a) prog"

definition STORE_PATH :: string where
  "STORE_PATH = ''@STORE_PATH@''"

section \<open>Running commands\<close>

definition spawn :: "'d tools \<Rightarrow> string list \<Rightarrow> ('d, proc option) scsi" where
  "spawn tool args s = (case tool args (storage (world s)) of
     (r, d) \<Rightarrow> (Ret r, s\<lparr>world := (world s)\<lparr>storage := d\<rparr>\<rparr>))"

definition run_cmd :: "'d tools \<Rightarrow> string \<Rightarrow> ('d, int \<times> string \<times> string) scsi" where
  "run_cmd tool cmd = run_command (spawn tool) cmd"

definition succeeds :: "'d tools \<Rightarrow> string \<Rightarrow> ('d, bool) scsi" where
  \<comment> \<open>\<open>not bool(run_cmd(options, cmd)["rc"])\<close>\<close>
  "succeeds tool cmd = bindM (run_cmd tool cmd) (\<lambda>(rc, _, _). retM (rc = 0))"

definition quoted :: "string \<Rightarrow> string" where
  "quoted t = [dquote] @ t @ [dquote]"

definition is_block_device :: "string \<Rightarrow> ('d, unit) scsi" where
  "is_block_device dev = bindM (getM (\<lambda>s. kind (world s) dev)) (\<lambda>k.
     seqM (if k = Missing then fail_usage (''Failed: device '' @ quoted dev @ '' does not exist'') True else retM ())
          (if k \<noteq> BlockDevice then fail_usage (''Failed: device '' @ quoted dev @ '' is not a block device'') True
           else retM ()))"

definition reset_dev :: "'d tools \<Rightarrow> string \<Rightarrow> ('d, int) scsi" where
  "reset_dev tool dev = bindM (stroptM ''--sg_turs-path'') (\<lambda>turs.
     bindM (run_cmd tool (turs @ '' '' @ dev)) (\<lambda>(rc, _, _). retM rc))"

definition preempt_abort :: "'d tools \<Rightarrow> string \<Rightarrow> string \<Rightarrow> ('d, bool) scsi" where
  "preempt_abort tool host dev =
     seqM (reset_dev tool dev)
    (bindM (stroptM ''--sg_persist-path'') (\<lambda>sg.
     bindM (stroptM ''--key'') (\<lambda>key.
       succeeds tool (sg @ '' -n -o -A -T 5 -K '' @ host @ '' -S '' @ key @ '' -d '' @ dev))))"

definition preempt :: "'d tools \<Rightarrow> string \<Rightarrow> string \<Rightarrow> string \<Rightarrow> ('d, bool) scsi" where
  "preempt tool host_key dev key =
     seqM (reset_dev tool dev)
    (bindM (stroptM ''--sg_persist-path'') (\<lambda>sg.
       succeeds tool (sg @ '' -n -o -P -T 5 -K '' @ host_key @ '' -S '' @ key @ '' -d '' @ dev)))"

definition register_helper :: "'d tools \<Rightarrow> string \<Rightarrow> string \<Rightarrow> ('d, bool) scsi" where
  "register_helper tool dev key =
     seqM (reset_dev tool dev)
    (bindM (stroptM ''--sg_persist-path'') (\<lambda>sg.
     bindM (hasoptM ''--aptpl'') (\<lambda>aptpl.
       succeeds tool (sg @ '' -n -o -I -S '' @ key @ '' -d '' @ dev @ (if aptpl then '' -Z'' else [])))))"

definition reserve_dev :: "'d tools \<Rightarrow> string \<Rightarrow> ('d, bool) scsi" where
  "reserve_dev tool dev =
     seqM (reset_dev tool dev)
    (bindM (stroptM ''--sg_persist-path'') (\<lambda>sg.
     bindM (stroptM ''--key'') (\<lambda>key.
       succeeds tool (sg @ '' -n -o -R -T 5 -K '' @ key @ '' -d '' @ dev))))"

definition readonly_flag :: "('d, string) scsi" where
  "readonly_flag = bindM (hasoptM ''--readonly'') (\<lambda>r. retM (if r then ''-y '' else []))"

definition reservation_re :: re where
  "reservation_re = Seq (Plus Spc) (Seq (LitI ''key=0x'') (Seq (Grp 1 (Plus NonSpc)) (Plus Spc)))"

definition get_reservation_key :: "'d tools \<Rightarrow> bool \<Rightarrow> string \<Rightarrow> ('d, string option) scsi" where
  "get_reservation_key tool failing dev =
     seqM (reset_dev tool dev)
    (bindM readonly_flag (\<lambda>flag.
     bindM (stroptM ''--sg_persist-path'') (\<lambda>sg.
     bindM (run_cmd tool (sg @ '' -n -i '' @ flag @ ''-r -d '' @ dev)) (\<lambda>(rc, out, err).
       seqM (if rc \<noteq> 0 \<and> failing
             then fail_usage (''Cannot get reservation key on device '' @ quoted dev @ '': '' @ err) True else retM ())
            (retM (search_group reservation_re out))))))"

definition registration_re :: re where
  "registration_re = Seq (Plus Spc) (Seq (Lit ''0x'') (Seq (Grp 1 (Plus NonSpc)) (Star Spc)))"

definition parse_keys :: "string \<Rightarrow> string list" where
  "parse_keys out = List.map_filter (search_group registration_re) (py_split [CHR 0x0A] out)"

definition get_registration_keys :: "'d tools \<Rightarrow> bool \<Rightarrow> string \<Rightarrow> ('d, string list) scsi" where
  "get_registration_keys tool failing dev =
     seqM (reset_dev tool dev)
    (bindM readonly_flag (\<lambda>flag.
     bindM (stroptM ''--sg_persist-path'') (\<lambda>sg.
     bindM (run_cmd tool (sg @ '' -n -i '' @ flag @ ''-k -d '' @ dev)) (\<lambda>(rc, out, err).
       if rc \<noteq> 0 then
         seqM (fail_usage (''Cannot get registration keys on device '' @ quoted dev @ '': '' @ err) failing) (retM [])
       else retM (parse_keys out)))))"

section \<open>Multipath devices and registration\<close>

text \<open>The kernel stacks devices without cycles; the model follows a stack as deep as its fuel.\<close>

fun get_mpath_slaves :: "nat \<Rightarrow> string \<Rightarrow> ('d, string list) scsi" where
  "get_mpath_slaves 0 dev = runningM"
| "get_mpath_slaves (Suc n) dev =
     (let name = (if take 5 dev = ''/dev/'' then drop 5 dev else dev);
          path = ''/sys/block/'' @ name @ ''/slaves/''
      in bindM (getM (\<lambda>s. listdir (world s) path)) (\<lambda>r. case r of
          None \<Rightarrow> raiseM (OSErr path)
        | Some entries \<Rightarrow> (case filter (\<lambda>i. take 1 i \<noteq> ''.'') entries of
            [] \<Rightarrow> raiseM (IndexError ''list index out of range'')
          | first # others \<Rightarrow>
              if take 2 first = ''dm'' then get_mpath_slaves n first
              else retM (map (\<lambda>x. ''/dev/'' @ x) (first # others)))))"

definition register_single :: "'d tools \<Rightarrow> bool \<Rightarrow> string \<Rightarrow> string \<Rightarrow> ('d, bool) scsi" where
  \<comment> \<open>\<open>register_dev\<close> for a device that is not registered path by path\<close>
  "register_single tool do_preempt dev key =
     bindM (get_registration_keys tool True dev) (\<lambda>keys.
     bindM (register_helper tool dev key) (\<lambda>ok.
       if \<not> ok then retM False
       else if key \<in> set keys then
         bindM (if do_preempt then preempt tool key dev key else retM True) (\<lambda>preempted.
           if \<not> preempted then retM False
           else bindM (get_reservation_key tool False dev) (\<lambda>holder.
             if holder \<noteq> Some key then register_helper tool dev key else retM True))
       else retM True))"

fun register_dev :: "nat \<Rightarrow> 'd tools \<Rightarrow> bool \<Rightarrow> string \<Rightarrow> string \<Rightarrow> ('d, bool) scsi" where
  "register_dev 0 tool do_preempt dev0 key = runningM"
| "register_dev (Suc n) tool do_preempt dev0 key =
     bindM (getM (\<lambda>s. (opts s, realpath (world s) dev0))) (\<lambda>(od, dev).
       if od ''--mpath-register-method'' = Some (PStr ''multi'') \<and> py_startswith ''dm'' (drop 5 dev) then
         bindM (get_mpath_slaves n dev) (\<lambda>devices. case devices of
             [] \<Rightarrow> raiseM (IndexError ''list index out of range'')
           | first # others \<Rightarrow>
               seqM (register_dev n tool True first key)
              (seqM (forM others (\<lambda>device. seqM (register_dev n tool False device key) (retM ())))
                    (retM True)))
       else register_single tool do_preempt dev key)"

section \<open>The files of the agent\<close>

definition ensure_store_dir :: "string \<Rightarrow> ('d, unit) scsi" where
  "ensure_store_dir store = bindM (getM (\<lambda>s. (sdirs (world s) (dirname store), smakeable (world s) (dirname store))))
     (\<lambda>(there, makeable).
        if there then retM ()
        else if makeable then
          modM (\<lambda>s. s\<lparr>world := (world s)\<lparr>sdirs := (sdirs (world s))(dirname store := True)\<rparr>\<rparr>)
        else raiseM (OSErr (dirname store)))"

definition write_file :: "string \<Rightarrow> string \<Rightarrow> ('d, unit) scsi" where
  \<comment> \<open>open for writing and write, or fail\<close>
  "write_file path text = bindM (getM (\<lambda>s. swritable (world s) path)) (\<lambda>ok.
     if ok then modM (\<lambda>s. s\<lparr>world := (world s)\<lparr>sfiles := (sfiles (world s))(path \<mapsto> text)\<rparr>\<rparr>)
     else fail_usage (''Failed: Cannot open file '' @ quoted path) True)"

definition set_key :: "('d, unit) scsi" where
  "set_key = bindM (stroptM ''store_path'') (\<lambda>store.
     seqM (ensure_store_dir store)
    (bindM (stroptM ''--key'') (\<lambda>key.
       write_file (store @ ''.key'') (py_lower key @ [CHR 0x0A]))))"

definition first_line :: "string \<Rightarrow> string" where
  "first_line t = takeWhile (\<lambda>c. c \<noteq> CHR 0x0A) t"

definition get_key :: "bool \<Rightarrow> ('d, string option) scsi" where
  "get_key failing = bindM (getM (\<lambda>s. sfiles (world s) (STORE_PATH @ ''.key''))) (\<lambda>r. case r of
      None \<Rightarrow> seqM (fail_usage (''Failed: Cannot open file '' @ quoted (STORE_PATH @ ''.key'')) failing) (retM None)
    | Some t \<Rightarrow> retM (Some (py_lower (py_strip (first_line t)))))"

definition recorded_re :: "string \<Rightarrow> re" where
  "recorded_re dev = Seq Bol (Seq (Pasted dev) (Plus Spc))"

definition dev_write :: "string \<Rightarrow> ('d, unit) scsi" where
  "dev_write dev = bindM (stroptM ''store_path'') (\<lambda>store.
     seqM (ensure_store_dir store)
    (bindM (getM (\<lambda>s. case sfiles (world s) (store @ ''.dev'') of None \<Rightarrow> [] | Some t \<Rightarrow> t)) (\<lambda>out.
       write_file (store @ ''.dev'')
         (if re_search (recorded_re dev) out = None then out @ dev @ [CHR 0x0A] else out))))"

definition dev_read :: "bool \<Rightarrow> pydict option \<Rightarrow> ('d, string list option) scsi" where
  \<comment> \<open>\<open>opt\<close> is a dictionary or None; \<open>in\<close> on None raises TypeError\<close>
  "dev_read failing opt = bindM (getM (\<lambda>s. sfiles (world s) (STORE_PATH @ ''.dev''))) (\<lambda>r. case r of
      None \<Rightarrow> (case opt of
          None \<Rightarrow> raiseM (TypeError ''argument of type NoneType is not iterable'')
        | Some od \<Rightarrow>
            seqM (if od ''--suppress-errors'' = None
                  then fail_usage (''Failed: Cannot open file '' @ quoted (STORE_PATH @ ''.dev'')) failing else retM ())
                 (if \<not> failing then retM None else raiseM (OtherError ''UnboundLocalError'')))
    | Some t \<Rightarrow> retM (Some (filter (\<lambda>l. l \<noteq> []) (map py_strip (py_split [CHR 0x0A] t)))))"

section \<open>Keys and devices from the cluster\<close>

definition cluster_name_re :: re where
  "cluster_name_re = Seq (Lit ''(str) = '') (Seq (Grp 1 (Plus NonSpc)) (Lit nl))"

definition get_cluster_id :: "'d tools \<Rightarrow> ('d, string) scsi" where
  "get_cluster_id tool =
     bindM (stroptM ''--corosync-cmap-path'') (\<lambda>cmap.
     bindM (run_cmd tool (cmap @ '' totem.cluster_name'')) (\<lambda>(rc, out, err).
       case search_group cluster_name_re out of
         None \<Rightarrow> seqM (fail_usage ''Failed: cannot get cluster name'' True) (raiseM (AttributeError ''group''))
       | Some name \<Rightarrow> retM (md5_hex name)))"

definition node_name_re :: "string \<Rightarrow> re" where
  "node_name_re plug = Seq Any (Seq (Grp 1 (Plus Dig)) (Seq Any (Seq (Lit ''name (str) = '') (Seq (Pasted plug) (Lit nl)))))"

definition node_addr_re :: "string \<Rightarrow> re" where
  "node_addr_re plug = Seq Any (Seq (Grp 1 (Plus Dig)) (Seq Any
     (Seq (Lit ''ring'') (Seq Any (Seq (Lit ''_addr (str) = '') (Seq (Pasted plug) (Lit nl)))))))"

definition get_node_id :: "'d tools \<Rightarrow> ('d, string) scsi" where
  "get_node_id tool =
     bindM (stroptM ''--corosync-cmap-path'') (\<lambda>cmap.
     bindM (run_cmd tool (cmap @ '' nodelist'')) (\<lambda>(rc, out, err).
     bindM (stroptM ''--plug'') (\<lambda>plug.
       case (case search_group (node_name_re plug) out of
               Some n \<Rightarrow> Some n
             | None \<Rightarrow> search_group (node_addr_re plug) out) of
         Some n \<Rightarrow> retM n
       | None \<Rightarrow> seqM (fail_usage ''Failed: unable to parse output of corosync-cmapctl or node does not exist'' True)
                      (raiseM (TypeError ''int'')))))"

definition get_node_hash :: "('d, string) scsi" where
  "get_node_hash = bindM (stroptM ''--plug'') (\<lambda>plug. retM (md5_hex plug))"

definition four_digits :: "int \<Rightarrow> string" where
  \<comment> \<open>\<open>"%.4d" % n\<close>\<close>
  "four_digits n = (let t = show_int \<bar>n\<bar> in (if n < 0 then ''-'' else []) @ replicate (4 - length t) CHR ''0'' @ t)"

definition generate_key :: "'d tools \<Rightarrow> ('d, string) scsi" where
  "generate_key tool =
     bindM (optM ''--key-value'') (\<lambda>how.
     bindM (get_cluster_id tool) (\<lambda>cluster.
       if how = PStr ''hash'' then bindM get_node_hash (\<lambda>h. retM (take 4 cluster @ take 4 h))
       else bindM (get_node_id tool) (\<lambda>n.
            bindM (liftM (py_int (PStr n))) (\<lambda>i. retM (take 4 cluster @ four_digits i)))))"

definition shared_line :: "string \<Rightarrow> string option outcome" where
  \<comment> \<open>a line of \<open>vgs\<close>: the device if its volume group is shared or clustered\<close>
  "shared_line line = (case py_split '':'' (py_strip line) of
      [vg_attr, pv_name] \<Rightarrow>
        if length vg_attr \<le> 5 then Raise (IndexError ''string index out of range'')
        else Ret (if vg_attr ! 5 \<in> {CHR ''c'', CHR ''s''} then Some pv_name else None)
    | _ \<Rightarrow> Raise (ValueError ''wrong number of values to unpack''))"

definition vgs_args :: string where
  "vgs_args = ''--noheadings --separator : --sort pv_uuid --options vg_attr,pv_name --config '' @ [squote]
     @ ''global { locking_type = 0 } devices { preferred_names = [ '' @ [dquote] @ ''^/dev/dm'' @ [dquote] @ '' ] }'' @ [squote]"

definition get_shared_devices :: "'d tools \<Rightarrow> ('d, string list) scsi" where
  "get_shared_devices tool =
     bindM (stroptM ''--vgs-path'') (\<lambda>vgs.
     bindM (run_cmd tool (vgs @ '' '' @ vgs_args)) (\<lambda>(rc, out, err).
     seqM (if rc \<noteq> 0 then fail_usage ''Failed: Cannot get shared devices'' True else retM ())
       (foldM (\<lambda>devs line. bindM (liftM (shared_line line)) (\<lambda>r.
          retM (case r of None \<Rightarrow> devs | Some d \<Rightarrow> devs @ [d]))) [] (py_splitlines out))))"

section \<open>Monitoring\<close>

definition do_action_monitor :: "'d tools \<Rightarrow> ('d, int) scsi" where
  \<comment> \<open>\<open>dev_read\<close> is called without its options argument, which is None then\<close>
  "do_action_monitor tool =
     bindM (stroptM ''--sg_persist-path'') (\<lambda>sg.
     bindM (succeeds tool (sg @ '' -V'')) (\<lambda>sg_ok.
     if \<not> sg_ok then seqM (logM (''Unable to run '' @ sg)) (retM 1)
     else bindM (stroptM ''--sg_turs-path'') (\<lambda>turs.
     bindM (succeeds tool (turs @ '' -V'')) (\<lambda>turs_ok.
     if \<not> turs_ok then seqM (logM (''Unable to run '' @ turs)) (retM 1)
     else bindM (hasoptM ''--devices'') (\<lambda>given.
     bindM (if given then retM (True, [])
            else bindM (stroptM ''--vgs-path'') (\<lambda>vgs. bindM (succeeds tool (vgs @ '' --version'')) (\<lambda>ok. retM (ok, vgs))))
       (\<lambda>(vgs_ok, vgs).
     if \<not> vgs_ok then seqM (logM (''Unable to run '' @ vgs)) (retM 1)
     else seqM (get_key True) (seqM (dev_read True None) (retM 0))))))))"

section \<open>The watchdog check\<close>

definition sysconfig_re :: re where
  "sysconfig_re = Seq Bol (Seq (Star Spc) (Seq (Grp 1 (Star NonSpc)) (Seq (Star Spc) (Seq (Lit ''='')
     (Seq (Star Spc) (Seq (Grp 2 (Star NonSpc)) (Star Spc)))))))"

definition scsi_check_get_options :: "('d, unit) scsi" where
  "scsi_check_get_options = bindM (getM (\<lambda>s. sfiles (world s) ''/etc/sysconfig/stonith'')) (\<lambda>r. case r of
      None \<Rightarrow> retM ()
    | Some t \<Rightarrow> forM (re_findall sysconfig_re None t) (\<lambda>m.
        setoptM (py_lower (group 1 m)) (PStr (py_lower (group 2 m)))))"

definition check_defaults :: pydict where
  "check_defaults = [''--sg_turs-path'' \<mapsto> PStr ''@SG_TURS_PATH@'', ''--sg_persist-path'' \<mapsto> PStr ''@SG_PERSIST_PATH@'',
     ''--power-timeout'' \<mapsto> PStr ''5'', ''retry'' \<mapsto> PStr ''0'', ''retry-sleep'' \<mapsto> PStr ''1'']"

fun check_tries :: "('d, string list) scsi \<Rightarrow> string \<Rightarrow> nat \<Rightarrow> ('d, bool) scsi" where
  \<comment> \<open>the loop over the retries for one device, with the number of rounds left\<close>
  "check_tries read_keys key 0 = retM False"
| "check_tries read_keys key (Suc k) =
     bindM read_keys (\<lambda>keys.
       if key \<in> set keys then retM True
       else seqM (if k > 0 then bindM (optM ''retry-sleep'') (\<lambda>v. bindM (liftM (py_float_val v)) sleepM) else retM ())
                 (check_tries read_keys key k))"

fun check_devices :: "(string \<Rightarrow> ('d, string list) scsi) \<Rightarrow> (string \<times> string) list \<Rightarrow> ('d, bool) scsi" where
  \<comment> \<open>the loop over the devices and the key looked for on each\<close>
  "check_devices read_keys [] = retM False"
| "check_devices read_keys ((dev, key) # devs) =
     bindM (intoptM ''retry'') (\<lambda>retry.
     bindM (check_tries (read_keys dev) key (nat (retry + 1))) (\<lambda>found.
       if found then retM True else check_devices read_keys devs))"

definition scsi_check :: "'d tools \<Rightarrow> string list \<Rightarrow> bool \<Rightarrow> ('d, int) scsi" where
  \<comment> \<open>\<open>args\<close> is \<open>sys.argv[1:]\<close>\<close>
  "scsi_check tool args hardreboot =
     (if length args \<ge> 2 \<and> args ! 0 = ''repair'' then liftM (py_int (PStr (args ! 1)))
      else
        seqM (modM (\<lambda>s. s\<lparr>opts := check_defaults\<rparr>))
       (seqM scsi_check_get_options
       (bindM (getM opts) (\<lambda>od.
        bindM (dev_read False (Some od)) (\<lambda>devs.
          if devs = None \<or> devs = Some []
          then seqM (if od ''--suppress-errors'' = None then logM ''No devices found'' else retM ()) (retM 0)
          else bindM (get_key False) (\<lambda>key.
            if key = None \<or> key = Some [] then seqM (logM ''Key not found'') (retM 0)
            else bindM (check_devices (get_registration_keys tool False) (map (\<lambda>x. (x, the key)) (the devs))) (\<lambda>found.
              if found then retM 0
              else seqM (if hardreboot then modM (\<lambda>s. s\<lparr>world := (world s)\<lparr>reboots := reboots (world s) + 1\<rparr>\<rparr>)
                         else retM ())
                        (retM 2))))))))"

section \<open>Status and switching\<close>

definition devicesM :: "('d, string list) scsi" where
  "devicesM = bindM (optM ''devices'') (\<lambda>v. case v of PList l \<Rightarrow> retM l | _ \<Rightarrow> raiseM (TypeError ''devices''))"

fun status_loop :: "'d tools \<Rightarrow> string list \<Rightarrow> string \<Rightarrow> ('d, string option) scsi" where
  "status_loop tool [] status = retM (Some status)"
| "status_loop tool (dev # devs) status =
     seqM (is_block_device dev)
    (seqM (reset_dev tool dev)
    (bindM (stroptM ''--key'') (\<lambda>key.
     bindM (get_registration_keys tool True dev) (\<lambda>keys.
       if key \<in> set keys then status_loop tool devs ''on''
       else bindM (optM ''--action'') (\<lambda>action.
         if action = PStr ''on'' then retM (Some ''off'') else status_loop tool devs status)))))"

definition get_status :: "'d tools \<Rightarrow> ('d, string option) scsi" where
  "get_status tool = bindM devicesM (\<lambda>devs. status_loop tool devs ''off'')"

definition set_on_dev :: "nat \<Rightarrow> 'd tools \<Rightarrow> nat \<Rightarrow> string \<Rightarrow> ('d, nat) scsi" where
  \<comment> \<open>one round of the loop of the action on; the count of the devices that failed\<close>
  "set_on_dev fuel tool count dev =
     seqM (is_block_device dev)
    (bindM (stroptM ''--key'') (\<lambda>key.
     seqM (register_dev fuel tool True dev key)
    (bindM (get_registration_keys tool True dev) (\<lambda>keys.
       if key \<notin> set keys then retM (count + 1)
       else seqM (dev_write dev)
        (bindM (get_reservation_key tool True dev) (\<lambda>holder.
          if holder \<noteq> None then retM count
          else bindM (reserve_dev tool dev) (\<lambda>ok.
            if ok then retM count
            else bindM (get_reservation_key tool True dev) (\<lambda>again.
              retM (if again = None then count + 1 else count)))))))))"

definition fence_dev :: "nat \<Rightarrow> 'd tools \<Rightarrow> string \<Rightarrow> string \<Rightarrow> ('d, unit) scsi" where
  \<comment> \<open>the first loop of the action off: register the host and remove the key\<close>
  "fence_dev fuel tool host_key dev =
     seqM (is_block_device dev)
    (seqM (register_dev fuel tool True dev host_key)
    (bindM (stroptM ''--key'') (\<lambda>key.
     bindM (get_registration_keys tool True dev) (\<lambda>keys.
       if key \<in> set keys then seqM (preempt_abort tool host_key dev) (retM ()) else retM ()))))"

definition verify_dev :: "'d tools \<Rightarrow> nat \<Rightarrow> string \<Rightarrow> ('d, nat) scsi" where
  \<comment> \<open>the second loop of the action off: the key is gone and there is a reservation\<close>
  "verify_dev tool count dev =
     bindM (stroptM ''--key'') (\<lambda>key.
     bindM (get_registration_keys tool True dev) (\<lambda>keys.
       if key \<in> set keys then retM (count + 1)
       else bindM (get_reservation_key tool True dev) (\<lambda>holder.
         retM (if holder = None \<or> holder = Some [] then count + 1 else count))))"

definition finish_set :: "nat \<Rightarrow> ('d, unit) scsi" where
  "finish_set count = (if count \<noteq> 0
     then seqM (logM (''Failed to verify '' @ show_nat count @ '' device(s)'')) (exitM 1) else retM ())"

definition set_status :: "nat \<Rightarrow> 'd tools \<Rightarrow> ('d, unit) scsi" where
  "set_status fuel tool =
     bindM (optM ''--action'') (\<lambda>action.
       if action = PStr ''on'' then
         seqM set_key
        (bindM devicesM (\<lambda>devs.
         bindM (foldM (set_on_dev fuel tool) 0 devs) finish_set))
       else
         bindM (get_key True) (\<lambda>host.
         bindM (stroptM ''--key'') (\<lambda>key.
         let host_key = (case host of None \<Rightarrow> [] | Some h \<Rightarrow> h) in
         seqM (if host_key = py_lower key
               then fail_usage ''Failed: keys cannot be same. You can not fence yourself.'' True else retM ())
        (bindM devicesM (\<lambda>devs.
         seqM (forM devs (fence_dev fuel tool host_key))
        (bindM (foldM (verify_dev tool) 0 devs) finish_set))))))"

definition scsi_fns :: "nat \<Rightarrow> 'd tools \<Rightarrow> 'd scsi_world power_fns" where
  "scsi_fns fuel tool = \<lparr>set_power_fn = Some (set_status fuel tool), get_power_fn = Some (get_status tool),
     get_outlet_list = None, reboot_cycle_fn = None, sync_set_power_fn = None\<rparr>"

end
