(* ===== verification/Scsi_Props.thy ===== *)
theory Scsi_Props
  imports Fence_Scsi
begin

text \<open>
  The lemmas about fence\_scsi. What is relied on about \<open>sg_persist\<close> and \<open>sg_turs\<close> is the
  predicate \<open>pr_truthful\<close>: the reading commands change no registration and no reservation, and
  when they succeed they print the report of the storage in the format of \<open>sg_persist(8)\<close>.
\<close>

section \<open>Reports of the storage\<close>

definition report_head :: "string \<Rightarrow> bool" where
  \<comment> \<open>the first line of a report, such as "PR generation=0x8, 2 registered reservation keys follow:"\<close>
  "report_head h \<longleftrightarrow> (\<forall>c\<in>set h. is_space c \<longrightarrow> c = CHR '' '') \<and> py_find '' 0x'' h = None"

definition keys_report :: "string \<Rightarrow> string list \<Rightarrow> string" where
  \<comment> \<open>output of \<open>sg_persist -i -k\<close>\<close>
  "keys_report h keys = h @ nl @ concat (map (\<lambda>k. ''    0x'' @ k @ nl) keys)"

definition key_word :: "string \<Rightarrow> bool" where
  "key_word k \<longleftrightarrow> k \<noteq> [] \<and> list_all (\<lambda>c. \<not> is_space c) k"

definition no_key_text :: "string \<Rightarrow> bool" where
  \<comment> \<open>what \<open>sg_persist -i -r\<close> prints when no reservation is held\<close>
  "no_key_text t \<longleftrightarrow> py_find ''key=0x'' (py_lower t) = None"

section \<open>Reading a report back\<close>

lemma Star_Cls_run:
  "list_all p w \<Longrightarrow> (case ws of [] \<Rightarrow> True | c # _ \<Rightarrow> \<not> p c) \<Longrightarrow>
   re_match (Star (Cls p)) \<lparr>prev_char = b, rest = w @ ws, caps = cs\<rparr> =
     map (\<lambda>i. \<lparr>prev_char = (if i = 0 then b else Some (w ! (i - 1))), rest = drop i w @ ws, caps = cs\<rparr>)
       (rev [0..<Suc (length w)])"
proof (induction w arbitrary: b)
  case Nil
  then show ?case by (subst re_match.simps(6)) (auto split: list.splits)
next
  case (Cons c w)
  have idx: "rev [0..<Suc (length (c # w))] = map Suc (rev [0..<Suc (length w)]) @ [0]"
    by (simp add: rev_map [symmetric] map_Suc_upt upt_conv_Cons del: upt_Suc)
  show ?case
    using Cons.prems Cons.IH [of "Some c"] unfolding idx
    by (subst re_match.simps(6)) (auto simp: nth_Cons' comp_def simp del: upt_Suc)
qed

text \<open>The ways in which a pattern can match, as a set.\<close>

lemma cls_states:
  "st' \<in> set (re_match (Cls p) st) \<longleftrightarrow> (\<exists>c cs. rest st = c # cs \<and> p c \<and> st' = st\<lparr>prev_char := Some c, rest := cs\<rparr>)"
  by (cases "rest st") auto

lemma seq_states: "st' \<in> set (re_match (Seq a b) st) \<longleftrightarrow> (\<exists>x. x \<in> set (re_match a st) \<and> st' \<in> set (re_match b x))"
  by auto

lemma star_states:
  "st' \<in> set (re_match (Star a) st) \<longleftrightarrow> st' = st \<or>
     (\<exists>x. x \<in> set (re_match a st) \<and> length (rest x) < length (rest st) \<and> st' \<in> set (re_match (Star a) x))"
  by (subst re_match.simps(6)) auto

lemma star_cls_states:
  "st' \<in> set (re_match (Star (Cls p)) st) \<Longrightarrow> rest st = rest st' \<or> (\<exists>w c. rest st = w @ c # rest st' \<and> p c)"
proof (induction "length (rest st)" arbitrary: st rule: less_induct)
  case less
  show ?case
  proof (cases "st' = st")
    case False
    with less.prems obtain c cs where c: "rest st = c # cs" "p c"
      and st': "st' \<in> set (re_match (Star (Cls p)) (st\<lparr>prev_char := Some c, rest := cs\<rparr>))"
      by (subst (asm) star_states) (auto simp: cls_states simp del: re_match.simps(1))
    from less.hyps [OF _ st'] c consider "cs = rest st'" | w d where "cs = w @ d # rest st'" "p d" by auto
    then show ?thesis
    proof cases
      case 1
      with c show ?thesis by (intro disjI2 exI [of _ "[]"]) auto
    next
      case (2 w d)
      with c show ?thesis by (intro disjI2 exI [of _ "c # w"]) auto
    qed
  qed simp
qed

lemma plus_states:
  assumes "st' \<in> set (re_match (Plus (Cls p)) st)" shows "\<exists>w c. rest st = w @ c # rest st' \<and> p c"
proof -
  from assms obtain c cs where c: "rest st = c # cs" "p c"
    and st': "st' \<in> set (re_match (Star (Cls p)) (st\<lparr>prev_char := Some c, rest := cs\<rparr>))"
    unfolding Plus_def seq_states cls_states by auto
  from star_cls_states [OF st'] c consider "cs = rest st'" | w d where "cs = w @ d # rest st'" "p d" by auto
  then show ?thesis
  proof cases
    case 1
    with c show ?thesis by (intro exI [of _ "[]"]) auto
  next
    case (2 w d)
    with c show ?thesis by (intro exI [of _ "c # w"]) auto
  qed
qed

lemma lit_states: "st' \<in> set (re_match (Lit t) st) \<Longrightarrow> rest st = t @ rest st'"
proof (induction t arbitrary: st)
  case (Cons c t)
  then show ?case unfolding Lit_def foldr.simps comp_def seq_states cls_states by fastforce
qed (simp add: Lit_def)

lemma liti_states: "st' \<in> set (re_match (LitI t) st) \<Longrightarrow> \<exists>u. py_lower u = py_lower t \<and> rest st = u @ rest st'"
proof (induction t arbitrary: st)
  case Nil
  then show ?case by (auto simp: LitI_def)
next
  case (Cons c t)
  from Cons.prems obtain x xs where x: "rest st = x # xs" "lower_char x = lower_char c"
    and st': "st' \<in> set (re_match (LitI t) (st\<lparr>prev_char := Some x, rest := xs\<rparr>))"
    unfolding LitI_def foldr.simps comp_def seq_states cls_states by blast
  from Cons.IH [OF st'] obtain u where "py_lower u = py_lower t" "xs = u @ rest st'" by auto
  with x show ?case by (intro exI [of _ "x # u"]) (simp add: py_lower_def)
qed

lemma re_search_from_Some:
  "re_search_from r b t = Some st \<Longrightarrow> \<exists>u v b'. t = u @ v \<and> re_at r b' v = Some st"
proof (induction t arbitrary: b)
  case Nil
  then show ?case by auto
next
  case (Cons c t)
  show ?case
  proof (cases "re_at r b (c # t)")
    case None
    with Cons obtain u v b' where "t = u @ v" "re_at r b' v = Some st" by fastforce
    then show ?thesis by (intro exI [of _ "c # u"] exI [of _ v] exI [of _ b']) auto
  next
    case (Some x)
    with Cons.prems show ?thesis by (intro exI [of _ "[]"] exI [of _ "c # t"] exI [of _ b]) simp
  qed
qed

lemma re_at_in: "re_at r b t = Some st \<Longrightarrow> st \<in> set (re_match r \<lparr>prev_char = b, rest = t, caps = []\<rparr>)"
  by (auto simp: re_at_def split: list.splits)

lemma py_find_infix: "t \<noteq> [] \<Longrightarrow> py_find t (u @ t @ v) \<noteq> None"
proof (induction u)
  case Nil
  then show ?case by (cases t) (auto simp: py_startswith_def)
qed simp

lemma no_registration_in_head: "report_head h \<Longrightarrow> search_group registration_re h = None"
proof (rule ccontr)
  assume h: "report_head h" and "search_group registration_re h \<noteq> None"
  then obtain st where "re_search_from registration_re None h = Some st" by (auto simp: search_group_def re_search_def)
  then obtain u v b where v: "h = u @ v" "re_at registration_re b v = Some st" using re_search_from_Some by blast
  from re_at_in [OF v(2)] obtain x y where "x \<in> set (re_match (Plus (Cls is_space)) \<lparr>prev_char = b, rest = v, caps = []\<rparr>)"
    and "y \<in> set (re_match (Lit ''0x'') x)"
    unfolding registration_re_def seq_states Spc_def by blast
  then obtain w c where "v = w @ c # ''0x'' @ rest y" "is_space c" by (auto dest!: plus_states lit_states)
  with v(1) have "h = (u @ w) @ [c] @ ''0x'' @ rest y" by simp
  moreover from this h have "c = CHR '' ''" using \<open>is_space c\<close> unfolding report_head_def by auto
  ultimately show False using h py_find_infix [of "'' 0x''" "u @ w" "rest y"] by (simp add: report_head_def)
qed

lemma no_reservation_in_text: "no_key_text t \<Longrightarrow> search_group reservation_re t = None"
proof (rule ccontr)
  assume t: "no_key_text t" and "search_group reservation_re t \<noteq> None"
  then obtain st where "re_search_from reservation_re None t = Some st" by (auto simp: search_group_def re_search_def)
  then obtain u v b where v: "t = u @ v" "re_at reservation_re b v = Some st" using re_search_from_Some by blast
  from re_at_in [OF v(2)] obtain x y where "x \<in> set (re_match (Plus (Cls is_space)) \<lparr>prev_char = b, rest = v, caps = []\<rparr>)"
    and "y \<in> set (re_match (LitI ''key=0x'') x)"
    unfolding reservation_re_def seq_states Spc_def by blast
  then obtain w c k where "v = w @ c # k @ rest y" "py_lower k = py_lower ''key=0x''" by (auto dest!: plus_states liti_states)
  moreover have "py_lower ''key=0x'' = ''key=0x''" by code_simp
  ultimately have eq: "py_lower t = py_lower (u @ w @ [c]) @ ''key=0x'' @ py_lower (rest y)" using v(1) by (simp add: py_lower_def)
  have "py_find ''key=0x'' (py_lower t) \<noteq> None" unfolding eq by (rule py_find_infix) simp
  with t show False by (simp add: no_key_text_def)
qed

lemma key_line:
  assumes "key_word k" shows "search_group registration_re (''    0x'' @ k) = Some k"
proof -
  from assms obtain c w where k: "k = c # w" "\<not> is_space c" "list_all (\<lambda>c. \<not> is_space c) w"
    by (cases k) (auto simp: key_word_def)
  have sp: "is_space (CHR '' '')" "\<not> is_space (CHR ''0'')" "\<not> is_space (CHR ''x'')" by (simp_all add: is_space_def)
  have blanks: "re_match (Star (Cls is_space)) \<lparr>prev_char = b, rest = ''   0x'' @ k, caps = []\<rparr> =
      map (\<lambda>i. \<lparr>prev_char = (if i = 0 then b else Some (''   '' ! (i - 1))), rest = drop i ''   '' @ ''0x'' @ k, caps = []\<rparr>)
        [3, 2, 1, 0]" for b
    using Star_Cls_run [of is_space "''   ''" "''0x'' @ k" b "[]"] by (simp add: sp numeral_3_eq_3)
  have word: "re_match (Star (Cls (\<lambda>c. \<not> is_space c))) \<lparr>prev_char = b, rest = w, caps = []\<rparr> =
      map (\<lambda>i. \<lparr>prev_char = (if i = 0 then b else Some (w ! (i - 1))), rest = drop i w, caps = []\<rparr>)
        (length w # rev [0..<length w])" for b
    using Star_Cls_run [of "\<lambda>c. \<not> is_space c" w "[]" b "[]"] k(3) by simp
  have tail: "re_match (Star (Cls is_space)) \<lparr>prev_char = b, rest = [], caps = cs\<rparr> =
      [\<lparr>prev_char = b, rest = [], caps = cs\<rparr>]" for b cs
    by (subst re_match.simps(6)) simp
  have "re_at registration_re None (''    0x'' @ k) = Some st \<Longrightarrow> group 1 st = k" for st
    using blanks [of "Some (CHR '' '')"] k
    by (auto simp: re_at_def registration_re_def Plus_def Spc_def NonSpc_def Lit_def sp word tail group_def)
  moreover have "re_at registration_re None (''    0x'' @ k) \<noteq> None"
    using blanks [of "Some (CHR '' '')"] k
    by (simp add: re_at_def registration_re_def Plus_def Spc_def NonSpc_def Lit_def sp word tail)
  ultimately show ?thesis by (auto simp: search_group_def re_search_def)
qed

lemma py_split_field: "c \<notin> set w \<Longrightarrow> py_split [c] (w @ c # t) = w # py_split [c] t"
  by (induction w) (auto simp: py_split_sing)

lemma newline_space: "is_space (CHR 0x0A)"
  by (simp add: is_space_def)

lemma key_word_no_nl: "key_word k \<Longrightarrow> CHR 0x0A \<notin> set k"
  using newline_space by (auto simp: key_word_def list_all_iff)

lemma parse_key_lines:
  "list_all key_word keys \<Longrightarrow> parse_keys (concat (map (\<lambda>k. ''    0x'' @ k @ nl) keys)) = keys"
proof (induction keys)
  case Nil
  have "search_group registration_re [] = None" by code_simp
  then show ?case by (simp add: parse_keys_def py_split_sing map_filter_simps)
next
  case (Cons k keys)
  have "CHR 0x0A \<notin> set (''    0x'' @ k)" using Cons.prems by (simp add: key_word_no_nl)
  from py_split_field [OF this] have "py_split [CHR 0x0A] (''    0x'' @ k @ CHR 0x0A # t) = (''    0x'' @ k) # py_split [CHR 0x0A] t" for t
    by simp
  with Cons key_line [of k] show ?case by (simp add: parse_keys_def nl_def map_filter_simps)
qed

lemma keys_read_back:
  assumes "report_head h" "list_all key_word keys" shows "parse_keys (keys_report h keys) = keys"
proof -
  have "CHR 0x0A \<notin> set h" using assms(1) newline_space by (auto simp: report_head_def)
  from py_split_field [OF this] no_registration_in_head [OF assms(1)] parse_key_lines [OF assms(2)] show ?thesis
    by (simp add: parse_keys_def keys_report_def nl_def map_filter_simps)
qed

section \<open>What the agent relies on\<close>

definition pr_truthful ::
  "'d tools \<Rightarrow> string \<Rightarrow> string \<Rightarrow> ('d \<Rightarrow> string \<Rightarrow> string list) \<Rightarrow> ('d \<Rightarrow> string \<Rightarrow> string option) \<Rightarrow> bool" where
  \<comment> \<open>\<open>registered\<close> gives the keys registered with a device and \<open>held\<close> the key of its reservation\<close>
  "pr_truthful tool sg turs registered held \<longleftrightarrow>
     (\<forall>d x d' r. tool [turs, x] d = (r, d') \<longrightarrow> registered d' = registered d \<and> held d' = held d) \<and>
     (\<forall>d x flag d' r. flag \<in> {[], [''-y'']} \<longrightarrow> tool ([sg, ''-n'', ''-i''] @ flag @ [''-k'', ''-d'', x]) d = (r, d') \<longrightarrow>
        registered d' = registered d \<and> held d' = held d \<and>
        (\<forall>p. r = Some p \<longrightarrow> exit_code p = 0 \<longrightarrow> list_all key_word (registered d x) \<and>
           (\<exists>h. report_head h \<and> stdout p = keys_report h (registered d x)))) \<and>
     (\<forall>d x flag d' r. flag \<in> {[], [''-y'']} \<longrightarrow> tool ([sg, ''-n'', ''-i''] @ flag @ [''-r'', ''-d'', x]) d = (r, d') \<longrightarrow>
        registered d' = registered d \<and> held d' = held d \<and>
        (\<forall>p. r = Some p \<longrightarrow> exit_code p = 0 \<longrightarrow> held d x = None \<longrightarrow> no_key_text (stdout p)))"

definition scsi_ready :: "string \<Rightarrow> string \<Rightarrow> string \<Rightarrow> string list \<Rightarrow> 'd scsi_world st \<Rightarrow> bool" where
  \<comment> \<open>the options name the programs, the key and the devices\<close>
  "scsi_ready sg turs key devs s \<longleftrightarrow>
     opts s ''--sg_persist-path'' = Some (PStr sg) \<and> opts s ''--sg_turs-path'' = Some (PStr turs) \<and>
     opts s ''--key'' = Some (PStr key) \<and> opts s ''devices'' = Some (PList devs) \<and>
     plain sg \<and> plain turs \<and> list_all plain devs"

definition pr_view ::
  "('d \<Rightarrow> string \<Rightarrow> string list) \<Rightarrow> ('d \<Rightarrow> string \<Rightarrow> string option) \<Rightarrow> 'd scsi_world st \<Rightarrow>
     (string \<Rightarrow> string list) \<times> (string \<Rightarrow> string option)" where
  "pr_view registered held s = (registered (storage (world s)), held (storage (world s)))"

section \<open>Running the programs\<close>

lemma spawn_Ret [ret_iff]:
  "spawn tool args s = (Ret r, s') \<longleftrightarrow>
     (\<exists>d. tool args (storage (world s)) = (r, d) \<and> s' = s\<lparr>world := (world s)\<lparr>storage := d\<rparr>\<rparr>)"
  by (auto simp: spawn_def split: prod.splits)

lemma killed_Ret: "killed t p s = (Ret (rc, out, err), s') \<Longrightarrow> rc = -9 \<and> opts s' = opts s \<and> world s' = world s"
  by (auto simp: killed_def passM_def ret_iff)

lemma await_Ret:
  "await limit p s = (Ret (rc, out, err), s') \<Longrightarrow>
     opts s' = opts s \<and> world s' = world s \<and> (rc = 0 \<longrightarrow> exit_code p = 0 \<and> out = stdout p)"
  by (auto simp: await_def passM_def ret_iff split: option.splits if_splits dest!: killed_Ret)

lemma run_cmd_Ret:
  assumes "run_cmd tool cmd s = (Ret (rc, out, err), s')" "shlex_split cmd = Ret args"
  shows "\<exists>p d. tool args (storage (world s)) = (Some p, d) \<and> opts s' = opts s \<and>
    world s' = (world s)\<lparr>storage := d\<rparr> \<and> (rc = 0 \<longrightarrow> exit_code p = 0 \<and> out = stdout p)"
  using assms unfolding run_cmd_def run_command_def
  by (auto simp: ret_iff split: option.splits dest!: await_Ret)

lemma plain_flags:
  "plain ''-n''" "plain ''-i''" "plain ''-y''" "plain ''-k''" "plain ''-r''" "plain ''-d''"
  by (simp_all add: plain_def sh_space_def)

lemma reset_dev_reads:
  assumes "pr_truthful tool sg turs registered held" "scsi_ready sg turs key devs s" "plain x"
    and "reset_dev tool x s = (Ret rc, s')"
  shows "opts s' = opts s \<and> pr_view registered held s' = pr_view registered held s"
proof -
  have "shlex_split (turs @ '' '' @ x) = Ret [turs, x]"
    using shlex_split_plain [of "[turs, x]"] assms(2,3) by (simp add: scsi_ready_def)
  with assms(2,4) obtain r d where "tool [turs, x] (storage (world s)) = (r, d)" "opts s' = opts s"
    "world s' = (world s)\<lparr>storage := d\<rparr>"
    by (auto simp: reset_dev_def scsi_ready_def ret_iff dest!: run_cmd_Ret)
  with assms(1) show ?thesis unfolding pr_truthful_def pr_view_def by auto
qed

definition ro_flag :: "bool \<Rightarrow> string" where
  "ro_flag ro = (if ro then ''-y '' else [])"

lemma readonly_flag_Ret [ret_iff]:
  "readonly_flag s = (Ret flag, s') \<longleftrightarrow> s' = s \<and> flag = ro_flag (opts s ''--readonly'' \<noteq> None)"
  by (auto simp: readonly_flag_def ro_flag_def ret_iff)

lemma read_words:
  assumes "plain sg" "plain x" "plain q"
  shows "shlex_split (sg @ '' -n -i '' @ q @ '' -d '' @ x) = Ret ([sg, ''-n'', ''-i''] @ [] @ [q, ''-d'', x])"
    and "shlex_split (sg @ '' -n -i -y '' @ q @ '' -d '' @ x) = Ret ([sg, ''-n'', ''-i''] @ [''-y''] @ [q, ''-d'', x])"
  using shlex_split_plain [of "[sg, ''-n'', ''-i'', q, ''-d'', x]"]
    shlex_split_plain [of "[sg, ''-n'', ''-i'', ''-y'', q, ''-d'', x]"] assms
  by (simp_all add: plain_flags)

text \<open>A reading command, in either form.\<close>

lemma read_command_Ret:
  assumes "run_cmd tool (sg @ '' -n -i '' @ ro_flag ro @ q @ '' -d '' @ x) s = (Ret (rc, out, err), s')"
    and "plain sg" "plain x" "plain q"
  shows "\<exists>p d flag. flag \<in> {[], [''-y'']} \<and> tool ([sg, ''-n'', ''-i''] @ flag @ [q, ''-d'', x]) (storage (world s)) = (Some p, d) \<and>
    opts s' = opts s \<and> world s' = (world s)\<lparr>storage := d\<rparr> \<and> (rc = 0 \<longrightarrow> exit_code p = 0 \<and> out = stdout p)"
proof (cases ro)
  case True
  with assms(1) have "run_cmd tool (sg @ '' -n -i -y '' @ q @ '' -d '' @ x) s = (Ret (rc, out, err), s')" by (simp add: ro_flag_def)
  from run_cmd_Ret [OF this read_words(2) [OF assms(2-4)]] show ?thesis by blast
next
  case False
  with assms(1) have "run_cmd tool (sg @ '' -n -i '' @ q @ '' -d '' @ x) s = (Ret (rc, out, err), s')" by (simp add: ro_flag_def)
  from run_cmd_Ret [OF this read_words(1) [OF assms(2-4)]] show ?thesis by blast
qed

lemma pr_keysD:
  assumes "pr_truthful tool sg turs registered held" "flag \<in> {[], [''-y'']}"
    and "tool ([sg, ''-n'', ''-i''] @ flag @ [''-k'', ''-d'', x]) d = (Some p, d')"
  shows "registered d' = registered d" "held d' = held d" "exit_code p = 0 \<Longrightarrow> parse_keys (stdout p) = registered d x"
  using assms(1) [unfolded pr_truthful_def, THEN conjunct2, THEN conjunct1, rule_format, OF assms(2,3)]
  by (auto simp: keys_read_back)

lemma pr_heldD:
  assumes "pr_truthful tool sg turs registered held" "flag \<in> {[], [''-y'']}"
    and "tool ([sg, ''-n'', ''-i''] @ flag @ [''-r'', ''-d'', x]) d = (Some p, d')"
  shows "registered d' = registered d" "held d' = held d"
    "exit_code p = 0 \<Longrightarrow> search_group reservation_re (stdout p) = Some k \<Longrightarrow> \<exists>h. held d x = Some h"
  using assms(1) [unfolded pr_truthful_def, THEN conjunct2, THEN conjunct2, rule_format, OF assms(2,3)]
  by (auto simp: no_reservation_in_text intro: ccontr)

lemma get_registration_keys_Ret:
  assumes "get_registration_keys tool True x s = (Ret ks, s')"
  obtains rc s1 sg out err where "reset_dev tool x s = (Ret rc, s1)" "opts s1 ''--sg_persist-path'' = Some (PStr sg)"
    and "run_cmd tool (sg @ '' -n -i '' @ ro_flag (opts s1 ''--readonly'' \<noteq> None) @ ''-k'' @ '' -d '' @ x) s1 =
      (Ret (0, out, err), s')" and "ks = parse_keys out"
  using assms unfolding get_registration_keys_def
  by (auto simp: ret_iff split: if_splits)

lemma get_registration_keys_reads:
  assumes tool: "pr_truthful tool sg turs registered held" and ready: "scsi_ready sg turs key devs s" and x: "plain x"
    and "get_registration_keys tool True x s = (Ret ks, s')"
  shows "opts s' = opts s \<and> pr_view registered held s' = pr_view registered held s \<and> ks = fst (pr_view registered held s) x"
proof -
  obtain rc0 s1 sg' out err where reset: "reset_dev tool x s = (Ret rc0, s1)"
    and path: "opts s1 ''--sg_persist-path'' = Some (PStr sg')"
    and run: "run_cmd tool (sg' @ '' -n -i '' @ ro_flag (opts s1 ''--readonly'' \<noteq> None) @ ''-k'' @ '' -d '' @ x) s1 =
      (Ret (0, out, err), s')" and ks: "ks = parse_keys out"
    by (rule get_registration_keys_Ret [OF assms(4)])
  note r = reset_dev_reads [OF tool ready x reset]
  have "sg' = sg" using path r ready by (simp add: scsi_ready_def)
  note cmd = run [unfolded this]
  from read_command_Ret [OF cmd] ready x plain_flags obtain p d flag where flag: "flag \<in> {[], [''-y'']}"
    "tool ([sg, ''-n'', ''-i''] @ flag @ [''-k'', ''-d'', x]) (storage (world s1)) = (Some p, d)"
    and after: "opts s' = opts s1" "world s' = (world s1)\<lparr>storage := d\<rparr>" "exit_code p = 0" "out = stdout p"
    unfolding scsi_ready_def by blast
  have "pr_view registered held s' = pr_view registered held s1" "ks = fst (pr_view registered held s1) x"
    using pr_keysD [OF tool flag] after by (simp_all add: pr_view_def ks)
  with r after(1) show ?thesis by simp
qed

lemma get_reservation_key_Ret:
  assumes "get_reservation_key tool True x s = (Ret res, s')"
  obtains rc s1 sg out err where "reset_dev tool x s = (Ret rc, s1)" "opts s1 ''--sg_persist-path'' = Some (PStr sg)"
    and "run_cmd tool (sg @ '' -n -i '' @ ro_flag (opts s1 ''--readonly'' \<noteq> None) @ ''-r'' @ '' -d '' @ x) s1 =
      (Ret (0, out, err), s')" and "res = search_group reservation_re out"
  using assms unfolding get_reservation_key_def
  by (auto simp: ret_iff split: if_splits)

lemma get_reservation_key_reads:
  assumes tool: "pr_truthful tool sg turs registered held" and ready: "scsi_ready sg turs key devs s" and x: "plain x"
    and "get_reservation_key tool True x s = (Ret res, s')"
  shows "opts s' = opts s \<and> pr_view registered held s' = pr_view registered held s \<and>
    (res \<noteq> None \<longrightarrow> snd (pr_view registered held s) x \<noteq> None)"
proof -
  obtain rc0 s1 sg' out err where reset: "reset_dev tool x s = (Ret rc0, s1)"
    and path: "opts s1 ''--sg_persist-path'' = Some (PStr sg')"
    and run: "run_cmd tool (sg' @ '' -n -i '' @ ro_flag (opts s1 ''--readonly'' \<noteq> None) @ ''-r'' @ '' -d '' @ x) s1 =
      (Ret (0, out, err), s')" and res: "res = search_group reservation_re out"
    by (rule get_reservation_key_Ret [OF assms(4)])
  note r = reset_dev_reads [OF tool ready x reset]
  have "sg' = sg" using path r ready by (simp add: scsi_ready_def)
  note cmd = run [unfolded this]
  from read_command_Ret [OF cmd] ready x plain_flags obtain p d flag where flag: "flag \<in> {[], [''-y'']}"
    "tool ([sg, ''-n'', ''-i''] @ flag @ [''-r'', ''-d'', x]) (storage (world s1)) = (Some p, d)"
    and after: "opts s' = opts s1" "world s' = (world s1)\<lparr>storage := d\<rparr>" "exit_code p = 0" "out = stdout p"
    unfolding scsi_ready_def by blast
  have "pr_view registered held s' = pr_view registered held s1"
    "res \<noteq> None \<longrightarrow> snd (pr_view registered held s1) x \<noteq> None"
    using pr_heldD [OF tool flag] after by (auto simp: pr_view_def res)
  with r after(1) show ?thesis by simp
qed

section \<open>Reading the status\<close>

definition scsi_status :: "('d \<Rightarrow> string \<Rightarrow> string list) \<Rightarrow> string \<Rightarrow> string list \<Rightarrow> 'd scsi_world st \<Rightarrow> string \<Rightarrow> string option" where
  \<comment> \<open>for the action on the key has to be registered with every device, else with some device\<close>
  "scsi_status registered key devs s _ = Some (
     if (if opts s ''--action'' = Some (PStr ''on'')
      then devs \<noteq> [] \<and> (\<forall>x\<in>set devs. key \<in> set (registered (storage (world s)) x))
      else \<exists>x\<in>set devs. key \<in> set (registered (storage (world s)) x)) then ''on'' else ''off'')"

lemma scsi_ready_opts: "scsi_ready sg turs key devs s \<Longrightarrow> opts s' = opts s \<Longrightarrow> scsi_ready sg turs key devs s'"
  by (simp add: scsi_ready_def)

lemma is_block_device_Ret [ret_iff]: "is_block_device x s = (Ret u, s') \<longleftrightarrow> s' = s \<and> kind (world s) x = BlockDevice"
  by (auto simp: is_block_device_def ret_iff)

definition status_next ::
  "'d tools \<Rightarrow> string list \<Rightarrow> string \<Rightarrow> string \<Rightarrow> string list \<Rightarrow> ('d, string option) scsi" where
  \<comment> \<open>the rest of a round of the loop, once the keys are known\<close>
  "status_next tool xs st key keys =
    (if key \<in> set keys then status_loop tool xs ''on''
     else bindM (optM ''--action'') (\<lambda>action.
       if action = PStr ''on'' then retM (Some ''off'') else status_loop tool xs st))"

lemma status_loop_Cons_Ret:
  assumes "status_loop tool (x # xs) st s = (Ret r, s')"
  obtains rc s1 key keys s2 where "reset_dev tool x s = (Ret rc, s1)" "opts s1 ''--key'' = Some (PStr key)"
    "get_registration_keys tool True x s1 = (Ret keys, s2)" "status_next tool xs st key keys s2 = (Ret r, s')"
  using assms unfolding status_loop.simps bindM_Ret [of "is_block_device _"] bindM_Ret [of "reset_dev _ _"]
    bindM_Ret [of "stroptM _"] bindM_Ret [of "get_registration_keys _ _ _"] stroptM_Ret is_block_device_Ret
    status_next_def [symmetric] by auto

lemma status_loop_reads:
  assumes tool: "pr_truthful tool sg turs registered held"
  shows "status_loop tool xs st s = (Ret r, s') \<Longrightarrow> scsi_ready sg turs key devs s \<Longrightarrow> list_all plain xs \<Longrightarrow>
    opts s' = opts s \<and> pr_view registered held s' = pr_view registered held s \<and>
    r = Some (if opts s ''--action'' = Some (PStr ''on'')
      then (if \<forall>x\<in>set xs. key \<in> set (fst (pr_view registered held s) x) then (if xs = [] then st else ''on'') else ''off'')
      else (if \<exists>x\<in>set xs. key \<in> set (fst (pr_view registered held s) x) then ''on'' else st))"
proof (induction xs arbitrary: s st)
  case Nil
  then show ?case by (simp add: ret_iff)
next
  case (Cons x xs)
  note ready = Cons.prems(2)
  have x: "plain x" "list_all plain xs" using Cons.prems(3) by simp_all
  obtain rc s1 key' keys s2 where reset: "reset_dev tool x s = (Ret rc, s1)"
    and key': "opts s1 ''--key'' = Some (PStr key')"
    and keys: "get_registration_keys tool True x s1 = (Ret keys, s2)"
    and next_run: "status_next tool xs st key' keys s2 = (Ret r, s')"
    by (rule status_loop_Cons_Ret [OF Cons.prems(1)])
  note one = reset_dev_reads [OF tool ready x(1) reset]
  with ready have ready1: "scsi_ready sg turs key devs s1" by (blast intro: scsi_ready_opts)
  note two = get_registration_keys_reads [OF tool ready1 x(1) keys]
  have ready2: "scsi_ready sg turs key devs s2" using scsi_ready_opts [OF ready1] two by blast
  have "key' = key" using key' ready1 by (simp add: scsi_ready_def)
  show ?case
  proof (cases "key \<in> set keys")
    case True
    with next_run \<open>key' = key\<close> have "status_loop tool xs ''on'' s2 = (Ret r, s')" by (simp add: status_next_def)
    from Cons.IH [OF this ready2 x(2)] True one two show ?thesis by auto
  next
    case False
    show ?thesis
    proof (cases "opts s ''--action'' = Some (PStr ''on'')")
      case True
      with next_run False \<open>key' = key\<close> one two show ?thesis by (auto simp: status_next_def ret_iff)
    next
      case other: False
      with next_run False \<open>key' = key\<close> one two have "status_loop tool xs st s2 = (Ret r, s')" by (auto simp: status_next_def ret_iff)
      from Cons.IH [OF this ready2 x(2)] False other one two show ?thesis by auto
    qed
  qed
qed

lemma get_status_reads:
  assumes "pr_truthful tool sg turs registered held" "scsi_ready sg turs key devs s" "get_status tool s = (Ret r, s')"
  shows "opts s' = opts s" "pr_view registered held s' = pr_view registered held s" "r = scsi_status registered key devs s p"
proof -
  from assms(2,3) have loop: "status_loop tool devs ''off'' s = (Ret r, s')" and "list_all plain devs"
    by (auto simp: get_status_def devicesM_def scsi_ready_def ret_iff)
  note res = status_loop_reads [OF assms(1) loop assms(2) this(2)]
  then show "opts s' = opts s" "pr_view registered held s' = pr_view registered held s" by simp_all
  from res show "r = scsi_status registered key devs s p" by (auto simp: scsi_status_def pr_view_def)
qed

section \<open>The callbacks leave the options alone\<close>

lemma keeps_run_cmd [keeps_intro]:
  "keeps opts (run_cmd tool cmd)" "keeps opts (succeeds tool cmd)" "keeps opts (reset_dev tool x)"
proof -
  have spawn: "keeps opts (spawn tool args)" for args by (auto simp: keeps_def ret_iff)
  have pass: "keeps opts (passM d)" for d by (simp add: keeps_def passM_def ret_iff)
  have await: "keeps opts (await limit p)" for limit p
    unfolding await_def killed_def by (intro keeps_intro pass)
  show run: "keeps opts (run_cmd tool cmd)" for cmd
    unfolding run_cmd_def run_command_def by (intro keeps_intro spawn await)
  show "keeps opts (succeeds tool cmd)" "keeps opts (reset_dev tool x)"
    unfolding succeeds_def reset_dev_def by (intro keeps_intro run)+
qed

lemma keeps_scsi_reads [keeps_intro]:
  "keeps opts (get_registration_keys tool failing x)" "keeps opts (get_reservation_key tool failing x)"
  "keeps opts (is_block_device x)" "keeps opts (get_key failing)" "keeps opts devicesM"
  unfolding get_registration_keys_def get_reservation_key_def is_block_device_def get_key_def readonly_flag_def devicesM_def
  by (intro keeps_intro)+

lemma keeps_scsi_writes [keeps_intro]:
  "keeps opts (register_helper tool x k)" "keeps opts (preempt tool h x k)" "keeps opts (preempt_abort tool h x)"
  "keeps opts (reserve_dev tool x)"
  unfolding register_helper_def preempt_def preempt_abort_def reserve_dev_def by (intro keeps_intro)+

lemma keeps_register_single [keeps_intro]: "keeps opts (register_single tool b x k)"
  unfolding register_single_def by (intro keeps_intro)

lemma keeps_get_mpath_slaves [keeps_intro]: "keeps opts (get_mpath_slaves n x)"
  by (induction n arbitrary: x) (auto intro!: keeps_intro simp del: get_mpath_slaves.simps simp: get_mpath_slaves.simps)

lemma keeps_register_dev [keeps_intro]: "keeps opts (register_dev n tool b x k)"
proof (induction n arbitrary: x b)
  case (Suc n)
  show ?case unfolding register_dev.simps by (intro keeps_intro Suc)
qed (simp add: keeps_intro)

lemma keeps_modM_world: "keeps opts (modM (\<lambda>s. s\<lparr>world := f s\<rparr>))"
  by (simp add: keeps_def ret_iff)

lemma keeps_store [keeps_intro]: "keeps opts set_key" "keeps opts (dev_write x)"
  unfolding set_key_def dev_write_def ensure_store_dir_def write_file_def
  by (intro keeps_intro keeps_modM_world)+

lemma keeps_set_status: "keeps opts (set_status fuel tool)"
  unfolding set_status_def set_on_dev_def fence_dev_def verify_dev_def finish_set_def by (intro keeps_intro)

section \<open>The agent as a device\<close>

lemma scsi_ready_frame [simp]:
  "scsi_ready sg turs key devs (s\<lparr>opts := plug_opts p (opts s)\<rparr>) = scsi_ready sg turs key devs s"
  "scsi_ready sg turs key devs (s\<lparr>clock := c\<rparr>) = scsi_ready sg turs key devs s"
  "scsi_ready sg turs key devs (s\<lparr>opts := (opts s)(''--action'' \<mapsto> v)\<rparr>) = scsi_ready sg turs key devs s"
  by (simp_all add: scsi_ready_def)

lemma scsi_device:
  fixes tool :: "'d tools"
  assumes "pr_truthful tool sg turs registered held"
  shows "power_device (get_status tool) (scsi_ready sg turs key devs) (scsi_status registered key devs) (set_status fuel tool)"
proof unfold_locales
  fix s s' :: "'d scsi_world st" and r u p
  have "keeps opts (get_status tool)"
  proof -
    have "keeps opts (status_loop tool xs st)" for xs st by (induction xs arbitrary: st) (auto intro!: keeps_intro)
    then show ?thesis unfolding get_status_def by (intro keeps_intro)
  qed
  then show "agree (opts s) (opts s')" if "get_status tool s = (Ret r, s')"
    using that by (simp add: keeps_def agree_def)
  show set_opts: "agree (opts s) (opts s')" if "set_status fuel tool s = (Ret u, s')"
    using keepsD [OF keeps_set_status that] by (simp add: agree_def)
  show "scsi_ready sg turs key devs s'" if "scsi_ready sg turs key devs s" "set_status fuel tool s = (Ret u, s')"
    using scsi_ready_opts [OF that(1) keepsD [OF keeps_set_status that(2)]] .
  assume ready: "scsi_ready sg turs key devs s" and read: "get_status tool s = (Ret r, s')"
  note after = get_status_reads [OF assms ready read]
  show "r = scsi_status registered key devs s p" by (rule after(3))
  show "scsi_status registered key devs s' = scsi_status registered key devs s"
    using after(1,2) by (simp add: scsi_status_def pr_view_def fun_eq_iff)
  show "scsi_ready sg turs key devs s'" by (rule scsi_ready_opts [OF ready after(1)])
qed (simp_all add: scsi_status_def fun_eq_iff)

section \<open>What the setter has verified\<close>

lemma verify_dev_reads:
  assumes tool: "pr_truthful tool sg turs registered held" and ready: "scsi_ready sg turs key devs s" and x: "plain x"
    and "verify_dev tool n x s = (Ret m, s')"
  shows "opts s' = opts s \<and> pr_view registered held s' = pr_view registered held s \<and> n \<le> m \<and>
    (m = n \<longrightarrow> key \<notin> set (fst (pr_view registered held s) x) \<and> snd (pr_view registered held s) x \<noteq> None)"
proof -
  from assms(4) ready obtain keys s1 where keys: "get_registration_keys tool True x s = (Ret keys, s1)"
    and next_run: "(if key \<in> set keys then retM (n + 1)
      else bindM (get_reservation_key tool True x) (\<lambda>res. retM (if res = None \<or> res = Some [] then n + 1 else n))) s1 = (Ret m, s')"
    by (auto simp: verify_dev_def scsi_ready_def ret_iff)
  note one = get_registration_keys_reads [OF tool ready x keys]
  show ?thesis
  proof (cases "key \<in> set keys")
    case True
    with next_run one show ?thesis by (simp add: ret_iff)
  next
    case False
    with next_run obtain res where res: "get_reservation_key tool True x s1 = (Ret res, s')"
      and m: "m = (if res = None \<or> res = Some [] then n + 1 else n)" by (auto simp: ret_iff)
    have "scsi_ready sg turs key devs s1" by (rule scsi_ready_opts [OF ready]) (use one in simp)
    from get_reservation_key_reads [OF tool this x res] one m False show ?thesis by auto
  qed
qed

lemma verify_all_reads:
  assumes tool: "pr_truthful tool sg turs registered held"
  shows "foldM (verify_dev tool) n xs s = (Ret m, s') \<Longrightarrow> scsi_ready sg turs key devs s \<Longrightarrow> list_all plain xs \<Longrightarrow>
    opts s' = opts s \<and> pr_view registered held s' = pr_view registered held s \<and> n \<le> m \<and>
    (m = n \<longrightarrow> (\<forall>x\<in>set xs. key \<notin> set (fst (pr_view registered held s) x) \<and> snd (pr_view registered held s) x \<noteq> None))"
proof (induction xs arbitrary: n s)
  case Nil
  then show ?case by (simp add: ret_iff)
next
  case (Cons x xs)
  from Cons.prems(1) obtain k s1 where one: "verify_dev tool n x s = (Ret k, s1)"
    and others: "foldM (verify_dev tool) k xs s1 = (Ret m, s')" by (auto simp: ret_iff)
  have x: "plain x" "list_all plain xs" using Cons.prems(3) by simp_all
  note first = verify_dev_reads [OF tool Cons.prems(2) x(1) one]
  have "scsi_ready sg turs key devs s1" by (rule scsi_ready_opts [OF Cons.prems(2)]) (use first in simp)
  from Cons.IH [OF others this x(2)] first show ?case by auto
qed

lemma set_off_verified:
  assumes tool: "pr_truthful tool sg turs registered held" and ready: "scsi_ready sg turs key devs s"
    and "opts s ''--action'' \<noteq> Some (PStr ''on'')" and "set_status fuel tool s = (Ret u, s')"
  shows "\<forall>x\<in>set devs. key \<notin> set (registered (storage (world s')) x) \<and> held (storage (world s')) x \<noteq> None"
proof -
  from assms(3,4) ready obtain host s2 m where fence: "forM devs (fence_dev fuel tool host) s = (Ret (), s2)"
    and verify: "foldM (verify_dev tool) 0 devs s2 = (Ret m, s')" and "m = 0"
    by (auto simp: set_status_def devicesM_def scsi_ready_def finish_set_def get_key_def Let_def ret_iff
        split: option.splits if_splits)
  have "keeps opts (forM devs (fence_dev fuel tool host))" unfolding fence_dev_def by (intro keeps_intro)
  from scsi_ready_opts [OF ready keepsD [OF this fence]] have ready2: "scsi_ready sg turs key devs s2" .
  have "list_all plain devs" using ready by (simp add: scsi_ready_def)
  from verify_all_reads [OF tool verify ready2 this] \<open>m = 0\<close> show ?thesis by (simp add: pr_view_def)
qed

lemma never_fences_itself:
  assumes "opts s ''--action'' = Some (PStr a)" "a \<noteq> ''on''" "opts s ''--key'' = Some (PStr key)"
    and "get_key True s = (Ret (Some (py_lower key)), s)"
  shows "\<exists>s'. set_status fuel tool s = (Exit 1, s') \<and> world s' = world s"
  using assms by (auto simp: set_status_def run_simps bindM_def Let_def fail_usage_def EC_defs)

end
