(* ===== verification/Scsi_Guarantees.thy ===== *)
theory Scsi_Guarantees
  imports Scsi_Props Fence_Guarantees
begin

text \<open>
  The properties of fence\_scsi. The witnesses run the agent against a simulated storage that
  keeps, per device, the registered keys and the key of the reservation.
\<close>

section \<open>A simulated storage\<close>

type_synonym disks = "(string \<times> string list \<times> string option) list"
  \<comment> \<open>device, registered keys, key of the reservation\<close>

definition disk_keys :: "disks \<Rightarrow> string \<Rightarrow> string list" where
  "disk_keys d x = (case map_of d x of None \<Rightarrow> [] | Some (ks, _) \<Rightarrow> filter key_word ks)"

definition disk_held :: "disks \<Rightarrow> string \<Rightarrow> string option" where
  "disk_held d x = (case map_of d x of None \<Rightarrow> None | Some (_, h) \<Rightarrow> h)"

definition change_disk :: "string \<Rightarrow> (string list \<times> string option \<Rightarrow> string list \<times> string option) \<Rightarrow> disks \<Rightarrow> disks" where
  "change_disk x f d = map (\<lambda>(y, v). (y, if y = x then f v else v)) d"

definition done_proc :: "string \<Rightarrow> proc" where
  "done_proc text = \<lparr>takes = Some 0, exit_code = 0, stdout = text, stderr = [], cut_out = [], cut_err = []\<rparr>"

definition keys_head :: string where
  "keys_head = ''  PR generation=0x8, registered reservation keys follow:''"

definition held_text :: "string option \<Rightarrow> string" where
  "held_text h = (case h of
      None \<Rightarrow> ''  PR generation=0x8, there is NO reservation held'' @ nl
    | Some k \<Rightarrow> ''  PR generation=0x8, Reservation follows:'' @ nl @ ''    Key=0x'' @ k @ nl
        @ ''    scope: LU_SCOPE,  type: Write Exclusive, registrants only'' @ nl)"

definition disk_answer :: "string list \<Rightarrow> disks \<Rightarrow> string" where
  \<comment> \<open>what a reading command prints\<close>
  "disk_answer args d = (let x = last args; q = args ! (length args - 3) in
     if q = ''-k'' then keys_report keys_head (disk_keys d x)
     else if q = ''-r'' then held_text (disk_held d x) else [])"

definition disk_change :: "string list \<Rightarrow> disks \<Rightarrow> disks" where
  \<comment> \<open>register, preempt and abort, reserve\<close>
  "disk_change args d =
     (if args ! 3 = ''-I'' then change_disk (last args) (\<lambda>(ks, h). (List.insert (args ! 5) ks, h)) d
      else if args ! 3 = ''-A'' then change_disk (last args)
        (\<lambda>(ks, h). (removeAll (args ! 9) ks, if h = None then None else Some (args ! 7))) d
      else if args ! 3 = ''-R'' then change_disk (last args) (\<lambda>(ks, h). (ks, Some (args ! 7))) d
      else d)"

definition disk_tool :: "disks tools" where
  "disk_tool args d =
     (if length args > 4 \<and> args ! 2 = ''-o'' then (Some (done_proc []), disk_change args d)
      else (Some (done_proc (disk_answer args d)), d))"

lemma disk_truthful: "pr_truthful disk_tool ''sg_persist'' ''sg_turs'' disk_keys disk_held"
proof -
  have head: "report_head keys_head" by code_simp
  have keys: "list_all key_word (disk_keys d x)" for d x
    by (auto simp: disk_keys_def list_all_iff split: option.splits)
  have none: "no_key_text (held_text None)" by code_simp
  show ?thesis unfolding pr_truthful_def
    by (auto simp: disk_tool_def disk_answer_def done_proc_def Let_def keys none head intro!: exI [of _ keys_head])
qed

definition scsi_opts :: "string \<Rightarrow> string \<Rightarrow> pydict" where
  "scsi_opts action key = [''--action'' \<mapsto> PStr action, ''--key'' \<mapsto> PStr key, ''devices'' \<mapsto> PList [''/dev/sda''],
     ''--sg_persist-path'' \<mapsto> PStr ''sg_persist'', ''--sg_turs-path'' \<mapsto> PStr ''sg_turs'', ''store_path'' \<mapsto> PStr STORE_PATH,
     ''--power-timeout'' \<mapsto> PStr ''2'', ''--power-wait'' \<mapsto> PStr ''0'', ''--stonith-status-sleep'' \<mapsto> PStr ''1'',
     ''--retry-on'' \<mapsto> PStr ''1'', ''device_opt'' \<mapsto> PList [''port'', ''no_port'', ''fabric_fencing'', ''force_on'']]"

definition scsi_st :: "string \<Rightarrow> string \<Rightarrow> disks scsi_world st" where
  \<comment> \<open>the node of the agent has the key a1; the keys a1 and b2 are registered, b2 holds the reservation\<close>
  "scsi_st action key = \<lparr>opts = scsi_opts action key, outp = [], errs = [], clock = 0,
     world = \<lparr>storage = [(''/dev/sda'', [''a1'', ''b2''], Some ''b2'')], sfiles = [STORE_PATH @ ''.key'' \<mapsto> ''a1'' @ nl],
       swritable = (\<lambda>_. True), sdirs = (\<lambda>_. True), smakeable = (\<lambda>_. True), kind = (\<lambda>_. BlockDevice),
       realpath = (\<lambda>p. p), listdir = Map.empty, reboots = 0\<rparr>\<rparr>"

lemma scsi_st_ready: "scsi_ready ''sg_persist'' ''sg_turs'' key [''/dev/sda''] (scsi_st action key)"
  by (simp add: scsi_ready_def scsi_st_def scsi_opts_def plain_def sh_space_def)

lemma scsi_off_run: "fst (fence_action 3 (scsi_fns 2 disk_tool) (scsi_st ''off'' ''b2'')) = Ret 0"
  by code_simp

section \<open>Reports\<close>

text \<open>
  C15. The list of keys that sg\_persist prints is read back exactly: whatever its first line and
  whatever the keys, as long as no key contains white space, \<open>get_registration_keys\<close> extracts the
  registered keys in their order.
\<close>

theorem scsi_keys_round_trip:
  assumes "report_head h" "list_all key_word keys"
  shows "parse_keys (keys_report h keys) = keys"
  by (rule keys_read_back [OF assms])

theorem scsi_keys_round_trip_witness:
  "parse_keys (keys_report ''  PR generation=0x8, 2 registered reservation keys follow:'' [''a1'', ''b2'']) = [''a1'', ''b2'']"
proof -
  have "report_head ''  PR generation=0x8, 2 registered reservation keys follow:''" "list_all key_word [''a1'', ''b2'']"
    by code_simp+
  then show ?thesis by (rule scsi_keys_round_trip)
qed

section \<open>Fencing as a specification\<close>

text \<open>
  What fencing by reservations promises, over the set of devices a node has access to (on which
  its key is registered): \<open>off\<close> takes all access away, \<open>on\<close> gives access to every device, and
  \<open>status\<close> answers 2 exactly when there is no access and changes nothing about that.
\<close>

definition fence_spec :: "string list \<Rightarrow> string \<Rightarrow> string set \<Rightarrow> string set \<Rightarrow> int \<Rightarrow> bool" where
  "fence_spec devs action before after code \<longleftrightarrow>
     (action = ''off'' \<longrightarrow> code = 0 \<and> after = {}) \<and>
     (action = ''on'' \<longrightarrow> code = 0 \<and> after = set devs) \<and>
     (action = ''status'' \<longrightarrow> code \<in> {0, 2} \<and> (code = 2 \<longleftrightarrow> before = {}) \<and> (after = {} \<longleftrightarrow> before = {}))"

definition access :: "('d \<Rightarrow> string \<Rightarrow> string list) \<Rightarrow> string \<Rightarrow> string list \<Rightarrow> 'd scsi_world st \<Rightarrow> string set" where
  "access registered key devs s = {x \<in> set devs. key \<in> set (registered (storage (world s)) x)}"

lemma scsi_status_access:
  "scsi_status registered key devs s p = Some ''off'' \<longleftrightarrow>
     (if opts s ''--action'' = Some (PStr ''on'') then devs = [] \<or> access registered key devs s \<noteq> set devs
      else access registered key devs s = {})"
  by (auto simp: scsi_status_def access_def)

lemma scsi_status_binary: "scsi_status registered key devs s p \<noteq> Some ''off'' \<longleftrightarrow> scsi_status registered key devs s p = Some ''on''"
  by (simp add: scsi_status_def)

lemma scsi_fns_callbacks:
  "get_power_fn (scsi_fns n tool) = Some (get_status tool)" "set_power_fn (scsi_fns n tool) = Some (set_status n tool)"
  by (simp_all add: scsi_fns_def)

lemma scsi_ready_split [simp]:
  "scsi_ready sg turs key devs (s\<lparr>opts := split_opts (opts s)\<rparr>) = scsi_ready sg turs key devs s"
  by (simp add: scsi_ready_def)

text \<open>
  C3. fence\_scsi implements the specification of fencing: as long as sg\_persist prints the
  registrations truthfully and reading changes none, every run for \<open>off\<close>, \<open>on\<close> or \<open>status\<close> that
  returns is a step the specification allows, from the registrations before to those after.
\<close>

theorem scsi_refines_fencing:
  assumes tool: "pr_truthful tool sg turs registered held" and ready: "scsi_ready sg turs key devs s"
    and a: "opts s ''--action'' = Some (PStr a)" "a \<in> {''off'', ''on'', ''status''}"
    and run: "fence_action fuel (scsi_fns n tool) s = (Ret r, s')"
    and ps: "plugs_of (split_opts (opts s)) = Some ps" "ps \<noteq> []"
  shows "fence_spec devs a (access registered key devs s) (access registered key devs s') r"
proof -
  note device = scsi_device [OF tool, of key devs n]
  have i: "scsi_ready sg turs key devs (s\<lparr>opts := split_opts (opts s)\<rparr>)" using ready by simp
  obtain p where p: "p \<in> set ps" using ps(2) by (cases ps) auto
  note F = scsi_fns_callbacks [of n tool]
  consider "a = ''off''" | "a = ''on''" | "a = ''status''" using a(2) by blast
  then show ?thesis
  proof cases
    case 1
    with power_device.off_confirmed_aux [OF device F _ run ps(1) i] a(1)
    have "r = 0" "scsi_status registered key devs s' p = Some ''off''" using p by auto
    moreover have "opts s' ''--action'' = Some (PStr ''off'')"
      using power_device.switching_keeps_action [OF device F a(1) _ run] 1 by simp
    ultimately show ?thesis using 1 by (simp add: fence_spec_def scsi_status_access)
  next
    case 2
    with power_device.on_confirmed_aux [OF device F _ run ps(1) i] a(1)
    have "r = 0" and on: "multi_status (map (scsi_status registered key devs s') ps) = Some ''on''" by auto
    then have "Some ''on'' \<in> set (map (scsi_status registered key devs s') ps)"
      using multi_status_in [of "map (scsi_status registered key devs s') ps"] by simp
    then obtain q where "scsi_status registered key devs s' q = Some ''on''" by auto
    then have "scsi_status registered key devs s' p = Some ''on''" by (simp add: scsi_status_def)
    moreover have "opts s' ''--action'' = Some (PStr ''on'')"
      using power_device.switching_keeps_action [OF device F a(1) _ run] 2 by simp
    ultimately show ?thesis using 2 \<open>r = 0\<close> by (auto simp: fence_spec_def scsi_status_def access_def split: if_splits)
  next
    case 3
    have reader: "status_reader (get_status tool) (scsi_ready sg turs key devs) (scsi_status registered key devs)"
      using device by (simp add: power_device_def)
    have frame: "scsi_status registered key devs (s\<lparr>opts := split_opts (opts s)\<rparr>) = scsi_status registered key devs s"
      by (simp add: scsi_status_def fun_eq_iff)
    have a3: "opts s ''--action'' = Some (PStr ''status'')" using a(1) 3 by simp
    have act: "scsi_status registered key devs s p = Some ''off'' \<longleftrightarrow> access registered key devs s = {}" for p
      using a3 by (simp add: scsi_status_access)
    have "(r = 2 \<longleftrightarrow> access registered key devs s = {}) \<and> (r \<noteq> 2 \<longrightarrow> r = 0)"
      using status_reader.status_answer [OF reader F(1) a3 run ps(1) i frame] p act by auto
    moreover have "access registered key devs s' = {} \<longleftrightarrow> access registered key devs s = {}"
      using status_reader.status_keeps [OF reader F(1) a3 run ps(1) i] frame act [of p] a3
        scsi_status_access [of registered key devs s' p] by simp
    ultimately show ?thesis using 3 by (auto simp: fence_spec_def)
  qed
qed

lemma scsi_st_plugs: "plugs_of (split_opts (opts (scsi_st action key))) = Some [[]]"
  by (simp add: scsi_st_def scsi_opts_def split_opts_def plugs_of_def)

theorem scsi_refines_fencing_witness:
  "\<exists>s'. fence_action 3 (scsi_fns 2 disk_tool) (scsi_st ''off'' ''b2'') = (Ret 0, s') \<and>
     fence_spec [''/dev/sda''] ''off'' {''/dev/sda''} (access disk_keys ''b2'' [''/dev/sda''] s') 0"
proof -
  note run = run_pair [OF scsi_off_run]
  have "opts (scsi_st ''off'' ''b2'') ''--action'' = Some (PStr ''off'')" by (simp add: scsi_st_def scsi_opts_def)
  moreover have "access disk_keys ''b2'' [''/dev/sda''] (scsi_st ''off'' ''b2'') = {''/dev/sda''}"
    by (auto simp: access_def scsi_st_def disk_keys_def key_word_def is_space_def)
  ultimately show ?thesis
    using scsi_refines_fencing [OF disk_truthful scsi_st_ready _ _ run scsi_st_plugs] run by auto
qed

section \<open>The setter\<close>

text \<open>
  C6. An \<open>off\<close> of the setter that returns has been verified on every device: the key is
  registered nowhere and each device has a reservation, so that the node without registration is
  kept from writing. Otherwise the setter ends the agent.
\<close>

theorem scsi_off_verified:
  assumes "pr_truthful tool sg turs registered held" and "scsi_ready sg turs key devs s"
    and "opts s ''--action'' \<noteq> Some (PStr ''on'')" and "set_status fuel tool s = (Ret u, s')"
  shows "\<forall>x\<in>set devs. key \<notin> set (registered (storage (world s')) x) \<and> held (storage (world s')) x \<noteq> None"
  by (rule set_off_verified [OF assms])

lemma scsi_set_run: "fst (set_status 2 disk_tool (scsi_st ''off'' ''b2'')) = Ret ()"
  by code_simp

theorem scsi_off_verified_witness:
  "\<exists>s'. set_status 2 disk_tool (scsi_st ''off'' ''b2'') = (Ret (), s') \<and>
     ''b2'' \<notin> set (disk_keys (storage (world s')) ''/dev/sda'') \<and> disk_held (storage (world s')) ''/dev/sda'' \<noteq> None"
proof -
  note run = run_pair [OF scsi_set_run]
  have "opts (scsi_st ''off'' ''b2'') ''--action'' \<noteq> Some (PStr ''on'')" by (simp add: scsi_st_def scsi_opts_def)
  from scsi_off_verified [OF disk_truthful scsi_st_ready this run] run show ?thesis by auto
qed

text \<open>
  C16. A node does not fence itself: when the key to remove is the one the node has stored for
  itself, in whatever case it is written, the setter exits with code 1 before any program is run, and
  the storage and the files are as they were.
\<close>

theorem scsi_never_fences_itself:
  assumes "opts s ''--action'' = Some (PStr a)" "a \<noteq> ''on''" "opts s ''--key'' = Some (PStr key)"
    and "sfiles (world s) (STORE_PATH @ ''.key'') = Some text" "py_lower (py_strip (first_line text)) = py_lower key"
  shows "\<exists>s'. set_status fuel tool s = (Exit 1, s') \<and> world s' = world s"
proof (rule never_fences_itself [OF assms(1-3)])
  show "get_key True s = (Ret (Some (py_lower key)), s)" using assms(4,5) by (simp add: get_key_def run_simps)
qed

theorem scsi_never_fences_itself_witness:
  "\<exists>s'. set_status 2 disk_tool (scsi_st ''off'' ''A1'') = (Exit 1, s') \<and> world s' = world (scsi_st ''off'' ''A1'')"
proof -
  have "opts (scsi_st ''off'' ''A1'') ''--action'' = Some (PStr ''off'')" "opts (scsi_st ''off'' ''A1'') ''--key'' = Some (PStr ''A1'')"
    "sfiles (world (scsi_st ''off'' ''A1'')) (STORE_PATH @ ''.key'') = Some (''a1'' @ nl)"
    by (simp_all add: scsi_st_def scsi_opts_def)
  moreover have "py_lower (py_strip (first_line (''a1'' @ nl))) = py_lower ''A1''" by code_simp
  ultimately show ?thesis using scsi_never_fences_itself [of "scsi_st ''off'' ''A1''" "''off''" "''A1''"] by simp
qed

section \<open>Keys\<close>

text \<open>
  A generated key has eight characters when it is made from the hashes of the cluster and node
  names, and at least eight when the node id takes the place of the second hash.
\<close>

theorem scsi_key_length:
  assumes "generate_key tool s = (Ret k, s')"
  shows "length k \<ge> 8 \<and> (opts s ''--key-value'' = Some (PStr ''hash'') \<longrightarrow> length k = 8)"
proof -
  have cluster: "get_cluster_id tool s = (Ret c, s1) \<Longrightarrow> length c = 32" for c s s1
    by (auto simp: get_cluster_id_def ret_iff split: option.splits)
  have four: "length (four_digits n) \<ge> 4" for n by (simp add: four_digits_def Let_def)
  show ?thesis using assms four
    by (auto simp: generate_key_def get_node_hash_def ret_iff split: if_splits dest!: cluster)
qed

definition cmap_tool :: "unit tools" where
  \<comment> \<open>a \<open>corosync-cmapctl\<close> of a cluster with the node n1\<close>
  "cmap_tool args d = (Some (done_proc (if last args = ''nodelist''
     then ''nodelist.node.3.name (str) = n1'' @ nl else ''totem.cluster_name (str) = c'' @ nl)), d)"

definition cmap_st :: "unit scsi_world st" where
  "cmap_st = \<lparr>opts = [''--key-value'' \<mapsto> PStr ''id'', ''--corosync-cmap-path'' \<mapsto> PStr ''cmap'', ''--plug'' \<mapsto> PStr ''n1''],
     outp = [], errs = [], clock = 0, world = \<lparr>storage = (), sfiles = Map.empty, swritable = (\<lambda>_. True),
       sdirs = (\<lambda>_. True), smakeable = (\<lambda>_. True), kind = (\<lambda>_. Missing), realpath = (\<lambda>p. p), listdir = Map.empty, reboots = 0\<rparr>\<rparr>"

lemma cmap_run: "fst (generate_key cmap_tool cmap_st) = Ret ''4a8a0003''"
  by code_simp

theorem scsi_key_length_witness: "\<exists>k. fst (generate_key cmap_tool cmap_st) = Ret k \<and> length k \<ge> 8"
  using scsi_key_length [OF run_pair [OF cmap_run]] cmap_run by blast

end
