(* ===== verification/Fence_Ipmilan.thy ===== *)
theory Fence_Ipmilan
  imports Agent_Main Run_Command Py_Regex
begin

text \<open>
  \<open>agents/ipmilan/fence_ipmilan.py\<close>: power fencing over IPMI by running ipmitool, a parameter of
  the model. The agent searches the text \<open>str((status, stdout, stderr))\<close>, so Python's \<open>repr\<close> of
  strings is part of the model.
\<close>

section \<open>The text of a result\<close>

definition result_text :: "int \<times> string \<times> string \<Rightarrow> string" where
  "result_text r = (case r of (rc, out_text, err_text) \<Rightarrow>
     ''('' @ show_int rc @ '', '' @ py_repr out_text @ '', '' @ py_repr err_text @ '')'')"

section \<open>Commands\<close>

text \<open>
  A command is built from fragments, each with the text that is logged in its place.
\<close>

type_synonym fragment = "string \<times> string"

definition plain_frag :: "string \<Rightarrow> fragment" where
  "plain_frag t = (t, t)"

definition str_opt :: "pydict \<Rightarrow> string \<Rightarrow> string outcome" where
  \<comment> \<open>an option that is pasted into the command\<close>
  "str_opt od k = (case od k of
      None \<Rightarrow> Raise (KeyError k)
    | Some (PStr t) \<Rightarrow> Ret t
    | Some _ \<Rightarrow> Raise (TypeError k))"

definition frag_opt :: "pydict \<Rightarrow> string \<Rightarrow> string \<Rightarrow> fragment list outcome" where
  \<comment> \<open>\<open>if k in options: Cmd.append(flag + options[k])\<close>\<close>
  "frag_opt od flag k = (if od k = None then Ret [] else bindO (str_opt od k) (\<lambda>v. Ret [plain_frag (flag @ v)]))"

definition username_frag :: "pydict \<Rightarrow> fragment list outcome" where
  "username_frag od = (case od ''--username'' of
      None \<Rightarrow> Ret []
    | Some (PStr t) \<Rightarrow> Ret (if t = [] then [] else [plain_frag ('' -U '' @ shlex_quote t)])
    | Some _ \<Rightarrow> Raise (TypeError ''--username''))"

definition password_frag :: "pydict \<Rightarrow> fragment outcome" where
  "password_frag od = (case od ''--password'' of
      None \<Rightarrow> Ret ('' -P '' @ [squote, squote], '' -P [set]'')
    | Some (PStr t) \<Rightarrow> Ret ('' -P '' @ shlex_quote t, '' -P [set]'')
    | Some _ \<Rightarrow> Raise (TypeError ''--password''))"

definition verbose_frag :: "pydict \<Rightarrow> fragment list outcome" where
  "verbose_frag od = (case od ''--verbose-level'' of
      None \<Rightarrow> Raise (KeyError ''--verbose-level'')
    | Some (PInt n) \<Rightarrow> Ret (if n > 1 then [plain_frag ('' -'' @ replicate (nat (n - 1)) (CHR ''v''))] else [])
    | Some _ \<Rightarrow> Raise (TypeError ''--verbose-level''))"

definition sudo_frag :: "pydict \<Rightarrow> fragment list outcome" where
  "sudo_frag od = (if od ''--use-sudo'' = None then Ret []
     else bindO (str_opt od ''--sudo-path'') (\<lambda>p. Ret [plain_frag (p @ '' '')]))"

definition command_frags :: "pydict \<Rightarrow> string \<Rightarrow> fragment list outcome" where
  "command_frags od action =
     bindO (sudo_frag od) (\<lambda>sudo.
     bindO (str_opt od ''--ipmitool-path'') (\<lambda>path.
     bindO (str_opt od ''--ip'') (\<lambda>ip.
     bindO (frag_opt od '' -p '' ''--ipport'') (\<lambda>port.
     bindO (frag_opt od '' -t '' ''--target'') (\<lambda>target.
     bindO (username_frag od) (\<lambda>user.
     bindO (frag_opt od '' -A '' ''--auth'') (\<lambda>auth.
     bindO (password_frag od) (\<lambda>password.
     bindO (frag_opt od '' -C '' ''--cipher'') (\<lambda>cipher.
     bindO (frag_opt od '' -L '' ''--privlvl'') (\<lambda>privlvl.
     bindO (frag_opt od '' -y '' ''--hexadecimal-kg'') (\<lambda>kg.
     bindO (frag_opt od '' -N '' ''--ipmitool-timeout'') (\<lambda>limit.
     bindO (verbose_frag od) (\<lambda>verbose.
       Ret (sudo @ [plain_frag path,
            plain_frag (if od ''--lanplus'' \<in> {Some (PStr []), Some (PStr ''1'')} then '' -I lanplus'' else '' -I lan''),
            plain_frag ('' -H '' @ ip)] @ port @ target @ user @ auth @ [password] @ cipher @ privlvl @ kg @ limit
            @ [plain_frag ('' chassis power '' @ action)] @ verbose))))))))))))))"

definition create_command :: "pydict \<Rightarrow> string \<Rightarrow> (string \<times> string) outcome" where
  \<comment> \<open>the command and the text that is logged for it\<close>
  "create_command od action =
     bindO (command_frags od action) (\<lambda>fs. Ret (concat (map fst fs), concat (map snd fs)))"

section \<open>The callbacks\<close>

definition ipmi_run :: "'d tools \<Rightarrow> string \<Rightarrow> ('d, int \<times> string \<times> string) prog" where
  \<comment> \<open>\<open>_run_command\<close>\<close>
  "ipmi_run tool action =
     bindM (getM opts) (\<lambda>od.
     bindM (liftM (create_command od action)) (\<lambda>(cmd, log_cmd). run_command (start tool) cmd))"

definition letter :: re where
  "letter = Cls (\<lambda>c. lower_letter c \<or> upper_letter c)"

definition power_is_re :: re where
  "power_is_re = Seq (OneOf ''Cc'') (Seq (Lit ''hassis '') (Seq (OneOf ''Pp'') (Seq (Lit ''ower is '') (Seq (Star Spc)
     (Grp 1 (Seq letter (Seq letter (Opt letter))))))))"

definition get_power_status_ipmi :: "'d tools \<Rightarrow> ('d, string option) prog" where
  "get_power_status_ipmi tool =
     bindM (ipmi_run tool ''status'') (\<lambda>r. retM (search_group power_is_re (result_text r)))"

definition set_power_status_ipmi :: "'d tools \<Rightarrow> ('d, unit) prog" where
  "set_power_status_ipmi tool =
     bindM (stroptM ''--action'') (\<lambda>action. seqM (ipmi_run tool action) (retM ()))"

definition reboot_cycle_ipmi :: "'d tools \<Rightarrow> ('d, bool) prog" where
  "reboot_cycle_ipmi tool =
     bindM (ipmi_run tool ''cycle'') (\<lambda>r. retM (py_in ''chassis power control: cycle'' (py_lower (result_text r))))"

definition reboot_diag_ipmi :: "'d tools \<Rightarrow> ('d, bool) prog" where
  "reboot_diag_ipmi tool =
     bindM (ipmi_run tool ''diag'') (\<lambda>r. retM (py_in ''chassis power control: diag'' (py_lower (result_text r))))"

definition fns_ipmi :: "'d tools \<Rightarrow> bool \<Rightarrow> 'd power_fns" where
  \<comment> \<open>with the reboot function of the action diag or the usual one\<close>
  "fns_ipmi tool diag = \<lparr>set_power_fn = Some (set_power_status_ipmi tool), get_power_fn = Some (get_power_status_ipmi tool),
     get_outlet_list = None, reboot_cycle_fn = Some (if diag then reboot_diag_ipmi tool else reboot_cycle_ipmi tool),
     sync_set_power_fn = None\<rparr>"

section \<open>The main function\<close>

definition new_opts_ipmilan :: "(string \<times> optdef) list" where
  "new_opts_ipmilan =
    [(''lanplus'', \<lparr>o_getopt = ''P'', o_longopt = Some ''lanplus'',
        o_help = ''-P, --lanplus                  Use Lanplus to improve security of connection'',
        o_required = Some ''0'', o_shortdesc = Some ''Use Lanplus to improve security of connection'',
        o_type = None, o_default = Some (PStr ''0''), o_choices = None, o_order = 1\<rparr>),
     (''auth'', \<lparr>o_getopt = ''A:'', o_longopt = Some ''auth'',
        o_help = ''-A, --auth=[auth]              IPMI Lan Auth type (md5|password|none)'',
        o_required = Some ''0'', o_shortdesc = Some ''IPMI Lan Auth type.'',
        o_type = None, o_default = None, o_choices = Some [''md5'', ''password'', ''none''], o_order = 1\<rparr>),
     (''cipher'', \<lparr>o_getopt = ''C:'', o_longopt = Some ''cipher'',
        o_help = ''-C, --cipher=[cipher]          Ciphersuite to use (same as ipmitool -C parameter)'',
        o_required = Some ''0'', o_shortdesc = Some ''Ciphersuite to use (same as ipmitool -C parameter)'',
        o_type = None, o_default = None, o_choices = None, o_order = 1\<rparr>),
     (''privlvl'', \<lparr>o_getopt = ''L:'', o_longopt = Some ''privlvl'',
        o_help = ''-L, --privlvl=[level]          Privilege level on IPMI device (callback|user|operator|administrator)'',
        o_required = Some ''0'', o_shortdesc = Some ''Privilege level on IPMI device'',
        o_type = None, o_default = Some (PStr ''administrator''), o_choices = Some [''callback'', ''user'', ''operator'', ''administrator''], o_order = 1\<rparr>),
     (''ipmitool_path'', \<lparr>o_getopt = '':'', o_longopt = Some ''ipmitool-path'',
        o_help = ''--ipmitool-path=[path]         Path to ipmitool binary'',
        o_required = Some ''0'', o_shortdesc = Some ''Path to ipmitool binary'',
        o_type = None, o_default = Some (PStr ''@IPMITOOL_PATH@''), o_choices = None, o_order = 200\<rparr>),
     (''ipmitool_timeout'', \<lparr>o_getopt = '':'', o_longopt = Some ''ipmitool-timeout'',
        o_help = ''--ipmitool-timeout=[timeout]         Timeout (sec) for IPMI operation'',
        o_required = Some ''0'', o_shortdesc = Some ''Timeout (sec) for IPMI operation'',
        o_type = None, o_default = Some (PStr ''2''), o_choices = None, o_order = 201\<rparr>),
     (''target'', \<lparr>o_getopt = '':'', o_longopt = Some ''target'',
        o_help = ''--target=[targetaddress]       Bridge IPMI requests to the remote target address'',
        o_required = Some ''0'', o_shortdesc = Some ''Bridge IPMI requests to the remote target address'',
        o_type = None, o_default = None, o_choices = None, o_order = 1\<rparr>),
     (''hexadecimal_kg'', \<lparr>o_getopt = '':'', o_longopt = Some ''hexadecimal-kg'',
        o_help = ''--hexadecimal-kg=[key]         Hexadecimal-encoded Kg key for IPMIv2 authentication'',
        o_required = Some ''0'', o_shortdesc = Some ''Hexadecimal-encoded Kg key for IPMIv2 authentication'',
        o_type = None, o_default = None, o_choices = None, o_order = 1\<rparr>)]"

definition device_opt_ipmilan :: "string list" where
  "device_opt_ipmilan = [''ipaddr'', ''login'', ''no_login'', ''no_password'', ''passwd'', ''diag'', ''lanplus'', ''auth'',
     ''cipher'', ''privlvl'', ''sudo'', ''ipmitool_path'', ''ipmitool_timeout'', ''method'', ''target'', ''hexadecimal_kg'']"

definition docs_ipmilan :: "string \<Rightarrow> docs" where
  \<comment> \<open>\<open>file\<close> is \<open>os.path.basename(__file__)\<close>\<close>
  "docs_ipmilan file = \<lparr>agent_name = Some ''fence_ipmilan'', shortdesc = ''Fence agent for IPMI'',
     longdesc = file @ '' is a Power Fencing agent which can be used with machines controlled by IPMI. This agent calls support software ipmitool (http://ipmitool.sf.net/).''
       @ nl @ ''.P'' @ nl @ ''WARNING! This fence agent might report success before the node is powered off. You should use -m/method onoff if your fence device works correctly with that option.'',
     vendorurl = Some [], symlink = [(''fence_ilo3'', ''Fence agent for HP iLO3''), (''fence_ilo4'', ''Fence agent for HP iLO4''),
       (''fence_ilo5'', ''Fence agent for HP iLO5''), (''fence_ipmilanplus'', ''Fence agent for IPMIv2 lanplus''),
       (''fence_imm'', ''Fence agent for IBM Integrated Management Module''), (''fence_idrac'', ''Fence agent for Dell iDRAC'')]\<rparr>"

definition ipmi_defaults :: "unit lib" where
  \<comment> \<open>the defaults that depend on the name the agent is called by\<close>
  "ipmi_defaults =
     seqM (set_default ''power_wait'' (PInt 2))
    (bindM (getM (\<lambda>s. basename (argv0 (world s)))) (\<lambda>name.
     seqM (if name = ''fence_ilo3'' then seqM (set_default ''power_wait'' (PStr ''4'')) (set_default ''lanplus'' (PStr ''1''))
           else if name \<in> {''fence_ilo4'', ''fence_ilo5'', ''fence_ipmilanplus''} then set_default ''lanplus'' (PStr ''1'')
           else retM ())
    (seqM (set_default ''ipport'' (PStr ''623''))
          (set_help ''method'' (''-m, --method=[method]          Method to fence (onoff|cycle) (Default: onoff)'' @ nl
             @ ''WARNING! This fence agent might report success before the node is powered off. You should use -m/method onoff if your fence device works correctly with that option.'')))))"

definition main_ipmilan where
  "main_ipmilan file_stat tool file set_order time_start fuel =
     seqM (on_lib (add_opts new_opts_ipmilan))
    (seqM (on_lib ipmi_defaults)
    (seqM (on_lib (read_options device_opt_ipmilan False))
    (seqM (on_lib (show_docs set_order (Some (docs_ipmilan file))))
    (seqM (run_delay time_start 0 0)
    (bindM (stroptM ''--ipmitool-path'') (\<lambda>path.
     seqM (if \<not> is_executable file_stat path then fail_usage ''Ipmitool not found or not accessible'' True else retM ())
    (bindM (optM ''--action'') (\<lambda>action.
     seqM (if action = PStr ''diag''
           then seqM (setoptM ''--action'' (PStr ''reboot'')) (setoptM ''--method'' (PStr ''cycle'')) else retM ())
          (exit_with (on_dev (fence_action fuel (fns_ipmi tool (action = PStr ''diag'')))))))))))))"

end
