(* ===== verification/Ipmi_Guarantees.thy ===== *)
theory Ipmi_Guarantees
  imports Fence_Ipmilan Fence_Guarantees
begin

text \<open>The lemmas and properties of fence\_ipmilan, with a simulated ipmitool for the witnesses.\<close>

section \<open>The words of a command\<close>

definition spaced :: "string list \<Rightarrow> string" where
  "spaced qs = concat (map (\<lambda>q. CHR '' '' # q) qs)"

lemma spaced_simps [simp]:
  "spaced [] = []" "spaced (q # qs) = CHR '' '' # q @ spaced qs" "spaced (ps @ qs) = spaced ps @ spaced qs"
  by (simp_all add: spaced_def)

lemma py_join_spaced: "py_join '' '' (w # qs) = w @ spaced qs"
  by (induction qs arbitrary: w) simp_all

text \<open>The words for an option that is pasted in as it is, and for the credentials.\<close>

definition opt_words :: "pydict \<Rightarrow> string \<Rightarrow> string \<Rightarrow> string list" where
  "opt_words od flag k = (case od k of Some (PStr v) \<Rightarrow> [flag, v] | _ \<Rightarrow> [])"

definition user_words :: "pydict \<Rightarrow> string list" where
  "user_words od = (case od ''--username'' of Some (PStr t) \<Rightarrow> if t = [] then [] else [''-U'', t] | _ \<Rightarrow> [])"

definition password_word :: "pydict \<Rightarrow> string" where
  "password_word od = (case od ''--password'' of Some (PStr t) \<Rightarrow> t | _ \<Rightarrow> [])"

definition verbose_words :: "pydict \<Rightarrow> string list" where
  "verbose_words od = (case od ''--verbose-level'' of
      Some (PInt n) \<Rightarrow> if n > 1 then [''-'' @ replicate (nat (n - 1)) (CHR ''v'')] else [] | _ \<Rightarrow> [])"

definition opt_text :: "pydict \<Rightarrow> string \<Rightarrow> string" where
  "opt_text od k = (case od k of Some (PStr t) \<Rightarrow> t | _ \<Rightarrow> [])"

definition sudo_word :: "pydict \<Rightarrow> string list" where
  "sudo_word od = (if od ''--use-sudo'' = None then [] else [opt_text od ''--sudo-path''])"

definition command_words :: "pydict \<Rightarrow> string \<Rightarrow> string list" where
  "command_words od action =
     sudo_word od @
     [opt_text od ''--ipmitool-path'', ''-I'',
      if od ''--lanplus'' \<in> {Some (PStr []), Some (PStr ''1'')} then ''lanplus'' else ''lan'', ''-H'', opt_text od ''--ip''] @
     opt_words od ''-p'' ''--ipport'' @ opt_words od ''-t'' ''--target'' @ user_words od @ opt_words od ''-A'' ''--auth'' @
     [''-P'', password_word od] @ opt_words od ''-C'' ''--cipher'' @ opt_words od ''-L'' ''--privlvl'' @
     opt_words od ''-y'' ''--hexadecimal-kg'' @ opt_words od ''-N'' ''--ipmitool-timeout'' @
     [''chassis'', ''power'', action] @ verbose_words od"

definition pasted_plain :: "pydict \<Rightarrow> bool" where
  \<comment> \<open>the options that are pasted into the command unquoted are words without blanks and quotes\<close>
  "pasted_plain od \<longleftrightarrow> list_all (\<lambda>k. case od k of Some (PStr t) \<Rightarrow> plain t | _ \<Rightarrow> True)
     [''--sudo-path'', ''--ipmitool-path'', ''--ip'', ''--ipport'', ''--target'', ''--auth'', ''--cipher'', ''--privlvl'',
      ''--hexadecimal-kg'', ''--ipmitool-timeout'']"

lemma reads_as_dash: "plain ''-p''" "plain ''-t''" "plain ''-A''" "plain ''-C''" "plain ''-L''" "plain ''-y''" "plain ''-N''"
  "plain ''-U''" "plain ''-P''" "plain ''-I''" "plain ''-H''" "plain ''lan''" "plain ''lanplus''" "plain ''chassis''" "plain ''power''"
  by (simp_all add: plain_def sh_space_def)

definition reads_words :: "fragment list \<Rightarrow> string list \<Rightarrow> bool" where
  \<comment> \<open>the fragments are blanks and words that are read as the given arguments\<close>
  "reads_words fs ts \<longleftrightarrow> (\<exists>qs. concat (map fst fs) = spaced qs \<and> list_all2 reads_as qs ts)"

lemma reads_words_Nil: "reads_words [] []"
  by (auto simp: reads_words_def intro: exI [of _ "[]"])

lemma reads_words_append: "reads_words fs ts \<Longrightarrow> reads_words gs us \<Longrightarrow> reads_words (fs @ gs) (ts @ us)"
proof -
  assume "reads_words fs ts" "reads_words gs us"
  then obtain ps qs where "concat (map fst fs) = spaced ps" "list_all2 reads_as ps ts"
    "concat (map fst gs) = spaced qs" "list_all2 reads_as qs us" by (auto simp: reads_words_def)
  then show ?thesis unfolding reads_words_def by (intro exI [of _ "ps @ qs"]) (simp add: list_all2_appendI)
qed

lemma reads_words_plain: "list_all plain ts \<Longrightarrow> t = spaced ts \<Longrightarrow> reads_words [plain_frag t] ts"
  unfolding reads_words_def by (intro exI [of _ ts]) (auto simp: plain_frag_def list_all2_same list_all_iff plain_reads_as)

lemma frag_opt_words:
  assumes "frag_opt od (CHR '' '' # flag @ '' '') k = Ret fs" "plain flag"
    and "case od k of Some (PStr t) \<Rightarrow> plain t | _ \<Rightarrow> True"
  shows "reads_words fs (opt_words od flag k)"
proof (cases "od k")
  case None
  with assms(1) show ?thesis by (simp add: frag_opt_def opt_words_def reads_words_Nil)
next
  case (Some v)
  with assms(1) obtain t where "v = PStr t" "fs = [plain_frag (CHR '' '' # flag @ '' '' @ t)]"
    by (auto simp: frag_opt_def str_opt_def split: pyval.splits)
  with Some assms(2,3) show ?thesis by (simp add: opt_words_def reads_words_plain)
qed

lemma username_words: "username_frag od = Ret fs \<Longrightarrow> reads_words fs (user_words od)"
  unfolding reads_words_def
  by (auto simp: username_frag_def user_words_def plain_frag_def reads_as_dash plain_reads_as shlex_quote_reads_as
      split: option.splits pyval.splits if_splits
      intro: exI [of _ "[]"] exI [of _ "[''-U'', shlex_quote _]"])

lemma password_words: "password_frag od = Ret f \<Longrightarrow> reads_words [f] [''-P'', password_word od]"
proof -
  assume f: "password_frag od = Ret f"
  have "reads_as [squote, squote] []" using shlex_quote_reads_as [of "[]"] by (simp add: shlex_quote_def)
  with f show ?thesis unfolding reads_words_def
    by (auto simp: password_frag_def password_word_def plain_reads_as reads_as_dash shlex_quote_reads_as
        split: option.splits pyval.splits intro: exI [of _ "[''-P'', [squote, squote]]"] exI [of _ "[''-P'', shlex_quote _]"])
qed

lemma replicate_plain: "plain (''-'' @ replicate n (CHR ''v''))"
  by (auto simp: plain_def sh_space_def)

lemma verbose_frag_words: "verbose_frag od = Ret fs \<Longrightarrow> reads_words fs (verbose_words od)"
  using replicate_plain
  by (auto simp: verbose_frag_def verbose_words_def reads_words_Nil intro!: reads_words_plain
      split: option.splits pyval.splits if_splits)

lemma command_frags_Ret:
  assumes "command_frags od action = Ret fs"
  obtains sudo path ip port target user auth password cipher privlvl kg limit verbose where
    "sudo_frag od = Ret sudo" "str_opt od ''--ipmitool-path'' = Ret path" "str_opt od ''--ip'' = Ret ip"
    "frag_opt od '' -p '' ''--ipport'' = Ret port" "frag_opt od '' -t '' ''--target'' = Ret target"
    "username_frag od = Ret user" "frag_opt od '' -A '' ''--auth'' = Ret auth" "password_frag od = Ret password"
    "frag_opt od '' -C '' ''--cipher'' = Ret cipher" "frag_opt od '' -L '' ''--privlvl'' = Ret privlvl"
    "frag_opt od '' -y '' ''--hexadecimal-kg'' = Ret kg" "frag_opt od '' -N '' ''--ipmitool-timeout'' = Ret limit"
    "verbose_frag od = Ret verbose"
    "fs = sudo @ [plain_frag path,
        plain_frag (if od ''--lanplus'' \<in> {Some (PStr []), Some (PStr ''1'')} then '' -I lanplus'' else '' -I lan''),
        plain_frag ('' -H '' @ ip)] @ port @ target @ user @ auth @ [password] @ cipher @ privlvl @ kg @ limit
        @ [plain_frag ('' chassis power '' @ action)] @ verbose"
  using assms unfolding command_frags_def bindO_Ret by (elim exE conjE) (rule that, assumption+, simp)

lemma str_opt_text: "str_opt od k = Ret t \<Longrightarrow> opt_text od k = t \<and> od k = Some (PStr t)"
  by (auto simp: str_opt_def opt_text_def split: option.splits pyval.splits)

lemma sudo_words:
  assumes "sudo_frag od = Ret fs" "pasted_plain od"
  shows "\<exists>qs. (\<forall>w ws. concat (map fst fs) @ w @ spaced ws = py_join '' '' (qs @ w # ws)) \<and>
    list_all2 reads_as qs (sudo_word od)"
proof (cases "od ''--use-sudo''")
  case None
  with assms(1) show ?thesis by (intro exI [of _ "[]"]) (auto simp: sudo_frag_def sudo_word_def py_join_spaced)
next
  case (Some v)
  with assms(1) obtain t where "str_opt od ''--sudo-path'' = Ret t" "fs = [plain_frag (t @ '' '')]"
    by (auto simp: sudo_frag_def bindO_Ret)
  with Some assms(2) show ?thesis
    by (intro exI [of _ "[t]"]) (auto simp: plain_frag_def sudo_word_def py_join_Cons py_join_spaced pasted_plain_def plain_reads_as dest!: str_opt_text)
qed

lemma command_tail_words:
  assumes "command_frags od action = Ret fs" "pasted_plain od" "plain action"
  obtains sudo path others where "sudo_frag od = Ret sudo" "str_opt od ''--ipmitool-path'' = Ret path"
    "fs = sudo @ plain_frag path # others"
    "reads_words others (drop (length (sudo_word od) + 1) (command_words od action))"
  using assms(1)
proof (rule command_frags_Ret)
  note paste = assms(2) [unfolded pasted_plain_def list.pred_inject]
  fix sudo path ip port target user auth password cipher privlvl kg limit verbose
  let ?lan = "if od ''--lanplus'' \<in> {Some (PStr []), Some (PStr ''1'')} then '' -I lanplus'' else '' -I lan''"
  assume path: "sudo_frag od = Ret sudo" "str_opt od ''--ipmitool-path'' = Ret path" and ip: "str_opt od ''--ip'' = Ret ip"
    and "frag_opt od '' -p '' ''--ipport'' = Ret port" "frag_opt od '' -t '' ''--target'' = Ret target"
    and "username_frag od = Ret user" "frag_opt od '' -A '' ''--auth'' = Ret auth" "password_frag od = Ret password"
    and "frag_opt od '' -C '' ''--cipher'' = Ret cipher" "frag_opt od '' -L '' ''--privlvl'' = Ret privlvl"
    and "frag_opt od '' -y '' ''--hexadecimal-kg'' = Ret kg" "frag_opt od '' -N '' ''--ipmitool-timeout'' = Ret limit"
    and "verbose_frag od = Ret verbose"
    and eq: "fs = sudo @ [plain_frag path, plain_frag ?lan, plain_frag ('' -H '' @ ip)] @ port @ target @ user @ auth @ [password]
      @ cipher @ privlvl @ kg @ limit @ [plain_frag ('' chassis power '' @ action)] @ verbose"
  then have tails: "reads_words port (opt_words od ''-p'' ''--ipport'')" "reads_words target (opt_words od ''-t'' ''--target'')"
    "reads_words user (user_words od)" "reads_words auth (opt_words od ''-A'' ''--auth'')"
    "reads_words [password] [''-P'', password_word od]" "reads_words cipher (opt_words od ''-C'' ''--cipher'')"
    "reads_words privlvl (opt_words od ''-L'' ''--privlvl'')" "reads_words kg (opt_words od ''-y'' ''--hexadecimal-kg'')"
    "reads_words limit (opt_words od ''-N'' ''--ipmitool-timeout'')" "reads_words verbose (verbose_words od)"
    using paste by (auto intro!: frag_opt_words username_words password_words verbose_frag_words simp: reads_as_dash)
  have ip: "plain ip" "opt_text od ''--ip'' = ip" using ip paste by (auto dest!: str_opt_text)
  have heads: "reads_words [plain_frag ?lan] [''-I'', drop 4 ?lan]" "reads_words [plain_frag ('' -H '' @ ip)] [''-H'', ip]"
    "reads_words [plain_frag ('' chassis power '' @ action)] [''chassis'', ''power'', action]"
    using assms(3) ip(1) by (auto intro!: reads_words_plain simp: reads_as_dash)
  show ?thesis
  proof (rule that [OF path])
    show "fs = sudo @ plain_frag path # [plain_frag ?lan] @ [plain_frag ('' -H '' @ ip)] @ port @ target @ user @ auth
      @ [password] @ cipher @ privlvl @ kg @ limit @ [plain_frag ('' chassis power '' @ action)] @ verbose"
      unfolding eq by simp
    have "drop (length (sudo_word od) + 1) (command_words od action) = [''-I'', drop 4 ?lan] @ [''-H'', ip] @
       opt_words od ''-p'' ''--ipport'' @ opt_words od ''-t'' ''--target'' @ user_words od @ opt_words od ''-A'' ''--auth'' @
       [''-P'', password_word od] @ opt_words od ''-C'' ''--cipher'' @ opt_words od ''-L'' ''--privlvl'' @
       opt_words od ''-y'' ''--hexadecimal-kg'' @ opt_words od ''-N'' ''--ipmitool-timeout'' @
       [''chassis'', ''power'', action] @ verbose_words od" by (simp add: command_words_def ip(2))
    then show "reads_words ([plain_frag ?lan] @ [plain_frag ('' -H '' @ ip)] @ port @ target @ user @ auth
      @ [password] @ cipher @ privlvl @ kg @ limit @ [plain_frag ('' chassis power '' @ action)] @ verbose)
      (drop (length (sudo_word od) + 1) (command_words od action))"
      by (simp only:) (intro reads_words_append tails heads)
  qed
qed

lemma create_command_splits:
  assumes "create_command od action = Ret (cmd, log_cmd)" "pasted_plain od" "plain action"
  shows "shlex_split cmd = Ret (command_words od action)"
proof -
  from assms(1) obtain fs where fs: "command_frags od action = Ret fs" and cmd: "cmd = concat (map fst fs)"
    by (auto simp: create_command_def bindO_Ret)
  from fs obtain sudo path others where sudo: "sudo_frag od = Ret sudo" and path: "str_opt od ''--ipmitool-path'' = Ret path"
    and eq: "fs = sudo @ plain_frag path # others"
    and others: "reads_words others (drop (length (sudo_word od) + 1) (command_words od action))"
    by (rule command_tail_words [OF _ assms(2,3)])
  obtain qs ws where "\<And>w ws. concat (map fst sudo) @ w @ spaced ws = py_join '' '' (qs @ w # ws)"
    "list_all2 reads_as qs (sudo_word od)"
    and ws: "concat (map fst others) = spaced ws" "list_all2 reads_as ws (drop (length (sudo_word od) + 1) (command_words od action))"
    using sudo_words [OF sudo assms(2)] others unfolding reads_words_def by blast
  moreover have "reads_as path (opt_text od ''--ipmitool-path'')"
    using assms(2) path by (auto simp: pasted_plain_def plain_reads_as dest!: str_opt_text)
  moreover have "command_words od action = sudo_word od @ opt_text od ''--ipmitool-path'' # drop (length (sudo_word od) + 1) (command_words od action)"
    by (simp add: command_words_def)
  ultimately have "cmd = py_join '' '' (qs @ path # ws)" "list_all2 reads_as (qs @ path # ws) (command_words od action)"
    unfolding cmd eq by (simp add: plain_frag_def, metis list_all2_Cons list_all2_appendI)
  then show ?thesis by (simp add: shlex_split_words)
qed

text \<open>
  C13. The command for ipmitool carries the credentials unharmed: when the options that are pasted
  in unquoted are plain words, splitting the command gives exactly the intended words, with the
  user name and the password (any text: blanks, quotes, backslashes, or empty) as one word each.
\<close>

theorem ipmi_command_words:
  assumes "create_command od action = Ret (cmd, log_cmd)" "pasted_plain od" "plain action"
  shows "shlex_split cmd = Ret (command_words od action)"
  by (rule create_command_splits [OF assms])

definition ipmi_opts :: "string \<Rightarrow> pydict" where
  "ipmi_opts action = [''--action'' \<mapsto> PStr action, ''--ipmitool-path'' \<mapsto> PStr ''ipmitool'', ''--ip'' \<mapsto> PStr ''bmc'',
     ''--ipport'' \<mapsto> PStr ''623'', ''--lanplus'' \<mapsto> PStr ''1'', ''--username'' \<mapsto> PStr ''root'',
     ''--password'' \<mapsto> PStr (''it'' @ [squote] @ ''s a secret''), ''--verbose-level'' \<mapsto> PInt 0,
     ''--power-timeout'' \<mapsto> PStr ''2'', ''--power-wait'' \<mapsto> PInt 2, ''--stonith-status-sleep'' \<mapsto> PStr ''1'',
     ''--retry-on'' \<mapsto> PStr ''1'', ''device_opt'' \<mapsto> PList [''ipaddr'']]"

definition ipmi_words :: "string \<Rightarrow> string list" where
  "ipmi_words action = [''ipmitool'', ''-I'', ''lanplus'', ''-H'', ''bmc'', ''-p'', ''623'', ''-U'', ''root'', ''-P'',
     ''it'' @ [squote] @ ''s a secret'', ''chassis'', ''power'', action]"

lemma ipmi_words_demo: "command_words (ipmi_opts a) action = ipmi_words action"
  by (simp add: command_words_def sudo_word_def opt_text_def opt_words_def user_words_def password_word_def verbose_words_def
      ipmi_opts_def ipmi_words_def)

lemma ipmi_plain_demo: "pasted_plain (ipmi_opts a)"
  by (simp add: pasted_plain_def ipmi_opts_def plain_def sh_space_def)

lemma ipmi_command_demo: "\<exists>c l. create_command (ipmi_opts a) action = Ret (c, l)"
  by (simp add: create_command_def command_frags_def sudo_frag_def str_opt_def frag_opt_def username_frag_def password_frag_def
      verbose_frag_def ipmi_opts_def)

theorem ipmi_command_words_witness:
  "\<exists>c l. create_command (ipmi_opts ''off'') ''status'' = Ret (c, l) \<and> shlex_split c = Ret (ipmi_words ''status'')"
proof -
  obtain c l where c: "create_command (ipmi_opts ''off'') ''status'' = Ret (c, l)" using ipmi_command_demo by blast
  have "plain ''status''" by (simp add: plain_def sh_space_def)
  from ipmi_command_words [OF c ipmi_plain_demo this] c show ?thesis by (simp add: ipmi_words_demo)
qed


section \<open>Fencing\<close>


definition ipmi_ready :: "string list \<Rightarrow> 'd st \<Rightarrow> bool" where
  \<comment> \<open>the status command has the words \<open>args\<close>, and a process that takes too long ends the agent\<close>
  "ipmi_ready args s \<longleftrightarrow> (\<exists>c l. create_command (opts s) ''status'' = Ret (c, l) \<and> shlex_split c = Ret args) \<and>
     opts s ''retry'' = None"

definition ipmi_keys :: "string set" where
  "ipmi_keys = {''--use-sudo'', ''--sudo-path'', ''--ipmitool-path'', ''--lanplus'', ''--ip'', ''--ipport'', ''--target'',
    ''--username'', ''--auth'', ''--password'', ''--cipher'', ''--privlvl'', ''--hexadecimal-kg'', ''--ipmitool-timeout'',
    ''--verbose-level''}"

lemma create_command_cong:
  assumes "\<forall>k\<in>ipmi_keys. e k = d k" shows "create_command e action = create_command d action"
proof -
  from assms have same: "e ''--use-sudo'' = d ''--use-sudo''" "e ''--sudo-path'' = d ''--sudo-path''" "e ''--ipmitool-path'' = d
    ''--ipmitool-path''" "e ''--lanplus'' = d ''--lanplus''" "e ''--ip'' = d ''--ip''" "e ''--ipport'' = d ''--ipport''"
    "e ''--target'' = d ''--target''" "e ''--username'' = d ''--username''" "e ''--auth'' = d ''--auth''" "e
    ''--password'' = d ''--password''" "e ''--cipher'' = d ''--cipher''" "e ''--privlvl'' = d ''--privlvl''" "e
    ''--hexadecimal-kg'' = d ''--hexadecimal-kg''" "e ''--ipmitool-timeout'' = d ''--ipmitool-timeout''" "e
    ''--verbose-level'' = d ''--verbose-level''"
    unfolding ipmi_keys_def by simp_all
  show ?thesis
    unfolding create_command_def command_frags_def sudo_frag_def str_opt_def frag_opt_def username_frag_def
      password_frag_def verbose_frag_def same ..
qed

lemma not_ipmi_keys: "''--plug'' \<notin> ipmi_keys" "''--plugs'' \<notin> ipmi_keys" "''--uuid'' \<notin> ipmi_keys" "''--action'' \<notin> ipmi_keys"
  by (simp_all add: ipmi_keys_def)

lemma ipmi_ready_frame [simp]:
  "ipmi_ready args (s\<lparr>opts := plug_opts p (opts s)\<rparr>) = ipmi_ready args s"
  "ipmi_ready args (s\<lparr>opts := (opts s)(''--action'' \<mapsto> v)\<rparr>) = ipmi_ready args s"
  "ipmi_ready args (s\<lparr>opts := split_opts (opts s)\<rparr>) = ipmi_ready args s"
  "ipmi_ready args (s\<lparr>clock := c\<rparr>) = ipmi_ready args s"
proof -
  have "create_command (plug_opts p (opts s)) a = create_command (opts s) a"
    "create_command ((opts s)(''--action'' \<mapsto> v)) a = create_command (opts s) a"
    "create_command (split_opts (opts s)) a = create_command (opts s) a" for a
    by (rule create_command_cong; use not_ipmi_keys in \<open>auto intro!: plug_opts_other(1) split_opts_other\<close>)+
  then show "ipmi_ready args (s\<lparr>opts := plug_opts p (opts s)\<rparr>) = ipmi_ready args s"
    "ipmi_ready args (s\<lparr>opts := (opts s)(''--action'' \<mapsto> v)\<rparr>) = ipmi_ready args s"
    "ipmi_ready args (s\<lparr>opts := split_opts (opts s)\<rparr>) = ipmi_ready args s"
    by (simp_all add: ipmi_ready_def)
qed (simp add: ipmi_ready_def)













end
