(* ===== verification/Fence_Scsi_Main.thy ===== *)
theory Fence_Scsi_Main
  imports Fence_Scsi Agent_Main
begin

text \<open>
  \<open>agents/scsi/fence_scsi.py\<close>: the options of the agent and its main function, which also is the
  main function of the watchdog scripts fence\_scsi\_check and fence\_scsi\_check\_hardreboot. What
  is printed to the log file of \<open>--logfile\<close> stays in the model's standard output.
\<close>

section \<open>Options\<close>

definition new_opts_scsi :: "(string \<times> optdef) list" where
  "new_opts_scsi =
    [(''devices'', \<lparr>o_getopt = ''d:'', o_longopt = Some ''devices'',
        o_help = ''-d, --devices=[devices]        List of devices to use for current operation'',
        o_required = Some ''0'', o_shortdesc = Some ''List of devices to use for current operation. Devices can be comma or space separated list of raw devices (eg. /dev/sdc). Each device must support SCSI-3 persistent reservations. Optional if cluster is configured with clvm or lvmlockd.'',
        o_type = None, o_default = None, o_choices = None, o_order = 1\<rparr>),
     (''nodename'', \<lparr>o_getopt = '':'', o_longopt = Some ''nodename'',
        o_help = [],
        o_required = Some ''0'', o_shortdesc = Some [],
        o_type = None, o_default = None, o_choices = None, o_order = 1\<rparr>),
     (''key'', \<lparr>o_getopt = ''k:'', o_longopt = Some ''key'',
        o_help = ''-k, --key=[key]                Key to use for the current operation'',
        o_required = Some ''0'', o_shortdesc = Some ''Key to use for the current operation. This key should be unique to a node. For the \"on\" action, the key specifies the key use to register the local node. For the \"off\" action, this key specifies the key to be removed from the device(s).'',
        o_type = None, o_default = None, o_choices = None, o_order = 1\<rparr>),
     (''aptpl'', \<lparr>o_getopt = ''a'', o_longopt = Some ''aptpl'',
        o_help = ''-a, --aptpl                    Use the APTPL flag for registrations'',
        o_required = Some ''0'', o_shortdesc = Some (''Use the APTPL flag for registrations. This option is only used for the '' @ [CHR 0x27] @ ''on'' @ [CHR 0x27] @ '' action.''),
        o_type = None, o_default = None, o_choices = None, o_order = 1\<rparr>),
     (''mpath_register_method'', \<lparr>o_getopt = '':'', o_longopt = Some ''mpath-register-method'',
        o_help = ''--mpath-register-method=[multi|single]  Register key to all multipath sub devices (multi), or directly to the main multipath device (single).'',
        o_required = Some ''0'', o_shortdesc = Some ''Multipath register method (multi/single).'',
        o_type = None, o_default = Some (PStr ''multi''), o_choices = None, o_order = 3\<rparr>),
     (''readonly'', \<lparr>o_getopt = [], o_longopt = Some ''readonly'',
        o_help = ''--readonly                     Open DEVICE read-only. May be useful with PRIN commands if there are unwanted side effects with the default read-write open.'',
        o_required = Some ''0'', o_shortdesc = Some ''Open DEVICE read-only.'',
        o_type = None, o_default = None, o_choices = None, o_order = 4\<rparr>),
     (''suppress-errors'', \<lparr>o_getopt = [], o_longopt = Some ''suppress-errors'',
        o_help = ''--suppress-errors              Suppress error log. Suppresses error logging when run from the watchdog service before pacemaker starts.'',
        o_required = Some ''0'', o_shortdesc = Some ''Error log suppression.'',
        o_type = None, o_default = None, o_choices = None, o_order = 5\<rparr>),
     (''logfile'', \<lparr>o_getopt = '':'', o_longopt = Some ''logfile'',
        o_help = ''-f, --logfile                  Log output (stdout and stderr) to file'',
        o_required = Some ''0'', o_shortdesc = Some ''Log output (stdout and stderr) to file'',
        o_type = None, o_default = None, o_choices = None, o_order = 6\<rparr>),
     (''corosync_cmap_path'', \<lparr>o_getopt = '':'', o_longopt = Some ''corosync-cmap-path'',
        o_help = ''--corosync-cmap-path=[path]    Path to corosync-cmapctl binary'',
        o_required = Some ''0'', o_shortdesc = Some ''Path to corosync-cmapctl binary'',
        o_type = None, o_default = Some (PStr ''@COROSYNC_CMAPCTL_PATH@''), o_choices = None, o_order = 300\<rparr>),
     (''sg_persist_path'', \<lparr>o_getopt = '':'', o_longopt = Some ''sg_persist-path'',
        o_help = ''--sg_persist-path=[path]       Path to sg_persist binary'',
        o_required = Some ''0'', o_shortdesc = Some ''Path to sg_persist binary'',
        o_type = None, o_default = Some (PStr ''@SG_PERSIST_PATH@''), o_choices = None, o_order = 300\<rparr>),
     (''sg_turs_path'', \<lparr>o_getopt = '':'', o_longopt = Some ''sg_turs-path'',
        o_help = ''--sg_turs-path=[path]          Path to sg_turs binary'',
        o_required = Some ''0'', o_shortdesc = Some ''Path to sg_turs binary'',
        o_type = None, o_default = Some (PStr ''@SG_TURS_PATH@''), o_choices = None, o_order = 300\<rparr>),
     (''vgs_path'', \<lparr>o_getopt = '':'', o_longopt = Some ''vgs-path'',
        o_help = ''--vgs-path=[path]              Path to vgs binary'',
        o_required = Some ''0'', o_shortdesc = Some ''Path to vgs binary'',
        o_type = None, o_default = Some (PStr ''@VGS_PATH@''), o_choices = None, o_order = 300\<rparr>),
     (''key_value'', \<lparr>o_getopt = '':'', o_longopt = Some ''key-value'',
        o_help = ''--key-value=<id|hash>          SCSI key node generation method'',
        o_required = Some ''0'', o_shortdesc = Some ''Method used to generate the SCSI key. \"id\" (default) uses the positional ID from \"corosync-cmactl nodelist\" output which can get inconsistent when nodes are removed from cluster without full cluster restart. \"hash\" uses part of hash made out of node names which is not affected over time but there is theoretical chance that hashes can collide as size of SCSI key is quite limited.'',
        o_type = None, o_default = Some (PStr ''id''), o_choices = None, o_order = 300\<rparr>)]"

definition device_opt_scsi :: "string list" where
  "device_opt_scsi = [''no_login'', ''no_password'', ''devices'', ''nodename'', ''port'', ''no_port'', ''key'', ''aptpl'',
     ''fabric_fencing'', ''on_target'', ''corosync_cmap_path'', ''sg_persist_path'', ''sg_turs_path'',
     ''mpath_register_method'', ''readonly'', ''suppress-errors'', ''logfile'', ''vgs_path'', ''force_on'', ''key_value'']"

definition docs_scsi :: docs where
  "docs_scsi = \<lparr>agent_name = None, shortdesc = ''Fence agent for SCSI persistent reservation'',
     longdesc = ''fence_scsi is an I/O Fencing agent that uses SCSI-3 persistent reservations to control access to shared storage devices. These devices must support SCSI-3 persistent reservations (SPC-3 or greater) as well as the \"preempt-and-abort\" subcommand.''
       @ nl @ ''The fence_scsi agent works by having each node in the cluster register a unique key with the SCSI device(s). Reservation key is generated from \"node id\" (default) or from \"node name hash\" (RECOMMENDED) by adjusting \"key_value\" option. Using hash is recommended to prevent issues when removing nodes from cluster without full cluster restart. Once registered, a single node will become the reservation holder by creating a \"write exclusive, registrants only\" reservation on the device(s). The result is that only registered nodes may write to the device(s). When a node failure occurs, the fence_scsi agent will remove the key belonging to the failed node from the device(s). The failed node will no longer be able to write to the device(s). A manual reboot is required.''
       @ nl @ ''.P'' @ nl @ ''When used as a watchdog device you can define e.g. retry=1, retry-sleep=2 and verbose=yes parameters in /etc/sysconfig/stonith if you have issues with it failing.'',
     vendorurl = Some [], symlink = []\<rparr>"

section \<open>Input control\<close>

definition given :: "pydict \<Rightarrow> string \<Rightarrow> bool" where
  \<comment> \<open>\<open>k in options and options[k]\<close>\<close>
  "given od k \<longleftrightarrow> od k \<notin> {None, Some PNone, Some (PInt 0), Some (PStr []), Some (PList [])}"

definition drop_separator :: "('w, unit) prog" where
  "drop_separator = bindM device_optM (\<lambda>names.
     setoptM ''device_opt'' (PList (filter (\<lambda>x. x \<noteq> ''separator'') names)))"

definition open_logfile :: "('d, unit) scsi" where
  "open_logfile = bindM (getM opts) (\<lambda>od.
     if od ''--logfile'' = None then retM ()
     else bindM (stroptM ''--logfile'') (\<lambda>path.
          bindM (getM (\<lambda>s. swritable (world s) path)) (\<lambda>ok.
            if ok then modM (\<lambda>s. s\<lparr>world := (world s)\<lparr>sfiles := (sfiles (world s))(path \<mapsto> [])\<rparr>\<rparr>)
            else fail_usage (''Failed: Unable to create file '' @ path) True)))"

definition use_nodename :: "('w, unit) prog" where
  "use_nodename = bindM (getM opts) (\<lambda>od.
     if given od ''--nodename''
     then bindM (optM ''--nodename'') (\<lambda>v. seqM (setoptM ''--plug'' v) (deloptM ''--nodename''))
     else retM ())"

definition choose_key :: "'d tools \<Rightarrow> ('d, unit) scsi" where
  "choose_key tool =
     bindM (getM opts) (\<lambda>od.
     seqM (if given od ''--key'' then retM () else bindM (generate_key tool) (\<lambda>k. setoptM ''--key'' (PStr k)))
    (bindM (getM opts) (\<lambda>od'.
       if od' ''--key'' = Some (PStr ''0'') \<or> \<not> given od' ''--key'' then fail_usage ''Failed: key cannot be 0'' True
       else retM ())))"

definition device_sep_re :: re where
  "device_sep_re = Alt (Seq (Star Spc) (Seq (Lit '','') (Star Spc))) (Plus Spc)"

definition device_list :: "string \<Rightarrow> string list" where
  "device_list t = filter (\<lambda>d. d \<noteq> []) (re_split device_sep_re None [] (py_strip t))"

definition choose_devices :: "'d tools \<Rightarrow> ('d, unit) scsi" where
  "choose_devices tool =
     bindM (hasoptM ''--devices'') (\<lambda>has.
     bindM (if has then bindM (stroptM ''--devices'') (\<lambda>t. retM (device_list t)) else retM []) (\<lambda>named.
     bindM (if named = [] then get_shared_devices tool else retM named) (\<lambda>devs.
     seqM (setoptM ''devices'' (PList devs))
          (if devs = [] then fail_usage ''Failed: No devices found'' True else retM ()))))"

definition scsi_input_control :: "'d tools \<Rightarrow> ('d, unit) scsi" where
  "scsi_input_control tool =
     bindM (optM ''--action'') (\<lambda>action.
     let validating = (action = PStr ''validate-all'') in
     seqM (if action = PStr ''monitor'' then exit_with (do_action_monitor tool) else retM ())
    (seqM use_nodename
    (bindM (getM opts) (\<lambda>od.
     seqM (if \<not> given od ''--plug'' \<and> \<not> given od ''--key''
           then fail_usage ''Failed: nodename or key is required'' (\<not> validating) else retM ())
    (seqM (if \<not> validating then choose_key tool else retM ())
    (seqM (if od ''--key-value'' \<noteq> None \<and> od ''--key-value'' \<notin> {Some (PStr ''id''), Some (PStr ''hash'')}
           then fail_usage (''Failed: key-value has to be '' @ [squote] @ ''id'' @ [squote] @ '' or '' @ [squote] @ ''hash'' @ [squote])
                  (\<not> validating) else retM ())
    (seqM (if validating then exitM 0 else retM ())
    (bindM (stroptM ''--key'') (\<lambda>key.
     seqM (setoptM ''--key'' (PStr (dropWhile (\<lambda>c. c = CHR ''0'') key)))
          (choose_devices tool))))))))))"

section \<open>The main function\<close>

definition main_scsi where
  "main_scsi tool set_order time_start fuel =
     seqM (on_lib (add_opts new_opts_scsi))
    (seqM (on_lib (settabM ''delay'' (\<lambda>d. d\<lparr>o_getopt := ''H:''\<rparr>)))
    (seqM (on_lib (set_help ''port'' ''-n, --plug=[nodename]          Name of the node to be fenced''))
    (seqM (on_lib (set_shortdesc ''port'' ''Name of the node to be fenced. The node name is used to generate the key value used for the current operation. This option will be ignored when used with the -k option.''))
    (bindM (on_lib (getM (\<lambda>s. (basename (argv0 (world s)), argv (world s))))) (\<lambda>(name, args).
     seqM (if name = ''fence_scsi_check'' then exit_with (on_dev (scsi_check tool args False))
           else if name = ''fence_scsi_check_hardreboot'' then exit_with (on_dev (scsi_check tool args True))
           else retM ())
    (seqM (on_lib (read_options device_opt_scsi True))
    (seqM drop_separator
    (seqM (on_lib (show_docs set_order (Some docs_scsi)))
    (seqM (run_delay time_start 0 0)
    (seqM (on_dev open_logfile)
    (seqM (setoptM ''store_path'' (PStr STORE_PATH))
    (seqM (on_dev (scsi_input_control tool))
          (exit_with (on_dev (fence_action fuel (scsi_fns fuel tool))))))))))))))))"

end
