(* ===== verification/Fence_Mpath.thy ===== *)
theory Fence_Mpath
  imports Fence_Scsi_Main
begin

text \<open>
  \<open>agents/mpath/fence_mpath.py\<close>: fencing by persistent reservations of multipath devices. The
  agent is written after fence\_scsi, runs mpathpersist in the place of sg\_persist, and takes the
  key from the option \<open>--plug\<close>; its world is that of fence\_scsi. What the two have in common
  (checks of devices, parsing of keys, the options of the watchdog check) is taken from there.
\<close>

section \<open>Running mpathpersist\<close>

definition run_cmd_mpath :: "'d tools \<Rightarrow> string \<Rightarrow> ('d, int \<times> string \<times> string) scsi" where
  "run_cmd_mpath tool cmd =
     bindM (hasoptM ''--use-sudo'') (\<lambda>sudo.
     bindM (if sudo then bindM (stroptM ''--sudo-path'') (\<lambda>p. retM (p @ '' '')) else retM []) (\<lambda>prefix.
       run_command (spawn tool) (prefix @ cmd)))"

definition succeeds_mpath :: "'d tools \<Rightarrow> string \<Rightarrow> ('d, bool) scsi" where
  "succeeds_mpath tool cmd = bindM (run_cmd_mpath tool cmd) (\<lambda>(rc, _, _). retM (rc = 0))"

definition preempt_abort_mpath :: "'d tools \<Rightarrow> string \<Rightarrow> string \<Rightarrow> ('d, bool) scsi" where
  "preempt_abort_mpath tool host x =
     bindM (stroptM ''--mpathpersist-path'') (\<lambda>mp.
     bindM (stroptM ''--plug'') (\<lambda>key.
       succeeds_mpath tool (mp @ '' -o --preempt-abort --prout-type=5 --param-rk='' @ host @ '' --param-sark='' @ key @ '' -d '' @ x)))"

definition register_dev_mpath :: "'d tools \<Rightarrow> string \<Rightarrow> ('d, bool) scsi" where
  "register_dev_mpath tool x =
     bindM (stroptM ''--mpathpersist-path'') (\<lambda>mp.
     bindM (stroptM ''--plug'') (\<lambda>key.
       succeeds_mpath tool (mp @ '' -o --register --param-sark='' @ key @ '' -d '' @ x)))"

definition reserve_dev_mpath :: "'d tools \<Rightarrow> string \<Rightarrow> ('d, bool) scsi" where
  "reserve_dev_mpath tool x =
     bindM (stroptM ''--mpathpersist-path'') (\<lambda>mp.
     bindM (stroptM ''--plug'') (\<lambda>key.
       succeeds_mpath tool (mp @ '' -o --reserve --prout-type=5 --param-rk='' @ key @ '' -d '' @ x)))"

definition reservation_re_mpath :: re where
  "reservation_re_mpath = Seq (Plus Spc) (Seq (LitI ''key'') (Seq (Star Spc) (Seq (Lit ''='') (Seq (Star Spc)
     (Seq (LitI ''0x'') (Seq (Grp 1 (Plus NonSpc)) (Plus Spc)))))))"

definition get_reservation_key_mpath :: "'d tools \<Rightarrow> string \<Rightarrow> ('d, string option) scsi" where
  "get_reservation_key_mpath tool x =
     bindM (stroptM ''--mpathpersist-path'') (\<lambda>mp.
     bindM (run_cmd_mpath tool (mp @ '' -i -r -d '' @ x)) (\<lambda>(rc, out_text, err_text).
       seqM (if rc \<noteq> 0
             then fail_usage (''Cannot get reservation key on device '' @ quoted x @ '': '' @ err_text) True else retM ())
            (retM (search_group reservation_re_mpath out_text))))"

definition get_registration_keys_mpath :: "'d tools \<Rightarrow> bool \<Rightarrow> string \<Rightarrow> ('d, string list) scsi" where
  "get_registration_keys_mpath tool failing x =
     bindM (stroptM ''--mpathpersist-path'') (\<lambda>mp.
     bindM (run_cmd_mpath tool (mp @ '' -i -k -d '' @ x)) (\<lambda>(rc, out_text, err_text).
       if rc \<noteq> 0 then
         seqM (fail_usage (''Cannot get registration keys on device '' @ quoted x @ '': '' @ err_text) failing) (retM [])
       else retM (parse_keys out_text)))"

section \<open>The file of devices and keys\<close>

definition entry_re :: "string \<Rightarrow> string \<Rightarrow> re" where
  "entry_re x key = Seq Bol (Seq (Pasted x) (Seq (Plus Spc) (Seq (Pasted key) Eol)))"

definition dev_write_mpath :: "string \<Rightarrow> ('d, unit) scsi" where
  "dev_write_mpath x =
     bindM (stroptM ''--store-path'') (\<lambda>store.
     bindM (getM (\<lambda>s. (sdirs (world s) store, smakeable (world s) store))) (\<lambda>(there, makeable).
     seqM (if there then retM ()
           else if makeable then modM (\<lambda>s. s\<lparr>world := (world s)\<lparr>sdirs := (sdirs (world s))(store := True)\<rparr>\<rparr>)
           else raiseM (OSErr store))
    (bindM (getM (\<lambda>s. case sfiles (world s) (store @ ''/mpath.devices'') of None \<Rightarrow> [] | Some t \<Rightarrow> t)) (\<lambda>before_text.
     bindM (stroptM ''--plug'') (\<lambda>key.
       write_file (store @ ''/mpath.devices'')
         (if re_search (entry_re x key) before_text = None then before_text @ x @ [CHR 0x09] @ key @ nl else before_text))))))"

definition dict_put :: "'k \<Rightarrow> 'v \<Rightarrow> ('k \<times> 'v) list \<Rightarrow> ('k \<times> 'v) list" where
  \<comment> \<open>\<open>d[k] = v\<close>: a dictionary keeps the place of the first insertion\<close>
  "dict_put k v d = (if k \<in> fst ` set d then map (\<lambda>(j, w). (j, if j = k then v else w)) d else d @ [(k, v)])"

fun parse_devices :: "string list \<Rightarrow> (string \<times> string) list \<Rightarrow> (string \<times> string) list outcome" where
  "parse_devices [] d = Ret d"
| "parse_devices (line # ls) d =
     (if py_strip line = [] then parse_devices ls d
      else (case py_words (py_strip line) of
          [x, key] \<Rightarrow> parse_devices ls (dict_put x key d)
        | _ \<Rightarrow> Raise (ValueError ''wrong number of values to unpack'')))"

definition dev_read_mpath :: "bool \<Rightarrow> ('d, (string \<times> string) list option) scsi" where
  "dev_read_mpath failing =
     bindM (stroptM ''--store-path'') (\<lambda>store.
     bindM (getM (\<lambda>s. sfiles (world s) (store @ ''/mpath.devices''))) (\<lambda>r. case r of
         None \<Rightarrow>
           if failing then seqM (fail_usage (''Failed: Cannot open file '' @ quoted (store @ ''/mpath.devices'')) True) (retM None)
           else retM None
       | Some t \<Rightarrow> bindM (liftM (parse_devices (py_split nl t) [])) (\<lambda>d. retM (Some d))))"

section \<open>Status and switching\<close>

definition status_dev_mpath :: "'d tools \<Rightarrow> string \<Rightarrow> string \<Rightarrow> ('d, string) scsi" where
  \<comment> \<open>one round of the loop of \<open>get_status\<close>\<close>
  "status_dev_mpath tool status x =
     seqM (is_block_device x)
    (bindM (stroptM ''--plug'') (\<lambda>key.
     bindM (get_registration_keys_mpath tool True x) (\<lambda>keys.
       retM (if key \<in> set keys then ''on'' else status))))"

definition get_status_mpath :: "'d tools \<Rightarrow> ('d, string option) scsi" where
  "get_status_mpath tool =
     bindM devicesM (\<lambda>devs.
     bindM (foldM (status_dev_mpath tool) ''off'' devs) (\<lambda>status.
     bindM (optM ''--action'') (\<lambda>action.
     seqM (if action = PStr ''monitor'' then seqM (dev_read_mpath True) (retM ()) else retM ())
          (retM (Some status)))))"

definition set_on_dev_mpath :: "'d tools \<Rightarrow> nat \<Rightarrow> string \<Rightarrow> ('d, nat) scsi" where
  "set_on_dev_mpath tool count x =
     seqM (is_block_device x)
    (seqM (register_dev_mpath tool x)
    (bindM (stroptM ''--plug'') (\<lambda>key.
     bindM (get_registration_keys_mpath tool True x) (\<lambda>keys.
       if key \<notin> set keys then retM (count + 1)
       else seqM (dev_write_mpath x)
        (bindM (get_reservation_key_mpath tool x) (\<lambda>res.
          if res \<noteq> None then retM count
          else bindM (reserve_dev_mpath tool x) (\<lambda>ok.
            if ok then retM count
            else bindM (get_reservation_key_mpath tool x) (\<lambda>again.
              retM (if again = None then count + 1 else count)))))))))"

definition fence_dev_mpath :: "'d tools \<Rightarrow> (string \<times> string) list \<Rightarrow> string \<Rightarrow> ('d, unit) scsi" where
  "fence_dev_mpath tool dev_keys x =
     seqM (is_block_device x)
    (bindM (stroptM ''--plug'') (\<lambda>key.
     bindM (get_registration_keys_mpath tool True x) (\<lambda>keys.
       if key \<notin> set keys then retM ()
       else (case map_of dev_keys x of
           None \<Rightarrow> raiseM (KeyError x)
         | Some host \<Rightarrow> seqM (preempt_abort_mpath tool host x) (retM ())))))"

definition verify_dev_mpath :: "'d tools \<Rightarrow> nat \<Rightarrow> string \<Rightarrow> ('d, nat) scsi" where
  "verify_dev_mpath tool count x =
     bindM (stroptM ''--plug'') (\<lambda>key.
     bindM (get_registration_keys_mpath tool True x) (\<lambda>keys.
       if key \<in> set keys then retM (count + 1)
       else bindM (get_reservation_key_mpath tool x) (\<lambda>res.
         retM (if res = None \<or> res = Some [] then count + 1 else count))))"

definition set_status_mpath :: "'d tools \<Rightarrow> ('d, unit) scsi" where
  "set_status_mpath tool =
     bindM (optM ''--action'') (\<lambda>action.
       if action = PStr ''on'' then
         bindM devicesM (\<lambda>devs. bindM (foldM (set_on_dev_mpath tool) 0 devs) finish_set)
       else
         bindM (dev_read_mpath True) (\<lambda>r.
         bindM devicesM (\<lambda>devs.
         seqM (forM devs (fence_dev_mpath tool (case r of None \<Rightarrow> [] | Some d \<Rightarrow> d)))
              (bindM (foldM (verify_dev_mpath tool) 0 devs) finish_set))))"

definition fns_mpath :: "'d tools \<Rightarrow> 'd scsi_world power_fns" where
  "fns_mpath tool = \<lparr>set_power_fn = Some (set_status_mpath tool), get_power_fn = Some (get_status_mpath tool),
     get_outlet_list = None, reboot_cycle_fn = None, sync_set_power_fn = None\<rparr>"

section \<open>The watchdog check\<close>

definition mpath_check_get_options :: "('d, unit) scsi" where
  "mpath_check_get_options = bindM (getM (\<lambda>s. sfiles (world s) ''/etc/sysconfig/stonith'')) (\<lambda>r. case r of
      None \<Rightarrow> retM ()
    | Some t \<Rightarrow> forM (re_findall sysconfig_re None t) (\<lambda>m.
        setoptM (py_lower (group 1 m)) (PStr (py_lower (group 2 m)))))"

definition check_defaults_mpath :: pydict where
  "check_defaults_mpath = [''--mpathpersist-path'' \<mapsto> PStr ''/usr/sbin/mpathpersist'', ''--store-path'' \<mapsto> PStr ''@STORE_PATH@'',
     ''--power-timeout'' \<mapsto> PStr ''5'', ''retry'' \<mapsto> PStr ''0'', ''retry-sleep'' \<mapsto> PStr ''1'']"

definition mpath_check :: "'d tools \<Rightarrow> string list \<Rightarrow> bool \<Rightarrow> ('d, int) scsi" where
  \<comment> \<open>\<open>args\<close> is \<open>sys.argv[1:]\<close>\<close>
  "mpath_check tool args hardreboot =
     (if length args \<ge> 2 \<and> args ! 0 = ''repair'' then liftM (py_int (PStr (args ! 1)))
      else
        seqM (modM (\<lambda>s. s\<lparr>opts := check_defaults_mpath\<rparr>))
       (seqM mpath_check_get_options
       (bindM (dev_read_mpath False) (\<lambda>devs.
          if devs = None \<or> devs = Some []
          then bindM (hasoptM ''--suppress-errors'') (\<lambda>quiet.
            seqM (if \<not> quiet then logM ''No devices found'' else retM ()) (retM 0))
          else bindM (check_devices (get_registration_keys_mpath tool False) (the devs)) (\<lambda>found.
            if found then retM 0
            else seqM (if hardreboot then modM (\<lambda>s. s\<lparr>world := (world s)\<lparr>reboots := reboots (world s) + 1\<rparr>\<rparr>)
                       else retM ())
                      (retM 2))))))"

section \<open>The main function\<close>

definition new_opts_mpath :: "(string \<times> optdef) list" where
  "new_opts_mpath =
    [(''devices'', \<lparr>o_getopt = ''d:'', o_longopt = Some ''devices'',
        o_help = ''-d, --devices=[devices]        List of devices to use for current operation'',
        o_required = Some ''0'', o_shortdesc = Some ''List of devices to use for current operation. Devices can be comma or space separated list of device-mapper multipath devices (eg. /dev/mapper/3600508b400105df70000e00000ac0000 or /dev/mapper/mpath1). Each device must support SCSI-3 persistent reservations.'',
        o_type = None, o_default = None, o_choices = None, o_order = 1\<rparr>),
     (''key'', \<lparr>o_getopt = ''k:'', o_longopt = Some ''key'',
        o_help = ''-k, --key=[key]                Replaced by -n, --plug'',
        o_required = Some ''0'', o_shortdesc = Some ''Replaced by port/-n/--plug'',
        o_type = None, o_default = None, o_choices = None, o_order = 1\<rparr>),
     (''suppress-errors'', \<lparr>o_getopt = [], o_longopt = Some ''suppress-errors'',
        o_help = ''--suppress-errors              Suppress error log. Suppresses error logging when run from the watchdog service before pacemaker starts.'',
        o_required = Some ''0'', o_shortdesc = Some ''Error log suppression.'',
        o_type = None, o_default = None, o_choices = None, o_order = 4\<rparr>),
     (''mpathpersist_path'', \<lparr>o_getopt = '':'', o_longopt = Some ''mpathpersist-path'',
        o_help = ''--mpathpersist-path=[path]     Path to mpathpersist binary'',
        o_required = Some ''0'', o_shortdesc = Some ''Path to mpathpersist binary'',
        o_type = None, o_default = Some (PStr ''@MPATH_PATH@''), o_choices = None, o_order = 200\<rparr>),
     (''store_path'', \<lparr>o_getopt = '':'', o_longopt = Some ''store-path'',
        o_help = ''--store-path=[path]            Path to directory containing cached keys'',
        o_required = Some ''0'', o_shortdesc = Some ''Path to directory where fence agent can store information'',
        o_type = None, o_default = Some (PStr ''@STORE_PATH@''), o_choices = None, o_order = 200\<rparr>)]"

definition device_opt_mpath :: "string list" where
  "device_opt_mpath = [''no_login'', ''no_password'', ''devices'', ''key'', ''sudo'', ''fabric_fencing'', ''on_target'',
     ''store_path'', ''suppress-errors'', ''mpathpersist_path'', ''force_on'', ''port'', ''no_port'']"

definition docs_mpath :: docs where
  "docs_mpath = \<lparr>agent_name = None, shortdesc = ''Fence agent for multipath persistent reservation'',
     longdesc = ''fence_mpath is an I/O Fencing agent that uses SCSI-3 persistent reservations to control access multipath devices. Underlying devices must support SCSI-3 persistent reservations (SPC-3 or greater) as well as the \"preempt-and-abort\" subcommand.''
       @ nl @ ''The fence_mpath agent works by having a unique key for each node that has to be set in /etc/multipath.conf. Once registered, a single node will become the reservation holder by creating a \"write exclusive, registrants only\" reservation on the device(s). The result is that only registered nodes may write to the device(s). When a node failure occurs, the fence_mpath agent will remove the key belonging to the failed node from the device(s). The failed node will no longer be able to write to the device(s). A manual reboot is required.''
       @ nl @ ''.P'' @ nl @ ''When used as a watchdog device you can define e.g. retry=1, retry-sleep=2 and verbose=yes parameters in /etc/sysconfig/stonith if you have issues with it failing.'',
     vendorurl = Some ''https://www.sourceware.org/dm/'', symlink = []\<rparr>"

definition key_as_plug :: "('w, unit) prog" where
  "key_as_plug = bindM (getM opts) (\<lambda>od.
     if od ''--key'' \<noteq> None then
       bindM (optM ''--key'') (\<lambda>v. seqM (setoptM ''--plug'' v) (deloptM ''--key''))
     else if od ''--help'' \<noteq> None then retM ()
     else bindM (optM ''--action'') (\<lambda>action.
       if action \<in> PStr ` {''off'', ''on'', ''reboot'', ''status'', ''validate-all''} \<and> od ''--plug'' = None
       then fail_usage ''Failed: You have to enter plug number or machine identification'' (action \<noteq> PStr ''validate-all'')
       else retM ()))"

definition strip_key :: "string \<Rightarrow> string" where
  \<comment> \<open>\<open>re.sub(r"^0x0*|^0+", "", t)\<close>\<close>
  "strip_key t = dropWhile (\<lambda>c. c = CHR ''0'') (if py_startswith ''0x'' t then drop 2 t else t)"

definition mpath_input_control :: "('w, unit) prog" where
  "mpath_input_control =
     bindM (optM ''--action'') (\<lambda>action.
     seqM (if action = PStr ''validate-all'' then exitM 0 else retM ())
    (bindM (getM opts) (\<lambda>od.
     seqM (if \<not> given od ''--devices'' then fail_usage ''Failed: No devices found'' True else retM ())
    (bindM (stroptM ''--devices'') (\<lambda>text.
     seqM (setoptM ''devices'' (PList (device_list text)))
          (case od ''--plug'' of
             None \<Rightarrow> setoptM ''--plug'' (PStr [])
           | Some (PStr t) \<Rightarrow> setoptM ''--plug'' (PStr (strip_key t))
           | Some _ \<Rightarrow> raiseM (TypeError ''expected string'')))))))"

definition main_mpath where
  "main_mpath tool set_order time_start fuel =
     seqM (on_lib (add_opts new_opts_mpath))
    (seqM (on_lib (settabM ''port'' (\<lambda>d. d\<lparr>o_required := Some ''0''\<rparr>)))
    (seqM (on_lib (set_help ''port'' ''-n, --plug=[key]               Key to use for the current operation''))
    (seqM (on_lib (set_shortdesc ''port'' ''Key to use for the current operation. This key should be unique to a node and have to be written in /etc/multipath.conf. For the \"on\" action, the key specifies the key use to register the local node. For the \"off\" action, this key specifies the key to be removed from the device(s).''))
    (bindM (on_lib (getM (\<lambda>s. (basename (argv0 (world s)), argv (world s))))) (\<lambda>(name, args).
     seqM (if name = ''fence_mpath_check'' then exit_with (on_dev (mpath_check tool args False))
           else if name = ''fence_mpath_check_hardreboot'' then exit_with (on_dev (mpath_check tool args True))
           else retM ())
    (seqM (on_lib (read_options device_opt_mpath True))
    (seqM drop_separator
    (seqM key_as_plug
    (seqM (on_lib (show_docs set_order (Some docs_mpath)))
    (seqM (run_delay time_start 0 0)
    (seqM mpath_input_control
          (exit_with (on_dev (fence_action fuel (fns_mpath tool)))))))))))))))"

end
