(* ===== verification/Mpath_Guarantees.thy ===== *)
theory Mpath_Guarantees
  imports Fence_Mpath Fence_Guarantees
begin

text \<open>The properties of fence\_mpath.\<close>

text \<open>
  The action monitor of fence\_mpath checks nothing: since the agent has the option port and no
  list of outlets, \<open>fence_action\<close> takes it for a list, prints a notice and returns 0 without
  calling the agent, so the branch of \<open>get_status\<close> that reads the file of devices for this action is
  never reached.
\<close>

theorem mpath_monitor_checks_nothing:
  assumes "opts s ''--action'' = Some (PStr ''monitor'')" and "split_ok (opts s)"
    and "opts s ''device_opt'' = Some (PList names)" "count_list names ''port'' = 1" "''port_as_ip'' \<notin> set names"
  shows "fence_action fuel (fns_mpath tool) s = (Ret 0, s\<lparr>opts := split_opts (opts s),
    outp := outp s @ [''NOTICE: List option is not working on this device yet'']\<rparr>)"
proof -
  have "split_plugs s = (Ret (), s\<lparr>opts := split_opts (opts s)\<rparr>)" using assms(2) by (simp add: split_plugs_Ret)
  with assms show ?thesis
    by (simp add: fence_action_def tryM_def fence_body_def is_list_action_def device_optM_def list_outlets_def
        fns_mpath_def run_simps bindM_def EC_defs count_notin)
qed

definition mpath_st :: "unit scsi_world st" where
  "mpath_st = \<lparr>opts = [''--action'' \<mapsto> PStr ''monitor'', ''--plug'' \<mapsto> PStr [], ''--plug-separator'' \<mapsto> PStr '','', ''device_opt'' \<mapsto> PList device_opt_mpath], outp = [], errs = [], clock = 0,
     world = \<lparr>storage = (), sfiles = Map.empty, swritable = (\<lambda>_. False), sdirs = (\<lambda>_. False), smakeable = (\<lambda>_. False),
       kind = (\<lambda>_. Missing), realpath = (\<lambda>p. p), listdir = Map.empty, reboots = 0\<rparr>\<rparr>"

theorem mpath_monitor_checks_nothing_witness:
  "fst (fence_action 1 (fns_mpath (\<lambda>_ d. (None, d))) mpath_st) = Ret 0"
proof -
  have "opts mpath_st ''--action'' = Some (PStr ''monitor'')" "split_ok (opts mpath_st)"
    "opts mpath_st ''device_opt'' = Some (PList device_opt_mpath)" by (simp_all add: mpath_st_def split_ok_def)
  moreover have "count_list device_opt_mpath ''port'' = 1" "''port_as_ip'' \<notin> set device_opt_mpath" by code_simp+
  ultimately show ?thesis by (subst mpath_monitor_checks_nothing) simp_all
qed

end
