(* ===== verification/Fspawn.thy ===== *)
theory Fspawn
  imports Agent_Main
begin

text \<open>
  \<open>lib/fencing.py.py\<close>: the class \<open>fspawn\<close>, a \<open>pexpect.spawn\<close> with logging, through which the
  telnet and ssh agents talk to their devices. The package pexpect and what is at the other end
  of the connection are parameters of the model (\<open>'d pexpect\<close>): what starting a program, sending
  a text, waiting for one of several patterns, reading and closing do to the state \<open>'d\<close> of the
  peer, what they answer or raise, and how long they take. A wait without a limit of time may
  never end (\<open>Blocks\<close>).

  The session keeps what the code reads from the connection object: the text before the last
  match and the matched text (\<open>before\<close> and \<open>after\<close>; the latter is a class and no text when the
  pattern was \<open>pexpect.EOF\<close> or \<open>pexpect.TIMEOUT\<close>), and the log of what was sent.
\<close>

section \<open>The parameter\<close>

datatype pat =
    Txt string       \<comment> \<open>a text, which pexpect compiles with DOTALL\<close>
  | Rx string        \<comment> \<open>compiled without flags\<close>
  | RxI string       \<comment> \<open>compiled with IGNORECASE\<close>
  | PatTIMEOUT       \<comment> \<open>the class \<open>pexpect.TIMEOUT\<close>\<close>

definition bs :: string where "bs = [CHR 0x5C]"

datatype 'a answer = Ans 'a | Fails exn | Blocks

type_synonym ('d, 'a) ask = "'d \<Rightarrow> 'a answer \<times> rat \<times> 'd"

record 'd pexpect =
  px_spawn :: "string \<Rightarrow> ('d, unit) ask"
  px_send :: "string \<Rightarrow> ('d, unit) ask"
  px_expect :: "pat list \<Rightarrow> int option \<Rightarrow> ('d, nat \<times> string \<times> string option) ask"
  px_read :: "nat \<Rightarrow> int option \<Rightarrow> ('d, string) ask"
  px_readline :: "('d, string) ask"
  px_close :: "('d, unit) ask"

record 'd session =
  peer :: 'd
  conn_before :: string
  conn_after :: "string option"
  sent :: "string list"

type_synonym ('d, 'a) sess = "('d session, 'a) prog"

definition answer_outcome :: "'a answer \<Rightarrow> 'a outcome" where
  "answer_outcome a = (case a of Ans x \<Rightarrow> Ret x | Fails e \<Rightarrow> Raise e | Blocks \<Rightarrow> Running)"

definition askM :: "('d, 'a) ask \<Rightarrow> ('d, 'a) sess" where
  "askM q s = (case q (peer (world s)) of (a, t, d) \<Rightarrow>
     (answer_outcome a, s\<lparr>clock := clock s + t, world := (world s)\<lparr>peer := d\<rparr>\<rparr>))"

definition sessM :: "('d session \<Rightarrow> 'a) \<Rightarrow> ('d, 'a) sess" where
  "sessM f = getM (\<lambda>s. f (world s))"

section \<open>The class \<open>fspawn\<close>\<close>

definition fspawn :: "'d pexpect \<Rightarrow> string \<Rightarrow> ('d, unit) sess" where
  "fspawn X command = askM (px_spawn X command)"

definition send :: "'d pexpect \<Rightarrow> string \<Rightarrow> ('d, unit) sess" where
  "send X message =
     seqM (modM (\<lambda>s. s\<lparr>world := (world s)\<lparr>sent := sent (world s) @ [message]\<rparr>\<rparr>))
          (askM (px_send X message))"

definition sendline :: "'d pexpect \<Rightarrow> string \<Rightarrow> ('d, unit) sess" where
  \<comment> \<open>inherited from \<open>pexpect.spawn\<close>: the text and \<open>os.linesep\<close>\<close>
  "sendline X message = send X (message @ nl)"

definition send_eol :: "'d pexpect \<Rightarrow> string \<Rightarrow> ('d, unit) sess" where
  "send_eol X message = bindM (stroptM ''eol'') (\<lambda>eol. send X (message @ eol))"

definition unless_zero :: "int \<Rightarrow> int option" where
  \<comment> \<open>\<open>timeout if timeout != 0 else None\<close>\<close>
  "unless_zero timeout = (if timeout \<noteq> 0 then Some timeout else None)"

definition expect_for :: "'d pexpect \<Rightarrow> pat list \<Rightarrow> int option \<Rightarrow> ('d, nat) sess" where
  \<comment> \<open>the method \<open>expect\<close> of pexpect\<close>
  "expect_for X ps limit = bindM (askM (px_expect X ps limit)) (\<lambda>(i, b, a).
     seqM (modM (\<lambda>s. s\<lparr>world := (world s)\<lparr>conn_before := b, conn_after := a\<rparr>\<rparr>)) (retM i))"

definition afterM :: "('d, string) sess" where
  \<comment> \<open>\<open>self.after\<close> used as a text\<close>
  "afterM = bindM (sessM conn_after) (\<lambda>a. case a of
      None \<Rightarrow> raiseM (TypeError ''after'')
    | Some t \<Rightarrow> retM t)"

definition log_expect :: "'d pexpect \<Rightarrow> pat list \<Rightarrow> int \<Rightarrow> ('d, nat) sess" where
  \<comment> \<open>the log message joins \<open>before\<close> and \<open>after\<close>\<close>
  "log_expect X ps timeout = bindM (expect_for X ps (unless_zero timeout)) (\<lambda>result. seqM afterM (retM result))"

definition read_nonblocking :: "'d pexpect \<Rightarrow> int \<Rightarrow> ('d, string) sess" where
  \<comment> \<open>the size is 100 whatever the caller says\<close>
  "read_nonblocking X timeout = askM (px_read X 100 (unless_zero timeout))"

definition readline :: "'d pexpect \<Rightarrow> ('d, string) sess" where
  "readline X = askM (px_readline X)"

definition close_conn :: "'d pexpect \<Rightarrow> ('d, unit) sess" where
  "close_conn X = askM (px_close X)"

section \<open>Common steps of a conversation\<close>

definition promptM :: "('w, pat list) prog" where
  \<comment> \<open>\<open>options["--command-prompt"]\<close> as an argument of \<open>log_expect\<close>: a pattern or a list of patterns\<close>
  "promptM = bindM (optM ''--command-prompt'') (\<lambda>v. case v of
      PStr p \<Rightarrow> retM [Txt p]
    | PList ps \<Rightarrow> retM (map Txt ps)
    | _ \<Rightarrow> raiseM (TypeError ''pattern''))"

definition prompt_listM :: "('w, pat list) prog" where
  \<comment> \<open>\<open>options["--command-prompt"]\<close> joined to a list\<close>
  "prompt_listM = bindM (optM ''--command-prompt'') (\<lambda>v. case v of
      PList ps \<Rightarrow> retM (map Txt ps)
    | _ \<Rightarrow> raiseM (TypeError ''can only concatenate list''))"

definition expect_opt :: "'d pexpect \<Rightarrow> pat list \<Rightarrow> string \<Rightarrow> ('d, nat) sess" where
  \<comment> \<open>\<open>conn.log_expect(ps, int(options[k]))\<close>\<close>
  "expect_opt X ps k = bindM (intoptM k) (\<lambda>t. log_expect X ps t)"

definition expect_prompt :: "'d pexpect \<Rightarrow> string \<Rightarrow> ('d, nat) sess" where
  \<comment> \<open>\<open>conn.log_expect(options["--command-prompt"], int(options[k]))\<close>\<close>
  "expect_prompt X k = bindM promptM (\<lambda>ps. expect_opt X ps k)"

definition command :: "'d pexpect \<Rightarrow> string \<Rightarrow> string \<Rightarrow> ('d, string) sess" where
  \<comment> \<open>send a line, wait for the prompt as long as an option says, and take what came before it\<close>
  "command X line k = seqM (send_eol X line) (seqM (expect_prompt X k) (sessM conn_before))"

definition showoptM :: "string \<Rightarrow> ('w, string) prog" where
  \<comment> \<open>an option formatted with \<open>%s\<close>\<close>
  "showoptM k = bindM (optM k) (\<lambda>v. retM (py_str v))"

section \<open>What holds however a program ends\<close>

text \<open>
  \<open>always R m\<close>: the state in which \<open>m\<close> ends is related to the one it starts in, also when it
  ends with an exception, with the end of the process, or while waiting.
\<close>

named_theorems always_intro \<open>programs whose steps are all in a relation\<close>

definition always :: "('w st \<Rightarrow> 'w st \<Rightarrow> bool) \<Rightarrow> ('w, 'a) prog \<Rightarrow> bool" where
  "always R m \<longleftrightarrow> (\<forall>s r s'. m s = (r, s') \<longrightarrow> R s s')"

lemma alwaysD: "always R m \<Longrightarrow> m s = (r, s') \<Longrightarrow> R s s'"
  by (simp add: always_def)

locale run_relation =
  fixes R :: "'w st \<Rightarrow> 'w st \<Rightarrow> bool"
  assumes stays: "R s s" and steps: "R s t \<Longrightarrow> R t u \<Longrightarrow> R s u"
begin

lemma always_bind [always_intro]:
  assumes m: "always R m" and f: "\<And>x. always R (f x)"
  shows "always R (bindM m f)"
  unfolding always_def
proof (intro allI impI)
  fix s r s' assume run: "bindM m f s = (r, s')"
  obtain o1 s1 where 1: "m s = (o1, s1)" by fastforce
  show "R s s'"
  proof (cases o1)
    case (Ret x)
    with run 1 have "f x s1 = (r, s')" by (simp add: bindM_def)
    from steps [OF alwaysD [OF m 1] alwaysD [OF f this]] show ?thesis .
  qed (use run 1 alwaysD [OF m 1] in \<open>auto simp: bindM_def\<close>)
qed

lemma always_try [always_intro]:
  assumes m: "always R m" and h: "\<And>e n. h e = Some n \<Longrightarrow> always R n"
  shows "always R (tryM m h)"
  unfolding always_def
proof (intro allI impI)
  fix s r s' assume run: "tryM m h s = (r, s')"
  obtain o1 s1 where 1: "m s = (o1, s1)" by fastforce
  show "R s s'"
  proof (cases o1)
    case (Raise e)
    show ?thesis
    proof (cases "h e")
      case None
      with run 1 Raise alwaysD [OF m 1] show ?thesis by (auto simp: tryM_def)
    next
      case (Some n)
      with run 1 Raise have "n s1 = (r, s')" by (simp add: tryM_def)
      from steps [OF alwaysD [OF m 1] alwaysD [OF h [OF Some] this]] show ?thesis .
    qed
  qed (use run 1 alwaysD [OF m 1] in \<open>auto simp: tryM_def\<close>)
qed

lemma always_prims [always_intro]:
  "always R (retM x)" "always R (raiseM e)" "always R (exitM c)" "always R runningM" "always R (getM g)" "always R (liftM v)"
  "always R (hasoptM k)" "always R (optM k)"
  by (auto simp: always_def run_prims optM_def stays split: option.splits)

lemma always_split [always_intro]:
  "always R m \<Longrightarrow> always R n \<Longrightarrow> always R (if b then m else n)"
  "always R m \<Longrightarrow> (\<And>x. always R (f x)) \<Longrightarrow> always R (case v of None \<Rightarrow> m | Some x \<Rightarrow> f x)"
  "(\<And>x y. always R (g x y)) \<Longrightarrow> always R (case p of (x, y) \<Rightarrow> g x y)"
  "always R m \<Longrightarrow> (\<And>x xs. always R (h x xs)) \<Longrightarrow> always R (case l of [] \<Rightarrow> m | x # xs \<Rightarrow> h x xs)"
  "always R a \<Longrightarrow> (\<And>n. always R (b' n)) \<Longrightarrow> (\<And>t. always R (c t)) \<Longrightarrow> (\<And>l. always R (d l)) \<Longrightarrow>
     always R (case w of PNone \<Rightarrow> a | PInt n \<Rightarrow> b' n | PStr t \<Rightarrow> c t | PList l \<Rightarrow> d l)"
  by (auto split: option.splits prod.splits list.splits pyval.splits)

lemma always_Let [always_intro]: "(\<And>x. always R (f x)) \<Longrightarrow> always R (Let v f)"
  by (simp add: Let_def)

lemma always_loops [always_intro]:
  "(\<And>x. always R (f x)) \<Longrightarrow> always R (forM xs f)"
  "(\<And>b x. always R (g b x)) \<Longrightarrow> always R (foldM g b xs)"
proof -
  show "(\<And>x. always R (f x)) \<Longrightarrow> always R (forM xs f)" by (induction xs) (auto intro: always_bind always_prims)
  show "(\<And>b x. always R (g b x)) \<Longrightarrow> always R (foldM g b xs)"
    by (induction xs arbitrary: b) (auto intro: always_bind always_prims)
qed

lemma always_options [always_intro]:
  "always R (stroptM k)" "always R (intoptM k)" "always R (showoptM k)" "always R promptM" "always R prompt_listM"
  unfolding stroptM_def intoptM_def showoptM_def promptM_def prompt_listM_def
  by (auto intro!: always_bind always_prims split: pyval.splits)

end

text \<open>Two such relations: what was sent since then satisfies \<open>Q\<close>; the options of the library are kept.\<close>

definition sent_rel :: "(string \<Rightarrow> bool) \<Rightarrow> 'd session st \<Rightarrow> 'd session st \<Rightarrow> bool" where
  "sent_rel Q s s' \<longleftrightarrow> (\<exists>ms. sent (world s') = sent (world s) @ ms \<and> list_all Q ms)"

definition agree_rel :: "'w st \<Rightarrow> 'w st \<Rightarrow> bool" where
  "agree_rel s s' \<longleftrightarrow> agree (opts s) (opts s')"

abbreviation sends :: "(string \<Rightarrow> bool) \<Rightarrow> ('d, 'a) sess \<Rightarrow> bool" where
  "sends Q \<equiv> always (sent_rel Q)"

abbreviation steady :: "('w, 'a) prog \<Rightarrow> bool" where
  "steady \<equiv> always agree_rel"

interpretation talk: run_relation "sent_rel Q" for Q
proof
  show "sent_rel Q s s" for s :: "'d session st" by (simp add: sent_rel_def)
  show "sent_rel Q s t \<Longrightarrow> sent_rel Q t u \<Longrightarrow> sent_rel Q s u" for s t u :: "'d session st"
    unfolding sent_rel_def by (metis append_assoc list_all_append)
qed

interpretation still: run_relation agree_rel
  by unfold_locales (auto simp: agree_rel_def intro: agree_trans)

lemma steady_agrees: "steady m \<Longrightarrow> agrees m"
  by (auto simp: agrees_def agree_rel_def dest: alwaysD)

lemma sent_rel_quiet: "sent (world s') = sent (world s) \<Longrightarrow> sent_rel Q s s'"
  by (simp add: sent_rel_def)

lemma sends_prims [always_intro]:
  "sends Q (setoptM k w)" "sends Q (printM t)" "sends Q (logM t)" "sends Q (sleepM d)" "sends Q (deloptM k)"
  "sends Q (sessM h)" "sends Q (askM q)"
  by (auto simp: always_def run_prims sleepM_def deloptM_def sessM_def askM_def
      intro!: sent_rel_quiet split: if_splits option.splits prod.splits)

lemma steady_prims [always_intro]:
  "k \<notin> lib_keys \<Longrightarrow> steady (setoptM k w)" "steady (printM t)" "steady (logM t)" "steady (sleepM d)"
  "steady (sessM h)" "steady (askM q)"
  by (auto simp: always_def agree_rel_def agree_def run_prims sleepM_def sessM_def askM_def
      split: if_splits option.splits prod.splits)

lemma always_modM: "(\<And>s. R s (f s)) \<Longrightarrow> always R (modM f)"
  by (auto simp: always_def run_prims)

lemma always_send [always_intro]: "Q m \<Longrightarrow> sends Q (send X m)" "steady (send X m)"
  by (auto simp: always_def sent_rel_def agree_rel_def send_def askM_def bindM_modM split: prod.splits)

lemma always_failures [always_intro]:
  "sends Q (fail code stop)" "sends Q (fail_usage t stop)" "sends Q afterM" "sends Q (sleep_opt k)"
  "steady (fail code stop)" "steady (fail_usage t stop)" "steady afterM" "steady (sleep_opt k)"
  by (auto simp: fail_def fail_usage_def afterM_def sleep_opt_def intro!: always_intro split: option.splits)

lemma always_expects [always_intro]:
  "sends Q (fspawn X c)" "sends Q (expect_for X ps l)" "sends Q (log_expect X ps t)" "sends Q (expect_opt X ps k)"
  "sends Q (expect_prompt X k)" "sends Q (read_nonblocking X t)" "sends Q (readline X)" "sends Q (close_conn X)"
  "steady (fspawn X c)" "steady (expect_for X ps l)" "steady (log_expect X ps t)" "steady (expect_opt X ps k)"
  "steady (expect_prompt X k)" "steady (read_nonblocking X t)" "steady (readline X)" "steady (close_conn X)"
  by (auto simp: fspawn_def expect_for_def log_expect_def expect_opt_def expect_prompt_def read_nonblocking_def readline_def
      close_conn_def sent_rel_def agree_rel_def intro!: always_intro always_modM)

lemma always_lines [always_intro]:
  "Q (m @ nl) \<Longrightarrow> sends Q (sendline X m)"
  "(\<And>eol. Q (m @ eol)) \<Longrightarrow> sends Q (send_eol X m)"
  "(\<And>eol. Q (m @ eol)) \<Longrightarrow> sends Q (command X m k)"
  "steady (sendline X m)" "steady (send_eol X m)" "steady (command X m k)"
  by (auto simp: sendline_def send_eol_def command_def intro!: always_intro)

end
