(* ===== verification/Fence_Login.thy ===== *)
theory Fence_Login
  imports Fspawn "HOL-Library.AList"
begin

text \<open>
  \<open>lib/fencing.py.py\<close>: \<open>fence_login\<close> with the four ways to reach a device (an SSL tunnel by
  gnutls-cli, ssh with a password, ssh with an identity file, telnet) and \<open>fence_logout\<close>. The
  pattern of a login prompt is given twice: its text, for \<open>expect\<close>, and as a regular expression,
  for the searches of the code itself.
\<close>

section \<open>Login prompts\<close>

record login_prompt =
  prompt_text :: string
  prompt_re :: re

definition default_login :: login_prompt where
  \<comment> \<open>\<open>re_login_string\<close> as \<open>fence_login\<close> sets it\<close>
  "default_login = \<lparr>
     prompt_text = ''(login'' @ bs @ ''s*: )|((?!Last )Login Name:  )|(username: )|(User Name :)'',
     prompt_re = Alt (Seq (LitI ''login'') (Seq (Star Spc) (LitI '': '')))
       (Alt (Seq (NotAhead (LitI ''Last '')) (LitI ''Login Name:  ''))
       (Alt (LitI ''username: '') (LitI ''User Name :'')))\<rparr>"

definition re_login :: "login_prompt \<Rightarrow> pat" where
  "re_login L = RxI (prompt_text L)"

definition re_pass :: pat where
  "re_pass = RxI ''(password)|(pass phrase)''"

definition asks_login :: "login_prompt \<Rightarrow> string \<Rightarrow> bool" where
  "asks_login L screen \<longleftrightarrow> re_search (prompt_re L) screen \<noteq> None"

definition asks_password :: "string \<Rightarrow> bool" where
  "asks_password screen \<longleftrightarrow> re_search (Alt (LitI ''password'') (LitI ''pass phrase'')) screen \<noteq> None"

definition yes_no :: pat where
  "yes_no = Txt ''Are you sure you want to continue connecting (yes/no)?''"

section \<open>An SSL tunnel\<close>

definition gnutls_opts :: "pydict \<Rightarrow> string" where
  "gnutls_opts od =
     (if od ''--notls'' \<noteq> None then ''--priority \"NORMAL:-VERS-TLS1.2:-VERS-TLS1.1:-VERS-TLS1.0:+VERS-SSL3.0\"''
      else if od ''--tls1.0'' \<noteq> None
      then ''--priority \"NORMAL:-VERS-TLS1.2:-VERS-TLS1.1:+VERS-TLS1.0:%LATEST_RECORD_VERSION\"''
      else [])"

definition open_ssl_connection :: "'d pexpect \<Rightarrow> ('d, unit) sess" where
  "open_ssl_connection X =
     bindM (getM opts) (\<lambda>od.
     bindM (showoptM ''--gnutlscli-path'') (\<lambda>path.
     bindM (showoptM ''--ipport'') (\<lambda>port.
     bindM (showoptM ''--ip'') (\<lambda>ip.
     let ssl_opts = (if od ''--ssl-insecure'' \<noteq> None then ''--insecure'' else []) in
       tryM (fspawn X (path @ '' '' @ gnutls_opts od @ '' '' @ ssl_opts @ '' --crlf -p '' @ port @ '' '' @ ip))
         (\<lambda>e. case e of
            PexpectError m \<Rightarrow> Some (seqM (logM (m @ nl)) (exitM EC_GENERIC_ERROR))
          | PexpectEOF \<Rightarrow> Some (seqM (logM nl) (exitM EC_GENERIC_ERROR))
          | PexpectTIMEOUT \<Rightarrow> Some (seqM (logM nl) (exitM EC_GENERIC_ERROR))
          | _ \<Rightarrow> None)))))"

section \<open>ssh\<close>

definition ssh_force_ipvx :: "pydict \<Rightarrow> string" where
  "ssh_force_ipvx od = (if od ''--inet6-only'' \<noteq> None then ''-6 '' else if od ''--inet4-only'' \<noteq> None then ''-4 '' else [])"

definition add_ssh_options :: "string \<Rightarrow> ('w, string) prog" where
  \<comment> \<open>\<open>command += ' ' + options["--ssh-options"]\<close>, if there are any\<close>
  "add_ssh_options cmd = bindM (hasoptM ''--ssh-options'') (\<lambda>given.
     if given then bindM (stroptM ''--ssh-options'') (\<lambda>x. retM (cmd @ '' '' @ x)) else retM cmd)"

definition ssh_identity_command :: "('w, string) prog" where
  "ssh_identity_command =
     bindM (getM opts) (\<lambda>od.
     bindM (showoptM ''--ssh-path'') (\<lambda>path.
     bindM (showoptM ''--username'') (\<lambda>user.
     bindM (showoptM ''--ip'') (\<lambda>ip.
     bindM (showoptM ''--identity-file'') (\<lambda>file.
     bindM (showoptM ''--ipport'') (\<lambda>port.
       add_ssh_options (path @ '' '' @ ssh_force_ipvx od @ '' '' @ user @ ''@'' @ ip @ '' -i '' @ file @ '' -p '' @ port)))))))"

definition ssh_password_command :: "('w, string) prog" where
  "ssh_password_command =
     bindM (getM opts) (\<lambda>od.
     bindM (showoptM ''--ssh-path'') (\<lambda>path.
     bindM (showoptM ''--username'') (\<lambda>user.
     bindM (showoptM ''--ip'') (\<lambda>ip.
     bindM (showoptM ''--ipport'') (\<lambda>port.
       add_ssh_options (path @ '' '' @ ssh_force_ipvx od @ '' '' @ user @ ''@'' @ ip @ '' -p '' @ port
         @ '' -o PubkeyAuthentication=no''))))))"

definition passphrase_prompt :: "('w, pat) prog" where
  "passphrase_prompt = bindM (stroptM ''--identity-file'') (\<lambda>file.
     retM (Txt (''Enter passphrase for key '' @ [CHR 0x27] @ file @ [CHR 0x27] @ '':'')))"

definition login_ssh_with_identity_file :: "'d pexpect \<Rightarrow> ('d, unit) sess" where
  "login_ssh_with_identity_file X =
     bindM ssh_identity_command (\<lambda>cmd.
     seqM (fspawn X cmd)
    (bindM passphrase_prompt (\<lambda>ask.
     bindM prompt_listM (\<lambda>prompts.
     bindM (expect_opt X (ask # yes_no # prompts) ''--login-timeout'') (\<lambda>result.
     bindM (if result = 1 then
              seqM (sendline X ''yes'')
             (bindM passphrase_prompt (\<lambda>ask'.
              bindM prompt_listM (\<lambda>prompts'.
              expect_opt X (ask' # prompts') ''--login-timeout'')))
            else retM result) (\<lambda>result'.
     if result' = 0 then
       bindM (hasoptM ''--password'') (\<lambda>given.
         if given then
           bindM (stroptM ''--password'') (\<lambda>password.
           seqM (sendline X password)
          (seqM (expect_prompt X ''--login-timeout'') (retM ())))
         else fail_usage ''Failed: You have to enter passphrase (-p) for identity file'' True)
     else retM ()))))))"

definition ssh_ask_telnet_like :: "'d pexpect \<Rightarrow> login_prompt \<Rightarrow> ('d, unit) sess" where
  \<comment> \<open>the branch \<open>"telnet_over_ssh" in options\<close>, up to the question for the password\<close>
  "ssh_ask_telnet_like X L =
     bindM (expect_opt X [re_login L, yes_no] ''--login-timeout'') (\<lambda>result.
     seqM (if result = 1
           then seqM (sendline X ''yes'') (seqM (expect_opt X [re_login L] ''--login-timeout'') (retM ()))
           else retM ())
    (bindM (stroptM ''--username'') (\<lambda>user.
     seqM (sendline X user)
    (seqM (expect_opt X [re_pass] ''--login-timeout'') (retM ())))))"

definition ssh_ask_password :: "'d pexpect \<Rightarrow> ('d, unit) sess" where
  \<comment> \<open>the other branch\<close>
  "ssh_ask_password X =
     bindM (expect_opt X [Txt ''ssword:'', yes_no] ''--login-timeout'') (\<lambda>result.
     if result = 1
     then seqM (sendline X ''yes'') (seqM (expect_opt X [Txt ''ssword:''] ''--login-timeout'') (retM ()))
     else retM ())"

definition login_ssh_with_password :: "'d pexpect \<Rightarrow> login_prompt \<Rightarrow> ('d, unit) sess" where
  "login_ssh_with_password X L =
     bindM ssh_password_command (\<lambda>cmd.
     seqM (fspawn X cmd)
    (bindM (hasoptM ''telnet_over_ssh'') (\<lambda>telnet.
     seqM (if telnet then ssh_ask_telnet_like X L else ssh_ask_password X)
    (bindM (stroptM ''--password'') (\<lambda>password.
     seqM (sendline X password)
    (seqM (expect_prompt X ''--login-timeout'') (retM ())))))))"

section \<open>telnet\<close>

definition cr :: string where "cr = [CHR 0x0D]"

definition telnet_username :: "'d pexpect \<Rightarrow> login_prompt \<Rightarrow> ('d, unit) sess" where
  \<comment> \<open>send the name, and find out whether the line ends suit the device\<close>
  "telnet_username X L =
     seqM (expect_opt X [re_login L] ''--login-timeout'')
    (bindM (stroptM ''--username'') (\<lambda>user.
     seqM (send_eol X user)
    (bindM (intoptM ''--shell-timeout'') (\<lambda>t.
     bindM (read_nonblocking X t) (\<lambda>screen.
       if asks_login L screen then
         seqM (setoptM ''eol'' (PStr nl))
        (bindM (stroptM ''--username'') (\<lambda>user'.
         seqM (send_eol X user') (seqM (expect_opt X [re_pass] ''--login-timeout'') (retM ()))))
       else if \<not> asks_password screen then seqM (expect_opt X [re_pass] ''--shell-timeout'') (retM ())
       else retM ())))))"

definition telnet_second_try :: "'d pexpect \<Rightarrow> login_prompt \<Rightarrow> ('d, unit) sess" where
  \<comment> \<open>the login prompt came again: the password is invalid or the line ends have to change\<close>
  "telnet_second_try X L =
     seqM (setoptM ''eol'' (PStr cr))
    (seqM (send_eol X [])
    (bindM (intoptM ''--shell-timeout'') (\<lambda>t.
     bindM (read_nonblocking X t) (\<lambda>screen.
     bindM afterM (\<lambda>after.
     seqM (if asks_login L (after @ screen) then send_eol X [] else retM ())
    (bindM (stroptM ''--username'') (\<lambda>user.
     seqM (send_eol X user)
    (seqM (expect_opt X [re_pass] ''--login-timeout'')
    (bindM (stroptM ''--password'') (\<lambda>password.
     seqM (send_eol X password)
    (seqM (expect_prompt X ''--login-timeout'') (retM ()))))))))))))"

definition telnet_password :: "'d pexpect \<Rightarrow> login_prompt \<Rightarrow> ('d, unit) sess" where
  "telnet_password X L =
     tryM
      (bindM (stroptM ''--password'') (\<lambda>password.
       seqM (send_eol X password)
      (bindM prompt_listM (\<lambda>prompts.
       bindM (expect_opt X (re_login L # prompts) ''--shell-timeout'') (\<lambda>valid_password.
         if valid_password = 0 then telnet_second_try X L else retM ())))))
      (\<lambda>e. case e of KeyError _ \<Rightarrow> Some (fail EC_PASSWORD_MISSING True) | _ \<Rightarrow> None)"

definition login_telnet :: "'d pexpect \<Rightarrow> login_prompt \<Rightarrow> ('d, unit) sess" where
  "login_telnet X L =
     bindM (stroptM ''--telnet-path'') (\<lambda>path.
     seqM (fspawn X path)
    (seqM (send X (''set binary'' @ nl))
    (bindM (showoptM ''--ip'') (\<lambda>ip.
     bindM (showoptM ''--ipport'') (\<lambda>port.
     seqM (send X (''open '' @ ip @ '' -'' @ port @ nl))
    (seqM (telnet_username X L)
          (telnet_password X L)))))))"

section \<open>Login and logout\<close>

definition login_denied :: "exn \<Rightarrow> ('w, unit) prog option" where
  \<comment> \<open>\<open>except pexpect.EOF / except pexpect.TIMEOUT: fail(EC_LOGIN_DENIED)\<close>\<close>
  "login_denied e = (case e of
      PexpectEOF \<Rightarrow> Some (fail EC_LOGIN_DENIED True)
    | PexpectTIMEOUT \<Rightarrow> Some (fail EC_LOGIN_DENIED True)
    | _ \<Rightarrow> None)"

definition prepare_login :: "('w, unit) prog" where
  \<comment> \<open>the line end to start with, and the prompts as a list\<close>
  "prepare_login =
     bindM (hasoptM ''eol'') (\<lambda>given.
     seqM (if given then retM () else setoptM ''eol'' (PStr (cr @ nl)))
    (bindM (getM opts) (\<lambda>od. case od ''--command-prompt'' of
        Some (PStr p) \<Rightarrow> setoptM ''--command-prompt'' (PList [p])
      | _ \<Rightarrow> retM ())))"

definition connect :: "'d pexpect \<Rightarrow> login_prompt \<Rightarrow> ('d, unit) sess" where
  "connect X L = bindM (getM opts) (\<lambda>od.
     if od ''--ssl'' \<noteq> None then open_ssl_connection X
     else if od ''--ssh'' \<noteq> None \<and> od ''--identity-file'' = None then login_ssh_with_password X L
     else if od ''--ssh'' \<noteq> None then login_ssh_with_identity_file X
     else login_telnet X L)"

definition fence_login :: "'d pexpect \<Rightarrow> rat \<Rightarrow> login_prompt \<Rightarrow> ('d, unit) sess" where
  \<comment> \<open>\<open>time_start\<close> is when the agent was started\<close>
  "fence_login X time_start L =
     seqM (run_delay time_start 0 0)
    (seqM prepare_login
          (tryM (connect X L) login_denied))"

definition fence_logout :: "'d pexpect \<Rightarrow> string \<Rightarrow> rat \<Rightarrow> ('d, unit) sess" where
  "fence_logout X logout_string pause =
     tryM
      (seqM (send_eol X logout_string) (seqM (sleepM pause) (close_conn X)))
      (\<lambda>e. case e of
         OSErr _ \<Rightarrow> Some (retM ())
       | PexpectError _ \<Rightarrow> Some (retM ())
       | PexpectEOF \<Rightarrow> Some (retM ())
       | PexpectTIMEOUT \<Rightarrow> Some (retM ())
       | _ \<Rightarrow> None)"

text \<open>What most main functions do after the options are known: documentation, login, action, logout.\<close>

definition operate :: "'d pexpect \<Rightarrow> rat \<Rightarrow> login_prompt \<Rightarrow> ('d, unit) sess \<Rightarrow> ('d, int) sess \<Rightarrow> string \<Rightarrow> ('d, unit) sess" where
  \<comment> \<open>with what is said between the login and the action\<close>
  "operate X time_start L opening act logout_string =
     seqM (fence_login X time_start L)
    (seqM opening
    (bindM act (\<lambda>result.
     seqM (fence_logout X logout_string 0) (exitM result))))"

definition agent_session ::
  "(string list \<Rightarrow> string list) \<Rightarrow> docs \<Rightarrow> 'd pexpect \<Rightarrow> rat \<Rightarrow> nat \<Rightarrow> 'd session power_fns \<Rightarrow> string
   \<Rightarrow> ('d session agent_world, unit) prog" where
  \<comment> \<open>\<open>show_docs\<close>, \<open>fence_login(options)\<close>, \<open>fence_action\<close>, \<open>fence_logout\<close>, \<open>sys.exit(result)\<close>\<close>
  "agent_session set_order D X time_start fuel fns logout_string =
     seqM (on_lib (show_docs set_order (Some D)))
          (on_dev (operate X time_start default_login (retM ()) (fence_action fuel fns) logout_string))"

section \<open>Helpers of the agents\<close>

definition read_options_with :: "string list \<Rightarrow> unit lib \<Rightarrow> unit lib" where
  \<comment> \<open>\<open>opt = process_input(device_opt)\<close>, some changes, \<open>options = check_input(device_opt, opt)\<close>\<close>
  "read_options_with device_opt changes =
     bindM (process_input device_opt) (\<lambda>(avail_opt, opt).
     seqM (modM (\<lambda>s. s\<lparr>opts := opt\<rparr>))
    (seqM changes
          (check_input avail_opt False)))"

definition by_action :: "(string \<times> 'a) list \<Rightarrow> ('w, 'a) prog" where
  \<comment> \<open>\<open>{...}[options["--action"]]\<close>\<close>
  "by_action table = bindM (optM ''--action'') (\<lambda>v. case v of
      PStr a \<Rightarrow> (case map_of table a of None \<Rightarrow> raiseM (KeyError a) | Some x \<Rightarrow> retM x)
    | _ \<Rightarrow> raiseM (KeyError (py_str v)))"

definition is_on :: "('w, bool) prog" where
  \<comment> \<open>\<open>options["--action"] == "on"\<close>\<close>
  "is_on = bindM (optM ''--action'') (\<lambda>v. retM (v = PStr ''on''))"

definition match_group :: "re \<Rightarrow> nat \<Rightarrow> string \<Rightarrow> string outcome" where
  \<comment> \<open>\<open>re.search(text).group(n)\<close>: without a match the result has no method group\<close>
  "match_group r n t = (case re_search r t of
      None \<Rightarrow> Raise (AttributeError ''group'')
    | Some st \<Rightarrow> Ret (group n st))"

lemma always_by_action [always_intro]:
  "sends Q (by_action table)" "sends Q is_on" "steady (by_action table)" "steady is_on"
  by (auto simp: by_action_def is_on_def intro!: always_intro)

text \<open>
  Dictionaries of outlets keep the order in which keys were first stored, which \<open>AList.update\<close>
  does. Some agents have one function for the status of a plug and for the list of all plugs.
\<close>

type_synonym entries = "(string \<times> string \<times> string) list"   \<comment> \<open>key, alias, status\<close>

datatype dual = IsStatus string | IsOutlets entries

definition outlets_of :: "entries \<Rightarrow> outlet list" where
  "outlets_of es = map (\<lambda>(k, a, t). (k, a, Some t)) es"

definition no_status :: string where
  \<comment> \<open>stands for a dictionary returned as a status: it is neither on nor off\<close>
  "no_status = ''{}''"

definition as_status :: "('w, dual) prog \<Rightarrow> ('w, string option) prog" where
  "as_status m = bindM m (\<lambda>r. case r of IsStatus t \<Rightarrow> retM (Some t) | IsOutlets _ \<Rightarrow> retM (Some no_status))"

definition as_outlets :: "('w, dual) prog \<Rightarrow> ('w, outlet list) prog" where
  "as_outlets m = bindM m (\<lambda>r. case r of
      IsOutlets es \<Rightarrow> retM (outlets_of es)
    | IsStatus _ \<Rightarrow> raiseM (AttributeError ''keys''))"

definition is_listing :: "('w, bool) prog" where
  \<comment> \<open>\<open>["list", "monitor"].count(options["--action"]) == 1\<close>\<close>
  "is_listing = bindM (optM ''--action'') (\<lambda>v. retM (v \<in> {PStr ''list'', PStr ''monitor''}))"

definition plug_entry :: "(string \<times> 'v) list \<Rightarrow> ('w, 'v) prog" where
  \<comment> \<open>\<open>outlets[options["--plug"]]\<close>\<close>
  "plug_entry d = bindM (optM ''--plug'') (\<lambda>v. case v of
      PStr p \<Rightarrow> (case map_of d p of None \<Rightarrow> raiseM (KeyError p) | Some x \<Rightarrow> retM x)
    | _ \<Rightarrow> raiseM (KeyError (py_str v)))"

definition entry_status :: "bool \<Rightarrow> entries \<Rightarrow> ('w, string) prog" where
  \<comment> \<open>\<open>try: (_, status) = outlets[options["--plug"]]; \<dots> except KeyError as e: fail(EC_STATUS)\<close>; some
    agents log the missing key first\<close>
  "entry_status logs es =
     tryM (bindM (plug_entry es) (\<lambda>(_, status). retM (py_strip (py_lower status))))
       (\<lambda>e. case e of
          KeyError k \<Rightarrow> Some (seqM (if logs then logM (''Failed: '' @ py_repr k) else retM ())
                                   (seqM (fail EC_STATUS True) (retM [])))
        | _ \<Rightarrow> None)"

definition status_or_list :: "bool \<Rightarrow> entries \<Rightarrow> ('w, dual) prog" where
  \<comment> \<open>the end of a function that serves both purposes\<close>
  "status_or_list logs es = bindM is_listing (\<lambda>listing.
     if listing then retM (IsOutlets es)
     else bindM (entry_status logs es) (\<lambda>status. retM (IsStatus status)))"

lemma always_dual [always_intro]:
  "sends Q m \<Longrightarrow> sends Q (as_status m)" "sends Q m' \<Longrightarrow> sends Q (as_outlets m')" "sends Q is_listing" "sends Q (plug_entry d)"
  "sends Q (entry_status logs es)" "sends Q (status_or_list logs es)"
  "steady n \<Longrightarrow> steady (as_status n)" "steady n' \<Longrightarrow> steady (as_outlets n')" "steady is_listing" "steady (plug_entry d)"
  "steady (entry_status logs es)" "steady (status_or_list logs es)"
  by (auto simp: as_status_def as_outlets_def is_listing_def plug_entry_def entry_status_def status_or_list_def
      intro!: always_intro split: dual.splits exn.splits if_splits)

end
