(* ===== verification/Console_Agents.thy ===== *)
theory Console_Agents
  imports Fence_Login
begin

text \<open>
  Agents that log into the management card of one machine: \<open>agents/alom/fence_alom.py\<close>,
  \<open>agents/ilo_mp/fence_ilo_mp.py\<close>, \<open>agents/ilo_ssh/fence_ilo_ssh.py\<close>,
  \<open>agents/drac/fence_drac.py\<close>, \<open>agents/rsa/fence_rsa.py\<close> and \<open>agents/rsb/fence_rsb.py\<close>.
\<close>

section \<open>Sun ALOM\<close>

definition get_power_status_alom :: "'d pexpect \<Rightarrow> ('d, string option) sess" where
  "get_power_status_alom X = bindM (command X ''showplatform'' ''--shell-timeout'') (\<lambda>text.
     retM (Some (if py_in ''standby'' (py_lower text) then ''off'' else ''on'')))"

definition set_power_status_alom :: "'d pexpect \<Rightarrow> ('d, unit) sess" where
  "set_power_status_alom X =
     bindM is_on (\<lambda>on.
     seqM (command X (if on then ''poweron'' else ''poweroff -f -y'') ''--power-timeout'')
          (sleep_opt ''--power-timeout''))"

definition fns_alom :: "'d pexpect \<Rightarrow> 'd session power_fns" where
  "fns_alom X = \<lparr>set_power_fn = Some (set_power_status_alom X), get_power_fn = Some (get_power_status_alom X),
     get_outlet_list = None, reboot_cycle_fn = None, sync_set_power_fn = None\<rparr>"

definition device_opt_alom :: "string list" where
  "device_opt_alom = [''ipaddr'', ''login'', ''passwd'', ''cmd_prompt'', ''secure'']"

definition docs_alom :: docs where
  "docs_alom = \<lparr>agent_name = None, shortdesc = ''Fence agent for Sun ALOM'',
     longdesc = ''fence_alom is a Power Fencing agent which can be used with ALOM connected machines.'',
     vendorurl = Some ''http://www.sun.com'', symlink = []\<rparr>"

definition main_alom where
  "main_alom X set_order time_start fuel =
     seqM (on_lib (set_default ''secure'' (PStr ''1'')))
    (seqM (on_lib (set_default ''cmd_prompt'' (PList [''sc'' @ bs @ ''>'' @ bs @ '' ''])))
    (seqM (on_lib (read_options device_opt_alom False))
    (seqM (setoptM ''telnet_over_ssh'' (PInt 1))
          (agent_session set_order docs_alom X time_start fuel (fns_alom X) ''logout''))))"

section \<open>HP iLO MP\<close>

text \<open>
  The two iLO agents read the group of the match object of the connection; the text that was
  matched is \<open>after\<close>.
\<close>

definition get_power_status_ilo :: "'d pexpect \<Rightarrow> ('d, string option) sess" where
  "get_power_status_ilo X =
     seqM (send_eol X ''show /system1'')
    (seqM (expect_opt X [RxI ''EnabledState=(.*)''] ''--shell-timeout'')
    (bindM afterM (\<lambda>after.
     bindM (liftM (match_group (Seq (LitI ''EnabledState='') (Grp 1 (Star Any))) 1 after)) (\<lambda>status.
       retM (Some (if py_startswith ''enabled'' (py_lower status) then ''on'' else ''off''))))))"

definition set_power_status_ilo_mp :: "'d pexpect \<Rightarrow> ('d, unit) sess" where
  "set_power_status_ilo_mp X =
     bindM is_on (\<lambda>on.
     seqM (command X (if on then ''start /system1'' else ''stop -f /system1'') ''--power-timeout'') (retM ()))"

definition fns_ilo_mp :: "'d pexpect \<Rightarrow> 'd session power_fns" where
  "fns_ilo_mp X = \<lparr>set_power_fn = Some (set_power_status_ilo_mp X), get_power_fn = Some (get_power_status_ilo X),
     get_outlet_list = None, reboot_cycle_fn = None, sync_set_power_fn = None\<rparr>"

definition device_opt_ilo_mp :: "string list" where
  "device_opt_ilo_mp = [''ipaddr'', ''login'', ''passwd'', ''secure'', ''cmd_prompt'', ''telnet'']"

definition docs_ilo_mp :: docs where
  "docs_ilo_mp = \<lparr>agent_name = None, shortdesc = ''Fence agent for HP iLO MP'',
     longdesc = ''fence_ilo_mp is a Power Fencing agent for HP iLO MP.'',
     vendorurl = Some ''http://www.hp.com'', symlink = []\<rparr>"

definition main_ilo_mp where
  "main_ilo_mp X set_order time_start fuel =
     seqM (on_lib (set_default ''cmd_prompt'' (PList [''MP>'', ''hpiLO->''])))
    (seqM (on_lib (set_default ''power_wait'' (PInt 5)))
    (seqM (on_lib (read_options device_opt_ilo_mp False))
    (seqM (on_lib (show_docs set_order (Some docs_ilo_mp)))
          (on_dev (operate X time_start default_login (send_eol X ''SMCLP'') (fence_action fuel (fns_ilo_mp X)) ''exit'')))))"

section \<open>HP iLO over ssh\<close>

definition set_power_status_ilo_ssh :: "'d pexpect \<Rightarrow> ('d, unit) sess" where
  "set_power_status_ilo_ssh X =
     bindM is_on (\<lambda>on.
     seqM (command X (if on then ''start /system1'' else ''power off hard'') ''--power-timeout'') (retM ()))"

definition reboot_cycle_ilo_ssh :: "'d pexpect \<Rightarrow> ('d, bool) sess" where
  "reboot_cycle_ilo_ssh X =
     seqM (command X ''reset /system1 hard'' ''--power-timeout'')
    (bindM (get_power_status_ilo X) (\<lambda>status.
     seqM (if status = Some ''off'' then logM (''Timed out waiting to power ON'' @ nl) else retM ())
          (retM True)))"

definition fns_ilo_ssh :: "'d pexpect \<Rightarrow> 'd session power_fns" where
  "fns_ilo_ssh X = \<lparr>set_power_fn = Some (set_power_status_ilo_ssh X), get_power_fn = Some (get_power_status_ilo X),
     get_outlet_list = None, reboot_cycle_fn = Some (reboot_cycle_ilo_ssh X), sync_set_power_fn = None\<rparr>"

definition device_opt_ilo_ssh :: "string list" where
  "device_opt_ilo_ssh = [''ipaddr'', ''login'', ''passwd'', ''secure'', ''cmd_prompt'', ''method'', ''telnet'']"

definition docs_ilo_ssh :: "string \<Rightarrow> docs" where
  \<comment> \<open>with the file name of the agent\<close>
  "docs_ilo_ssh file = \<lparr>agent_name = Some ''fence_ilo_ssh'', shortdesc = ''Fence agent for HP iLO over SSH'',
     longdesc = basename file @ '' is a Power Fencing agent that connects to iLO device. It logs into device via ssh and reboot a specified outlet.'' @ nl @ ''.P'' @ nl @ ''WARNING: The monitor-action is prone to timeouts. Use the fence_ilo-equivalent to avoid this issue.'',
     vendorurl = Some ''http://www.hp.com'', symlink = [(''fence_ilo3_ssh'', ''Fence agent for HP iLO3 over SSH''), (''fence_ilo4_ssh'', ''Fence agent for HP iLO4 over SSH''), (''fence_ilo5_ssh'', ''Fence agent for HP iLO5 over SSH'')]\<rparr>"

definition main_ilo_ssh where
  "main_ilo_ssh X set_order file time_start fuel =
     seqM (on_lib (set_default ''cmd_prompt'' (PList [''MP>'', ''hpiLO->''])))
    (seqM (on_lib (set_default ''power_wait'' (PInt 5)))
    (seqM (on_lib (read_options device_opt_ilo_ssh False))
    (seqM (on_lib (show_docs set_order (Some (docs_ilo_ssh file))))
    (seqM (setoptM ''eol'' (PStr cr))
          (on_dev (operate X time_start default_login (send_eol X ''SMCLP'') (fence_action fuel (fns_ilo_ssh X)) ''exit''))))))"

section \<open>Dell DRAC IV\<close>

definition drac_status_re :: re where
  "drac_status_re = Seq (Plus Spc) (Seq (Grp 1 (Alt (LitI ''on'') (LitI ''off''))) (Plus Spc))"

definition get_power_status_drac :: "'d pexpect \<Rightarrow> ('d, string option) sess" where
  "get_power_status_drac X =
     bindM (command X ''getmodinfo'' ''--shell-timeout'') (\<lambda>text.
     bindM (liftM (match_group drac_status_re 1 text)) (\<lambda>status.
       retM (Some (py_strip (py_lower status)))))"

definition set_power_status_drac :: "'d pexpect \<Rightarrow> ('d, unit) sess" where
  "set_power_status_drac X =
     bindM (by_action [(''on'', ''powerup''), (''off'', ''powerdown'')]) (\<lambda>action.
     seqM (command X (''serveraction -d 0 '' @ action) ''--shell-timeout'') (retM ()))"

definition fns_drac :: "'d pexpect \<Rightarrow> 'd session power_fns" where
  "fns_drac X = \<lparr>set_power_fn = Some (set_power_status_drac X), get_power_fn = Some (get_power_status_drac X),
     get_outlet_list = None, reboot_cycle_fn = None, sync_set_power_fn = None\<rparr>"

definition device_opt_drac :: "string list" where
  "device_opt_drac = [''ipaddr'', ''login'', ''passwd'', ''cmd_prompt'', ''telnet'']"

definition docs_drac :: docs where
  "docs_drac = \<lparr>agent_name = None, shortdesc = ''Power Fencing agent for Dell DRAC IV'',
     longdesc = ''fence_drac is a Power Fencing agent which can be used with the Dell Remote Access Card (DRAC). This card provides remote access to controlling power to a server. It logs into the DRAC through the telnet interface of the card. By default, the telnet interface is not enabled. To enable the interface, you will need to use the racadm command in the racser-devel rpm available from Dell.  To enable telnet on the DRAC: [root]# racadm config -g cfgSerial -o cfgSerialTelnetEnable 1 [root]# racadm racreset '',
     vendorurl = Some ''http://www.dell.com'', symlink = []\<rparr>"

definition prompt_with_name :: "unit lib" where
  \<comment> \<open>the default prompt holds the name of the user\<close>
  "prompt_with_name =
     bindM (hasoptM ''--username'') (\<lambda>given.
     bindM (if given then stroptM ''--username'' else retM ''username'') (\<lambda>user.
       set_default ''cmd_prompt'' (PList [bs @ ''['' @ user @ bs @ '']# ''])))"

definition main_drac where
  "main_drac X set_order time_start fuel =
     seqM (on_lib (read_options_with device_opt_drac prompt_with_name))
          (agent_session set_order docs_drac X time_start fuel (fns_drac X) ''exit'')"

section \<open>IBM RSA\<close>

definition get_power_status_rsa :: "'d pexpect \<Rightarrow> ('d, string option) sess" where
  "get_power_status_rsa X =
     bindM (command X ''power state'' ''--shell-timeout'') (\<lambda>text.
     let status = (case search_group (Seq (LitI ''Power: '') (Grp 1 (Star Any))) text of
         Some t \<Rightarrow> t
       | None \<Rightarrow> ''undefined'')
     in retM (Some (py_strip (py_lower status))))"

definition set_power_status_rsa :: "'d pexpect \<Rightarrow> ('d, unit) sess" where
  "set_power_status_rsa X =
     bindM (stroptM ''--action'') (\<lambda>action. seqM (command X (''power '' @ action) ''--power-timeout'') (retM ()))"

definition fns_rsa :: "'d pexpect \<Rightarrow> 'd session power_fns" where
  "fns_rsa X = \<lparr>set_power_fn = Some (set_power_status_rsa X), get_power_fn = Some (get_power_status_rsa X),
     get_outlet_list = None, reboot_cycle_fn = None, sync_set_power_fn = None\<rparr>"

definition device_opt_rsa :: "string list" where
  "device_opt_rsa = [''ipaddr'', ''login'', ''passwd'', ''cmd_prompt'', ''secure'', ''telnet'']"

definition docs_rsa :: docs where
  "docs_rsa = \<lparr>agent_name = None, shortdesc = ''Fence agent for IBM RSA'',
     longdesc = ''fence_rsa is a Power Fencing agent which can be used with the IBM RSA II management interface. It logs into an RSA II device via telnet and reboots the associated machine. Lengthy telnet connections to the RSA II device should be avoided while a GFS cluster is running because the connection will block any necessary fencing actions.'',
     vendorurl = Some ''http://www.ibm.com'', symlink = []\<rparr>"

definition main_rsa where
  "main_rsa X set_order time_start fuel =
     seqM (on_lib (set_default ''login_timeout'' (PInt 10)))
    (seqM (on_lib (set_default ''cmd_prompt'' (PList [''>''])))
    (seqM (on_lib (set_default ''ssh_options'' (PStr ''-F /dev/null'')))
    (seqM (on_lib (read_options device_opt_rsa False))
          (agent_session set_order docs_rsa X time_start fuel (fns_rsa X) ''exit''))))"

section \<open>Fujitsu-Siemens RSB\<close>

definition rsb_status_re :: re where
  "rsb_status_re = Seq (LitI ''Power Status'') (Seq (Star Spc) (Seq (LitI '': '') (Grp 1 (Alt (LitI ''on'') (LitI ''off'')))))"

definition get_power_status_rsb :: "'d pexpect \<Rightarrow> ('d, string option) sess" where
  "get_power_status_rsb X =
     seqM (send X ''2'')
    (seqM (expect_prompt X ''--shell-timeout'')
    (bindM (sessM conn_before) (\<lambda>text.
     bindM (liftM (match_group rsb_status_re 1 text)) (\<lambda>status.
     seqM (send X ''0'')
    (seqM (expect_prompt X ''--shell-timeout'')
          (retM (Some (py_strip (py_lower status)))))))))"

definition set_power_status_rsb :: "'d pexpect \<Rightarrow> ('d, unit) sess" where
  "set_power_status_rsb X =
     bindM (by_action [(''on'', ''4''), (''off'', ''1'')]) (\<lambda>action.
     seqM (send X ''2'')
    (seqM (expect_prompt X ''--shell-timeout'')
    (seqM (send_eol X action)
    (bindM (stroptM ''--action'') (\<lambda>word.
     seqM (expect_opt X [Txt (''want to power '' @ word), Txt ''yes/no'',
             Txt ([CHR 0x27] @ ''yes'' @ [CHR 0x27] @ '' or '' @ [CHR 0x27] @ ''no'' @ [CHR 0x27])] ''--shell-timeout'')
    (seqM (send_eol X ''yes'')
    (seqM (expect_opt X [Txt ''any key to continue''] ''--power-timeout'')
    (seqM (send_eol X [])
    (seqM (expect_prompt X ''--shell-timeout'')
    (seqM (send_eol X ''0'')
    (seqM (expect_prompt X ''--shell-timeout'') (retM ()))))))))))))"

definition fns_rsb :: "'d pexpect \<Rightarrow> 'd session power_fns" where
  "fns_rsb X = \<lparr>set_power_fn = Some (set_power_status_rsb X), get_power_fn = Some (get_power_status_rsb X),
     get_outlet_list = None, reboot_cycle_fn = None, sync_set_power_fn = None\<rparr>"

definition device_opt_rsb :: "string list" where
  "device_opt_rsb = [''ipaddr'', ''login'', ''passwd'', ''secure'', ''cmd_prompt'', ''telnet'']"

definition docs_rsb :: docs where
  "docs_rsb = \<lparr>agent_name = None, shortdesc = ''Power Fencing agent for Fujitsu-Siemens RSB'',
     longdesc = ''fence_rsb is a Power Fencing agent which can be used with the Fujitsu-Siemens RSB management interface. It logs into device via telnet/ssh  and reboots a specified outlet. Lengthy telnet/ssh connections should be avoided while a GFS cluster is running because the connection will block any necessary fencing actions.'',
     vendorurl = Some ''http://www.fujitsu.com'', symlink = []\<rparr>"

definition rsb_port :: "unit lib" where
  "rsb_port = bindM (getM opts) (\<lambda>od.
     if od ''--ssh'' = None \<and> od ''--ipport'' = None then
       seqM (set_default ''ipport'' (PStr ''3172'')) (setoptM ''--ipport'' (PStr ''3172''))
     else retM ())"

definition main_rsb where
  "main_rsb X set_order time_start fuel =
     seqM (on_lib (set_default ''cmd_prompt'' (PList [''to quit:''])))
    (seqM (on_lib (read_options_with device_opt_rsb rsb_port))
          (agent_session set_order docs_rsb X time_start fuel (fns_rsb X) ''0''))"

end
