(* ===== verification/Blade_Agents.thy ===== *)
theory Blade_Agents
  imports Fence_Login
begin

text \<open>
  Agents that log into a chassis and name one of its blades, partitions or modules:
  \<open>agents/bladecenter/fence_bladecenter.py\<close>, \<open>agents/hds_cb/fence_hds_cb.py\<close>,
  \<open>agents/hpblade/fence_hpblade.py\<close>, \<open>agents/ilo_moonshot/fence_ilo_moonshot.py\<close> and
  \<open>agents/drac5/fence_drac5.py\<close>.
\<close>

section \<open>Tables of lines\<close>

definition word_char :: "char \<Rightarrow> bool" where
  "word_char c \<longleftrightarrow> lower_letter c \<or> upper_letter c \<or> is_digit c \<or> c = CHR ''_''"

definition Wrd :: re where
  "Wrd = Cls word_char"

definition add_lines :: "re \<Rightarrow> (rst \<Rightarrow> string \<times> 'v) \<Rightarrow> string list \<Rightarrow> (string \<times> 'v) list \<Rightarrow> (string \<times> 'v) list" where
  \<comment> \<open>\<open>for line in lines: res = r.search(line); if res != None: outlets[k] = v\<close>\<close>
  "add_lines r entry ls d = fold (\<lambda>line d. case re_search r line of
      None \<Rightarrow> d
    | Some m \<Rightarrow> (case entry m of (k, v) \<Rightarrow> AList.update k v d)) ls d"

definition collect_lines :: "re \<Rightarrow> (rst \<Rightarrow> string \<times> 'v) \<Rightarrow> string list \<Rightarrow> (string \<times> 'v) list" where
  "collect_lines r entry ls = add_lines r entry ls []"

definition last_match :: "re \<Rightarrow> (rst \<Rightarrow> 'v) \<Rightarrow> string list \<Rightarrow> 'v \<Rightarrow> 'v" where
  \<comment> \<open>a variable that every line with a match sets\<close>
  "last_match r f ls v = fold (\<lambda>line x. case re_search r line of None \<Rightarrow> x | Some m \<Rightarrow> f m) ls v"

section \<open>IBM BladeCenter\<close>

definition blade_prompt :: "string \<Rightarrow> pat" where
  "blade_prompt plug = Txt (''system:blade'' @ bs @ ''['' @ plug @ bs @ '']>'')"

definition enter_blade :: "'d pexpect \<Rightarrow> string \<Rightarrow> ('d, nat) sess" where
  \<comment> \<open>make a blade the target; 1 if there is no such blade\<close>
  "enter_blade X plug =
     seqM (send_eol X (''env -T system:blade['' @ plug @ '']''))
          (expect_opt X [blade_prompt plug, Txt ''system>''] ''--shell-timeout'')"

definition get_power_status_bladecenter :: "'d pexpect \<Rightarrow> ('d, string option) sess" where
  "get_power_status_bladecenter X =
     bindM (stroptM ''--plug'') (\<lambda>plug.
     bindM (enter_blade X plug) (\<lambda>i.
     bindM (hasoptM ''--missing-as-off'') (\<lambda>missing.
       if i = 1 \<and> missing then retM (Some ''off'')
       else
         seqM (if i = 1 then fail EC_STATUS True else retM ())
        (seqM (send_eol X ''power -state'')
        (seqM (expect_opt X [blade_prompt plug] ''--shell-timeout'')
        (bindM (sessM conn_before) (\<lambda>text.
           if py_splitlines text = [] then raiseM (IndexError ''list index out of range'')
           else
             seqM (send_eol X ''env -T system'')
            (seqM (expect_prompt X ''--shell-timeout'')
                  (retM (Some (py_strip (py_lower (last (py_splitlines text))))))))))))))"

definition set_power_status_bladecenter :: "'d pexpect \<Rightarrow> ('d, unit) sess" where
  "set_power_status_bladecenter X =
     bindM (stroptM ''--plug'') (\<lambda>plug.
     bindM (enter_blade X plug) (\<lambda>i.
     bindM (hasoptM ''--missing-as-off'') (\<lambda>missing.
       if i = 1 \<and> missing then retM ()
       else
         seqM (if i = 1 then fail EC_GENERIC_ERROR True else retM ())
        (bindM (stroptM ''--action'') (\<lambda>action.
         seqM (send_eol X (''power -'' @ action))
        (seqM (expect_opt X [blade_prompt plug] ''--shell-timeout'')
        (seqM (send_eol X ''env -T system'')
        (seqM (expect_prompt X ''--shell-timeout'') (retM ())))))))))"

definition blade_line_re :: re where
  "blade_line_re = Seq Bol (Seq (Star Spc) (Seq (Lit ''blade['') (Seq (Grp 1 (Plus Dig)) (Seq (Lit '']'') (Seq (Plus Spc)
     (Seq (Grp 2 (LStar Any)) (Seq (Star Spc) Eos)))))))"

definition get_blades_list_bladecenter :: "'d pexpect \<Rightarrow> ('d, outlet list) sess" where
  "get_blades_list_bladecenter X =
     seqM (send_eol X ''env -T system'')
    (seqM (expect_opt X [Txt ''system>''] ''--shell-timeout'')
    (seqM (send_eol X ''list -l 2'')
    (seqM (expect_opt X [Txt ''system>''] ''--shell-timeout'')
    (bindM (sessM conn_before) (\<lambda>text.
       retM (outlets_of (collect_lines blade_line_re (\<lambda>m. (group 1 m, group 2 m, [])) (py_split (cr @ nl) text))))))))"

definition fns_bladecenter :: "'d pexpect \<Rightarrow> 'd session power_fns" where
  "fns_bladecenter X = \<lparr>set_power_fn = Some (set_power_status_bladecenter X),
     get_power_fn = Some (get_power_status_bladecenter X), get_outlet_list = Some (get_blades_list_bladecenter X),
     reboot_cycle_fn = None, sync_set_power_fn = None\<rparr>"

definition device_opt_bladecenter :: "string list" where
  "device_opt_bladecenter = [''ipaddr'', ''login'', ''passwd'', ''cmd_prompt'', ''secure'', ''port'', ''missing_as_off'', ''telnet'']"

definition docs_bladecenter :: docs where
  "docs_bladecenter = \<lparr>agent_name = None, shortdesc = ''Fence agent for IBM BladeCenter'',
     longdesc = ''fence_bladecenter is a Power Fencing agent which can be used with IBM Bladecenters with recent enough firmware that includes telnet support. It logs into a Brocade chasis via telnet or ssh and uses the command line interface to power on and off blades.'',
     vendorurl = Some ''http://www.ibm.com'', symlink = []\<rparr>"

definition blade_login :: login_prompt where
  "blade_login = \<lparr>prompt_text = ''(username'' @ bs @ ''s*:'' @ bs @ ''s*)'',
     prompt_re = Seq (LitI ''username'') (Seq (Star Spc) (Seq (LitI '':'') (Star Spc)))\<rparr>"

definition main_bladecenter where
  "main_bladecenter X set_order time_start fuel =
     seqM (on_lib (set_default ''power_wait'' (PStr ''10'')))
    (seqM (on_lib (set_default ''cmd_prompt'' (PList [''system>''])))
    (seqM (on_lib (read_options device_opt_bladecenter False))
    (seqM (on_lib (show_docs set_order (Some docs_bladecenter)))
          (on_dev (operate X time_start blade_login (retM ()) (fence_action fuel (fns_bladecenter X)) ''exit'')))))"

section \<open>Hitachi Compute Blade\<close>

definition RE_STATUS_LINE :: re where
  "RE_STATUS_LINE = Seq Bol (Seq (Grp 1 (Plus Dig)) (Seq (Plus Spc) (Seq (Grp 2 (Plus NonSpc)) (Seq (Plus Spc)
     (Seq (Grp 3 (Plus NonSpc)) (Seq (Plus Spc) (Seq (Grp 4 (Plus NonSpc)) (Seq (Plus Spc) (Seq (Grp 5 (Plus NonSpc))
     (Seq (Plus Spc) (Seq (Grp 6 (Plus NonSpc)) (Seq (Star Any) Eos))))))))))))"

definition say :: "'d pexpect \<Rightarrow> string \<Rightarrow> ('d, unit) sess" where
  \<comment> \<open>send a line and wait for the command prompt\<close>
  "say X line = seqM (sendline X line) (seqM (expect_prompt X ''--shell-timeout'') (retM ()))"

definition say_for :: "'d pexpect \<Rightarrow> string \<Rightarrow> string \<Rightarrow> ('d, unit) sess" where
  \<comment> \<open>send a line and wait for a given text\<close>
  "say_for X line reply = seqM (sendline X line) (seqM (expect_opt X [Txt reply] ''--shell-timeout'') (retM ()))"

definition partition_control :: "'d pexpect \<Rightarrow> ('d, string) sess" where
  \<comment> \<open>from the main menu to the partition control, and its screen\<close>
  "partition_control X = seqM (say_for X ''S'' ''SVP>'') (seqM (say X ''PC'') (sessM conn_before))"

definition main_menu :: "'d pexpect \<Rightarrow> ('d, unit) sess" where
  "main_menu X = seqM (say_for X ''Q'' ''SVP>'') (say X ''EX'')"

definition get_power_status_hds_cb :: "'d pexpect \<Rightarrow> ('d, string option) sess" where
  \<comment> \<open>\<open>options["--plug"]\<close> is read only when a line matches; without the plug the result is an empty dictionary\<close>
  "get_power_status_hds_cb X =
     bindM (partition_control X) (\<lambda>text.
     bindM (foldM (\<lambda>result line. case re_search RE_STATUS_LINE line of
         None \<Rightarrow> retM result
       | Some m \<Rightarrow> bindM (optM ''--plug'') (\<lambda>plug.
           retM (if PStr (group 1 m) = plug then py_lower (group 2 m) else result))) no_status (py_splitlines text)) (\<lambda>result.
     seqM (main_menu X) (retM (Some result))))"

definition set_power_status_hds_cb :: "'d pexpect \<Rightarrow> ('d, unit) sess" where
  "set_power_status_hds_cb X =
     bindM (by_action [(''on'', ''P''), (''off'', ''F''), (''reboot'', ''H'')]) (\<lambda>action.
     seqM (partition_control X)
    (seqM (say X ''P'')
    (seqM (say X action)
    (bindM (stroptM ''--plug'') (\<lambda>plug.
     seqM (say X plug)
    (seqM (say_for X ''Y'' ''Hit enter key.'')
    (seqM (say X [])
    (seqM (say X ''Q'')
          (main_menu X)))))))))"

definition get_blades_list_hds_cb :: "'d pexpect \<Rightarrow> ('d, outlet list) sess" where
  "get_blades_list_hds_cb X =
     bindM (partition_control X) (\<lambda>text.
     seqM (main_menu X)
          (retM (outlets_of (collect_lines RE_STATUS_LINE (\<lambda>m. (group 1 m, group 2 m, [])) (py_splitlines text)))))"

definition fns_hds_cb :: "'d pexpect \<Rightarrow> 'd session power_fns" where
  "fns_hds_cb X = \<lparr>set_power_fn = Some (set_power_status_hds_cb X), get_power_fn = Some (get_power_status_hds_cb X),
     get_outlet_list = Some (get_blades_list_hds_cb X), reboot_cycle_fn = None, sync_set_power_fn = None\<rparr>"

definition device_opt_hds_cb :: "string list" where
  "device_opt_hds_cb = [''ipaddr'', ''login'', ''passwd'', ''cmd_prompt'', ''secure'', ''port'', ''missing_as_off'', ''telnet'']"

definition docs_hds_cb :: docs where
  "docs_hds_cb = \<lparr>agent_name = None, shortdesc = ''Fence agent for Hitachi Compute Blade systems'',
     longdesc = ''fence_hds_cb is a Power Fencing agent which can be used with Hitachi Compute Blades with recent enough firmware that includes telnet support.'',
     vendorurl = Some ''http://www.hds.com'', symlink = []\<rparr>"

definition main_hds_cb where
  "main_hds_cb X set_order time_start fuel =
     seqM (on_lib (set_default ''power_wait'' (PStr ''5'')))
    (seqM (on_lib (set_default ''cmd_prompt'' (PList [bs @ '') :''])))
    (seqM (on_lib (read_options device_opt_hds_cb False))
          (agent_session set_order docs_hds_cb X time_start fuel (fns_hds_cb X) ''X'')))"

section \<open>HP BladeSystem\<close>

definition enclosure_re :: re where
  "enclosure_re = Seq Bol (Seq (Star Spc) (Seq (Lit ''Enclosure Type: '') (Seq (Grp 1 (Plus Wrd)) (Seq (Grp 2 (LStar Any))
     (Seq (Star Spc) Eos)))))"

definition get_enclosure_type :: "'d pexpect \<Rightarrow> ('d, string) sess" where
  \<comment> \<open>the module does not import \<open>EC_GENERIC_ERROR\<close>\<close>
  "get_enclosure_type X =
     bindM (command X ''show enclosure info'' ''--shell-timeout'') (\<lambda>text.
     let enclosure = last_match enclosure_re (group 1) (py_splitlines text) ''unknown'' in
       if enclosure = ''unknown'' then raiseM (OtherError ''NameError: EC_GENERIC_ERROR'')
       else retM (py_strip (py_lower enclosure)))"

definition is_superdome :: "('w, bool) prog" where
  "is_superdome = bindM (optM ''enc_type'') (\<lambda>v. retM (v = PStr ''superdome''))"

definition partition_power_re :: re where
  "partition_power_re = Seq Bol (Seq (Lit ''partition:'') (Seq Dig (Seq (Plus Spc) (Seq (Lit '':'') (Seq (Plus Wrd)
     (Seq (Plus Spc) (Seq (Lit ''/'') (Seq (Grp 1 (Plus Wrd)) (Seq Spc (Seq (Star Any) Eos))))))))))"

definition server_power_re :: re where
  "server_power_re = Seq Bol (Seq (Star Spc) (Seq (Lit ''Power: '') (Seq (Grp 1 (LStar Any)) (Seq (Star Spc) Eos))))"

definition get_power_status_hpblade :: "'d pexpect \<Rightarrow> ('d, string option) sess" where
  "get_power_status_hpblade X =
     bindM is_superdome (\<lambda>superdome.
     bindM (stroptM ''--plug'') (\<lambda>plug.
     bindM (command X ((if superdome then ''parstatus -M -p '' else ''show server status '') @ plug) ''--shell-timeout'') (\<lambda>text.
     let status =
       (if superdome
        then last_match partition_power_re (\<lambda>m. if group 1 m = ''DOWN'' then ''off'' else ''on'') (py_splitlines text) ''unknown''
        else last_match server_power_re (group 1) (py_splitlines text) ''unknown'')
     in if status \<noteq> ''unknown'' then retM (Some (py_strip (py_lower status)))
        else bindM (hasoptM ''--missing-as-off'') (\<lambda>missing.
          if missing then retM (Some ''off'')
          else seqM (fail EC_STATUS True) (retM (Some (py_strip (py_lower status))))))))"

definition set_power_status_hpblade :: "'d pexpect \<Rightarrow> ('d, unit) sess" where
  "set_power_status_hpblade X =
     bindM is_superdome (\<lambda>superdome.
     let what = (if superdome then ''partition '' else ''server '') in
     bindM (optM ''--action'') (\<lambda>action.
     seqM (if action = PStr ''on'' then bindM (stroptM ''--plug'') (\<lambda>plug. send_eol X (''poweron '' @ what @ plug))
           else if action = PStr ''off''
           then bindM (stroptM ''--plug'') (\<lambda>plug. send_eol X (''poweroff '' @ what @ plug @ '' force''))
           else retM ())
    (seqM (expect_prompt X ''--shell-timeout'') (retM ()))))"

definition partition_list_re :: re where
  "partition_list_re = Seq Bol (Seq (Lit ''partition:'') (Seq (Grp 1 (Plus Dig)) (Seq (Plus Spc) (Seq (Lit '':'')
     (Seq (Plus Wrd) (Seq (Plus Spc) (Seq (Lit ''/'') (Seq (Grp 2 (Plus Wrd)) (Seq (Plus Spc) (Seq (Lit '':OK'')
     (Seq (LStar Any) (Seq (Lit '':'') (Seq (Grp 3 (Plus Wrd)) (Seq (Star Spc) Eos))))))))))))))"

definition server_list_re :: re where
  "server_list_re = Seq Bol (Seq (Star Spc) (Seq (Grp 1 (Plus Dig)) (Seq (Plus Spc) (Seq (Grp 2 (LStar Any)) (Seq (Plus Spc)
     (Seq (Grp 3 (LStar Any)) (Seq (Plus Spc) (Seq (Lit ''OK'') (Seq (Plus Spc) (Seq (Grp 4 (LStar Any)) (Seq (Plus Spc)
     (Seq (Grp 5 (LStar Any)) (Seq (Star Spc) Eos)))))))))))))"

definition get_instances_list :: "'d pexpect \<Rightarrow> ('d, outlet list) sess" where
  "get_instances_list X =
     bindM is_superdome (\<lambda>superdome.
     bindM (command X (if superdome then ''parstatus -P -M'' else ''show server list'') ''--shell-timeout'') (\<lambda>text.
       retM (outlets_of
        (if superdome
         then collect_lines partition_list_re (\<lambda>m. (group 1 m, group 3 m, py_lower (group 2 m))) (py_splitlines text)
         else collect_lines server_list_re (\<lambda>m. (group 1 m, group 2 m, py_lower (group 4 m))) (py_splitlines text)))))"

definition fns_hpblade :: "'d pexpect \<Rightarrow> 'd session power_fns" where
  "fns_hpblade X = \<lparr>set_power_fn = Some (set_power_status_hpblade X), get_power_fn = Some (get_power_status_hpblade X),
     get_outlet_list = Some (get_instances_list X), reboot_cycle_fn = None, sync_set_power_fn = None\<rparr>"

definition device_opt_hpblade :: "string list" where
  "device_opt_hpblade = [''ipaddr'', ''login'', ''passwd'', ''cmd_prompt'', ''secure'', ''port'', ''missing_as_off'', ''telnet'']"

definition docs_hpblade :: docs where
  "docs_hpblade = \<lparr>agent_name = None, shortdesc = ''Fence agent for HP BladeSystem'',
     longdesc = ''fence_hpblade is a Power Fencing agent which can be used with HP BladeSystem and HP Integrity Superdome X. It logs into the onboard administrator of an enclosure via telnet or ssh and uses the command line interface to power blades or partitions on or off.'',
     vendorurl = Some ''http://www.hp.com'', symlink = []\<rparr>"

definition main_hpblade where
  "main_hpblade X set_order time_start fuel =
     seqM (on_lib (set_default ''cmd_prompt'' (PList [''c7000oa>''])))
    (seqM (on_lib (set_default ''login_timeout'' (PStr ''10'')))
    (seqM (on_lib (read_options device_opt_hpblade False))
    (seqM (on_lib (show_docs set_order (Some docs_hpblade)))
    (seqM (setoptM ''eol'' (PStr nl))
          (on_dev (operate X time_start default_login
             (bindM (get_enclosure_type X) (\<lambda>t. setoptM ''enc_type'' (PStr t)))
             (fence_action fuel (fns_hpblade X)) ''exit''))))))"

section \<open>HP Moonshot iLO\<close>

definition moonshot_nodes :: "string \<Rightarrow> entries" where
  "moonshot_nodes text = fold (\<lambda>line d. let ws = py_words line in
     if length ws = 10 then AList.update (ws ! 1) ([], py_strip (py_lower (ws ! 8))) d else d) (py_splitlines text) []"

definition get_power_status_moonshot :: "'d pexpect \<Rightarrow> ('d, dual) sess" where
  "get_power_status_moonshot X =
     bindM (command X ''show node list'' ''--shell-timeout'') (\<lambda>text. status_or_list True (moonshot_nodes text))"

definition set_power_status_moonshot :: "'d pexpect \<Rightarrow> ('d, unit) sess" where
  "set_power_status_moonshot X =
     bindM is_on (\<lambda>on.
     bindM (showoptM ''--plug'') (\<lambda>plug.
     seqM (command X ((if on then ''set node power on '' else ''set node power off force '') @ plug) ''--power-timeout'')
          (retM ())))"

definition fns_moonshot :: "'d pexpect \<Rightarrow> 'd session power_fns" where
  "fns_moonshot X = \<lparr>set_power_fn = Some (set_power_status_moonshot X),
     get_power_fn = Some (as_status (get_power_status_moonshot X)),
     get_outlet_list = Some (as_outlets (get_power_status_moonshot X)), reboot_cycle_fn = None, sync_set_power_fn = None\<rparr>"

definition device_opt_moonshot :: "string list" where
  "device_opt_moonshot = [''ipaddr'', ''login'', ''passwd'', ''secure'', ''cmd_prompt'', ''port'']"

definition docs_moonshot :: docs where
  "docs_moonshot = \<lparr>agent_name = None, shortdesc = ''Fence agent for HP Moonshot iLO'',
     longdesc = [],
     vendorurl = Some ''http://www.hp.com'', symlink = []\<rparr>"

definition main_moonshot where
  "main_moonshot X set_order time_start fuel =
     seqM (on_lib (set_default ''secure'' (PStr ''1'')))
    (seqM (on_lib (set_default ''cmd_prompt'' (PList [''MP>'', ''hpiLO->''])))
    (seqM (on_lib (read_options device_opt_moonshot False))
          (agent_session set_order docs_moonshot X time_start fuel (fns_moonshot X) ''exit'')))"

section \<open>Dell DRAC 5 and CMC\<close>

definition cmc_re :: re where
  "cmc_re = Seq Bol (Seq (Grp 1 (LStar NonSpc)) (Seq (Plus Spc) (Seq (Lit ''Present'') (Seq (Star Spc)
     (Seq (Grp 2 (Alt (Lit ''ON'') (Lit ''OFF''))) (Seq (Star Spc) (Seq (Star Any) Eos)))))))"

definition mc_re :: re where
  "mc_re = Seq Bol (Seq (Star Spc) (Seq (Grp 1 (Star NonSpc)) (Seq (Star Spc) (Seq (Lit ''---->'') (Seq (Star Spc)
     (Seq (Grp 2 (LStar Any)) (Seq (Plus Spc) (Seq (Lit ''Present'') (Seq (Star Spc)
     (Seq (Grp 3 (Alt (Lit ''ON'') (Lit ''OFF''))) (Seq (Star Spc) (Seq (Star Any) Eos))))))))))))"

definition drac_version :: "('w, string) prog" where
  "drac_version = bindM (optM ''--drac-version'') (\<lambda>v. retM (case v of PStr t \<Rightarrow> t | _ \<Rightarrow> []))"

definition get_list_devices_drac5 :: "'d pexpect \<Rightarrow> ('d, entries) sess" where
  "get_list_devices_drac5 X =
     bindM drac_version (\<lambda>version.
       if version = ''DRAC CMC'' then
         bindM (command X ''getmodinfo'' ''--power-timeout'') (\<lambda>text.
           retM (collect_lines cmc_re (\<lambda>m. (group 1 m, [], group 2 m)) (py_splitlines text)))
       else if version = ''DRAC MC'' then
         bindM (command X ''getmodinfo'' ''--power-timeout'') (\<lambda>text.
           retM (collect_lines mc_re (\<lambda>m. (group 2 m, [], group 3 m)) (py_splitlines text)))
       else if version = ''DRAC 5'' then seqM (printM ''N/A'') (retM [])
       else retM [])"

definition drac5_status_re :: re where
  "drac5_status_re = Seq (Grp 1 (Alt Bol (LitI '': ''))) (Seq (Grp 2 (Alt (LitI ''ON'') (Alt (LitI ''OFF'')
     (Alt (LitI ''Powering ON'') (LitI ''Powering OFF''))))) (Seq (Star Spc) Eol))"

definition get_power_status_drac5 :: "'d pexpect \<Rightarrow> ('d, string option) sess" where
  "get_power_status_drac5 X =
     bindM drac_version (\<lambda>version.
     bindM (if version = ''DRAC MC'' then
              bindM (get_list_devices_drac5 X) (\<lambda>es. bindM (plug_entry es) (\<lambda>(_, status). retM status))
            else
              seqM (if version = ''DRAC CMC'' then
                      bindM (stroptM ''--plug'') (\<lambda>plug. send_eol X (''racadm serveraction powerstatus -m '' @ plug))
                    else if version = ''DRAC 5'' then send_eol X ''racadm serveraction powerstatus''
                    else retM ())
             (seqM (expect_prompt X ''--shell-timeout'')
             (bindM (sessM conn_before) (\<lambda>text. liftM (match_group drac5_status_re 2 text))))) (\<lambda>status.
       retM (Some (if py_strip (py_lower status) \<in> {''on'', ''powering on'', ''powering off''} then ''on'' else ''off''))))"

definition set_power_status_drac5 :: "'d pexpect \<Rightarrow> ('d, unit) sess" where
  "set_power_status_drac5 X =
     bindM (by_action [(''on'', ''powerup''), (''off'', ''powerdown'')]) (\<lambda>action.
     bindM drac_version (\<lambda>version.
     seqM (if version = ''DRAC CMC'' then
             bindM (stroptM ''--plug'') (\<lambda>plug. send_eol X (''racadm serveraction '' @ action @ '' -m '' @ plug))
           else if version = ''DRAC 5'' then send_eol X (''racadm serveraction '' @ action)
           else if version = ''DRAC MC'' then
             bindM (stroptM ''--plug'') (\<lambda>plug. send_eol X (''racadm serveraction -s '' @ plug @ '' '' @ action))
           else retM ())
    (seqM (expect_prompt X ''--power-timeout'')
    (bindM (sessM conn_before) (\<lambda>text.
       if py_strip text = [] then
         bindM (stroptM ''eol'') (\<lambda>eol.
         seqM (setoptM ''eol'' (PStr (butlast eol)))
        (seqM (expect_prompt X ''--power-timeout'')
        (seqM (expect_prompt X ''--power-timeout'') (retM ()))))
       else retM ())))))"

definition fns_drac5 :: "'d pexpect \<Rightarrow> 'd session power_fns" where
  "fns_drac5 X = \<lparr>set_power_fn = Some (set_power_status_drac5 X), get_power_fn = Some (get_power_status_drac5 X),
     get_outlet_list = Some (bindM (get_list_devices_drac5 X) (\<lambda>es. retM (outlets_of es))),
     reboot_cycle_fn = None, sync_set_power_fn = None\<rparr>"

definition new_opts_drac5 :: "(string \<times> optdef) list" where
  "new_opts_drac5 =
    [(''drac_version'', \<lparr>o_getopt = ''d:'', o_longopt = Some ''drac-version'',
        o_help = ''-d, --drac-version=[version]   Force DRAC version to use (DRAC 5|DRAC CMC|DRAC MC)'',
        o_required = Some ''0'', o_shortdesc = Some ''Force DRAC version to use'',
        o_type = None, o_default = None, o_choices = Some [''DRAC CMC'', ''DRAC MC'', ''DRAC 5''], o_order = 1\<rparr>)]"

definition device_opt_drac5 :: "string list" where
  "device_opt_drac5 = [''ipaddr'', ''login'', ''passwd'', ''cmd_prompt'', ''secure'', ''drac_version'', ''port'', ''no_port'', ''telnet'']"

definition docs_drac5 :: docs where
  "docs_drac5 = \<lparr>agent_name = None, shortdesc = ''Fence agent for Dell DRAC CMC/5'',
     longdesc = ''fence_drac5 is a Power Fencing agent which can be used with the Dell Remote Access Card v5 or CMC (DRAC). This device provides remote access to controlling  power to a server. It logs into the DRAC through the telnet/ssh interface of the card. By default, the telnet interface is not  enabled.'',
     vendorurl = Some ''http://www.dell.com'', symlink = []\<rparr>"

definition detect_drac_version :: "('d, unit) sess" where
  \<comment> \<open>from the text the device showed at the login\<close>
  "detect_drac_version =
     bindM (hasoptM ''--drac-version'') (\<lambda>given.
       if given then retM ()
       else bindM (sessM conn_before) (\<lambda>before.
         if py_in ''CMC'' before then setoptM ''--drac-version'' (PStr ''DRAC CMC'')
         else if py_in ''DRAC 5'' before then setoptM ''--drac-version'' (PStr ''DRAC 5'')
         else bindM afterM (\<lambda>after.
           if py_in ''DRAC/MC'' after then setoptM ''--drac-version'' (PStr ''DRAC MC'')
           else setoptM ''--drac-version'' (PStr ''DRAC 5''))))"

definition check_module :: "('w, unit) prog" where
  "check_module =
     bindM drac_version (\<lambda>version.
       if version \<in> {''DRAC MC'', ''DRAC CMC''} then
         bindM (hasoptM ''--plug'') (\<lambda>given.
           if given then retM ()
           else bindM is_listing (\<lambda>listing.
             if listing then retM () else fail_usage ''Failed: You have to enter module name (-n)'' True))
       else retM ())"

definition main_drac5 where
  "main_drac5 X set_order time_start fuel =
     seqM (on_lib (add_opts new_opts_drac5))
    (seqM (on_lib (set_default ''cmd_prompt'' (PList [bs @ ''$'', ''DRAC'' @ bs @ ''/MC:''])))
    (seqM (on_lib (read_options device_opt_drac5 False))
    (seqM (on_lib (show_docs set_order (Some docs_drac5)))
    (on_dev
      (seqM (fence_login X time_start default_login)
      (seqM detect_drac_version
      (seqM check_module
      (bindM (fence_action fuel (fns_drac5 X)) (\<lambda>result.
       seqM (fence_logout X ''exit'' 1) (exitM result))))))))))"

end
