(* ===== verification/Vm_Agents.thy ===== *)
theory Vm_Agents
  imports Blade_Agents
begin

text \<open>
  Agents that log into the host of virtual machines or partitions and run its command line tools:
  \<open>agents/virsh/fence_virsh.py\<close>, \<open>agents/vbox/fence_vbox.py\<close>, \<open>agents/ldom/fence_ldom.py\<close> and
  \<open>agents/lpar/fence_lpar.py\<close>.
\<close>

definition sudo_prefix :: "('w, string) prog" where
  "sudo_prefix = bindM (hasoptM ''--use-sudo'') (\<lambda>sudo.
     if sudo then bindM (stroptM ''--sudo-path'') (\<lambda>path. retM (path @ '' '')) else retM [])"

section \<open>virsh\<close>

definition live_states :: "string list" where
  "live_states = [''running'', ''blocked'', ''idle'', ''no state'', ''paused'']"

definition get_name_or_uuid :: "('w, pyval) prog" where
  "get_name_or_uuid = bindM (hasoptM ''--uuid'') (\<lambda>given. if given then optM ''--uuid'' else optM ''--plug'')"

definition domain_line_re :: re where
  "domain_line_re = Seq Bol (Seq (Star Spc) (Seq (Grp 1 (Plus NonSpc)) (Seq (Plus Spc) (Seq (Grp 2 (Plus NonSpc))
     (Seq (Plus Spc) (Seq (Grp 3 (Plus NonSpc)) (Seq (Star Any) Eos)))))))"

definition virsh_line :: "string \<Rightarrow> bool \<times> entries \<Rightarrow> bool \<times> entries" where
  \<comment> \<open>one turn of the loop; the flag is \<open>fa_status\<close>\<close>
  "virsh_line line st = (case re_search domain_line_re line of
      None \<Rightarrow> st
    | Some m \<Rightarrow> (case st of (seen, d) \<Rightarrow>
        if \<not> seen \<and> py_lower (group 1 m) = ''id'' \<and> py_lower (group 2 m) = ''name'' then (True, d)
        else if seen then
          (True, AList.update (group 2 m) ([], if py_lower (group 3 m) \<in> set live_states then ''on'' else ''off'') d)
        else (seen, d)))"

definition get_outlets_status_virsh :: "'d pexpect \<Rightarrow> ('d, outlet list) sess" where
  "get_outlets_status_virsh X =
     bindM sudo_prefix (\<lambda>prefix.
     seqM (sendline X (prefix @ ''virsh list --all''))
    (seqM (expect_prompt X ''--shell-timeout'')
    (bindM (sessM conn_before) (\<lambda>text.
       retM (outlets_of (snd (fold virsh_line (py_splitlines text) (False, []))))))))"

fun domain_state :: "bool \<Rightarrow> string list \<Rightarrow> string option" where
  \<comment> \<open>the loop over the answer to domstate; None where it ends with \<open>fail_usage\<close>\<close>
  "domain_state missing_as_off [] = Some ''off''"
| "domain_state missing_as_off (line # ls) =
     (if py_strip line \<in> set live_states then Some ''on''
      else if py_in ''error: failed to get domain'' (py_strip line) \<and> missing_as_off then Some ''off''
      else if py_in ''error:'' (py_strip line) then None
      else domain_state missing_as_off ls)"

definition get_power_status_virsh :: "'d pexpect \<Rightarrow> ('d, string option) sess" where
  "get_power_status_virsh X =
     bindM sudo_prefix (\<lambda>prefix.
     bindM get_name_or_uuid (\<lambda>name.
     seqM (sendline X (prefix @ ''virsh domstate '' @ py_str name))
    (seqM (expect_prompt X ''--shell-timeout'')
    (bindM (sessM conn_before) (\<lambda>text.
     bindM (hasoptM ''--missing-as-off'') (\<lambda>missing.
       case domain_state missing (py_splitlines text) of
         Some t \<Rightarrow> retM (Some t)
       | None \<Rightarrow> seqM (fail_usage ''Failed: You have to enter existing name/UUID of virtual machine!'' True)
                      (retM (Some []))))))))"

definition set_power_status_virsh :: "'d pexpect \<Rightarrow> ('d, unit) sess" where
  "set_power_status_virsh X =
     bindM sudo_prefix (\<lambda>prefix.
     bindM is_on (\<lambda>on.
     bindM get_name_or_uuid (\<lambda>v. case v of
         PStr name \<Rightarrow>
           seqM (sendline X (prefix @ ''virsh '' @ (if on then ''start'' else ''destroy'') @ '' '' @ name))
          (seqM (expect_prompt X ''--power-timeout'')
                (sleep_opt ''--power-wait''))
       | _ \<Rightarrow> raiseM (TypeError ''can only concatenate str''))))"

definition fns_virsh :: "'d pexpect \<Rightarrow> 'd session power_fns" where
  "fns_virsh X = \<lparr>set_power_fn = Some (set_power_status_virsh X), get_power_fn = Some (get_power_status_virsh X),
     get_outlet_list = Some (get_outlets_status_virsh X), reboot_cycle_fn = None, sync_set_power_fn = None\<rparr>"

definition device_opt_virsh :: "string list" where
  "device_opt_virsh = [''ipaddr'', ''login'', ''passwd'', ''cmd_prompt'', ''secure'', ''port'', ''sudo'', ''missing_as_off'']"

definition docs_virsh :: docs where
  "docs_virsh = \<lparr>agent_name = None, shortdesc = ''Fence agent for virsh'',
     longdesc = ''fence_virsh is a Power Fencing agent which can be used with the virtual machines managed by libvirt. It logs via ssh to a dom0 and there run virsh command, which does all work. '' @ nl @ ''.P'' @ nl @ ''By default, virsh needs root account to do properly work. So you must allow ssh login in your sshd_config.'',
     vendorurl = Some ''http://libvirt.org'', symlink = []\<rparr>"

definition expect_prompts :: pyval where
  "expect_prompts = PList [bs @ ''[EXPECT'' @ bs @ '']#'']"

definition bash_options :: "string \<Rightarrow> pyval" where
  \<comment> \<open>a shell with a known prompt, with more settings in its environment\<close>
  "bash_options env = PStr (''-t '' @ [CHR 0x27] @ ''/bin/bash -c \"PS1='' @ bs @ bs @ ''[EXPECT'' @ bs @ bs @ '']# '' @ env
     @ ''/bin/bash --noprofile --norc\"'' @ [CHR 0x27])"

definition main_virsh where
  "main_virsh X set_order time_start fuel =
     seqM (on_lib (set_default ''secure'' (PStr ''1'')))
    (seqM (on_lib (set_default ''cmd_prompt'' expect_prompts))
    (seqM (on_lib (set_default ''ssh_options'' (bash_options [])))
    (seqM (on_lib (read_options device_opt_virsh False))
          (agent_session set_order docs_virsh X time_start fuel (fns_virsh X) ''quit''))))"

section \<open>VirtualBox\<close>

definition invoke :: "'d pexpect \<Rightarrow> string list \<Rightarrow> ('d, string) sess" where
  "invoke X cmd =
     bindM sudo_prefix (\<lambda>prefix.
     bindM (stroptM ''--vboxmanage-path'') (\<lambda>path.
       command X (prefix @ path @ '' '' @ py_join '' '' cmd) ''--shell-timeout''))"

definition vbox_domain_re :: re where
  "vbox_domain_re = Seq Bol (Seq (Lit ''\"'') (Seq (Grp 1 (Star Any)) (Seq (Lit ''\" {'') (Seq (Grp 2 (Star Any))
     (Seq (Lit ''}'') Eos)))))"

definition add_vms :: "string \<Rightarrow> string \<Rightarrow> entries \<Rightarrow> entries" where
  "add_vms status text d = fold (\<lambda>line d. case re_search vbox_domain_re (py_strip line) of
      None \<Rightarrow> d
    | Some m \<Rightarrow> AList.update (group 1 m) (group 2 m, status) d) (py_splitlines text) d"

definition vbox_outlets :: "'d pexpect \<Rightarrow> ('d, entries) sess" where
  "vbox_outlets X =
     bindM (invoke X [''list'', ''vms'']) (\<lambda>vms.
     bindM (invoke X [''list'', ''runningvms'']) (\<lambda>running.
       retM (add_vms ''on'' running (add_vms ''off'' vms []))))"

definition get_outlets_status_vbox :: "'d pexpect \<Rightarrow> ('d, outlet list) sess" where
  "get_outlets_status_vbox X = bindM (vbox_outlets X) (\<lambda>es. retM (outlets_of es))"

definition get_power_status_vbox :: "'d pexpect \<Rightarrow> ('d, string option) sess" where
  "get_power_status_vbox X =
     bindM (vbox_outlets X) (\<lambda>es.
     bindM (optM ''--plug'') (\<lambda>v.
     let plug = py_str v in
     case map_of es plug of
       Some (_, status) \<Rightarrow> retM (Some status)
     | None \<Rightarrow> (case filter (\<lambda>(_, uuid, _). uuid = plug) es of
         (_, _, status) # _ \<Rightarrow> retM (Some status)
       | [] \<Rightarrow> bindM (hasoptM ''--missing-as-off'') (\<lambda>missing.
           if missing then retM (Some ''off'')
           else seqM (fail_usage ''Failed: You have to enter existing name/UUID of virtual machine!'' True) (retM None)))))"

definition set_power_status_vbox :: "'d pexpect \<Rightarrow> ('d, unit) sess" where
  "set_power_status_vbox X =
     bindM is_on (\<lambda>on.
     bindM (showoptM ''--plug'') (\<lambda>plug.
     seqM (invoke X (if on then [''startvm'', ''\"'' @ plug @ ''\"'', ''--type'', ''headless'']
                     else [''controlvm'', ''\"'' @ plug @ ''\"'', ''poweroff'']))
          (retM ())))"

definition fns_vbox :: "'d pexpect \<Rightarrow> 'd session power_fns" where
  "fns_vbox X = \<lparr>set_power_fn = Some (set_power_status_vbox X), get_power_fn = Some (get_power_status_vbox X),
     get_outlet_list = Some (get_outlets_status_vbox X), reboot_cycle_fn = None, sync_set_power_fn = None\<rparr>"

definition new_opts_vbox :: "(string \<times> optdef) list" where
  "new_opts_vbox =
    [(''vboxmanage_path'', \<lparr>o_getopt = '':'', o_longopt = Some ''vboxmanage-path'',
        o_help = ''--vboxmanage-path=[path]  Path to VBoxManage on the host'',
        o_required = Some ''0'', o_shortdesc = Some ''Path to VBoxManage on the host'',
        o_type = None, o_default = Some (PStr ''VBoxManage''), o_choices = None, o_order = 200\<rparr>),
     (''host_os'', \<lparr>o_getopt = '':'', o_longopt = Some ''host-os'',
        o_help = ''--host-os=[os]  Operating system of the host'',
        o_required = Some ''0'', o_shortdesc = Some ''Operating system of the host'',
        o_type = None, o_default = Some (PStr ''linux''), o_choices = Some [''linux'', ''macos'', ''windows''], o_order = 200\<rparr>)]"

definition device_opt_vbox :: "string list" where
  "device_opt_vbox = [''ipaddr'', ''login'', ''passwd'', ''cmd_prompt'', ''secure'', ''port'', ''sudo'', ''missing_as_off'', ''vboxmanage_path'', ''host_os'']"

definition docs_vbox :: docs where
  "docs_vbox = \<lparr>agent_name = None, shortdesc = ''Fence agent for VirtualBox'',
     longdesc = ''fence_vbox is a Power Fencing agent which can be used with the virtual machines managed by VirtualBox. It logs via ssh to a dom0 where it runs VBoxManage to do all of the work. '' @ nl @ ''.P'' @ nl @ ''By default, vbox needs to log in as a user that is a member of the vboxusers group. Also, you must allow ssh login in your sshd_config.'',
     vendorurl = Some ''https://www.virtualbox.org/'', symlink = []\<rparr>"

definition vbox_host :: "unit lib" where
  \<comment> \<open>what the system of the host decides\<close>
  "vbox_host =
     seqM (setoptM ''logout_string'' (PStr ''quit''))
    (bindM (getM opts) (\<lambda>od.
       if od ''--vboxmanage-path'' = None then
         (if od ''--host-os'' = Some (PStr ''linux'') then setoptM ''--vboxmanage-path'' (PStr ''VBoxManage'')
          else if od ''--host-os'' = Some (PStr ''macos'') then
            seqM (setoptM ''--vboxmanage-path'' (PStr ''/Applications/VirtualBox.app/Contents/MacOS/VBoxManage''))
                 (setoptM ''logout_string'' (PStr ''exit''))
          else if od ''--host-os'' = Some (PStr ''windows'') then
            seqM (setoptM ''--vboxmanage-path'' (PStr ''\"/Program Files/Oracle/VirtualBox/VBoxManage.exe''))
           (seqM (setoptM ''--command-prompt'' (PStr []))
                 (setoptM ''--ssh-options'' (PStr [])))
          else retM ())
       else retM ()))"

definition main_vbox where
  "main_vbox X set_order time_start fuel =
     seqM (on_lib (add_opts new_opts_vbox))
    (seqM (on_lib (set_default ''secure'' (PStr ''1'')))
    (seqM (on_lib (set_default ''cmd_prompt'' expect_prompts))
    (seqM (on_lib (set_default ''ssh_options'' (bash_options ''HISTFILE=/dev/null '')))
    (seqM (on_lib (read_options_with device_opt_vbox vbox_host))
    (bindM (stroptM ''logout_string'') (\<lambda>logout_string.
     seqM (setoptM ''eol'' (PStr nl))
          (agent_session set_order docs_vbox X time_start fuel (fns_vbox X) logout_string)))))))"

section \<open>Sun LDOM\<close>

definition COMMAND_PROMPT_REG :: pat where
  "COMMAND_PROMPT_REG = Txt (bs @ ''[PEXPECT'' @ bs @ '']$'')"

definition COMMAND_PROMPT_NEW :: string where
  "COMMAND_PROMPT_NEW = ''[PEXPECT]''"

definition start_communication :: "'d pexpect \<Rightarrow> ('d, unit) sess" where
  \<comment> \<open>set the prompt, in the way of sh and then in the way of csh\<close>
  "start_communication X =
     seqM (send_eol X (''PS1='' @ [CHR 0x27] @ COMMAND_PROMPT_NEW @ [CHR 0x27]))
    (bindM (intoptM ''--shell-timeout'') (\<lambda>t.
     bindM (expect_for X [PatTIMEOUT, COMMAND_PROMPT_REG] (Some t)) (\<lambda>res.
       if res = 0 then
         seqM (send_eol X (''set prompt='' @ [CHR 0x27] @ COMMAND_PROMPT_NEW @ [CHR 0x27]))
        (seqM (expect_opt X [COMMAND_PROMPT_REG] ''--shell-timeout'') (retM ()))
       else retM ())))"

definition ldom_line_re :: re where
  "ldom_line_re = Seq Bol (Seq (Grp 1 (Plus NonSpc)) (Seq (Plus Spc) (Seq (Grp 2 (Plus NonSpc)) (Seq (Plus Spc)
     (Seq (Star Any) Eos)))))"

definition ldom_line :: "string \<Rightarrow> bool \<times> entries \<Rightarrow> bool \<times> entries" where
  "ldom_line line st = (case re_search ldom_line_re line of
      None \<Rightarrow> st
    | Some m \<Rightarrow> (case st of (seen, d) \<Rightarrow>
        if \<not> seen \<and> group 1 m = ''NAME'' \<and> group 2 m = ''STATE'' then (True, d)
        else if seen then (True, AList.update (group 1 m) ([], if py_lower (group 2 m) = ''bound'' then ''off'' else ''on'') d)
        else (seen, d)))"

definition get_power_status_ldom :: "'d pexpect \<Rightarrow> ('d, dual) sess" where
  "get_power_status_ldom X =
     seqM (start_communication X)
    (seqM (send_eol X ''ldm ls'')
    (seqM (expect_opt X [COMMAND_PROMPT_REG] ''--shell-timeout'')
    (bindM (sessM conn_before) (\<lambda>text.
     let es = snd (fold ldom_line (py_splitlines text) (False, [])) in
     bindM is_listing (\<lambda>listing.
       if listing then retM (IsOutlets es)
       else bindM (optM ''--plug'') (\<lambda>v. case map_of es (py_str v) of
           None \<Rightarrow> seqM (fail_usage ''Failed: You have to enter existing logical domain!'' True) (retM (IsStatus []))
         | Some (_, status) \<Rightarrow> retM (IsStatus status)))))))"

definition set_power_status_ldom :: "'d pexpect \<Rightarrow> ('d, unit) sess" where
  "set_power_status_ldom X =
     seqM (start_communication X)
    (bindM is_on (\<lambda>on.
     bindM (stroptM ''--plug'') (\<lambda>plug.
     seqM (send_eol X (''ldm '' @ (if on then ''start'' else ''stop -f'') @ '' \"'' @ plug @ ''\"''))
    (seqM (expect_opt X [COMMAND_PROMPT_REG] ''--power-timeout'') (retM ())))))"

definition fns_ldom :: "'d pexpect \<Rightarrow> 'd session power_fns" where
  "fns_ldom X = \<lparr>set_power_fn = Some (set_power_status_ldom X), get_power_fn = Some (as_status (get_power_status_ldom X)),
     get_outlet_list = Some (as_outlets (get_power_status_ldom X)), reboot_cycle_fn = None, sync_set_power_fn = None\<rparr>"

definition device_opt_ldom :: "string list" where
  "device_opt_ldom = [''ipaddr'', ''login'', ''passwd'', ''cmd_prompt'', ''secure'', ''port'']"

definition docs_ldom :: docs where
  "docs_ldom = \<lparr>agent_name = None, shortdesc = ''Fence agent for Sun LDOM'',
     longdesc = ''fence_ldom is a Power Fencing agent which can be used with LDoms virtual machines. This agent works so, that run ldm command on host machine. So ldm must be directly runnable.'' @ nl @ ''.P'' @ nl @ ''Very useful parameter is -c (or cmd_prompt in stdin mode). This must be set to something, what is displayed after successful login to host machine. Default string is space on end of string (default for root in bash). But (for example) csh use ], so in that case you must use parameter -c with argument ]. Very similar situation is, if you use bash and login to host machine with other user than root. Than prompt is $, so again, you must use parameter -c.'',
     vendorurl = Some ''http://www.sun.com'', symlink = []\<rparr>"

definition main_ldom where
  "main_ldom X set_order time_start fuel =
     seqM (on_lib (set_default ''secure'' (PStr ''1'')))
    (seqM (on_lib (set_default ''cmd_prompt'' (PList [bs @ '' $''])))
    (seqM (on_lib (read_options device_opt_ldom False))
          (agent_session set_order docs_ldom X time_start fuel (fns_ldom X) ''logout'')))"

section \<open>IBM LPAR\<close>

definition normalize_status :: "string \<Rightarrow> string" where
  "normalize_status status =
     (if status \<in> {''Running'', ''Open Firmware'', ''Shutting Down'', ''Starting''} then ''on'' else ''off'')"

definition AnyS :: re where
  \<comment> \<open>a dot with DOTALL\<close>
  "AnyS = Cls (\<lambda>_. True)"

definition hmc_version :: "('w, string) prog" where
  "hmc_version = bindM (optM ''--hmc-version'') (\<lambda>v. retM (case v of PStr t \<Rightarrow> t | _ \<Rightarrow> []))"

definition hmc_command :: "'d pexpect \<Rightarrow> string \<Rightarrow> ('d, string) sess" where
  \<comment> \<open>send a command, drop its echo, wait for the prompt\<close>
  "hmc_command X line =
     seqM (send X (line @ nl))
    (seqM (readline X)
    (seqM (expect_prompt X ''--power-timeout'') (sessM conn_before)))"

definition PastedI :: "string \<Rightarrow> re" where
  \<comment> \<open>text pasted into a pattern with IGNORECASE; the metacharacters other than the dot are not covered\<close>
  "PastedI t = foldr (\<lambda>c. Seq (if c = CHR ''.'' then Any else Cls (\<lambda>x. lower_char x = lower_char c))) t Emp"

definition hmc3_re :: "string \<Rightarrow> re" where
  "hmc3_re plug = Seq Bol (Seq (PastedI plug) (Seq (Lit '','') (Seq (Grp 1 (LStar Any)) (Seq (Lit '','') (Seq (Star Any) Eol)))))"

definition field_re :: "string \<Rightarrow> re" where
  \<comment> \<open>the value of a field in a list separated by commas\<close>
  "field_re name = Seq (LitI ('','' @ name @ ''='')) (Seq (Grp 1 (LStar Any)) (Lit '',''))"

definition get_power_status_lpar :: "'d pexpect \<Rightarrow> ('d, string option) sess" where
  "get_power_status_lpar X =
     bindM hmc_version (\<lambda>version.
     seqM (if version \<in> {''3'', ''4'', ''IVM''} then retM () else fail EC_STATUS_HMC True)
    (bindM (stroptM ''--managed'') (\<lambda>managed.
     bindM (stroptM ''--plug'') (\<lambda>plug.
     bindM (hmc_command X (if version = ''3'' then ''lssyscfg -r lpar -m '' @ managed @ '' -n '' @ plug @ '' -F name,state''
                           else ''lssyscfg -r lpar -m '' @ managed @ '' --filter '' @ [CHR 0x27] @ ''lpar_names='' @ plug @ [CHR 0x27])) (\<lambda>text.
     bindM (tryM (liftM (match_group (if version = ''3'' then hmc3_re plug else field_re ''state'') 1 text))
             (\<lambda>e. case e of AttributeError _ \<Rightarrow> Some (seqM (fail EC_STATUS_HMC True) (retM [])) | _ \<Rightarrow> None)) (\<lambda>status.
       retM (Some (normalize_status status))))))))"

definition is_comanaged :: "'d pexpect \<Rightarrow> ('d, bool) sess" where
  \<comment> \<open>an empty value counts as false\<close>
  "is_comanaged X =
     bindM (stroptM ''--managed'') (\<lambda>managed.
     bindM (hmc_command X (''lscomgmt -m '' @ managed)) (\<lambda>text.
       retM (case search_group (field_re ''curr_master_mtms'') text of None \<Rightarrow> False | Some cm \<Rightarrow> cm \<noteq> [])))"

definition set_power_status_lpar :: "'d pexpect \<Rightarrow> ('d, unit) sess" where
  "set_power_status_lpar X =
     bindM hmc_version (\<lambda>version.
       if version = ''3'' then
         bindM (stroptM ''--action'') (\<lambda>action.
         bindM (stroptM ''--managed'') (\<lambda>managed.
         bindM (stroptM ''--plug'') (\<lambda>plug.
         seqM (hmc_command X (''chsysstate -o '' @ action @ '' -r lpar -m '' @ managed @ '' -n '' @ plug)) (retM ()))))
       else if version \<in> {''4'', ''IVM''} then
         bindM is_on (\<lambda>on.
         bindM (if on then is_comanaged X else retM False) (\<lambda>comanaged.
         bindM (stroptM ''--managed'') (\<lambda>managed.
         bindM (stroptM ''--plug'') (\<lambda>plug.
         seqM (hmc_command X
                (if on then ''chsysstate -o on -r lpar -m '' @ managed @ '' -n '' @ plug
                   @ (if comanaged then []
                      else '' -f `lssyscfg -r lpar -F curr_profile  -m '' @ managed @ '' --filter \"lpar_names='' @ plug @ ''\"`'')
                 else ''chsysstate -o shutdown -r lpar --immed -m '' @ managed @ '' -n '' @ plug))
              (retM ())))))
       else retM ())"

definition first_lines_re :: re where
  \<comment> \<open>two lines of header, the names, the line of the new prompt; without MULTILINE it is matched at the
    start of the text only\<close>
  "first_lines_re = (let header = Seq AnyS (Seq (LStar AnyS) (Lit nl)) in
     Seq header (Seq header (Seq (Grp 2 (Star AnyS)) (Seq (Lit nl) (Seq (Star AnyS) Eos)))))"

definition all_but_last_re :: re where
  "all_but_last_re = Seq (Grp 1 (Star AnyS)) (Seq (Lit nl) (Seq (Star AnyS) Eos))"

definition list_text :: "re \<Rightarrow> nat \<Rightarrow> string \<Rightarrow> ('w, string list) prog" where
  "list_text r n text = (case re_at r None text of
      None \<Rightarrow> seqM (fail_usage ''Unable to parse output of list command'' True) (retM [])
    | Some m \<Rightarrow> retM (py_split nl (group n m)))"

definition get_lpar_list :: "'d pexpect \<Rightarrow> ('d, outlet list) sess" where
  "get_lpar_list X =
     bindM hmc_version (\<lambda>version.
       if version = ''3'' then
         bindM (stroptM ''--managed'') (\<lambda>managed.
         bindM (hmc_command X (''query_partition_names -m '' @ managed)) (\<lambda>text.
         bindM (list_text first_lines_re 2 text) (\<lambda>ls.
           retM (outlets_of (fold (\<lambda>line d. AList.update (py_rstrip line) ([], []) d) ls [])))))
       else if version \<in> {''4'', ''IVM''} then
         let sep = (if version = ''4'' then '':'' else '','') in
         bindM (stroptM ''--managed'') (\<lambda>managed.
         bindM (hmc_command X (''lssyscfg -r lpar -m '' @ managed @ '' -F name'' @ sep @ ''state'')) (\<lambda>text.
         bindM (list_text all_but_last_re 1 text) (\<lambda>ls.
         bindM (foldM (\<lambda>d line. case py_split sep (py_rstrip line) of
             [port, status] \<Rightarrow> retM (AList.update port ([], normalize_status status) d)
           | _ \<Rightarrow> seqM (fail_usage ''Output does not match expected HMC version, try different one'' True) (retM d)) [] ls)
           (\<lambda>d. retM (outlets_of d)))))
       else retM [])"

definition fns_lpar :: "'d pexpect \<Rightarrow> 'd session power_fns" where
  "fns_lpar X = \<lparr>set_power_fn = Some (set_power_status_lpar X), get_power_fn = Some (get_power_status_lpar X),
     get_outlet_list = Some (get_lpar_list X), reboot_cycle_fn = None, sync_set_power_fn = None\<rparr>"

definition new_opts_lpar :: "(string \<times> optdef) list" where
  "new_opts_lpar =
    [(''managed'', \<lparr>o_getopt = ''s:'', o_longopt = Some ''managed'',
        o_help = ''-s, --managed=[id]             Name of the managed system'',
        o_required = Some ''1'', o_shortdesc = Some ''Managed system name'',
        o_type = None, o_default = None, o_choices = None, o_order = 1\<rparr>),
     (''hmc_version'', \<lparr>o_getopt = ''H:'', o_longopt = Some ''hmc-version'',
        o_help = ''-H, --hmc-version=[version]    Force HMC version to use: (3|4|ivm) (default: 4)'',
        o_required = Some ''0'', o_shortdesc = Some ''Force HMC version to use'',
        o_type = None, o_default = Some (PStr ''4''), o_choices = Some [''3'', ''4'', ''ivm''], o_order = 1\<rparr>)]"

definition device_opt_lpar :: "string list" where
  "device_opt_lpar = [''ipaddr'', ''login'', ''passwd'', ''secure'', ''cmd_prompt'', ''port'', ''managed'', ''hmc_version'']"

definition docs_lpar :: docs where
  "docs_lpar = \<lparr>agent_name = None, shortdesc = ''Fence agent for IBM LPAR'',
     longdesc = ''fence_lpar is a Power Fencing agent for IBM LPAR.'',
     vendorurl = Some ''http://www.ibm.com'', symlink = []\<rparr>"

definition main_lpar where
  "main_lpar X set_order time_start fuel =
     seqM (on_lib (add_opts new_opts_lpar))
    (seqM (on_lib (set_default ''login_timeout'' (PStr ''15'')))
    (seqM (on_lib (set_default ''secure'' (PStr ''1'')))
    (seqM (on_lib (set_default ''cmd_prompt'' (PList ['':~>'', '']'' @ bs @ ''$'', bs @ ''$ ''])))
    (seqM (on_lib (read_options device_opt_lpar True))
    (seqM (on_lib (show_docs set_order (Some docs_lpar)))
    (bindM (hasoptM ''--managed'') (\<lambda>given.
     seqM (if given then retM () else fail_usage ''Failed: You have to enter name of managed system'' True)
    (bindM (optM ''--action'') (\<lambda>action.
     seqM (if action = PStr ''validate-all'' then exitM 0 else retM ())
          (on_dev (operate X time_start default_login (retM ()) (fence_action fuel (fns_lpar X)) (''quit'' @ cr @ nl))))))))))))"

end
