(* ===== verification/Switch_Agents.thy ===== *)
theory Switch_Agents
  imports Blade_Agents
begin

text \<open>
  Agents for switches and power strips with a command line:
  \<open>agents/brocade/fence_brocade.py\<close>, \<open>agents/sanbox2/fence_sanbox2.py\<close>,
  \<open>agents/cyberpower_ssh/fence_cyberpower_ssh.py\<close>, \<open>agents/netio/fence_netio.py\<close>,
  \<open>agents/raritan/fence_raritan.py\<close> and \<open>agents/cdu/fence_cdu.py\<close>.
\<close>

definition word_at :: "nat \<Rightarrow> string \<Rightarrow> string outcome" where
  \<comment> \<open>\<open>s.split()[n]\<close>\<close>
  "word_at n s = (if n < length (py_words s) then Ret (py_words s ! n) else Raise (IndexError ''list index out of range''))"

definition lookup :: "(string \<times> 'a) list \<Rightarrow> string \<Rightarrow> 'a outcome" where
  \<comment> \<open>\<open>{...}[k]\<close>\<close>
  "lookup table k = (case map_of table k of None \<Rightarrow> Raise (KeyError k) | Some x \<Rightarrow> Ret x)"

section \<open>HP Brocade\<close>

definition brocade_line :: "bool \<times> entries \<Rightarrow> string \<Rightarrow> ('w, bool \<times> entries) prog" where
  \<comment> \<open>a line behind the header that has no first character raises\<close>
  "brocade_line st line = (case st of (in_index, d) \<Rightarrow>
     if py_in ''========='' line then retM (True, d)
     else if in_index then
       (case dropWhile is_space line of
          [] \<Rightarrow> raiseM (IndexError ''string index out of range'')
        | c # cs \<Rightarrow>
            if is_digit c then
              let tokens = py_words (c # cs);
                  status = (if length tokens > 7 \<and> tokens ! 7 = ''Disabled'' then ''off'' else ''on'')
              in retM (True, AList.update (hd tokens) ([], status) d)
            else retM (in_index, d))
     else retM (in_index, d))"

definition get_power_status_brocade :: "'d pexpect \<Rightarrow> ('d, dual) sess" where
  "get_power_status_brocade X =
     bindM (command X ''switchshow'' ''--power-timeout'') (\<lambda>text.
     bindM (foldM brocade_line (False, []) (py_split nl text)) (\<lambda>st.
     bindM is_listing (\<lambda>listing.
       if listing then retM (IsOutlets (snd st))
       else bindM (plug_entry (snd st)) (\<lambda>(_, status). retM (IsStatus status)))))"

definition set_power_status_brocade :: "'d pexpect \<Rightarrow> ('d, unit) sess" where
  "set_power_status_brocade X =
     bindM (by_action [(''on'', ''portCfgPersistentEnable''), (''off'', ''portCfgPersistentDisable'')]) (\<lambda>action.
     bindM (stroptM ''--plug'') (\<lambda>plug.
     seqM (command X (action @ '' '' @ plug) ''--power-timeout'') (retM ())))"

definition fns_brocade :: "'d pexpect \<Rightarrow> 'd session power_fns" where
  "fns_brocade X = \<lparr>set_power_fn = Some (set_power_status_brocade X),
     get_power_fn = Some (as_status (get_power_status_brocade X)),
     get_outlet_list = Some (as_outlets (get_power_status_brocade X)), reboot_cycle_fn = None, sync_set_power_fn = None\<rparr>"

definition device_opt_brocade :: "string list" where
  "device_opt_brocade = [''ipaddr'', ''login'', ''passwd'', ''cmd_prompt'', ''secure'', ''port'', ''fabric_fencing'', ''telnet'']"

definition docs_brocade :: docs where
  "docs_brocade = \<lparr>agent_name = None, shortdesc = ''Fence agent for HP Brocade over telnet/ssh'',
     longdesc = ''fence_brocade is an I/O Fencing agent which can be used with Brocade FC switches. It logs into a Brocade switch via telnet and disables a specified port. Disabling the port which a machine is connected to effectively fences that machine. Lengthy telnet connections to the switch should be avoided  while a GFS cluster is running because the connection will block any necessary fencing actions. After  a fence operation has taken place the fenced machine can no longer connect to the Brocade FC switch.  When the fenced machine is ready to be brought back into the GFS cluster (after reboot) the port on the Brocade FC switch needs to be enabled. This can be done by running fence_brocade and specifying the enable action'',
     vendorurl = Some ''http://www.brocade.com'', symlink = []\<rparr>"

definition main_brocade where
  "main_brocade X set_order time_start fuel =
     seqM (on_lib (set_default ''cmd_prompt'' (PList [''> ''])))
    (seqM (on_lib (read_options device_opt_brocade False))
    (seqM (setoptM ''eol'' (PStr nl))
          (agent_session set_order docs_brocade X time_start fuel (fns_brocade X) ''exit'')))"

section \<open>QLogic SANBox2\<close>

definition leave_admin :: "'d pexpect \<Rightarrow> string \<Rightarrow> ('d, unit) sess" where
  "leave_admin X last_line = seqM (send_eol X ''admin end'') (seqM (send_eol X last_line) (close_conn X))"

definition sanbox_timeout :: "'d pexpect \<Rightarrow> ('d, unit) sess" where
  \<comment> \<open>what follows a \<open>pexpect.TIMEOUT\<close>\<close>
  "sanbox_timeout X =
     seqM (tryM (leave_admin X ''exit'') (\<lambda>e. Some (logM (''Failed: '' @ exn_text e))))
          (fail EC_TIMED_OUT True)"

definition sanbox_say :: "'d pexpect \<Rightarrow> string \<Rightarrow> string \<Rightarrow> ('d, unit) sess" where
  "sanbox_say X line k =
     tryM (seqM (send_eol X line) (seqM (expect_prompt X k) (retM ())))
       (\<lambda>e. case e of PexpectTIMEOUT \<Rightarrow> Some (sanbox_timeout X) | _ \<Rightarrow> None)"

definition admin_state_re :: re where
  "admin_state_re = Seq (Star Any) (Seq (LitI ''AdminState'') (Seq (Plus Spc)
     (Seq (Grp 1 (Alt (LitI ''online'') (LitI ''offline''))) (Plus Spc))))"

definition get_power_status_sanbox2 :: "'d pexpect \<Rightarrow> ('d, string option) sess" where
  "get_power_status_sanbox2 X =
     bindM (stroptM ''--plug'') (\<lambda>plug.
     seqM (sanbox_say X (''show port '' @ plug) ''--shell-timeout'')
    (bindM (sessM conn_before) (\<lambda>text.
     bindM (liftM (match_group admin_state_re 1 text)) (\<lambda>status.
       retM (Some (case map_of [(''online'', ''on''), (''offline'', ''off'')] (py_strip (py_lower status)) of
           Some t \<Rightarrow> t
         | None \<Rightarrow> ''PROBLEM''))))))"

definition set_power_status_sanbox2 :: "'d pexpect \<Rightarrow> ('d, unit) sess" where
  \<comment> \<open>the command is given twice\<close>
  "set_power_status_sanbox2 X =
     bindM (by_action [(''on'', ''online''), (''off'', ''offline'')]) (\<lambda>action.
     bindM (stroptM ''--plug'') (\<lambda>plug.
     seqM (sanbox_say X (''set port '' @ plug @ '' state '' @ action) ''--power-timeout'')
          (sanbox_say X (''set port '' @ plug @ '' state '' @ action) ''--power-timeout'')))"

definition port_line_re :: re where
  "port_line_re = Seq Bol (Seq (Plus Spc) (Seq (Grp 1 (Seq Dig (LStar Dig))) (Seq (Plus Spc)
     (Seq (Grp 2 (Alt (LitI ''Online'') (LitI ''Offline''))) (Plus Spc)))))"

definition get_list_devices_sanbox2 :: "'d pexpect \<Rightarrow> ('d, outlet list) sess" where
  "get_list_devices_sanbox2 X =
     seqM (sanbox_say X ''show port'' ''--shell-timeout'')
    (bindM (sessM conn_before) (\<lambda>text.
       retM (outlets_of (collect_lines port_line_re
         (\<lambda>m. (group 1 m, [], if py_lower (group 2 m) = ''online'' then ''ON'' else ''OFF'')) (py_splitlines text)))))"

definition fns_sanbox2 :: "'d pexpect \<Rightarrow> 'd session power_fns" where
  "fns_sanbox2 X = \<lparr>set_power_fn = Some (set_power_status_sanbox2 X), get_power_fn = Some (get_power_status_sanbox2 X),
     get_outlet_list = Some (get_list_devices_sanbox2 X), reboot_cycle_fn = None, sync_set_power_fn = None\<rparr>"

definition device_opt_sanbox2 :: "string list" where
  "device_opt_sanbox2 = [''fabric_fencing'', ''ipaddr'', ''login'', ''passwd'', ''cmd_prompt'', ''port'', ''telnet'']"

definition docs_sanbox2 :: docs where
  "docs_sanbox2 = \<lparr>agent_name = None, shortdesc = ''Fence agent for QLogic SANBox2 FC switches'',
     longdesc = ''fence_sanbox2 is an I/O Fencing agent which can be used with QLogic SANBox2 FC switches.  It logs into a SANBox2 switch via telnet and disables a specified port. Disabling  the port which a machine is connected to effectively fences that machine. Lengthy telnet connections to the switch should be avoided while a GFS cluster is running because the connection will block any necessary fencing actions.'',
     vendorurl = Some ''http://www.qlogic.com'', symlink = []\<rparr>"

definition enter_admin :: "'d pexpect \<Rightarrow> ('d, unit) sess" where
  "enter_admin X = bindM (command X ''admin start'' ''--shell-timeout'') (\<lambda>text.
     if py_in ''(admin)'' text then retM ()
     else seqM (logM (''Failed: Unable to switch to admin section'' @ nl)) (exitM EC_GENERIC_ERROR))"

definition main_sanbox2 where
  "main_sanbox2 X set_order time_start fuel =
     seqM (on_lib (set_default ''cmd_prompt'' (PList ['' #> ''])))
    (seqM (on_lib (read_options device_opt_sanbox2 False))
    (seqM (on_lib (show_docs set_order (Some docs_sanbox2)))
    (on_dev
      (seqM (fence_login X time_start default_login)
      (seqM (enter_admin X)
      (bindM (fence_action fuel (fns_sanbox2 X)) (\<lambda>result.
       seqM (tryM (leave_admin X (''exit'' @ nl)) (\<lambda>e. case e of
           OSErr _ \<Rightarrow> Some (retM ())
         | PexpectError _ \<Rightarrow> Some (retM ())
         | PexpectEOF \<Rightarrow> Some (retM ())
         | PexpectTIMEOUT \<Rightarrow> Some (retM ())
         | _ \<Rightarrow> None))
       (exitM result))))))))"

section \<open>CyberPower over ssh\<close>

definition cyberpower_re :: re where
  "cyberpower_re = Seq (Grp 1 (Star Spc)) (Seq (Grp 2 Dig) (Seq (Star Spc) (Seq (Grp 3 (Star Any)) (Seq (Star Spc)
     (Seq (Grp 4 (Alt (Lit ''On'') (Lit ''Off''))) (Star Spc))))))"

definition get_power_status_cyberpower :: "'d pexpect \<Rightarrow> ('d, dual) sess" where
  "get_power_status_cyberpower X =
     bindM (command X ''oltsta show'' ''--shell-timeout'') (\<lambda>text.
       status_or_list False (collect_lines cyberpower_re (\<lambda>m. (group 2 m, group 3 m, group 4 m)) (py_split nl text)))"

definition set_power_status_cyberpower :: "'d pexpect \<Rightarrow> ('d, unit) sess" where
  "set_power_status_cyberpower X =
     bindM (stroptM ''--plug'') (\<lambda>plug.
     bindM (stroptM ''--action'') (\<lambda>action.
     seqM (command X (''oltctrl index '' @ plug @ '' act delay'' @ action) ''--shell-timeout'') (retM ())))"

definition fns_cyberpower :: "'d pexpect \<Rightarrow> 'd session power_fns" where
  "fns_cyberpower X = \<lparr>set_power_fn = Some (set_power_status_cyberpower X),
     get_power_fn = Some (as_status (get_power_status_cyberpower X)),
     get_outlet_list = Some (as_outlets (get_power_status_cyberpower X)), reboot_cycle_fn = None, sync_set_power_fn = None\<rparr>"

definition device_opt_cyberpower :: "string list" where
  "device_opt_cyberpower = [''ipaddr'', ''login'', ''passwd'', ''cmd_prompt'', ''secure'', ''port'']"

definition docs_cyberpower :: docs where
  "docs_cyberpower = \<lparr>agent_name = None, shortdesc = ''Fence agent for CyberPower over ssh'',
     longdesc = ''fence_cyberpower_ssh is a Power Fencing agent which can be used with the CyberPower network power switch. It logs into device via ssh and reboots a specified outlet. Lengthy ssh connections should be avoided while a GFS cluster is running because the connection will block any necessary fencing actions.'',
     vendorurl = Some ''http://www.cyberpower.com'', symlink = []\<rparr>"

definition main_cyberpower where
  "main_cyberpower X set_order time_start fuel =
     seqM (on_lib (set_default ''cmd_prompt'' (PList [nl @ ''>'', nl @ ''CyberPower >''])))
    (seqM (on_lib (read_options device_opt_cyberpower False))
          (agent_session set_order docs_cyberpower X time_start fuel (fns_cyberpower X) ''exit''))"

section \<open>NETIO and Raritan: a telnet login of their own\<close>

definition open_telnet :: "'d pexpect \<Rightarrow> ('d, unit) sess" where
  \<comment> \<open>start telnet and connect, then read what is there\<close>
  "open_telnet X =
     bindM (stroptM ''--telnet-path'') (\<lambda>path.
     seqM (fspawn X path)
    (seqM (send X (''set binary'' @ nl))
    (bindM (showoptM ''--ip'') (\<lambda>ip.
     bindM (showoptM ''--ipport'') (\<lambda>port.
     seqM (send X (''open '' @ ip @ '' -'' @ port @ nl))
    (bindM (intoptM ''--shell-timeout'') (\<lambda>t.
     seqM (read_nonblocking X t) (retM ()))))))))"

definition get_power_status_netio :: "'d pexpect \<Rightarrow> ('d, string option) sess" where
  "get_power_status_netio X =
     bindM (showoptM ''--plug'') (\<lambda>plug.
     seqM (send_eol X (''port '' @ plug))
    (seqM (expect_opt X [Rx ''250 [01imt]''] ''--shell-timeout'')
    (bindM afterM (\<lambda>after.
     bindM (liftM (word_at 1 after)) (\<lambda>w.
     bindM (liftM (lookup [(''0'', ''off''), (''1'', ''on''), (''i'', ''reboot''), (''m'', ''manual''), (''t'', ''timer'')] w))
       (\<lambda>status. retM (Some status)))))))"

definition set_power_status_netio :: "'d pexpect \<Rightarrow> ('d, unit) sess" where
  "set_power_status_netio X =
     bindM (by_action [(''on'', ''1''), (''off'', ''0''), (''reboot'', ''i'')]) (\<lambda>action.
     bindM (showoptM ''--plug'') (\<lambda>plug.
     seqM (send_eol X (''port '' @ plug @ '' '' @ action))
    (seqM (expect_opt X [Txt ''250 OK''] ''--shell-timeout'') (retM ()))))"

definition netio_name :: "'d pexpect \<Rightarrow> string \<Rightarrow> ('d, string) sess" where
  \<comment> \<open>the name of an outlet without its quotes\<close>
  "netio_name X plug =
     seqM (send_eol X (''port setup '' @ plug))
    (seqM (expect_opt X [Txt ''250 .+''] ''--shell-timeout'')
    (bindM afterM (\<lambda>after. bindM (liftM (word_at 1 after)) (\<lambda>w. retM (butlast (tl w))))))"

fun netio_names :: "'d pexpect \<Rightarrow> string list \<Rightarrow> entries \<Rightarrow> ('d, entries) sess" where
  \<comment> \<open>an exception is printed and ends the loop\<close>
  "netio_names X [] result = retM result"
| "netio_names X (plug # plugs) result =
     bindM (tryM (bindM (netio_name X plug) (\<lambda>name. retM (Some name)))
                 (\<lambda>e. Some (seqM (printM (exn_text e)) (retM None)))) (\<lambda>r.
       case r of
         None \<Rightarrow> retM result
       | Some name \<Rightarrow> netio_names X plugs (AList.update plug (name, ''unknown'') result))"

definition get_outlet_list_netio :: "'d pexpect \<Rightarrow> ('d, outlet list) sess" where
  "get_outlet_list_netio X = bindM (netio_names X [''1'', ''2'', ''3'', ''4''] []) (\<lambda>es. retM (outlets_of es))"

definition fns_netio :: "'d pexpect \<Rightarrow> 'd session power_fns" where
  "fns_netio X = \<lparr>set_power_fn = Some (set_power_status_netio X), get_power_fn = Some (get_power_status_netio X),
     get_outlet_list = Some (get_outlet_list_netio X), reboot_cycle_fn = None, sync_set_power_fn = None\<rparr>"

definition device_opt_netio :: "string list" where
  "device_opt_netio = [''ipaddr'', ''login'', ''passwd'', ''port'', ''telnet'']"

definition docs_netio :: docs where
  "docs_netio = \<lparr>agent_name = None, shortdesc = ''Power Fencing agent for Koukaam NETIO-230B'',
     longdesc = ''fence_netio is a Power Fencing agent which can be used with the Koukaam NETIO-230B Power Distribution Unit. It logs into device via telnet and reboots a specified outlet. Lengthy telnet connections should be avoided while a GFS cluster is running because the connection will block any necessary fencing actions.'',
     vendorurl = Some ''http://www.koukaam.se/'', symlink = []\<rparr>"

definition login_netio :: "'d pexpect \<Rightarrow> ('d, unit) sess" where
  "login_netio X =
     seqM (open_telnet X)
    (seqM (expect_opt X [Txt ''100 HELLO .*''] ''--shell-timeout'')
    (bindM (showoptM ''--username'') (\<lambda>user.
     bindM (showoptM ''--password'') (\<lambda>password.
     seqM (send_eol X (''login '' @ user @ '' '' @ password))
    (seqM (expect_opt X [Txt ''250 OK''] ''--shell-timeout'') (retM ()))))))"

definition main_netio where
  "main_netio X set_order time_start fuel =
     seqM (on_lib (set_default ''ipport'' (PStr ''1234'')))
    (seqM (on_lib (read_options_with device_opt_netio (setoptM ''eol'' (PStr (cr @ nl)))))
    (seqM (on_lib (show_docs set_order (Some docs_netio)))
    (on_dev
      (seqM (run_delay time_start 0 0)
      (seqM (tryM (login_netio X) login_denied)
      (bindM (fence_action fuel (fns_netio X)) (\<lambda>result.
       seqM (fence_logout X (''quit'' @ nl) 0) (exitM result))))))))"

definition get_power_status_raritan :: "'d pexpect \<Rightarrow> ('d, string option) sess" where
  "get_power_status_raritan X =
     bindM (showoptM ''--plug'') (\<lambda>plug.
     seqM (send_eol X (''show -d properties=powerState '' @ plug))
    (seqM (expect_opt X [Rx ''.*powerState is [12].*''] ''--shell-timeout'')
    (bindM afterM (\<lambda>after.
     bindM (liftM (word_at 2 after)) (\<lambda>w.
     bindM (liftM (lookup [(''1'', ''on''), (''2'', ''off'')] w)) (\<lambda>status. retM (Some status)))))))"

definition set_power_status_raritan :: "'d pexpect \<Rightarrow> ('d, unit) sess" where
  "set_power_status_raritan X =
     bindM (by_action [(''on'', ''on''), (''off'', ''off'')]) (\<lambda>action.
     bindM (showoptM ''--plug'') (\<lambda>plug.
       send_eol X (''set '' @ plug @ '' powerState='' @ action)))"

definition fns_raritan :: "'d pexpect \<Rightarrow> 'd session power_fns" where
  "fns_raritan X = \<lparr>set_power_fn = Some (set_power_status_raritan X), get_power_fn = Some (get_power_status_raritan X),
     get_outlet_list = None, reboot_cycle_fn = None, sync_set_power_fn = None\<rparr>"

definition device_opt_raritan :: "string list" where
  "device_opt_raritan = [''ipaddr'', ''login'', ''passwd'', ''port'', ''telnet'']"

definition docs_raritan :: docs where
  "docs_raritan = \<lparr>agent_name = None, shortdesc = ''Power Fencing agent for Raritan Dominion PX'',
     longdesc = ''fence_raritan is a Power Fencing agent which can be used with the Raritan DPXS12-20 Power Distribution Unit. It logs into device via telnet and reboots a specified outlet. Lengthy telnet connections should be avoided while a GFS cluster is running because the connection will block any necessary fencing actions.'',
     vendorurl = Some ''http://www.raritan.com/'', symlink = []\<rparr>"

definition outlet_path :: "('w, unit) prog" where
  \<comment> \<open>a plug that is a number becomes the path of the outlet\<close>
  "outlet_path =
     bindM (tryM (bindM (intoptM ''--plug'') (\<lambda>n. retM (Some n)))
             (\<lambda>e. case e of ValueError _ \<Rightarrow> Some (retM None) | _ \<Rightarrow> None)) (\<lambda>r.
       case r of
         Some n \<Rightarrow> setoptM ''--plug'' (PStr (''/system1/outlet'' @ show_int n))
       | None \<Rightarrow> retM ())"

definition login_raritan :: "'d pexpect \<Rightarrow> ('d, unit) sess" where
  "login_raritan X =
     seqM (open_telnet X)
    (seqM (expect_opt X [Txt ''Login.*''] ''--shell-timeout'')
    (bindM (showoptM ''--username'') (\<lambda>user.
     seqM (send_eol X user)
    (seqM (expect_opt X [Txt ''Password.*''] ''--shell-timeout'')
    (bindM (showoptM ''--password'') (\<lambda>password.
     seqM (send_eol X password)
    (seqM (expect_opt X [Txt ''clp.*''] ''--shell-timeout'') (retM ()))))))))"

definition main_raritan where
  "main_raritan X set_order time_start fuel =
     seqM (on_lib (read_options_with device_opt_raritan
             (seqM (set_default ''ipport'' (PStr ''23'')) (setoptM ''eol'' (PStr (cr @ nl))))))
    (seqM (on_lib (show_docs set_order (Some docs_raritan)))
    (on_dev
      (seqM (run_delay time_start 0 0)
      (seqM outlet_path
      (seqM (tryM (login_raritan X) login_denied)
      (bindM (optM ''--action'') (\<lambda>action.
       bindM (if action \<noteq> PStr ''monitor'' then fence_action fuel (fns_raritan X) else retM 0) (\<lambda>result.
       seqM (fence_logout X (''exit'' @ nl) 0) (exitM result)))))))))"

section \<open>Sentry CDU\<close>

definition on_states :: re where
  "on_states = Alt (Lit ''On'') (Alt (Lit ''Idle On'') (Alt (Lit ''Off'') (Lit ''Wake On'')))"

definition outlet_name_re :: re where
  "outlet_name_re = Alt (Plus Wrd) (Seq (Plus Wrd) (Seq (Cls (\<lambda>c. \<not> word_char c)) (Plus Wrd)))"

definition cdu_status_re :: "bool \<Rightarrow> re" where
  \<comment> \<open>for version 8 of the interface, and for the others\<close>
  "cdu_status_re v8 = (if v8
     then Seq (Grp 1 (Plus Wrd)) (Seq (Plus Spc) (Seq (Grp 2 (Plus NonSpc)) (Seq (Plus Spc) (Seq (Grp 3 on_states)
       (Seq (Plus Spc) (Grp 4 (Alt (Lit ''On'') (Lit ''Off''))))))))
     else Seq (Grp 1 (Seq (Lit ''.'') (Plus Wrd))) (Seq (Plus Spc) (Seq (Grp 2 outlet_name_re) (Seq (Plus Spc)
       (Seq (Grp 3 (Alt (Lit ''On'') (Lit ''Off''))) (Seq (Plus Spc) (Grp 4 on_states)))))))"

definition cdu_errors :: "exn \<Rightarrow> ('d, 'a) sess option" where
  \<comment> \<open>\<open>EC_CONNECTION_LOST\<close> is not imported; a timeout ends the process\<close>
  "cdu_errors e = (case e of
      PexpectEOF \<Rightarrow> Some (raiseM (OtherError ''NameError: EC_CONNECTION_LOST''))
    | PexpectTIMEOUT \<Rightarrow> Some (seqM (fail EC_TIMED_OUT True) (raiseM PexpectTIMEOUT))
    | _ \<Rightarrow> None)"

definition is_api_8 :: "('w, bool) prog" where
  "is_api_8 = bindM (optM ''api-version'') (\<lambda>v. retM (v = PStr ''8''))"

definition cdu_row :: "bool \<Rightarrow> entries \<Rightarrow> string \<Rightarrow> ('w, entries) prog" where
  \<comment> \<open>the name of every outlet is printed\<close>
  "cdu_row v8 d line = (case re_search (cdu_status_re v8) line of
      None \<Rightarrow> retM d
    | Some m \<Rightarrow> seqM (printM (group 2 m))
        (retM (AList.update (group 2 m) (group 1 m, if v8 then group 4 m else group 3 m) d)))"

definition get_power_status_cdu :: "'d pexpect \<Rightarrow> ('d, string option) sess" where
  "get_power_status_cdu X =
     bindM (tryM
       (bindM is_api_8 (\<lambda>v8.
        seqM (send X ((if v8 then ''STATUS ALL'' else ''STATUS'') @ cr @ nl))
       (seqM (expect_prompt X ''--shell-timeout'')
       (bindM (sessM conn_before) (\<lambda>text. foldM (cdu_row v8) [] (py_split nl text))))))
       cdu_errors) (\<lambda>es.
     bindM (entry_status False es) (\<lambda>status. retM (Some status)))"

definition cdu_list_re :: re where
  "cdu_list_re = Seq (Grp 1 (Plus NonSpc)) (Seq (Plus Spc) (Seq (Grp 2 outlet_name_re) (Plus Spc)))"

definition set_power_status_cdu :: "'d pexpect \<Rightarrow> ('d, unit) sess" where
  "set_power_status_cdu X =
     bindM (by_action [(''on'', ''on''), (''off'', ''off'')]) (\<lambda>action.
     tryM
       (seqM (send X (''LIST OUTLETS'' @ cr @ nl))
       (seqM (expect_prompt X ''--shell-timeout'')
       (bindM (sessM conn_before) (\<lambda>text.
        bindM (plug_entry (collect_lines cdu_list_re (\<lambda>m. (group 2 m, group 1 m)) (py_split nl text))) (\<lambda>outlet.
        seqM (send X (action @ '' '' @ outlet @ cr @ nl))
       (seqM (expect_prompt X ''--shell-timeout'') (retM ())))))))
       cdu_errors)"

definition fns_cdu :: "'d pexpect \<Rightarrow> 'd session power_fns" where
  \<comment> \<open>the function for the status is also given as the one that lists the outlets; its answer is a text\<close>
  "fns_cdu X = \<lparr>set_power_fn = Some (set_power_status_cdu X), get_power_fn = Some (get_power_status_cdu X),
     get_outlet_list = Some (seqM (get_power_status_cdu X) (raiseM (AttributeError ''keys''))),
     reboot_cycle_fn = None, sync_set_power_fn = None\<rparr>"

definition disconnect_cdu :: "'d pexpect \<Rightarrow> ('d, unit) sess" where
  "disconnect_cdu X = seqM (sendline X ''LOGOUT'') (close_conn X)"

definition at_exit :: "('d, unit) sess \<Rightarrow> ('d, unit) sess" where
  \<comment> \<open>a function registered with \<open>atexit\<close>: its exceptions are reported and dropped\<close>
  "at_exit m = tryM m (\<lambda>_. Some (retM ()))"

definition version_re :: re where
  "version_re = Seq (Lit ''Sentry Switched '') (Seq (OneOf ''PC'') (Seq (Lit ''DU Version '') (Seq (Grp 1 Dig)
     (Seq (Grp 2 (Alt (Seq Any Dig) Emp)) (Seq (Grp 3 Wrd) (Lit cr))))))"

definition get_version :: "'d pexpect \<Rightarrow> ('d, string) sess" where
  \<comment> \<open>the first digit of the version; the code reads the rest of it as well and uses it nowhere\<close>
  "get_version X =
     seqM (send X (''VERSION'' @ cr @ nl))
    (seqM (expect_prompt X ''--shell-timeout'')
    (bindM (sessM conn_before) (\<lambda>text. retM (last_match version_re (group 1) (py_split nl text) ''6''))))"

definition device_opt_cdu :: "string list" where
  "device_opt_cdu = [''ipaddr'', ''login'', ''port'', ''switch'', ''passwd'', ''telnet'']"

definition docs_cdu :: docs where
  "docs_cdu = \<lparr>agent_name = None, shortdesc = ''Fence agent for a Sentry Switch CDU over telnet'',
     longdesc = ''fence_cdu is a Power Fencing agent which can be used with the Sentry Switch CDU. It logs into the device via telnet and power'' @ [CHR 0x27] @ ''s on/off an outlet.'',
     vendorurl = Some ''http://www.servertech.com'', symlink = []\<rparr>"

definition old_plug_notation :: "('w, unit) prog" where
  \<comment> \<open>the notation switch:plug\<close>
  "old_plug_notation = bindM (getM opts) (\<lambda>od. case od ''--plug'' of
      Some (PStr p) \<Rightarrow>
        if py_find '':'' p = None then retM ()
        else (let (sw, plug) = py_split1 '':'' p in
          seqM (setoptM ''--switch'' (PStr sw)) (setoptM ''--plug'' (PStr plug)))
    | _ \<Rightarrow> retM ())"

definition main_cdu where
  "main_cdu X set_order time_start fuel =
     seqM (on_lib (read_options device_opt_cdu False))
    (seqM (setoptM ''--command-prompt'' (PStr ''Switched [PC]DU: ''))
    (seqM (on_lib (show_docs set_order (Some docs_cdu)))
    (seqM old_plug_notation
    (on_dev
      (seqM (fence_login X time_start default_login)
      (bindM (get_version X) (\<lambda>api_ver.
       seqM (setoptM ''api-version'' (PStr api_ver))
      (seqM (if api_ver = ''7'' then
               seqM (sendline X ''set option more disabled'') (seqM (expect_prompt X ''--login-timeout'') (retM ()))
             else retM ())
      (bindM (fence_action fuel (fns_cdu X)) (\<lambda>result.
       seqM (at_exit (disconnect_cdu X)) (exitM result)))))))))))"

end
