(* ===== verification/Menu_Agents.thy ===== *)
theory Menu_Agents
  imports Vm_Agents Switch_Agents
begin

text \<open>
  Agents that walk through menus or tables of a power switch: \<open>agents/apc/fence_apc.py\<close>,
  \<open>agents/eaton_ssh/fence_eaton_ssh.py\<close> and \<open>agents/wti/fence_wti.py\<close>. The menus of fence\_apc are
  shown in pages as long as the device says so; that loop runs on fuel (\<open>pages\<close>).
\<close>

section \<open>APC\<close>

definition TIMEDOUT_DELAY :: rat where
  "TIMEDOUT_DELAY = 1 / 2"

definition menu_has :: "string \<Rightarrow> string \<Rightarrow> bool" where
  \<comment> \<open>\<open>re.compile('.*t.*', re.IGNORECASE | re.S).match(text) != None\<close>; the end of the pattern always matches\<close>
  "menu_has t text \<longleftrightarrow> re_at (Seq (Star AnyS) (LitI t)) None text \<noteq> None"

definition apc_switch :: "pyval \<Rightarrow> string \<Rightarrow> ('w, bool) prog" where
  \<comment> \<open>whether the device is a MasterSwitch plus, with the number of the switch set if it is missing\<close>
  "apc_switch first text =
     (if menu_has '' MasterSwitch plus'' text then
        bindM (hasoptM ''--switch'') (\<lambda>given.
        seqM (if given then retM ()
              else if menu_has '' MasterSwitch plus 2'' text
              then fail_usage ''Failed: You have to enter physical switch number'' True
              else setoptM ''--switch'' first)
             (retM True))
      else retM False)"

definition page_patterns :: "('w, pat list) prog" where
  "page_patterns = bindM prompt_listM (\<lambda>ps. retM (Txt ''Press <ENTER>'' # ps))"

definition ctrl_c :: string where "ctrl_c = [CHR 0x03]"

definition back_to_menu :: "'d pexpect \<Rightarrow> ('d, unit) sess" where
  "back_to_menu X =
     seqM (send X ctrl_c)
    (seqM (expect_opt X [Txt ''- Logout''] ''--shell-timeout'')
    (seqM (expect_prompt X ''--shell-timeout'') (retM ())))"

definition apc_outlet_re :: re where
  "apc_outlet_re = Seq (Grp 1 (Alt Bol (Lit cr))) (Seq (Star Spc) (Seq (Grp 2 (Plus Dig)) (Seq (Lit ''- '')
     (Seq (Grp 3 (LStar Any)) (Seq (Plus Spc) (Seq (Grp 4 (Alt (Lit ''ON'') (Lit ''OFF''))) (Star Spc)))))))"

fun apc_pages :: "nat \<Rightarrow> 'd pexpect \<Rightarrow> entries \<Rightarrow> ('d, entries) sess" where
  \<comment> \<open>read pages until the prompt shows that there are no more\<close>
  "apc_pages 0 X es = runningM"
| "apc_pages (Suc n) X es =
     bindM page_patterns (\<lambda>ps.
     bindM (expect_opt X ps ''--shell-timeout'') (\<lambda>exp_result.
     bindM (sessM conn_before) (\<lambda>text.
     let es' = add_lines apc_outlet_re (\<lambda>m. (group 2 m, group 3 m, group 4 m)) (py_split nl text) es in
     seqM (sleepM TIMEDOUT_DELAY)
    (seqM (send_eol X [])
          (if exp_result \<noteq> 0 then retM es' else apc_pages n X es')))))"

definition get_power_status_apct :: "nat \<Rightarrow> 'd pexpect \<Rightarrow> ('d, dual) sess" where
  "get_power_status_apct pages X =
     bindM (command X ''1'' ''--shell-timeout'') (\<lambda>text.
     bindM (apc_switch (PStr ''1'') text) (\<lambda>master.
     seqM (if master then bindM (stroptM ''--switch'') (send_eol X)
           else if \<not> menu_has ''Outlet Management'' text
           then send_eol X (if menu_has ''Outlet Control/Configuration'' text then ''3'' else ''2'')
           else seqM (send_eol X ''2'') (seqM (expect_prompt X ''--shell-timeout'') (send_eol X ''1'')))
    (bindM (apc_pages pages X []) (\<lambda>es.
     seqM (back_to_menu X)
          (status_or_list True es)))))"

fun skip_pages :: "nat \<Rightarrow> 'd pexpect \<Rightarrow> ('d, unit) sess" where
  "skip_pages 0 X = runningM"
| "skip_pages (Suc n) X =
     bindM page_patterns (\<lambda>ps.
     bindM (expect_opt X ps ''--shell-timeout'') (\<lambda>r.
       if r = 0 then seqM (sleepM TIMEDOUT_DELAY) (seqM (send_eol X []) (skip_pages n X)) else retM ()))"

definition pick_item :: "'d pexpect \<Rightarrow> string \<Rightarrow> ('d, unit) sess" where
  \<comment> \<open>choose an item of a menu and wait for the prompt\<close>
  "pick_item X item = seqM (command X item ''--shell-timeout'') (retM ())"

definition open_outlets :: "'d pexpect \<Rightarrow> bool \<Rightarrow> string \<Rightarrow> ('d, bool) sess" where
  \<comment> \<open>from the device menu to the list of outlets; the result is \<open>admin3\<close>\<close>
  "open_outlets X master text =
     (if master then seqM (bindM (stroptM ''--switch'') (send_eol X)) (retM False)
      else if \<not> menu_has ''Outlet Management'' text
      then seqM (send_eol X (if menu_has ''Outlet Control/Configuration'' text then ''3'' else ''2'')) (retM False)
      else bindM (command X ''2'' ''--shell-timeout'') (\<lambda>menu.
           seqM (send_eol X ''1'') (retM (menu_has ''2- Outlet Restriction'' menu))))"

definition confirm_outlet :: "'d pexpect \<Rightarrow> string \<Rightarrow> ('d, unit) sess" where
  \<comment> \<open>choose the action for an outlet and confirm it\<close>
  "confirm_outlet X action =
     seqM (send_eol X action)
    (seqM (expect_opt X [Txt (''Enter '' @ [CHR 0x27] @ ''YES'' @ [CHR 0x27] @ '' to continue or <ENTER> to cancel :'')]
             ''--shell-timeout'')
    (seqM (send_eol X ''YES'')
    (seqM (expect_opt X [Txt ''Press <ENTER> to continue...''] ''--power-timeout'')
    (seqM (sleepM TIMEDOUT_DELAY)
    (seqM (send_eol X [])
    (seqM (expect_prompt X ''--power-timeout'')
          (back_to_menu X)))))))"

definition set_power_status_apct :: "nat \<Rightarrow> 'd pexpect \<Rightarrow> ('d, unit) sess" where
  "set_power_status_apct pages X =
     bindM (by_action [(''on'', ''1''), (''off'', ''2'')]) (\<lambda>plain_action.
     bindM (command X ''1'' ''--shell-timeout'') (\<lambda>text.
     bindM (apc_switch (PInt 1) text) (\<lambda>master.
     bindM (if master then by_action [(''on'', ''1''), (''off'', ''3'')] else retM plain_action) (\<lambda>action.
     bindM (open_outlets X master text) (\<lambda>admin3.
     seqM (skip_pages pages X)
    (bindM (stroptM ''--plug'') (\<lambda>plug.
     seqM (pick_item X plug)
    (seqM (if master then pick_item X ''1''
           else seqM (if menu_has ''Outlet Control/Configuration'' text then pick_item X ''1'' else retM ())
                     (if admin3 then pick_item X ''1'' else retM ()))
          (confirm_outlet X action)))))))))"

definition apc5_re :: re where
  "apc5_re = Seq Bol (Seq (Star Spc) (Seq (Grp 1 (Plus Dig)) (Seq (Lit '': '') (Seq (Grp 2 (Star Any)) (Seq (Lit '': '')
     (Seq (Grp 3 (Alt (LitI ''On'') (LitI ''Off''))) (Seq (Star Spc) Eos)))))))"

definition get_power_status5 :: "'d pexpect \<Rightarrow> ('d, dual) sess" where
  "get_power_status5 X =
     bindM (command X ''olStatus all'' ''--shell-timeout'') (\<lambda>text.
       status_or_list True (collect_lines apc5_re (\<lambda>m. (group 1 m, group 2 m, group 3 m)) (py_split nl text)))"

definition set_power_status5 :: "'d pexpect \<Rightarrow> ('d, unit) sess" where
  "set_power_status5 X =
     bindM (by_action [(''on'', ''olOn''), (''off'', ''olOff'')]) (\<lambda>action.
     bindM (stroptM ''--plug'') (\<lambda>plug.
     seqM (command X (action @ '' '' @ plug) ''--power-timeout'') (retM ())))"

definition fns_apct :: "nat \<Rightarrow> 'd pexpect \<Rightarrow> 'd session power_fns" where
  "fns_apct pages X = \<lparr>set_power_fn = Some (set_power_status_apct pages X),
     get_power_fn = Some (as_status (get_power_status_apct pages X)),
     get_outlet_list = Some (as_outlets (get_power_status_apct pages X)), reboot_cycle_fn = None, sync_set_power_fn = None\<rparr>"

definition fns_apc5 :: "'d pexpect \<Rightarrow> 'd session power_fns" where
  "fns_apc5 X = \<lparr>set_power_fn = Some (set_power_status5 X), get_power_fn = Some (as_status (get_power_status5 X)),
     get_outlet_list = Some (as_outlets (get_power_status5 X)), reboot_cycle_fn = None, sync_set_power_fn = None\<rparr>"

definition device_opt_apct :: "string list" where
  "device_opt_apct = [''ipaddr'', ''login'', ''passwd'', ''cmd_prompt'', ''secure'', ''port'', ''switch'', ''telnet'']"

definition docs_apct :: docs where
  "docs_apct = \<lparr>agent_name = None, shortdesc = ''Fence agent for APC over telnet/ssh'',
     longdesc = ''fence_apc is a Power Fencing agent which can be used with the APC network power switch. It logs into device via telnet/ssh  and reboots a specified outlet. Lengthy telnet/ssh connections should be avoided while a GFS cluster  is  running  because  the  connection will block any necessary fencing actions.'',
     vendorurl = Some ''http://www.apc.com'', symlink = []\<rparr>"

definition firmware_re :: re where
  "firmware_re = Seq (Star Spc) (Seq (Lit ''v'') (Seq (Star (Grp 1 Dig)) (Lit ''.'')))"

definition plug_with_switch :: "('w, unit) prog" where
  \<comment> \<open>the notation switch:plug\<close>
  "plug_with_switch = bindM (getM opts) (\<lambda>od. case od ''--plug'' of
      Some (PStr p) \<Rightarrow>
        if py_find '':'' p = None then retM ()
        else (let (sw, plug) = py_split1 '':'' p in
          seqM (setoptM ''--switch'' (PStr sw)) (setoptM ''--plug'' (PStr plug)))
    | Some _ \<Rightarrow> raiseM (AttributeError ''find'')
    | None \<Rightarrow> retM ())"

definition main_apct where
  "main_apct pages X set_order time_start fuel =
     seqM (on_lib (set_default ''cmd_prompt'' (PList [nl @ ''>'', nl @ ''apc>''])))
    (seqM (on_lib (set_default ''ssh_options'' (PStr ''-1 -c blowfish'')))
    (seqM (on_lib (read_options device_opt_apct False))
    (seqM (on_lib (show_docs set_order (Some docs_apct)))
    (seqM plug_with_switch
    (on_dev
      (seqM (fence_login X time_start default_login)
      (bindM (sessM conn_before) (\<lambda>text.
       bindM (case search_group firmware_re text of
           Some v \<Rightarrow> fence_action fuel (if v \<in> {''5'', ''6'', ''7''} then fns_apc5 X else fns_apct pages X)
         | None \<Rightarrow> fence_action fuel (fns_apct pages X)) (\<lambda>result.
       seqM (fence_logout X ''4'' 0) (exitM result))))))))))"

section \<open>Eaton ePDU\<close>

datatype FenceEatonPowerActions = EATON_ERROR | EATON_OFF | EATON_ON | EATON_PENDING_OFF | EATON_PENDING_ON

definition eaton_get :: "'d pexpect \<Rightarrow> string \<Rightarrow> pat list \<Rightarrow> int \<Rightarrow> ('d, string list) sess" where
  \<comment> \<open>ask for a value; the answer has three lines\<close>
  "eaton_get X what command_prompt shell_timeout =
     seqM (send_eol X what)
    (seqM (log_expect X command_prompt shell_timeout)
    (bindM (sessM conn_before) (\<lambda>text.
     let ls = py_split nl text in
     seqM (if length ls \<noteq> 3 then fail EC_STATUS True else retM ()) (retM ls))))"

definition get_plug_names :: "'d pexpect \<Rightarrow> int list \<Rightarrow> pat list \<Rightarrow> int \<Rightarrow> ('d, (int \<times> string) list) sess" where
  \<comment> \<open>the list of lines has no method \<open>split\<close>, so what follows it is never reached\<close>
  "get_plug_names X plug_ids command_prompt shell_timeout =
     seqM (eaton_get X ''get PDU.OutletSystem.Outlet[x].iName'' command_prompt shell_timeout)
          (raiseM (AttributeError ''split''))"

definition get_plug_ids :: "'d pexpect \<Rightarrow> string list \<Rightarrow> pat list \<Rightarrow> int \<Rightarrow> ('d, (string \<times> int) list) sess" where
  "get_plug_ids X nodenames command_prompt shell_timeout =
     seqM (eaton_get X ''get PDU.OutletSystem.Outlet[x].iName'' command_prompt shell_timeout)
          (raiseM (AttributeError ''split''))"

definition get_plug_count :: "'d pexpect \<Rightarrow> pat list \<Rightarrow> int \<Rightarrow> ('d, int) sess" where
  "get_plug_count X command_prompt shell_timeout =
     bindM (eaton_get X ''get PDU.OutletSystem.Outlet.Count'' command_prompt shell_timeout) (\<lambda>ls.
       liftM (py_int (PStr (py_strip (ls ! 1)))))"

definition get_plug_status_eaton :: "'d pexpect \<Rightarrow> int \<Rightarrow> pat list \<Rightarrow> int \<Rightarrow> ('d, FenceEatonPowerActions) sess" where
  "get_plug_status_eaton X plug_id command_prompt shell_timeout =
     bindM (eaton_get X (''get PDU.OutletSystem.Outlet['' @ show_int plug_id @ ''].PresentStatus.SwitchOnOff'')
              command_prompt shell_timeout) (\<lambda>ls.
       retM (if py_strip (ls ! 1) = ''0'' then EATON_OFF else if py_strip (ls ! 1) = ''1'' then EATON_ON else EATON_ERROR))"

definition power_on_plug :: "'d pexpect \<Rightarrow> int \<Rightarrow> pat list \<Rightarrow> int \<Rightarrow> int \<Rightarrow> ('d, unit) sess" where
  "power_on_plug X plug_id command_prompt shell_timeout delay =
     seqM (send_eol X (''set PDU.OutletSystem.Outlet['' @ show_int plug_id @ ''].DelayBeforeStartup '' @ show_int delay))
    (seqM (log_expect X command_prompt shell_timeout) (retM ()))"

definition power_off_plug :: "'d pexpect \<Rightarrow> int \<Rightarrow> pat list \<Rightarrow> int \<Rightarrow> int \<Rightarrow> ('d, unit) sess" where
  "power_off_plug X plug_id command_prompt shell_timeout delay =
     seqM (send_eol X (''set PDU.OutletSystem.Outlet['' @ show_int plug_id @ ''].DelayBeforeShutdown '' @ show_int delay))
    (seqM (log_expect X command_prompt shell_timeout) (retM ()))"

definition requested :: "string \<Rightarrow> ('w, pyval) prog" where
  \<comment> \<open>\<open>options.get(k, "")\<close>, which must not be empty\<close>
  "requested k = bindM (getM opts) (\<lambda>od. case od k of
      Some v \<Rightarrow> seqM (if v \<in> {PStr [], PNone, PInt 0, PList []} then fail EC_STATUS True else retM ()) (retM v)
    | None \<Rightarrow> seqM (fail EC_STATUS True) (retM (PStr [])))"

definition for_plug :: "(int \<Rightarrow> pat list \<Rightarrow> int \<Rightarrow> ('d, 'a) sess) \<Rightarrow> pyval \<Rightarrow> ('d, 'a) sess" where
  \<comment> \<open>the arguments the callbacks pass on\<close>
  "for_plug f plug =
     bindM (liftM (py_int plug)) (\<lambda>n.
     bindM promptM (\<lambda>ps.
     bindM (intoptM ''--shell-timeout'') (\<lambda>t. f n ps t)))"

definition get_power_status_eaton_ssh :: "'d pexpect \<Rightarrow> ('d, string option) sess" where
  "get_power_status_eaton_ssh X =
     bindM (requested ''--plug'') (\<lambda>plug.
     bindM (for_plug (get_plug_status_eaton X) plug) (\<lambda>status.
       retM (Some (if status = EATON_OFF then ''off'' else if status = EATON_ON then ''on'' else ''error''))))"

definition set_power_status_eaton_ssh :: "'d pexpect \<Rightarrow> ('d, unit) sess" where
  "set_power_status_eaton_ssh X =
     bindM (requested ''--plug'') (\<lambda>plug.
     bindM (requested ''--action'') (\<lambda>action.
       if action = PStr ''off'' then for_plug (\<lambda>n ps t. power_off_plug X n ps t 0) plug
       else if action = PStr ''on'' then for_plug (\<lambda>n ps t. power_on_plug X n ps t 0) plug
       else fail EC_STATUS True))"

definition eaton_ssh_outlet :: "'d pexpect \<Rightarrow> outlet list \<Rightarrow> int \<Rightarrow> ('d, outlet list) sess" where
  "eaton_ssh_outlet X result counter =
     bindM promptM (\<lambda>ps.
     bindM (intoptM ''--shell-timeout'') (\<lambda>t.
     bindM (get_plug_names X [counter] ps t) (\<lambda>names.
     bindM (get_plug_status_eaton X counter ps t) (\<lambda>status.
     case map_of names counter of
       None \<Rightarrow> raiseM (KeyError (show_int counter))
     | Some name \<Rightarrow> retM (AList.update (show_int counter)
         (name, if status = EATON_OFF then Some ''OFF'' else if status = EATON_ON then Some ''ON'' else None) result)))))"

definition get_outlet_list_eaton_ssh :: "'d pexpect \<Rightarrow> ('d, outlet list) sess" where
  "get_outlet_list_eaton_ssh X =
     bindM promptM (\<lambda>ps.
     bindM (intoptM ''--shell-timeout'') (\<lambda>t.
     bindM (get_plug_count X ps t) (\<lambda>plug_count.
       foldM (eaton_ssh_outlet X) [] [1..plug_count - 1])))"

definition reboot_cycle_eaton_ssh :: "'d pexpect \<Rightarrow> ('d, bool) sess" where
  \<comment> \<open>the function returns None, which counts as false\<close>
  "reboot_cycle_eaton_ssh X =
     bindM (requested ''--plug'') (\<lambda>plug.
     seqM (for_plug (\<lambda>n ps t. power_off_plug X n ps t 0) plug)
    (seqM (for_plug (\<lambda>n ps t. power_on_plug X n ps t 0) plug)
          (retM False)))"

definition fns_eaton_ssh :: "'d pexpect \<Rightarrow> 'd session power_fns" where
  "fns_eaton_ssh X = \<lparr>set_power_fn = Some (set_power_status_eaton_ssh X),
     get_power_fn = Some (get_power_status_eaton_ssh X), get_outlet_list = Some (get_outlet_list_eaton_ssh X),
     reboot_cycle_fn = Some (reboot_cycle_eaton_ssh X), sync_set_power_fn = None\<rparr>"

definition device_opt_eaton_ssh :: "string list" where
  "device_opt_eaton_ssh = [''secure'', ''ipaddr'', ''login'', ''passwd'', ''port'', ''cmd_prompt'']"

definition docs_eaton_ssh :: docs where
  "docs_eaton_ssh = \<lparr>agent_name = None, shortdesc = ''Fence agent for Eaton ePDU G3 over SSH'',
     longdesc = ''fence_eaton_ssh is a Power Fencing agent that connects to Eaton ePDU devices. It logs into device via ssh and reboot a specified outlet.'',
     vendorurl = Some ''https://www.eaton.com/'', symlink = []\<rparr>"

definition main_eaton_ssh where
  "main_eaton_ssh X set_order time_start fuel =
     seqM (on_lib (read_options device_opt_eaton_ssh False))
    (seqM (setoptM ''--ssh'' PNone)
    (seqM (setoptM ''--ipport'' (PInt 22))
    (seqM (setoptM ''--command-prompt'' (PStr ''pdu#0>''))
          (agent_session set_order docs_eaton_ssh X time_start fuel (fns_eaton_ssh X) ''quit''))))"

end
