(* ===== verification/Stateful_Agents.thy ===== *)
theory Stateful_Agents
  imports Menu_Agents
begin

text \<open>
  Session agents that keep data of their own beside the connection:
  \<open>agents/raritan_px3/fence_raritan_px3.py\<close> (the class attributes of \<open>FenceRaritanPX3\<close>) and
  \<open>agents/ilo/fence_ilo.py\<close> (the versions it finds out, which are floating point numbers).
\<close>

section \<open>A connection with variables\<close>

record ('d, 'g) conn_world =
  conn :: "'d session"
  vars :: 'g

definition on_conn :: "('d, 'a) sess \<Rightarrow> (('d, 'g) conn_world, 'a) prog" where
  "on_conn m s = (case m (with_world (conn (world s)) s) of
     (r, t) \<Rightarrow> (r, with_world ((world s)\<lparr>conn := world t\<rparr>) t))"

definition varM :: "('g \<Rightarrow> 'a) \<Rightarrow> (('d, 'g) conn_world, 'a) prog" where
  "varM f = getM (\<lambda>s. f (vars (world s)))"

definition setvarM :: "('g \<Rightarrow> 'g) \<Rightarrow> (('d, 'g) conn_world, unit) prog" where
  "setvarM f = modM (\<lambda>s. s\<lparr>world := (world s)\<lparr>vars := f (vars (world s))\<rparr>\<rparr>)"

section \<open>Raritan PX3\<close>

record px3 =
  outlets :: "(string \<times> string \<times> string) list"        \<comment> \<open>number, name, state\<close>
  px3_plug :: pyval
  outletgroups :: "(string \<times> string \<times> string) list"
  px3_group :: "string option"                              \<comment> \<open>\<open>group_name\<close>\<close>

type_synonym ('d, 'a) px3_prog = "(('d, px3) conn_world, 'a) prog"

definition px3_ask :: "'d pexpect \<Rightarrow> string \<Rightarrow> ('d, string list) px3_prog" where
  \<comment> \<open>a command and the lines of the answer, which the prompt's pattern includes; \<open>conn.expect\<close> is called
    directly, so a timeout of 0 is kept\<close>
  "px3_ask X line = on_conn
     (seqM (send_eol X line)
     (bindM promptM (\<lambda>ps.
      bindM (intoptM ''--shell-timeout'') (\<lambda>t.
      seqM (expect_for X ps (Some t))
     (bindM afterM (\<lambda>after. retM (py_splitlines after)))))))"

definition px3_line ::
  "(string list \<Rightarrow> (string \<times> string) option) \<Rightarrow> (string list \<Rightarrow> string option)
   \<Rightarrow> (string \<times> string) option \<times> entries \<Rightarrow> string \<Rightarrow> ('w, (string \<times> string) option \<times> entries) prog" where
  \<comment> \<open>a line may name an outlet, and may give the state of the one that was named last\<close>
  "px3_line name_of state_of st line = (case st of (current, d) \<Rightarrow>
     let words = py_split '' '' line;
         current' = (case name_of words of None \<Rightarrow> current | Some x \<Rightarrow> Some x)
     in case state_of words of
          None \<Rightarrow> retM (current', d)
        | Some state \<Rightarrow> (case current' of
            None \<Rightarrow> raiseM (OtherError ''UnboundLocalError'')
          | Some (no, name) \<Rightarrow> retM (current', AList.update no (name, state) d)))"

definition group_head :: "string list \<Rightarrow> (string \<times> string) option" where
  "group_head ws = (if length ws = 5 \<and> ws ! 0 = ''Outlet'' \<and> ws ! 1 = ''Group'' then Some (ws ! 2, butlast (ws ! 4)) else None)"

definition group_state :: "string list \<Rightarrow> string option" where
  "group_state ws = (if ws \<noteq> [] \<and> ws ! 0 = ''State:'' then Some (last ws) else None)"

definition outlet_head :: "string list \<Rightarrow> (string \<times> string) option" where
  "outlet_head ws =
     (if length ws = 2 \<and> ws ! 0 = ''Outlet'' then Some (butlast (ws ! 1), [])
      else if length ws = 4 \<and> ws ! 0 = ''Outlet'' then Some (ws ! 1, butlast (ws ! 3))
      else None)"

definition outlet_state :: "string list \<Rightarrow> string option" where
  "outlet_state ws = (if length ws = 3 \<and> ws ! 0 = ''Power'' \<and> ws ! 1 = ''state:'' then Some (ws ! 2) else None)"

definition px3_get_outlet_group :: "'d pexpect \<Rightarrow> ('d, entries) px3_prog" where
  "px3_get_outlet_group X =
     bindM (px3_ask X ''show outletgroups'') (\<lambda>ls.
     bindM (varM outletgroups) (\<lambda>old.
     bindM (foldM (px3_line group_head group_state) (None, old) ls) (\<lambda>(_, d).
     seqM (setvarM (\<lambda>g. g\<lparr>outletgroups := d\<rparr>)) (retM d))))"

definition px3_get_outlet_list :: "'d pexpect \<Rightarrow> ('d, entries) px3_prog" where
  "px3_get_outlet_list X =
     bindM (px3_ask X ''show outlets'') (\<lambda>ls.
     bindM (varM outlets) (\<lambda>old.
     bindM (foldM (px3_line outlet_head outlet_state) (None, old) ls) (\<lambda>(_, d).
     seqM (setvarM (\<lambda>g. g\<lparr>outlets := d\<rparr>)) (retM d))))"

definition truthy :: "pyval \<Rightarrow> bool" where
  "truthy v \<longleftrightarrow> v \<notin> {PNone, PInt 0, PStr [], PList []}"

definition get_power_status_px3 :: "('d, string option) px3_prog" where
  \<comment> \<open>nothing is asked: the answer comes from what was read after the login\<close>
  "get_power_status_px3 =
     bindM (varM id) (\<lambda>g.
       if truthy (px3_plug g) then
         (case map_of (outlets g) (py_str (px3_plug g)) of
            None \<Rightarrow> raiseM (KeyError (py_str (px3_plug g)))
          | Some (_, state) \<Rightarrow> retM (Some (py_lower state)))
       else (case px3_group g of
           Some no \<Rightarrow> if no = [] then exitM EC_STATUS else (case map_of (outletgroups g) no of
             None \<Rightarrow> raiseM (KeyError no)
           | Some (_, state) \<Rightarrow> retM (Some (py_lower state)))
         | None \<Rightarrow> exitM EC_STATUS))"

definition set_power_status_px3 :: "'d pexpect \<Rightarrow> ('d, unit) px3_prog" where
  "set_power_status_px3 X =
     bindM (by_action [(''on'', ''on''), (''off'', ''off''), (''reboot'', ''cycle'')]) (\<lambda>action.
     bindM (varM id) (\<lambda>g.
     seqM (if truthy (px3_plug g) then on_conn (send_eol X (''power outlets '' @ py_str (px3_plug g) @ '' '' @ action))
           else (case px3_group g of
               Some no \<Rightarrow> if no = [] then retM () else on_conn (send_eol X (''power outletgroup '' @ no @ '' '' @ action))
             | None \<Rightarrow> retM ()))
    (seqM (on_conn (expect_opt X [Txt ''Do you wish to turn.*''] ''--shell-timeout''))
    (seqM (on_conn (send_eol X ''y''))
    (seqM (printM ''YYYYY'')
    (seqM (on_conn (expect_prompt X ''--shell-timeout''))
          (printM ''XXXXXXXX'')))))))"

definition fns_px3 :: "'d pexpect \<Rightarrow> ('d, px3) conn_world power_fns" where
  \<comment> \<open>the setter serves as the function for a power cycle, too; it returns None\<close>
  "fns_px3 X = \<lparr>set_power_fn = Some (set_power_status_px3 X), get_power_fn = Some get_power_status_px3,
     get_outlet_list = Some (bindM (px3_get_outlet_list X) (\<lambda>es. retM (outlets_of es))),
     reboot_cycle_fn = Some (seqM (set_power_status_px3 X) (retM False)), sync_set_power_fn = None\<rparr>"

definition disconnect_px3 :: "'d pexpect \<Rightarrow> ('d, unit) sess" where
  "disconnect_px3 X = seqM (sendline X ''EXIT'') (close_conn X)"

definition named :: "string \<Rightarrow> entries \<Rightarrow> string option" where
  \<comment> \<open>the number of the first entry with a given name\<close>
  "named name d = (case filter (\<lambda>(_, n, _). n = name) d of [] \<Rightarrow> None | (no, _) # _ \<Rightarrow> Some no)"

definition find_outlet :: "('d, unit) px3_prog" where
  \<comment> \<open>the plug as a number, or by its name\<close>
  "find_outlet =
     tryM
      (bindM (intoptM ''--plug'') (\<lambda>n.
       seqM (setvarM (\<lambda>g. g\<lparr>px3_plug := PInt n\<rparr>))
      (bindM (varM outlets) (\<lambda>d.
         if n > int (length d) then seqM (logM ''Plug no exceeds no of outlets'') (exitM EC_STATUS) else retM ()))))
      (\<lambda>e. case e of
         ValueError _ \<Rightarrow> Some
          (bindM (stroptM ''--plug'') (\<lambda>plug.
           bindM (varM outlets) (\<lambda>d. case named plug d of
             None \<Rightarrow> retM ()
           | Some no \<Rightarrow> setvarM (\<lambda>g. g\<lparr>px3_plug := PStr no\<rparr>))))
       | _ \<Rightarrow> None)"

definition find_group :: "'d pexpect \<Rightarrow> ('d, unit) px3_prog" where
  "find_group X =
     bindM (varM px3_plug) (\<lambda>plug.
       if truthy plug then retM ()
       else bindM (px3_get_outlet_group X) (\<lambda>d.
         bindM (optM ''--plug'') (\<lambda>v. case named (py_str v) d of
             Some no \<Rightarrow> if no \<noteq> [] then setvarM (\<lambda>g. g\<lparr>px3_group := Some no\<rparr>)
                        else seqM (logM (''Plug '' @ py_str v @ '' not found'')) (exitM EC_STATUS)
           | None \<Rightarrow> seqM (logM (''Plug '' @ py_str v @ '' not found'')) (exitM EC_STATUS))))"

definition device_opt_px3 :: "string list" where
  "device_opt_px3 = [''ipaddr'', ''login'', ''passwd'', ''port'', ''telnet'', ''cmd_prompt'', ''secure'']"

definition docs_px3 :: docs where
  "docs_px3 = \<lparr>agent_name = None, shortdesc = ''Power Fencing agent for Raritan Dominion PX2 and PX3'',
     longdesc = ''fence_raritan_px3 is a Power Fencing agent which can be used with the Raritan PX2 and PX3 Power Distribution Unit series. It logs into device via telnet or ssh and reboots a specified outlet. Single outlets and grouped outlets are supported. The fence is tested on this model: PX3-5466V. There have been issues seen with the telnet prompt on 3.4.x and 3.5.x Raritan firmware versions. It'' @ [CHR 0x27] @ ''s recommended to update to at least version 3.6.x'',
     vendorurl = Some ''http://www.raritan.com/'', symlink = []\<rparr>"

definition px3_login :: login_prompt where
  "px3_login = \<lparr>prompt_text = ''Username.*'', prompt_re = Seq (LitI ''Username'') (Star Any)\<rparr>"

definition px3_options :: "unit lib" where
  "px3_options =
     seqM (set_default ''cmd_prompt'' (PStr (''.*'' @ bs @ ''[My PDU'' @ bs @ ''] #'')))
    (seqM (set_default ''ipport'' (PStr ''23''))
    (seqM (set_default ''shell_timeout'' (PStr ''8''))
          (setoptM ''eol'' (PStr (cr @ nl)))))"

definition main_px3 where
  "main_px3 X set_order time_start fuel =
     seqM (on_lib (read_options_with device_opt_px3 px3_options))
    (seqM (on_lib (show_docs set_order (Some docs_px3)))
    (on_dev
      (seqM (on_conn (fence_login X time_start px3_login))
      (seqM (px3_get_outlet_list X)
      (seqM find_outlet
      (seqM (find_group X)
      (bindM (optM ''--action'') (\<lambda>action.
       bindM (if action \<noteq> PStr ''monitor'' then fence_action fuel (fns_px3 X) else retM 0) (\<lambda>result.
       seqM (on_conn (at_exit (disconnect_px3 X))) (exitM result))))))))))"

section \<open>HP iLO (RIBCL)\<close>

record ilo_vars =
  ribcl :: "rat option"           \<comment> \<open>\<open>options["--ribcl-version"]\<close> as set by the agent\<close>
  fw_version :: "rat option"

type_synonym ('d, 'a) ilo_prog = "(('d, ilo_vars) conn_world, 'a) prog"

definition xml_escape :: "string \<Rightarrow> string" where
  "xml_escape t = concat (map (\<lambda>c.
     if c = CHR ''&'' then ''&amp;'' else if c = CHR ''>'' then ''&gt;'' else if c = CHR ''<'' then ''&lt;''
     else if c = CHR 0x0A then ''&#10;'' else if c = CHR 0x0D then ''&#13;'' else if c = CHR 0x09 then ''&#9;'' else [c]) t)"

definition quoteattr :: "string \<Rightarrow> string" where
  \<comment> \<open>\<open>xml.sax.saxutils.quoteattr\<close>\<close>
  "quoteattr t = (let e = xml_escape t in
     if CHR 0x22 \<in> set e then
       (if CHR 0x27 \<in> set e then ''\"'' @ py_replace ''\"'' ''&quot;'' e @ ''\"'' else [CHR 0x27] @ e @ [CHR 0x27])
     else ''\"'' @ e @ ''\"'')"

definition crlf :: string where "crlf = cr @ nl"

definition ilo_credentials :: "('w, string) prog" where
  "ilo_credentials =
     bindM (stroptM ''--username'') (\<lambda>user.
     bindM (stroptM ''--password'') (\<lambda>password.
       retM (''<LOGIN USER_LOGIN = '' @ quoteattr user @ '' PASSWORD = '' @ quoteattr password @ ''>'' @ crlf)))"

definition ilo_login_tag :: "'d pexpect \<Rightarrow> ('d, unit) sess" where
  "ilo_login_tag X = bindM ilo_credentials (send X)"

definition quoted_value_re :: "re \<Rightarrow> re" where
  "quoted_value_re before = Seq before (Seq (Lit ''\"'') (Seq (Grp 1 (LStar Any)) (Lit ''\"'')))"

definition get_power_status_ilo_xml :: "'d pexpect \<Rightarrow> ('d, string option) ilo_prog" where
  "get_power_status_ilo_xml X = on_conn
     (seqM (ilo_login_tag X)
     (seqM (send X (''<SERVER_INFO MODE = \"read\"><GET_HOST_POWER_STATUS/>'' @ crlf))
     (seqM (send X (''</SERVER_INFO></LOGIN>'' @ crlf))
     (seqM (expect_opt X [Txt ''HOST_POWER=\"(.*?)\"''] ''--power-timeout'')
     (bindM afterM (\<lambda>after.
      bindM (liftM (match_group (Seq (Lit ''HOST_POWER=\"'') (Seq (Grp 1 (LStar AnyS)) (Lit ''\"''))) 1 after)) (\<lambda>status.
        retM (Some (py_strip (py_lower status))))))))))"

definition ribclM :: "('d, rat) ilo_prog" where
  \<comment> \<open>\<open>options["--ribcl-version"]\<close> compared with a number: a version given as an option is a text\<close>
  "ribclM = bindM (hasoptM ''--ribcl-version'') (\<lambda>given.
     if given then raiseM (TypeError ''not supported between instances of str and float'')
     else bindM (varM ribcl) (\<lambda>v. case v of None \<Rightarrow> raiseM (KeyError ''--ribcl-version'') | Some x \<Rightarrow> retM x))"

definition ilo_button :: "('d, string) ilo_prog" where
  \<comment> \<open>the command that switches\<close>
  "ilo_button =
     bindM (getM opts) (\<lambda>od.
       if od ''fw_processor'' = Some (PStr ''iLO2'') then
         bindM (varM fw_version) (\<lambda>v. case v of
             None \<Rightarrow> raiseM (KeyError ''fw_version'')
           | Some x \<Rightarrow> retM (if x > 129 / 100 then ''<HOLD_PWR_BTN TOGGLE=\"yes\" />'' else ''<HOLD_PWR_BTN />''))
       else bindM ribclM (\<lambda>v.
         if v < 221 / 100 then
           bindM (stroptM ''--action'') (\<lambda>action. retM (''<SET_HOST_POWER HOST_POWER = \"'' @ action @ ''\" />''))
         else bindM (optM ''--action'') (\<lambda>action.
           retM (if action = PStr ''off'' then ''<HOLD_PWR_BTN/>'' else ''<PRESS_PWR_BTN/>''))))"

definition set_power_status_ilo_xml :: "'d pexpect \<Rightarrow> ('d, unit) ilo_prog" where
  "set_power_status_ilo_xml X =
     seqM (on_conn (ilo_login_tag X))
    (seqM (on_conn (send X ''<SERVER_INFO MODE = \"write\">''))
    (bindM ilo_button (\<lambda>tag.
     seqM (on_conn (send X (tag @ crlf)))
          (on_conn (send X (''</SERVER_INFO></LOGIN>'' @ crlf))))))"

definition fns_ilo_xml :: "'d pexpect \<Rightarrow> ('d, ilo_vars) conn_world power_fns" where
  "fns_ilo_xml X = \<lparr>set_power_fn = Some (set_power_status_ilo_xml X), get_power_fn = Some (get_power_status_ilo_xml X),
     get_outlet_list = None, reboot_cycle_fn = None, sync_set_power_fn = None\<rparr>"

definition new_opts_ilo :: "(string \<times> optdef) list" where
  "new_opts_ilo =
    [(''ribcl'', \<lparr>o_getopt = ''r:'', o_longopt = Some ''ribcl-version'',
        o_help = ''-r, --ribcl-version=[version]  Force ribcl version to use'',
        o_required = Some ''0'', o_shortdesc = Some ''Force ribcl version to use'',
        o_type = None, o_default = None, o_choices = None, o_order = 1\<rparr>)]"

definition device_opt_ilo :: "string list" where
  "device_opt_ilo = [''ipaddr'', ''login'', ''passwd'', ''ssl'', ''notls'', ''tls1.0'', ''ribcl'']"

definition docs_ilo :: "string \<Rightarrow> docs" where
  \<comment> \<open>with the file name of the agent\<close>
  "docs_ilo file = \<lparr>agent_name = Some ''fence_ilo'', shortdesc = ''Fence agent for HP iLO'',
     longdesc = basename file @ '' is a Power Fencing agent used for HP servers with the Integrated Light Out (iLO) PCI card.The agent opens an SSL connection to the iLO card. Once the SSL connection is established, the agent is able to communicate with the iLO card through an XML stream.'',
     vendorurl = Some ''http://www.hp.com'', symlink = [(''fence_ilo2'', ''Fence agent for HP iLO2'')]\<rparr>"

definition ilo_hello :: "'d pexpect \<Rightarrow> ('d, unit) sess" where
  "ilo_hello X =
     seqM (send X (''<?xml version=\"1.0\"?>'' @ crlf))
    (seqM (expect_opt X [Txt ''</RIBCL>'', Txt ''<END_RIBCL/>''] ''--login-timeout'') (retM ()))"

definition ilo_open :: "'d pexpect \<Rightarrow> rat \<Rightarrow> ('d, unit) sess" where
  \<comment> \<open>log in; when the device closes the connection, try TLS 1.0 once\<close>
  "ilo_open X time_start =
     seqM (fence_login X time_start default_login)
          (tryM (ilo_hello X) (\<lambda>e. case e of
              PexpectTIMEOUT \<Rightarrow> Some (fail EC_LOGIN_DENIED True)
            | PexpectEOF \<Rightarrow> Some
                (bindM (hasoptM ''--tls1.0'') (\<lambda>tls.
                 seqM (if tls then fail EC_LOGIN_DENIED True else retM ())
                (seqM (setoptM ''--tls1.0'' (PStr ''1''))
                (seqM (close_conn X)
                (seqM (fence_login X time_start default_login)
                      (tryM (ilo_hello X) login_denied))))))
            | _ \<Rightarrow> None))"

definition ilo_firmware :: "'d pexpect \<Rightarrow> ('d, unit) ilo_prog" where
  "ilo_firmware X =
     seqM (on_conn (send X (''<RIB_INFO MODE=\"read\"><GET_FW_VERSION />'' @ crlf)))
    (seqM (on_conn (send X (''</RIB_INFO>'' @ crlf)))
    (seqM (on_conn (expect_opt X [Txt (''<GET_FW_VERSION'' @ bs @ ''s*'' @ bs @ ''n'')] ''--shell-timeout''))
    (seqM (on_conn (expect_opt X [Txt ''/>''] ''--shell-timeout''))
    (bindM (on_conn (sessM conn_before)) (\<lambda>text.
     bindM (liftM (match_group (quoted_value_re (Seq (LitI ''FIRMWARE_VERSION'') (Seq (Star Spc) (Seq (Lit ''='') (Star Spc))))) 1 text)) (\<lambda>v.
     bindM (liftM (py_float_val (PStr v))) (\<lambda>version.
     seqM (setvarM (\<lambda>g. g\<lparr>fw_version := Some version\<rparr>))
    (bindM (liftM (match_group (quoted_value_re (Seq (LitI ''MANAGEMENT_PROCESSOR'') (Seq (Star Spc) (Seq (Lit ''='') (Star Spc))))) 1 text)) (\<lambda>processor.
       setoptM ''fw_processor'' (PStr processor))))))))))"

definition ilo_version :: "'d pexpect \<Rightarrow> ('d, unit) ilo_prog" where
  \<comment> \<open>find out the version of the protocol and of the firmware\<close>
  "ilo_version X =
     bindM (on_conn (sessM conn_before)) (\<lambda>text.
     bindM (liftM (match_group (quoted_value_re (LitI ''<RIBCL VERSION='')) 1 text)) (\<lambda>version.
     bindM (hasoptM ''--ribcl-version'') (\<lambda>given.
     seqM (if given then retM ()
           else bindM (liftM (py_float_val (PStr version))) (\<lambda>x. setvarM (\<lambda>g. g\<lparr>ribcl := Some x\<rparr>)))
    (bindM ribclM (\<lambda>v.
     seqM (on_conn (send X ((if v \<ge> 2 then ''<RIBCL VERSION=\"2.0\">'' else ''<RIBCL VERSION=\"1.2\">'') @ crlf)))
    (seqM (on_conn (ilo_login_tag X))
    (seqM (if v \<ge> 2 then ilo_firmware X else retM ())
          (on_conn (send X (''</LOGIN>'' @ crlf))))))))))"

definition main_ilo where
  "main_ilo X set_order file time_start fuel =
     seqM (on_lib (add_opts new_opts_ilo))
    (seqM (on_lib (set_default ''login_timeout'' (PStr ''10'')))
    (seqM (on_lib (set_default ''retry_on'' (PStr ''3'')))
    (seqM (on_lib (set_default ''ssl'' (PStr ''1'')))
    (seqM (on_lib (read_options device_opt_ilo False))
    (seqM (on_lib (show_docs set_order (Some (docs_ilo file))))
    (on_dev
      (seqM (on_conn (ilo_open X time_start))
      (seqM (tryM (ilo_version X) login_denied)
            (exit_with (fence_action fuel (fns_ilo_xml X)))))))))))"

end
