(* ===== verification/Fence_Wti.thy ===== *)
theory Fence_Wti
  imports Menu_Agents
begin

text \<open>
  \<open>agents/wti/fence_wti.py\<close>: the WTI network power switch. The status of a plug is read from a
  table; if the plug is not in the table of plugs it is looked up in the table of plug groups.
\<close>

section \<open>Reading a listing\<close>

definition get_listing :: "'d pexpect \<Rightarrow> string \<Rightarrow> ('d, string) sess" where
  "get_listing X listing_command =
     seqM (send_eol X listing_command)
    (bindM promptM (\<lambda>prompts.
     let re_all = prompts @ [RxI ''Enter: ''] in
     bindM (expect_opt X re_all ''--shell-timeout'') (\<lambda>result.
     bindM (sessM conn_before) (\<lambda>listing.
       if result = length re_all - 1 then
         seqM (send_eol X [])
        (seqM (expect_prompt X ''--shell-timeout'')
        (bindM (sessM conn_before) (\<lambda>tail. retM (listing @ tail))))
       else retM listing))))"

definition cells :: "string \<Rightarrow> string list" where
  \<comment> \<open>\<open>[x.strip().lower() for x in line.split("|")]\<close>\<close>
  "cells line = map (\<lambda>x. py_lower (py_strip x)) (py_split ''|'' line)"

definition py_nth :: "'a list \<Rightarrow> int \<Rightarrow> 'a outcome" where
  \<comment> \<open>\<open>xs[i]\<close>: a negative index counts from the end\<close>
  "py_nth xs i = (let j = (if i < 0 then i + int (length xs) else i) in
     if 0 \<le> j \<and> j < int (length xs) then Ret (xs ! nat j) else Raise (IndexError ''list index out of range''))"

fun py_index :: "'a \<Rightarrow> 'a list \<Rightarrow> int outcome" where
  \<comment> \<open>\<open>xs.index(x)\<close>\<close>
  "py_index x [] = Raise (ValueError ''x not in list'')"
| "py_index x (y # ys) = (if x = y then Ret 0 else bindO (py_index x ys) (\<lambda>i. Ret (i + 1)))"

text \<open>The columns of a table, from its header; -1 before a header was seen.\<close>

record columns =
  plug_index :: int
  name_index :: int
  status_index :: int

section \<open>The table of plugs\<close>

record plug_scan =
  plug_section :: int
  cols :: columns
  plug_header :: "string list"
  found :: entries

definition start_scan :: plug_scan where
  "start_scan = \<lparr>plug_section = 0, cols = \<lparr>plug_index = -1, name_index = -1, status_index = -1\<rparr>, plug_header = [], found = []\<rparr>"

definition plug_row :: "string outcome option \<Rightarrow> string list \<Rightarrow> plug_scan \<Rightarrow> (string + plug_scan) outcome" where
  \<comment> \<open>a row of the table: the status, if it is the row of the plug, else the scan goes on. \<open>plug\<close> is the
    plug asked for in lower case, None for a listing\<close>
  "plug_row plug row sc =
     (let sc1 = (if length row < length (plug_header sc) then sc\<lparr>plug_section := -1\<rparr> else sc);
          keep = (if hd row \<noteq> [] then
              bindO (py_nth row (name_index (cols sc))) (\<lambda>name.
              bindO (py_nth row (status_index (cols sc))) (\<lambda>status.
                Ret (Inr (sc1\<lparr>found := AList.update (hd row) (name, status) (found sc1)\<rparr>))))
            else Ret (Inr sc1))
      in case plug of
           None \<Rightarrow> keep
         | Some p \<Rightarrow> bindO p (\<lambda>wanted. bindO (py_nth row (plug_index (cols sc))) (\<lambda>cell.
             if wanted = cell then bindO (py_nth row (status_index (cols sc))) (\<lambda>status. Ret (Inl status)) else keep)))"

definition plug_line :: "string outcome option \<Rightarrow> string \<Rightarrow> plug_scan \<Rightarrow> (string + plug_scan) outcome" where
  "plug_line plug line sc =
     (if plug_section sc = 2 \<and> py_in ''|'' line \<and> \<not> py_startswith ''PLUG'' line then plug_row plug (cells line) sc
      else if plug_section sc = 1 then Ret (Inr (sc\<lparr>plug_section := 2\<rparr>))
      else if py_startswith ''PLUG'' (py_upper line) then
        let header = cells line in
        bindO (py_index ''plug'' header) (\<lambda>p.
        bindO (py_index ''name'' header) (\<lambda>n.
        bindO (py_index ''status'' header) (\<lambda>t.
          Ret (Inr (sc\<lparr>plug_section := 1, plug_header := header, cols := \<lparr>plug_index = p, name_index = n, status_index = t\<rparr>\<rparr>)))))
      else Ret (Inr sc))"

fun scan_plugs :: "string outcome option \<Rightarrow> string list \<Rightarrow> plug_scan \<Rightarrow> (string + entries) outcome" where
  "scan_plugs plug [] sc = Ret (Inr (found sc))"
| "scan_plugs plug (line # ls) sc = bindO (plug_line plug line sc) (\<lambda>r. case r of
      Inl status \<Rightarrow> Ret (Inl status)
    | Inr sc' \<Rightarrow> scan_plugs plug ls sc')"

definition wanted_plug :: "('w, string outcome option) prog" where
  \<comment> \<open>\<open>options["--plug"].lower()\<close>, which is evaluated only where a row is compared\<close>
  "wanted_plug = bindM is_listing (\<lambda>listing.
     if listing then retM None
     else bindM (getM opts) (\<lambda>od. retM (Some (case od ''--plug'' of
         None \<Rightarrow> Raise (KeyError ''--plug'')
       | Some (PStr p) \<Rightarrow> Ret (py_lower p)
       | Some _ \<Rightarrow> Raise (AttributeError ''lower'')))))"

definition table_result :: "string outcome option \<Rightarrow> string + entries \<Rightarrow> dual" where
  "table_result plug r = (case r of
      Inl status \<Rightarrow> IsStatus status
    | Inr es \<Rightarrow> (if plug = None then IsOutlets es else IsStatus ''PROBLEM''))"

definition get_plug_status_wti :: "'d pexpect \<Rightarrow> ('d, dual) sess" where
  "get_plug_status_wti X =
     bindM (get_listing X ''/S'') (\<lambda>listing.
     bindM wanted_plug (\<lambda>plug.
     bindM (liftM (scan_plugs plug (py_splitlines listing) start_scan)) (\<lambda>r. retM (table_result plug r))))"

section \<open>The table of groups\<close>

definition get_plug_group_status_from_list :: "string list \<Rightarrow> string" where
  "get_plug_group_status_from_list status_list = (if ''on'' \<in> set status_list then ''on'' else ''off'')"

fun group_members :: "columns \<Rightarrow> string \<Rightarrow> string list \<Rightarrow> string list outcome" where
  \<comment> \<open>the statuses of the members of the group asked for, from its first row on\<close>
  "group_members cs wanted [] = Ret []"
| "group_members cs wanted (line # ls) =
     (let row = cells line in
      if int (length row) \<ge> max (name_index cs) (status_index cs) then
        bindO (py_nth row (plug_index cs)) (\<lambda>plug.
          if plug = [] then Ret []
          else bindO (py_nth row (name_index cs)) (\<lambda>name.
            if name = [] \<or> name = wanted then
              bindO (py_nth row (status_index cs)) (\<lambda>status.
              bindO (group_members cs wanted ls) (\<lambda>rest.
                Ret (if py_in ''---'' status then rest else status # rest)))
            else Ret []))
      else Ret [])"

fun group_rows :: "columns \<Rightarrow> string list \<Rightarrow> string list outcome" where
  \<comment> \<open>the statuses of the rows below the first row of a group\<close>
  "group_rows cs [] = Ret []"
| "group_rows cs (line # ls) =
     (let row = cells line in
      bindO (py_nth row (name_index cs)) (\<lambda>name.
        if name \<noteq> [] then Ret []
        else bindO (py_nth row (plug_index cs)) (\<lambda>plug.
          if plug = [] then Ret []
          else bindO (py_nth row (status_index cs)) (\<lambda>status.
               bindO (group_rows cs ls) (\<lambda>rest. Ret (status # rest))))))"

fun scan_groups :: "string outcome option \<Rightarrow> columns \<Rightarrow> entries \<Rightarrow> string list \<Rightarrow> (string + entries) outcome" where
  "scan_groups plug cs d [] = Ret (Inr d)"
| "scan_groups plug cs d (line # ls) =
     (if py_in ''|'' line \<and> \<not> py_startswith ''GROUP NAME'' (dropWhile is_space line) then
        let row = cells line;
            keep = (if hd row \<noteq> [] then
                bindO (group_rows cs ls) (\<lambda>statuses.
                  scan_groups plug cs (AList.update (hd row) (hd row, get_plug_group_status_from_list statuses) d) ls)
              else scan_groups plug cs d ls)
        in case plug of
             None \<Rightarrow> keep
           | Some p \<Rightarrow> bindO p (\<lambda>wanted. bindO (py_nth row (name_index cs)) (\<lambda>name.
               if wanted = name then
                 bindO (group_members cs wanted (line # ls)) (\<lambda>statuses. Ret (Inl (get_plug_group_status_from_list statuses)))
               else keep))
      else if py_startswith ''GROUP NAME'' (dropWhile is_space (py_upper line)) then
        let header = cells line in
        bindO (py_index ''group name'' header) (\<lambda>n.
        bindO (py_index ''plug'' header) (\<lambda>p.
        bindO (py_index ''status'' header) (\<lambda>t.
          scan_groups plug \<lparr>plug_index = p, name_index = n, status_index = t\<rparr> d (drop 1 ls))))
      else scan_groups plug cs d ls)"

definition get_plug_group_status :: "'d pexpect \<Rightarrow> ('d, dual) sess" where
  \<comment> \<open>in a listing the name of the group stands where the status should be\<close>
  "get_plug_group_status X =
     bindM (get_listing X ''/SG'') (\<lambda>listing.
     bindM wanted_plug (\<lambda>plug.
     bindM (liftM (scan_groups plug (cols start_scan) [] (py_splitlines listing))) (\<lambda>r.
       retM (table_result plug (map_sum id (map (\<lambda>(g, name, status). (g, g, name))) r)))))"

section \<open>The callbacks\<close>

definition merge_entries :: "entries \<Rightarrow> entries \<Rightarrow> entries" where
  "merge_entries a b = fold (\<lambda>(k, v) d. AList.update k v d) b a"

definition get_power_status_wti :: "'d pexpect \<Rightarrow> ('d, dual) sess" where
  "get_power_status_wti X =
     bindM (optM ''--action'') (\<lambda>action.
       if action \<noteq> PStr ''list'' then
         bindM (get_plug_status_wti X) (\<lambda>ret. if ret = IsStatus ''PROBLEM'' then get_plug_group_status X else retM ret)
       else
         bindM (get_plug_status_wti X) (\<lambda>plugs.
         bindM (case plugs of IsOutlets a \<Rightarrow> retM a | IsStatus _ \<Rightarrow> raiseM (AttributeError ''items'')) (\<lambda>a.
         bindM (get_plug_group_status X) (\<lambda>groups. case groups of
             IsOutlets b \<Rightarrow> retM (IsOutlets (merge_entries a b))
           | IsStatus _ \<Rightarrow> raiseM (AttributeError ''items'')))))"

definition set_power_status_wti :: "'d pexpect \<Rightarrow> ('d, unit) sess" where
  "set_power_status_wti X =
     bindM (by_action [(''on'', ''/on''), (''off'', ''/off'')]) (\<lambda>action.
     bindM (stroptM ''--plug'') (\<lambda>plug.
     seqM (command X (action @ '' '' @ plug @ '',y'') ''--power-timeout'') (retM ())))"

definition fns_wti :: "'d pexpect \<Rightarrow> 'd session power_fns" where
  "fns_wti X = \<lparr>set_power_fn = Some (set_power_status_wti X), get_power_fn = Some (as_status (get_power_status_wti X)),
     get_outlet_list = Some (as_outlets (get_power_status_wti X)), reboot_cycle_fn = None, sync_set_power_fn = None\<rparr>"

section \<open>The main function\<close>

definition device_opt_wti :: "string list" where
  "device_opt_wti = [''ipaddr'', ''login'', ''passwd'', ''no_login'', ''no_password'', ''cmd_prompt'', ''secure'', ''port'', ''telnet'']"

definition docs_wti :: docs where
  "docs_wti = \<lparr>agent_name = None, shortdesc = ''Fence agent for WTI'',
     longdesc = ''fence_wti is a Power Fencing agent which can be used with the WTI Network Power Switch (NPS). It logs into an NPS via telnet or ssh and boots a specified plug. Lengthy telnet connections to the NPS should be avoided while a GFS cluster is running because the connection will block any necessary fencing actions.'',
     vendorurl = Some ''http://www.wti.com'', symlink = []\<rparr>"

definition prompt_parts :: "pyval \<Rightarrow> string list outcome" where
  \<comment> \<open>\<open>for x in options["--command-prompt"]\<close>: a text yields its characters\<close>
  "prompt_parts v = (case v of
      PList ps \<Rightarrow> Ret ps
    | PStr p \<Rightarrow> Ret (map (\<lambda>c. [c]) p)
    | _ \<Rightarrow> Raise (TypeError ''object is not iterable''))"

definition wti_patterns :: "('w, pat list) prog" where
  "wti_patterns =
     bindM (optM ''--command-prompt'') (\<lambda>v.
     bindM (liftM (prompt_parts v)) (\<lambda>parts.
       retM [RxI ''(login: )|(Login Name:  )|(username: )|(User Name :)'', Txt ''Password: '',
         RxI (py_join ''|'' (map (\<lambda>x. ''('' @ x @ '')'') parts))]))"

definition wti_answer :: "'d pexpect \<Rightarrow> string \<Rightarrow> string \<Rightarrow> ('d, unit) sess" where
  \<comment> \<open>send an option that the device asks for\<close>
  "wti_answer X k problem = bindM (hasoptM k) (\<lambda>given.
     if given then bindM (stroptM k) (send_eol X) else fail_usage problem True)"

definition login_wti :: "'d pexpect \<Rightarrow> ('d, unit) sess" where
  \<comment> \<open>telnet without \<open>fence_login\<close>: the device may want neither a name nor a password\<close>
  "login_wti X =
     bindM (optM ''--action'') (\<lambda>action.
     seqM (if action \<in> {PStr ''off'', PStr ''reboot''} then sleep_opt ''--delay'' else retM ())
    (seqM (setoptM ''eol'' (PStr (cr @ nl)))
    (bindM (stroptM ''--telnet-path'') (\<lambda>path.
     seqM (fspawn X path)
    (seqM (send X (''set binary'' @ nl))
    (bindM (showoptM ''--ip'') (\<lambda>ip.
     bindM (showoptM ''--ipport'') (\<lambda>port.
     seqM (send X (''open '' @ ip @ '' -'' @ port @ nl))
    (bindM wti_patterns (\<lambda>ps.
     bindM (expect_opt X ps ''--shell-timeout'') (\<lambda>first.
     bindM (if first = 0 then
              seqM (wti_answer X ''--username'' ''Failed: You have to set login name'')
                   (expect_opt X ps ''--shell-timeout'')
            else retM first) (\<lambda>result.
     if result = 1 then
       seqM (wti_answer X ''--password'' ''Failed: You have to enter password or password script'')
      (seqM (expect_prompt X ''--shell-timeout'') (retM ()))
     else retM ()))))))))))))"

definition main_wti where
  "main_wti X set_order time_start fuel =
     seqM (on_lib (set_default ''cmd_prompt'' (PList [''RSM>'', ''MPC>'', ''IPS>'', ''TPS>'', ''NBB>'', ''NPS>'', ''VMR>''])))
    (seqM (on_lib (set_default ''login_timeout'' (PStr ''10'')))
    (seqM (on_lib (read_options device_opt_wti False))
    (seqM (on_lib (show_docs set_order (Some docs_wti)))
    (on_dev
      (bindM (hasoptM ''--ssh'') (\<lambda>ssh.
       seqM (if ssh then fence_login X time_start default_login else tryM (login_wti X) login_denied)
      (bindM (fence_action fuel (fns_wti X)) (\<lambda>result.
       seqM (fence_logout X ''/X'' 0) (exitM result)))))))))"

end
