(* ===== verification/Session_Props.thy ===== *)
theory Session_Props
  imports Console_Agents Stateful_Agents Fence_Wti
begin

text \<open>
  What the session agents have in common: their callbacks leave the options of the library alone
  (the contract of the library), and the action \<open>status\<close> runs no callback but the one that reads
  the status, so that what it sends is what that callback sends, whatever the peer does.
\<close>

section \<open>The action status runs the reader only\<close>

definition read_only :: "'w power_fns \<Rightarrow> 'w power_fns" where
  "read_only F = \<lparr>set_power_fn = None, get_power_fn = get_power_fn F, get_outlet_list = None, reboot_cycle_fn = None,
     sync_set_power_fn = None\<rparr>"

lemma read_only_simps [simp]:
  "get_power_fn (read_only F) = get_power_fn F" "set_power_fn (read_only F) = None"
  "sync_set_power_fn (read_only F) = None" "reboot_cycle_fn (read_only F) = None" "get_outlet_list (read_only F) = None"
  by (simp_all add: read_only_def)

lemma read_status_read_only [simp]: "read_status (read_only F) = read_status F"
  unfolding read_status_def read_only_simps by (rule refl)

lemma bindM_cong:
  "m s = n s \<Longrightarrow> (\<And>x s1. m s = (Ret x, s1) \<Longrightarrow> f x s1 = g x s1) \<Longrightarrow> bindM m f s = bindM n g s"
  by (auto simp: bindM_def split: prod.splits outcome.splits)

lemma bindM_same: "(\<And>x s1. m s = (Ret x, s1) \<Longrightarrow> f x s1 = g x s1) \<Longrightarrow> bindM m f s = bindM m g s"
  by (rule bindM_cong) simp_all

lemma perform_status_read_only:
  "opts s ''--action'' = Some (PStr ''status'') \<Longrightarrow> perform fuel F st s = perform fuel (read_only F) st s"
  by (auto simp: perform_def bindM_def optM_def retM_def)

lemma status_then_perform_read_only:
  assumes keep: "\<And>st s2. read_status F s = (Ret st, s2) \<Longrightarrow> opts s2 ''--action'' = Some (PStr ''status'')"
  shows "status_then_perform fuel F s = status_then_perform fuel (read_only F) s"
  unfolding status_then_perform_def read_status_read_only
proof (rule bindM_same)
  fix st s2 assume "read_status F s = (Ret st, s2)"
  then have a: "opts s2 ''--action'' = Some (PStr ''status'')" by (rule keep)
  show "bindM (already_done st) (\<lambda>reached. if reached then bindM (upperM st) (\<lambda>up.
          seqM (printM (''Success: Already '' @ up)) (retM EC_OK)) else perform fuel F st) s2 =
        bindM (already_done st) (\<lambda>reached. if reached then bindM (upperM st) (\<lambda>up.
          seqM (printM (''Success: Already '' @ up)) (retM EC_OK)) else perform fuel (read_only F) st) s2"
  proof (rule bindM_same)
    fix reached s3 assume "already_done st s2 = (Ret reached, s3)"
    then have "s3 = s2" by (simp add: already_done_Ret)
    with perform_status_read_only [OF a]
    show "(if reached then bindM (upperM st) (\<lambda>up. seqM (printM (''Success: Already '' @ up)) (retM EC_OK))
           else perform fuel F st) s3 =
          (if reached then bindM (upperM st) (\<lambda>up. seqM (printM (''Success: Already '' @ up)) (retM EC_OK))
           else perform fuel (read_only F) st) s3" by simp
  qed
qed

lemma fence_body_read_only:
  assumes keep: "\<And>s1 st s2. read_status F s1 = (Ret st, s2) \<Longrightarrow> opts s1 ''--action'' = Some (PStr ''status'') \<Longrightarrow>
      opts s2 ''--action'' = Some (PStr ''status'')"
    and a: "opts s ''--action'' = Some (PStr ''status'')"
  shows "fence_body fuel F s = fence_body fuel (read_only F) s"
proof (cases "split_ok (opts s)")
  case True
  have "opts (s\<lparr>opts := split_opts (opts s)\<rparr>) ''--action'' = Some (PStr ''status'')" using a by simp
  with keep have "status_then_perform fuel F (s\<lparr>opts := split_opts (opts s)\<rparr>) =
    status_then_perform fuel (read_only F) (s\<lparr>opts := split_opts (opts s)\<rparr>)"
    by (intro status_then_perform_read_only) blast
  then show ?thesis by (simp add: fence_body_power_action [OF a _ True])
next
  case False
  then show ?thesis unfolding fence_body_def by (intro bindM_same) (simp add: split_plugs_Ret)
qed

lemma status_read_only:
  assumes F: "agrees (callM (get_power_fn F))" and a: "opts s ''--action'' = Some (PStr ''status'')"
  shows "fence_action fuel F s = fence_action fuel (read_only F) s"
proof -
  have "status_callback (callM (get_power_fn F))" by unfold_locales (rule agreesD [OF F])
  then have "opts s2 ''--action'' = Some (PStr ''status'')"
    if "read_status F s1 = (Ret st, s2)" and "opts s1 ''--action'' = Some (PStr ''status'')" for st s1 s2
    using that agreeD [OF status_callback.get_multi_agree] by (fastforce simp: ret_iff split: if_splits)
  from fence_body_read_only [OF this a] show ?thesis by (simp add: fence_action_def tryM_def)
qed

section \<open>What the action status sends\<close>

lemma sends_plugs [always_intro]: "sends Q plugsM" "sends Q (set_plug p)" "sends Q device_optM" "sends Q split_plugs"
  by (auto simp: always_def plugsM_def set_plug_def device_optM_def split_plugs_def bindM_def run_prims optM_def
      intro!: sent_rel_quiet split: option.splits pyval.splits if_splits prod.splits)

lemma sends_get_multi [always_intro]: "sends Q m \<Longrightarrow> sends Q (get_multi_power_fn m)"
  by (auto simp: get_multi_power_fn_def intro!: always_intro)

lemma sends_status:
  assumes "sends Q (callM (get_power_fn F))"
  shows "sends Q (fence_action fuel (read_only F))"
proof -
  have read: "sends Q (read_status F)" using assms by (auto simp: read_status_def intro!: always_intro)
  have switch: "sends Q (switch fuel (read_only F) k)" for k
    by (auto simp: switch_def set_multi_power_fn_def intro!: always_intro)
  have "sends Q (perform fuel (read_only F) st)" for st
    by (auto simp: perform_def do_on_def do_off_def do_reboot_def reboot_onoff_def lowerM_def upperM_def intro!: always_intro switch
        split: option.splits)
  then have "sends Q (fence_body fuel (read_only F))"
    unfolding fence_body_def is_list_action_def list_outlets_def already_done_def upperM_def
    by (auto intro!: always_intro read split: option.splits)
  moreover have "fence_handler e = Some n \<Longrightarrow> sends Q n" for e and n :: "('a, int) sess"
    by (cases e) (auto simp: fence_handler_def intro!: always_intro)
  ultimately show ?thesis unfolding fence_action_def by (intro always_intro)
qed

section \<open>The queries of the agents\<close>

text \<open>
  A text that asks a device something starts with one of the agent's queries; the agents that run
  a tool on a host put its path or sudo in front.
\<close>

datatype query = Starts string | Inside string

fun is_query :: "string \<Rightarrow> query \<Rightarrow> bool" where
  "is_query t (Starts q) = py_startswith q t"
| "is_query t (Inside q) = py_in q t"

definition asks :: "query list \<Rightarrow> string \<Rightarrow> bool" where
  "asks qs t \<longleftrightarrow> list_ex (is_query t) qs"

lemma starts_simps [simp]: "py_startswith [] t" "py_startswith (c # p) (d # t) \<longleftrightarrow> c = d \<and> py_startswith p t"
  by (auto simp: py_startswith_def)

lemma starts_py_in: "py_startswith q t \<Longrightarrow> py_in q t"
  by (cases t) (auto simp: py_in_def py_startswith_def)

lemma py_in_skip: "py_in q t \<Longrightarrow> py_in q (a @ t)"
  by (induction a) (auto simp: py_in_def)

lemma asks_intros:
  "py_startswith q t \<Longrightarrow> asks (Starts q # qs) t" "py_in q t \<Longrightarrow> asks (Inside q # qs) t" "asks qs t \<Longrightarrow> asks (r # qs) t"
  by (simp_all add: asks_def)

definition talk_agents :: "'d pexpect \<Rightarrow> ('d session power_fns \<times> query list) list" where
  "talk_agents X =
    [(fns_alom X, [Starts ''showplatform'']),
     (fns_ilo_mp X, [Starts ''show /system1'']),
     (fns_ilo_ssh X, [Starts ''show /system1'']),
     (fns_drac X, [Starts ''getmodinfo'']),
     (fns_rsa X, [Starts ''power state'']),
     (fns_bladecenter X, [Starts ''env -T system'', Starts ''power -state'']),
     (fns_hpblade X, [Starts ''show server status '', Starts ''parstatus -M -p '']),
     (fns_moonshot X, [Starts ''show node list'']),
     (fns_drac5 X, [Starts ''racadm serveraction powerstatus'', Starts ''getmodinfo'']),
     (fns_virsh X, [Inside ''virsh domstate '']),
     (fns_vbox X, [Inside '' list vms'', Inside '' list runningvms'']),
     (fns_ldom X, [Starts ''ldm ls'', Starts ''PS1='', Starts ''set prompt='']),
     (fns_lpar X, [Starts ''lssyscfg -r lpar -m '']),
     (fns_brocade X, [Starts ''switchshow'']),
     (fns_sanbox2 X, [Starts ''show port '', Starts ''admin end'', Starts ''exit'']),
     (fns_cyberpower X, [Starts ''oltsta show'']),
     (fns_raritan X, [Starts ''show -d properties=powerState '']),
     (fns_cdu X, [Starts ''STATUS'']),
     (fns_apc5 X, [Starts ''olStatus all'']),
     (fns_eaton_ssh X, [Starts ''get PDU.'' ])]"

lemmas console_defs = fns_alom_def get_power_status_alom_def fns_ilo_mp_def fns_ilo_ssh_def get_power_status_ilo_def
  fns_drac_def get_power_status_drac_def fns_rsa_def get_power_status_rsa_def

lemmas blade_defs = fns_bladecenter_def get_power_status_bladecenter_def enter_blade_def fns_hpblade_def
  get_power_status_hpblade_def is_superdome_def fns_moonshot_def get_power_status_moonshot_def
  fns_drac5_def get_power_status_drac5_def get_list_devices_drac5_def drac_version_def

definition reads :: "'d session power_fns \<times> query list \<Rightarrow> bool" where
  "reads a \<longleftrightarrow> (\<exists>m. get_power_fn (fst a) = Some m \<and> sends (asks (snd a)) m \<and> steady m)"

lemma readsI: "get_power_fn F = Some m \<Longrightarrow> sends (asks qs) m \<Longrightarrow> steady m \<Longrightarrow> reads (F, qs)"
  by (simp add: reads_def)

lemma console_reads:
  "reads (fns_alom X, [Starts ''showplatform''])"
  "reads (fns_ilo_mp X, [Starts ''show /system1''])"
  "reads (fns_ilo_ssh X, [Starts ''show /system1''])"
  "reads (fns_drac X, [Starts ''getmodinfo''])"
  "reads (fns_rsa X, [Starts ''power state''])"
  by (auto simp: reads_def console_defs asks_def intro!: always_intro)

lemma blade_reads:
  "reads (fns_bladecenter X, [Starts ''env -T system'', Starts ''power -state''])"
  "reads (fns_hpblade X, [Starts ''show server status '', Starts ''parstatus -M -p ''])"
  "reads (fns_moonshot X, [Starts ''show node list''])"
  "reads (fns_drac5 X, [Starts ''racadm serveraction powerstatus'', Starts ''getmodinfo''])"
  by (auto simp: reads_def blade_defs asks_def Let_def intro!: always_intro)

lemmas vm_defs = sudo_prefix_def fns_virsh_def get_power_status_virsh_def get_name_or_uuid_def
  fns_vbox_def get_power_status_vbox_def vbox_outlets_def invoke_def
  fns_ldom_def get_power_status_ldom_def start_communication_def
  fns_lpar_def get_power_status_lpar_def hmc_version_def hmc_command_def

lemmas switch_defs = fns_brocade_def get_power_status_brocade_def brocade_line_def
  fns_sanbox2_def get_power_status_sanbox2_def sanbox_say_def sanbox_timeout_def leave_admin_def
  fns_cyberpower_def get_power_status_cyberpower_def fns_raritan_def get_power_status_raritan_def
  fns_cdu_def get_power_status_cdu_def is_api_8_def cdu_row_def cdu_errors_def
  fns_apc5_def get_power_status5_def
  fns_eaton_ssh_def get_power_status_eaton_ssh_def requested_def for_plug_def get_plug_status_eaton_def eaton_get_def

lemma virsh_reads: "reads (fns_virsh X, [Inside ''virsh domstate ''])"
  by (auto simp: reads_def vm_defs asks_def py_in_skip starts_py_in intro!: always_intro)

lemma vbox_reads: "reads (fns_vbox X, [Inside '' list vms'', Inside '' list runningvms''])"
proof (rule readsI)
  have i: "sends (asks [Inside '' list vms'', Inside '' list runningvms'']) (invoke X [''list'', w])"
    if "w \<in> {''vms'', ''runningvms''}" for w
    using that by (auto simp: vm_defs asks_def py_in_skip starts_py_in intro!: always_intro)
  show "sends (asks [Inside '' list vms'', Inside '' list runningvms'']) (get_power_status_vbox X)"
    unfolding get_power_status_vbox_def vbox_outlets_def
    by (auto simp: Let_def intro!: always_intro i split: list.splits option.splits)
  show "steady (get_power_status_vbox X)" by (auto simp: vm_defs Let_def intro!: always_intro split: list.splits option.splits)
qed (simp add: fns_vbox_def)

lemma host_reads:
  "reads (fns_ldom X, [Starts ''ldm ls'', Starts ''PS1='', Starts ''set prompt=''])"
  "reads (fns_lpar X, [Starts ''lssyscfg -r lpar -m ''])"
  by (auto simp: reads_def vm_defs asks_def Let_def intro!: always_intro split: exn.splits option.splits)

lemma switch_reads:
  "reads (fns_brocade X, [Starts ''switchshow''])"
  "reads (fns_sanbox2 X, [Starts ''show port '', Starts ''admin end'', Starts ''exit''])"
  "reads (fns_cyberpower X, [Starts ''oltsta show''])"
  "reads (fns_raritan X, [Starts ''show -d properties=powerState ''])"
  "reads (fns_cdu X, [Starts ''STATUS''])"
  "reads (fns_apc5 X, [Starts ''olStatus all''])"
  "reads (fns_eaton_ssh X, [Starts ''get PDU.''])"
  by (auto simp: reads_def switch_defs asks_def Let_def intro!: always_intro
      split: exn.splits option.splits list.splits if_splits)

end
