(* ===== verification/Session_Exits.thy ===== *)
theory Session_Exits
  imports Console_Agents Stateful_Agents Fence_Wti
begin

text \<open>
  How a session ends: the login and the callbacks of the session agents leave the process with
  code 1 only, and a connection that is lost or does not answer never shows as an exception
  outside of the session.
\<close>

section \<open>Exit codes of the steps of a session\<close>

lemma exits_1_liftM [exits_intro]: "(\<And>c. r \<noteq> Exit c) \<Longrightarrow> exits_1 (liftM r)"
  by (simp add: exits_1_def run_prims)

lemma exits_1_usage [exits_intro]: "exits_1 (fail_usage m stop)"
  by (auto simp: exits_1_def dest: fail_usage_Exit)

lemma exits_1_cases [exits_intro]:
  "exits_1 m \<Longrightarrow> (\<And>x. exits_1 (f x)) \<Longrightarrow> exits_1 (case v of None \<Rightarrow> m | Some x \<Rightarrow> f x)"
  "(\<And>x y. exits_1 (g x y)) \<Longrightarrow> exits_1 (case p of (x, y) \<Rightarrow> g x y)"
  "exits_1 m \<Longrightarrow> (\<And>x xs. exits_1 (h x xs)) \<Longrightarrow> exits_1 (case l of [] \<Rightarrow> m | x # xs \<Rightarrow> h x xs)"
  "exits_1 a \<Longrightarrow> (\<And>n. exits_1 (b' n)) \<Longrightarrow> (\<And>t. exits_1 (c t)) \<Longrightarrow> (\<And>l. exits_1 (d l)) \<Longrightarrow>
     exits_1 (case w of PNone \<Rightarrow> a | PInt n \<Rightarrow> b' n | PStr t \<Rightarrow> c t | PList l \<Rightarrow> d l)"
  by (auto split: option.splits prod.splits list.splits pyval.splits)

lemma exits_1_Let [exits_intro]: "(\<And>x. exits_1 (f x)) \<Longrightarrow> exits_1 (Let v f)"
  by (simp add: Let_def)

lemma exits_1_asks [exits_intro]: "exits_1 (askM q)" "exits_1 (sessM h)"
  by (auto simp: exits_1_def askM_def sessM_def answer_outcome_def run_prims split: prod.splits answer.splits)

lemma exits_1_session [exits_intro]:
  "exits_1 (stroptM k)" "exits_1 (showoptM k)" "exits_1 promptM" "exits_1 prompt_listM" "exits_1 afterM"
  unfolding stroptM_def showoptM_def promptM_def prompt_listM_def afterM_def by (intro exits_intro)+

lemma exits_1_talk [exits_intro]:
  "exits_1 (fspawn X c)" "exits_1 (send X m)" "exits_1 (sendline X m)" "exits_1 (send_eol X m)" "exits_1 (expect_for X ps l)"
  "exits_1 (log_expect X ps t)" "exits_1 (expect_opt X ps k)" "exits_1 (expect_prompt X k)" "exits_1 (read_nonblocking X t)"
  "exits_1 (readline X)" "exits_1 (close_conn X)" "exits_1 (command X m k)"
  by (auto simp: fspawn_def send_def sendline_def send_eol_def expect_for_def log_expect_def expect_opt_def expect_prompt_def
      read_nonblocking_def readline_def close_conn_def command_def intro!: exits_intro)

lemma exits_1_helpers [exits_intro]:
  "exits_1 (by_action table)" "exits_1 is_on" "exits_1 is_listing" "exits_1 (plug_entry d)" "exits_1 (entry_status logs es)"
  "exits_1 m \<Longrightarrow> exits_1 (as_status m)" "exits_1 m \<Longrightarrow> exits_1 (as_outlets m)"
  by (auto simp: by_action_def is_on_def is_listing_def plug_entry_def entry_status_def as_status_def as_outlets_def
      intro!: exits_intro split: dual.splits exn.splits if_splits)

lemma exits_1_status_or_list [exits_intro]: "exits_1 (status_or_list logs es)"
  by (auto simp: status_or_list_def intro!: exits_intro)

lemma no_exit [simp]:
  "match_group r n t \<noteq> Exit c" "word_at n t \<noteq> Exit c" "lookup table k \<noteq> Exit c" "py_int v \<noteq> Exit c" "py_float_val v \<noteq> Exit c"
  by (auto simp: match_group_def word_at_def lookup_def py_int_def py_float_val_def split: option.splits pyval.splits if_splits)

section \<open>Login and logout\<close>

lemma exits_1_connect [exits_intro]: "exits_1 (connect X L)"
proof -
  have ssl: "exits_1 (exitM EC_GENERIC_ERROR)" by (simp add: exits_1_def run_prims EC_defs)
  have ssh: "exits_1 (add_ssh_options c)" "exits_1 passphrase_prompt" for c
    by (auto simp: add_ssh_options_def passphrase_prompt_def intro!: exits_intro)
  have "exits_1 (open_ssl_connection X)" "exits_1 (login_ssh_with_password X L)" "exits_1 (login_ssh_with_identity_file X)"
    by (auto simp: open_ssl_connection_def login_ssh_with_password_def login_ssh_with_identity_file_def ssh_password_command_def
        ssh_identity_command_def ssh_ask_telnet_like_def ssh_ask_password_def intro!: exits_intro ssl ssh split: exn.splits)
  moreover have "exits_1 (login_telnet X L)"
    by (auto simp: login_telnet_def telnet_username_def telnet_password_def telnet_second_try_def intro!: exits_intro
        split: exn.splits)
  ultimately show ?thesis by (auto simp: connect_def intro!: exits_intro)
qed

lemma exits_1_login [exits_intro]: "exits_1 (fence_login X time_start L)" "exits_1 (fence_logout X t d)"
proof -
  have "exits_1 (run_delay time_start 0 0)" by (auto simp: run_delay_def Let_def intro!: exits_intro)
  moreover have "exits_1 prepare_login" by (auto simp: prepare_login_def intro!: exits_intro)
  ultimately show "exits_1 (fence_login X time_start L)"
    by (auto simp: fence_login_def login_denied_def intro!: exits_intro split: exn.splits)
  show "exits_1 (fence_logout X t d)" by (auto simp: fence_logout_def intro!: exits_intro split: exn.splits)
qed

section \<open>The callbacks\<close>

text \<open>The agents whose callbacks are run by \<open>fence_action\<close> after \<open>fence_login\<close>.\<close>

lemma console_exits_1:
  "fns_exit_1 (fns_alom X)" "fns_exit_1 (fns_ilo_mp X)" "fns_exit_1 (fns_ilo_ssh X)" "fns_exit_1 (fns_drac X)"
  "fns_exit_1 (fns_rsa X)"
  by (auto simp: fns_exit_1_def fns_alom_def get_power_status_alom_def set_power_status_alom_def fns_ilo_mp_def
      get_power_status_ilo_def set_power_status_ilo_mp_def fns_ilo_ssh_def set_power_status_ilo_ssh_def reboot_cycle_ilo_ssh_def
      fns_drac_def get_power_status_drac_def set_power_status_drac_def fns_rsa_def get_power_status_rsa_def
      set_power_status_rsa_def intro!: exits_intro)

lemma blade_exits_1:
  "fns_exit_1 (fns_bladecenter X)" "fns_exit_1 (fns_moonshot X)" "fns_exit_1 (fns_hpblade X)" "fns_exit_1 (fns_drac5 X)"
  by (auto simp: fns_exit_1_def fns_bladecenter_def get_power_status_bladecenter_def set_power_status_bladecenter_def
      enter_blade_def get_blades_list_bladecenter_def fns_moonshot_def get_power_status_moonshot_def
      set_power_status_moonshot_def fns_hpblade_def get_power_status_hpblade_def set_power_status_hpblade_def
      get_instances_list_def is_superdome_def fns_drac5_def get_power_status_drac5_def get_list_devices_drac5_def
      drac_version_def set_power_status_drac5_def intro!: exits_intro)

lemma exits_1_sudo [exits_intro]: "exits_1 sudo_prefix" "exits_1 get_name_or_uuid" "exits_1 (invoke X cmd)"
  by (auto simp: sudo_prefix_def get_name_or_uuid_def invoke_def intro!: exits_intro)

lemma exits_1_hmc [exits_intro]: "exits_1 hmc_version" "exits_1 (hmc_command X line)" "exits_1 (list_text r n t)"
  by (auto simp: hmc_version_def hmc_command_def list_text_def intro!: exits_intro)

lemma vm_exits_1: "fns_exit_1 (fns_virsh X)" "fns_exit_1 (fns_vbox X)" "fns_exit_1 (fns_ldom X)"
  by (auto simp: fns_exit_1_def fns_virsh_def get_power_status_virsh_def set_power_status_virsh_def get_outlets_status_virsh_def
      fns_vbox_def get_power_status_vbox_def vbox_outlets_def set_power_status_vbox_def get_outlets_status_vbox_def
      fns_ldom_def get_power_status_ldom_def start_communication_def set_power_status_ldom_def intro!: exits_intro)

lemma lpar_exits_1: "fns_exit_1 (fns_lpar X)"
  by (auto simp: fns_exit_1_def fns_lpar_def get_power_status_lpar_def set_power_status_lpar_def is_comanaged_def
      get_lpar_list_def intro!: exits_intro split: exn.splits list.splits)

lemma exits_1_sanbox [exits_intro]: "exits_1 (sanbox_say X line k)"
  by (auto simp: sanbox_say_def sanbox_timeout_def leave_admin_def intro!: exits_intro split: exn.splits)

lemma exits_1_cdu [exits_intro]: "exits_1 m \<Longrightarrow> exits_1 (tryM m cdu_errors)" "exits_1 is_api_8" "exits_1 (cdu_row v8 d line)"
  by (auto simp: cdu_errors_def is_api_8_def cdu_row_def intro!: exits_intro split: exn.splits)

lemma exits_1_eaton [exits_intro]:
  "exits_1 (eaton_get X what ps t)" "exits_1 (requested k)" "(\<And>n ps t. exits_1 (f n ps t)) \<Longrightarrow> exits_1 (for_plug f plug)"
  "exits_1 (get_plug_status_eaton X n ps t)" "exits_1 (power_on_plug X n ps t d)" "exits_1 (power_off_plug X n ps t d)"
  "exits_1 (get_plug_names X ns ps t)" "exits_1 (get_plug_count X ps t)"
  by (auto simp: eaton_get_def requested_def for_plug_def get_plug_status_eaton_def power_on_plug_def power_off_plug_def
      get_plug_names_def get_plug_count_def intro!: exits_intro)

lemma switch_exits_1:
  "fns_exit_1 (fns_brocade X)" "fns_exit_1 (fns_sanbox2 X)" "fns_exit_1 (fns_cyberpower X)" "fns_exit_1 (fns_raritan X)"
  "fns_exit_1 (fns_cdu X)" "fns_exit_1 (fns_apc5 X)" "fns_exit_1 (fns_eaton_ssh X)"
  by (auto simp: fns_exit_1_def fns_brocade_def get_power_status_brocade_def brocade_line_def set_power_status_brocade_def
      fns_sanbox2_def get_power_status_sanbox2_def set_power_status_sanbox2_def get_list_devices_sanbox2_def
      fns_cyberpower_def get_power_status_cyberpower_def set_power_status_cyberpower_def
      fns_raritan_def get_power_status_raritan_def set_power_status_raritan_def
      fns_cdu_def get_power_status_cdu_def set_power_status_cdu_def
      fns_apc5_def get_power_status5_def set_power_status5_def
      fns_eaton_ssh_def get_power_status_eaton_ssh_def set_power_status_eaton_ssh_def get_outlet_list_eaton_ssh_def
      eaton_ssh_outlet_def reboot_cycle_eaton_ssh_def intro!: exits_intro)

section \<open>Lost connections\<close>

definition lost :: "exn \<Rightarrow> bool" where
  "lost e \<longleftrightarrow> e = PexpectEOF \<or> e = PexpectTIMEOUT"

definition contained :: "('w, 'a) prog \<Rightarrow> bool" where
  \<comment> \<open>no \<open>pexpect.EOF\<close> and no \<open>pexpect.TIMEOUT\<close> comes out of the program\<close>
  "contained m \<longleftrightarrow> (\<forall>s e s'. m s = (Raise e, s') \<longrightarrow> \<not> lost e)"

named_theorems contained_intro \<open>programs that let no lost connection out\<close>

lemma contained_bind [contained_intro]: "contained m \<Longrightarrow> (\<And>x. contained (f x)) \<Longrightarrow> contained (bindM m f)"
  unfolding contained_def bindM_def by (auto split: prod.splits outcome.splits)

lemma contained_try [contained_intro]:
  assumes "\<And>e n. h e = Some n \<Longrightarrow> contained n" and "\<And>e. lost e \<Longrightarrow> h e \<noteq> None"
  shows "contained (tryM m h)"
  using assms unfolding contained_def tryM_def by (fastforce split: prod.splits outcome.splits option.splits)

lemma contained_prims [contained_intro]:
  "contained (retM x)" "contained (exitM c)" "contained (getM g)" "contained (hasoptM k)" "contained (setoptM k v)" "contained (printM t)"
  "contained (logM t)" "contained (optM k)" "contained (sleepM d)" "\<not> lost e \<Longrightarrow> contained (raiseM e)"
  "(\<And>e. r = Raise e \<Longrightarrow> \<not> lost e) \<Longrightarrow> contained (liftM r)"
  by (auto simp: contained_def run_prims optM_def sleepM_def lost_def split: option.splits if_splits)

lemma contained_cases [contained_intro]:
  "contained m \<Longrightarrow> contained n \<Longrightarrow> contained (if b then m else n)"
  "contained m \<Longrightarrow> (\<And>x. contained (f x)) \<Longrightarrow> contained (case v of None \<Rightarrow> m | Some x \<Rightarrow> f x)"
  "contained a \<Longrightarrow> (\<And>n. contained (b' n)) \<Longrightarrow> (\<And>t. contained (c t)) \<Longrightarrow> (\<And>l. contained (d l)) \<Longrightarrow>
     contained (case w of PNone \<Rightarrow> a | PInt n \<Rightarrow> b' n | PStr t \<Rightarrow> c t | PList l \<Rightarrow> d l)"
  by (auto split: option.splits pyval.splits)

lemma contained_options [contained_intro]: "contained (intoptM k)" "contained (fail code stop)"
  unfolding intoptM_def fail_def
  by (auto simp: lost_def py_int_def intro!: contained_intro split: option.splits pyval.splits)

lemma contained_login [contained_intro]: "contained (fence_login X time_start L)"
proof -
  have "contained (run_delay time_start 0 0)" by (auto simp: run_delay_def Let_def intro!: contained_intro)
  moreover have "contained prepare_login" by (auto simp: prepare_login_def intro!: contained_intro)
  ultimately show ?thesis
    by (auto simp: fence_login_def login_denied_def lost_def intro!: contained_intro split: exn.splits)
qed

lemma contained_action [contained_intro]: "contained (fence_action fuel F)"
  by (auto simp: fence_action_def fence_handler_def lost_def intro!: contained_intro split: exn.splits)

lemma contained_logout [contained_intro]: "contained (fence_logout X t d)"
  by (auto simp: fence_logout_def lost_def intro!: contained_intro split: exn.splits)

section \<open>A whole session\<close>

lemma operate_stages:
  assumes F: "fns_exit_1 F"
    and run: "operate X time_start L (retM ()) (fence_action fuel F) bye s = (Exit c, s')"
  shows "c = 1 \<or> (\<exists>s1 s2. fence_login X time_start L s = (Ret (), s1) \<and> fence_action fuel F s1 = (Ret c, s2))"
proof -
  have "exits_1 (fence_login X time_start L)" "exits_1 (fence_logout X bye 0)" by (rule exits_1_login)+
  moreover have "exits_1 (fence_action fuel F)" by (rule exits_1_fence_action [OF F])
  ultimately have
    "fence_login X time_start L s = (Exit c, s1) \<Longrightarrow> c = 1"
    "fence_logout X bye 0 s1 = (Exit c, s2) \<Longrightarrow> c = 1"
    "fence_action fuel F s1 = (Exit c, s2) \<Longrightarrow> c = 1" for s1 s2
    unfolding exits_1_def by blast+
  with run show ?thesis by (fastforce simp: operate_def exit_iff ret_iff)
qed

lemma operate_contained: "contained (operate X time_start L (retM ()) (fence_action fuel F) bye)"
  by (auto simp: operate_def intro!: contained_intro)

lemma operate_not_Ret: "operate X time_start L opening act bye s \<noteq> (Ret u, s')"
  by (auto simp: operate_def ret_iff)

end
