(* ===== verification/Session_Guarantees.thy ===== *)
theory Session_Guarantees
  imports Fence_Guarantees Session_Props Session_Exits
begin

text \<open>
  The properties of the session agents. The witnesses run them against simulated peers: a
  management card or a host that answers each line it is sent and shows its prompt again.
\<close>

section \<open>A simulated peer\<close>

text \<open>
  The peer computes its answer when a line is sent; whatever is waited for, the answer is before
  the match and the prompt is what is matched.
\<close>

definition simulated :: "(string \<Rightarrow> 'm \<Rightarrow> string \<times> 'm) \<Rightarrow> ('m \<times> string) pexpect" where
  "simulated react = \<lparr>
     px_spawn = (\<lambda>c d. (Ans (), 0, d)),
     px_send = (\<lambda>t (m, out). (Ans (), 0, case react t m of (text, m') \<Rightarrow> (m', text))),
     px_expect = (\<lambda>ps limit (m, out). (Ans (0, out, Some ''# ''), 0, (m, []))),
     px_read = (\<lambda>n limit (m, out). (Ans out, 0, (m, []))),
     px_readline = (\<lambda>(m, out). (Ans out, 0, (m, []))),
     px_close = (\<lambda>d. (Ans (), 0, d))\<rparr>"

definition session_opts :: "string \<Rightarrow> string \<Rightarrow> pydict" where
  "session_opts action plug = [''--action'' \<mapsto> PStr action, ''--plug'' \<mapsto> PStr plug, ''--plug-separator'' \<mapsto> PStr '','',
     ''--ip'' \<mapsto> PStr ''card'', ''--username'' \<mapsto> PStr ''root'', ''--password'' \<mapsto> PStr ''x'', ''--ssh'' \<mapsto> PStr ''1'',
     ''--ssh-path'' \<mapsto> PStr ''ssh'', ''--ssh-options'' \<mapsto> PStr [], ''--ipport'' \<mapsto> PStr ''22'',
     ''--command-prompt'' \<mapsto> PList [''# ''], ''eol'' \<mapsto> PStr nl, ''--login-timeout'' \<mapsto> PStr ''5'',
     ''--shell-timeout'' \<mapsto> PStr ''3'', ''--power-timeout'' \<mapsto> PStr ''2'', ''--delay'' \<mapsto> PStr ''0'',
     ''--power-wait'' \<mapsto> PStr ''0'', ''--stonith-status-sleep'' \<mapsto> PStr ''1'', ''--retry-on'' \<mapsto> PStr ''1'',
     ''device_opt'' \<mapsto> PList [''port'', ''secure'']]"

definition session_st :: "string \<Rightarrow> string \<Rightarrow> 'm \<Rightarrow> ('m \<times> string) session st" where
  "session_st action plug m = \<lparr>opts = session_opts action plug, outp = [], errs = [], clock = 0,
     world = \<lparr>peer = (m, []), conn_before = [], conn_after = None, sent = []\<rparr>\<rparr>"

definition alom_card :: "string \<Rightarrow> bool \<Rightarrow> string \<times> bool" where
  \<comment> \<open>a system controller of a machine that is on or off\<close>
  "alom_card line on =
     (if py_startswith ''showplatform'' line then (if on then ''Status: Running'' else ''Status: Standby'', on)
      else if py_startswith ''poweron'' line then ([], True)
      else if py_startswith ''poweroff'' line then ([], False)
      else ([], on))"

lemma talk_agent_reads: "a \<in> set (talk_agents X) \<Longrightarrow> reads a"
  using console_reads blade_reads virsh_reads vbox_reads host_reads switch_reads
  by (auto simp: talk_agents_def)


section \<open>Asking for the status\<close>

text \<open>
  C17. Asking for the status changes nothing: whatever the device answers, whether the
  connection is lost or never answers, each text that one of the session agents sends during the action "status"
  is one of the queries of that agent, and none of the texts that switch a machine.
\<close>

theorem status_only_asks:
  assumes "(F, qs) \<in> set (talk_agents X)"
    and "opts s ''--action'' = Some (PStr ''status'')"
    and "fence_action fuel F s = (r, s')"
  shows "\<exists>ms. sent (world s') = sent (world s) @ ms \<and> list_all (asks qs) ms"
proof -
  from talk_agent_reads [OF assms(1)] obtain m where m: "get_power_fn F = Some m" "sends (asks qs) m" "steady m"
    by (auto simp: reads_def)
  then have "fence_action fuel (read_only F) s = (r, s')"
    using status_read_only [OF _ assms(2), of F] assms(3) steady_agrees [OF m(3)] by simp
  with alwaysD [OF sends_status] m show ?thesis by (force simp: sent_rel_def)
qed

theorem status_only_asks_witness:
  "\<exists>s' ms. fence_action 3 (fns_alom (simulated alom_card)) (session_st ''status'' ''1'' False) = (Ret 2, s') \<and>
     sent (world s') = ms \<and> list_all (asks [Starts ''showplatform'']) ms"
proof -
  have "fst (fence_action 3 (fns_alom (simulated alom_card)) (session_st ''status'' ''1'' False)) = Ret 2" by code_simp
  note run = run_pair [OF this]
  have "(fns_alom X, [Starts ''showplatform'']) \<in> set (talk_agents X)" for X :: "'d pexpect" by (simp add: talk_agents_def)
  from status_only_asks [OF this _ run] run show ?thesis by (auto simp: session_st_def session_opts_def)
qed

section \<open>How a session ends\<close>



section \<open>Outlets read once\<close>

text \<open>
  The callbacks of fence\_raritan\_px3 meet the contract of the library in a weak sense only: what
  they tell about an outlet is what was stored at the start of the session.
\<close>

definition px3_status :: "px3 \<Rightarrow> string option" where
  \<comment> \<open>the state stored for the outlet or the group that was asked for\<close>
  "px3_status g =
     (if truthy (px3_plug g) then map_option (\<lambda>(_, state). py_lower state) (map_of (outlets g) (py_str (px3_plug g)))
      else (case px3_group g of None \<Rightarrow> None | Some no \<Rightarrow> map_option (\<lambda>(_, state). py_lower state) (map_of (outletgroups g) no)))"

definition vars_rel :: "('d, 'g) conn_world st \<Rightarrow> ('d, 'g) conn_world st \<Rightarrow> bool" where
  "vars_rel s s' \<longleftrightarrow> vars (world s') = vars (world s) \<and> agree (opts s) (opts s')"

interpretation kept: run_relation "vars_rel :: ('d, 'g) conn_world st \<Rightarrow> _"
  by unfold_locales (auto simp: vars_rel_def intro: agree_trans)

lemma kept_on_conn [always_intro]: "steady m \<Longrightarrow> always vars_rel (on_conn m)"
  by (fastforce simp: always_def on_conn_def vars_rel_def agree_rel_def split: prod.splits)

lemma kept_prims [always_intro]: "always vars_rel (varM f)" "always vars_rel (printM t)"
  by (auto simp: always_def vars_rel_def varM_def run_prims)

lemma kept_px3: "always vars_rel (set_power_status_px3 X)" "always vars_rel get_power_status_px3"
  unfolding set_power_status_px3_def get_power_status_px3_def by_action_def
  by (auto intro!: always_intro split: option.splits prod.splits pyval.splits)

lemma px3_device:
  "power_device get_power_status_px3 (\<lambda>s. vars (world s) = g) (\<lambda>s p. px3_status g)
     (set_power_status_px3 X :: ('d, unit) px3_prog)"
proof unfold_locales
  fix s s' :: "('d, px3) conn_world st" and r
  assume run: "get_power_status_px3 s = (Ret r, s')"
  from alwaysD [OF kept_px3(2) run] show "agree (opts s) (opts s')" by (simp add: vars_rel_def)
  assume g: "vars (world s) = g"
  from alwaysD [OF kept_px3(2) run] g show "vars (world s') = g" by (simp add: vars_rel_def)
  from run g show "r = px3_status g" for p
    by (auto simp: get_power_status_px3_def px3_status_def varM_def ret_iff split: if_splits option.splits)
next
  fix s s' :: "('d, px3) conn_world st" and u
  assume "set_power_status_px3 X s = (Ret u, s')"
  from alwaysD [OF kept_px3(1) this] show "agree (opts s) (opts s')" "vars (world s) = g \<Longrightarrow> vars (world s') = g"
    by (simp_all add: vars_rel_def)
qed simp_all

text \<open>
  C28. An off by fence\_raritan\_px3 is never confirmed: the status callback answers from what was
  read before the action, so that when the outlet was on at that time, \<open>fence_action\<close> does not
  return from off, whatever the device does.
\<close>

theorem px3_off_never_confirmed:
  assumes "opts s ''--action'' = Some (PStr ''off'')"
    and "plugs_of (split_opts (opts s)) = Some ps" "ps \<noteq> []"
    and "px3_status (vars (world s)) = Some ''on''"
  shows "fence_action fuel (fns_px3 X) s \<noteq> (Ret r, s')"
proof
  assume run: "fence_action fuel (fns_px3 X) s = (Ret r, s')"
  have F: "get_power_fn (fns_px3 X) = Some get_power_status_px3" "set_power_fn (fns_px3 X) = Some (set_power_status_px3 X)"
    by (simp_all add: fns_px3_def)
  from power_device.off_confirmed_aux [OF px3_device [of "vars (world s)"] F assms(1) run assms(2)] assms(3,4)
  show False by (cases ps) auto
qed

definition px3_pdu :: "string \<Rightarrow> bool \<Rightarrow> string \<times> bool" where
  "px3_pdu line on = ([], if py_startswith ''power outlets 1 off'' line then False else on)"

definition px3_st :: "string \<Rightarrow> (bool \<times> string, px3) conn_world st" where
  "px3_st action = with_world \<lparr>conn = world (session_st action ''1'' True), vars = \<lparr>outlets = [(''1'', [], ''On'')],
     px3_plug = PInt 1, outletgroups = [], px3_group = None\<rparr>\<rparr> (session_st action ''1'' True)"

theorem px3_off_never_confirmed_witness:
  "fst (fence_action 3 (fns_px3 (simulated px3_pdu)) (px3_st ''off'')) = Exit 1 \<and>
   (\<forall>r s'. fence_action 3 (fns_px3 (simulated px3_pdu)) (px3_st ''off'') \<noteq> (Ret r, s'))"
proof
  show "fst (fence_action 3 (fns_px3 (simulated px3_pdu)) (px3_st ''off'')) = Exit 1" by code_simp
  have "opts (px3_st ''off'') ''--action'' = Some (PStr ''off'')" by (simp add: px3_st_def session_st_def session_opts_def)
  moreover have "plugs_of (split_opts (opts (px3_st ''off''))) = Some [''1'']" by code_simp
  moreover have "px3_status (vars (world (px3_st ''off''))) = Some ''on''" by code_simp
  ultimately show "\<forall>r s'. fence_action 3 (fns_px3 (simulated px3_pdu)) (px3_st ''off'') \<noteq> (Ret r, s')"
    using px3_off_never_confirmed by fastforce
qed

section \<open>Several machines of one host\<close>



end
