(* ===== verification/Run_Commands.thy ===== *)
theory Run_Commands
  imports Run_Command "HOL-Library.Multiset"
begin

text \<open>
  \<open>lib/fencing.py.py\<close>: \<open>run_commands\<close>, which starts several programs at once and waits until they
  have ended, until a majority of them has succeeded, or until the timeout is over.

  What a program does when it is started is a parameter, as for \<open>run_command\<close>. The processes are
  kept in sets, so two more things are parameters: the order in which Python walks over a set of
  processes (\<open>order\<close>), and the time that one turn of the waiting loop takes beside the waiting
  itself (\<open>tick\<close>, a positive number of seconds). The loop need not end without a timeout, so it
  runs on fuel.
\<close>

section \<open>The processes\<close>

record job =
  proc_of :: proc
  ends :: "rat option"      \<comment> \<open>when it ends on the clock of the agent; None if it never does\<close>

definition commands_timeout :: "pyval option \<Rightarrow> pydict \<Rightarrow> rat option outcome" where
  \<comment> \<open>the number 0 stands for no timeout, a text that reads as 0 does not\<close>
  "commands_timeout timeout od =
     (case (case timeout of None \<Rightarrow> od ''--power-timeout'' | Some PNone \<Rightarrow> od ''--power-timeout'' | t \<Rightarrow> t) of
        None \<Rightarrow> Ret None
      | Some PNone \<Rightarrow> Ret None
      | Some v \<Rightarrow> if v = PInt 0 then Ret None else map_outcome Some (py_float_val v))"

definition check_gone :: "rat \<Rightarrow> job \<Rightarrow> ('w, bool) prog" where
  \<comment> \<open>wait for a process at most \<open>timeout\<close> seconds; did it end?\<close>
  "check_gone timeout j =
     bindM (getM clock) (\<lambda>now. case ends j of
        None \<Rightarrow> seqM (passM timeout) (retM False)
      | Some e \<Rightarrow> if e \<le> now + timeout then seqM (passM (max 0 (e - now))) (retM True)
                  else seqM (passM timeout) (retM False))"

definition is_over :: "rat option \<Rightarrow> rat \<Rightarrow> rat \<Rightarrow> bool" where
  \<comment> \<open>\<open>timeout is not None\<close> and \<open>time.time()-time_start >= timeout\<close>\<close>
  "is_over limit time_start now \<longleftrightarrow> (case limit of None \<Rightarrow> False | Some t \<Rightarrow> now - time_start \<ge> t)"

fun sweep :: "rat option \<Rightarrow> rat \<Rightarrow> rat \<Rightarrow> job list \<Rightarrow> ('w, job list \<times> job list) prog" where
  \<comment> \<open>the loop over the processes that run: those that still do, and those that have ended\<close>
  "sweep limit time_start max_timeout [] = retM ([], [])"
| "sweep limit time_start max_timeout (j # js) =
     bindM (getM clock) (\<lambda>now.
     let m = (if is_over limit time_start now then 0 else max_timeout) in
     bindM (check_gone m j) (\<lambda>ended.
     bindM (sweep limit time_start m js) (\<lambda>(alive, gone).
       retM (if ended then (alive, j # gone) else (j # alive, gone)))))"

definition quorate :: "nat \<Rightarrow> job list \<Rightarrow> job list \<Rightarrow> bool" where
  \<comment> \<open>a positive result from more than half\<close>
  "quorate n gone alive \<longleftrightarrow> length gone > length alive \<and> 2 * length (filter (\<lambda>j. exit_code (proc_of j) = 0) gone) > n"

primrec race ::
  "(job list \<Rightarrow> job list) \<Rightarrow> rat \<Rightarrow> rat option \<Rightarrow> rat \<Rightarrow> nat \<Rightarrow> nat \<Rightarrow> job list \<Rightarrow> job list
   \<Rightarrow> ('w, job list \<times> job list) prog" where
  \<comment> \<open>the processes that have ended and those that have not when the waiting is over\<close>
  "race order tick limit time_start n 0 gone alive = runningM"
| "race order tick limit time_start n (Suc fuel) gone alive =
     seqM (passM tick)
    (bindM (if alive = [] then retM ([], [])
            else sweep limit time_start (2 / of_nat (length alive)) (order alive)) (\<lambda>(still, ended).
     if still = [] then retM (gone @ ended, [])
     else bindM (getM clock) (\<lambda>now.
       if now - time_start < 5 then race order tick limit time_start n fuel (gone @ ended) still
       else if quorate n (gone @ ended) still then retM (gone @ ended, still)
       else if is_over limit time_start now then retM (gone @ ended, still)
       else race order tick limit time_start n fuel (gone @ ended) still)))"

definition best_status :: "job list \<Rightarrow> int option" where
  \<comment> \<open>the loop over the processes that have ended\<close>
  "best_status gone = fold (\<lambda>j status. if status \<noteq> Some 0 then Some (exit_code (proc_of j)) else status) gone None"

definition spawn_all :: "(string list \<Rightarrow> ('w, proc option) prog) \<Rightarrow> string list \<Rightarrow> ('w, job list) prog" where
  "spawn_all spawn commands = foldM (\<lambda>jobs command.
     bindM (liftM (shlex_split command)) (\<lambda>args.
     bindM (spawn args) (\<lambda>r. case r of
         None \<Rightarrow> seqM (fail_usage (''Unable to run '' @ command @ nl) True) (raiseM (OSErr command))
       | Some p \<Rightarrow> bindM (getM clock) (\<lambda>now.
           retM (jobs @ [\<lparr>proc_of = p, ends = map_option (\<lambda>d. now + d) (takes p)\<rparr>]))))) [] commands"

definition run_commands ::
  "(string list \<Rightarrow> ('w, proc option) prog) \<Rightarrow> (job list \<Rightarrow> job list) \<Rightarrow> rat \<Rightarrow> nat \<Rightarrow> pyval option \<Rightarrow> string list
   \<Rightarrow> ('w, int \<times> string \<times> string) prog" where
  "run_commands spawn order tick fuel timeout commands =
     bindM (getM opts) (\<lambda>od.
     bindM (liftM (commands_timeout timeout od)) (\<lambda>limit.
     bindM (getM clock) (\<lambda>time_start.
     bindM (spawn_all spawn commands) (\<lambda>procs.
     bindM (race order tick limit time_start (length procs) fuel [] procs) (\<lambda>(gone, alive).
       case best_status (order gone) of
         Some status \<Rightarrow> retM (status, concat (map (stdout \<circ> proc_of) (order gone)), concat (map (stderr \<circ> proc_of) (order gone)))
       | None \<Rightarrow>
           bindM (getM opts) (\<lambda>od'.
           bindM (liftM (case od' ''retry'' of None \<Rightarrow> Ret 0 | Some v \<Rightarrow> py_int v)) (\<lambda>retry.
           seqM (fail EC_TIMED_OUT (retry < 1)) (retM (EC_TIMED_OUT, [], ''timed out'')))))))))"

section \<open>The waiting loop\<close>

lemma passM_run: "passM d s = (Ret (), s\<lparr>clock := clock s + d\<rparr>)"
  by (simp add: passM_def run_prims)

lemma check_gone_run:
  assumes "0 \<le> m"
  obtains ended c where "check_gone m j s = (Ret ended, s\<lparr>clock := c\<rparr>)" and "clock s \<le> c"
    and "ended \<Longrightarrow> \<exists>e. ends j = Some e \<and> e \<le> c"
proof (cases "\<exists>e. ends j = Some e \<and> e \<le> clock s + m")
  case True
  then obtain e where e: "ends j = Some e" "e \<le> clock s + m" by blast
  show thesis
    by (rule that [of True "clock s + max 0 (e - clock s)"]) (use e in \<open>simp_all add: check_gone_def bindM_def run_prims passM_run\<close>)
next
  case False
  show thesis
    by (rule that [of False "clock s + m"])
      (use False assms in \<open>auto simp: check_gone_def bindM_def run_prims passM_run split: option.splits\<close>)
qed

definition have_ended :: "rat \<Rightarrow> job list \<Rightarrow> bool" where
  "have_ended now js \<longleftrightarrow> (\<forall>j\<in>set js. \<exists>e. ends j = Some e \<and> e \<le> now)"

lemma have_ended_simps [simp]:
  "have_ended now []" "have_ended now (js @ ks) \<longleftrightarrow> have_ended now js \<and> have_ended now ks"
  "have_ended now (j # js) \<longleftrightarrow> (\<exists>e. ends j = Some e \<and> e \<le> now) \<and> have_ended now js"
  by (auto simp: have_ended_def)

lemma have_ended_mono: "have_ended a js \<Longrightarrow> a \<le> b \<Longrightarrow> have_ended b js"
  by (fastforce simp: have_ended_def)

lemma sweep_run:
  assumes "0 \<le> m"
  shows "\<exists>alive gone c. sweep limit time_start m js s = (Ret (alive, gone), s\<lparr>clock := c\<rparr>) \<and> clock s \<le> c \<and>
     mset alive + mset gone = mset js \<and> have_ended c gone"
  using assms
proof (induction js arbitrary: m s)
  case Nil
  then show ?case by (auto simp: run_prims intro!: exI [of _ "clock s"])
next
  case (Cons j js)
  define m' where "m' = (if is_over limit time_start (clock s) then 0 else m)"
  have m': "0 \<le> m'" using Cons.prems by (simp add: m'_def)
  obtain ended c where 1: "check_gone m' j s = (Ret ended, s\<lparr>clock := c\<rparr>)" "clock s \<le> c"
    "ended \<Longrightarrow> \<exists>e. ends j = Some e \<and> e \<le> c" using check_gone_run [OF m'] by blast
  obtain alive gone d where 2: "sweep limit time_start m' js (s\<lparr>clock := c\<rparr>) = (Ret (alive, gone), s\<lparr>clock := d\<rparr>)" "c \<le> d"
    "mset alive + mset gone = mset js" "have_ended d gone" using Cons.IH [OF m', of "s\<lparr>clock := c\<rparr>"] by auto
  have "sweep limit time_start m (j # js) s =
      (Ret (if ended then (alive, j # gone) else (j # alive, gone)), s\<lparr>clock := d\<rparr>)"
    using 1(1) 2(1) by (simp add: bindM_def run_prims m'_def Let_def)
  moreover have "ended \<Longrightarrow> \<exists>e. ends j = Some e \<and> e \<le> d" using 1(3) 2(2) by fastforce
  ultimately show ?case using 1(2) 2(2-4)
    by (intro exI [of _ "if ended then alive else j # alive"] exI [of _ "if ended then j # gone else gone"] exI [of _ d]) auto
qed

definition settled :: "rat option \<Rightarrow> rat \<Rightarrow> nat \<Rightarrow> rat \<Rightarrow> job list \<Rightarrow> job list \<Rightarrow> bool" where
  \<comment> \<open>why the waiting is over at a given time\<close>
  "settled limit time_start n now gone alive \<longleftrightarrow> alive = [] \<or>
     (now - time_start \<ge> 5 \<and> (quorate n gone alive \<or> is_over limit time_start now))"

lemma race_turn:
  assumes order: "\<And>js. mset (order js) = mset js" and "0 \<le> tick"
  obtains still ended c where
    "race order tick limit time_start n (Suc fuel) gone alive s =
       (if settled limit time_start n c (gone @ ended) still then (Ret (gone @ ended, still), s\<lparr>clock := c\<rparr>)
        else race order tick limit time_start n fuel (gone @ ended) still (s\<lparr>clock := c\<rparr>))"
    and "clock s + tick \<le> c" and "mset still + mset ended = mset alive" and "have_ended c ended"
proof -
  define t where "t = s\<lparr>clock := clock s + tick\<rparr>"
  have "0 \<le> (2 :: rat) / of_nat (length alive)" by simp
  from sweep_run [OF this, of limit time_start "order alive" t] order
  obtain still ended c where *: "(if alive = [] then retM ([], [])
        else sweep limit time_start (2 / of_nat (length alive)) (order alive)) t = (Ret (still, ended), s\<lparr>clock := c\<rparr>)"
    "clock s + tick \<le> c" "mset still + mset ended = mset alive" "have_ended c ended"
    by (cases "alive = []") (auto simp: t_def run_prims intro: that)
  show thesis
    by (rule that [OF _ *(2-)])
      (use *(1) in \<open>auto simp: bindM_def passM_run t_def [symmetric] run_prims settled_def\<close>)
qed

lemma race_Ret:
  assumes order: "\<And>js. mset (order js) = mset js" and tick: "0 \<le> tick"
    and "race order tick limit time_start n fuel gone alive s = (Ret (gone', alive'), s')" and "have_ended (clock s) gone"
  shows "mset gone' + mset alive' = mset gone + mset alive \<and> have_ended (clock s') gone' \<and>
     settled limit time_start n (clock s') gone' alive' \<and> opts s' = opts s"
  using assms(3,4)
proof (induction fuel arbitrary: gone alive s)
  case 0
  then show ?case by (simp add: run_prims)
next
  case (Suc fuel)
  obtain still ended c where *: "race order tick limit time_start n (Suc fuel) gone alive s =
       (if settled limit time_start n c (gone @ ended) still then (Ret (gone @ ended, still), s\<lparr>clock := c\<rparr>)
        else race order tick limit time_start n fuel (gone @ ended) still (s\<lparr>clock := c\<rparr>))"
    "clock s + tick \<le> c" "mset still + mset ended = mset alive" "have_ended c ended"
    by (rule race_turn [OF order tick])
  have h: "have_ended c (gone @ ended)" using Suc.prems(2) *(2,4) tick have_ended_mono [of "clock s" gone c] by simp
  show ?case
  proof (cases "settled limit time_start n c (gone @ ended) still")
    case True
    with *(1) Suc.prems(1) have "gone' = gone @ ended" "alive' = still" "s' = s\<lparr>clock := c\<rparr>" by auto
    with True h *(3) show ?thesis by (simp add: ac_simps)
  next
    case False
    with *(1) Suc.prems(1) have "race order tick limit time_start n fuel (gone @ ended) still (s\<lparr>clock := c\<rparr>) = (Ret (gone', alive'), s')"
      by simp
    from Suc.IH [OF this] h *(3) show ?thesis by (simp add: ac_simps)
  qed
qed

lemma race_state:
  assumes order: "\<And>js. mset (order js) = mset js" and tick: "0 \<le> tick"
    and "race order tick limit time_start n fuel gone alive s = (r, s')"
  shows "s' = s\<lparr>clock := clock s'\<rparr>"
  using assms(3)
proof (induction fuel arbitrary: gone alive s)
  case 0
  then show ?case by (simp add: run_prims)
next
  case (Suc fuel)
  obtain still ended c where *: "race order tick limit time_start n (Suc fuel) gone alive s =
       (if settled limit time_start n c (gone @ ended) still then (Ret (gone @ ended, still), s\<lparr>clock := c\<rparr>)
        else race order tick limit time_start n fuel (gone @ ended) still (s\<lparr>clock := c\<rparr>))"
    by (rule race_turn [OF order tick])
  show ?case
  proof (cases "settled limit time_start n c (gone @ ended) still")
    case False
    with * Suc.prems have "race order tick limit time_start n fuel (gone @ ended) still (s\<lparr>clock := c\<rparr>) = (r, s')" by simp
    from Suc.IH [OF this] show ?thesis by simp
  qed (use * Suc.prems in auto)
qed

lemma race_ends:
  assumes order: "\<And>js. mset (order js) = mset js" and tick: "0 < tick"
    and "0 < fuel" and "time_start + max 5 t \<le> clock s + of_nat fuel * tick"
  shows "\<exists>r s'. race order tick (Some t) time_start n fuel gone alive s = (Ret r, s')"
  using assms(3,4)
proof (induction fuel arbitrary: gone alive s)
  case 0
  then show ?case by simp
next
  case (Suc fuel)
  obtain still ended c where *: "race order tick (Some t) time_start n (Suc fuel) gone alive s =
       (if settled (Some t) time_start n c (gone @ ended) still then (Ret (gone @ ended, still), s\<lparr>clock := c\<rparr>)
        else race order tick (Some t) time_start n fuel (gone @ ended) still (s\<lparr>clock := c\<rparr>))"
    "clock s + tick \<le> c" by (rule race_turn [OF order less_imp_le [OF tick]])
  show ?case
  proof (cases "settled (Some t) time_start n c (gone @ ended) still")
    case False
    then have c: "c - time_start < max 5 t" by (auto simp: settled_def is_over_def)
    have enough: "time_start + max 5 t \<le> c + of_nat fuel * tick" using Suc.prems(2) *(2) by (simp add: algebra_simps)
    with c tick have "0 < fuel" by (cases fuel) auto
    from Suc.IH [OF this] enough *(1) False show ?thesis by simp
  qed (use *(1) in simp)
qed

abbreviation keep_best :: "job \<Rightarrow> int option \<Rightarrow> int option" where
  "keep_best j status \<equiv> (if status \<noteq> Some 0 then Some (exit_code (proc_of j)) else status)"

lemma best_status:
  "best_status gone = None \<longleftrightarrow> gone = []" "best_status gone = Some 0 \<longleftrightarrow> (\<exists>j\<in>set gone. exit_code (proc_of j) = 0)"
proof -
  have 0: "fold keep_best js st = Some 0 \<longleftrightarrow> st = Some 0 \<or> (\<exists>j\<in>set js. exit_code (proc_of j) = 0)" for js st
    by (induction js arbitrary: st) auto
  have n: "fold keep_best js st = None \<longleftrightarrow> st = None \<and> js = []" for js st
    by (induction js arbitrary: st) auto
  show "best_status gone = Some 0 \<longleftrightarrow> (\<exists>j\<in>set gone. exit_code (proc_of j) = 0)"
    unfolding best_status_def 0 by simp
  show "best_status gone = None \<longleftrightarrow> gone = []" unfolding best_status_def n by simp
qed

end
