(* ===== verification/Fence_Sbd.thy ===== *)
theory Fence_Sbd
  imports Agent_Main Run_Commands Py_Regex "HOL-Library.AList"
begin

text \<open>
  \<open>agents/sbd/fence_sbd.py\<close>: fencing by messages ("poison pills") in the slots of shared storage
  devices. The program sbd and the devices it works on are a parameter (\<open>'d tools\<close>), with the
  order in which Python walks over a set of processes and the time a turn of the waiting loop of
  \<open>run_commands\<close> takes; the files that the agent looks at are another (\<open>sbd_files\<close>).
\<close>

section \<open>Parameters\<close>

record 'd runner =
  sbd_tool :: "'d tools"
  set_walk :: "job list \<Rightarrow> job list"
  turn_time :: rat
  turns :: nat               \<comment> \<open>fuel of the waiting loop\<close>

datatype signal_answer = Delivered | NoSuchProcess | Refused string

record sbd_files =
  path_exists :: "string \<Rightarrow> bool"
  block_device :: "string \<Rightarrow> bool"               \<comment> \<open>\<open>os.lstat\<close> works and tells of a block device\<close>
  link_target :: "string \<Rightarrow> string option"       \<comment> \<open>\<open>os.lstat\<close> works and tells of a link\<close>
  pid_file :: "string outcome option"                \<comment> \<open>the text of the PID file or what reading it raises; None if there is none\<close>
  signal_0 :: "int \<Rightarrow> signal_answer"             \<comment> \<open>\<open>os.kill(pid, 0)\<close>\<close>

definition race_commands :: "'d runner \<Rightarrow> string list \<Rightarrow> ('d, int \<times> string \<times> string) prog" where
  "race_commands R cmds = run_commands (start (sbd_tool R)) (set_walk R) (turn_time R) (turns R) None cmds"

section \<open>Devices\<close>

definition DEVICE_INIT :: int where "DEVICE_INIT = 1"
definition DEVICE_NOT_INIT :: int where "DEVICE_NOT_INIT = -3"
definition PATH_NOT_EXISTS :: int where "PATH_NOT_EXISTS = -1"
definition PATH_NOT_BLOCK :: int where "PATH_NOT_BLOCK = -2"

definition device_after_link :: "sbd_files \<Rightarrow> string \<Rightarrow> string" where
  "device_after_link E path = (case link_target E path of None \<Rightarrow> path | Some t \<Rightarrow> path_join (dirname path) t)"

definition check_sbd_device :: "'d runner \<Rightarrow> sbd_files \<Rightarrow> string \<Rightarrow> ('d, int) prog" where
  "check_sbd_device R E device_path =
     (if \<not> path_exists E device_path then retM PATH_NOT_EXISTS
      else let path = device_after_link E device_path in
        if \<not> block_device E path then retM PATH_NOT_BLOCK
        else bindM (stroptM ''--sbd-path'') (\<lambda>sbd.
             bindM (race_commands R [sbd @ '' -d '' @ path @ '' dump'']) (\<lambda>(_, out_text, err_text).
               retM (if list_ex (py_in ''NOT dumped'') (py_split nl out_text @ py_split nl err_text)
                     then DEVICE_NOT_INIT else DEVICE_INIT))))"

definition parse_sbd_devices :: "('w, string list) prog" where
  "parse_sbd_devices = bindM (stroptM ''--devices'') (\<lambda>t. retM (map py_strip (py_split '','' t)))"

section \<open>Commands\<close>

definition arguments_text :: "string option \<Rightarrow> string" where
  \<comment> \<open>\<open>arguments\<close> formatted with \<open>%s\<close>\<close>
  "arguments_text a = (case a of None \<Rightarrow> ''None'' | Some t \<Rightarrow> t)"

definition generate_sbd_command :: "string \<Rightarrow> string option \<Rightarrow> ('w, string list) prog" where
  "generate_sbd_command cmd arguments =
     bindM (stroptM ''--sbd-path'') (\<lambda>sbd.
     bindM parse_sbd_devices (\<lambda>devices.
     let tail = '' '' @ cmd @ '' '' @ arguments_text arguments in
       retM (if cmd \<notin> {''list'', ''dump''} then [sbd @ concat (map (\<lambda>d. '' -d '' @ d) devices) @ tail]
             else map (\<lambda>d. sbd @ '' -d '' @ d @ tail) devices)))"

definition send_sbd_message :: "'d runner \<Rightarrow> string \<Rightarrow> string \<Rightarrow> ('d, int \<times> string \<times> string) prog" where
  "send_sbd_message R plug message =
     bindM (generate_sbd_command ''message'' (Some (plug @ '' '' @ message))) (race_commands R)"

definition sbd_timeout :: "string \<Rightarrow> int \<Rightarrow> ('w, int) prog" where
  \<comment> \<open>the larger of a timeout and the one in a line; a difference is only a warning\<close>
  "sbd_timeout line old = (case py_split '':'' line of
      _ # t # _ \<Rightarrow> bindM (liftM (py_int (PStr t))) (\<lambda>n. retM (max old n))
    | _ \<Rightarrow> raiseM (IndexError ''list index out of range''))"

definition header_line :: "int \<times> int \<Rightarrow> string \<Rightarrow> ('w, int \<times> int) prog" where
  "header_line found_times line = (case found_times of (msg, watchdog) \<Rightarrow>
     if py_in ''msgwait'' line then bindM (sbd_timeout line msg) (\<lambda>n. retM (n, watchdog))
     else if py_in ''watchdog'' line then bindM (sbd_timeout line watchdog) (\<lambda>n. retM (msg, n))
     else retM found_times)"

definition get_sbd_header_timeout :: "'d runner \<Rightarrow> ('d, int \<times> int) prog" where
  "get_sbd_header_timeout R =
     bindM (generate_sbd_command ''dump'' None) (\<lambda>cmds.
     bindM (race_commands R cmds) (\<lambda>(_, out_text, err_text).
       foldM header_line (-1, -1) (py_split nl out_text @ py_split nl err_text)))"

definition crashdump_re :: re where
  "crashdump_re = Seq (Lit ''-C'') (Seq (Plus Spc) (Grp 1 (Plus Dig)))"

definition get_crashdump_timeout :: "(string \<rightharpoonup> string) \<Rightarrow> int outcome" where
  \<comment> \<open>used in a warning only\<close>
  "get_crashdump_timeout env = (case env ''SBD_OPTS'' of
      None \<Rightarrow> Ret (-1)
    | Some sbd_opts \<Rightarrow> (case re_search crashdump_re sbd_opts of
        None \<Rightarrow> Ret (-1)
      | Some m \<Rightarrow> py_int (PStr (group 1 m))))"

section \<open>Callbacks\<close>

definition plug_textM :: "('w, string) prog" where
  "plug_textM = bindM (optM ''--plug'') (\<lambda>v. retM (py_str v))"

definition sbd_log :: "int \<times> string \<times> string \<Rightarrow> ('w, unit) prog" where
  "sbd_log r = (case r of (rc, out_text, err_text) \<Rightarrow>
     if rc \<noteq> 0 then
       seqM (logM (''sending message to sbd device(s)                 failed with return code '' @ show_int rc))
      (seqM (logM (''DETAIL: output on stdout was \"'' @ out_text @ ''\"''))
            (logM (''DETAIL: output on stderr was \"'' @ err_text @ ''\"'')))
     else retM ())"

definition set_power_status_sbd :: "'d runner \<Rightarrow> ('d, unit) prog" where
  \<comment> \<open>what it returns is not used\<close>
  "set_power_status_sbd R =
     bindM (optM ''--action'') (\<lambda>action.
     bindM plug_textM (\<lambda>plug.
     bindM (hasoptM ''--crashdump'') (\<lambda>crashdump.
     bindM (if action = PStr ''on'' then send_sbd_message R plug ''clear''
            else if action = PStr ''off'' then send_sbd_message R plug (if crashdump then ''crashdump'' else ''off'')
            else if action = PStr ''reboot'' then send_sbd_message R plug (if crashdump then ''crashdump'' else ''reset'')
            else retM (99, [], [])) sbd_log)))"

definition reboot_cycle_sbd :: "'d runner \<Rightarrow> ('d, bool) prog" where
  "reboot_cycle_sbd R =
     bindM plug_textM (\<lambda>plug.
     bindM (hasoptM ''--crashdump'') (\<lambda>crashdump.
     bindM (send_sbd_message R plug (if crashdump then ''crashdump'' else ''reset'')) (\<lambda>(rc, _, _). retM (rc = 0))))"

definition translate_status :: "string \<Rightarrow> string" where
  "translate_status sbd_status =
     (if list_ex (\<lambda>t. py_in t sbd_status) [''reset'', ''off''] then ''off''
      else if list_ex (\<lambda>t. py_in t sbd_status) [''clear''] then ''on''
      else ''UNKNOWN'')"

fun node_lines :: "(string \<times> string) list \<Rightarrow> string list \<Rightarrow> (string \<times> string) list outcome" where
  \<comment> \<open>the loop over the lines of the list; name and status of the nodes\<close>
  "node_lines d [] = Ret d"
| "node_lines d (line # ls) =
     (if line = [] then node_lines d ls
      else if py_in ''NOT dumped'' line then Ret d
      else (case py_words line of
          _ # port # status # _ \<Rightarrow> node_lines (AList.update port (translate_status status) d) ls
        | _ \<Rightarrow> Raise (IndexError ''list index out of range'')))"

definition node_entries :: "'d runner \<Rightarrow> ('d, (string \<times> string) list) prog" where
  "node_entries R =
     bindM (generate_sbd_command ''list'' None) (\<lambda>cmds.
     bindM (race_commands R cmds) (\<lambda>(_, out_text, _). liftM (node_lines [] (py_split nl out_text))))"

definition get_node_list :: "'d runner \<Rightarrow> ('d, outlet list) prog" where
  "get_node_list R = bindM (node_entries R) (\<lambda>d. retM (map (\<lambda>(port, status). (port, port, Some status)) d))"

definition get_power_status_sbd :: "'d runner \<Rightarrow> ('d, string option) prog" where
  "get_power_status_sbd R =
     bindM plug_textM (\<lambda>plug.
     bindM (node_entries R) (\<lambda>d. case map_of d plug of
         None \<Rightarrow> seqM (logM (''node \"'' @ plug @ ''\" not found in node list'')) (retM (Some ''UNKWNOWN''))
       | Some status \<Rightarrow> retM (Some status)))"

definition fns_sbd :: "'d runner \<Rightarrow> 'd power_fns" where
  "fns_sbd R = \<lparr>set_power_fn = Some (set_power_status_sbd R), get_power_fn = Some (get_power_status_sbd R),
     get_outlet_list = Some (get_node_list R), reboot_cycle_fn = Some (reboot_cycle_sbd R), sync_set_power_fn = None\<rparr>"

section \<open>The main function\<close>

definition new_opts_sbd :: "(string \<times> optdef) list" where
  "new_opts_sbd =
    [(''devices'', \<lparr>o_getopt = '':'', o_longopt = Some ''devices'',
        o_help = ''--devices=[device_a,device_b] Comma separated list of sbd devices'',
        o_required = Some ''0'', o_shortdesc = Some ''SBD Device'',
        o_type = None, o_default = None, o_choices = None, o_order = 1\<rparr>),
     (''sbd_path'', \<lparr>o_getopt = '':'', o_longopt = Some ''sbd-path'',
        o_help = ''--sbd-path=[path]              Path to SBD binary'',
        o_required = Some ''0'', o_shortdesc = None,
        o_type = None, o_default = Some (PStr ''@SBD_PATH@''), o_choices = None, o_order = 200\<rparr>),
     (''crashdump'', \<lparr>o_getopt = [], o_longopt = Some ''crashdump'',
        o_help = ''--crashdump                    Enable crashdump, default is disabled'',
        o_required = Some ''0'', o_shortdesc = Some ''Crashdump instead of regular fence'',
        o_type = None, o_default = None, o_choices = None, o_order = 201\<rparr>)]"

definition device_opt_sbd :: "string list" where
  "device_opt_sbd = [''no_password'', ''devices'', ''port'', ''method'', ''sbd_path'', ''crashdump'']"

definition docs_sbd :: docs where
  "docs_sbd = \<lparr>agent_name = None, shortdesc = ''Fence agent for sbd'',
     longdesc = ''fence_sbd is an I/O Fencing agent which can be used in environments where sbd can be used (shared storage).'',
     vendorurl = Some [], symlink = []\<rparr>"

definition SBD_PID_FILE :: string where "SBD_PID_FILE = ''@SBDPID_PATH@''"

definition sbd_daemon_is_running :: "sbd_files \<Rightarrow> ('w, bool) prog" where
  "sbd_daemon_is_running E = (case pid_file E of
      None \<Rightarrow> retM False
    | Some content \<Rightarrow>
        (case (case content of Ret t \<Rightarrow> py_int (PStr (py_strip t)) | Raise e \<Rightarrow> Raise e | _ \<Rightarrow> Running) of
           Ret pid \<Rightarrow> (case signal_0 E pid of
               Delivered \<Rightarrow> retM True
             | NoSuchProcess \<Rightarrow> retM False
             | Refused m \<Rightarrow> seqM (logM (''Failed to send signal 0 to PID '' @ show_int pid @ '': '' @ m)) (retM False))
         | Raise e \<Rightarrow> seqM (logM (''Failed to read PID file '' @ SBD_PID_FILE @ '': '' @ exn_text e)) (retM False)
         | _ \<Rightarrow> runningM))"

definition devices_from_environment :: "sbd_files \<Rightarrow> ('d agent_world, unit) prog" where
  "devices_from_environment E =
     bindM (hasoptM ''--devices'') (\<lambda>given. if given then retM () else
       bindM (on_lib (getM (\<lambda>s. environ (world s) ''SBD_DEVICE''))) (\<lambda>dev_list.
       bindM (if dev_list = None \<or> dev_list = Some [] then retM False else sbd_daemon_is_running E) (\<lambda>ok.
         case (ok, dev_list) of
           (True, Some t) \<Rightarrow> setoptM ''--devices'' (PStr (py_join '','' (py_split '';'' t)))
         | _ \<Rightarrow> fail_usage ''No SBD devices specified.                     At least one SBD device is required.'' True)))"

definition device_problem :: "string \<Rightarrow> int \<Rightarrow> string" where
  "device_problem path rc =
     (if rc = PATH_NOT_EXISTS then ''\"'' @ path @ ''\" does not exist''
      else if rc = PATH_NOT_BLOCK then ''\"'' @ path @ ''\" is not a valid block device''
      else if rc = DEVICE_NOT_INIT then ''\"'' @ path @ ''\" is not initialized''
      else ''UNKNOWN error while checking \"'' @ path @ ''\"'')"

definition sbd_check_devices :: "'d runner \<Rightarrow> sbd_files \<Rightarrow> ('d, unit) prog" where
  "sbd_check_devices R E =
     bindM (optM ''--action'') (\<lambda>action.
     if action \<in> {PStr ''reboot'', PStr ''off'', PStr ''list''} then retM ()
     else bindM parse_sbd_devices (\<lambda>devices. forM devices (\<lambda>path.
       bindM (check_sbd_device R E path) (\<lambda>rc.
         if rc \<noteq> DEVICE_INIT then seqM (logM (device_problem path rc)) (exitM rc) else retM ()))))"

definition main_sbd where
  "main_sbd R E set_order time_start fuel =
     seqM (on_lib (add_opts new_opts_sbd))
    (seqM (on_lib (set_default ''method'' (PStr ''cycle'')))
    (seqM (on_lib (set_help ''method'' ''-m, --method=[method]          Method to fence (onoff|cycle) (Default: cycle)''))
    (seqM (on_lib (set_default ''power_timeout'' (PStr ''30'')))
    (seqM (on_lib (read_options device_opt_sbd False))
    (seqM (on_lib (show_docs set_order (Some docs_sbd)))
    (seqM (devices_from_environment E)
    (seqM (run_delay time_start 0 0)
    (seqM (on_dev (sbd_check_devices R E))
    (seqM (intoptM ''--power-timeout'')
    (seqM (on_dev (get_sbd_header_timeout R))
          (exit_with (on_dev (fence_action fuel (fns_sbd R))))))))))))))"

end
