(* ===== verification/Fence_Amt.thy ===== *)
theory Fence_Amt
  imports Fence_Ipmilan
begin

text \<open>
  \<open>agents/amt/fence_amt.py\<close>: Intel AMT through the program amttool, which takes the password from
  its environment. The programs are a parameter: what they do depends on the value of
  AMT\_PASSWORD that the agent sets, if it sets one, and on the words of the command.
\<close>

type_synonym 'd amt_tools = "string option \<Rightarrow> 'd tools"

section \<open>Commands\<close>

definition append_opt :: "string \<Rightarrow> string \<Rightarrow> ('w, string) prog" where
  "append_opt t k = bindM (stroptM k) (\<lambda>x. retM (t @ x))"

definition create_command_amt :: "string \<Rightarrow> ('w, string) prog" where
  "create_command_amt action =
     bindM (stroptM ''--amttool-path'') (\<lambda>path.
     bindM (stroptM ''--ip'') (\<lambda>ip.
     let cmd = path @ '' '' @ ip;
         echo = ''echo \"y\"|'' @ cmd;
         cmd' = (if action = ''status'' then cmd @ '' info''
                 else if action = ''on'' then echo @ '' powerup''
                 else if action = ''off'' then echo @ '' powerdown''
                 else if action = ''cycle'' then echo @ '' powercycle''
                 else cmd) in
     bindM (hasoptM ''--boot-option'') (\<lambda>boot.
     bindM (if action \<in> {''on'', ''off'', ''cycle''} \<and> boot then append_opt cmd' ''--boot-option'' else retM cmd') (\<lambda>cmd''.
     bindM (hasoptM ''--use-sudo'') (\<lambda>sudo.
       if sudo then bindM (stroptM ''--sudo-path'') (\<lambda>p. retM (p @ '' '' @ cmd'')) else retM cmd'')))))"

definition amt_password :: "string \<Rightarrow> string" where
  \<comment> \<open>the password in the form of \<open>shlex.quote\<close>, without a quote at its end and at its start\<close>
  "amt_password p =
     (let x = shlex_quote p;
          y = (if x \<noteq> [] \<and> last x = squote then butlast x else x)
      in if y \<noteq> [] \<and> hd y = squote then tl y else y)"

definition amt_run_command :: "'d amt_tools \<Rightarrow> string \<Rightarrow> ('d, int \<times> string \<times> string) prog" where
  "amt_run_command tool command =
     bindM (stroptM ''--password'') (\<lambda>p.
       run_command (start (tool (Some (amt_password p)))) (''sh -c \"('' @ command @ '')\"''))"

section \<open>Callbacks\<close>

definition powerstate_re :: re where
  "powerstate_re = Seq (Lit ''Powerstate:'') (Seq (Star Spc) (Grp 1 (Seq Any Any)))"

definition get_power_status_amt :: "'d amt_tools \<Rightarrow> ('d, string option) prog" where
  "get_power_status_amt tool =
     bindM (create_command_amt ''status'') (\<lambda>cmd.
     bindM (amt_run_command tool cmd) (\<lambda>r.
       retM (Some (case re_search powerstate_re (result_text r) of
           None \<Rightarrow> ''fail''
         | Some m \<Rightarrow> if group 1 m = ''S0'' then ''on'' else ''off''))))"

definition set_power_status_amt :: "'d amt_tools \<Rightarrow> ('d, unit) prog" where
  "set_power_status_amt tool =
     bindM (optM ''--action'') (\<lambda>v.
     bindM (create_command_amt (case v of PStr a \<Rightarrow> a | _ \<Rightarrow> [])) (\<lambda>cmd.
     seqM (amt_run_command tool cmd) (retM ())))"

definition reboot_cycle_amt :: "'d amt_tools \<Rightarrow> ('d, bool) prog" where
  \<comment> \<open>not through a shell, and without the password\<close>
  "reboot_cycle_amt tool =
     bindM (create_command_amt ''cycle'') (\<lambda>cmd.
     bindM (run_command (start (tool None)) cmd) (\<lambda>(status, _, _). retM (status = 0)))"

definition fns_amt :: "'d amt_tools \<Rightarrow> 'd power_fns" where
  "fns_amt tool = \<lparr>set_power_fn = Some (set_power_status_amt tool), get_power_fn = Some (get_power_status_amt tool),
     get_outlet_list = None, reboot_cycle_fn = Some (reboot_cycle_amt tool), sync_set_power_fn = None\<rparr>"

section \<open>The main function\<close>

definition new_opts_amt :: "(string \<times> optdef) list" where
  "new_opts_amt =
    [(''boot_option'', \<lparr>o_getopt = ''b:'', o_longopt = Some ''boot-option'',
        o_help = ''-b, --boot-option=[option]     Change the default boot behavior of the machine. (pxe|hd|hdsafe|cd|diag)'',
        o_required = Some ''0'', o_shortdesc = Some ''Change the default boot behavior of the machine.'',
        o_type = None, o_default = None, o_choices = Some [''pxe'', ''hd'', ''hdsafe'', ''cd'', ''diag''], o_order = 1\<rparr>),
     (''amttool_path'', \<lparr>o_getopt = '':'', o_longopt = Some ''amttool-path'',
        o_help = ''--amttool-path=[path]          Path to amttool binary'',
        o_required = Some ''0'', o_shortdesc = Some ''Path to amttool binary'',
        o_type = None, o_default = Some (PStr ''@AMTTOOL_PATH@''), o_choices = None, o_order = 200\<rparr>)]"

definition device_opt_amt :: "string list" where
  "device_opt_amt = [''ipaddr'', ''no_login'', ''passwd'', ''boot_option'', ''no_port'', ''sudo'', ''amttool_path'', ''method'']"

definition docs_amt :: docs where
  "docs_amt = \<lparr>agent_name = None, shortdesc = ''Fence agent for AMT'',
     longdesc = ''fence_amt is a Power Fencing agent which can be used with Intel AMT. This agent calls support software amttool(http://www.kraxel.org/cgit/amtterm/).'',
     vendorurl = Some ''http://www.intel.com/'', symlink = []\<rparr>"

definition main_amt where
  "main_amt tool file_stat set_order time_start fuel =
     seqM (on_lib (add_opts new_opts_amt))
    (seqM (on_lib (set_default ''ipport'' (PStr ''16994'')))
    (seqM (on_lib (read_options device_opt_amt False))
    (seqM (on_lib (show_docs set_order (Some docs_amt)))
    (seqM (run_delay time_start 0 0)
    (bindM (stroptM ''--amttool-path'') (\<lambda>path.
     seqM (if \<not> is_executable file_stat path then fail_usage ''Amttool not found or not accessible'' True else retM ())
          (exit_with (on_dev (fence_action fuel (fns_amt tool))))))))))"

end
