(* ===== verification/Fence_Vmware.thy ===== *)
theory Fence_Vmware
  imports Fencing_Snmp Py_Regex "HOL-Library.AList"
begin

text \<open>
  \<open>agents/vmware/fence_vmware.py\<close>: virtual machines of VMware ESX (through fence\_vmware\_helper) and
  VMware Server (through vmrun). The programs are run with \<open>pexpect.run\<close>, a parameter as for the
  SNMP agents; the global variable of the module is the type of the server.
\<close>

section \<open>The world of the agent\<close>

datatype vmware_type = VMWARE_TYPE_ESX | VMWARE_TYPE_SERVER1 | VMWARE_TYPE_SERVER2

type_synonym ('d, 'a) vmware = "('d, vmware_type, 'a) snmp"

definition VMRUN_MINIMUM_REQUIRED_VERSION :: int where "VMRUN_MINIMUM_REQUIRED_VERSION = 2"
definition VMHELPER_COMMAND :: string where "VMHELPER_COMMAND = ''fence_vmware_helper''"
definition VMRUN_COMMAND :: string where "VMRUN_COMMAND = ''/usr/bin/vmrun''"
definition VMWARE_DEFAULT_TYPE :: string where "VMWARE_DEFAULT_TYPE = ''esx''"
definition vmware_disconnected_hack :: bool where "vmware_disconnected_hack = False"

definition vm_typeM :: "('d, vmware_type) vmware" where
  "vm_typeM = getM (\<lambda>s. globals (world s))"

section \<open>Lines of delimiter separated values\<close>

fun dsv_items :: "bool \<Rightarrow> string \<Rightarrow> string \<Rightarrow> string list" where
  \<comment> \<open>whether a backslash was just read, the item so far, and what is left\<close>
  "dsv_items escaped item [] = (if item \<noteq> [] then [item] else [])"
| "dsv_items False item (x # xs) =
     (if x = CHR '':'' then item # dsv_items False [] xs
      else if x = CHR 0x5C then dsv_items True item xs
      else dsv_items False (item @ [x]) xs)"
| "dsv_items True item (x # xs) =
     dsv_items False (if x = CHR '':'' then item @ [CHR '':''] else if x = CHR 0x5C then item @ [CHR 0x5C]
       else item @ [CHR 0x5C, x]) xs"

definition dsv_split :: "string \<Rightarrow> string list" where
  "dsv_split dsv_str = dsv_items False [] dsv_str"

definition convert_field_to_dsv :: "string \<Rightarrow> string" where
  \<comment> \<open>how \<open>agents/vmware/fence_vmware_helper.pl\<close> writes a field\<close>
  "convert_field_to_dsv t = concat (map (\<lambda>c. if c = CHR 0x5C \<or> c = CHR '':'' then [CHR 0x5C, c] else [c]) t)"

section \<open>Running the programs\<close>

definition quoted_arg :: "string \<Rightarrow> ('w, string) prog" where
  "quoted_arg k = bindM (stroptM k) (\<lambda>t. retM (in_quotes (quote_for_run t)))"

definition login_params :: "('d, string) vmware" where
  "login_params =
     bindM vm_typeM (\<lambda>ty.
     bindM (stroptM ''--ip'') (\<lambda>ip.
     bindM (quoted_arg ''--username'') (\<lambda>user.
     bindM (quoted_arg ''--password'') (\<lambda>password.
       retM (case ty of
           VMWARE_TYPE_ESX \<Rightarrow>
             '' --server '' @ in_quotes (quote_for_run ip) @ '' --username '' @ user @ '' --password '' @ password @ '' ''
         | VMWARE_TYPE_SERVER2 \<Rightarrow>
             '' -h '' @ in_quotes (''https://'' @ quote_for_run ip @ ''/sdk'') @ '' -u '' @ user @ '' -p '' @ password @ '' -T server ''
         | VMWARE_TYPE_SERVER1 \<Rightarrow>
             let parts = py_split '':'' ip in
             '' -h '' @ in_quotes (quote_for_run (hd parts)) @ '' -u '' @ user @ '' -p '' @ password @ '' -T server1 '' @
             (if length parts > 1 then ''-P '' @ in_quotes (quote_for_run (parts ! 1)) @ '' '' else []))))))"

definition vmware_prepare_command :: "bool \<Rightarrow> string \<Rightarrow> ('d, string) vmware" where
  "vmware_prepare_command add_login_params additional_params =
     bindM (stroptM ''--exec'') (\<lambda>exec.
     bindM (if add_login_params then login_params else retM []) (\<lambda>login.
     bindM (hasoptM ''--vmware-datacenter'') (\<lambda>given.
     bindM vm_typeM (\<lambda>ty.
     bindM (if given \<and> ty = VMWARE_TYPE_ESX
            then bindM (quoted_arg ''--vmware-datacenter'') (\<lambda>t. retM (''--datacenter '' @ t @ '' '')) else retM []) (\<lambda>datacenter.
       retM (exec @ login @ datacenter @ additional_params))))))"

definition vmware_run_command :: "'d pexpect_run \<Rightarrow> bool \<Rightarrow> string \<Rightarrow> int \<Rightarrow> ('d, string) vmware" where
  "vmware_run_command run add_login_params additional_params additional_timeout =
     bindM (vmware_prepare_command add_login_params additional_params) (\<lambda>command.
     tryM
      (bindM (intoptM ''--shell-timeout'') (\<lambda>shell.
       bindM (intoptM ''--login-timeout'') (\<lambda>login.
       bindM (frun run command (shell + login + additional_timeout)) (\<lambda>(res_output, res_code).
       seqM (if res_code = None then fail EC_TIMED_OUT True else retM ())
      (seqM (if res_code \<noteq> Some 0 \<and> add_login_params
             then bindM (stroptM ''--exec'') (\<lambda>exec. fail_usage (exec @ '' returned '' @ res_output) True) else retM ())
            (retM res_output))))))
      (\<lambda>e. case e of
         PexpectError _ \<Rightarrow> Some (bindM (stroptM ''--exec'') (\<lambda>exec.
           seqM (fail_usage (''Cannot run command '' @ exec) True) (retM [])))
       | _ \<Rightarrow> None))"

section \<open>Callbacks\<close>

definition vi_line :: "(string \<times> string) list \<Rightarrow> string \<Rightarrow> ('d, (string \<times> string) list) vmware" where
  "vi_line outlets machine = (case dsv_split machine of
      [vm, _, pw, connection] \<Rightarrow>
        seqM (if map_of outlets vm \<noteq> None
              then fail_usage (''Failed. More machines with same vm '' @ vm @ '' found!'') True else retM ())
             (retM (AList.update vm
               (if py_lower pw = ''poweredon'' \<and> (vmware_disconnected_hack \<longrightarrow> py_lower connection = ''connected'')
                then ''on'' else ''off'') outlets))
    | _ \<Rightarrow> retM outlets)"

definition vmware_get_outlets_vi :: "'d pexpect_run \<Rightarrow> bool \<Rightarrow> ('d, (string \<times> string) list) vmware" where
  "vmware_get_outlets_vi run add_vm_name =
     bindM (if add_vm_name
            then bindM (quoted_arg ''--plug'') (\<lambda>plug. vmware_run_command run True (''--operation status --vmname '' @ plug) 0)
            else bindM (intoptM ''--power-timeout'') (\<lambda>t. vmware_run_command run True ''--operation list'' t)) (\<lambda>all_machines.
     foldM vi_line [] (py_splitlines all_machines))"

definition vix_outlets :: "string list \<Rightarrow> string list \<Rightarrow> (string \<times> string) list" where
  "vix_outlets running machines = fold (\<lambda>m d. if m = [] then d
     else AList.update m (if m \<in> set running then ''on'' else ''off'') d) machines []"

definition vmware_get_outlets_vix :: "'d pexpect_run \<Rightarrow> ('d, (string \<times> string) list) vmware" where
  "vmware_get_outlets_vix run =
     bindM (vmware_run_command run True ''list'' 0) (\<lambda>text.
     let running = drop 1 (py_splitlines text) in
     bindM vm_typeM (\<lambda>ty.
     bindM (if ty = VMWARE_TYPE_SERVER2
            then bindM (vmware_run_command run True ''listRegisteredVM'' 0) (\<lambda>t. retM (drop 1 (py_splitlines t)))
            else retM running) (\<lambda>machines.
       retM (vix_outlets running machines))))"

definition vmware_outlets :: "'d pexpect_run \<Rightarrow> ('d, (string \<times> string) list) vmware" where
  "vmware_outlets run = bindM vm_typeM (\<lambda>ty.
     if ty = VMWARE_TYPE_ESX then vmware_get_outlets_vi run False else vmware_get_outlets_vix run)"

definition get_outlets_status_vmware :: "'d pexpect_run \<Rightarrow> ('d, outlet list) vmware" where
  "get_outlets_status_vmware run = bindM (vmware_outlets run) (\<lambda>d. retM (map (\<lambda>(m, status). (m, [], Some status)) d))"

definition get_power_status_vmware :: "'d pexpect_run \<Rightarrow> ('d, string option) vmware" where
  "get_power_status_vmware run =
     bindM vm_typeM (\<lambda>ty.
     bindM (if ty = VMWARE_TYPE_ESX then vmware_get_outlets_vi run True else vmware_outlets run) (\<lambda>d.
     bindM (optM ''--plug'') (\<lambda>v.
     case map_of d (py_str v) of
       Some status \<Rightarrow> retM (Some (if ty = VMWARE_TYPE_SERVER1 then ''on'' else status))
     | None \<Rightarrow>
         if ty = VMWARE_TYPE_SERVER1 then retM (Some ''off'')
         else seqM (fail_usage ''Failed: You have to enter existing name of virtual machine!'' True) (retM None))))"

definition set_power_status_vmware :: "'d pexpect_run \<Rightarrow> ('d, unit) vmware" where
  "set_power_status_vmware run =
     bindM vm_typeM (\<lambda>ty.
     bindM (optM ''--action'') (\<lambda>action.
     bindM (quoted_arg ''--plug'') (\<lambda>plug.
     let on = (action = PStr ''on'');
         params = (if ty = VMWARE_TYPE_ESX then ''--operation '' @ (if on then ''on'' else ''off'') @ '' --vmname '' @ plug
           else (if on then ''start'' else ''stop'') @ '' '' @ plug @ (if action = PStr ''off'' then '' hard'' else []))
     in bindM (intoptM ''--power-timeout'') (\<lambda>t.
        seqM (vmware_run_command run True params t) (retM ())))))"

definition fns_vmware :: "'d pexpect_run \<Rightarrow> ('d, vmware_type) snmp_world power_fns" where
  "fns_vmware run = \<lparr>set_power_fn = Some (set_power_status_vmware run), get_power_fn = Some (get_power_status_vmware run),
     get_outlet_list = Some (get_outlets_status_vmware run), reboot_cycle_fn = None, sync_set_power_fn = None\<rparr>"

section \<open>The main function\<close>

definition vmrun_version_re :: re where
  "vmrun_version_re = Seq (Lit ''vmrun version '') (Grp 1 (Seq Dig (Seq (Lit ''.'') (Star (Grp 2 (Seq Dig (Star (Lit ''.''))))))))"

definition vmware_is_supported_vmrun_version :: "'d pexpect_run \<Rightarrow> ('d, bool) vmware" where
  "vmware_is_supported_vmrun_version run =
     bindM (vmware_run_command run False [] 0) (\<lambda>help_text.
       retM (case re_search vmrun_version_re (py_lower help_text) of
           None \<Rightarrow> False
         | Some m \<Rightarrow> (case py_int (PStr (hd (py_split ''.'' (group 1 m)))) of
               Ret n \<Rightarrow> n \<ge> VMRUN_MINIMUM_REQUIRED_VERSION
             | _ \<Rightarrow> False)))"

definition use_vmware_type :: "vmware_type \<Rightarrow> string \<Rightarrow> ('d, unit) vmware" where
  "use_vmware_type ty path =
     seqM (modM (\<lambda>s. s\<lparr>world := (world s)\<lparr>globals := ty\<rparr>\<rparr>))
    (bindM (hasoptM ''--exec'') (\<lambda>given. if given then retM () else setoptM ''--exec'' (PStr path)))"

definition vmware_check_vmware_type :: "('d, unit) vmware" where
  "vmware_check_vmware_type =
     bindM (stroptM ''--vmware_type'') (\<lambda>given.
     let t = py_lower given in
     seqM (setoptM ''--vmware_type'' (PStr t))
          (if t = ''esx'' then use_vmware_type VMWARE_TYPE_ESX VMHELPER_COMMAND
           else if t = ''server2'' then use_vmware_type VMWARE_TYPE_SERVER2 VMRUN_COMMAND
           else if t = ''server1'' then use_vmware_type VMWARE_TYPE_SERVER1 VMRUN_COMMAND
           else fail_usage ''vmware_type can be esx,server2 or server1!'' True))"

definition check_vmrun :: "'d pexpect_run \<Rightarrow> ('d, unit) vmware" where
  "check_vmrun run = bindM vm_typeM (\<lambda>ty. if ty = VMWARE_TYPE_ESX then retM () else
     bindM (vmware_is_supported_vmrun_version run) (\<lambda>ok.
       if \<not> ok then fail_usage (''Unsupported version of vmrun command! You must use at least version ''
           @ show_int VMRUN_MINIMUM_REQUIRED_VERSION @ ''!'') True
       else retM ()))"

definition device_opt_vmware :: "string list" where
  "device_opt_vmware = [''ipaddr'', ''login'', ''passwd'', ''secure'', ''exec'', ''vmware_type'', ''vmware_datacenter'']"

definition docs_vmware :: docs where
  "docs_vmware = \<lparr>agent_name = None, shortdesc = ''Fence agent for VMWare'',
     longdesc = ''fence_vmware is a Power Fencing agent which can be used with the VMware ESX, VMware ESXi or VMware Server to fence virtual machines.'' @ nl @ ''.P'' @ nl @ ''Before you can use this agent, it must be installed VI Perl Toolkit or vmrun command on every node you want to make fencing.'' @ nl @ ''.P'' @ nl @ ''VI Perl Toolkit is preferred for VMware ESX/ESXi and Virtual Center. Vmrun command is only solution for VMware Server 1/2 (this command will works against ESX/ESXi 3.5 up2 and VC up2 too, but not cluster aware!) and is available as part of VMware VIX API SDK package. VI Perl and VIX API SDK are both available from VMware web pages (not int RHEL repository!). '' @ nl @ ''.P'' @ nl @ ''You can specify type of VMware you are connecting to with '' @ [CHR 0x5C] @ ''fB-d'' @ [CHR 0x5C] @ ''fP switch (or '' @ [CHR 0x5C] @ ''fIvmware_type'' @ [CHR 0x5C] @ ''fR for stdin). Possible values are esx, server2 and server1.Default value is esx, which will use VI Perl. With server1 and server2, vmrun command is used.'' @ nl @ ''.P'' @ nl @ ''After you have successfully installed VI Perl Toolkit or VIX API, you should be able to run fence_vmware_helper (part of this agent) or vmrun command. This agent supports only vmrun from version 2.0.0 (VIX API 1.6.0).'',
     vendorurl = Some ''http://www.vmware.com'', symlink = []\<rparr>"

definition main_vmware where
  "main_vmware run set_order time_start fuel =
     seqM (on_lib (set_default ''secure'' (PStr ''1'')))
    (seqM (on_lib (set_default ''vmware_type'' (PStr VMWARE_DEFAULT_TYPE)))
    (seqM (on_lib (read_options device_opt_vmware False))
    (seqM (on_lib (show_docs set_order (Some docs_vmware)))
    (seqM (run_delay time_start 0 0)
    (seqM (on_dev vmware_check_vmware_type)
    (seqM (on_dev (check_vmrun run))
          (exit_with (on_dev (fence_action fuel (fns_vmware run))))))))))"

end
