(* ===== verification/Command_Agents.thy ===== *)
theory Command_Agents
  imports Fence_Ipmilan "HOL-Library.AList"
begin

text \<open>
  Agents that run one program per request: \<open>agents/crosslink/fence_crosslink.py\<close> (ping),
  \<open>agents/ironic/fence_ironic.py\<close> (the command line client of OpenStack, which takes its credentials
  from the environment) and \<open>agents/powerman/fence_powerman.py\<close> (the client of a powerman server). The
  programs are a parameter; for ironic they are given the variables that the agent sets.
\<close>

section \<open>Cross link\<close>

definition get_power_status_crosslink :: "'d tools \<Rightarrow> ('d, string option) prog" where
  "get_power_status_crosslink tool =
     bindM (optM ''--crosscableip'') (\<lambda>ip.
     bindM (optM ''--timeout'') (\<lambda>timeout.
     bindM (run_command (start tool) (''ping -w'' @ py_str timeout @ '' -n '' @ py_str ip)) (\<lambda>(status, _, _).
       retM (Some (if status = 0 then ''on'' else ''off'')))))"

definition set_power_status_crosslink :: "('w, unit) prog" where
  "set_power_status_crosslink =
     bindM (optM ''--crosscableip'') (\<lambda>ip.
     bindM (optM ''--action'') (\<lambda>action.
     seqM (logM
       (if action = PStr ''off'' then
          ''We'' @ [CHR 0x27] @ ''ve been asked to turn off the node at '' @ py_str ip @ '' but the cross-cable link is up so erroring out''
        else if action = PStr ''on'' then
          ''We'' @ [CHR 0x27] @ ''ve been asked to turn on the node at '' @ py_str ip @ '' but the cross-cable link is off so erroring out''
        else ''set_power_status() was called with action '' @ py_str action @ '' which is not supported''))
     (exitM 1)))"

definition fns_crosslink :: "'d tools \<Rightarrow> 'd power_fns" where
  "fns_crosslink tool = \<lparr>set_power_fn = Some set_power_status_crosslink, get_power_fn = Some (get_power_status_crosslink tool),
     get_outlet_list = None, reboot_cycle_fn = None, sync_set_power_fn = None\<rparr>"

definition new_opts_crosslink :: "(string \<times> optdef) list" where
  "new_opts_crosslink =
    [(''crosscableip'', \<lparr>o_getopt = ''a:'', o_longopt = Some ''crosscableip'',
        o_help = ''-a, --crosscableip=[IP]      IP over the cross-cable link'',
        o_required = Some ''1'', o_shortdesc = Some ''Cross-cable IP'',
        o_type = None, o_default = None, o_choices = None, o_order = 1\<rparr>),
     (''timeout'', \<lparr>o_getopt = ''T:'', o_longopt = Some ''timeout'',
        o_help = ''-T, --timeout=[seconds]      timeout in seconds'',
        o_required = Some ''0'', o_shortdesc = Some ''No ICMP reply in 5 seconds -> Node is considered dead'',
        o_type = None, o_default = Some (PStr ''5''), o_choices = None, o_order = 1\<rparr>)]"

definition device_opt_crosslink :: "string list" where
  "device_opt_crosslink = [''crosscableip'', ''timeout'', ''no_password'', ''no_login'', ''port'']"

definition docs_crosslink :: docs where
  "docs_crosslink = \<lparr>agent_name = None, shortdesc = ''Fence agent for cross-link two-node clusters'',
     longdesc = ''This agent helps two-node clusters to tackle the situation where one node lost power, cannot be fenced by telling pacemaker that if the node is not reachable over the crosslink cable, we can assume it is dead'',
     vendorurl = Some [], symlink = []\<rparr>"

definition main_crosslink where
  "main_crosslink tool set_order time_start fuel =
     seqM (on_lib (add_opts new_opts_crosslink))
    (seqM (on_lib (read_options device_opt_crosslink False))
    (seqM (on_lib (show_docs set_order (Some docs_crosslink)))
    (seqM (run_delay time_start 0 0)
          (exit_with (on_dev (fence_action fuel (fns_crosslink tool)))))))"

section \<open>Ironic\<close>

type_synonym 'd env_tools = "(string \<times> string) list \<Rightarrow> 'd tools"
  \<comment> \<open>the variables set beside those of the agent's own environment\<close>

definition get_name_or_uuid_ironic :: "('w, string) prog" where
  \<comment> \<open>formatted with \<open>%s\<close>\<close>
  "get_name_or_uuid_ironic = bindM (hasoptM ''--uuid'') (\<lambda>given.
     bindM (optM (if given then ''--uuid'' else ''--plug'')) (\<lambda>v. retM (py_str v)))"

definition env_var :: "string \<Rightarrow> string \<Rightarrow> ('w, (string \<times> string) list) prog" where
  \<comment> \<open>an option handed on in a variable\<close>
  "env_var var k = bindM (hasoptM k) (\<lambda>given.
     if given then bindM (stroptM k) (\<lambda>t. retM [(var, t)]) else retM [])"

definition user_var :: "('w, (string \<times> string) list) prog" where
  "user_var = bindM (env_var ''OS_USERNAME'' ''--username'') (\<lambda>vs. retM (filter (\<lambda>(_, t). t \<noteq> []) vs))"

definition ironic_words :: "string \<Rightarrow> ('w, string) prog" where
  \<comment> \<open>what follows the name of the program\<close>
  "ironic_words action =
     (if action = ''status'' then
        bindM get_name_or_uuid_ironic (\<lambda>n. retM ('' show '' @ n @ '' -c power_state --format value''))
      else if action \<in> {''on'', ''off''} then bindM get_name_or_uuid_ironic (\<lambda>n. retM ('' power '' @ action @ '' '' @ n))
      else if action = ''list'' then
        retM ('' list -c '' @ [CHR 0x27] @ ''Instance UUID'' @ [CHR 0x27] @ '' -c Name -c '' @ [CHR 0x27] @ ''Power State'' @ [CHR 0x27] @ '' --format csv --quote minimal'')
      else retM [])"

definition ironic_run_command :: "'d env_tools \<Rightarrow> string \<Rightarrow> ('d, int \<times> string \<times> string) prog" where
  "ironic_run_command tool action =
     bindM (stroptM ''--openstack-path'') (\<lambda>path.
     bindM user_var (\<lambda>user.
     bindM (env_var ''OS_PASSWORD'' ''--password'') (\<lambda>password.
     bindM (env_var ''OS_TENANT_NAME'' ''--tenant-name'') (\<lambda>tenant.
     bindM (env_var ''OS_AUTH_URL'' ''--auth-url'') (\<lambda>url.
     bindM (ironic_words action) (\<lambda>ws.
       run_command (start (tool (user @ password @ tenant @ url))) (path @ '' baremetal'' @ ws)))))))"

definition power_word_re :: re where
  "power_word_re = Seq (Lit ''power'') (Seq (Star Spc)
     (Grp 1 (Alt (Seq letter (Seq letter letter)) (Seq letter letter))))"

definition power_word :: "string \<Rightarrow> string option" where
  "power_word t = map_option (group 1) (re_search power_word_re t)"

definition get_power_status_ironic :: "'d env_tools \<Rightarrow> ('d, string option) prog" where
  "get_power_status_ironic tool = bindM (ironic_run_command tool ''status'') (\<lambda>(_, out_text, _). retM (power_word out_text))"

definition set_power_status_ironic :: "'d env_tools \<Rightarrow> ('d, unit) prog" where
  "set_power_status_ironic tool =
     bindM (optM ''--action'') (\<lambda>action.
     seqM (ironic_run_command tool (case action of PStr a \<Rightarrow> a | _ \<Rightarrow> [])) (retM ()))"

definition device_line :: "string \<Rightarrow> (string \<times> string \<times> string option) list \<Rightarrow> (string \<times> string \<times> string option) list" where
  \<comment> \<open>lines that have no three fields, and the header, are skipped\<close>
  "device_line line nodes = (case py_split '','' line of
      [uuid, name, state] \<Rightarrow> if py_in ''UUID'' uuid then nodes else AList.update uuid (name, power_word state) nodes
    | _ \<Rightarrow> nodes)"

definition get_devices_list_ironic :: "'d env_tools \<Rightarrow> ('d, outlet list) prog" where
  "get_devices_list_ironic tool = bindM (ironic_run_command tool ''list'') (\<lambda>(_, out_text, _).
     retM (fold device_line (py_splitlines out_text) []))"

definition fns_ironic :: "'d env_tools \<Rightarrow> 'd power_fns" where
  "fns_ironic tool = \<lparr>set_power_fn = Some (set_power_status_ironic tool), get_power_fn = Some (get_power_status_ironic tool),
     get_outlet_list = Some (get_devices_list_ironic tool), reboot_cycle_fn = None, sync_set_power_fn = None\<rparr>"

definition new_opts_ironic :: "(string \<times> optdef) list" where
  "new_opts_ironic =
    [(''auth-url'', \<lparr>o_getopt = '':'', o_longopt = Some ''auth-url'',
        o_help = ''--auth-url=[authurl]            Auth URL'',
        o_required = Some ''1'', o_shortdesc = Some ''Keystone Admin Auth URL'',
        o_type = None, o_default = None, o_choices = None, o_order = 1\<rparr>),
     (''tenant-name'', \<lparr>o_getopt = ''t:'', o_longopt = Some ''tenant-name'',
        o_help = ''-t, --tenant-name=[tenant]      Tenantname'',
        o_required = Some ''0'', o_shortdesc = Some ''Keystone Admin Tenant'',
        o_type = None, o_default = Some (PStr ''admin''), o_choices = None, o_order = 1\<rparr>),
     (''openstack-path'', \<lparr>o_getopt = '':'', o_longopt = Some ''openstack-path'',
        o_help = ''--openstack-path=[path]       Path to openstack binary'',
        o_required = Some ''0'', o_shortdesc = Some ''Path to the OpenStack binary'',
        o_type = None, o_default = Some (PStr ''@OPENSTACK_PATH@''), o_choices = None, o_order = 200\<rparr>)]"

definition device_opt_ironic :: "string list" where
  "device_opt_ironic = [''login'', ''passwd'', ''port'', ''auth-url'', ''tenant-name'', ''openstack-path'']"

definition docs_ironic :: docs where
  "docs_ironic = \<lparr>agent_name = None, shortdesc = ''Fence agent for OpenStack'' @ [CHR 0x27] @ ''s Ironic (Bare Metal as a service) service'',
     longdesc = ''fence_ironic is a Power Fencing agent which can be used with machines controlled by the Ironic service. This agent calls the openstack CLI. WARNING! This fence agent is not intended for production use. Relying on a functional ironic service for fencing is not a good design choice.'',
     vendorurl = Some ''https://wiki.openstack.org/wiki/Ironic'', symlink = []\<rparr>"

definition main_ironic where
  "main_ironic tool file_stat set_order time_start fuel =
     seqM (on_lib (add_opts new_opts_ironic))
    (seqM (on_lib (read_options device_opt_ironic False))
    (seqM (on_lib (show_docs set_order (Some docs_ironic)))
    (seqM (run_delay time_start 0 0)
    (bindM (stroptM ''--openstack-path'') (\<lambda>path.
     seqM (if \<not> is_executable file_stat path then fail_usage ''openstack tool not found or not accessible'' True else retM ())
          (exit_with (on_dev (fence_action fuel (fns_ironic tool)))))))))"

section \<open>Powerman\<close>

definition pm_base_cmd :: "('w, string list) prog" where
  "pm_base_cmd =
     bindM (stroptM ''--powerman-path'') (\<lambda>path.
     bindM (stroptM ''--ip'') (\<lambda>server.
     bindM (optM ''--ipport'') (\<lambda>port.
       retM [path, ''--server-host'', server @ '':'' @ py_str port])))"

definition pm_run :: "'d tools \<Rightarrow> string list \<Rightarrow> ('d, string \<times> int) prog" where
  \<comment> \<open>\<open>_run\<close>: there is no timeout; the text that OSError gives is left out\<close>
  "pm_run tool cmd =
     bindM pm_base_cmd (\<lambda>base.
     bindM (start tool (base @ cmd)) (\<lambda>r. case r of
         None \<Rightarrow> seqM (logM (''_run command error: '' @ nl)) (exitM 1)
       | Some p \<Rightarrow> bindM (await None p) (\<lambda>(rc, out_text, _). retM (out_text, rc))))"

definition pm_is_running :: "'d tools \<Rightarrow> ('d, bool) prog" where
  "pm_is_running tool = bindM (pm_run tool [''-q'']) (\<lambda>(_, rc). retM (rc = 0))"

definition pm_on :: "'d tools \<Rightarrow> string \<Rightarrow> ('d, int) prog" where
  "pm_on tool host = bindM (pm_run tool [''--on'', host]) (\<lambda>(_, rc). retM rc)"

definition pm_off :: "'d tools \<Rightarrow> string \<Rightarrow> ('d, int) prog" where
  "pm_off tool host = bindM (pm_run tool [''--off'', host]) (\<lambda>(_, rc). retM rc)"

definition pm_list :: "'d tools \<Rightarrow> ('d, outlet list) prog" where
  \<comment> \<open>the output is not decoded, and bytes have no \<open>split\<close> with a text; a negative code has no \<open>keys\<close>\<close>
  "pm_list tool = bindM (pm_run tool [''-q'', ''--exprange'']) (\<lambda>(_, rc).
     if rc < 0 then raiseM (AttributeError ''keys'') else raiseM (TypeError ''a bytes-like object is required''))"

fun pm_find :: "string \<Rightarrow> string list list \<Rightarrow> pyval outcome" where
  \<comment> \<open>the loop over the words of the lines\<close>
  "pm_find host [] = Ret (PInt (-1))"
| "pm_find host ([] # ls) = Raise (IndexError ''list index out of range'')"
| "pm_find host ((w # ws) # ls) =
     (if w = ''No'' \<and> ws = [] \<or> w = ''No'' \<and> hd ws = ''such'' \<and> length ws = 1 then Raise (IndexError ''list index out of range'')
      else if w = ''No'' \<and> hd ws = ''such'' \<and> ws ! 1 = ''nodes:'' then Ret (PInt (-1))
      else if host \<in> set (w # ws) then Ret (PStr (butlast w))
      else pm_find host ls)"

definition pm_query :: "'d tools \<Rightarrow> string \<Rightarrow> ('d, pyval) prog" where
  "pm_query tool host = bindM (pm_run tool [''--query'', host]) (\<lambda>(text, rc).
     if rc < 0 then retM (PInt rc)
     else liftM (pm_find host (map py_words (py_split nl (py_strip text)))))"

definition get_power_status_powerman :: "'d tools \<Rightarrow> ('d, string option) prog" where
  \<comment> \<open>\<open>isinstance(int, type(status))\<close> is never true, so a number is returned as the status; here it is
    its text, which is neither on nor off as well\<close>
  "get_power_status_powerman tool =
     bindM (optM ''--action'') (\<lambda>action.
     if action = PStr ''monitor'' then
       bindM (pm_is_running tool) (\<lambda>up. retM (Some (if up then ''on'' else ''error'')))
     else bindM (stroptM ''--plug'') (\<lambda>plug.
          bindM (pm_query tool plug) (\<lambda>status. retM (Some (py_str status)))))"

definition set_power_status_powerman :: "'d tools \<Rightarrow> ('d, unit) prog" where
  "set_power_status_powerman tool =
     bindM (optM ''--action'') (\<lambda>action.
     if action = PStr ''on'' then bindM (stroptM ''--plug'') (\<lambda>plug. seqM (pm_on tool plug) (retM ()))
     else if action = PStr ''off'' then bindM (stroptM ''--plug'') (\<lambda>plug. seqM (pm_off tool plug) (retM ()))
     else seqM pm_base_cmd (retM ()))"

definition fns_powerman :: "'d tools \<Rightarrow> 'd power_fns" where
  "fns_powerman tool = \<lparr>set_power_fn = Some (set_power_status_powerman tool),
     get_power_fn = Some (get_power_status_powerman tool), get_outlet_list = Some (pm_list tool),
     reboot_cycle_fn = None, sync_set_power_fn = None\<rparr>"

definition new_opts_powerman :: "(string \<times> optdef) list" where
  "new_opts_powerman =
    [(''powerman_path'', \<lparr>o_getopt = '':'', o_longopt = Some ''powerman-path'',
        o_help = ''--powerman-path=[path]         Path to powerman binary'',
        o_required = Some ''0'', o_shortdesc = Some ''Path to powerman binary'',
        o_type = None, o_default = Some (PStr ''@POWERMAN_PATH@''), o_choices = None, o_order = 200\<rparr>)]"

definition device_opt_powerman :: "string list" where
  "device_opt_powerman = [''ipaddr'', ''no_password'', ''no_login'', ''powerman_path'']"

definition docs_powerman :: docs where
  "docs_powerman = \<lparr>agent_name = None, shortdesc = ''Fence Agent for Powerman'',
     longdesc = ''fence_powerman is a Power Fence Agent for the Powerman management utility that was designed for LLNL systems.'',
     vendorurl = Some ''https://github.com/chaos/powerman'', symlink = []\<rparr>"

definition main_powerman where
  "main_powerman tool file_stat set_order time_start fuel =
     seqM (on_lib (add_opts new_opts_powerman))
    (seqM (on_lib (set_default ''ipport'' (PStr ''10101'')))
    (seqM (on_lib (set_default ''delay'' (PStr ''3'')))
    (seqM (on_lib (set_default ''power_wait'' (PStr ''3'')))
    (seqM (on_lib (read_options device_opt_powerman False))
    (seqM (on_lib (show_docs set_order (Some docs_powerman)))
    (seqM (run_delay time_start 0 0)
    (bindM (stroptM ''--powerman-path'') (\<lambda>path.
     seqM (if \<not> is_executable file_stat path
           then fail_usage (''Powerman not found or not executable at path '' @ path) True else retM ())
          (exit_with (on_dev (fence_action fuel (fns_powerman tool))))))))))))"

text \<open>The function that lists the nodes never gives a list, so that \<open>list\<close> and \<open>monitor\<close> fail.\<close>

lemma pm_list_fails: "pm_list tool s \<noteq> (Ret r, s')"
  by (auto simp: pm_list_def ret_iff split: if_splits)

end
