(* ===== verification/Tool_Guarantees.thy ===== *)
theory Tool_Guarantees
  imports Fence_Guarantees Fence_Sbd Fence_Amt Fence_Vmware Command_Agents
begin

text \<open>
  Properties of running programs: how long \<open>run_commands\<close> waits for several processes and what it
  answers, what the power cycle of fence\_amt runs, and the lines that fence\_vmware reads from its
  helper.
\<close>

section \<open>Several processes\<close>

lemma start_run: "start tool args s = (Ret (fst (tool args (world s))), s\<lparr>world := snd (tool args (world s))\<rparr>)"
  by (simp add: start_def split: prod.splits)

lemma spawn_all_keeps:
  assumes "spawn_all (start tool) commands s = (Ret procs, s')"
  shows "clock s' = clock s \<and> opts s' = opts s"
proof -
  have "foldM (\<lambda>jobs command.
     bindM (liftM (shlex_split command)) (\<lambda>args.
     bindM (start tool args) (\<lambda>r. case r of
         None \<Rightarrow> seqM (fail_usage (''Unable to run '' @ command @ nl) True) (raiseM (OSErr command))
       | Some p \<Rightarrow> bindM (getM clock) (\<lambda>now.
           retM (jobs @ [\<lparr>proc_of = p, ends = map_option (\<lambda>d. now + d) (takes p)\<rparr>]))))) jobs commands s = (Ret procs, s') \<Longrightarrow>
     clock s' = clock s \<and> opts s' = opts s" for jobs
    by (induction commands arbitrary: jobs s) (auto simp: ret_iff split: option.splits)
  with assms show ?thesis unfolding spawn_all_def by blast
qed

text \<open>
  C19. Waiting for several processes: with a timeout of \<open>t\<close> seconds, \<open>run_commands\<close> comes to an end,
  at a time when every process has ended, or when at least five seconds are over and either more than half of
  all processes have ended with success or the timeout is over. If no process has ended by
  then it leaves with exit code 1; else it returns, with status 0 exactly when one of the
  processes that have ended did so with status 0.
\<close>

theorem run_commands_decides:
  assumes "\<And>js. mset (order js) = mset js" and "0 < tick"
    and "commands_timeout timeout (opts s) = Ret (Some t)" and "max 5 t \<le> of_nat fuel * tick"
    and "spawn_all (start tool) commands s = (Ret procs, s1)" and "opts s ''retry'' = None"
  shows "\<exists>gone alive c. mset gone + mset alive = mset procs \<and> have_ended c gone \<and>
     settled (Some t) (clock s) (length procs) c gone alive \<and>
     (if gone = [] then \<exists>s'. run_commands (start tool) order tick fuel timeout commands s = (Exit 1, s')
      else \<exists>status out_text err_text.
        run_commands (start tool) order tick fuel timeout commands s = (Ret (status, out_text, err_text), s1\<lparr>clock := c\<rparr>) \<and>
        (status = 0 \<longleftrightarrow> (\<exists>j\<in>set gone. exit_code (proc_of j) = 0)))"
proof -
  note s1 = spawn_all_keeps [OF assms(5)]
  have "0 < fuel" using assms(2,4) by (cases fuel) auto
  moreover have "clock s + max 5 t \<le> clock s1 + of_nat fuel * tick" using s1 assms(4) by simp
  ultimately obtain gone alive s2 where race:
    "race order tick (Some t) (clock s) (length procs) fuel [] procs s1 = (Ret (gone, alive), s2)"
    using race_ends [OF assms(1,2)] by (metis surj_pair)
  note r = race_Ret [OF assms(1) less_imp_le [OF assms(2)] race]
  have s2: "s2 = s1\<lparr>clock := clock s2\<rparr>" using race_state [OF assms(1) less_imp_le [OF assms(2)] race] .
  have order: "order gone = [] \<longleftrightarrow> gone = []" "set (order gone) = set gone"
    using assms(1) [of gone] by (metis mset_zero_iff, metis set_mset_mset)
  have run: "run_commands (start tool) order tick fuel timeout commands s =
     (case best_status (order gone) of
         Some status \<Rightarrow> (Ret (status, concat (map (stdout \<circ> proc_of) (order gone)), concat (map (stderr \<circ> proc_of) (order gone))), s2)
       | None \<Rightarrow> seqM (fail EC_TIMED_OUT True) (retM (EC_TIMED_OUT, [], ''timed out'')) s2)"
    using assms(3,5,6) race s1 r unfolding run_commands_def
    by (auto simp: bindM_def run_prims split: option.splits)
  show ?thesis
  proof (intro exI conjI)
    show "mset gone + mset alive = mset procs" "have_ended (clock s2) gone"
      "settled (Some t) (clock s) (length procs) (clock s2) gone alive" using r by simp_all
    show "if gone = [] then \<exists>s'. run_commands (start tool) order tick fuel timeout commands s = (Exit 1, s')
      else \<exists>status out_text err_text.
        run_commands (start tool) order tick fuel timeout commands s = (Ret (status, out_text, err_text), s1\<lparr>clock := clock s2\<rparr>) \<and>
        (status = 0 \<longleftrightarrow> (\<exists>j\<in>set gone. exit_code (proc_of j) = 0))"
    proof (cases "best_status (order gone)")
      case None
      with order have "gone = []" by (simp add: best_status(1))
      with run None show ?thesis by (auto simp: fail_def bindM_def run_prims EC_defs fail_message_def)
    next
      case (Some status)
      with order have "gone \<noteq> []" using best_status(1) [of "order gone"] by auto
      moreover have "status = 0 \<longleftrightarrow> (\<exists>j\<in>set gone. exit_code (proc_of j) = 0)"
        using best_status(2) [of "order gone"] Some order by simp
      ultimately show ?thesis using run Some s2 by auto
    qed
  qed
qed

definition three_tools :: "unit tools" where
  \<comment> \<open>programs a and b succeed after one second, any other never ends\<close>
  "three_tools args d = (Some \<lparr>takes = (if args \<in> {[''a''], [''b'']} then Some 1 else None), exit_code = 0,
     stdout = ''ok'', stderr = [], cut_out = [], cut_err = []\<rparr>, d)"

definition tool_st :: "(string \<times> string) list \<Rightarrow> 'd \<Rightarrow> 'd st" where
  "tool_st od d = \<lparr>opts = map_of (map (\<lambda>(k, v). (k, PStr v)) od), outp = [], errs = [], clock = 0, world = d\<rparr>"

lemma map_outcome_eq_Ret: "map_outcome f r = Ret y \<longleftrightarrow> (\<exists>x. r = Ret x \<and> y = f x)"
  by (cases r) auto

theorem run_commands_decides_witness:
  "\<exists>gone alive c s'. settled (Some 30) 0 3 c gone alive \<and> length gone + length alive = 3 \<and>
     run_commands (start three_tools) id 1 30 None [''a'', ''b'', ''c''] (tool_st [(''--power-timeout'', ''30'')] ()) =
       (Ret (0, ''okok'', []), s') \<and> (\<exists>j\<in>set gone. exit_code (proc_of j) = 0)"
proof -
  let ?s = "tool_st [(''--power-timeout'', ''30'')] ()"
  have "fst (run_commands (start three_tools) id 1 30 None [''a'', ''b'', ''c''] ?s) = Ret (0, ''okok'', [])" by code_simp
  note run = run_pair [OF this]
  have "map_outcome length (fst (spawn_all (start three_tools) [''a'', ''b'', ''c''] ?s)) = Ret 3" by code_simp
  then obtain procs where procs: "length procs = 3" "fst (spawn_all (start three_tools) [''a'', ''b'', ''c''] ?s) = Ret procs"
    by (auto simp: map_outcome_eq_Ret)
  have limit: "commands_timeout None (opts ?s) = Ret (Some 30)" by code_simp
  have side: "mset (id js) = mset js" "(0 :: rat) < 1" "max 5 30 \<le> rat_of_nat 30 * 1" "opts ?s ''retry'' = None" for js :: "job list"
    by (simp_all add: tool_st_def)
  show ?thesis
    using run_commands_decides [OF side(1,2) limit side(3) run_pair [OF procs(2)] side(4)]
  proof (elim exE conjE)
    fix gone alive c
    assume *: "mset gone + mset alive = mset procs" "settled (Some 30) (clock ?s) (length procs) c gone alive"
      "if gone = [] then \<exists>s'. run_commands (start three_tools) id 1 30 None [''a'', ''b'', ''c''] ?s = (Exit 1, s')
      else \<exists>status out_text err_text.
        run_commands (start three_tools) id 1 30 None [''a'', ''b'', ''c''] ?s =
          (Ret (status, out_text, err_text), snd (spawn_all (start three_tools) [''a'', ''b'', ''c''] ?s)\<lparr>clock := c\<rparr>) \<and>
        (status = 0 \<longleftrightarrow> (\<exists>j\<in>set gone. exit_code (proc_of j) = 0))"
    from arg_cong [OF *(1), of size] procs(1) have "length gone + length alive = 3" by simp
    moreover have "clock ?s = 0" by (simp add: tool_st_def)
    moreover have "\<exists>j\<in>set gone. exit_code (proc_of j) = 0" using *(3) run by (auto split: if_splits)
    ultimately show ?thesis using *(2) run procs(1) by metis
  qed
qed

section \<open>The power cycle of fence\_amt\<close>

lemma timeout_opt_nonneg: "timeout_opt od = Ret (Some t) \<Longrightarrow> 0 \<le> t"
  by (auto simp: timeout_opt_def split: option.splits outcome.splits if_splits)

lemma amt_cycle_words:
  assumes "plain path" "plain ip"
  shows "shlex_split (''echo \"y\"|'' @ path @ '' '' @ ip @ '' powercycle'') = Ret [''echo'', ''y|'' @ path, ip, ''powercycle'']"
proof -
  have "reads_as (''\"y\"|'' @ path) (''y|'' @ path)"
  proof (rule reads_asI)
    fix cs show "shlex Between [] False ((''\"y\"|'' @ path) @ cs) = shlex InWord (''y|'' @ path) True cs"
      using assms(1) shlex_plain_word [of path "''y|''" True cs] by (simp add: sh_space_def plain_def)
  qed simp
  moreover have "plain ''echo''" "plain ''powercycle''" by code_simp+
  ultimately have "list_all2 reads_as [''echo'', ''\"y\"|'' @ path, ip, ''powercycle''] [''echo'', ''y|'' @ path, ip, ''powercycle'']"
    using assms(2) by (simp add: plain_reads_as)
  from shlex_split_words [OF this] show ?thesis by (simp add: py_join_Cons)
qed

text \<open>
  A power cycle by fence\_amt runs \<open>echo\<close> and nothing else: the command with its pipe is
  not given to a shell, so the program started is echo, with the path of amttool as an
  argument. When that echo ends with status 0, as it does, the callback reports success with the
  machine untouched.
\<close>

theorem amt_cycle_only_echoes:
  assumes "opts s ''--amttool-path'' = Some (PStr path)" "plain path" and "opts s ''--ip'' = Some (PStr ip)" "plain ip"
    and "opts s ''--boot-option'' = None" "opts s ''--use-sudo'' = None"
    and "timeout_opt (opts s) = Ret limit"
    and "tool None [''echo'', ''y|'' @ path, ip, ''powercycle''] (world s) = (Some p, world s)"
    and "takes p = Some 0" "exit_code p = 0"
  shows "reboot_cycle_amt tool s = (Ret True, s)"
proof -
  have "create_command_amt ''cycle'' s = (Ret (''echo \"y\"|'' @ path @ '' '' @ ip @ '' powercycle''), s)"
    using assms(1,3,5,6) by (simp add: create_command_amt_def bindM_def stroptM_def optM_def run_prims Let_def)
  moreover have "run_command (start (tool None)) (''echo \"y\"|'' @ path @ '' '' @ ip @ '' powercycle'') s =
      (Ret (0, stdout p, stderr p), s)"
    using assms(7-) amt_cycle_words [OF assms(2,4)] timeout_opt_nonneg [of "opts s"]
    by (auto simp: run_command_def bindM_def run_prims start_run await_def passM_run split: option.splits)
  ultimately show ?thesis by (simp add: reboot_cycle_amt_def bindM_def run_prims)
qed

definition amt_machine :: "bool amt_tools" where
  \<comment> \<open>a machine that is on or off, and the programs echo and sh\<close>
  "amt_machine password args on =
     (let answer = (\<lambda>text. Some \<lparr>takes = Some 0, exit_code = 0, stdout = text, stderr = [], cut_out = [], cut_err = []\<rparr>) in
      if hd args = ''echo'' then (answer (py_join '' '' (tl args)), on)
      else if py_in ''powerdown'' (last args) then (answer [], False)
      else if py_in ''power'' (last args) then (answer [], True)
      else (answer (if on then ''Powerstate: S0'' else ''Powerstate: S5''), on))"

theorem amt_cycle_only_echoes_witness:
  "reboot_cycle_amt amt_machine (tool_st [(''--amttool-path'', ''/usr/bin/amttool''), (''--ip'', ''nuc'')] True) =
     (Ret True, tool_st [(''--amttool-path'', ''/usr/bin/amttool''), (''--ip'', ''nuc'')] True)"
proof -
  have "plain ''/usr/bin/amttool''" "plain ''nuc''" by code_simp+
  moreover have "timeout_opt (map_of [(''--amttool-path'', PStr ''/usr/bin/amttool''), (''--ip'', PStr ''nuc'')]) = Ret None"
    by (simp add: timeout_opt_def)
  ultimately show ?thesis
    by ((intro amt_cycle_only_echoes [where path = "''/usr/bin/amttool''" and ip = "''nuc''" and limit = None]),
      simp_all add: tool_st_def amt_machine_def, simp_all)
qed

section \<open>Fields of a line\<close>

lemma dsv_field:
  "dsv_items False item (convert_field_to_dsv t @ cs) = dsv_items False (item @ t) cs"
  by (induction t arbitrary: item) (auto simp: convert_field_to_dsv_def)

lemma dsv_fields:
  "dsv_items False [] (py_join '':'' (map convert_field_to_dsv (fs @ [l]))) = fs @ (if l = [] then [] else [l])"
proof (induction fs)
  case Nil
  show ?case using dsv_field [of "[]" l "[]"] by simp
next
  case (Cons f fs)
  have "py_join '':'' (map convert_field_to_dsv ((f # fs) @ [l])) =
      convert_field_to_dsv f @ CHR '':'' # py_join '':'' (map convert_field_to_dsv (fs @ [l]))" by (simp add: py_join_Cons)
  with Cons show ?case by (simp add: dsv_field)
qed

text \<open>
  What the helper of fence\_vmware writes is read back: the fields of a line, of any content,
  each written by \<open>convert_field_to_dsv\<close> and separated by colons, are split into exactly these fields
  by \<open>dsv_split\<close>, except that an empty last field is left out.
\<close>

theorem dsv_round_trip:
  "dsv_split (py_join '':'' (map convert_field_to_dsv (fs @ [l]))) = fs @ (if l = [] then [] else [l])"
  unfolding dsv_split_def by (rule dsv_fields)

end
