(* ===== verification/Json.thy ===== *)
theory Json
  imports Run_Command Py_Regex "HOL-Library.AList"
begin

text \<open>
  The module \<open>json\<close> of Python, as far as the agents with an HTTP interface use it: \<open>json.loads\<close> and
  \<open>json.dumps\<close> with their default arguments, and what the code does with the values it gets: subscripts
  and membership with their exceptions, truth values, iteration and \<open>str\<close>. A number with a fraction
  or an exponent is kept as its text. A text has characters up to U+00FF; an escape of a character
  beyond is not read. An object is the list of its members in the order of the dictionary, without
  duplicate keys; \<open>loads\<close> keeps the last of several members with one key, at the place of the first.
\<close>

section \<open>Values\<close>

datatype json =
    JNull
  | JBool bool
  | JInt int
  | JFloat string
  | JStr string
  | JList "json list"
  | JObj "(string \<times> json) list"

definition py_json :: "pyval \<Rightarrow> json" where
  \<comment> \<open>a value of the options in a request\<close>
  "py_json v = (case v of PNone \<Rightarrow> JNull | PInt n \<Rightarrow> JInt n | PStr t \<Rightarrow> JStr t | PList l \<Rightarrow> JList (map JStr l))"

section \<open>\<open>json.dumps\<close>\<close>

definition quote_char :: "char \<Rightarrow> string" where
  "quote_char c =
     (if c = dquote \<or> c = bslash then [bslash, c]
      else if c = CHR 0x0A then [bslash, CHR ''n''] else if c = CHR 0x0D then [bslash, CHR ''r'']
      else if c = CHR 0x09 then [bslash, CHR ''t''] else if c = CHR 0x0C then [bslash, CHR ''f'']
      else if c = CHR 0x08 then [bslash, CHR ''b'']
      else if (of_char c :: nat) < 32 \<or> (of_char c :: nat) > 126 then [bslash, CHR ''u'', CHR ''0'', CHR ''0''] @ hex_byte c
      else [c])"

definition json_quote :: "string \<Rightarrow> string" where
  "json_quote t = [dquote] @ concat (map quote_char t) @ [dquote]"

fun json_dumps :: "json \<Rightarrow> string" where
  "json_dumps JNull = ''null''"
| "json_dumps (JBool b) = (if b then ''true'' else ''false'')"
| "json_dumps (JInt n) = show_int n"
| "json_dumps (JFloat t) = t"
| "json_dumps (JStr t) = json_quote t"
| "json_dumps (JList vs) = ''['' @ py_join '', '' (map json_dumps vs) @ '']''"
| "json_dumps (JObj kvs) = ''{'' @ py_join '', '' (map (\<lambda>kv. json_quote (fst kv) @ '': '' @ json_dumps (snd kv)) kvs) @ ''}''"

section \<open>\<open>json.loads\<close>\<close>

definition json_space :: "char \<Rightarrow> bool" where
  "json_space c \<longleftrightarrow> c \<in> {CHR '' '', CHR 0x09, CHR 0x0A, CHR 0x0D}"

abbreviation jskip :: "string \<Rightarrow> string" where
  "jskip \<equiv> dropWhile json_space"

definition hex_val :: "char \<Rightarrow> int option" where
  "hex_val c = (case digit_val c of Some d \<Rightarrow> if d < 16 then Some d else None | None \<Rightarrow> None)"

definition hex4 :: "char \<Rightarrow> char \<Rightarrow> char \<Rightarrow> char \<Rightarrow> int option" where
  "hex4 a b c d = (case (hex_val a, hex_val b, hex_val c, hex_val d) of
      (Some w, Some x, Some y, Some z) \<Rightarrow> Some (((w * 16 + x) * 16 + y) * 16 + z)
    | _ \<Rightarrow> None)"

definition unescape :: "char \<Rightarrow> char option" where
  "unescape e = map_of [(dquote, dquote), (bslash, bslash), (CHR ''/'', CHR ''/''), (CHR ''b'', CHR 0x08), (CHR ''f'', CHR 0x0C),
     (CHR ''n'', CHR 0x0A), (CHR ''r'', CHR 0x0D), (CHR ''t'', CHR 0x09)] e"

fun json_string :: "string \<Rightarrow> (string \<times> string) option" where
  \<comment> \<open>after the opening quote: the text, and what follows the closing quote\<close>
  "json_string [] = None"
| "json_string (c # cs) =
     (if c = dquote then Some ([], cs)
      else if c = bslash then (case cs of
          [] \<Rightarrow> None
        | e # ds \<Rightarrow>
            if e = CHR ''u'' then (case ds of
                h1 # h2 # h3 # h4 # r \<Rightarrow> (case hex4 h1 h2 h3 h4 of
                    Some n \<Rightarrow> if n < 256 then map_option (\<lambda>(t, r'). (char_of n # t, r')) (json_string r) else None
                  | None \<Rightarrow> None)
              | _ \<Rightarrow> None)
            else (case unescape e of
                Some x \<Rightarrow> map_option (\<lambda>(t, r'). (x # t, r')) (json_string ds)
              | None \<Rightarrow> None))
      else if (of_char c :: nat) < 32 then None
      else map_option (\<lambda>(t, r'). (c # t, r')) (json_string cs))"

definition int_part :: "string \<Rightarrow> string" where
  "int_part t = (if py_startswith ''0'' t then ''0'' else takeWhile is_digit t)"

definition frac_part :: "string \<Rightarrow> string" where
  "frac_part t = (case t of c # d # r \<Rightarrow> if c = CHR ''.'' \<and> is_digit d then c # takeWhile is_digit (d # r) else [] | _ \<Rightarrow> [])"

definition exp_part :: "string \<Rightarrow> string" where
  "exp_part t = (case t of
      [] \<Rightarrow> []
    | c # r \<Rightarrow>
        (let sign = (if py_startswith ''-'' r \<or> py_startswith ''+'' r then take 1 r else []);
             ds = takeWhile is_digit (drop (length sign) r)
         in if c \<in> {CHR ''e'', CHR ''E''} \<and> ds \<noteq> [] then c # sign @ ds else []))"

definition json_number :: "string \<Rightarrow> (json \<times> string) option" where
  "json_number s =
     (let sign = (if py_startswith ''-'' s then ''-'' else []);
          t = drop (length sign) s; i = int_part t;
          u = drop (length i) t; f = frac_part u;
          v = drop (length f) u; e = exp_part v;
          text = sign @ i @ f @ e; r = drop (length e) v
      in if i = [] then None
         else if f = [] \<and> e = [] then map_option (\<lambda>n. (JInt n, r)) (py_int_str text)
         else Some (JFloat text, r))"

definition json_words :: "(string \<times> json) list" where
  "json_words = [(''null'', JNull), (''true'', JBool True), (''false'', JBool False),
     (''NaN'', JFloat ''NaN''), (''Infinity'', JFloat ''Infinity''), (''-Infinity'', JFloat ''-Infinity'')]"

definition json_atom :: "string \<Rightarrow> (json \<times> string) option" where
  "json_atom s = (case filter (\<lambda>(w, _). py_startswith w s) json_words of
      (w, v) # _ \<Rightarrow> Some (v, drop (length w) s)
    | [] \<Rightarrow> json_number s)"

text \<open>The recursion is over fuel; \<open>json_loads\<close> gives as much as the text can use.\<close>

fun json_value :: "nat \<Rightarrow> string \<Rightarrow> (json \<times> string) option"
and json_elements :: "nat \<Rightarrow> json list \<Rightarrow> string \<Rightarrow> (json \<times> string) option"
and json_members :: "nat \<Rightarrow> (string \<times> json) list \<Rightarrow> string \<Rightarrow> (json \<times> string) option" where
  "json_value 0 s = None"
| "json_value (Suc n) s = (case s of
      [] \<Rightarrow> None
    | c # cs \<Rightarrow>
        if c = dquote then map_option (\<lambda>(t, r). (JStr t, r)) (json_string cs)
        else if c = CHR ''['' then (if py_startswith '']'' (jskip cs) then Some (JList [], drop 1 (jskip cs))
          else json_elements n [] (jskip cs))
        else if c = CHR ''{'' then (if py_startswith ''}'' (jskip cs) then Some (JObj [], drop 1 (jskip cs))
          else json_members n [] (jskip cs))
        else json_atom s)"
| "json_elements 0 vs s = None"
| "json_elements (Suc n) vs s = (case json_value n s of
      None \<Rightarrow> None
    | Some (v, r) \<Rightarrow> (case jskip r of
          [] \<Rightarrow> None
        | c # r' \<Rightarrow>
            if c = CHR '']'' then Some (JList (vs @ [v]), r')
            else if c = CHR '','' then json_elements n (vs @ [v]) (jskip r')
            else None))"
| "json_members 0 kvs s = None"
| "json_members (Suc n) kvs s = (if \<not> py_startswith [dquote] s then None else
     (case json_string (drop 1 s) of
        None \<Rightarrow> None
      | Some (k, r) \<Rightarrow> if \<not> py_startswith '':'' (jskip r) then None else
          (case json_value n (jskip (drop 1 (jskip r))) of
             None \<Rightarrow> None
           | Some (v, r') \<Rightarrow> (case jskip r' of
                 [] \<Rightarrow> None
               | c # r'' \<Rightarrow>
                   if c = CHR ''}'' then Some (JObj (AList.update k v kvs), r'')
                   else if c = CHR '','' then json_members n (AList.update k v kvs) (jskip r'')
                   else None))))"

definition json_loads :: "string \<Rightarrow> json outcome" where
  "json_loads s = (case json_value (2 * length s + 2) (jskip s) of
      Some (v, r) \<Rightarrow> if jskip r = [] then Ret v else Raise (ValueError ''Extra data'')
    | None \<Rightarrow> Raise (ValueError ''Expecting value''))"

section \<open>What the agents do with a value\<close>

definition json_type :: "json \<Rightarrow> string" where
  \<comment> \<open>the name of the class\<close>
  "json_type v = (case v of JNull \<Rightarrow> ''NoneType'' | JBool _ \<Rightarrow> ''bool'' | JInt _ \<Rightarrow> ''int'' | JFloat _ \<Rightarrow> ''float''
     | JStr _ \<Rightarrow> ''str'' | JList _ \<Rightarrow> ''list'' | JObj _ \<Rightarrow> ''dict'')"

definition type_error :: "json \<Rightarrow> string \<Rightarrow> exn" where
  "type_error v what = TypeError ([CHR 0x27] @ json_type v @ [CHR 0x27] @ what)"

definition json_item :: "string \<Rightarrow> json \<Rightarrow> json outcome" where
  \<comment> \<open>\<open>v["k"]\<close>\<close>
  "json_item k v = (case v of
      JObj kvs \<Rightarrow> (case map_of kvs k of Some x \<Rightarrow> Ret x | None \<Rightarrow> Raise (KeyError k))
    | JList _ \<Rightarrow> Raise (TypeError ''list indices must be integers or slices, not str'')
    | JStr _ \<Rightarrow> Raise (TypeError ''string indices must be integers'')
    | _ \<Rightarrow> Raise (type_error v '' object is not subscriptable''))"

definition json_index :: "nat \<Rightarrow> json \<Rightarrow> json outcome" where
  \<comment> \<open>\<open>v[i]\<close>\<close>
  "json_index i v = (case v of
      JList vs \<Rightarrow> if i < length vs then Ret (vs ! i) else Raise (IndexError ''list index out of range'')
    | JStr t \<Rightarrow> if i < length t then Ret (JStr [t ! i]) else Raise (IndexError ''string index out of range'')
    | JObj _ \<Rightarrow> Raise (KeyError (show_int (int i)))
    | _ \<Rightarrow> Raise (type_error v '' object is not subscriptable''))"

definition json_has :: "string \<Rightarrow> json \<Rightarrow> bool outcome" where
  \<comment> \<open>\<open>"k" in v\<close>\<close>
  "json_has k v = (case v of
      JObj kvs \<Rightarrow> Ret (k \<in> set (map fst kvs))
    | JList vs \<Rightarrow> Ret (JStr k \<in> set vs)
    | JStr t \<Rightarrow> Ret (py_in k t)
    | _ \<Rightarrow> Raise (TypeError (''argument of type '' @ [CHR 0x27] @ json_type v @ [CHR 0x27] @ '' is not iterable'')))"

definition json_member :: "string \<Rightarrow> json \<Rightarrow> json option" where
  \<comment> \<open>\<open>type(v) is dict and "k" in v\<close>, then \<open>v["k"]\<close>\<close>
  "json_member k v = (case v of JObj kvs \<Rightarrow> map_of kvs k | _ \<Rightarrow> None)"

definition json_get :: "string \<Rightarrow> json \<Rightarrow> json outcome" where
  \<comment> \<open>\<open>v.get("k")\<close>\<close>
  "json_get k v = (case v of
      JObj kvs \<Rightarrow> Ret (case map_of kvs k of Some x \<Rightarrow> x | None \<Rightarrow> JNull)
    | _ \<Rightarrow> Raise (AttributeError ([CHR 0x27] @ json_type v @ [CHR 0x27] @ '' object has no attribute '' @ [CHR 0x27] @ ''get'' @ [CHR 0x27])))"

definition json_iter :: "json \<Rightarrow> json list outcome" where
  \<comment> \<open>\<open>for x in v\<close>\<close>
  "json_iter v = (case v of
      JList vs \<Rightarrow> Ret vs
    | JObj kvs \<Rightarrow> Ret (map (JStr \<circ> fst) kvs)
    | JStr t \<Rightarrow> Ret (map (\<lambda>c. JStr [c]) t)
    | _ \<Rightarrow> Raise (type_error v '' object is not iterable''))"

definition json_len :: "json \<Rightarrow> nat outcome" where
  \<comment> \<open>\<open>len(v)\<close>\<close>
  "json_len v = (case v of
      JList vs \<Rightarrow> Ret (length vs) | JObj kvs \<Rightarrow> Ret (length kvs) | JStr t \<Rightarrow> Ret (length t)
    | _ \<Rightarrow> Raise (TypeError (''object of type '' @ [CHR 0x27] @ json_type v @ [CHR 0x27] @ '' has no len()'')))"

definition json_true :: "json \<Rightarrow> bool" where
  \<comment> \<open>\<open>bool(v)\<close>; a float is true if it has a digit other than 0 before its exponent\<close>
  "json_true v = (case v of
      JNull \<Rightarrow> False | JBool b \<Rightarrow> b | JInt n \<Rightarrow> n \<noteq> 0
    | JFloat t \<Rightarrow> (\<exists>c\<in>set (takeWhile (\<lambda>c. c \<notin> {CHR ''e'', CHR ''E''}) t). c \<notin> set ''-0.'')
    | JStr t \<Rightarrow> t \<noteq> [] | JList vs \<Rightarrow> vs \<noteq> [] | JObj kvs \<Rightarrow> kvs \<noteq> [])"

definition json_text :: "json \<Rightarrow> string outcome" where
  \<comment> \<open>a value where only a text will do: another operand of \<open>+\<close>, the argument of \<open>quote\<close>\<close>
  "json_text v = (case v of JStr t \<Rightarrow> Ret t
    | _ \<Rightarrow> Raise (TypeError (''can only concatenate str (not \"'' @ json_type v @ ''\") to str'')))"

definition json_method :: "string \<Rightarrow> json \<Rightarrow> string outcome" where
  \<comment> \<open>a value one of whose string methods is called\<close>
  "json_method m v = (case v of JStr t \<Rightarrow> Ret t
    | _ \<Rightarrow> Raise (AttributeError ([CHR 0x27] @ json_type v @ [CHR 0x27] @ '' object has no attribute '' @ [CHR 0x27] @ m @ [CHR 0x27])))"

fun json_repr :: "json \<Rightarrow> string" where
  "json_repr JNull = ''None''"
| "json_repr (JBool b) = (if b then ''True'' else ''False'')"
| "json_repr (JInt n) = show_int n"
| "json_repr (JFloat t) = t"
| "json_repr (JStr t) = py_repr t"
| "json_repr (JList vs) = ''['' @ py_join '', '' (map json_repr vs) @ '']''"
| "json_repr (JObj kvs) = ''{'' @ py_join '', '' (map (\<lambda>kv. py_repr (fst kv) @ '': '' @ json_repr (snd kv)) kvs) @ ''}''"

definition json_str :: "json \<Rightarrow> string" where
  \<comment> \<open>\<open>str(v)\<close>\<close>
  "json_str v = (case v of JStr t \<Rightarrow> t | _ \<Rightarrow> json_repr v)"

section \<open>A text read back\<close>

fun json_size :: "json \<Rightarrow> nat" where
  "json_size (JList vs) = 1 + length vs + sum_list (map json_size vs)"
| "json_size (JObj kvs) = 1 + length kvs + sum_list (map (\<lambda>kv. json_size (snd kv)) kvs)"
| "json_size v = 1"

fun json_plain :: "json \<Rightarrow> bool" where
  \<comment> \<open>no floats, and the keys of an object are distinct, as in every dictionary\<close>
  "json_plain (JFloat t) = False"
| "json_plain (JList vs) = (\<forall>v\<in>set vs. json_plain v)"
| "json_plain (JObj kvs) = (distinct (map fst kvs) \<and> (\<forall>kv\<in>set kvs. json_plain (snd kv)))"
| "json_plain v = True"

lemma json_string_other:
  "c \<noteq> dquote \<Longrightarrow> c \<noteq> bslash \<Longrightarrow> \<not> (of_char c :: nat) < 32 \<Longrightarrow>
     json_string (c # cs) = map_option (\<lambda>(t, r'). (c # t, r')) (json_string cs)"
  by simp

lemma json_string_escape:
  "e \<noteq> CHR ''u'' \<Longrightarrow> unescape e = Some x \<Longrightarrow>
     json_string (bslash # e # ds) = map_option (\<lambda>(t, r'). (x # t, r')) (json_string ds)"
  by simp

lemma hex_val_digit: "n < 16 \<Longrightarrow> hex_val (hex_digit n) = Some (int n)"
proof -
  have "\<forall>n\<in>{..<16}. hex_val (hex_digit n) = Some (int n)" by code_simp
  then show "n < 16 \<Longrightarrow> ?thesis" by blast
qed

lemma json_string_hex:
  "json_string ([bslash, CHR ''u'', CHR ''0'', CHR ''0''] @ hex_byte c @ s)
     = map_option (\<lambda>(t, r'). (c # t, r')) (json_string s)"
proof -
  define n where "n = (of_char c :: nat)"
  have n: "n < 256" by (simp add: n_def)
  then have "hex_val (hex_digit (n div 16)) = Some (int (n div 16))" "hex_val (hex_digit (n mod 16)) = Some (int (n mod 16))"
    by (simp_all add: hex_val_digit)
  moreover have "hex_val (CHR ''0'') = Some 0" by code_simp
  moreover have "int (n div 16) * 16 + int (n mod 16) = int n"
    by (metis div_mult_mod_eq of_nat_add of_nat_mult of_nat_numeral)
  ultimately have "hex4 (CHR ''0'') (CHR ''0'') (hex_digit (n div 16)) (hex_digit (n mod 16)) = Some (int n)"
    by (simp add: hex4_def del: of_nat_div of_nat_mod)
  moreover have "char_of (int n) = c" by (simp add: n_def)
  ultimately show ?thesis using n by (simp add: hex_byte_def Let_def n_def del: of_char_of char_of_eq_iff)
qed

lemma json_string_quote_char:
  "json_string (quote_char c @ s) = map_option (\<lambda>(t, r'). (c # t, r')) (json_string s)"
proof -
  have e: "unescape dquote = Some dquote" "unescape bslash = Some bslash" "unescape (CHR ''n'') = Some (CHR 0x0A)"
    "unescape (CHR ''r'') = Some (CHR 0x0D)" "unescape (CHR ''t'') = Some (CHR 0x09)"
    "unescape (CHR ''f'') = Some (CHR 0x0C)" "unescape (CHR ''b'') = Some (CHR 0x08)"
    by (simp_all add: unescape_def)
  show ?thesis
    using json_string_hex [of c s]
    by (auto simp: quote_char_def e json_string_escape json_string_other simp del: json_string.simps(2))
qed

lemma json_string_quote: "json_string (concat (map quote_char t) @ dquote # r) = Some (t, r)"
  by (induction t) (simp_all add: json_string_quote_char del: json_string.simps(2), simp)

definition ends_number :: "string \<Rightarrow> bool" where
  \<comment> \<open>what may follow a number without becoming a part of it\<close>
  "ends_number r \<longleftrightarrow> (\<forall>c cs. r = c # cs \<longrightarrow> \<not> is_digit c \<and> c \<notin> {CHR ''.'', CHR ''e'', CHR ''E''})"

lemma is_digit_hex: "n < 10 \<Longrightarrow> is_digit (hex_digit n)"
proof -
  have "\<forall>n\<in>{..<10}. is_digit (hex_digit n)" by code_simp
  then show "n < 10 \<Longrightarrow> ?thesis" by blast
qed

lemma show_nat_digits: "c \<in> set (show_nat n) \<Longrightarrow> is_digit c"
  using show_nat_chars is_digit_hex by blast

lemma show_nat_zero: "show_nat n = CHR ''0'' # x \<Longrightarrow> n = 0 \<and> x = []"
proof (induction n arbitrary: x rule: show_nat.induct)
  case (1 n)
  show ?case
  proof (cases "n < 10")
    case True
    have "\<forall>n\<in>{..<10}. hex_digit n = CHR ''0'' \<longrightarrow> n = 0" by code_simp
    with "1.prems" True show ?thesis by (subst (asm) show_nat.simps) simp
  next
    case False
    with "1.prems" obtain y where "show_nat (n div 10) = CHR ''0'' # y"
      by (subst (asm) show_nat.simps) (cases "show_nat (n div 10)", simp_all)
    with "1.IH" [OF False] have "n div 10 = 0" by blast
    with False show ?thesis by (simp add: div_eq_0_iff)
  qed
qed

lemma int_part_show:
  assumes "ends_number r" shows "int_part (show_nat n @ r) = show_nat n"
proof (cases "py_startswith ''0'' (show_nat n @ r)")
  case True
  then obtain x where "show_nat n = CHR ''0'' # x"
    by (cases "show_nat n") (simp_all add: py_startswith_def)
  with show_nat_zero [OF this] True show ?thesis by (simp add: int_part_def)
next
  case False
  have "takeWhile is_digit r = []" using assms by (cases r) (simp_all add: ends_number_def)
  with False show ?thesis by (simp add: int_part_def takeWhile_append2 show_nat_digits)
qed

lemma ends_number_parts: "ends_number r \<Longrightarrow> frac_part r = []" "ends_number r \<Longrightarrow> exp_part r = []"
  by (auto simp: ends_number_def frac_part_def exp_part_def Let_def split: list.splits)

lemma json_number_plain:
  assumes "ends_number r" "\<not> py_startswith ''-'' (show_nat m @ r)"
  shows "json_number (show_nat m @ r) = map_option (\<lambda>k. (JInt k, r)) (py_int_str (show_nat m))"
  using assms(2) by (simp add: json_number_def int_part_show [OF assms(1)] ends_number_parts [OF assms(1)])

lemma json_number_minus:
  assumes "ends_number r"
  shows "json_number (CHR ''-'' # show_nat m @ r) = map_option (\<lambda>k. (JInt k, r)) (py_int_str (CHR ''-'' # show_nat m))"
proof -
  have "py_startswith ''-'' (CHR ''-'' # show_nat m @ r)" by (simp add: py_startswith_def)
  then show ?thesis by (simp add: json_number_def int_part_show [OF assms] ends_number_parts [OF assms])
qed

lemma json_number_show:
  assumes "ends_number r" shows "json_number (show_int n @ r) = Some (JInt n, r)"
proof (cases "n < 0")
  case True
  with json_number_minus [OF assms, of "nat (- n)"] py_int_show [of n] show ?thesis by (simp add: show_int_def)
next
  case False
  obtain c cs where c: "show_nat (nat n) = c # cs" by (cases "show_nat (nat n)") simp_all
  then have "c \<noteq> CHR ''-''" using show_nat_char_facts [of c "nat n"] by simp
  then have "\<not> py_startswith ''-'' (show_nat (nat n) @ r)" by (simp add: c py_startswith_def)
  from json_number_plain [OF assms this] False py_int_show [of n] show ?thesis by (simp add: show_int_def)
qed

lemma first_digit: "\<exists>c cs. show_nat n = c # cs \<and> is_digit c"
  using show_nat_digits [of _ n] by (cases "show_nat n") simp_all

lemma show_int_start:
  obtains c cs where "show_int n = c # cs" "is_digit c"
  | c cs where "show_int n = CHR ''-'' # c # cs" "is_digit c"
proof (cases "n < 0")
  case True
  obtain c cs where "show_nat (nat (- n)) = c # cs" "is_digit c" using first_digit by blast
  with True that(2) show ?thesis by (simp add: show_int_def)
next
  case False
  obtain c cs where "show_nat (nat n) = c # cs" "is_digit c" using first_digit by blast
  with False that(1) show ?thesis by (simp add: show_int_def)
qed

lemma no_json_word:
  assumes "is_digit c" shows "\<forall>wv\<in>set json_words. \<not> py_startswith (fst wv) (c # t) \<and> \<not> py_startswith (fst wv) (CHR ''-'' # c # t)"
proof -
  have "\<not> is_digit (CHR ''n'')" "\<not> is_digit (CHR ''t'')" "\<not> is_digit (CHR ''f'')" "\<not> is_digit (CHR ''N'')"
    "\<not> is_digit (CHR ''I'')" "\<not> is_digit (CHR ''-'')" by code_simp+
  with assms show ?thesis by (auto simp: json_words_def py_startswith_def)
qed

lemma json_atom_show:
  assumes "ends_number r" shows "json_atom (show_int n @ r) = Some (JInt n, r)"
proof -
  have "\<forall>wv\<in>set json_words. \<not> py_startswith (fst wv) (show_int n @ r)"
  proof (cases rule: show_int_start [of n])
    case (1 c cs)
    with no_json_word [of c "cs @ r"] show ?thesis by simp
  next
    case (2 c cs)
    with no_json_word [of c "cs @ r"] show ?thesis by simp
  qed
  then have "filter (\<lambda>wv. py_startswith (fst wv) (show_int n @ r)) json_words = []" by (simp add: filter_empty_conv)
  then show ?thesis by (simp add: json_atom_def json_number_show assms case_prod_beta')
qed

definition starts_value :: "string \<Rightarrow> bool" where
  "starts_value s \<longleftrightarrow> (\<exists>c cs. s = c # cs \<and> \<not> json_space c \<and> c \<noteq> CHR '']'')"

lemma starts_valueD: "starts_value s \<Longrightarrow> jskip (s @ r) = s @ r" "starts_value s \<Longrightarrow> \<not> py_startswith '']'' (s @ r)"
  "starts_value s \<Longrightarrow> s \<noteq> []"
  by (auto simp: starts_value_def py_startswith_def)

lemma digit_starts: "is_digit c \<Longrightarrow> \<not> json_space c \<and> c \<noteq> CHR '']'' \<and> c \<noteq> dquote \<and> c \<noteq> CHR ''['' \<and> c \<noteq> CHR ''{''"
  by (auto simp: json_space_def is_digit_def less_eq_char_def)

lemma show_int_starts: "\<exists>c cs. show_int n = c # cs \<and> \<not> json_space c \<and> c \<noteq> CHR '']'' \<and> c \<noteq> dquote \<and> c \<noteq> CHR ''['' \<and> c \<noteq> CHR ''{''"
  by (cases rule: show_int_start [of n]) (use digit_starts in \<open>auto simp: json_space_def\<close>)

lemma dumps_starts: "json_plain v \<Longrightarrow> starts_value (json_dumps v)"
proof (cases v)
  case (JInt n)
  with show_int_starts [of n] show ?thesis by (auto simp: starts_value_def)
qed (auto simp: starts_value_def json_space_def json_quote_def)

section \<open>The round trip\<close>

definition reads_back :: "json \<Rightarrow> bool" where
  "reads_back v \<longleftrightarrow> (\<forall>n r. json_size v \<le> n \<longrightarrow> ends_number r \<longrightarrow> json_value n (json_dumps v @ r) = Some (v, r))"

lemma reads_backD: "reads_back v \<Longrightarrow> json_size v \<le> n \<Longrightarrow> ends_number r \<Longrightarrow> json_value n (json_dumps v @ r) = Some (v, r)"
  by (simp add: reads_back_def)

lemma ends_number_delims [simp]: "ends_number (CHR '','' # r)" "ends_number (CHR '']'' # r)" "ends_number (CHR ''}'' # r)"
  by (simp_all add: ends_number_def is_digit_def less_eq_char_def)

lemma json_space_delims [simp]: "\<not> json_space (CHR '','')" "\<not> json_space (CHR '']'')" "\<not> json_space (CHR ''}'')"
  "\<not> json_space (CHR '':'')" "json_space (CHR '' '')" "\<not> json_space dquote"
  by (simp_all add: json_space_def)

lemma json_value_digit: "\<not> c = dquote \<Longrightarrow> c \<noteq> CHR ''['' \<Longrightarrow> c \<noteq> CHR ''{'' \<Longrightarrow> json_value (Suc n) (c # cs) = json_atom (c # cs)"
  by simp

lemma reads_back_int: "reads_back (JInt n)"
proof -
  have "json_value m (show_int n @ r) = Some (JInt n, r)" if m: "1 \<le> m" and r: "ends_number r" for m r
  proof -
    obtain c cs where c: "show_int n = c # cs" "c \<noteq> dquote" "c \<noteq> CHR ''[''" "c \<noteq> CHR ''{''"
      using show_int_starts [of n] by blast
    obtain k where k: "m = Suc k" using m by (cases m) simp_all
    show ?thesis using json_atom_show [OF r, of n] c by (simp add: k json_value_digit del: json_value.simps)
  qed
  then show ?thesis by (simp add: reads_back_def)
qed

lemma reads_back_leaf: "reads_back JNull" "reads_back (JBool b)" "reads_back (JStr t)"
proof -
  have "json_value (Suc k) (w @ r) = Some (v, r)" if "(w, v) \<in> {(''null'', JNull), (''true'', JBool True), (''false'', JBool False)}" for k w v r
    using that by (auto simp: json_atom_def json_words_def py_startswith_def)
  then have "json_value n (w @ r) = Some (v, r)"
    if "1 \<le> n" "(w, v) \<in> {(''null'', JNull), (''true'', JBool True), (''false'', JBool False)}" for n w v r
    using that by (cases n) (auto simp del: json_value.simps)
  from this [of _ "''null''" JNull] this [of _ "if b then ''true'' else ''false''" "JBool b"]
  show "reads_back JNull" "reads_back (JBool b)" by (simp_all add: reads_back_def del: json_value.simps)
  have "json_value (Suc k) (json_quote t @ r) = Some (JStr t, r)" for k r
    by (simp add: json_quote_def json_string_quote del: json_string.simps)
  then have "json_value n (json_quote t @ r) = Some (JStr t, r)" if "1 \<le> n" for n r
    using that by (cases n) (simp_all del: json_value.simps)
  then show "reads_back (JStr t)" by (simp add: reads_back_def del: json_value.simps)
qed

lemma json_elements_dumps:
  assumes "\<forall>v\<in>set vs. reads_back v \<and> json_plain v" "vs \<noteq> []" "length vs + sum_list (map json_size vs) \<le> n"
  shows "json_elements n acc (py_join '', '' (map json_dumps vs) @ CHR '']'' # r) = Some (JList (acc @ vs), r)"
  using assms
proof (induction vs arbitrary: n acc)
  case (Cons v vs)
  then obtain m where m: "n = Suc m" "json_size v \<le> m" "length vs + sum_list (map json_size vs) \<le> m" by (cases n) auto
  show ?case
  proof (cases "vs = []")
    case True
    with Cons.prems m reads_backD [of v m "CHR '']'' # r"] show ?thesis by simp
  next
    case False
    define rest where "rest = py_join '', '' (map json_dumps vs) @ CHR '']'' # r"
    obtain w ws where ws: "vs = w # ws" using False by (cases vs) auto
    have "starts_value (py_join '', '' (map json_dumps vs))"
      using dumps_starts [of w] Cons.prems(1) by (cases ws) (auto simp: ws starts_value_def)
    then have skip: "jskip rest = rest" by (simp add: rest_def starts_valueD)
    have "json_value m (json_dumps v @ CHR '','' # CHR '' '' # rest) = Some (v, CHR '','' # CHR '' '' # rest)"
      using Cons.prems(1) m(2) by (simp add: reads_backD)
    moreover have "json_elements m (acc @ [v]) rest = Some (JList ((acc @ [v]) @ vs), r)"
      unfolding rest_def using Cons.prems m False by (intro Cons.IH) auto
    ultimately show ?thesis
      using False by (simp add: m(1) py_join_Cons skip rest_def [symmetric])
  qed
qed simp

lemma AList_update_new: "k \<notin> set (map fst kvs) \<Longrightarrow> AList.update k v kvs = kvs @ [(k, v)]"
  by (induction kvs) auto

abbreviation member_text :: "string \<times> json \<Rightarrow> string" where
  "member_text kv \<equiv> json_quote (fst kv) @ '': '' @ json_dumps (snd kv)"

lemma json_members_step:
  assumes "reads_back v" "json_plain v" "json_size v \<le> m" "ends_number r"
  shows "json_members (Suc m) acc (member_text (k, v) @ r) = (case jskip r of
      [] \<Rightarrow> None
    | c # r' \<Rightarrow> if c = CHR ''}'' then Some (JObj (AList.update k v acc), r')
        else if c = CHR '','' then json_members m (AList.update k v acc) (jskip r') else None)"
proof -
  have "jskip (json_dumps v @ r) = json_dumps v @ r" using dumps_starts [OF assms(2)] by (simp add: starts_valueD)
  then show ?thesis
    using assms reads_backD [OF assms(1,3,4)]
    by (simp add: json_quote_def json_string_quote py_startswith_def del: json_string.simps)
qed

lemma json_members_dumps:
  assumes "\<forall>kv\<in>set kvs. reads_back (snd kv) \<and> json_plain (snd kv)" "distinct (map fst (acc @ kvs))" "kvs \<noteq> []"
    "length kvs + sum_list (map (\<lambda>kv. json_size (snd kv)) kvs) \<le> n"
  shows "json_members n acc (py_join '', '' (map member_text kvs) @ CHR ''}'' # r) = Some (JObj (acc @ kvs), r)"
  using assms
proof (induction kvs arbitrary: n acc)
  case (Cons kv kvs)
  obtain k v where kv: "kv = (k, v)" by (cases kv)
  with Cons.prems obtain m where m: "n = Suc m" "json_size v \<le> m"
    "length kvs + sum_list (map (\<lambda>kv. json_size (snd kv)) kvs) \<le> m" by (cases n) auto
  have v: "reads_back v" "json_plain v" and new: "AList.update k v acc = acc @ [(k, v)]"
    using Cons.prems(1,2) by (auto simp: kv intro!: AList_update_new)
  show ?case
  proof (cases "kvs = []")
    case True
    with json_members_step [OF v m(2), of "CHR ''}'' # r"] show ?thesis
      by (simp add: kv m(1) new del: json_members.simps)
  next
    case False
    define rest where "rest = py_join '', '' (map member_text kvs) @ CHR ''}'' # r"
    obtain w ws where ws: "kvs = w # ws" using False by (cases kvs) auto
    have skip: "jskip rest = rest"
      unfolding rest_def by (cases ws) (simp_all add: ws json_quote_def)
    have "json_members m (acc @ [(k, v)]) rest = Some (JObj ((acc @ [(k, v)]) @ kvs), r)"
      unfolding rest_def using Cons.prems m False by (intro Cons.IH) (auto simp: kv)
    with json_members_step [OF v m(2), of "CHR '','' # CHR '' '' # rest"]
    have "json_members (Suc m) acc (member_text (k, v) @ CHR '','' # CHR '' '' # rest) = Some (JObj (acc @ (k, v) # kvs), r)"
      by (simp add: new skip del: json_members.simps)
    with False show ?thesis
      by (simp add: kv m(1) py_join_Cons rest_def del: json_members.simps)
  qed
qed simp

lemma reads_back: "json_plain v \<Longrightarrow> reads_back v"
proof (induction v)
  case (JList vs)
  then have all: "\<forall>v\<in>set vs. reads_back v \<and> json_plain v" by simp
  have "json_value n (json_dumps (JList vs) @ r) = Some (JList vs, r)" if le: "json_size (JList vs) \<le> n" for n r
  proof -
    obtain m where m: "n = Suc m" "length vs + sum_list (map json_size vs) \<le> m" using le by (cases n) auto
    show ?thesis
    proof (cases vs)
      case Nil
      then show ?thesis by (simp add: m(1) py_startswith_def)
    next
      case (Cons w ws)
      then have "starts_value (py_join '', '' (map json_dumps vs))"
        using dumps_starts [of w] all by (cases ws) (auto simp: starts_value_def)
      with json_elements_dumps [OF all _ m(2), of "[]" r] Cons show ?thesis
        by (simp add: m(1) starts_valueD del: json_elements.simps)
    qed
  qed
  then show ?case by (simp add: reads_back_def del: json_value.simps json_dumps.simps)
next
  case (JObj kvs)
  then have all: "\<forall>kv\<in>set kvs. reads_back (snd kv) \<and> json_plain (snd kv)" by (auto simp: prod_set_simps)
  have "json_value n (json_dumps (JObj kvs) @ r) = Some (JObj kvs, r)" if le: "json_size (JObj kvs) \<le> n" for n r
  proof -
    obtain m where m: "n = Suc m" "length kvs + sum_list (map (\<lambda>kv. json_size (snd kv)) kvs) \<le> m"
      using le by (cases n) auto
    show ?thesis
    proof (cases kvs)
      case Nil
      then show ?thesis by (simp add: m(1) py_startswith_def)
    next
      case (Cons w ws)
      have skip: "jskip (py_join '', '' (map member_text kvs) @ CHR ''}'' # r) = py_join '', '' (map member_text kvs) @ CHR ''}'' # r"
        "\<not> py_startswith ''}'' (py_join '', '' (map member_text kvs) @ CHR ''}'' # r)"
        by (cases ws; simp add: Cons json_quote_def py_startswith_def)+
      with json_members_dumps [OF all _ _ m(2), of "[]" r] Cons JObj.prems show ?thesis
        by (simp add: m(1) del: json_members.simps)
    qed
  qed
  then show ?case by (simp add: reads_back_def del: json_value.simps json_dumps.simps)
qed (simp_all add: reads_back_int reads_back_leaf)

lemma py_join_length: "sum_list (map length xs) + 2 * (length xs - 1) \<le> length (py_join '', '' xs)"
proof (induction xs rule: py_join.induct [where P = "\<lambda>_ xs. sum_list (map length xs) + 2 * (length xs - 1) \<le> length (py_join '', '' xs)"])
qed auto

lemma quote_length: "2 \<le> length (json_quote t)"
  by (simp add: json_quote_def)

lemma json_size_bound: "json_plain v \<Longrightarrow> json_size v \<le> 2 * length (json_dumps v)"
proof (induction v)
  case (JInt n)
  have "show_int n \<noteq> []" using show_int_starts [of n] by auto
  then have "1 \<le> length (show_int n)" by (cases "show_int n") simp_all
  then show ?case by simp
next
  case (JStr t)
  then show ?case using quote_length [of t] by simp
next
  case (JList vs)
  then have "sum_list (map json_size vs) \<le> sum_list (map (\<lambda>v. 2 * length (json_dumps v)) vs)"
    by (intro sum_list_mono) simp
  also have "\<dots> = 2 * sum_list (map length (map json_dumps vs))" by (simp add: sum_list_const_mult o_def)
  finally show ?case using py_join_length [of "map json_dumps vs"] by (simp add: o_def)
next
  case (JObj kvs)
  have "json_size (snd kv) \<le> 2 * length (member_text kv)" if "kv \<in> set kvs" for kv
    using JObj.IH [of kv "snd kv"] JObj.prems that by (simp add: prod_set_simps snds.intros)
  then have "sum_list (map (\<lambda>kv. json_size (snd kv)) kvs) \<le> sum_list (map (\<lambda>kv. 2 * length (member_text kv)) kvs)"
    by (intro sum_list_mono) simp
  also have "\<dots> = 2 * sum_list (map length (map member_text kvs))" by (simp only: sum_list_const_mult map_map o_def)
  finally show ?case using py_join_length [of "map member_text kvs"] by (simp add: o_def)
qed simp_all

text \<open>
  What an agent posts as JSON is what a reader of JSON gets: reading the text that \<open>json.dumps\<close>
  makes of a value gives the value back, whatever characters its texts and keys have.
\<close>

theorem json_loads_dumps:
  assumes "json_plain v" shows "json_loads (json_dumps v) = Ret v"
proof -
  have skip: "jskip (json_dumps v) = json_dumps v" using starts_valueD(1) [OF dumps_starts [OF assms], of "[]"] by simp
  have "json_size v \<le> 2 * length (json_dumps v) + 2" using json_size_bound [OF assms] by simp
  from reads_backD [OF reads_back [OF assms] this, of "[]"] show ?thesis
    by (simp add: json_loads_def skip ends_number_def del: json_value.simps)
qed

lemma json_loads_dumps_example:
  "json_loads (json_dumps (JObj [(''method'', JStr ''Switch.Set''), (''params'', JObj [(''id'', JStr [dquote, CHR 0x5C, CHR 0xE9]), (''on'', JBool False)])]))
     = Ret (JObj [(''method'', JStr ''Switch.Set''), (''params'', JObj [(''id'', JStr [dquote, CHR 0x5C, CHR 0xE9]), (''on'', JBool False)])])"
  by (rule json_loads_dumps) simp

end
