(* ===== verification/Web_Client.thy ===== *)
theory Web_Client
  imports Json Fence_Login
begin

text \<open>
  The HTTP clients through which agents reach the interfaces of their devices: the packages pycurl
  and requests. Both are parameters. A curl handle is the list of the options that were set on it, in
  order; what libcurl makes of them when \<open>perform\<close> is called, what the server answers or how the
  transfer fails, how long it takes and how it changes the state of the server are an argument of
  the definitions (\<open>'d curl\<close>). A call of requests is given to its argument (\<open>'d requests\<close>) as a record. The
  option VERBOSE of a handle, which only makes libcurl print, is left out. Bodies are decoded text.
\<close>

section \<open>Replies\<close>

record http_reply =
  r_code :: int
  r_text :: string
  r_cookies :: "(string \<times> string) list"     \<comment> \<open>the cookie jar of a session after the request\<close>
  r_cookie_lines :: "string list"            \<comment> \<open>\<open>INFO_COOKIELIST\<close>\<close>
  r_headers :: "(string \<times> string) list"     \<comment> \<open>their names in lower case\<close>
  r_reason :: string                         \<comment> \<open>the text after the code\<close>
  r_head :: string                           \<comment> \<open>status line and headers as they were received\<close>

definition reply :: "int \<Rightarrow> string \<Rightarrow> http_reply" where
  "reply code text = \<lparr>r_code = code, r_text = text, r_cookies = [], r_cookie_lines = [], r_headers = [], r_reason = [], r_head = []\<rparr>"

definition queryM :: "('d, 'a) ask \<Rightarrow> ('d, 'a) prog" where
  "queryM q s = (case q (world s) of (a, t, d) \<Rightarrow> (answer_outcome a, s\<lparr>clock := clock s + t, world := d\<rparr>))"

section \<open>pycurl\<close>

datatype curl_val = CInt int | CStr string | CList "string list"

type_synonym handle = "(string \<times> curl_val) list"

type_synonym 'd curl = "handle \<Rightarrow> ('d, http_reply) ask"

definition verify_opts :: "bool \<Rightarrow> handle" where
  "verify_opts checked = (if checked then [(''SSL_VERIFYPEER'', CInt 1), (''SSL_VERIFYHOST'', CInt 2)]
     else [(''SSL_VERIFYPEER'', CInt 0), (''SSL_VERIFYHOST'', CInt 0)])"

definition ssl_opts :: "pydict \<Rightarrow> handle" where
  \<comment> \<open>\<open>if "--ssl-secure" in opt: \<dots> elif "--ssl-insecure" in opt: \<dots>\<close>\<close>
  "ssl_opts od = (if od ''--ssl-secure'' \<noteq> None then verify_opts True
     else if od ''--ssl-insecure'' \<noteq> None then verify_opts False else [])"

definition url_scheme :: "pydict \<Rightarrow> string" where
  "url_scheme od = (if od ''--ssl-secure'' \<noteq> None \<or> od ''--ssl-insecure'' \<noteq> None then ''https:'' else ''http:'')"

text \<open>A handle that is kept, with the attribute \<open>base_url\<close> that the agents give it.\<close>

record 'd web =
  net :: 'd
  base_url :: string
  handle :: handle

definition setopts :: "handle \<Rightarrow> (('d, 'z) web_scheme, unit) prog" where
  "setopts os = modM (\<lambda>s. s\<lparr>world := (world s)\<lparr>handle := handle (world s) @ os\<rparr>\<rparr>)"

definition set_base_url :: "string \<Rightarrow> (('d, 'z) web_scheme, unit) prog" where
  "set_base_url u = modM (\<lambda>s. s\<lparr>world := (world s)\<lparr>base_url := u\<rparr>\<rparr>)"

definition base_urlM :: "(('d, 'z) web_scheme, string) prog" where
  "base_urlM = getM (\<lambda>s. base_url (world s))"

definition performM :: "'d curl \<Rightarrow> (('d, 'z) web_scheme, http_reply) prog" where
  "performM C s = (case C (handle (world s)) (net (world s)) of (a, t, d) \<Rightarrow>
     (answer_outcome a, s\<lparr>clock := clock s + t, world := (world s)\<lparr>net := d\<rparr>\<rparr>))"

definition method_opts :: "string \<Rightarrow> handle" where
  \<comment> \<open>as most agents set them; a later request on the handle keeps what an earlier one has set\<close>
  "method_opts meth =
     (if meth = ''GET'' then [(''POST'', CInt 0)] else if meth = ''POST'' then [(''POSTFIELDS'', CStr [])]
      else if meth = ''DELETE'' then [(''CUSTOMREQUEST'', CStr ''DELETE'')] else [])"

section \<open>requests\<close>

record web_request =
  verb :: string
  target :: string
  req_params :: "(string \<times> json) list"
  req_headers :: "(string \<times> string) list"
  req_cookies :: "(string \<times> string) list"
  req_form :: "(string \<times> string) list"
  req_body :: "string option"
  req_auth :: "(string \<times> pyval) option"
  req_verify :: bool
  req_timeouts :: "int list"                \<comment> \<open>one, or one for connecting and one for reading\<close>
  req_cert :: "string option"               \<comment> \<open>a client certificate\<close>
  req_json :: "json option"                 \<comment> \<open>a body that is sent as JSON\<close>
  req_retries :: "(string \<times> int) list"     \<comment> \<open>the limits that the session was given for retries\<close>

definition request_for :: "string \<Rightarrow> string \<Rightarrow> web_request" where
  "request_for meth url = \<lparr>verb = meth, target = url, req_params = [], req_headers = [], req_cookies = [],
     req_form = [], req_body = None, req_auth = None, req_verify = True, req_timeouts = [], req_cert = None,
     req_json = None, req_retries = []\<rparr>"

type_synonym 'd requests = "web_request \<Rightarrow> ('d, http_reply) ask"

section \<open>URLs\<close>

definition unreserved :: "char \<Rightarrow> bool" where
  "unreserved c \<longleftrightarrow> upper_letter c \<or> lower_letter c \<or> is_digit c \<or> c \<in> set ''_.-~''"

definition percent :: "char \<Rightarrow> string" where
  "percent c = CHR 0x25 # py_upper (hex_byte c)"

definition url_quote :: "string \<Rightarrow> string" where
  \<comment> \<open>\<open>urllib.parse.quote\<close>\<close>
  "url_quote t = concat (map (\<lambda>c. if unreserved c \<or> c = CHR ''/'' then [c] else percent c) t)"

definition quote_plus :: "string \<Rightarrow> string" where
  "quote_plus t = concat (map (\<lambda>c. if unreserved c then [c] else if c = CHR '' '' then ''+'' else percent c) t)"

definition urlencode :: "(string \<times> string) list \<Rightarrow> string" where
  "urlencode pairs = py_join ''&'' (map (\<lambda>(k, v). quote_plus k @ ''='' @ quote_plus v) pairs)"

section \<open>Values of a reply\<close>

definition itemM :: "string \<Rightarrow> json \<Rightarrow> ('w, json) prog" where
  "itemM k v = liftM (json_item k v)"

fun pathM :: "string list \<Rightarrow> json \<Rightarrow> ('w, json) prog" where
  \<comment> \<open>\<open>v["a"]["b"]...\<close>\<close>
  "pathM [] v = retM v"
| "pathM (k # ks) v = bindM (itemM k v) (pathM ks)"

definition option_value :: "json \<Rightarrow> pyval" where
  \<comment> \<open>a value stored in the options; the code can do nothing with a value of the last kind but find
    that it is no text\<close>
  "option_value v = (case v of JNull \<Rightarrow> PNone | JInt n \<Rightarrow> PInt n | JStr t \<Rightarrow> PStr t | _ \<Rightarrow> PList [])"

definition outlet_key :: "json \<Rightarrow> string outcome" where
  \<comment> \<open>a key of the dictionary of outlets, as it is printed\<close>
  "outlet_key v = (case v of
      JList _ \<Rightarrow> Raise (TypeError (''unhashable type: '' @ [CHR 0x27] @ ''list'' @ [CHR 0x27]))
    | JObj _ \<Rightarrow> Raise (TypeError (''unhashable type: '' @ [CHR 0x27] @ ''dict'' @ [CHR 0x27]))
    | _ \<Rightarrow> Ret (json_str v))"

definition outlet_status :: "json \<Rightarrow> string option outcome" where
  \<comment> \<open>\<open>fence_action\<close> calls \<open>upper\<close> of a status that is not None\<close>
  "outlet_status v = (case v of JNull \<Rightarrow> Ret None | _ \<Rightarrow> bindO (json_method ''upper'' v) (\<lambda>t. Ret (Some t)))"

definition state_word :: "(string \<times> 'a) list \<Rightarrow> json \<Rightarrow> 'a option outcome" where
  \<comment> \<open>\<open>state.get(v)\<close> for a dictionary with keys that are texts\<close>
  "state_word table v = (case v of
      JStr t \<Rightarrow> Ret (map_of table t)
    | _ \<Rightarrow> bindO (outlet_key v) (\<lambda>_. Ret None))"

definition state_entry :: "(string \<times> 'a) list \<Rightarrow> json \<Rightarrow> 'a outcome" where
  \<comment> \<open>\<open>state[v]\<close>\<close>
  "state_entry table v = bindO (state_word table v) (\<lambda>r. case r of
      Some x \<Rightarrow> Ret x
    | None \<Rightarrow> Raise (KeyError (json_str v)))"

fun foldO :: "('b \<Rightarrow> 'a \<Rightarrow> 'b outcome) \<Rightarrow> 'b \<Rightarrow> 'a list \<Rightarrow> 'b outcome" where
  "foldO f b [] = Ret b"
| "foldO f b (x # xs) = bindO (f b x) (\<lambda>b'. foldO f b' xs)"

definition nonempty_opt :: "string \<Rightarrow> ('w, bool) prog" where
  \<comment> \<open>\<open>k in options and options[k]\<close>\<close>
  "nonempty_opt k = getM (\<lambda>s. case opts s k of
      None \<Rightarrow> False | Some PNone \<Rightarrow> False | Some (PInt n) \<Rightarrow> n \<noteq> 0 | Some (PStr t) \<Rightarrow> t \<noteq> [] | Some (PList l) \<Rightarrow> l \<noteq> [])"

definition key_of_file :: "string \<Rightarrow> json outcome" where
  \<comment> \<open>the key in the JSON of a file, or the file as it is\<close>
  "key_of_file text = (case json_loads text of
      Ret (JObj kvs) \<Rightarrow>
        (let key = (\<lambda>k. case map_of kvs k of Some v \<Rightarrow> v | None \<Rightarrow> JStr [])
         in Ret (if json_true (key ''Apikey'') then key ''Apikey'' else key ''apikey''))
    | Ret v \<Rightarrow> Raise (AttributeError ([CHR 0x27] @ json_type v @ [CHR 0x27] @ '' object has no attribute '' @ [CHR 0x27] @ ''get'' @ [CHR 0x27]))
    | _ \<Rightarrow> Ret (JStr (py_strip text)))"

section \<open>At the end of the process\<close>

definition with_exit_handler :: "('w, unit) prog \<Rightarrow> ('w, 'a) prog \<Rightarrow> ('w, 'a) prog" where
  \<comment> \<open>\<open>atexit.register(handler)\<close> before the rest of the main function: the handler runs when the process
    ends, and what it raises does not change how the process ends\<close>
  "with_exit_handler handler m s = (case m s of
      (Running, s') \<Rightarrow> (Running, s')
    | (r, s') \<Rightarrow> (case handler s' of (Running, s'') \<Rightarrow> (Running, s'') | (_, s'') \<Rightarrow> (r, s'')))"

definition handle_errors :: "('w, 'a) prog \<Rightarrow> (exn \<Rightarrow> ('w, unit) prog) \<Rightarrow> ('w, 'a) prog" where
  \<comment> \<open>\<open>try: m except Exception as e: h\<close>, where \<open>h\<close> ends the process; if it did not, the variables set
    by \<open>m\<close> would be unbound\<close>
  "handle_errors m h = tryM m (\<lambda>e. Some (seqM (h e) (raiseM (ClassError ''UnboundLocalError'' []))))"

lemma with_exit_handler_Ret [ret_iff]:
  "with_exit_handler h m s = (Ret x, s') \<longleftrightarrow> (\<exists>s1 r. m s = (Ret x, s1) \<and> h s1 = (r, s') \<and> r \<noteq> Running)"
  by (auto simp: with_exit_handler_def split: prod.splits outcome.splits)

lemma with_exit_handler_Exit [exit_iff]:
  "with_exit_handler h m s = (Exit c, s') \<longleftrightarrow> (\<exists>s1 r. m s = (Exit c, s1) \<and> h s1 = (r, s') \<and> r \<noteq> Running)"
  by (auto simp: with_exit_handler_def split: prod.splits outcome.splits)

end
