(* ===== verification/Rest_Agents.thy ===== *)
theory Rest_Agents
  imports Web_Client
begin

text \<open>
  Agents that make one HTTP request after the other without keeping a connection:
  \<open>agents/pve/fence_pve.py\<close> (Proxmox VE) and \<open>agents/docker/fence_docker.py\<close> with pycurl,
  \<open>agents/redfish/fence_redfish.py\<close> and \<open>agents/ecloud/fence_ecloud.py\<close> with requests.
\<close>

section \<open>Proxmox VE\<close>

text \<open>
  The ticket and the token of \<open>options["auth"]\<close>, a dictionary in the code, are a list of the two. The
  function for the status calls itself for every node of the cluster; a node without a name
  sends it into the recursion again, which Python ends after \<open>limit\<close> calls.
\<close>

definition handle_pve :: "string \<Rightarrow> (string \<times> string) list option \<Rightarrow> ('w, handle) prog" where
  "handle_pve url post =
     bindM (getM opts) (\<lambda>od.
     bindM (intoptM ''--shell-timeout'') (\<lambda>timeout.
       retM ([(''HTTPGET'', CInt 1), (''URL'', CStr url)]
         @ (case od ''auth'' of Some (PList [ticket, token]) \<Rightarrow> [(''COOKIE'', CStr ticket), (''HTTPHEADER'', CList [token])] | _ \<Rightarrow> [])
         @ (case post of None \<Rightarrow> []
            | Some pairs \<Rightarrow> if ''skiplock'' \<in> set (map fst pairs) then [(''CUSTOMREQUEST'', CStr ''POST'')]
                else [(''POSTFIELDS'', CStr (urlencode pairs))])
         @ [(''TIMEOUT'', CInt timeout)]
         @ verify_opts (od ''--ssl-insecure'' = None))))"

definition send_cmd_pve :: "'d curl \<Rightarrow> string \<Rightarrow> (string \<times> string) list option \<Rightarrow> ('d, json option) prog" where
  \<comment> \<open>the status code of the reply is not looked at\<close>
  "send_cmd_pve C cmd post =
     bindM (stroptM ''url'') (\<lambda>base.
     bindM (handle_pve (base @ cmd) post) (\<lambda>h.
     tryM (bindM (queryM (C h)) (\<lambda>r. bindM (liftM (json_loads (r_text r))) (\<lambda>v. retM (Some v))))
       (\<lambda>e. case e of
          PycurlError _ \<Rightarrow> Some (seqM (logM ''Connection failed'') (retM None))
        | _ \<Rightarrow> Some (seqM (logM ''Cannot parse json'') (retM None)))))"

definition data_of :: "json option \<Rightarrow> json option" where
  \<comment> \<open>\<open>type(result) is dict and "data" in result\<close>\<close>
  "data_of result = (case result of None \<Rightarrow> None | Some v \<Rightarrow> json_member ''data'' v)"

definition data_list :: "json option \<Rightarrow> json list option" where
  "data_list result = (case data_of result of Some (JList vs) \<Rightarrow> Some vs | _ \<Rightarrow> None)"

definition vm_path :: "string \<Rightarrow> ('w, string) prog" where
  "vm_path what =
     bindM (stroptM ''--pve-node'') (\<lambda>node.
     bindM (stroptM ''--vmtype'') (\<lambda>vmtype.
     bindM (stroptM ''--plug'') (\<lambda>plug.
       retM (''nodes/'' @ node @ ''/'' @ vmtype @ ''/'' @ plug @ ''/status/'' @ what))))"

definition node_status :: "'d curl \<Rightarrow> ('d, string option) prog" where
  "node_status C =
     bindM (vm_path ''current'') (\<lambda>cmd.
     bindM (send_cmd_pve C cmd None) (\<lambda>result.
       (case data_of result of
          None \<Rightarrow> retM None
        | Some data \<Rightarrow> (case json_member ''status'' data of
            None \<Rightarrow> retM None
          | Some v \<Rightarrow> liftM (state_word [(''running'', ''on''), (''stopped'', ''off'')] v)))))"

fun search_nodes :: "('d, string option) prog \<Rightarrow> json list \<Rightarrow> string option option \<Rightarrow> ('d, string option) prog" where
  \<comment> \<open>the last status read, if any: without a node the variable is unbound at the end\<close>
  "search_nodes get_status [] prior = (case prior of
      None \<Rightarrow> raiseM (ClassError ''UnboundLocalError'' ''status'')
    | Some status \<Rightarrow> retM status)"
| "search_nodes get_status (node # nodes) prior = (case json_member ''node'' node of
      None \<Rightarrow> retM None
    | Some name \<Rightarrow>
        seqM (setoptM ''--pve-node'' (option_value name))
       (bindM get_status (\<lambda>status.
          if status \<noteq> None then retM status
          else seqM (setoptM ''--pve-node'' PNone) (search_nodes get_status nodes (Some None)))))"

fun get_power_status_pve :: "'d curl \<Rightarrow> nat \<Rightarrow> ('d, string option) prog" where
  "get_power_status_pve C 0 = raiseM (ClassError ''RecursionError'' ''maximum recursion depth exceeded'')"
| "get_power_status_pve C (Suc limit) =
     bindM (optM ''--pve-node'') (\<lambda>node.
     if node = PNone then
       bindM (send_cmd_pve C ''nodes'' None) (\<lambda>nodes. case data_list nodes of
           None \<Rightarrow> retM None
         | Some vs \<Rightarrow> search_nodes (get_power_status_pve C limit) vs None)
     else node_status C)"

definition set_power_status_pve :: "'d curl \<Rightarrow> ('d, unit) prog" where
  "set_power_status_pve C =
     bindM (by_action [(''on'', ''start''), (''off'', ''stop'')]) (\<lambda>action.
     bindM (vm_path action) (\<lambda>cmd.
     seqM (send_cmd_pve C cmd (Some [(''skiplock'', ''1'')])) (retM ())))"

definition reboot_cycle_pve :: "'d curl \<Rightarrow> ('d, bool) prog" where
  "reboot_cycle_pve C =
     bindM (vm_path ''reset'') (\<lambda>cmd.
     bindM (send_cmd_pve C cmd (Some [(''skiplock'', ''1'')])) (\<lambda>result. retM (data_of result \<noteq> None)))"

definition vm_outlet :: "outlet list \<Rightarrow> json \<Rightarrow> outlet list outcome" where
  \<comment> \<open>\<open>outlets[vm["vmid"]] = [vm["name"], vm["status"]]\<close>\<close>
  "vm_outlet outlets vm =
     bindO (json_item ''name'' vm) (\<lambda>name.
     bindO (json_item ''status'' vm) (\<lambda>status.
     bindO (json_item ''vmid'' vm) (\<lambda>vmid.
     bindO (outlet_key vmid) (\<lambda>k.
     bindO (outlet_status status) (\<lambda>st. Ret (AList.update k (json_str name, st) outlets))))))"

fun node_outlets :: "'d curl \<Rightarrow> json list \<Rightarrow> outlet list \<Rightarrow> ('d, outlet list option) prog" where
  "node_outlets C [] outlets = retM (Some outlets)"
| "node_outlets C (node # nodes) outlets = (case json_member ''node'' node of
      None \<Rightarrow> retM None
    | Some name \<Rightarrow>
        bindM (liftM (json_text name)) (\<lambda>n.
        bindM (stroptM ''--vmtype'') (\<lambda>vmtype.
        bindM (send_cmd_pve C (''nodes/'' @ n @ ''/'' @ vmtype) None) (\<lambda>vms. case data_list vms of
            None \<Rightarrow> retM None
          | Some vs \<Rightarrow> bindM (liftM (foldO vm_outlet outlets vs)) (node_outlets C nodes)))))"

definition outlets_pve :: "'d curl \<Rightarrow> ('d, outlet list option) prog" where
  \<comment> \<open>\<open>get_outlet_list\<close>\<close>
  "outlets_pve C = bindM (send_cmd_pve C ''nodes'' None) (\<lambda>nodes. case data_list nodes of
      None \<Rightarrow> retM None
    | Some vs \<Rightarrow> node_outlets C vs [])"

definition get_outlet_list_pve :: "'d curl \<Rightarrow> ('d, outlet list) prog" where
  \<comment> \<open>as \<open>fence_action\<close> uses it\<close>
  "get_outlet_list_pve C = bindM (outlets_pve C) (\<lambda>r. case r of
      None \<Rightarrow> raiseM (AttributeError ([CHR 0x27] @ ''NoneType'' @ [CHR 0x27] @ '' object has no attribute '' @ [CHR 0x27] @ ''keys'' @ [CHR 0x27]))
    | Some outlets \<Rightarrow> retM outlets)"

definition get_ticket :: "'d curl \<Rightarrow> ('d, pyval) prog" where
  "get_ticket C =
     bindM (stroptM ''--username'') (\<lambda>user.
     bindM (stroptM ''--password'') (\<lambda>password.
     bindM (send_cmd_pve C ''access/ticket'' (Some [(''username'', user), (''password'', password)])) (\<lambda>result.
     case data_of result of
       Some (JObj kvs) \<Rightarrow>
         (case (map_of kvs ''ticket'', map_of kvs ''CSRFPreventionToken'') of
            (Some ticket, Some token) \<Rightarrow>
              bindM (liftM (json_text ticket)) (\<lambda>t.
              bindM (stroptM ''--ip'') (\<lambda>ip.
              bindM (showoptM ''--ipport'') (\<lambda>port.
              bindM (liftM (json_text token)) (\<lambda>k.
                retM (PList [''PVEAuthCookie='' @ t @ ''; version=0; path=/; domain='' @ ip @ ''; port='' @ port
                               @ ''; path_spec=0; secure=1; expires=7200; discard=0'',
                             ''CSRFPreventionToken: '' @ k])))))
          | _ \<Rightarrow> retM PNone)
     | _ \<Rightarrow> retM PNone)))"

definition fns_pve :: "'d curl \<Rightarrow> nat \<Rightarrow> bool \<Rightarrow> 'd power_fns" where
  \<comment> \<open>without the list if the hosts do not support it\<close>
  "fns_pve C limit listing = \<lparr>set_power_fn = Some (set_power_status_pve C), get_power_fn = Some (get_power_status_pve C limit),
     get_outlet_list = (if listing then Some (get_outlet_list_pve C) else None),
     reboot_cycle_fn = Some (reboot_cycle_pve C), sync_set_power_fn = None\<rparr>"

definition new_opts_pve :: "(string \<times> optdef) list" where
  "new_opts_pve =
    [(''pve_node_auto'', \<lparr>o_getopt = ''A'', o_longopt = Some ''pve-node-auto'',
        o_help = ''-A, --pve-node-auto            Automatically select proxmox node'',
        o_required = Some ''0'', o_shortdesc = Some ''Automatically select proxmox node. (This option overrides --pve-node)'',
        o_type = Some ''boolean'', o_default = None, o_choices = None, o_order = 2\<rparr>),
     (''pve_node'', \<lparr>o_getopt = ''N:'', o_longopt = Some ''pve-node'',
        o_help = ''-N, --pve-node=[node_name]     Proxmox node name on which machine is located'',
        o_required = Some ''0'', o_shortdesc = Some ''Proxmox node name on which machine is located. (Must be specified if not using --pve-node-auto)'',
        o_type = None, o_default = None, o_choices = None, o_order = 2\<rparr>),
     (''node_name'', \<lparr>o_getopt = '':'', o_longopt = Some ''nodename'',
        o_help = ''--nodename                     Replaced by --pve-node'',
        o_required = Some ''0'', o_shortdesc = Some ''Replaced by --pve-node'',
        o_type = None, o_default = None, o_choices = None, o_order = 3\<rparr>),
     (''vmtype'', \<lparr>o_getopt = '':'', o_longopt = Some ''vmtype'',
        o_help = ''--vmtype                       Virtual machine type lxc or qemu (default: qemu)'',
        o_required = Some ''1'', o_shortdesc = Some ''Virtual machine type lxc or qemu. (Default: qemu)'',
        o_type = None, o_default = Some (PStr ''qemu''), o_choices = None, o_order = 2\<rparr>)]"

definition device_opt_pve :: "string list" where
  "device_opt_pve = [''ipaddr'', ''login'', ''passwd'', ''ssl'', ''web'', ''port'', ''pve_node'', ''pve_node_auto'', ''node_name'', ''vmtype'', ''method'']"

definition docs_pve :: docs where
  "docs_pve = \<lparr>agent_name = None, shortdesc = ''Fencing agent for the Proxmox Virtual Environment'',
     longdesc = ''fence_pve is a Power Fencing agent for virtual machines acting as nodes in a virtualized cluster.'',
     vendorurl = Some ''http://www.proxmox.com/'', symlink = []\<rparr>"

definition choose_node :: "('w, unit) prog" where
  "choose_node =
     bindM (hasoptM ''--pve-node-auto'') (\<lambda>auto.
     bindM (nonempty_opt ''--pve-node'') (\<lambda>given.
     bindM (nonempty_opt ''--nodename'') (\<lambda>legacy.
       if auto then setoptM ''--pve-node'' PNone
       else if given then retM ()
       else if legacy then bindM (optM ''--nodename'') (setoptM ''--pve-node'')
       else fail_usage ''At least one of pve-node-auto or pve-node must be supplied'' True)))"

definition log_in_pve :: "'d curl \<Rightarrow> ('d, unit) prog" where
  "log_in_pve C =
     bindM (stroptM ''--ip'') (\<lambda>ip.
     bindM (showoptM ''--ipport'') (\<lambda>port.
     seqM (setoptM ''url'' (PStr (''https://'' @ ip @ '':'' @ port @ ''/api2/json/'')))
    (bindM (get_ticket C) (\<lambda>auth.
     seqM (setoptM ''auth'' auth)
          (if auth = PNone then fail EC_LOGIN_DENIED True else retM ())))))"

definition main_pve where
  "main_pve C limit set_order time_start fuel =
     seqM (on_lib (add_opts new_opts_pve))
    (seqM (on_lib (settabM ''login'' (\<lambda>d. d\<lparr>o_required := Some ''0''\<rparr>)))
    (seqM (on_lib (set_default ''login'' (PStr ''root@pam'')))
    (seqM (on_lib (set_default ''ipport'' (PStr ''8006'')))
    (seqM (on_lib (set_default ''ssl'' (PStr ''1'')))
    (seqM (on_lib (set_shortdesc ''port'' ''Id of the virtual machine.''))
    (seqM (on_lib (set_shortdesc ''ipaddr'' ''IP Address or Hostname of a node within the Proxmox cluster.''))
    (seqM (on_lib (read_options device_opt_pve False))
    (seqM (on_lib (show_docs set_order (Some docs_pve)))
    (seqM (run_delay time_start 0 0)
    (seqM choose_node
    (bindM (optM ''--vmtype'') (\<lambda>vmtype.
     seqM (if vmtype \<noteq> PStr ''qemu'' then setoptM ''--method'' (PStr ''onoff'') else retM ())
    (seqM (on_dev (log_in_pve C))
    (bindM (on_dev (outlets_pve C)) (\<lambda>outlets.
          exit_with (on_dev (fence_action fuel (fns_pve C limit (outlets \<noteq> None)))))))))))))))))))"

section \<open>Docker\<close>

definition url_docker :: "string \<Rightarrow> ('w, string) prog" where
  "url_docker cmd =
     bindM (getM opts) (\<lambda>od.
     bindM (showoptM ''--ip'') (\<lambda>ip.
     bindM (showoptM ''--ipport'') (\<lambda>port.
     bindM (showoptM ''--api-version'') (\<lambda>version.
       retM (url_scheme od @ ''//'' @ ip @ '':'' @ port @ ''/v'' @ version @ ''/'' @ cmd)))))"

definition tls_opts :: "('w, handle) prog" where
  "tls_opts =
     bindM (getM opts) (\<lambda>od.
     if od ''--ssl-secure'' \<noteq> None then
       seqM (if \<exists>k\<in>set [''--tlscert'', ''--tlskey'', ''--tlscacert'']. od k = None
             then fail_usage ''Failed. If --ssl option is used, You have to also specify: --tlscert, --tlskey and --tlscacert'' True
             else retM ())
      (bindM (stroptM ''--tlscert'') (\<lambda>cert.
       bindM (stroptM ''--tlskey'') (\<lambda>key.
       bindM (stroptM ''--tlscacert'') (\<lambda>ca.
         retM [(''SSL_VERIFYPEER'', CInt 1), (''SSLCERT'', CStr cert), (''SSLKEY'', CStr key), (''CAINFO'', CStr ca)]))))
     else retM (if od ''--ssl-insecure'' \<noteq> None then verify_opts False else []))"

definition handle_docker :: "string \<Rightarrow> bool \<Rightarrow> ('w, handle) prog" where
  "handle_docker url post =
     bindM (hasoptM ''--unix-socket'') (\<lambda>unix.
     bindM (if unix then bindM (stroptM ''--unix-socket'') (\<lambda>p. retM [(''UNIX_SOCKET_PATH'', CStr p)]) else retM []) (\<lambda>sock.
     bindM (intoptM ''--shell-timeout'') (\<lambda>timeout.
     bindM tls_opts (\<lambda>tls.
       retM (sock @ [(''HTTPGET'', CInt 1), (''URL'', CStr url)]
         @ (if post then [(''POST'', CInt 1), (''POSTFIELDSIZE'', CInt 0)] else [])
         @ [(''TIMEOUT'', CInt timeout)] @ tls)))))"

definition send_cmd_docker :: "'d curl \<Rightarrow> string \<Rightarrow> bool \<Rightarrow> ('d, json option) prog" where
  \<comment> \<open>the second handler reads the body, which is unbound if the transfer raised anything but a curl error\<close>
  "send_cmd_docker C cmd post =
     bindM (url_docker cmd) (\<lambda>url.
     bindM (handle_docker url post) (\<lambda>h.
     bindM (tryM (bindM (queryM (C h)) (\<lambda>r. retM (Some r)))
       (\<lambda>e. case e of
          PycurlError _ \<Rightarrow> Some (seqM (logM ''Connection failed'') (retM None))
        | _ \<Rightarrow> Some (raiseM (ClassError ''UnboundLocalError'' ''result'')))) (\<lambda>answer. case answer of
       None \<Rightarrow> retM None
     | Some r \<Rightarrow>
         if r_code r \<noteq> 200 then retM None
         else tryM (bindM (liftM (json_loads (r_text r))) (\<lambda>v. retM (Some v)))
           (\<lambda>_. Some (seqM (logM (r_text r)) (seqM (logM ''Cannot parse json'') (retM None)))))))"

definition container_cmd :: "string \<Rightarrow> ('w, string) prog" where
  "container_cmd what = bindM (showoptM ''--plug'') (\<lambda>plug. retM (''containers/'' @ plug @ ''/'' @ what))"

definition get_power_status_docker :: "'d curl \<Rightarrow> ('d, string option) prog" where
  "get_power_status_docker C =
     bindM (container_cmd ''json'') (\<lambda>cmd.
     bindM (send_cmd_docker C cmd False) (\<lambda>status. case status of
         None \<Rightarrow> retM None
       | Some JNull \<Rightarrow> retM None
       | Some v \<Rightarrow> bindM (pathM [''State'', ''Running''] v) (\<lambda>running.
           retM (Some (if json_true running then ''on'' else ''off'')))))"

definition set_power_status_docker :: "'d curl \<Rightarrow> ('d, unit) prog" where
  "set_power_status_docker C =
     bindM is_on (\<lambda>on_action.
     bindM (container_cmd (if on_action then ''start'' else ''kill'')) (\<lambda>cmd.
     seqM (send_cmd_docker C cmd True) (retM ())))"

definition reboot_cycle_docker :: "'d curl \<Rightarrow> ('d, bool) prog" where
  \<comment> \<open>both answers of \<open>get_power_status\<close> are true\<close>
  "reboot_cycle_docker C =
     bindM (container_cmd ''restart'') (\<lambda>cmd.
     seqM (send_cmd_docker C cmd True)
    (bindM (get_power_status_docker C) (\<lambda>status. retM (status \<noteq> None))))"

definition sliced :: "json \<Rightarrow> string outcome" where
  \<comment> \<open>a value of which the code takes a slice, which is a text in every answer of the service\<close>
  "sliced v = (case v of JStr t \<Rightarrow> Ret t | _ \<Rightarrow> Raise (type_error v '' object is not subscriptable''))"

definition container_outlet :: "outlet list \<Rightarrow> json \<Rightarrow> outlet list outcome" where
  "container_outlet outlets container =
     bindO (json_item ''Names'' container) (\<lambda>names.
     bindO (json_index 0 names) (\<lambda>first.
     bindO (sliced first) (\<lambda>name.
     bindO (json_item ''Status'' container) (\<lambda>status.
     bindO (sliced status) (\<lambda>t.
     bindO (json_item ''Id'' container) (\<lambda>ident.
     bindO (outlet_key ident) (\<lambda>k.
       Ret (AList.update k (if py_startswith ''/'' name then drop 1 name else name,
         Some (if py_lower (take 4 t) = ''exit'' then ''off'' else ''on'')) outlets))))))))"

definition get_list_docker :: "'d curl \<Rightarrow> ('d, outlet list) prog" where
  "get_list_docker C =
     bindM (send_cmd_docker C ''containers/json?all=1'' False) (\<lambda>answer.
     bindM (liftM (json_iter (case answer of None \<Rightarrow> JNull | Some v \<Rightarrow> v))) (\<lambda>containers.
       liftM (foldO container_outlet [] containers)))"

definition fns_docker :: "'d curl \<Rightarrow> 'd power_fns" where
  "fns_docker C = \<lparr>set_power_fn = Some (set_power_status_docker C), get_power_fn = Some (get_power_status_docker C),
     get_outlet_list = Some (get_list_docker C), reboot_cycle_fn = Some (reboot_cycle_docker C), sync_set_power_fn = None\<rparr>"

definition new_opts_docker :: "(string \<times> optdef) list" where
  "new_opts_docker =
    [(''tlscert'', \<lparr>o_getopt = '':'', o_longopt = Some ''tlscert'',
        o_help = ''--tlscert                      Path to client certificate for TLS authentication'',
        o_required = Some ''0'', o_shortdesc = Some ''Path to client certificate (PEM format) for TLS authentication. Required if --ssl option is used.'',
        o_type = None, o_default = None, o_choices = None, o_order = 2\<rparr>),
     (''tlskey'', \<lparr>o_getopt = '':'', o_longopt = Some ''tlskey'',
        o_help = ''--tlskey                       Path to client key for TLS authentication'',
        o_required = Some ''0'', o_shortdesc = Some ''Path to client key (PEM format) for TLS authentication.  Required if --ssl option is used.'',
        o_type = None, o_default = None, o_choices = None, o_order = 2\<rparr>),
     (''tlscacert'', \<lparr>o_getopt = '':'', o_longopt = Some ''tlscacert'',
        o_help = ''--tlscacert                    Path to CA certificate for TLS authentication'',
        o_required = Some ''0'', o_shortdesc = Some ''Path to CA certificate (PEM format) for TLS authentication.  Required if --ssl option is used.'',
        o_type = None, o_default = None, o_choices = None, o_order = 2\<rparr>),
     (''api_version'', \<lparr>o_getopt = '':'', o_longopt = Some ''api-version'',
        o_help = ''--api-version                  Version of Docker Remote API (default: 1.11)'',
        o_required = Some ''0'', o_shortdesc = None,
        o_type = None, o_default = Some (PStr ''1.11''), o_choices = None, o_order = 2\<rparr>),
     (''unix_socket'', \<lparr>o_getopt = '':'', o_longopt = Some ''unix-socket'',
        o_help = ''--unix-socket                  Path to Docker'' @ [CHR 0x27] @ ''s unix socket. Use this with --disable-ssl.'',
        o_required = Some ''0'', o_shortdesc = None,
        o_type = None, o_default = None, o_choices = None, o_order = 2\<rparr>),
     (''disable_ssl'', \<lparr>o_getopt = [], o_longopt = Some ''disable-ssl'',
        o_help = ''--disable-ssl                  Don'' @ [CHR 0x27] @ ''t use SSL connection'',
        o_required = Some ''0'', o_shortdesc = Some (''Don'' @ [CHR 0x27] @ ''t use SSL''),
        o_type = None, o_default = None, o_choices = None, o_order = 2\<rparr>)]"

definition device_opt_docker :: "string list" where
  "device_opt_docker = [''ipaddr'', ''no_password'', ''no_login'', ''port'', ''method'', ''web'', ''tlscert'', ''tlskey'', ''tlscacert'', ''ssl'', ''api_version'', ''unix_socket'', ''disable_ssl'']"

definition docs_docker :: docs where
  "docs_docker = \<lparr>agent_name = None, shortdesc = ''Fence agent for Docker'',
     longdesc = ''fence_docker is a Power Fencing agent which can be used with the Docker Engine containers. You can use this fence-agent without any authentication, or you can use TLS authentication (use --ssl option, more info about TLS authentication in docker: http://docs.docker.com/examples/https/).'',
     vendorurl = Some ''www.docker.io'', symlink = []\<rparr>"

definition no_ssl_docker :: "('w, unit) prog" where
  "no_ssl_docker =
     bindM (hasoptM ''--disable-ssl'') (\<lambda>off.
     bindM (if off then retM True else bindM (optM ''--ssl'') (\<lambda>v. retM (v = PStr ''0''))) (\<lambda>plain.
       if plain then forM [''--ssl'', ''--ssl-secure'', ''--ssl-insecure''] (\<lambda>k.
         bindM (hasoptM k) (\<lambda>given. if given then deloptM k else retM ()))
       else retM ()))"

definition main_docker where
  "main_docker C set_order time_start fuel =
     seqM (on_lib (add_opts new_opts_docker))
    (seqM (on_lib (set_default ''ssl'' (PStr ''1'')))
    (seqM (on_lib (read_options device_opt_docker False))
    (seqM no_ssl_docker
    (seqM (on_lib (show_docs set_order (Some docs_docker)))
    (seqM (run_delay time_start 0 0)
          (exit_with (on_dev (fence_action fuel (fns_docker C)))))))))"

section \<open>Redfish\<close>

text \<open>
  A reply is the record of its data only: the flag \<open>ret\<close> of the code is false in no case, since
  \<open>fail_usage\<close> ends the process.
\<close>

definition redfish_url :: "json \<Rightarrow> ('w, string) prog" where
  "redfish_url uri =
     bindM (stroptM ''--ip'') (\<lambda>ip.
     bindM (showoptM ''--ipport'') (\<lambda>port.
     bindM (liftM (json_text uri)) (\<lambda>u.
       retM (''https://'' @ ip @ '':'' @ port @ u))))"

definition redfish_auth :: "web_request \<Rightarrow> ('w, web_request) prog" where
  "redfish_auth q =
     bindM (hasoptM ''--ssl-insecure'') (\<lambda>insecure.
     bindM (stroptM ''--username'') (\<lambda>user.
     bindM (optM ''--password'') (\<lambda>password.
       retM (q\<lparr>req_verify := \<not> insecure, req_auth := Some (user, password)\<rparr>))))"

definition GET_HEADERS :: "(string \<times> string) list" where
  "GET_HEADERS = [(''accept'', ''application/json''), (''OData-Version'', ''4.0'')]"

definition POST_HEADERS :: "(string \<times> string) list" where
  "POST_HEADERS = [(''content-type'', ''application/json''), (''accept'', ''application/json''), (''OData-Version'', ''4.0'')]"

definition send_get_request :: "'d requests \<Rightarrow> json \<Rightarrow> ('d, json) prog" where
  "send_get_request R uri =
     bindM (redfish_url uri) (\<lambda>url.
     tryM (bindM (redfish_auth ((request_for ''GET'' url)\<lparr>req_headers := GET_HEADERS\<rparr>)) (\<lambda>q.
           bindM (queryM (R q)) (\<lambda>r. liftM (json_loads (r_text r)))))
       (\<lambda>e. Some (seqM (fail_usage (''Failed: send_get_request: '' @ exn_text e) True) (retM JNull))))"

definition send_post_request :: "'d requests \<Rightarrow> json \<Rightarrow> json \<Rightarrow> ('d, unit) prog" where
  \<comment> \<open>the answer is not looked at\<close>
  "send_post_request R uri content =
     bindM (redfish_url uri) (\<lambda>url.
     tryM (bindM (redfish_auth ((request_for ''POST'' url)\<lparr>req_headers := POST_HEADERS, req_body := Some (json_dumps content)\<rparr>)) (\<lambda>q.
           seqM (queryM (R q)) (retM ())))
       (\<lambda>e. Some (fail_usage (''Failed: send_post_request: '' @ exn_text e) True)))"

definition systems_uri :: "('w, json) prog" where
  \<comment> \<open>\<open>options["--systems-uri"]\<close>\<close>
  "systems_uri = bindM (optM ''--systems-uri'') (\<lambda>v. retM (py_json v))"

definition get_power_status_redfish :: "'d requests \<Rightarrow> ('d, string option) prog" where
  "get_power_status_redfish R =
     bindM systems_uri (\<lambda>uri.
     bindM (send_get_request R uri) (\<lambda>data.
     bindM (tryM (bindM (itemM ''PowerState'' data) (\<lambda>v. liftM (json_text v)))
       (\<lambda>_. Some (bindM (redfish_url uri) (\<lambda>url.
          seqM (fail_usage (''Unable to get PowerState: '' @ url) True) (retM []))))) (\<lambda>state.
       retM (Some (if py_strip state = ''Off'' then ''off'' else ''on'')))))"

definition original_action :: "('w, pyval option) prog" where
  "original_action = getM (\<lambda>s. case opts s ''original-action'' of Some (PStr []) \<Rightarrow> None | r \<Rightarrow> r)"

definition reset_type :: "('w, string) prog" where
  "reset_type = bindM original_action (\<lambda>orig.
     bindM (case orig of Some v \<Rightarrow> retM v | None \<Rightarrow> optM ''--action'') (\<lambda>v.
     case v of
       PStr a \<Rightarrow> (case map_of [(''on'', ''On''), (''off'', ''ForceOff''), (''reboot'', ''ForceRestart''), (''diag'', ''Nmi'')] a of
           Some t \<Rightarrow> retM t | None \<Rightarrow> raiseM (KeyError a))
     | _ \<Rightarrow> raiseM (KeyError (py_str v))))"

definition set_power_status_redfish :: "'d requests \<Rightarrow> ('d, bool) prog" where
  \<comment> \<open>whether the answer is True: it is None but for diag\<close>
  "set_power_status_redfish R =
     bindM reset_type (\<lambda>action.
     bindM systems_uri (\<lambda>uri.
     bindM (send_get_request R uri) (\<lambda>data.
     bindM (pathM [''Actions'', ''#ComputerSystem.Reset'', ''target''] data) (\<lambda>action_uri.
     seqM (send_post_request R action_uri (JObj [(''ResetType'', JStr action)]))
          (getM (\<lambda>s. opts s ''original-action'' = Some (PStr ''diag'')))))))"

definition find_systems_resource :: "'d requests \<Rightarrow> ('d, json option) prog" where
  \<comment> \<open>the last of several systems; \<open>None\<close> is the answer without a URI\<close>
  "find_systems_resource R =
     bindM (optM ''--redfish-uri'') (\<lambda>root.
     bindM (send_get_request R (py_json root)) (\<lambda>data.
     bindM (liftM (json_has ''Systems'' data)) (\<lambda>given.
     if \<not> given then retM None
     else bindM (pathM [''Systems'', ''@odata.id''] data) (\<lambda>uri.
          bindM (send_get_request R uri) (\<lambda>systems.
          bindM (itemM ''Members'' systems) (\<lambda>v.
          bindM (liftM (json_iter v)) (\<lambda>members.
          bindM (liftM (foldO (\<lambda>_ m. bindO (json_item ''@odata.id'' m) (\<lambda>u. Ret (Some u))) None members)) (\<lambda>found.
            case found of
              None \<Rightarrow> raiseM (ClassError ''UnboundLocalError'' ''system_uri'')
            | Some u \<Rightarrow> retM (Some u)))))))))"

definition fns_redfish :: "'d requests \<Rightarrow> bool \<Rightarrow> 'd power_fns" where
  \<comment> \<open>with the setter as the power cycle for diag\<close>
  "fns_redfish R diag = \<lparr>set_power_fn = Some (seqM (set_power_status_redfish R) (retM ())),
     get_power_fn = Some (get_power_status_redfish R), get_outlet_list = None,
     reboot_cycle_fn = (if diag then Some (set_power_status_redfish R) else None), sync_set_power_fn = None\<rparr>"

definition new_opts_redfish :: "(string \<times> optdef) list" where
  "new_opts_redfish =
    [(''redfish-uri'', \<lparr>o_getopt = '':'', o_longopt = Some ''redfish-uri'',
        o_help = ''--redfish-uri=[uri]            Base or starting Redfish URI'',
        o_required = Some ''0'', o_shortdesc = Some ''Base or starting Redfish URI'',
        o_type = None, o_default = Some (PStr ''/redfish/v1''), o_choices = None, o_order = 1\<rparr>),
     (''systems-uri'', \<lparr>o_getopt = '':'', o_longopt = Some ''systems-uri'',
        o_help = ''--systems-uri=[uri]            Redfish Systems resource URI'',
        o_required = Some ''0'', o_shortdesc = Some ''Redfish Systems resource URI, i.e. /redfish/v1/Systems/System.Embedded.1'',
        o_type = None, o_default = None, o_choices = None, o_order = 1\<rparr>)]"

definition device_opt_redfish :: "string list" where
  "device_opt_redfish = [''ipaddr'', ''login'', ''passwd'', ''redfish-uri'', ''systems-uri'', ''ssl'', ''diag'']"

definition docs_redfish :: docs where
  "docs_redfish = \<lparr>agent_name = None, shortdesc = ''Power Fencing agent for Redfish'',
     longdesc = ''fence_redfish is a Power Fencing agent which can be used with Out-of-Band controllers that support Redfish APIs. These controllers provide remote access to control power on a server.'',
     vendorurl = Some ''http://www.dmtf.org'', symlink = []\<rparr>"

definition split_port :: "('w, unit) prog" where
  \<comment> \<open>backwards compatibility for <ip>:<port>\<close>
  "split_port = bindM (stroptM ''--ip'') (\<lambda>ip. case py_split '':'' ip of
       [host, port] \<Rightarrow> seqM (setoptM ''--ip'' (PStr host)) (setoptM ''--ipport'' (PStr port))
     | _ \<Rightarrow> retM ())"

definition locate_system :: "'d requests \<Rightarrow> ('d, unit) prog" where
  \<comment> \<open>the option has no default: it is in the input if it is in the options\<close>
  "locate_system R = bindM (hasoptM ''--systems-uri'') (\<lambda>given.
     if given then retM ()
     else bindM (find_systems_resource R) (\<lambda>found. case found of
         None \<Rightarrow> exitM 1
       | Some uri \<Rightarrow> setoptM ''--systems-uri'' (option_value uri)))"

definition prepare_diag :: "('w, bool) prog" where
  "prepare_diag = bindM (optM ''--action'') (\<lambda>action.
     if action = PStr ''diag'' then
       seqM (setoptM ''original-action'' action)
      (seqM (setoptM ''--action'' (PStr ''reboot''))
      (seqM (setoptM ''--method'' (PStr ''cycle'')) (retM True)))
     else retM False)"

definition main_redfish where
  "main_redfish R set_order time_start fuel =
     seqM (on_lib (add_opts new_opts_redfish))
    (seqM (on_lib (read_options_with device_opt_redfish (set_default ''ssl'' (PStr ''1''))))
    (seqM (on_lib (show_docs set_order (Some docs_redfish)))
    (seqM (run_delay time_start 0 0)
    (seqM split_port
    (seqM (on_dev (locate_system R))
    (bindM prepare_diag (\<lambda>diag.
          exit_with (on_dev (fence_action fuel (fns_redfish R diag))))))))))"

section \<open>eCloud\<close>

text \<open>The truth value that the code keeps in \<open>options["--ecloud-vpc"]\<close> is a number.\<close>

definition API_BASE :: string where
  "API_BASE = ''https://api.ukfast.io/ecloud''"

definition itp :: "string \<Rightarrow> string \<Rightarrow> string" where
  "itp url plug = py_replace '':ID'' plug url"

definition headers_ecloud :: "string \<Rightarrow> (string \<times> string) list" where
  "headers_ecloud apikey = [(''Authorization'', apikey), (''User-Agent'', ''fence_ecloud'')]"

definition fence_url :: "bool \<Rightarrow> pyval \<Rightarrow> string \<Rightarrow> ('w, string) prog" where
  "fence_url vpc action plug =
     (if action = PStr ''on'' then retM (itp (API_BASE @ (if vpc then ''/v2/instances/:ID/power-on'' else ''/v1/vms/:ID/power-on'')) plug)
      else if action = PStr ''off'' then retM (itp (API_BASE @ (if vpc then ''/v2/instances/:ID/power-off'' else ''/v1/vms/:ID/power-off'')) plug)
      else seqM (fail_usage (''no available API configured for action '' @ [CHR 0x27] @ py_str action @ [CHR 0x27]) True) (retM []))"

definition instance_data_url :: "bool \<Rightarrow> string \<Rightarrow> string" where
  "instance_data_url vpc plug = itp (API_BASE @ (if vpc then ''/v2/instances/:ID'' else ''/v1/vms/:ID'')) plug"

definition ecloud_vpc :: "('w, bool) prog" where
  "ecloud_vpc = bindM (optM ''--ecloud-vpc'') (\<lambda>v. retM (v = PInt 1))"

definition log_code :: "string \<Rightarrow> string \<Rightarrow> string \<Rightarrow> http_reply \<Rightarrow> ('w, unit) prog" where
  "log_code l r url resp = logM (''unexpected status code '' @ l @ show_int (r_code resp) @ r @ '' from endpoint ''
     @ [CHR 0x27] @ url @ [CHR 0x27] @ '': '' @ r_text resp)"

fun put_until_accepted :: "'d requests \<Rightarrow> web_request \<Rightarrow> nat \<Rightarrow> ('d, unit) prog" where
  \<comment> \<open>with the number of further attempts. The error of the last one is never logged: its text has no
    place for the argument that it is given\<close>
  "put_until_accepted R q retries =
     bindM (queryM (R q)) (\<lambda>resp.
     if r_code resp = 409 then
       (case retries of
          0 \<Rightarrow> fail EC_TIMED_OUT True
        | Suc n \<Rightarrow> seqM (sleepM 2) (put_until_accepted R q n))
     else if r_code resp \<noteq> 202 then log_code [CHR 0x27] [CHR 0x27] (target q) resp
     else retM ())"

definition set_power_fn_ecloud :: "'d requests \<Rightarrow> ('d, unit) prog" where
  "set_power_fn_ecloud R =
     bindM (optM ''--action'') (\<lambda>action.
     bindM ecloud_vpc (\<lambda>vpc.
     bindM (stroptM ''--plug'') (\<lambda>plug.
     bindM (fence_url vpc action plug) (\<lambda>url.
     bindM (stroptM ''--apikey'') (\<lambda>apikey.
       put_until_accepted R ((request_for ''PUT'' url)\<lparr>req_headers := headers_ecloud apikey\<rparr>) 6)))))"

definition get_power_fn_ecloud :: "'d requests \<Rightarrow> ('d, string option) prog" where
  \<comment> \<open>a status that is no text is neither on nor off, as its text here\<close>
  "get_power_fn_ecloud R =
     bindM ecloud_vpc (\<lambda>vpc.
     bindM (stroptM ''--plug'') (\<lambda>plug.
     bindM (stroptM ''--apikey'') (\<lambda>apikey.
     let url = instance_data_url vpc plug in
     bindM (queryM (R ((request_for ''GET'' url)\<lparr>req_headers := headers_ecloud apikey\<rparr>))) (\<lambda>resp.
     if r_code resp \<noteq> 200 then
       seqM (log_code (''('' @ [CHR 0x27]) ([CHR 0x27] @ '')'') url resp)
            (retM (Some (''bad status '' @ show_int (r_code resp))))
     else
       bindM (liftM (json_loads (r_text resp))) (\<lambda>v.
       bindM (itemM ''data'' v) (\<lambda>inst.
       if vpc then bindM (itemM ''online'' inst) (\<lambda>online. retM (Some (if json_true online then ''on'' else ''off'')))
       else bindM (itemM ''power_status'' inst) (\<lambda>p. retM (case p of
           JNull \<Rightarrow> None
         | JStr t \<Rightarrow> Some (if t = ''Online'' then ''on'' else if t = ''Offline'' then ''off'' else t)
         | _ \<Rightarrow> Some (json_str p)))))))))"

definition fns_ecloud :: "'d requests \<Rightarrow> 'd power_fns" where
  "fns_ecloud R = \<lparr>set_power_fn = Some (set_power_fn_ecloud R), get_power_fn = Some (get_power_fn_ecloud R),
     get_outlet_list = None, reboot_cycle_fn = None, sync_set_power_fn = None\<rparr>"

definition new_opts_ecloud :: "(string \<times> optdef) list" where
  "new_opts_ecloud =
    [(''apikey'', \<lparr>o_getopt = '':'', o_longopt = Some ''apikey'',
        o_help = ''--apikey=[key]                 eCloud API Key'',
        o_required = Some ''1'', o_shortdesc = Some ''API Key'',
        o_type = None, o_default = None, o_choices = None, o_order = 0\<rparr>)]"

definition device_opt_ecloud :: "string list" where
  "device_opt_ecloud = [''apikey'', ''port'', ''no_login'', ''no_password'']"

definition docs_ecloud :: docs where
  "docs_ecloud = \<lparr>agent_name = None, shortdesc = ''Fence Agent for ANS eCloud'',
     longdesc = ''fence_ecloud is a Power Fencing agent for use with the ANS eCloud platform which is compatible with eCloud VPC and eCloud v1.'',
     vendorurl = Some ''https://www.ans.co.uk'', symlink = []\<rparr>"

definition choose_api :: "('w, unit) prog" where
  "choose_api = bindM (optM ''--action'') (\<lambda>action.
     if action \<in> {PStr ''on'', PStr ''off'', PStr ''reboot'', PStr ''status''} then
       bindM (stroptM ''--plug'') (\<lambda>plug. setoptM ''--ecloud-vpc'' (PInt (if py_startswith ''i-'' plug then 1 else 0)))
     else retM ())"

definition main_ecloud where
  \<comment> \<open>the result of \<open>fence_action\<close> is dropped: a process that gets to the end has exit code 0\<close>
  "main_ecloud R set_order time_start fuel =
     seqM (on_lib (add_opts new_opts_ecloud))
    (seqM (on_lib (set_help ''port'' ''-n, --plug=[instance]          Instance ID (VPC) or server ID (v1)''))
    (seqM (on_lib (read_options device_opt_ecloud False))
    (seqM (on_lib (show_docs set_order (Some docs_ecloud)))
    (seqM choose_api
    (seqM (run_delay time_start 0 0)
    (seqM (on_dev (fence_action fuel (fns_ecloud R)))
          (retM ())))))))"

end
