(* ===== verification/Requests_Agents.thy ===== *)
theory Requests_Agents
  imports Web_Client
begin

text \<open>
  Agents that use a session of the package requests: \<open>agents/skalar/fence_skalar.py\<close> (Skala-R) and
  \<open>agents/ovm/fence_ovm.py\<close> (Oracle VM). What a session keeps (cookies, headers, credentials) is written
  into each request.
\<close>

section \<open>Skala-R\<close>

record skalar_env =
  \<comment> \<open>the global variables \<open>proto\<close>, \<open>ssl_verify\<close> and \<open>cookie\<close>, which do not change once they are set\<close>
  proto :: string
  ssl_verify :: bool
  skalar_cookie :: "(string \<times> string) list"

definition skalar_request :: "skalar_env \<Rightarrow> string \<Rightarrow> string \<Rightarrow> (string \<times> json) list \<Rightarrow> web_request" where
  "skalar_request V meth url ps = (request_for meth url)\<lparr>req_params := ps, req_cookies := skalar_cookie V, req_verify := ssl_verify V\<rparr>"

definition denied :: "('w, 'a) prog" where
  "denied = seqM (fail EC_LOGIN_DENIED True) (raiseM (ClassError ''UnboundLocalError'' ''cookie''))"

definition authorize_and_get_cookie :: "'d requests \<Rightarrow> skalar_env \<Rightarrow> ('d, (string \<times> string) list) prog" where
  "authorize_and_get_cookie R V =
     bindM (showoptM ''--ip'') (\<lambda>ip.
     bindM (showoptM ''--username'') (\<lambda>user.
     bindM (showoptM ''--password'') (\<lambda>password.
     bindM (tryM (queryM (R ((request_for ''POST'' (proto V @ ip @ ''/api/0/auth''))
              \<lparr>req_form := [(''login'', user), (''password'', password)], req_verify := ssl_verify V\<rparr>)))
            (\<lambda>_. Some (seqM (logM ''Exception occured.'') denied))) (\<lambda>r.
       if ''api_token'' \<in> set (map fst (r_cookies r)) then retM (r_cookies r) else denied))))"

definition logout_skalar :: "'d requests \<Rightarrow> skalar_env \<Rightarrow> ('d, unit) prog" where
  "logout_skalar R V = bindM (showoptM ''--ip'') (\<lambda>ip.
     tryM (seqM (queryM (R (skalar_request V ''POST'' (proto V @ ip @ ''/api/0/logout'') []))) (retM ())) (\<lambda>_. Some (retM ())))"

definition vm_items :: "'d requests \<Rightarrow> skalar_env \<Rightarrow> string \<Rightarrow> (string \<times> json) list \<Rightarrow> ('d, json) prog" where
  "vm_items R V url ps =
     bindM (queryM (R (skalar_request V ''GET'' url ps))) (\<lambda>r.
     bindM (liftM (json_loads (r_text r))) (pathM [''vm_list'', ''items'']))"

definition found_vm :: "'d requests \<Rightarrow> skalar_env \<Rightarrow> string \<Rightarrow> ('d, json) prog" where
  \<comment> \<open>the first machine with the UUID of the plug\<close>
  "found_vm R V url =
     bindM (showoptM ''--plug'') (\<lambda>uuid.
     bindM (vm_items R V url [(''uuid'', JStr uuid)]) (\<lambda>items.
       if items = JList [] then raiseM (ClassError ''NameError'' ''Can not find VM by uuid.'')
       else liftM (json_index 0 items)))"

definition get_vm_id :: "'d requests \<Rightarrow> skalar_env \<Rightarrow> ('d, json) prog" where
  "get_vm_id R V =
     bindM (showoptM ''--ip'') (\<lambda>ip.
     bindM (found_vm R V (proto V @ ip @ ''/api/0/vm'')) (itemM ''vm_id''))"

definition vm_task :: "'d requests \<Rightarrow> skalar_env \<Rightarrow> json \<Rightarrow> string \<Rightarrow> ('d, unit) prog" where
  \<comment> \<open>the identifier must be a number; the text that is printed otherwise goes on with the meaning of the parameters\<close>
  "vm_task R V vm_id cmd =
     bindM (hasoptM ''--graceful'') (\<lambda>graceful.
     bindM (hasoptM ''--force'') (\<lambda>force.
     bindM (showoptM ''--ip'') (\<lambda>ip.
     case vm_id of
       JInt n \<Rightarrow>
         bindM (queryM (R (skalar_request V ''POST'' (proto V @ ip @ ''/api/0/vm/'' @ show_int n @ ''/task'')
           [(''command'', JStr cmd), (''graceful'', JBool graceful), (''force'', JBool force)]))) (\<lambda>r.
         if r_code r \<noteq> 200 then
           raiseM (ClassError ''Exception'' (''Invalid response code from server: '' @ show_int (r_code r) @ ''.''))
         else retM ())
     | _ \<Rightarrow> seqM (printM ''Wrong parameters! '') (raiseM (ClassError ''UnboundLocalError'' ''parameters'')))))"

definition state_skalar :: "(string \<times> string) list" where
  "state_skalar = [(''RUNNING'', ''on''), (''PAUSED'', ''on''), (''STOPPED'', ''off''), (''SUSPENDED'', ''off''), (''ERROR'', ''off''),
     (''DELETED'', ''off''), (''CREATING'', ''off''), (''FAILED_TO_CREATE'', ''off''), (''NODE_OFFLINE'', ''off''),
     (''STARTING'', ''off''), (''STOPPING'', ''on'')]"

definition get_power_status_skalar :: "'d requests \<Rightarrow> skalar_env \<Rightarrow> ('d, string option) prog" where
  "get_power_status_skalar R V =
     bindM (stroptM ''--ip'') (\<lambda>ip.
     bindM (found_vm R V (proto V @ ip @ ''/api/0/vm/'')) (\<lambda>vm.
     bindM (itemM ''status'' vm) (\<lambda>status.
     bindM (liftM (state_word state_skalar status)) (\<lambda>st. case st of
         None \<Rightarrow> raiseM (ClassError ''Exception'' (''Unknown VM state: '' @ json_str status @ ''.''))
       | Some t \<Rightarrow> retM (Some t)))))"

definition set_power_status_skalar :: "'d requests \<Rightarrow> skalar_env \<Rightarrow> ('d, unit) prog" where
  "set_power_status_skalar R V =
     bindM (get_vm_id R V) (\<lambda>vm_id.
     bindM (by_action [(''on'', ''vm_start''), (''reboot'', ''vm_restart''), (''off'', ''vm_stop'')]) (\<lambda>cmd.
       vm_task R V vm_id cmd))"

definition skalar_entry :: "outlet list \<Rightarrow> json \<Rightarrow> outlet list outcome" where
  "skalar_entry outlets elem =
     bindO (json_item ''uuid'' elem) (\<lambda>uuid.
     bindO (json_item ''name'' elem) (\<lambda>name.
     bindO (outlet_key name) (\<lambda>k. Ret (AList.update k (json_str uuid, None) outlets))))"

definition get_list_skalar :: "'d requests \<Rightarrow> skalar_env \<Rightarrow> ('d, outlet list) prog" where
  "get_list_skalar R V =
     bindM (stroptM ''--ip'') (\<lambda>ip.
     bindM (vm_items R V (proto V @ ip @ ''/api/0/vm'') []) (\<lambda>items.
     bindM (liftM (json_iter items)) (\<lambda>es. liftM (foldO skalar_entry [] es))))"

definition fns_skalar :: "'d requests \<Rightarrow> skalar_env \<Rightarrow> 'd power_fns" where
  "fns_skalar R V = \<lparr>set_power_fn = Some (set_power_status_skalar R V), get_power_fn = Some (get_power_status_skalar R V),
     get_outlet_list = Some (get_list_skalar R V), reboot_cycle_fn = None, sync_set_power_fn = None\<rparr>"

definition new_opts_skalar :: "(string \<times> optdef) list" where
  "new_opts_skalar =
    [(''graceful'', \<lparr>o_getopt = [], o_longopt = Some ''graceful'',
        o_help = ''--graceful                     vm_stop command parameter, graceful stop or not, default false'',
        o_required = Some ''0'', o_shortdesc = Some ''vm_stop command parameter, graceful stop or not, default false'',
        o_type = None, o_default = None, o_choices = None, o_order = 1\<rparr>),
     (''force'', \<lparr>o_getopt = [], o_longopt = Some ''force'',
        o_help = ''--force                        vm_stop command parameter, force stop or not, default false'',
        o_required = Some ''0'', o_shortdesc = Some ''vm_stop command parameter, force stop or not, default false'',
        o_type = None, o_default = None, o_choices = None, o_order = 1\<rparr>)]"

definition device_opt_skalar :: "string list" where
  "device_opt_skalar = [''ipaddr'', ''login'', ''passwd'', ''port'', ''web'', ''ssl'', ''verbose'', ''graceful'', ''force'']"

definition docs_skalar :: docs where
  "docs_skalar = \<lparr>agent_name = None, shortdesc = ''Skala-R Fence agent'',
     longdesc = ''fence_skalar is a Power Fencing agent for Skala-R.'',
     vendorurl = Some ''https://www.skala-r.ru/'', symlink = []\<rparr>"

definition skalar_proto :: "('w, skalar_env) prog" where
  "skalar_proto = bindM (getM opts) (\<lambda>od.
     retM (if od ''--ssl-secure'' \<noteq> None then \<lparr>proto = ''https://'', ssl_verify = True, skalar_cookie = []\<rparr>
       else \<lparr>proto = (if od ''--ssl-insecure'' \<noteq> None then ''https://'' else ''http://''), ssl_verify = False, skalar_cookie = []\<rparr>))"

definition main_skalar where
  "main_skalar R set_order time_start fuel =
     seqM (on_lib (add_opts new_opts_skalar))
    (seqM (on_lib (read_options device_opt_skalar False))
    (seqM (on_lib (show_docs set_order (Some docs_skalar)))
    (seqM (setoptM ''eol'' (PStr [CHR 0x0D]))
    (seqM (run_delay time_start 0 0)
    (bindM skalar_proto (\<lambda>V0.
     bindM (on_dev (authorize_and_get_cookie R V0)) (\<lambda>c.
     let V = V0\<lparr>skalar_cookie := c\<rparr> in
     with_exit_handler (on_dev (logout_skalar R V))
       (tryM (exit_with (on_dev (fence_action fuel (fns_skalar R V))))
          (\<lambda>_. Some (seqM (logM ''Exception occured.'') (fail EC_STATUS True)))))))))))"

section \<open>Oracle VM\<close>

text \<open>
  The classes of the exceptions of requests are given by their names: a connection that fails, a
  timeout (when reading), and any other.
\<close>

definition state_ovm :: "(string \<times> string) list" where
  "state_ovm = [(''RUNNING'', ''on''), (''STOPPED'', ''off''), (''SUSPENDED'', ''off'')]"

definition requests_error :: "exn \<Rightarrow> int option" where
  \<comment> \<open>the code with which the agent fails\<close>
  "requests_error e = (case e of
      ClassError c _ \<Rightarrow>
        if c \<in> {''ConnectionError'', ''ProxyError'', ''SSLError'', ''ConnectTimeout''} then Some EC_CONNECTION_LOST
        else if c \<in> {''Timeout'', ''ReadTimeout''} then Some EC_TIMED_OUT
        else if c \<in> {''RequestException'', ''HTTPError'', ''URLRequired'', ''TooManyRedirects'', ''MissingSchema'', ''InvalidSchema'',
            ''InvalidURL'', ''InvalidHeader'', ''ChunkedEncodingError'', ''ContentDecodingError'', ''RetryError''} then Some EC_GENERIC_ERROR
        else None
    | _ \<Rightarrow> None)"

definition ovm_uri :: "('w, string) prog" where
  "ovm_uri = bindM (showoptM ''--ip'') (\<lambda>ip. bindM (showoptM ''--ipport'') (\<lambda>port.
     retM (''https://'' @ ip @ '':'' @ port @ ''/ovm/core/wsapi/rest'')))"

definition stops :: "int \<Rightarrow> string \<Rightarrow> ('w, 'a) prog" where
  "stops code what = seqM (fail code True) (raiseM (ClassError ''UnboundLocalError'' what))"

definition ovm_failure :: "string \<Rightarrow> string \<Rightarrow> http_reply \<Rightarrow> json \<Rightarrow> string" where
  "ovm_failure meth uri r result = (case json_member ''message'' result of
      Some v \<Rightarrow> if v \<noteq> JNull then ''Failed: '' @ meth @ '': '' @ show_int (r_code r) @ '': '' @ json_str v
        else ''Failed: Remote returned '' @ show_int (r_code r) @ '' for '' @ [CHR 0x27] @ meth @ [CHR 0x27] @ '' request to '' @ uri
    | None \<Rightarrow> ''Failed: Remote returned '' @ show_int (r_code r) @ '' for '' @ [CHR 0x27] @ meth @ [CHR 0x27] @ '' request to '' @ uri)"

definition send_command_ovm :: "'d requests \<Rightarrow> web_request \<Rightarrow> string \<Rightarrow> string \<Rightarrow> ('d, json) prog" where
  \<comment> \<open>with what the session adds to every request\<close>
  "send_command_ovm R session path meth =
     bindM ovm_uri (\<lambda>base.
     bindM (intoptM ''--shell-timeout'') (\<lambda>timeout.
     let uri = base @ path in
     bindM (tryM (if meth \<in> {''GET'', ''PUT''} then
              queryM (R (session\<lparr>verb := meth, target := uri, req_timeouts := (if timeout \<noteq> 0 then [timeout] else [])\<rparr>))
            else seqM (logM (''The method '' @ [CHR 0x27] @ meth @ [CHR 0x27] @ '' is not supported yet'')) (stops EC_GENERIC_ERROR ''response''))
       (\<lambda>e. map_option (\<lambda>code. seqM (logM (exn_text e)) (stops code ''response'')) (requests_error e))) (\<lambda>r.
     bindM (tryM (liftM (json_loads (r_text r)))
       (\<lambda>e. case e of
          ValueError _ \<Rightarrow> Some (seqM (logM (py_repr (r_text r) @ '' is not valid JSON. Status code is '' @ show_int (r_code r)))
            (stops EC_GENERIC_ERROR ''result''))
        | _ \<Rightarrow> None)) (\<lambda>result.
     if meth = ''GET'' \<and> r_code r \<noteq> 200 \<or> meth = ''PUT'' \<and> r_code r \<noteq> 201 then
       seqM (logM (ovm_failure meth uri r result)) (stops EC_GENERIC_ERROR ''result'')
     else retM result))))"

definition get_power_status_ovm :: "'d requests \<Rightarrow> web_request \<Rightarrow> ('d, string option) prog" where
  "get_power_status_ovm R session =
     bindM (showoptM ''--plug'') (\<lambda>plug.
     bindM (send_command_ovm R session (''/Vm/'' @ plug) ''GET'') (\<lambda>vm.
     bindM (itemM ''vmRunState'' vm) (\<lambda>st. liftM (state_word state_ovm st))))"

definition finished_job :: "'d requests \<Rightarrow> web_request \<Rightarrow> json \<Rightarrow> ('d, bool option) prog" where
  \<comment> \<open>the answer, if a job that is done has one\<close>
  "finished_job R session job =
     bindM (itemM ''jobRunState'' job) (\<lambda>v.
     bindM (liftM (json_method ''upper'' v)) (\<lambda>t.
     if py_upper t = ''FAILURE'' then
       bindM (itemM ''error'' job) (\<lambda>err. seqM (logM (''Job failed: '' @ json_str err)) (retM (Some False)))
     else if py_upper t = ''SUCCESS'' then
       bindM (get_power_status_ovm R session) (\<lambda>status.
       bindM (optM ''--action'') (\<lambda>action.
         retM (if (case status of None \<Rightarrow> PNone | Some u \<Rightarrow> PStr u) = action then Some True else None)))
     else retM None))"

fun wait_for_job :: "nat \<Rightarrow> 'd requests \<Rightarrow> web_request \<Rightarrow> int \<Rightarrow> json \<Rightarrow> ('d, bool) prog" where
  \<comment> \<open>the loop with its counter; without a power timeout nothing bounds it\<close>
  "wait_for_job 0 R session k job = runningM"
| "wait_for_job (Suc fuel) R session k job =
     bindM (itemM ''summaryDone'' job) (\<lambda>d0.
     bindM (if json_true d0 then retM job
            else bindM (pathM [''id'', ''value''] job) (\<lambda>v. send_command_ovm R session (''/Job/'' @ json_str v) ''GET'')) (\<lambda>job'.
     bindM (itemM ''summaryDone'' job') (\<lambda>d1.
     bindM (if json_true d1 then finished_job R session job' else retM None) (\<lambda>answer. case answer of
         Some b \<Rightarrow> retM b
       | None \<Rightarrow>
           bindM (intoptM ''--stonith-status-sleep'') (\<lambda>pause.
           seqM (sleepM (of_int pause))
          (bindM (intoptM ''--power-timeout'') (\<lambda>timeout.
           if timeout > 0 \<and> k \<ge> timeout then
             bindM (showoptM ''--plug'') (\<lambda>plug.
             bindM (showoptM ''--action'') (\<lambda>action.
             seqM (logM (''Job failed: Timed out waiting for '' @ plug @ '' to power '' @ action)) (retM False)))
           else wait_for_job fuel R session (k + 1) job')))))))"

definition sync_set_power_status_ovm :: "nat \<Rightarrow> 'd requests \<Rightarrow> web_request \<Rightarrow> ('d, bool) prog" where
  "sync_set_power_status_ovm fuel R session =
     bindM (by_action [(''on'', ''start''), (''off'', ''kill'')]) (\<lambda>action.
     bindM (showoptM ''--plug'') (\<lambda>plug.
     bindM (send_command_ovm R session (''/Vm/'' @ plug @ ''/'' @ action) ''PUT'') (wait_for_job fuel R session 1)))"

definition ovm_entry :: "outlet list \<Rightarrow> json \<Rightarrow> outlet list outcome" where
  "ovm_entry outlets vm =
     bindO (json_item ''vmRunState'' vm) (\<lambda>v.
     bindO (state_word state_ovm v) (\<lambda>status.
     bindO (json_item ''name'' vm) (\<lambda>name.
     bindO (json_item ''id'' vm) (\<lambda>ident.
     bindO (json_item ''value'' ident) (\<lambda>i.
     bindO (outlet_key i) (\<lambda>k. Ret (AList.update k (json_str name, status) outlets)))))))"

definition get_outlet_list_ovm :: "'d requests \<Rightarrow> web_request \<Rightarrow> ('d, outlet list) prog" where
  "get_outlet_list_ovm R session =
     bindM (send_command_ovm R session ''/Vm'' ''GET'') (\<lambda>v.
     bindM (liftM (json_iter v)) (\<lambda>vms. liftM (foldO ovm_entry [] vms)))"

definition load_cert :: "(string \<Rightarrow> pyval \<Rightarrow> exn option) \<Rightarrow> string \<Rightarrow> pyval \<Rightarrow> ('w, unit) prog" where
  \<comment> \<open>\<open>SSLAdapter\<close>; reading the certificate with its password is a parameter\<close>
  "load_cert certs file password = (case certs file password of
      None \<Rightarrow> retM ()
    | Some (ClassError c m) \<Rightarrow>
        if c = ''SSLError'' then
          seqM (logM (''Failed: The private key doesn'' @ [CHR 0x27] @ ''t match with the certificate'')) (fail EC_GENERIC_ERROR True)
        else raiseM (ClassError c m)
    | Some (OSErr m) \<Rightarrow> seqM (logM (file @ '': '' @ m)) (fail EC_GENERIC_ERROR True)
    | Some e \<Rightarrow> raiseM e)"

definition connect_ovm :: "(string \<Rightarrow> pyval \<Rightarrow> exn option) \<Rightarrow> ('w, web_request) prog" where
  "connect_ovm certs =
     bindM (getM opts) (\<lambda>od.
     let password = (case od ''--password'' of None \<Rightarrow> PNone | Some v \<Rightarrow> v);
         session = (request_for [] [])\<lparr>req_verify := (od ''--ssl-secure'' \<noteq> None \<or> od ''--ssl-insecure'' = None),
           req_headers := [(''Accept'', ''application/json''), (''Content-Type'', ''application/json'')]\<rparr> in
     if od ''--username'' \<noteq> None then
       bindM (showoptM ''--username'') (\<lambda>user. retM (session\<lparr>req_auth := Some (user, password)\<rparr>))
     else
       bindM (stroptM ''--ssl-client-certificate-file'') (\<lambda>file.
       seqM (load_cert certs file password) (retM (session\<lparr>req_cert := Some file\<rparr>))))"

definition fns_ovm :: "nat \<Rightarrow> 'd requests \<Rightarrow> web_request \<Rightarrow> 'd power_fns" where
  "fns_ovm fuel R session = \<lparr>set_power_fn = None, get_power_fn = Some (get_power_status_ovm R session),
     get_outlet_list = Some (get_outlet_list_ovm R session), reboot_cycle_fn = None,
     sync_set_power_fn = Some (sync_set_power_status_ovm fuel R session)\<rparr>"

definition new_opts_ovm :: "(string \<times> optdef) list" where
  "new_opts_ovm =
    [(''ssl_client_certificate_file'', \<lparr>o_getopt = '':'', o_longopt = Some ''ssl-client-certificate-file'',
        o_help = ''--ssl-client-certificate-file=[filename]   SSL client certificate file'',
        o_required = Some ''0'', o_shortdesc = None,
        o_type = None, o_default = None, o_choices = None, o_order = 1\<rparr>)]"

definition device_opt_ovm :: "string list" where
  "device_opt_ovm = [''ipaddr'', ''ipport'', ''login'', ''no_login'', ''passwd'', ''no_password'', ''port'', ''ssl'', ''ssl_client_certificate_file'']"

definition docs_ovm :: docs where
  "docs_ovm = \<lparr>agent_name = None, shortdesc = ''Fence agent for Oracle VM'',
     longdesc = ''fence_ovm is a Power Fencing agent which can be used with the virtual machines managed by Oracle VM Manager.'',
     vendorurl = Some ''https://www.oracle.com/virtualization/technologies/vm/'', symlink = []\<rparr>"

definition validate_input_ovm :: "bool \<Rightarrow> ('w, bool) prog" where
  \<comment> \<open>of the options as they were read, before their defaults are filled in\<close>
  "validate_input_ovm stop =
     bindM (getM opts) (\<lambda>od.
     let has = (\<lambda>k. od k \<noteq> None);
         bad = (\<lambda>c m. if c then seqM (fail_usage m stop) (retM True) else retM False) in
     bindM (bad (\<not> has ''--username'' \<and> \<not> has ''--ssl-client-certificate-file'')
       ''Failed: You have to enter username or ssl client certificate file'') (\<lambda>a.
     bindM (bad (has ''--username'' \<and> has ''--ssl-client-certificate-file'')
       ''Failed: You have to enter eather username or ssl client certificate file'') (\<lambda>b.
     bindM (bad (has ''--username'' \<and> \<not> has ''--password'' \<and> \<not> has ''--password-script'')
       ''Failed: You have to enter password or password script'') (\<lambda>c.
     bindM (case int_opt od ''--shell-timeout'' of
         Some n \<Rightarrow> bad (n < 0) (''Failed: Attempted to set --shell-timeout to '' @ show_int n
           @ '', but the timeout cannot be set to a value less than 0'')
       | None \<Rightarrow> retM False) (\<lambda>d.
       retM (\<not> a \<and> \<not> b \<and> \<not> c \<and> \<not> d))))))"

definition check_ovm :: "('w, unit) prog" where
  "check_ovm = bindM (getM opts) (\<lambda>od.
     if od ''--action'' \<in> {Some (PStr ''metadata''), Some (PStr ''manpage'')} \<or> od ''--help'' \<noteq> None \<or> od ''--version'' \<noteq> None then retM ()
     else if od ''--action'' = Some (PStr ''validate-all'') then
       bindM (validate_input_ovm False) (\<lambda>ok. if ok then retM () else fail_usage ''validate-all failed'' True)
     else seqM (validate_input_ovm True) (retM ()))"

definition main_ovm where
  "main_ovm certs R jobs set_order time_start fuel =
     seqM (on_lib (add_opts new_opts_ovm))
    (seqM (on_lib (set_default ''ipport'' (PStr ''7002'')))
    (seqM (on_lib (read_options_with device_opt_ovm check_ovm))
    (seqM (on_lib (show_docs set_order (Some docs_ovm)))
    (seqM (run_delay time_start 0 0)
    (bindM (connect_ovm certs) (\<lambda>session.
          exit_with (on_dev (fence_action fuel (fns_ovm jobs R session)))))))))"

end
