(* ===== verification/Client_Lib.thy ===== *)
theory Client_Lib
  imports Web_Client
begin

text \<open>
  Agents that reach their service through a client library of its vendor. The library is a parameter
  (\<open>'d client\<close>): a call is its name and its arguments, the answer is a value or an exception; an object
  that the library returns is the record of the attributes that the agents read.
\<close>

type_synonym 'd client = "string \<Rightarrow> (string \<times> json) list \<Rightarrow> ('d, json) ask"

definition clientM :: "'d client \<Rightarrow> string \<Rightarrow> (string \<times> json) list \<Rightarrow> ('d, json) prog" where
  "clientM C f args = queryM (C f args)"

definition missing_attribute :: "json \<Rightarrow> string \<Rightarrow> exn" where
  "missing_attribute v k = AttributeError ([CHR 0x27] @ (case v of JObj _ \<Rightarrow> ''object'' | _ \<Rightarrow> json_type v) @ [CHR 0x27]
     @ '' object has no attribute '' @ [CHR 0x27] @ k @ [CHR 0x27])"

definition json_attr :: "string \<Rightarrow> json \<Rightarrow> json outcome" where
  \<comment> \<open>\<open>v.k\<close>\<close>
  "json_attr k v = (case json_member k v of Some x \<Rightarrow> Ret x | None \<Rightarrow> Raise (missing_attribute v k))"

definition attrM :: "string \<Rightarrow> json \<Rightarrow> ('w, json) prog" where
  "attrM k v = liftM (json_attr k v)"

definition class_name :: "exn \<Rightarrow> string" where
  "class_name e = (case e of
      KeyError _ \<Rightarrow> ''KeyError'' | ValueError _ \<Rightarrow> ''ValueError'' | TypeError _ \<Rightarrow> ''TypeError'' | AttributeError _ \<Rightarrow> ''AttributeError''
    | IndexError _ \<Rightarrow> ''IndexError'' | OSErr _ \<Rightarrow> ''OSError'' | ClassError c _ \<Rightarrow> c | _ \<Rightarrow> [])"

definition unbound :: "string \<Rightarrow> ('w, 'a) prog" where
  \<comment> \<open>where the code goes on after a call of \<open>fail\<close> or \<open>fail_usage\<close>, which ends the process\<close>
  "unbound x = raiseM (ClassError ''UnboundLocalError'' x)"

fun fill_until :: "('b \<Rightarrow> 'a \<Rightarrow> ('w, 'b) prog) \<Rightarrow> 'b \<Rightarrow> 'a list \<Rightarrow> ('w, 'b \<times> exn option) prog" where
  \<comment> \<open>a loop that fills a dictionary: what was in it when an exception ended the loop, if one did\<close>
  "fill_until f b [] = retM (b, None)"
| "fill_until f b (x # xs) =
     bindM (tryM (bindM (f b x) (\<lambda>b'. retM (Inl b'))) (\<lambda>e. Some (retM (Inr e)))) (\<lambda>r. case r of
         Inl b' \<Rightarrow> fill_until f b' xs
       | Inr e \<Rightarrow> retM (b, Some e))"

definition optional_json :: "string \<Rightarrow> ('w, json) prog" where
  \<comment> \<open>\<open>options.get(k)\<close>\<close>
  "optional_json k = getM (\<lambda>s. case opts s k of None \<Rightarrow> JNull | Some v \<Rightarrow> py_json v)"

definition json_opt :: "string \<Rightarrow> ('w, json) prog" where
  \<comment> \<open>\<open>options[k]\<close> as an argument\<close>
  "json_opt k = bindM (optM k) (\<lambda>v. retM (py_json v))"

definition filter_words :: "string \<Rightarrow> (string \<times> string) outcome" where
  \<comment> \<open>the first two parts of a filter \<open>key=value\<close>\<close>
  "filter_words t = (case py_split ''='' t of a # b # _ \<Rightarrow> Ret (py_strip a, py_strip b) | _ \<Rightarrow> Raise (IndexError ''list index out of range''))"

definition is_original :: "string \<Rightarrow> ('w, bool) prog" where
  "is_original a = getM (\<lambda>s. opts s ''--original-action'' = Some (PStr a))"

end
