(* ===== verification/Cloud_Agents.thy ===== *)
theory Cloud_Agents
  imports Client_Lib
begin

text \<open>
  Agents for clouds with a client library: \<open>agents/aws/fence_aws.py\<close> (boto3; the metadata of the own
  instance are asked for with requests), \<open>agents/aliyun/fence_aliyun.py\<close> (the SDK of Aliyun, whose
  answers are JSON texts) and \<open>agents/kubevirt/fence_kubevirt.py\<close> (the clients of Kubernetes and
  OpenShift). Log handlers are left out, what configparser reads from a file with credentials is a
  parameter.
\<close>

section \<open>AWS\<close>

definition aws_states :: "(string \<times> string) list" where
  "aws_states = [(''running'', ''on''), (''stopped'', ''off''), (''pending'', ''unknown''), (''stopping'', ''unknown''),
     (''shutting-down'', ''unknown''), (''terminated'', ''unknown'')]"

definition metadata_request :: "string \<Rightarrow> string \<Rightarrow> string \<times> string \<Rightarrow> web_request" where
  "metadata_request meth path header = (request_for meth (''http://169.254.169.254/latest/'' @ path))\<lparr>req_headers := [header]\<rparr>"

definition get_instance_id :: "'d requests \<Rightarrow> ('d, json) prog" where
  "get_instance_id R = tryM
     (bindM (queryM (R (metadata_request ''PUT'' ''api/token'' (''X-aws-ec2-metadata-token-ttl-seconds'', ''21600'')))) (\<lambda>token.
      bindM (queryM (R (metadata_request ''GET'' ''meta-data/instance-id'' (''X-aws-ec2-metadata-token'', r_text token)))) (\<lambda>r.
        retM (JStr (r_text r)))))
     (\<lambda>e. Some (bindM (hasoptM ''--skip-race-check'') (\<lambda>skip.
        seqM (if class_name e = ''HTTPError'' then logM (''HTTP error occurred while trying to access EC2 metadata server: '' @ exn_text e)
              else if skip then retM ()
              else logM (''A fatal error occurred while trying to access EC2 metadata server: '' @ exn_text e))
             (retM JNull))))"

definition aws_filter :: "string \<Rightarrow> json \<Rightarrow> json" where
  "aws_filter name v = JList [JObj [(''Name'', JStr name), (''Values'', JList [v])]]"

definition aws_find :: "'d client \<Rightarrow> json \<Rightarrow> ('d, json list) prog" where
  "aws_find C filters = bindM (clientM C ''instances.filter'' [(''Filters'', filters)]) (\<lambda>v. liftM (json_iter v))"

definition aws_state :: "json \<Rightarrow> json outcome" where
  "aws_state i = bindO (json_attr ''state'' i) (json_item ''Name'')"

definition aws_name :: "json \<Rightarrow> json outcome" where
  \<comment> \<open>the last tag of the name Name\<close>
  "aws_name i =
     bindO (json_attr ''tags'' i) (\<lambda>tags.
     bindO (if json_true tags then json_iter tags else Ret []) (\<lambda>ts.
       foldO (\<lambda>name tag. bindO (json_get ''Key'' tag) (\<lambda>k.
         if k = JStr ''Name'' then json_item ''Value'' tag else Ret name)) (JStr []) ts))"

definition aws_entry :: "outlet list \<Rightarrow> json \<Rightarrow> ('w, outlet list) prog" where
  "aws_entry result i =
     bindM (liftM (aws_name i)) (\<lambda>name.
     bindM (tryM (liftM (bindO (aws_state i) (state_entry aws_states))) (\<lambda>e. case e of
          KeyError _ \<Rightarrow> Some (bindM (is_original ''list-status'') (\<lambda>shown.
            seqM (if shown then
                bindM (liftM (aws_state i)) (\<lambda>t. bindM (attrM ''id'' i) (\<lambda>ident.
                  logM (''Unknown status \"'' @ json_str t @ ''\" returned for '' @ json_str ident @ '' ('' @ json_str name @ '')'')))
              else retM ()) (retM ''unknown'')))
        | _ \<Rightarrow> None)) (\<lambda>t.
     bindM (attrM ''id'' i) (\<lambda>ident.
     bindM (liftM (outlet_key ident)) (\<lambda>k. retM (AList.update k (json_str name, Some t) result)))))"

definition aws_filters :: "('w, json) prog" where
  "aws_filters = bindM (hasoptM ''--filter'') (\<lambda>given.
     if given then
       bindM (stroptM ''--filter'') (\<lambda>t. bindM (liftM (filter_words t)) (\<lambda>(k, v). retM (aws_filter k (JStr v))))
     else retM (JList []))"

definition bad_key :: "('w, 'a) prog" where
  "bad_key = seqM (fail_usage ''Failed: Incorrect Access Key or Secret Key.'' True) (unbound [])"

definition bad_region :: "('w, 'a) prog" where
  "bad_region = seqM (fail_usage ''Failed: Incorrect Region.'' True) (unbound [])"

definition aws_list_error :: "exn \<Rightarrow> ('w, unit) prog" where
  "aws_list_error e =
     (if class_name e = ''ClientError'' then bad_key
      else if class_name e = ''EndpointConnectionError'' then bad_region
      else if class_name e \<in> {''ConnectionError'', ''ConnectTimeoutError'', ''ProxyConnectionError'', ''SSLError''} then
        fail_usage (''Failed: Unable to connect to AWS: '' @ exn_text e) True
      else logM (''Failed to get node list: '' @ exn_text e))"

definition get_nodes_list_aws :: "'d client \<Rightarrow> ('d, outlet list) prog" where
  "get_nodes_list_aws C =
     bindM (tryM (bindM (bindM aws_filters (aws_find C)) (fill_until aws_entry [])) (\<lambda>e. Some (retM ([], Some e)))) (\<lambda>(result, failure).
       seqM (case failure of None \<Rightarrow> retM () | Some e \<Rightarrow> aws_list_error e) (retM result))"

definition get_power_status_aws :: "'d client \<Rightarrow> ('d, string option) prog" where
  "get_power_status_aws C = tryM
     (bindM (json_opt ''--plug'') (\<lambda>plug.
      bindM (aws_find C (aws_filter ''instance-id'' plug)) (\<lambda>found.
      bindM (liftM (json_index 0 (JList found))) (\<lambda>i.
      bindM (liftM (aws_state i)) (\<lambda>state.
      bindM (liftM (json_method ''upper'' state)) (\<lambda>t. case map_of aws_states t of
          Some st \<Rightarrow> retM (Some st)
        | None \<Rightarrow> seqM (logM (''Unknown status \"'' @ t @ ''\" returned'')) (retM (Some ''unknown''))))))))
     (\<lambda>e. Some
       (if class_name e = ''ClientError'' then bad_key
        else if class_name e = ''EndpointConnectionError'' then bad_region
        else if class_name e = ''IndexError'' then seqM (fail EC_STATUS True) (unbound [])
        else seqM (logM (''Failed to get power status: '' @ exn_text e)) (seqM (fail EC_STATUS True) (unbound []))))"

definition get_self_power_status :: "'d client \<Rightarrow> json \<Rightarrow> ('d, string) prog" where
  "get_self_power_status C instance_id = tryM
     (bindM (aws_find C (aws_filter ''instance-id'' instance_id)) (\<lambda>found.
      bindM (liftM (json_index 0 (JList found))) (\<lambda>i.
      bindM (liftM (aws_state i)) (\<lambda>state.
      bindM (liftM (json_method ''upper'' state)) (\<lambda>t. retM (if t = ''running'' then ''ok'' else ''alert''))))))
     (\<lambda>e. if class_name e = ''ClientError'' then Some bad_key
        else if class_name e = ''EndpointConnectionError'' then Some bad_region
        else if class_name e = ''IndexError'' then Some (retM ''fail'') else None)"

definition stop_aws :: "'d client \<Rightarrow> (string \<times> json) list \<Rightarrow> ('d, unit) prog" where
  "stop_aws C how = bindM (json_opt ''--plug'') (\<lambda>plug. seqM (clientM C ''instances.stop'' ((''InstanceIds'', JList [plug]) # how)) (retM ()))"

definition shutdown_option :: "('w, (string \<times> json) list) prog" where
  "shutdown_option =
     bindM (getM (\<lambda>s. opts s ''--skip-os-shutdown'')) (\<lambda>v.
     bindM (case v of None \<Rightarrow> retM ''false'' | Some (PStr t) \<Rightarrow> retM (py_lower t) | Some _ \<Rightarrow> raiseM (AttributeError ''lower'')) (\<lambda>t.
       retM [(''SkipOsShutdown'', JBool (t \<in> {''1'', ''yes'', ''on'', ''true''})), (''Force'', JBool True)]))"

definition switch_aws :: "'d client \<Rightarrow> json \<Rightarrow> ('d, unit) prog" where
  \<comment> \<open>the body of \<open>set_power_status\<close>, with the identifier of the own instance\<close>
  "switch_aws C my_instance =
     bindM shutdown_option (\<lambda>how.
     bindM (optM ''--action'') (\<lambda>action.
     if action = PStr ''off'' then
       bindM (hasoptM ''--skip-race-check'') (\<lambda>skip.
       bindM (if skip then retM True else bindM (get_self_power_status C my_instance) (\<lambda>r. retM (r = ''ok''))) (\<lambda>ok.
         if ok then stop_aws C how else retM ()))
     else if action = PStr ''on'' then
       bindM (json_opt ''--plug'') (\<lambda>plug. seqM (clientM C ''instances.start'' [(''InstanceIds'', JList [plug])]) (retM ()))
     else retM ()))"

definition set_power_status_aws :: "'d client \<Rightarrow> 'd requests \<Rightarrow> ('d, unit) prog" where
  "set_power_status_aws C R =
     bindM (get_instance_id R) (\<lambda>my_instance.
     tryM (switch_aws C my_instance) (\<lambda>e. Some
       (if class_name e = ''ParamValidationError'' then
          bindM (optM ''--action'') (\<lambda>action. if action = PStr ''off'' then stop_aws C [(''Force'', JBool True)] else retM ())
        else fail EC_STATUS True)))"

definition fns_aws :: "'d client \<Rightarrow> 'd requests \<Rightarrow> 'd power_fns" where
  "fns_aws C R = \<lparr>set_power_fn = Some (set_power_status_aws C R), get_power_fn = Some (get_power_status_aws C),
     get_outlet_list = Some (get_nodes_list_aws C), reboot_cycle_fn = None, sync_set_power_fn = None\<rparr>"

definition new_opts_aws :: "(string \<times> optdef) list" where
  "new_opts_aws =
    [(''region'', \<lparr>o_getopt = ''r:'', o_longopt = Some ''region'',
        o_help = ''-r, --region=[region]          Region, e.g. us-east-1'',
        o_required = Some ''0'', o_shortdesc = Some ''Region.'',
        o_type = None, o_default = None, o_choices = None, o_order = 2\<rparr>),
     (''access_key'', \<lparr>o_getopt = ''a:'', o_longopt = Some ''access-key'',
        o_help = ''-a, --access-key=[key]         Access Key'',
        o_required = Some ''0'', o_shortdesc = Some ''Access Key.'',
        o_type = None, o_default = None, o_choices = None, o_order = 3\<rparr>),
     (''secret_key'', \<lparr>o_getopt = ''s:'', o_longopt = Some ''secret-key'',
        o_help = ''-s, --secret-key=[key]         Secret Key'',
        o_required = Some ''0'', o_shortdesc = Some ''Secret Key.'',
        o_type = None, o_default = None, o_choices = None, o_order = 4\<rparr>),
     (''filter'', \<lparr>o_getopt = '':'', o_longopt = Some ''filter'',
        o_help = ''--filter=[key=value]           Filter (e.g. vpc-id=[vpc-XXYYZZAA])'',
        o_required = Some ''0'', o_shortdesc = Some ''Filter for list-action'',
        o_type = None, o_default = None, o_choices = None, o_order = 5\<rparr>),
     (''boto3_debug'', \<lparr>o_getopt = ''b:'', o_longopt = Some ''boto3_debug'',
        o_help = ''-b, --boto3_debug=[option]     Boto3 and Botocore library debug logging'',
        o_required = Some ''0'', o_shortdesc = Some ''Boto Lib debug'',
        o_type = None, o_default = Some (PStr ''False''), o_choices = None, o_order = 6\<rparr>),
     (''skip_race_check'', \<lparr>o_getopt = [], o_longopt = Some ''skip-race-check'',
        o_help = ''--skip-race-check              Skip race condition check'',
        o_required = Some ''0'', o_shortdesc = Some ''Skip race condition check'',
        o_type = None, o_default = None, o_choices = None, o_order = 7\<rparr>),
     (''skip_os_shutdown'', \<lparr>o_getopt = '':'', o_longopt = Some ''skip-os-shutdown'',
        o_help = ''--skip-os-shutdown=[true|false]    Uses SkipOsShutdown flag'',
        o_required = Some ''0'', o_shortdesc = Some ''Use SkipOsShutdown flag to stop the EC2 instance'',
        o_type = None, o_default = Some (PStr ''true''), o_choices = None, o_order = 8\<rparr>)]"

definition device_opt_aws :: "string list" where
  "device_opt_aws = [''port'', ''no_password'', ''region'', ''access_key'', ''secret_key'', ''filter'', ''boto3_debug'', ''skip_race_check'', ''skip_os_shutdown'']"

definition docs_aws :: docs where
  "docs_aws = \<lparr>agent_name = None, shortdesc = ''Fence agent for AWS (Amazon Web Services)'',
     longdesc = ''fence_aws is a Power Fencing agent for AWS (Amazon WebServices). It uses the boto3 library to connect to AWS.'' @ nl @ ''.P'' @ nl @ ''boto3 can be configured with AWS CLI or by creating ~/.aws/credentials.'' @ nl @ ''For instructions see: https://boto3.readthedocs.io/en/latest/guide/quickstart.html#configuration'',
     vendorurl = Some ''http://www.amazon.com'', symlink = []\<rparr>"

definition connect_aws :: "'d client \<Rightarrow> ('d, unit) prog" where
  \<comment> \<open>where the connection may fail, \<open>show_docs\<close> or \<open>check_input\<close> have ended the process before\<close>
  "connect_aws C =
     bindM (optional_json ''--region'') (\<lambda>region.
     bindM (optional_json ''--access-key'') (\<lambda>access_key.
     bindM (optional_json ''--secret-key'') (\<lambda>secret_key.
       tryM (seqM (clientM C ''resource'' [(''service'', JStr ''ec2''), (''region_name'', region), (''aws_access_key_id'', access_key),
               (''aws_secret_access_key'', secret_key)]) (retM ()))
         (\<lambda>e. Some (bindM (optional_json ''--action'') (\<lambda>action.
            if action \<notin> {JStr ''metadata'', JStr ''manpage'', JStr ''validate-all''}
            then fail_usage (''Failed: Unable to connect to AWS: '' @ exn_text e) True else retM ()))))))"

definition main_aws where
  "main_aws C R set_order time_start fuel =
     seqM (on_lib (add_opts new_opts_aws))
    (seqM (on_lib (set_default ''power_timeout'' (PStr ''60'')))
    (seqM (on_lib (read_options device_opt_aws False))
    (seqM (on_lib (show_docs set_order (Some docs_aws)))
    (seqM (run_delay time_start 0 0)
    (seqM (stroptM ''--boto3_debug'')
    (seqM (on_dev (connect_aws C))
          (exit_with (on_dev (fence_action fuel (fns_aws C R))))))))))"

section \<open>Aliyun\<close>

type_synonym 'd aliyun = "string \<Rightarrow> (string \<times> json) list \<Rightarrow> ('d, string) ask"

definition send_request_aliyun :: "'d aliyun \<Rightarrow> bool \<Rightarrow> string \<Rightarrow> (string \<times> json) list \<Rightarrow> ('d, json) prog" where
  \<comment> \<open>with a flag that says whether there is a connection; without one the call is one of an attribute of None\<close>
  "send_request_aliyun A online action params =
     bindM (tryM (if online then queryM (A action params) else raiseM (missing_attribute JNull ''do_action_with_exception''))
       (\<lambda>e. Some (seqM (fail_usage (''Failed: send request failed: Error: '' @ exn_text e) True) (unbound ''response_str'')))) (\<lambda>t.
     liftM (json_loads t))"

definition instance_list :: "json \<Rightarrow> json list outcome" where
  "instance_list response =
     bindO (json_get ''Instances'' response) (\<lambda>v. bindO (json_get ''Instance'' v) json_iter)"

definition get_status_aliyun :: "'d aliyun \<Rightarrow> bool \<Rightarrow> json \<Rightarrow> ('d, json) prog" where
  \<comment> \<open>the status of the last instance\<close>
  "get_status_aliyun A online instance_id =
     bindM (send_request_aliyun A online ''DescribeInstances'' [(''InstanceIds'', JStr (json_dumps (JList [instance_id])))]) (\<lambda>response.
     if response = JNull then retM JNull
     else liftM (bindO (instance_list response) (foldO (\<lambda>_ item. json_get ''Status'' item) JNull)))"

definition get_power_status_aliyun :: "'d aliyun \<Rightarrow> bool \<Rightarrow> ('d, string option) prog" where
  "get_power_status_aliyun A online =
     bindM (json_opt ''--plug'') (\<lambda>plug.
     bindM (get_status_aliyun A online plug) (\<lambda>state.
       retM (Some (if state = JStr ''Running'' then ''on'' else if state = JStr ''Stopped'' then ''off'' else ''unknown''))))"

definition start_instance :: "'d aliyun \<Rightarrow> bool \<Rightarrow> json \<Rightarrow> ('d, unit) prog" where
  "start_instance A online ident = seqM (send_request_aliyun A online ''StartInstance'' [(''InstanceId'', ident)]) (retM ())"

definition stop_instance :: "'d aliyun \<Rightarrow> bool \<Rightarrow> json \<Rightarrow> ('d, unit) prog" where
  "stop_instance A online ident =
     seqM (send_request_aliyun A online ''StopInstance'' [(''InstanceId'', ident), (''ForceStop'', JStr ''true'')]) (retM ())"

definition reboot_instance :: "'d aliyun \<Rightarrow> bool \<Rightarrow> json \<Rightarrow> ('d, unit) prog" where
  "reboot_instance A online ident =
     seqM (send_request_aliyun A online ''RebootInstance'' [(''InstanceId'', ident), (''ForceStop'', JStr ''true'')]) (retM ())"

definition set_power_status_aliyun :: "'d aliyun \<Rightarrow> bool \<Rightarrow> ('d, unit) prog" where
  "set_power_status_aliyun A online =
     bindM (json_opt ''--plug'') (\<lambda>plug.
     bindM (optM ''--action'') (\<lambda>action.
     if action = PStr ''off'' then stop_instance A online plug
     else if action = PStr ''on'' then start_instance A online plug
     else if action = PStr ''reboot'' then reboot_instance A online plug
     else retM ()))"

definition list_params :: "('w, (string \<times> json) list) prog" where
  "list_params =
     bindM (hasoptM ''--filter'') (\<lambda>given.
     if given then
       bindM (stroptM ''--filter'') (\<lambda>t.
       bindM (liftM (filter_words t)) (\<lambda>(k, v). retM (AList.update k (JStr v) [(''PageSize'', JInt 100)])))
     else retM [(''PageSize'', JInt 100)])"

definition aliyun_entry :: "outlet list \<Rightarrow> json \<Rightarrow> outlet list outcome" where
  "aliyun_entry result item =
     bindO (json_get ''InstanceId'' item) (\<lambda>ident.
     bindO (json_get ''InstanceName'' item) (\<lambda>name.
     bindO (outlet_key ident) (\<lambda>k. Ret (AList.update k (json_str name, None) result))))"

definition get_nodes_list_aliyun :: "'d aliyun \<Rightarrow> bool \<Rightarrow> ('d, outlet list) prog" where
  "get_nodes_list_aliyun A online =
     bindM list_params (\<lambda>params.
     bindM (send_request_aliyun A online ''DescribeInstances'' params) (\<lambda>response.
     if response = JNull then retM []
     else liftM (bindO (instance_list response) (foldO aliyun_entry []))))"

definition fns_aliyun :: "'d aliyun \<Rightarrow> bool \<Rightarrow> 'd power_fns" where
  "fns_aliyun A online = \<lparr>set_power_fn = Some (set_power_status_aliyun A online),
     get_power_fn = Some (get_power_status_aliyun A online), get_outlet_list = Some (get_nodes_list_aliyun A online),
     reboot_cycle_fn = None, sync_set_power_fn = None\<rparr>"

definition new_opts_aliyun :: "(string \<times> optdef) list" where
  "new_opts_aliyun =
    [(''region'', \<lparr>o_getopt = ''r:'', o_longopt = Some ''region'',
        o_help = ''-r, --region=[name]            Region, e.g. cn-hangzhou'',
        o_required = Some ''0'', o_shortdesc = Some ''Region.'',
        o_type = None, o_default = None, o_choices = None, o_order = 2\<rparr>),
     (''access_key'', \<lparr>o_getopt = ''a:'', o_longopt = Some ''access-key'',
        o_help = ''-a, --access-key=[name]        Access Key'',
        o_required = Some ''0'', o_shortdesc = Some ''Access Key.'',
        o_type = None, o_default = None, o_choices = None, o_order = 3\<rparr>),
     (''secret_key'', \<lparr>o_getopt = ''s:'', o_longopt = Some ''secret-key'',
        o_help = ''-s, --secret-key=[name]        Secret Key'',
        o_required = Some ''0'', o_shortdesc = Some ''Secret Key.'',
        o_type = None, o_default = None, o_choices = None, o_order = 4\<rparr>),
     (''ram_role'', \<lparr>o_getopt = '':'', o_longopt = Some ''ram-role'',
        o_help = ''--ram-role=[name]              Ram Role'',
        o_required = Some ''0'', o_shortdesc = Some ''Ram Role.'',
        o_type = None, o_default = None, o_choices = None, o_order = 5\<rparr>),
     (''credentials_file'', \<lparr>o_getopt = '':'', o_longopt = Some ''credentials-file'',
        o_help = ''--credentials-file=[path]            Path to aliyun-cli credentials file'',
        o_required = Some ''0'', o_shortdesc = Some ''Path to credentials file'',
        o_type = None, o_default = None, o_choices = None, o_order = 6\<rparr>),
     (''credentials_file_profile'', \<lparr>o_getopt = '':'', o_longopt = Some ''credentials-file-profile'',
        o_help = ''--credentials-file-profile=[profile] Credentials file profile'',
        o_required = Some ''0'', o_shortdesc = Some ''Credentials file profile'',
        o_type = None, o_default = Some (PStr ''default''), o_choices = None, o_order = 7\<rparr>),
     (''filter'', \<lparr>o_getopt = '':'', o_longopt = Some ''filter'',
        o_help = ''--filter=[key=value]           Filter (e.g. InstanceIds=[\"i-XXYYZZAA1\",\"i-XXYYZZAA2\"]'',
        o_required = Some ''0'', o_shortdesc = Some ''Filter for list-action.'',
        o_type = None, o_default = None, o_choices = None, o_order = 8\<rparr>)]"

definition device_opt_aliyun :: "string list" where
  "device_opt_aliyun = [''port'', ''no_password'', ''region'', ''access_key'', ''secret_key'', ''ram_role'', ''credentials_file'', ''credentials_file_profile'', ''filter'']"

definition docs_aliyun :: docs where
  "docs_aliyun = \<lparr>agent_name = None, shortdesc = ''Fence agent for Aliyun (Aliyun Web Services)'',
     longdesc = ''fence_aliyun is a Power Fencing agent for Aliyun.'',
     vendorurl = Some ''http://www.aliyun.com'', symlink = []\<rparr>"

definition credentials_of_file :: "(string \<Rightarrow> string \<Rightarrow> (json \<times> json) outcome) \<Rightarrow> ('w, json \<times> json) prog" where
  "credentials_of_file ini =
     bindM (tryM
       (bindM (stroptM ''--credentials-file'') (\<lambda>file.
        bindM (stroptM ''--credentials-file-profile'') (\<lambda>profile. liftM (ini file profile))))
       (\<lambda>e. Some (seqM (fail_usage (''Failed: failed to read credentials file: '' @ exn_text e) True) (unbound ''conn'')))) retM"

definition connect_aliyun :: "(string \<Rightarrow> string \<Rightarrow> (json \<times> json) outcome) \<Rightarrow> 'd aliyun \<Rightarrow> ('d, bool) prog" where
  "connect_aliyun ini A =
     bindM (getM opts) (\<lambda>od.
     let has = (\<lambda>k. od k \<noteq> None) in
     if \<not> has ''--region'' then retM False
     else
       bindM (json_opt ''--region'') (\<lambda>region.
       seqM
        (if has ''--access-key'' \<and> has ''--secret-key'' then
           bindM (json_opt ''--access-key'') (\<lambda>a. bindM (json_opt ''--secret-key'') (\<lambda>k.
             seqM (queryM (A ''AcsClient'' [(''ak'', a), (''secret'', k), (''region_id'', region)])) (retM ())))
         else if has ''--ram-role'' then
           bindM (json_opt ''--ram-role'') (\<lambda>role.
             seqM (queryM (A ''AcsClient'' [(''region_id'', region), (''EcsRamRoleCredential'', role)])) (retM ()))
         else if has ''--credentials-file'' \<and> has ''--credentials-file-profile'' then
           tryM (bindM (credentials_of_file ini) (\<lambda>(a, k).
               seqM (queryM (A ''AcsClient'' [(''ak'', a), (''secret'', k), (''region_id'', region)])) (retM ())))
             (\<lambda>e. Some (fail_usage (''Failed: failed to read credentials file: '' @ exn_text e) True))
         else fail_usage ''Failed: User credentials are not set. Please set the Access Key and the Secret Key, or configure the RAM role.'' True)
       (seqM (tryM (seqM (queryM (A ''modify_point'' [(''product'', JStr ''Ecs''), (''region_id'', region),
               (''endpoint'', JStr (''ecs.'' @ json_str region @ ''.aliyuncs.com''))])) (retM ())) (\<lambda>_. Some (retM ())))
          (retM True))))"

definition main_aliyun where
  "main_aliyun ini A set_order time_start fuel =
     seqM (on_lib (add_opts new_opts_aliyun))
    (seqM (on_lib (set_default ''power_timeout'' (PStr ''60'')))
    (seqM (on_lib (read_options device_opt_aliyun False))
    (seqM (on_lib (show_docs set_order (Some docs_aliyun)))
    (seqM (run_delay time_start 0 0)
    (bindM (on_dev (connect_aliyun ini A)) (\<lambda>online.
       exit_with (on_dev (fence_action fuel (fns_aliyun A online)))))))))"

section \<open>KubeVirt\<close>

definition api_status :: "exn \<Rightarrow> int option" where
  \<comment> \<open>the attribute \<open>status\<close> of an \<open>ApiException\<close>, whose text starts with it in brackets\<close>
  "api_status e = (case e of
      ClassError c t \<Rightarrow> if c = ''ApiException'' \<and> py_startswith ''('' t then py_int_str (takeWhile (\<lambda>x. x \<noteq> CHR '')'') (drop 1 t)) else None
    | _ \<Rightarrow> None)"

definition get_namespace :: "'d client \<Rightarrow> ('d, json) prog" where
  "get_namespace C =
     bindM (optional_json ''--namespace'') (\<lambda>ns.
     if ns \<noteq> JNull then retM ns
     else bindM (clientM C ''list_kube_config_contexts'' []) (\<lambda>contexts.
       bindM (liftM (json_index 1 contexts)) (pathM [''context'', ''namespace''])))"

definition kube_get :: "'d client \<Rightarrow> string \<Rightarrow> (string \<times> json) list \<Rightarrow> ('d, json) prog" where
  \<comment> \<open>\<open>conn.resources.get(\<dots>).get(\<dots>)\<close>\<close>
  "kube_get C kind args =
     bindM (optional_json ''--apiversion'') (\<lambda>apiversion.
     bindM (clientM C ''resources.get'' [(''api_version'', apiversion), (''kind'', JStr kind)]) (\<lambda>api.
       clientM C ''get'' ((''resource'', api) # args)))"

definition get_nodes_list_kubevirt :: "'d client \<Rightarrow> ('d, outlet list) prog" where
  "get_nodes_list_kubevirt C =
     bindM (tryM
       (bindM (get_namespace C) (\<lambda>ns.
        bindM (kube_get C ''VirtualMachine'' [(''namespace'', ns)]) (\<lambda>vm_list.
        bindM (attrM ''items'' vm_list) (\<lambda>items.
        bindM (liftM (json_iter items)) (fill_until (\<lambda>result vm.
          bindM (attrM ''metadata'' vm) (\<lambda>meta.
          bindM (attrM ''name'' meta) (\<lambda>name.
          bindM (liftM (outlet_key name)) (\<lambda>k. retM (AList.update k ([], None) result))))) [])))))
       (\<lambda>e. Some (retM ([], Some e)))) (\<lambda>(result, failure).
     seqM (case failure of None \<Rightarrow> retM () | Some e \<Rightarrow> logM (''Exception when calling VirtualMachine list: '' @ exn_text e)) (retM result))"

definition translate_status_kubevirt :: "json \<Rightarrow> string" where
  "translate_status_kubevirt v = (if v = JStr ''Running'' then ''on'' else ''unknown'')"

definition without_instance :: "'d client \<Rightarrow> json \<Rightarrow> json \<Rightarrow> ('d, string option) prog" where
  \<comment> \<open>there is no instance: the machine is off, if it exists. Exceptions of other classes pass\<close>
  "without_instance C name ns =
     seqM (tryM (seqM (kube_get C ''VirtualMachine'' [(''name'', name), (''namespace'', ns)]) (retM ()))
        (\<lambda>e. if class_name e = ''ApiException'' then
           Some (seqM (logM (''VM '' @ json_str name @ '' doesn'' @ [CHR 0x27] @ ''t exist'')) (fail EC_FETCH_VM_UUID True)) else None))
       (retM (Some ''off''))"

definition get_power_status_kubevirt :: "'d client \<Rightarrow> ('d, string option) prog" where
  "get_power_status_kubevirt C =
     bindM (optional_json ''--plug'') (\<lambda>name.
     bindM (tryM (bindM (get_namespace C) (\<lambda>ns. retM (Inl ns))) (\<lambda>e. Some (retM (Inr e)))) (\<lambda>space.
     tryM (case space of
         Inr e \<Rightarrow> raiseM e
       | Inl ns \<Rightarrow>
           bindM (kube_get C ''VirtualMachineInstance'' [(''name'', name), (''namespace'', ns)]) (\<lambda>vmi.
           bindM (attrM ''status'' vmi) (\<lambda>status.
           bindM (attrM ''phase'' status) (\<lambda>phase. retM (Some (translate_status_kubevirt phase))))))
       (\<lambda>e. Some
         (if class_name e = ''ApiException'' then
            if api_status e = Some 404 then (case space of Inl ns \<Rightarrow> without_instance C name ns | Inr _ \<Rightarrow> unbound ''namespace'')
            else seqM (logM (''Failed to get power status, with API Exception: '' @ exn_text e)) (seqM (fail EC_STATUS True) (unbound []))
          else seqM (logM (''Failed to get power status, with Exception: '' @ exn_text e)) (seqM (fail EC_STATUS True) (unbound []))))))"

definition virtctl_vm_action :: "'d client \<Rightarrow> string \<Rightarrow> json \<Rightarrow> json \<Rightarrow> json \<Rightarrow> ('d, unit) prog" where
  "virtctl_vm_action C action ns name apiversion =
     seqM (clientM C ''request'' [(''method'', JStr ''put''),
         (''path'', JStr (''/apis/subresources.'' @ json_str apiversion @ ''/namespaces/'' @ json_str ns @ ''/virtualmachines/'' @ json_str name @ ''/'' @ action)),
         (''header_params'', JObj [(''accept'', JStr ''*/*'')]),
         (''body'', if action = ''stop'' then JObj [(''gracePeriod'', JInt 0)] else JNull)]) (retM ())"

definition set_power_status_kubevirt :: "'d client \<Rightarrow> ('d, unit) prog" where
  "set_power_status_kubevirt C = tryM
     (bindM (optional_json ''--apiversion'') (\<lambda>apiversion.
      bindM (get_namespace C) (\<lambda>ns.
      bindM (optional_json ''--plug'') (\<lambda>name.
      bindM (optM ''--action'') (\<lambda>action.
        virtctl_vm_action C (if action = PStr ''on'' then ''start'' else ''stop'') ns name apiversion)))))
     (\<lambda>e. Some (seqM (logM (''Failed to set power status, with Exception: '' @ exn_text e)) (fail EC_STATUS True)))"

definition fns_kubevirt :: "'d client \<Rightarrow> 'd power_fns" where
  "fns_kubevirt C = \<lparr>set_power_fn = Some (set_power_status_kubevirt C), get_power_fn = Some (get_power_status_kubevirt C),
     get_outlet_list = Some (get_nodes_list_kubevirt C), reboot_cycle_fn = None, sync_set_power_fn = None\<rparr>"

definition new_opts_kubevirt :: "(string \<times> optdef) list" where
  "new_opts_kubevirt =
    [(''namespace'', \<lparr>o_getopt = '':'', o_longopt = Some ''namespace'',
        o_help = ''--namespace=[namespace]        Namespace of the KubeVirt machine'',
        o_required = Some ''0'', o_shortdesc = Some ''Namespace of the KubeVirt machine.'',
        o_type = None, o_default = None, o_choices = None, o_order = 2\<rparr>),
     (''kubeconfig'', \<lparr>o_getopt = '':'', o_longopt = Some ''kubeconfig'',
        o_help = ''--kubeconfig=[kubeconfig]      Kubeconfig file path'',
        o_required = Some ''0'', o_shortdesc = Some ''Kubeconfig file path'',
        o_type = None, o_default = None, o_choices = None, o_order = 4\<rparr>),
     (''apiversion'', \<lparr>o_getopt = '':'', o_longopt = Some ''apiversion'',
        o_help = ''--apiversion=[apiversion]      Version of the KubeVirt API'',
        o_required = Some ''0'', o_shortdesc = Some ''Version of the KubeVirt API.'',
        o_type = None, o_default = Some (PStr ''kubevirt.io/v1''), o_choices = None, o_order = 5\<rparr>)]"

definition device_opt_kubevirt :: "string list" where
  "device_opt_kubevirt = [''port'', ''namespace'', ''kubeconfig'', ''ssl_insecure'', ''no_password'', ''apiversion'']"

definition docs_kubevirt :: docs where
  "docs_kubevirt = \<lparr>agent_name = None, shortdesc = ''Fence agent for KubeVirt'',
     longdesc = ''fence_kubevirt is a Power Fencing agent for KubeVirt.'',
     vendorurl = Some ''https://kubevirt.io/'', symlink = []\<rparr>"

definition main_kubevirt where
  "main_kubevirt C set_order time_start fuel =
     seqM (on_lib (add_opts new_opts_kubevirt))
    (seqM (on_lib (set_default ''power_timeout'' (PStr ''40'')))
    (seqM (on_lib (read_options device_opt_kubevirt False))
    (seqM (on_lib (show_docs set_order (Some docs_kubevirt)))
    (seqM (run_delay time_start 0 0)
    (seqM (bindM (optional_json ''--kubeconfig'') (\<lambda>kubeconfig. on_dev (clientM C ''DynamicClient'' [(''config_file'', kubeconfig)])))
          (exit_with (on_dev (fence_action fuel (fns_kubevirt C)))))))))"

end
