(* ===== verification/Fence_Openstack.thy ===== *)
theory Fence_Openstack
  imports Client_Lib
begin

text \<open>
  \<open>agents/openstack/fence_openstack.py\<close> (the compute service Nova of OpenStack). The clients of Nova
  and Keystone are a parameter, as are the two modules of which one must be installed, the files with
  their text, the home directory, the reader of YAML, and the shell that sources a file and prints its
  environment.
\<close>

section \<open>The surroundings\<close>

record openstack_env =
  file_text :: "string \<Rightarrow> string option"
  yaml_load :: "string \<Rightarrow> json outcome"
  home_dir :: string
  shell_env :: "string \<Rightarrow> string outcome"     \<comment> \<open>the output of \<open>. file && env -0\<close>\<close>
  keystoneauth1 :: bool
  keystoneclient :: bool

definition expanduser :: "openstack_env \<Rightarrow> string \<Rightarrow> string" where
  "expanduser E path = (if path = ''~'' then home_dir E
     else if py_startswith ''~/'' path then home_dir E @ drop 1 path else path)"

definition source_env :: "openstack_env \<Rightarrow> string \<Rightarrow> (string \<times> string) list outcome" where
  \<comment> \<open>the environment of the process is replaced by the one that is printed\<close>
  "source_env E file = bindO (shell_env E file) (\<lambda>out.
     Ret (fold (\<lambda>line. AList.update (takeWhile (\<lambda>c. c \<noteq> CHR ''='') line) (drop 1 (dropWhile (\<lambda>c. c \<noteq> CHR ''='') line)))
       (filter (\<lambda>line. py_strip line \<noteq> []) (py_split [CHR 0x00] out)) []))"

section \<open>Callbacks\<close>

definition translate_status_openstack :: "json \<Rightarrow> string" where
  "translate_status_openstack v = (if v = JStr ''ACTIVE'' then ''on'' else if v = JStr ''SHUTOFF'' then ''off'' else ''unknown'')"

definition nova_entry :: "outlet list \<Rightarrow> json \<Rightarrow> ('w, outlet list) prog" where
  "nova_entry result item =
     bindM (attrM ''id'' item) (\<lambda>ident.
     bindM (attrM ''name'' item) (\<lambda>name.
     bindM (attrM ''status'' item) (\<lambda>status.
     bindM (liftM (outlet_key ident)) (\<lambda>k.
       retM (AList.update k (json_str name, Some (translate_status_openstack status)) result)))))"

definition get_nodes_list_openstack :: "'d client \<Rightarrow> ('d, outlet list) prog" where
  "get_nodes_list_openstack C =
     bindM (is_original ''monitor'') (\<lambda>monitoring.
     bindM (hasoptM ''--plug'') (\<lambda>named.
     bindM (if named then bindM (json_opt ''--plug'') (\<lambda>plug. retM [(''uuid'', plug)]) else retM []) (\<lambda>search_opts.
     bindM (tryM
       (bindM (clientM C ''servers.list'' [(''detailed'', JBool True), (''search_opts'', JObj search_opts),
             (''limit'', if monitoring then JInt 1 else JNull)]) (\<lambda>response.
        if response = JNull then retM ([], None)
        else bindM (liftM (json_iter response)) (fill_until nova_entry [])))
       (\<lambda>e. Some (retM ([], Some e)))) (\<lambda>(result, failure).
     seqM (case failure of None \<Rightarrow> retM () | Some e \<Rightarrow> logM (''Failed to retrieve node list: '' @ exn_text e)) (retM result)))))"

definition get_server_nova :: "'d client \<Rightarrow> ('d, json) prog" where
  \<comment> \<open>the second message is not formatted: its argument is taken for the flag that ends the process\<close>
  "get_server_nova C =
     bindM (json_opt ''--plug'') (\<lambda>plug.
     bindM (tryM (clientM C ''servers.get'' [(''server'', plug)])
       (\<lambda>e. if class_name e = ''NotFound'' then Some (seqM (fail_usage (''Failed: Not Found: '' @ exn_text e) True) (retM JNull)) else None)) (\<lambda>server.
     seqM (if server = JNull then fail_usage ''Server %s not found'' (json_true plug) else retM ()) (retM server)))"

definition get_power_status_openstack :: "'d client \<Rightarrow> ('d, string option) prog" where
  "get_power_status_openstack C =
     bindM (optM ''--action'') (\<lambda>_.
     bindM (get_server_nova C) (\<lambda>server.
     bindM (attrM ''status'' server) (\<lambda>state. retM (Some (translate_status_openstack state)))))"

definition on_server :: "'d client \<Rightarrow> json \<Rightarrow> string \<Rightarrow> (string \<times> json) list \<Rightarrow> ('d, unit) prog" where
  \<comment> \<open>a conflict is given to \<open>fail_usage\<close> as it is, which asks for its length\<close>
  "on_server C server f args =
     bindM (attrM ''name'' server) (\<lambda>name.
     seqM (liftM (json_text name))
    (seqM (tryM (seqM (clientM C f ((''server'', server) # args)) (retM ()))
        (\<lambda>e. if class_name e = ''Conflict'' then
           Some (raiseM (TypeError (''object of type '' @ [CHR 0x27] @ ''Conflict'' @ [CHR 0x27] @ '' has no len()''))) else None))
    (bindM (attrM ''id'' server) (\<lambda>ident. seqM (liftM (json_text ident)) (retM ())))))"

definition set_power_status_openstack :: "'d client \<Rightarrow> ('d, unit) prog" where
  "set_power_status_openstack C =
     bindM (optM ''--action'') (\<lambda>action.
     bindM (get_server_nova C) (\<lambda>server.
       if action = PStr ''on'' then on_server C server ''start'' []
       else if action = PStr ''off'' then on_server C server ''stop'' []
       else if action = PStr ''reboot'' then on_server C server ''reboot'' [(''reboot_type'', JStr ''HARD'')]
       else retM ()))"

definition fns_openstack :: "'d client \<Rightarrow> 'd power_fns" where
  "fns_openstack C = \<lparr>set_power_fn = Some (set_power_status_openstack C), get_power_fn = Some (get_power_status_openstack C),
     get_outlet_list = Some (get_nodes_list_openstack C), reboot_cycle_fn = None, sync_set_power_fn = None\<rparr>"

section \<open>Logging in\<close>

record credentials =
  username :: json
  password :: json
  projectname :: json
  auth_url :: json
  user_domain_name :: json
  project_domain_name :: json

definition password_options :: "credentials \<Rightarrow> (string \<times> json) list" where
  "password_options c = [(''auth_url'', auth_url c), (''username'', username c), (''password'', password c),
     (''project_name'', projectname c), (''user_domain_name'', user_domain_name c), (''project_domain_name'', project_domain_name c)]"

definition auth_nova :: "openstack_env \<Rightarrow> 'd client \<Rightarrow> credentials \<Rightarrow> json \<Rightarrow> json \<Rightarrow> json \<Rightarrow> ('d, json) prog" where
  \<comment> \<open>with the file of authorities, the plugin and the options for it, if there are any\<close>
  "auth_nova E C c cacert plugin auth_options =
     (if keystoneauth1 E then
        bindM (clientM C ''get_plugin_loader'' [(''name'', plugin)]) (\<lambda>loader.
          if auth_options = JNull then clientM C ''load_from_options'' ((''loader'', loader) # password_options c)
          else (case auth_options of
              JObj kvs \<Rightarrow> clientM C ''load_from_options'' ((''loader'', loader) # kvs)
            | _ \<Rightarrow> raiseM (TypeError ''argument after ** must be a mapping'')))
      else
        seqM (if keystoneclient E then retM () else fail_usage ''Failed: Keystone client not found or not accessible'' True)
       (seqM (if plugin \<noteq> JStr ''password'' then fail_usage ''Failed: Keystone auth plugins require keystoneauth1'' True else retM ())
             (clientM C ''v3.Password'' (password_options c @ [(''cacert'', cacert)]))))"

definition version_error :: "openstack_env \<Rightarrow> exn \<Rightarrow> ('w, unit) prog" where
  \<comment> \<open>the classes that are named are not imported along with the older client\<close>
  "version_error E e =
     (if \<not> keystoneauth1 E then unbound ''DiscoveryFailure''
      else if class_name e = ''DiscoveryFailure'' then fail_usage (''Failed: Discovery Failure: '' @ exn_text e) True
      else if class_name e = ''Unauthorized'' then fail_usage (''Failed: Unauthorized: '' @ exn_text e) True
      else logM (exn_text e))"

definition caverify :: "bool \<Rightarrow> json \<Rightarrow> json" where
  "caverify ssl_insecure cacert = (if ssl_insecure then JBool False else if json_true cacert then cacert else JBool True)"

definition nova_login :: "openstack_env \<Rightarrow> 'd client \<Rightarrow> credentials \<Rightarrow> bool \<Rightarrow> json \<Rightarrow> json \<Rightarrow> json \<Rightarrow> json \<Rightarrow> ('d, unit) prog" where
  "nova_login E C c ssl_insecure cacert apitimeout plugin auth_options =
     bindM (auth_nova E C c cacert plugin auth_options) (\<lambda>auth.
     bindM (clientM C ''Session'' [(''auth'', auth), (''verify'', caverify ssl_insecure cacert), (''timeout'', apitimeout)]) (\<lambda>session.
     seqM (clientM C ''Client'' [(''version'', JStr ''2''), (''session'', session), (''timeout'', apitimeout)])
          (tryM (seqM (clientM C ''versions.get_current'' []) (retM ())) (\<lambda>e. Some (version_error E e)))))"

definition get_cloud :: "openstack_env \<Rightarrow> ('w, json) prog" where
  "get_cloud E =
     (let own = expanduser E ''~/.config/openstack/clouds.yaml''; system = ''/etc/openstack/clouds.yaml'';
          file = (if file_text E own \<noteq> None then own else system) in
      bindM (case file_text E file of
          None \<Rightarrow> seqM (fail_usage ''Failed: ~/.config/openstack/clouds.yaml and /etc/openstack/clouds.yaml does not exist'' True) (unbound ''clouds'')
        | Some t \<Rightarrow> tryM (liftM (yaml_load E t)) (\<lambda>e. if class_name e = ''YAMLError''
            then Some (seqM (fail_usage (''Failed: Unable to read: '' @ file) True) (unbound ''clouds'')) else None)) (\<lambda>clouds.
      bindM (stroptM ''--cloud'') (\<lambda>name.
      bindM (liftM (bindO (json_get ''clouds'' clouds) (json_get name))) (\<lambda>cloud.
      seqM (if json_true cloud then retM () else fail_usage (''Cloud: '' @ name @ '' not found.'') True) (retM cloud)))))"

section \<open>The main function\<close>

definition new_opts_openstack :: "(string \<times> optdef) list" where
  "new_opts_openstack =
    [(''auth-url'', \<lparr>o_getopt = '':'', o_longopt = Some ''auth-url'',
        o_help = ''--auth-url=[authurl]           Keystone Auth URL'',
        o_required = Some ''0'', o_shortdesc = Some ''Keystone Auth URL'',
        o_type = None, o_default = None, o_choices = None, o_order = 2\<rparr>),
     (''project-name'', \<lparr>o_getopt = '':'', o_longopt = Some ''project-name'',
        o_help = ''--project-name=[project]       Tenant Or Project Name'',
        o_required = Some ''0'', o_shortdesc = Some ''Keystone Project'',
        o_type = None, o_default = Some (PStr ''admin''), o_choices = None, o_order = 3\<rparr>),
     (''user-domain-name'', \<lparr>o_getopt = '':'', o_longopt = Some ''user-domain-name'',
        o_help = ''--user-domain-name=[domain]    Keystone User Domain Name'',
        o_required = Some ''0'', o_shortdesc = Some ''Keystone User Domain Name'',
        o_type = None, o_default = Some (PStr ''Default''), o_choices = None, o_order = 4\<rparr>),
     (''project-domain-name'', \<lparr>o_getopt = '':'', o_longopt = Some ''project-domain-name'',
        o_help = ''--project-domain-name=[domain] Keystone Project Domain Name'',
        o_required = Some ''0'', o_shortdesc = Some ''Keystone Project Domain Name'',
        o_type = None, o_default = Some (PStr ''Default''), o_choices = None, o_order = 5\<rparr>),
     (''cloud'', \<lparr>o_getopt = '':'', o_longopt = Some ''cloud'',
        o_help = ''--cloud=[cloud]              Openstack cloud (from ~/.config/openstack/clouds.yaml or /etc/openstack/clouds.yaml).'',
        o_required = Some ''0'', o_shortdesc = Some ''Cloud from clouds.yaml'',
        o_type = None, o_default = None, o_choices = None, o_order = 6\<rparr>),
     (''openrc'', \<lparr>o_getopt = '':'', o_longopt = Some ''openrc'',
        o_help = ''--openrc=[openrc]              Path to the openrc config file'',
        o_required = Some ''0'', o_shortdesc = Some ''openrc config file'',
        o_type = None, o_default = None, o_choices = None, o_order = 7\<rparr>),
     (''uuid'', \<lparr>o_getopt = '':'', o_longopt = Some ''uuid'',
        o_help = ''--uuid=[uuid]                  Replaced by -n, --plug'',
        o_required = Some ''0'', o_shortdesc = Some ''Replaced by port/-n/--plug'',
        o_type = None, o_default = None, o_choices = None, o_order = 8\<rparr>),
     (''cacert'', \<lparr>o_getopt = '':'', o_longopt = Some ''cacert'',
        o_help = ''--cacert=[cacert]              Path to the PEM file with trusted authority certificates (override global CA trust)'',
        o_required = Some ''0'', o_shortdesc = Some ''SSL X.509 certificates file'',
        o_type = None, o_default = Some (PStr []), o_choices = None, o_order = 9\<rparr>),
     (''apitimeout'', \<lparr>o_getopt = '':'', o_longopt = Some ''apitimeout'',
        o_help = ''--apitimeout=[seconds]         Timeout to use for API calls'',
        o_required = Some ''0'', o_shortdesc = Some ''Timeout in seconds to use for API calls, default is 60.'',
        o_type = Some ''second'', o_default = Some (PInt 60), o_choices = None, o_order = 10\<rparr>),
     (''auth-plugin'', \<lparr>o_getopt = '':'', o_longopt = Some ''auth-plugin'',
        o_help = ''--auth-plugin=[plugin]         Keystone auth plugin'',
        o_required = Some ''0'', o_shortdesc = Some ''Keystone auth plugin'',
        o_type = None, o_default = Some (PStr ''password''), o_choices = None, o_order = 11\<rparr>)]"

definition device_opt_openstack :: "string list" where
  "device_opt_openstack = [''login'', ''no_login'', ''passwd'', ''no_password'', ''auth-url'', ''project-name'', ''user-domain-name'', ''project-domain-name'', ''auth-plugin'', ''cloud'', ''openrc'', ''port'', ''no_port'', ''uuid'', ''ssl_insecure'', ''cacert'', ''apitimeout'']"

definition docs_openstack :: docs where
  "docs_openstack = \<lparr>agent_name = None, shortdesc = ''Fence agent for OpenStack'' @ [CHR 0x27] @ ''s Nova service'',
     longdesc = ''fence_openstack is a Power Fencing agent which can be used with machines controlled by the Openstack'' @ [CHR 0x27] @ ''s Nova service. This agent calls the python-novaclient and it is mandatory to be installed '',
     vendorurl = Some ''https://wiki.openstack.org/wiki/Nova'', symlink = []\<rparr>"

definition no_endpoint :: "('w, unit) prog" where
  "no_endpoint = fail_usage ''Failed: You have to set the Keystone service endpoint for authorization'' True"

definition is_flag :: "json \<Rightarrow> bool" where
  \<comment> \<open>\<open>v in [True, False]\<close>\<close>
  "is_flag v \<longleftrightarrow> v \<in> {JBool True, JBool False, JInt 1, JInt 0}"

definition from_cloud :: "openstack_env \<Rightarrow> ('w, credentials \<times> json) prog" where
  \<comment> \<open>with the options for the plugin. The entry \<open>verify\<close> of the file becomes the option that turns
    verification off, whatever its value\<close>
  "from_cloud E =
     bindM (get_cloud E) (\<lambda>cloud.
     bindM (optM ''--auth-plugin'') (\<lambda>plugin0.
     bindM (if plugin0 = PStr ''password'' then liftM (json_get ''auth_type'' cloud) else retM JNull) (\<lambda>auth_type.
     seqM (if json_true auth_type then setoptM ''--auth-plugin'' (option_value auth_type) else retM ())
    (bindM (optM ''--auth-plugin'') (\<lambda>plugin.
     bindM (liftM (json_get ''auth'' cloud)) (\<lambda>auth.
     bindM (liftM (json_get ''username'' auth)) (\<lambda>user.
     bindM (liftM (json_get ''password'' auth)) (\<lambda>pass.
     bindM (liftM (json_get ''project_name'' auth)) (\<lambda>project.
     bindM (liftM (json_get ''auth_url'' auth)) (\<lambda>url.
     bindM (liftM (json_get ''user_domain_name'' auth)) (\<lambda>user_domain.
     bindM (liftM (json_get ''project_domain_name'' auth)) (\<lambda>project_domain.
     bindM (liftM (json_get ''verify'' cloud)) (\<lambda>verify.
     seqM (if is_flag verify then setoptM ''--ssl-insecure'' (PInt (if json_true verify then 1 else 0))
           else setoptM ''--cacert'' (option_value verify))
          (retM (\<lparr>username = user, password = pass, projectname = project, auth_url = url,
             user_domain_name = user_domain, project_domain_name = project_domain\<rparr>,
             if plugin \<noteq> PStr ''password'' then auth else JNull)))))))))))))))"

definition from_openrc :: "openstack_env \<Rightarrow> ('w, credentials) prog" where
  "from_openrc E =
     bindM (stroptM ''--openrc'') (\<lambda>file.
     seqM (if file_text E (expanduser E file) = None then fail_usage (''Failed: '' @ file @ '' does not exist'') True else retM ())
    (bindM (liftM (source_env E file)) (\<lambda>env.
     let get = (\<lambda>k. case map_of env k of Some t \<Rightarrow> JStr t | None \<Rightarrow> JNull) in
     seqM (if map_of env ''OS_AUTH_URL'' = None then no_endpoint else retM ())
          (retM \<lparr>username = get ''OS_USERNAME'', password = get ''OS_PASSWORD'', projectname = get ''OS_PROJECT_NAME'',
             auth_url = get ''OS_AUTH_URL'', user_domain_name = get ''OS_USER_DOMAIN_NAME'', project_domain_name = get ''OS_PROJECT_DOMAIN_NAME''\<rparr>))))"

definition from_options :: "('w, credentials) prog" where
  "from_options =
     bindM (json_opt ''--username'') (\<lambda>user.
     bindM (json_opt ''--password'') (\<lambda>pass.
     bindM (json_opt ''--project-name'') (\<lambda>project.
     bindM (hasoptM ''--auth-url'') (\<lambda>given.
     seqM (if given then retM () else no_endpoint)
    (bindM (json_opt ''--auth-url'') (\<lambda>url.
     bindM (json_opt ''--user-domain-name'') (\<lambda>user_domain.
     bindM (json_opt ''--project-domain-name'') (\<lambda>project_domain.
       retM \<lparr>username = user, password = pass, projectname = project, auth_url = url,
         user_domain_name = user_domain, project_domain_name = project_domain\<rparr>))))))))"

definition connect_openstack :: "openstack_env \<Rightarrow> 'd client \<Rightarrow> ('d, unit) prog" where
  "connect_openstack E C =
     bindM (nonempty_opt ''--cloud'') (\<lambda>cloud.
     bindM (nonempty_opt ''--openrc'') (\<lambda>openrc.
     bindM (if cloud then from_cloud E
            else if openrc then bindM (from_openrc E) (\<lambda>c. retM (c, JNull))
            else bindM from_options (\<lambda>c. retM (c, JNull))) (\<lambda>(c, auth_options).
     bindM (hasoptM ''--ssl-insecure'') (\<lambda>ssl_insecure.
     bindM (json_opt ''--cacert'') (\<lambda>cacert.
     bindM (json_opt ''--apitimeout'') (\<lambda>apitimeout.
       tryM (bindM (json_opt ''--auth-plugin'') (\<lambda>plugin. nova_login E C c ssl_insecure cacert apitimeout plugin auth_options))
         (\<lambda>e. Some (fail_usage (''Failed: Unable to connect to Nova: '' @ exn_text e) True))))))))"

definition plug_or_uuid :: "('w, unit) prog" where
  "plug_or_uuid =
     bindM (getM opts) (\<lambda>od.
     if od ''--uuid'' \<noteq> None then
       bindM (optM ''--uuid'') (\<lambda>v. seqM (setoptM ''--plug'' v) (deloptM ''--uuid''))
     else if od ''--help'' = None then
       bindM (optM ''--action'') (\<lambda>action.
         if action \<in> PStr ` {''off'', ''on'', ''reboot'', ''status'', ''validate-all''} \<and> od ''--plug'' = None then
           fail_usage ''Failed: You have to enter plug number or machine identification'' (action \<noteq> PStr ''validate-all'')
         else retM ())
     else retM ())"

definition main_openstack where
  "main_openstack E C set_order time_start fuel =
     seqM (on_lib (add_opts new_opts_openstack))
    (seqM (on_lib (settabM ''port'' (\<lambda>d. d\<lparr>o_required := Some ''0''\<rparr>)))
    (seqM (on_lib (set_help ''port'' ''-n, --plug=[UUID]              UUID of the node to be fenced''))
    (seqM (on_lib (set_shortdesc ''port'' ''UUID of the node to be fenced.''))
    (seqM (on_lib (set_default ''power_timeout'' (PStr ''60'')))
    (seqM (on_lib (read_options device_opt_openstack False))
    (seqM plug_or_uuid
    (seqM (on_lib (show_docs set_order (Some docs_openstack)))
    (seqM (run_delay time_start 0 0)
    (seqM (on_dev (connect_openstack E C))
          (exit_with (on_dev (fence_action fuel (fns_openstack C)))))))))))))"

end
