(* ===== verification/Web_Props.thy ===== *)
theory Web_Props
  imports Session_Props Rest_Agents Requests_Agents Cloud_Agents Fence_Openstack
begin

text \<open>
  What the agents of web services have in common. First the contract of the library without a truthful
  device: an off that returns has ended with an answer of the agent's own reader, for each plug, that
  is off; nothing is assumed of the service. Then the calls that an agent makes: a service that keeps
  a record of what it is asked, and programs that only ask for what is in a list.
\<close>

section \<open>What an off has read\<close>

fun reads_off :: "('w, string option) prog \<Rightarrow> string list \<Rightarrow> 'w st \<Rightarrow> 'w st \<Rightarrow> bool" where
  \<comment> \<open>the plugs are read one after the other, and each answer is off\<close>
  "reads_off get_power [] s s' \<longleftrightarrow> s' = s"
| "reads_off get_power (p # ps) s s' \<longleftrightarrow>
     (\<exists>s1. get_power (s\<lparr>opts := plug_opts p (opts s)\<rparr>) = (Ret (Some ''off''), s1) \<and> reads_off get_power ps s1 s')"

lemma read_plugs_off:
  "read_plugs get_power st ps s = (Ret (Some ''off''), s') \<Longrightarrow> st = Some ''off'' \<and> reads_off get_power ps s s'"
proof (induction ps arbitrary: st s)
  case Nil
  then show ?case by (simp add: read_plugs_simps ret_iff)
next
  case (Cons p ps)
  then obtain x s1 where x: "get_power (s\<lparr>opts := plug_opts p (opts s)\<rparr>) = (Ret x, s1)"
    and rest: "read_plugs get_power (if x \<noteq> Some ''off'' then x else st) ps s1 = (Ret (Some ''off''), s')"
    by (auto simp: read_plugs_Cons_Ret)
  from Cons.IH [OF rest] x show ?case by (auto split: if_splits)
qed

lemma get_multi_off:
  "get_multi_power_fn get_power s = (Ret (Some ''off''), s') \<Longrightarrow> plugs_of (opts s) = Some ps \<Longrightarrow> reads_off get_power ps s s'"
  using read_plugs_off by (force simp: get_multi_read_plugs ret_iff plugsM_def split: option.splits)

definition off_was_read :: "('w, string option) prog \<Rightarrow> string list \<Rightarrow> 'w st \<Rightarrow> bool" where
  \<comment> \<open>it was the last thing before the final message\<close>
  "off_was_read get_power ps s' \<longleftrightarrow> (\<exists>s0 s1 t. reads_off get_power ps s0 s1 \<and> opts s0 ''--action'' = Some (PStr ''off'') \<and> s' = s1\<lparr>outp := t\<rparr>)"

lemma off_was_readI:
  "reads_off get_power ps s0 s1 \<Longrightarrow> opts s0 ''--action'' = Some (PStr ''off'') \<Longrightarrow> off_was_read get_power ps (s1\<lparr>outp := t\<rparr>)"
  by (auto simp: off_was_read_def)

lemma off_was_read_here:
  "reads_off get_power ps s0 s1 \<Longrightarrow> opts s0 ''--action'' = Some (PStr ''off'') \<Longrightarrow> off_was_read get_power ps s1"
  using off_was_readI [of get_power ps s0 s1 "outp s1"] by simp

lemma off_was_readE:
  assumes "off_was_read get_power ps s'"
  obtains s0 s1 t where "reads_off get_power ps s0 s1" "opts s0 ''--action'' = Some (PStr ''off'')" "s' = s1\<lparr>outp := t\<rparr>"
  using assms by (auto simp: off_was_read_def)

lemma off_was_read_outp: "off_was_read get_power ps s \<Longrightarrow> off_was_read get_power ps (s\<lparr>outp := t\<rparr>)"
  by (elim off_was_readE) (simp add: off_was_readI)

locale asked_device = status_callback get_power + setter: setter_callback set_power
  for get_power :: "('w, string option) prog" and set_power :: "('w, unit) prog"
begin

lemma poll_off:
  "poll_status n i get_power s = (Ret b, s') \<Longrightarrow> plugs_of (opts s) = Some ps \<Longrightarrow> opts s ''--action'' = Some (PStr ''off'') \<Longrightarrow>
     b \<Longrightarrow> off_was_read get_power ps s'"
proof (induction n arbitrary: i s)
  case 0
  then show ?case by (simp add: ret_iff)
next
  case (Suc n)
  from Suc.prems(1) show ?case
  proof (cases rule: poll_status_cases)
    case (reached st)
    with Suc.prems(3) have "st = Some ''off''"
      by (auto simp: agreeD [OF get_multi_agree [OF reached(1)]] status_val_def split: option.splits)
    with get_multi_off [of get_power s s' ps] reached Suc.prems(2,3) show ?thesis by (simp add: off_was_read_here)
  next
    case (again st s1 d T)
    note agr = get_multi_agree [OF again(1)]
    show ?thesis by (rule Suc.IH [OF again(5)]) (use Suc.prems in \<open>simp_all add: agree_facts [OF agr]\<close>)
  qed (use Suc.prems(4) in simp)
qed

lemma attempts_off:
  "async_attempts fuel set_power get_power ps k s = (Ret b, s') \<Longrightarrow> plugs_of (opts s) = Some ps \<Longrightarrow>
     opts s ''--action'' = Some (PStr ''off'') \<Longrightarrow> b \<Longrightarrow> off_was_read get_power ps s'"
proof (induction k arbitrary: s)
  case 0
  then show ?case by (simp add: ret_iff)
next
  case (Suc k)
  from Suc.prems(1) obtain s1 b1 s2 where s1: "set_all_plugs set_power ps s = (Ret (), s1)"
    and poll: "poll_status fuel 1 get_power s1 = (Ret b1, s2)"
    and rest: "(if b1 then retM True else async_attempts fuel set_power get_power ps k) s2 = (Ret b, s')"
    by (auto simp: ret_iff)
  have one: "agree (opts s) (opts s1)" by (rule setter.set_all_plugs_agree [OF s1])
  have two: "agree (opts s) (opts s2)" using one poll_agree [OF poll] by (rule agree_trans)
  show ?case
  proof (cases b1)
    case True
    with poll_off [OF poll, of ps] rest Suc.prems(2,3) show ?thesis by (simp add: agree_facts [OF one] ret_iff)
  next
    case False
    with rest Suc.prems(2-4) show ?thesis by (intro Suc.IH [of s2]) (simp_all add: agree_facts [OF two])
  qed
qed

lemma off_read_back:
  assumes F: "get_power_fn F = Some get_power" "set_power_fn F = Some set_power"
    and a: "opts s ''--action'' = Some (PStr ''off'')"
    and run: "fence_action fuel F s = (Ret r, s')"
    and ps: "plugs_of (split_opts (opts s)) = Some ps"
  shows "r = 0 \<and> off_was_read get_power ps s'"
  using run a
proof (rule fence_power_stages)
  fix st s1 reached
  assume st: "read_status F (s\<lparr>opts := split_opts (opts s)\<rparr>) = (Ret st, s1)"
    and dn: "already_done st s1 = (Ret reached, s1)"
    and yes: "reached \<Longrightarrow> r = 0 \<and> (\<exists>t. s' = s1\<lparr>outp := t\<rparr>)"
    and no: "\<not> reached \<Longrightarrow> perform fuel F st s1 = (Ret r, s')"
  have agr: "agree (split_opts (opts s)) (opts s1)"
    using st by (auto simp: ret_iff F dest!: get_multi_agree split: if_splits)
  have a1: "opts s1 ''--action'' = Some (PStr ''off'')" using a agreeD [OF agr] by simp
  show ?thesis
  proof (cases reached)
    case True
    with dn a1 have "st = Some ''off''" by (simp add: already_done_reached)
    with st have "get_multi_power_fn get_power (s\<lparr>opts := split_opts (opts s)\<rparr>) = (Ret (Some ''off''), s1)"
      by (auto simp: ret_iff F split: if_splits)
    with get_multi_off [OF this] ps a have "off_was_read get_power ps (s1\<lparr>outp := t\<rparr>)" for t by (auto intro: off_was_readI)
    with yes [OF True] show ?thesis by auto
  next
    case False
    with no perform_power(2) [OF a1] have r: "r = 0" and run: "do_off fuel F s1 = (Ret (), s')" by (auto simp: ret_iff)
    from run obtain s2 where sw: "async_set_multi_power_fn fuel set_power get_power 1 s1 = (Ret True, s2)"
      and s': "s' = s2\<lparr>outp := outp s2 @ [''Success: Powered OFF'']\<rparr>"
      by (auto simp: do_off_def ret_iff switch_async [OF F(2,1)] split: if_splits)
    have ps1: "plugs_of (opts s1) = Some ps" using ps agree_plugs [OF agr] by simp
    with sw obtain k where "async_attempts fuel set_power get_power ps k s1 = (Ret True, s2)"
      by (auto simp: async_set_multi_power_fn_def ret_iff simp del: async_attempts.simps)
    from attempts_off [OF this ps1 a1] have "off_was_read get_power ps s2" by simp
    with r s' show ?thesis by (simp add: off_was_read_outp)
  qed
qed simp

end


section \<open>A record of the calls\<close>

definition recorded :: "('q \<Rightarrow> ('d, 'a) ask) \<Rightarrow> 'q \<Rightarrow> ('q list \<times> 'd, 'a) ask" where
  \<comment> \<open>a service that keeps what it is asked, and answers as before\<close>
  "recorded A q w = (case A q (snd w) of (a, t, d) \<Rightarrow> (a, t, (fst w @ [q], d)))"

definition recorded_client :: "(string \<Rightarrow> 'p \<Rightarrow> ('d, 'a) ask) \<Rightarrow> string \<Rightarrow> 'p \<Rightarrow> ((string \<times> 'p) list \<times> 'd, 'a) ask" where
  "recorded_client C f args = recorded (\<lambda>(f, args). C f args) (f, args)"

definition asked_rel :: "('q \<Rightarrow> bool) \<Rightarrow> ('q list \<times> 'd) st \<Rightarrow> ('q list \<times> 'd) st \<Rightarrow> bool" where
  "asked_rel Q s s' \<longleftrightarrow> (\<exists>qs. fst (world s') = fst (world s) @ qs \<and> list_all Q qs)"

text \<open>A relation that only looks at the world, and what the library does between the calls of a callback.\<close>

locale world_relation = run_relation R for R :: "'w st \<Rightarrow> 'w st \<Rightarrow> bool" +
  assumes quiet: "world s' = world s \<Longrightarrow> R s s'"
begin

lemma quiet_prims [always_intro]:
  "always R (setoptM k w)" "always R (printM t)" "always R (logM t)" "always R (sleepM d)" "always R (deloptM k)"
  by (auto simp: always_def run_prims sleepM_def deloptM_def intro!: quiet split: if_splits option.splits)

lemma quiet_failures [always_intro]:
  "always R (fail code stop)" "always R (fail_usage t stop)" "always R (sleep_opt k)"
  by (auto simp: fail_def fail_usage_def sleep_opt_def intro!: always_intro split: option.splits)

lemma quiet_plugs [always_intro]: "always R plugsM" "always R (set_plug p)" "always R device_optM" "always R split_plugs"
  by (auto simp: always_def plugsM_def set_plug_def device_optM_def split_plugs_def bindM_def run_prims optM_def
      intro!: quiet split: option.splits pyval.splits if_splits prod.splits)

lemma always_get_multi [always_intro]: "always R m \<Longrightarrow> always R (get_multi_power_fn m)"
  by (auto simp: get_multi_power_fn_def intro!: always_intro)

lemma always_status:
  assumes "always R (callM (get_power_fn F))"
  shows "always R (fence_action fuel (read_only F))"
proof -
  have read: "always R (read_status F)" using assms by (auto simp: read_status_def intro!: always_intro)
  have switch: "always R (switch fuel (read_only F) k)" for k
    by (auto simp: switch_def set_multi_power_fn_def intro!: always_intro)
  have "always R (perform fuel (read_only F) st)" for st
    by (auto simp: perform_def do_on_def do_off_def do_reboot_def reboot_onoff_def lowerM_def upperM_def intro!: always_intro switch
        split: option.splits)
  then have "always R (fence_body fuel (read_only F))"
    unfolding fence_body_def is_list_action_def list_outlets_def already_done_def upperM_def
    by (auto intro!: always_intro read split: option.splits)
  moreover have "fence_handler e = Some n \<Longrightarrow> always R n" for e and n :: "('w, int) prog"
    by (cases e) (auto simp: fence_handler_def intro!: always_intro)
  ultimately show ?thesis unfolding fence_action_def by (intro always_intro)
qed

end

lemma asked_rel_trans: "asked_rel Q s t \<Longrightarrow> asked_rel Q t u \<Longrightarrow> asked_rel Q s u"
  unfolding asked_rel_def by (metis append_assoc list_all_append)

interpretation asked: world_relation "asked_rel Q" for Q
  by unfold_locales (auto simp: asked_rel_def intro: asked_rel_trans [unfolded asked_rel_def])

lemma asked_recorded [always_intro]: "Q q \<Longrightarrow> always (asked_rel Q) (queryM (recorded A q))"
  by (auto simp: always_def asked_rel_def queryM_def recorded_def split: prod.splits)

lemma asked_call [always_intro]: "Q (f, args) \<Longrightarrow> always (asked_rel Q) (queryM (recorded_client C f args))"
  by (simp add: recorded_client_def asked_recorded)

lemma asked_client [always_intro]: "Q (f, args) \<Longrightarrow> always (asked_rel Q) (clientM (recorded_client C) f args)"
  by (simp add: clientM_def asked_call)

lemma steady_query [always_intro]: "steady (queryM q)" "steady (clientM C f args)"
  by (auto simp: always_def agree_rel_def queryM_def clientM_def split: prod.splits)


section \<open>Agents that only ask for the status\<close>

lemma bindM_assoc_fun: "bindM (bindM m n) f = bindM m (\<lambda>x. bindM (n x) f)" "bindM (retM x) g = g x"
  by (auto simp: run_simps)

lemma always_list_cases [always_intro]:
  "run_relation R \<Longrightarrow> always R (pathM ks v)" "run_relation R \<Longrightarrow> always R (itemM k v)" "run_relation R \<Longrightarrow> always R (attrM k v)"
  "run_relation R \<Longrightarrow> always R (unbound x)" "run_relation R \<Longrightarrow> always R (json_opt k)" "run_relation R \<Longrightarrow> always R (optional_json k)"
  by (induction ks arbitrary: v)
    (auto simp: itemM_def attrM_def unbound_def json_opt_def optional_json_def intro: run_relation.always_prims run_relation.always_bind)

lemmas run_relations [simp] = asked.run_relation_axioms still.run_relation_axioms

definition asks_for :: "('q \<Rightarrow> bool) \<Rightarrow> ('q list \<times> 'd) power_fns \<Rightarrow> bool" where
  "asks_for Q F \<longleftrightarrow> (\<exists>m. get_power_fn F = Some m \<and> always (asked_rel Q) m \<and> steady m)"

lemma status_asks_for:
  assumes F: "asks_for Q F" and a: "opts s ''--action'' = Some (PStr ''status'')" and run: "fence_action fuel F s = (r, s')"
  shows "\<exists>qs. fst (world s') = fst (world s) @ qs \<and> list_all Q qs"
proof -
  from F obtain m where m: "get_power_fn F = Some m" "always (asked_rel Q) m" "steady m" by (auto simp: asks_for_def)
  then have "fence_action fuel (read_only F) s = (r, s')"
    using status_read_only [OF _ a, of F] run steady_agrees [OF m(3)] by simp
  with alwaysD [OF asked.always_status] m show ?thesis by (force simp: asked_rel_def)
qed

definition calls_of :: "string list \<Rightarrow> string \<times> 'p \<Rightarrow> bool" where
  "calls_of names = (\<lambda>(f, _). f \<in> set names)"

lemmas cloud_defs = asks_for_def fns_aws_def get_power_status_aws_def aws_find_def bad_key_def bad_region_def
  fns_aliyun_def get_power_status_aliyun_def get_status_aliyun_def send_request_aliyun_def
  fns_kubevirt_def get_power_status_kubevirt_def get_namespace_def kube_get_def without_instance_def
  fns_openstack_def get_power_status_openstack_def get_server_nova_def

lemma aws_asks: "asks_for (calls_of [''instances.filter'']) (fns_aws (recorded_client C) R)"
  by (auto simp: cloud_defs calls_of_def intro!: always_intro)

lemma aliyun_asks: "asks_for (calls_of [''DescribeInstances'']) (fns_aliyun (recorded_client A) online)"
  by (auto simp: cloud_defs calls_of_def intro!: always_intro)

lemma kubevirt_asks: "asks_for (calls_of [''list_kube_config_contexts'', ''resources.get'', ''get'']) (fns_kubevirt (recorded_client C))"
  by (auto simp: cloud_defs calls_of_def intro!: always_intro split: sum.splits if_splits)

lemma openstack_asks: "asks_for (calls_of [''servers.get'']) (fns_openstack (recorded_client C))"
  by (auto simp: cloud_defs calls_of_def intro!: always_intro split: if_splits)


definition gets :: "web_request \<Rightarrow> bool" where
  "gets q \<longleftrightarrow> verb q = ''GET''"

lemmas rest_defs = asks_for_def gets_def request_for_def
  fns_redfish_def get_power_status_redfish_def systems_uri_def send_get_request_def redfish_url_def redfish_auth_def
  fns_ecloud_def get_power_fn_ecloud_def ecloud_vpc_def log_code_def
  fns_skalar_def get_power_status_skalar_def found_vm_def vm_items_def skalar_request_def
  fns_ovm_def get_power_status_ovm_def send_command_ovm_def ovm_uri_def stops_def

lemma redfish_asks: "asks_for gets (fns_redfish (recorded R) listing)"
  by (auto simp: rest_defs bindM_assoc_fun intro!: always_intro)

lemma ecloud_asks: "asks_for gets (fns_ecloud (recorded R))"
  by (auto simp: rest_defs Let_def intro!: always_intro split: json.splits)

lemma skalar_asks: "asks_for gets (fns_skalar (recorded R) V)"
  by (auto simp: rest_defs intro!: always_intro)

lemma ovm_asks: "asks_for gets (fns_ovm n (recorded R) session)"
  by (auto simp: rest_defs Let_def intro!: always_intro split: exn.splits option.splits if_splits)


section \<open>Power cycles\<close>

lemma retry_until_True: "retry_until n fn s = (Ret True, s') \<Longrightarrow> 0 < n \<Longrightarrow> \<exists>s1 s2. fn s1 = (Ret True, s2)"
  by (induction n arbitrary: s) (auto simp: ret_iff split: if_splits)

lemma multi_cycle_True:
  assumes "multi_reboot_cycle_fn cycle n s = (Ret True, s')" "plugs_of (opts s) = Some ps" "ps \<noteq> []" "0 < n"
  shows "\<exists>s1 s2. cycle s1 = (Ret True, s2)"
proof -
  let ?step = "\<lambda>success plug. seqM (set_plug plug) (bindM (retry_until (nat n) cycle) (\<lambda>ok.
    seqM (sleep_opt ''--power-wait'') (retM (success \<and> ok))))"
  have lost: "foldM ?step False qs t \<noteq> (Ret True, t')" for qs t t'
    by (induction qs arbitrary: t) (auto simp: ret_iff)
  from assms(1,2) have loop: "foldM ?step True ps s = (Ret True, s')"
    by (auto simp: multi_reboot_cycle_fn_def ret_iff plugsM_def split: option.splits)
  obtain p qs where "ps = p # qs" using assms(3) by (cases ps) auto
  with loop obtain ok s1 s2 s3 where "retry_until (nat n) cycle s1 = (Ret ok, s2)" "foldM ?step ok qs s3 = (Ret True, s')"
    by (auto simp: ret_iff)
  with lost have "retry_until (nat n) cycle s1 = (Ret True, s2)" by (cases ok) auto
  with retry_until_True assms(4) show ?thesis by fastforce
qed

context status_callback
begin

lemma cycle_was_confirmed:
  assumes F: "get_power_fn F = Some get_power" "reboot_cycle_fn F = Some cycle"
    and a: "opts s ''--action'' = Some (PStr ''reboot'')" "opts s ''--method'' = Some (PStr m)" "py_lower m = ''cycle''"
    and k: "int_opt (opts s) ''--retry-on'' = Some k" "0 \<le> k"
    and ps: "plugs_of (split_opts (opts s)) = Some ps" "ps \<noteq> []"
    and run: "fence_action fuel F s = (Ret r, s')"
  shows "\<exists>s1 s2. cycle s1 = (Ret True, s2)"
  using run a(1)
proof (rule fence_power_stages)
  fix st s1 reached
  assume st: "read_status F (s\<lparr>opts := split_opts (opts s)\<rparr>) = (Ret st, s1)"
    and dn: "already_done st s1 = (Ret reached, s1)"
    and no: "\<not> reached \<Longrightarrow> perform fuel F st s1 = (Ret r, s')"
  have agr: "agree (split_opts (opts s)) (opts s1)"
    using st by (auto simp: ret_iff F dest!: get_multi_agree split: if_splits)
  have a1: "opts s1 ''--action'' = Some (PStr ''reboot'')" "opts s1 ''--method'' = Some (PStr m)"
    using a agreeD [OF agr] by simp_all
  have st_in: "st \<in> {None, Some ''on'', Some ''off''}" using st by (auto simp: ret_iff split: if_splits)
  with dn a1 already_done_reached have "\<not> reached" by fastforce
  with no perform_power(3) [OF a1(1)] have "do_reboot fuel F st s1 = (Ret (), s')" by (auto simp: ret_iff)
  then obtain b s2 where "multi_reboot_cycle_fn cycle (1 + k) s1 = (Ret True, s2)"
    using a1(2) a(3) agree_int [OF agr, of "''--retry-on''"] k(1)
    by (auto simp: do_reboot_def ret_iff F(2) reboot_cycle_def split: if_splits)
  then show ?thesis by (rule multi_cycle_True [where ps = ps]) (use ps k agree_plugs [OF agr] in simp_all)
qed simp

end


section \<open>What a query has answered\<close>

lemma queryM_Ret [ret_iff]:
  "queryM q s = (Ret x, s') \<longleftrightarrow> (\<exists>t d. q (world s) = (Ans x, t, d) \<and> s' = s\<lparr>clock := clock s + t, world := d\<rparr>)"
  by (auto simp: queryM_def answer_outcome_def split: prod.splits answer.splits)

lemma reads_off_last:
  "reads_off get_power ps s s' \<Longrightarrow> ps \<noteq> [] \<Longrightarrow> \<exists>s1. get_power s1 = (Ret (Some ''off''), s')"
proof (induction ps arbitrary: s)
  case (Cons p ps)
  then show ?case by (cases "ps = []") auto
qed simp

lemma off_was_read_last:
  assumes "off_was_read get_power ps s'" and "ps \<noteq> []"
  shows "\<exists>s1 s2. get_power s1 = (Ret (Some ''off''), s2) \<and> world s' = world s2"
  using assms by (elim off_was_readE) (use reads_off_last in fastforce)

lemma asked_deviceI: "steady get_power \<Longrightarrow> steady set_power \<Longrightarrow> asked_device get_power set_power"
  by unfold_locales (auto dest: steady_agrees agreesD)

lemma redfish_device: "asked_device (get_power_status_redfish R) (seqM (set_power_status_redfish R) (retM ()))"
  by (rule asked_deviceI) (auto simp: rest_defs bindM_assoc_fun set_power_status_redfish_def reset_type_def original_action_def
    send_post_request_def intro!: always_intro split: option.splits pyval.splits)

lemma json_text_Ret [ret_iff]: "json_text v = Ret t \<longleftrightarrow> v = JStr t"
  by (cases v) (auto simp: json_text_def)

lemma send_get_request_Ret:
  assumes "send_get_request R uri s = (Ret data, s')"
  shows "\<exists>q d resp t. R q d = (Ans resp, t, world s') \<and> verb q = ''GET'' \<and> json_loads (r_text resp) = Ret data"
proof -
  from assms obtain url s1 q s2 resp t d where
      q: "redfish_auth ((request_for ''GET'' url)\<lparr>req_headers := GET_HEADERS\<rparr>) s1 = (Ret q, s2)"
    and "R q (world s2) = (Ans resp, t, d)" "s' = s2\<lparr>clock := clock s2 + t, world := d\<rparr>" "json_loads (r_text resp) = Ret data"
    by (auto simp: send_get_request_def ret_iff)
  moreover from q have "verb q = ''GET''" by (auto simp: redfish_auth_def request_for_def ret_iff)
  ultimately show ?thesis by fastforce
qed

lemma redfish_reads_off:
  assumes "get_power_status_redfish R s = (Ret (Some ''off''), s')"
  shows "\<exists>q d resp t data state. R q d = (Ans resp, t, world s') \<and> verb q = ''GET'' \<and> json_loads (r_text resp) = Ret data \<and>
    json_item ''PowerState'' data = Ret (JStr state) \<and> py_strip state = ''Off''"
proof -
  from assms obtain uri s1 data state where "send_get_request R uri s1 = (Ret data, s')"
    and "json_item ''PowerState'' data = Ret (JStr state)" "py_strip state = ''Off''"
    by (auto simp: get_power_status_redfish_def itemM_def ret_iff split: if_splits)
  with send_get_request_Ret show ?thesis by blast
qed


section \<open>Programs that leave the options alone\<close>

definition opts_rel :: "'w st \<Rightarrow> 'w st \<Rightarrow> bool" where
  "opts_rel s s' \<longleftrightarrow> opts s' = opts s"

abbreviation still_opts :: "('w, 'a) prog \<Rightarrow> bool" where
  "still_opts \<equiv> always opts_rel"

interpretation same_opts: run_relation opts_rel
  by unfold_locales (auto simp: opts_rel_def)

lemmas [simp] = same_opts.run_relation_axioms

lemma still_opts_prims [always_intro]:
  "still_opts (printM t)" "still_opts (logM t)" "still_opts (sleepM d)" "still_opts (queryM q)" "still_opts (clientM C f args)"
  by (auto simp: always_def opts_rel_def run_prims sleepM_def queryM_def clientM_def split: prod.splits if_splits)

lemma still_opts_failures [always_intro]: "still_opts (fail code stop)" "still_opts (fail_usage t stop)"
  by (auto simp: fail_def fail_usage_def intro!: always_intro split: option.splits)

lemma still_optsD: "still_opts m \<Longrightarrow> m s = (r, s') \<Longrightarrow> opts s' = opts s"
  by (auto dest: alwaysD simp: opts_rel_def)

section \<open>The race check of AWS\<close>

lemma aws_still_opts: "still_opts (get_instance_id R)" "still_opts (get_self_power_status C own)"
  by (auto simp: get_instance_id_def get_self_power_status_def aws_find_def bad_key_def bad_region_def intro!: always_intro
      split: if_splits)

lemma shutdown_option_run:
  "opts s ''--skip-os-shutdown'' = Some (PStr v) \<Longrightarrow> \<exists>how. shutdown_option s = (Ret how, s)"
  by (simp add: shutdown_option_def run_simps)

lemma switch_aws_off:
  assumes "opts s ''--action'' = Some (PStr ''off'')" "opts s ''--skip-race-check'' = None" "opts s ''--skip-os-shutdown'' = Some (PStr v)"
  shows "\<exists>how. switch_aws C own s = bindM (get_self_power_status C own) (\<lambda>r. if r = ''ok'' then stop_aws C how else retM ()) s"
proof -
  from shutdown_option_run [OF assms(3)] obtain how where "shutdown_option s = (Ret how, s)" by blast
  with assms show ?thesis by (auto simp: switch_aws_def bindM_step run_simps bindM_assoc_fun intro!: exI [of _ how])
qed

lemma self_is_running:
  assumes "get_self_power_status C own s = (Ret ''ok'', s')"
  shows "\<exists>reply t i found. C ''instances.filter'' [(''Filters'', aws_filter ''instance-id'' own)] (world s) = (Ans reply, t, world s') \<and>
    json_iter reply = Ret (i # found) \<and> aws_state i = Ret (JStr ''running'')"
  using assms
  by (auto simp: get_self_power_status_def aws_find_def clientM_def bad_key_def bad_region_def ret_iff json_index_def json_method_def
      split: if_splits list.splits json.splits) (metis Nitpick.size_list_simp(2) hd_conv_nth length_greater_0_conv list.collapse)

end
