(* ===== verification/Fence_Ibmz.thy ===== *)
theory Fence_Ibmz
  imports Web_Client
begin

text \<open>
  \<open>agents/ibmz/fence_ibmz.py\<close> (IBM z: logical partitions, and partitions of the Dynamic Partition
  Manager). The class \<open>APIClient\<close> is a record of what its constructor was given; its attributes that
  change, the session and the cache of CPCs, are in the world. An operation of the HMC is a job that
  the agent waits for. The package requests is a parameter; what \<open>_create_session\<close> sets for it is
  written into each request (the methods that are retried are always the same three).
\<close>

section \<open>The client\<close>

record hmc_config =
  connect_retries :: int
  read_retries :: int
  operation_timeout :: int
  connect_timeout :: int
  read_timeout :: int
  hmc_port :: int
  hmc_ssl_verify :: bool
  load_on_activate :: bool

record APIClient =
  hmc_host :: string
  hmc_user :: pyval
  hmc_passwd :: pyval
  hmc_config :: hmc_config

record mode_labels =
  label_nodes :: string
  label_state_on :: string
  label_start :: string
  label_stop :: string

record cpc_entry =
  object_uri :: json
  dpm_enabled :: json

record 'd hmc =
  hmc_net :: 'd
  hmc_session :: "json option option"        \<comment> \<open>a session, and its header \<open>X-API-Session\<close>\<close>
  cpc_cache :: "(json \<times> cpc_entry) list"

definition DEFAULT_CONFIG :: hmc_config where
  "DEFAULT_CONFIG = \<lparr>connect_retries = 3, read_retries = 3, operation_timeout = 900, connect_timeout = 30,
     read_timeout = 300, hmc_port = 6794, hmc_ssl_verify = False, load_on_activate = False\<rparr>"

definition labels_classic :: mode_labels where
  "labels_classic = \<lparr>label_nodes = ''logical-partitions'', label_state_on = ''operating'', label_start = ''load'', label_stop = ''deactivate''\<rparr>"

definition labels_dpm :: mode_labels where
  "labels_dpm = \<lparr>label_nodes = ''partitions'', label_state_on = ''active'', label_start = ''start'', label_stop = ''stop''\<rparr>"

section \<open>Requests\<close>

definition create_session :: "hmc_config \<Rightarrow> web_request" where
  "create_session c = (request_for [] [])\<lparr>req_retries := [(''total'', max (connect_retries c) (read_retries c)),
     (''connect'', connect_retries c), (''read'', read_retries c), (''redirect'', 5)]\<rparr>"

definition json_get_or :: "string \<Rightarrow> json \<Rightarrow> json \<Rightarrow> json outcome" where
  \<comment> \<open>\<open>v.get(k, default)\<close>\<close>
  "json_get_or k dflt v = (case v of
      JObj kvs \<Rightarrow> Ret (case map_of kvs k of Some x \<Rightarrow> x | None \<Rightarrow> dflt)
    | _ \<Rightarrow> Raise (AttributeError ([CHR 0x27] @ json_type v @ [CHR 0x27] @ '' object has no attribute '' @ [CHR 0x27] @ ''get'' @ [CHR 0x27])))"

definition request_error :: "string \<Rightarrow> string \<Rightarrow> json \<Rightarrow> json \<Rightarrow> json \<Rightarrow> exn" where
  \<comment> \<open>\<open>ApiClientRequestError\<close>\<close>
  "request_error meth uri status reason message = ClassError ''ApiClientRequestError''
     (''API request failed, details:'' @ nl @ ''HTTP Request : '' @ meth @ '' '' @ uri @ nl
      @ ''HTTP Response status: '' @ json_str status @ nl @ ''Error reason: '' @ json_str reason @ nl
      @ ''Error message: '' @ json_str message @ nl)"

definition failed_request :: "string \<Rightarrow> string \<Rightarrow> http_reply \<Rightarrow> exn outcome" where
  "failed_request meth url r =
     (let no_reason = JStr ''(no reason)''; no_message = JStr ''(no message)'';
          failure = (\<lambda>reason message. Ret (request_error meth url (JInt (r_code r)) reason message)) in
      if map_of (r_headers r) ''content-type'' = Some ''application/json'' then
        (case json_loads (r_text r) of
           Ret v \<Rightarrow> bindO (json_get_or ''reason'' no_reason v) (\<lambda>reason.
                    bindO (json_get_or ''message'' no_message v) (failure reason))
         | _ \<Rightarrow> failure no_reason no_message)
      else failure no_reason (JStr (take 500 (r_text r) @ ''...'')))"

definition hmc_query :: "'d requests \<Rightarrow> web_request \<Rightarrow> ('d hmc, http_reply) prog" where
  "hmc_query R q s = (case R q (hmc_net (world s)) of (a, t, d) \<Rightarrow>
     (answer_outcome a, s\<lparr>clock := clock s + t, world := (world s)\<lparr>hmc_net := d\<rparr>\<rparr>))"

definition session_headers :: "('d hmc, (string \<times> string) list) prog" where
  \<comment> \<open>requests refuses a header that is no text\<close>
  "session_headers = bindM (getM (\<lambda>s. hmc_session (world s))) (\<lambda>session. case session of
      None \<Rightarrow> raiseM (ValueError ''You need to log on first'')
    | Some None \<Rightarrow> retM []
    | Some (Some (JStr t)) \<Rightarrow> retM [(''X-API-Session'', t)]
    | Some (Some v) \<Rightarrow> raiseM (ClassError ''InvalidHeader'' (json_str v)))"

definition hmc_request :: "APIClient \<Rightarrow> string \<Rightarrow> string \<Rightarrow> json option \<Rightarrow> (string \<times> string) list \<Rightarrow> web_request" where
  "hmc_request A meth uri body hs =
     (create_session (hmc_config A))\<lparr>verb := meth,
        target := ''https://'' @ hmc_host A @ '':'' @ show_int (hmc_port (hmc_config A)) @ uri,
        req_json := body, req_headers := hs, req_verify := hmc_ssl_verify (hmc_config A),
        req_timeouts := [connect_timeout (hmc_config A), read_timeout (hmc_config A)]\<rparr>"

definition request_hmc :: "'d requests \<Rightarrow> APIClient \<Rightarrow> string \<Rightarrow> string \<Rightarrow> json option \<Rightarrow> int list \<Rightarrow> ('d hmc, json) prog" where
  \<comment> \<open>\<open>_request\<close>; an empty list of valid codes is none\<close>
  "request_hmc R A meth uri body valid_codes =
     bindM session_headers (\<lambda>hs.
     let q = hmc_request A meth uri body hs in
     bindM (hmc_query R q) (\<lambda>r.
     if valid_codes \<noteq> [] \<and> r_code r \<notin> set valid_codes then bindM (liftM (failed_request meth (target q) r)) raiseM
     else if r_code r = 204 then retM (JObj [])
     else (case json_loads (r_text r) of
         Ret v \<Rightarrow> retM v
       | _ \<Rightarrow> raiseM (request_error meth (target q) (JInt (r_code r)) (JStr ''(no reason)'') (JStr ''Invalid JSON content in response'')))))"

section \<open>CPCs and partitions\<close>

definition update_cpc_cache :: "json \<Rightarrow> ('d hmc, unit) prog" where
  "update_cpc_cache props =
     bindM (itemM ''object-uri'' props) (\<lambda>uri.
     bindM (liftM (json_get_or ''dpm-enabled'' (JBool False) props)) (\<lambda>dpm.
     bindM (itemM ''name'' props) (\<lambda>name.
     bindM (liftM (outlet_key name)) (\<lambda>_.
       modM (\<lambda>s. s\<lparr>world := (world s)\<lparr>cpc_cache :=
         AList.update name \<lparr>object_uri = uri, dpm_enabled = dpm\<rparr> (cpc_cache (world s))\<rparr>\<rparr>)))))"

definition cached_cpc :: "json \<Rightarrow> ('d hmc, cpc_entry) prog" where
  "cached_cpc cpc = bindM (getM (\<lambda>s. map_of (cpc_cache (world s)) cpc)) (\<lambda>e. case e of
      Some c \<Rightarrow> retM c
    | None \<Rightarrow> raiseM (KeyError (json_str cpc)))"

definition hmc_not_found :: "string \<Rightarrow> string \<Rightarrow> exn" where
  \<comment> \<open>\<open>ERROR_NOT_FOUND\<close>\<close>
  "hmc_not_found obj_type obj_name = ValueError (obj_type @ '' '' @ obj_name @ '' not found in this HMC. Attention: names are case-sensitive.'')"

definition is_dpm_enabled :: "'d requests \<Rightarrow> APIClient \<Rightarrow> json \<Rightarrow> ('d hmc, json) prog" where
  "is_dpm_enabled R A cpc =
     bindM (getM (\<lambda>s. map_of (cpc_cache (world s)) cpc)) (\<lambda>known. case known of
       Some c \<Rightarrow> retM (dpm_enabled c)
     | None \<Rightarrow>
         bindM (request_hmc R A ''GET'' (''/api/cpcs?name='' @ json_str cpc) None [200]) (\<lambda>resp.
         bindM (itemM ''cpcs'' resp) (\<lambda>cpcs.
         if \<not> json_true cpcs then raiseM (hmc_not_found ''CPC'' (json_str cpc))
         else
           bindM (liftM (json_index 0 cpcs)) (\<lambda>props.
           seqM (update_cpc_cache props)
          (bindM (cached_cpc cpc) (\<lambda>c. retM (dpm_enabled c)))))))"

definition get_mode_labels :: "'d requests \<Rightarrow> APIClient \<Rightarrow> json \<Rightarrow> ('d hmc, mode_labels) prog" where
  "get_mode_labels R A cpc =
     bindM (is_dpm_enabled R A cpc) (\<lambda>dpm. retM (if json_true dpm then labels_dpm else labels_classic))"

definition get_partition :: "'d requests \<Rightarrow> APIClient \<Rightarrow> json \<Rightarrow> string \<Rightarrow> ('d hmc, json) prog" where
  "get_partition R A cpc part_name =
     bindM (get_mode_labels R A cpc) (\<lambda>labels.
     bindM (cached_cpc cpc) (\<lambda>c.
     bindM (request_hmc R A ''GET'' (json_str (object_uri c) @ ''/'' @ label_nodes labels @ ''?name='' @ part_name) None [200, 404]) (\<lambda>resp.
     bindM (liftM (json_has (label_nodes labels) resp)) (\<lambda>there.
     bindM (if there then itemM (label_nodes labels) resp else retM JNull) (\<lambda>nodes.
       if \<not> json_true nodes then raiseM (hmc_not_found ''LPAR/Partition'' part_name)
       else liftM (json_index 0 nodes))))))"

section \<open>Jobs\<close>

definition job_failure :: "string \<Rightarrow> string \<Rightarrow> json \<Rightarrow> exn outcome" where
  "job_failure meth uri job =
     bindO (json_get_or ''job-status-code'' (JStr ''(no status)'') job) (\<lambda>status.
     bindO (json_get_or ''job-reason-code'' (JStr ''(no reason)'') job) (\<lambda>reason.
     bindO (json_get_or ''job-results'' (JObj []) job) (\<lambda>results.
     bindO (json_get_or ''message'' (JStr ''(no message)'') results) (\<lambda>message.
       Ret (request_error meth uri status reason message)))))"

fun wait_until :: "nat \<Rightarrow> 'd requests \<Rightarrow> APIClient \<Rightarrow> string \<Rightarrow> string \<Rightarrow> json \<Rightarrow> rat \<Rightarrow> ('d hmc, unit) prog" where
  \<comment> \<open>the loop of \<open>_wait_for_job\<close>\<close>
  "wait_until 0 R A meth uri job op_timeout = runningM"
| "wait_until (Suc fuel) R A meth uri job op_timeout =
     bindM (getM clock) (\<lambda>now.
     if now \<ge> op_timeout then raiseM (ClassError ''ApiClientError'' ''Timed out while waiting for job completion'')
     else
       bindM (request_hmc R A ''GET'' (json_str job) None []) (\<lambda>resp.
       bindM (itemM ''status'' resp) (\<lambda>status.
       if status = JStr ''complete'' then
         bindM (itemM ''job-status-code'' resp) (\<lambda>code.
         if code \<in> {JInt 200, JInt 201, JInt 204} then retM ()
         else bindM (liftM (job_failure meth uri resp)) raiseM)
       else seqM (sleepM 1) (wait_until fuel R A meth uri job op_timeout))))"

definition wait_for_job_hmc :: "nat \<Rightarrow> 'd requests \<Rightarrow> APIClient \<Rightarrow> string \<Rightarrow> string \<Rightarrow> json \<Rightarrow> int \<Rightarrow> ('d hmc, unit) prog" where
  "wait_for_job_hmc fuel R A meth uri job timeout =
     bindM (getM clock) (\<lambda>now. wait_until fuel R A meth uri job (now + of_int timeout))"

definition start_job :: "'d requests \<Rightarrow> APIClient \<Rightarrow> string \<Rightarrow> json option \<Rightarrow> ('d hmc, json) prog" where
  \<comment> \<open>the answer to a POST that starts a job\<close>
  "start_job R A uri body = request_hmc R A ''POST'' uri body [202]"

definition activate_first :: "nat \<Rightarrow> 'd requests \<Rightarrow> APIClient \<Rightarrow> string \<Rightarrow> json option \<Rightarrow> ('d hmc, unit) prog" where
  \<comment> \<open>a partition in classic mode is activated before it is loaded; the time is limited in any case\<close>
  "activate_first fuel R A part_uri body =
     (let uri = part_uri @ ''/operations/activate'';
          timeout = operation_timeout (hmc_config A) in
      bindM (start_job R A uri body) (\<lambda>resp.
      bindM (itemM ''job-uri'' resp) (\<lambda>job.
        wait_for_job_hmc fuel R A ''post'' uri job (if timeout = 0 then operation_timeout DEFAULT_CONFIG else timeout))))"

definition run_operation :: "nat \<Rightarrow> 'd requests \<Rightarrow> APIClient \<Rightarrow> string \<Rightarrow> json option \<Rightarrow> ('d hmc, unit) prog" where
  "run_operation fuel R A uri body =
     bindM (start_job R A uri body) (\<lambda>resp.
     if operation_timeout (hmc_config A) = 0 then retM ()
     else bindM (itemM ''job-uri'' resp) (\<lambda>job.
       wait_for_job_hmc fuel R A ''post'' uri job (operation_timeout (hmc_config A))))"

definition partition_switch_power :: "nat \<Rightarrow> 'd requests \<Rightarrow> APIClient \<Rightarrow> json \<Rightarrow> string \<Rightarrow> bool \<Rightarrow> ('d hmc, unit) prog" where
  \<comment> \<open>to start or to stop\<close>
  "partition_switch_power fuel R A cpc part_name starting =
     bindM (get_partition R A cpc part_name) (\<lambda>props.
     bindM (itemM ''object-uri'' props) (\<lambda>part_uri.
     bindM (get_mode_labels R A cpc) (\<lambda>labels.
     bindM (is_dpm_enabled R A cpc) (\<lambda>dpm.
     let body = (if json_true dpm then None else Some (JObj [(''force'', JBool True)]));
         operation = json_str part_uri @ ''/operations/'' @ (if starting then label_start labels else label_stop labels) in
     if starting \<and> \<not> json_true dpm then
       seqM (activate_first fuel R A (json_str part_uri) body)
            (if load_on_activate (hmc_config A) then retM () else run_operation fuel R A operation body)
     else run_operation fuel R A operation body))))"

section \<open>Operations of the client\<close>

definition cpc_list :: "'d requests \<Rightarrow> APIClient \<Rightarrow> ('d hmc, (json \<times> json) list) prog" where
  \<comment> \<open>names and states\<close>
  "cpc_list R A =
     bindM (request_hmc R A ''GET'' ''/api/cpcs'' None [200]) (\<lambda>resp.
     bindM (itemM ''cpcs'' resp) (\<lambda>cpcs.
     bindM (liftM (json_iter cpcs)) (\<lambda>all.
       foldM (\<lambda>found props. seqM (update_cpc_cache props)
         (bindM (itemM ''name'' props) (\<lambda>name.
          bindM (itemM ''status'' props) (\<lambda>status. retM (found @ [(name, status)]))))) [] all)))"

definition partition_list :: "'d requests \<Rightarrow> APIClient \<Rightarrow> json \<Rightarrow> ('d hmc, (json \<times> string) list) prog" where
  "partition_list R A cpc =
     bindM (get_mode_labels R A cpc) (\<lambda>labels.
     bindM (cached_cpc cpc) (\<lambda>c.
     bindM (request_hmc R A ''GET'' (json_str (object_uri c) @ ''/'' @ label_nodes labels) None [200]) (\<lambda>resp.
     bindM (itemM (label_nodes labels) resp) (\<lambda>nodes.
     bindM (liftM (json_iter nodes)) (\<lambda>parts.
       foldM (\<lambda>found part.
         bindM (itemM ''name'' part) (\<lambda>name.
         bindM (itemM ''status'' part) (\<lambda>status.
         bindM (liftM (json_method ''lower'' status)) (\<lambda>t.
           retM (found @ [(name, if py_lower t = label_state_on labels then ''on'' else ''off'')]))))) [] parts)))))"

definition partition_status :: "'d requests \<Rightarrow> APIClient \<Rightarrow> json \<Rightarrow> string \<Rightarrow> ('d hmc, string) prog" where
  "partition_status R A cpc part_name =
     bindM (get_mode_labels R A cpc) (\<lambda>labels.
     bindM (get_partition R A cpc part_name) (\<lambda>props.
     bindM (itemM ''status'' props) (\<lambda>status.
     bindM (liftM (json_method ''lower'' status)) (\<lambda>t.
       retM (if py_lower t = label_state_on labels then ''on'' else ''off'')))))"

definition logon :: "'d requests \<Rightarrow> APIClient \<Rightarrow> ('d hmc, unit) prog" where
  "logon R A =
     seqM (modM (\<lambda>s. s\<lparr>world := (world s)\<lparr>hmc_session := Some None\<rparr>\<rparr>))
    (bindM (request_hmc R A ''POST'' ''/api/sessions''
        (Some (JObj [(''userid'', py_json (hmc_user A)), (''password'', py_json (hmc_passwd A))])) [200, 201]) (\<lambda>resp.
     bindM (itemM ''api-session'' resp) (\<lambda>session.
       modM (\<lambda>s. s\<lparr>world := (world s)\<lparr>hmc_session := Some (Some session)\<rparr>\<rparr>))))"

definition logoff :: "'d requests \<Rightarrow> APIClient \<Rightarrow> ('d hmc, unit) prog" where
  "logoff R A = bindM (getM (\<lambda>s. hmc_session (world s))) (\<lambda>session.
     if session = None then retM ()
     else seqM (request_hmc R A ''DELETE'' ''/api/sessions/this-session'' None [204])
       (modM (\<lambda>s. s\<lparr>world := (world s)\<lparr>cpc_cache := [], hmc_session := None\<rparr>\<rparr>)))"

section \<open>Callbacks\<close>

definition bad_plug :: "('w, 'a) prog" where
  "bad_plug = seqM (fail_usage ''Please specify nodename in format cpc/partition'' True) (raiseM (ClassError ''UnboundLocalError'' ''cpc''))"

definition parse_plug :: "('w, string \<times> string) prog" where
  "parse_plug =
     bindM (stroptM ''--plug'') (\<lambda>plug.
     let t = py_strip plug; cpc = py_strip (takeWhile (\<lambda>c. c \<noteq> CHR ''/'') t); part_name = drop 1 (dropWhile (\<lambda>c. c \<noteq> CHR ''/'') t) in
     if CHR ''/'' \<notin> set t \<or> cpc = [] \<or> part_name = [] then bad_plug else retM (cpc, part_name))"

definition get_power_status_ibmz :: "'d requests \<Rightarrow> APIClient \<Rightarrow> ('d hmc, string option) prog" where
  "get_power_status_ibmz R A =
     bindM parse_plug (\<lambda>(cpc, part_name). bindM (partition_status R A (JStr cpc) part_name) (\<lambda>t. retM (Some t)))"

definition set_power_status_ibmz :: "nat \<Rightarrow> 'd requests \<Rightarrow> APIClient \<Rightarrow> ('d hmc, unit) prog" where
  "set_power_status_ibmz fuel R A =
     bindM (optM ''--action'') (\<lambda>action.
     if action = PStr ''on'' then bindM parse_plug (\<lambda>(cpc, part_name). partition_switch_power fuel R A (JStr cpc) part_name True)
     else if action = PStr ''off'' then bindM parse_plug (\<lambda>(cpc, part_name). partition_switch_power fuel R A (JStr cpc) part_name False)
     else fail_usage (''Invalid action '' @ py_str action) True)"

definition get_outlet_list_ibmz :: "'d requests \<Rightarrow> APIClient \<Rightarrow> ('d hmc, outlet list) prog" where
  "get_outlet_list_ibmz R A =
     bindM (cpc_list R A) (\<lambda>cpcs.
       foldM (\<lambda>result (cpc, _).
         bindM (partition_list R A cpc) (\<lambda>parts.
           retM (fold (\<lambda>(name, status). AList.update (json_str cpc @ ''/'' @ json_str name) (json_str name, Some status)) parts result)))
         [] cpcs)"

definition disconnect_ibmz :: "'d requests \<Rightarrow> APIClient \<Rightarrow> ('d hmc, unit) prog" where
  "disconnect_ibmz R A = tryM (logoff R A) (\<lambda>_. Some (seqM (logM ''Logoff failed: '') (exitM EC_GENERIC_ERROR)))"

definition fns_ibmz :: "nat \<Rightarrow> 'd requests \<Rightarrow> APIClient \<Rightarrow> 'd hmc power_fns" where
  "fns_ibmz fuel R A = \<lparr>set_power_fn = Some (set_power_status_ibmz fuel R A), get_power_fn = Some (get_power_status_ibmz R A),
     get_outlet_list = Some (get_outlet_list_ibmz R A), reboot_cycle_fn = None, sync_set_power_fn = None\<rparr>"

section \<open>The main function\<close>

definition new_opts_ibmz :: "(string \<times> optdef) list" where
  "new_opts_ibmz =
    [(''connect_retries'', \<lparr>o_getopt = '':'', o_longopt = Some ''connect-retries'',
        o_help = ''--connect-retries=[number]     How many times to retry on connection errors'',
        o_required = Some ''0'', o_shortdesc = Some ''How many times to retry on connection errors'',
        o_type = Some ''integer'', o_default = Some (PInt 3), o_choices = None, o_order = 2\<rparr>),
     (''read_retries'', \<lparr>o_getopt = '':'', o_longopt = Some ''read-retries'',
        o_help = ''--read-retries=[number]        How many times to retry on errors related to reading from server'',
        o_required = Some ''0'', o_shortdesc = Some ''How many times to retry on read errors'',
        o_type = Some ''integer'', o_default = Some (PInt 3), o_choices = None, o_order = 2\<rparr>),
     (''connect_timeout'', \<lparr>o_getopt = '':'', o_longopt = Some ''connect-timeout'',
        o_help = ''--connect-timeout=[seconds]    How long to wait to establish a connection'',
        o_required = Some ''0'', o_shortdesc = Some ''How long to wait to establish a connection'',
        o_type = Some ''second'', o_default = Some (PInt 30), o_choices = None, o_order = 2\<rparr>),
     (''operation_timeout'', \<lparr>o_getopt = '':'', o_longopt = Some ''operation-timeout'',
        o_help = ''--operation-timeout=[seconds]  How long to wait for power operation to complete (0 = do not wait)'',
        o_required = Some ''0'', o_shortdesc = Some ''How long to wait for power operation to complete'',
        o_type = Some ''second'', o_default = Some (PInt 900), o_choices = None, o_order = 2\<rparr>),
     (''read_timeout'', \<lparr>o_getopt = '':'', o_longopt = Some ''read-timeout'',
        o_help = ''--read-timeout=[seconds]       How long to wait to read data from server'',
        o_required = Some ''0'', o_shortdesc = Some ''How long to wait for server data'',
        o_type = Some ''second'', o_default = Some (PInt 300), o_choices = None, o_order = 2\<rparr>),
     (''load_on_activate'', \<lparr>o_getopt = [], o_longopt = Some ''load-on-activate'',
        o_help = ''--load-on-activate             Rely on the HMC to perform a load operation on activation'',
        o_required = Some ''0'', o_shortdesc = None,
        o_type = None, o_default = None, o_choices = None, o_order = 3\<rparr>)]"

definition device_opt_ibmz :: "string list" where
  "device_opt_ibmz = [''ipaddr'', ''ipport'', ''login'', ''passwd'', ''port'', ''connect_retries'', ''connect_timeout'', ''operation_timeout'', ''read_retries'', ''read_timeout'', ''ssl_secure'', ''load_on_activate'']"

definition docs_ibmz :: docs where
  "docs_ibmz = \<lparr>agent_name = None, shortdesc = ''Fence agent for IBM z LPARs'',
     longdesc = ''fence_ibmz is a Power Fencing agent which uses the HMC Web Services API to fence IBM z LPARs.'',
     vendorurl = Some ''http://www.ibm.com'', symlink = []\<rparr>"

definition config_of :: "('w, hmc_config) prog" where
  "config_of =
     bindM (intoptM ''--connect-retries'') (\<lambda>connects.
     bindM (intoptM ''--read-retries'') (\<lambda>reads.
     bindM (intoptM ''--operation-timeout'') (\<lambda>operation.
     bindM (intoptM ''--connect-timeout'') (\<lambda>connecting.
     bindM (intoptM ''--read-timeout'') (\<lambda>reading.
     bindM (intoptM ''--ipport'') (\<lambda>port.
     bindM (getM opts) (\<lambda>od.
       retM \<lparr>connect_retries = connects, read_retries = reads, operation_timeout = operation, connect_timeout = connecting,
         read_timeout = reading, hmc_port = port, hmc_ssl_verify = (od ''--ssl-insecure'' = None),
         load_on_activate = (od ''--load-on-activate'' \<noteq> None)\<rparr>)))))))"

definition new_client :: "APIClient \<Rightarrow> ('w, unit) prog" where
  \<comment> \<open>the checks of the constructor\<close>
  "new_client A =
     (if hmc_passwd A \<in> {PNone, PInt 0, PStr [], PList []} then raiseM (ValueError ''Password cannot be empty'')
      else if hmc_user A \<in> {PNone, PInt 0, PStr [], PList []} then raiseM (ValueError ''Username cannot be empty'')
      else retM ())"

definition logged_exception :: "('w, 'a) prog \<Rightarrow> 'a \<Rightarrow> ('w, 'a) prog" where
  \<comment> \<open>\<open>except Exception\<close>, without the traceback\<close>
  "logged_exception m otherwise = tryM m (\<lambda>_. Some (seqM (logM ''Exception occurred: '') (retM otherwise)))"

definition operate_ibmz :: "nat \<Rightarrow> nat \<Rightarrow> 'd requests \<Rightarrow> APIClient \<Rightarrow> ('d hmc agent_world, unit) prog" where
  "operate_ibmz fuel jobs R A =
     bindM (logged_exception (seqM (new_client A) (seqM (on_dev (logon R A)) (retM True))) False) (\<lambda>connected.
     if \<not> connected then exitM EC_GENERIC_ERROR
     else with_exit_handler (on_dev (disconnect_ibmz R A))
       (exit_with (logged_exception (on_dev (fence_action fuel (fns_ibmz jobs R A))) EC_GENERIC_ERROR)))"

definition main_ibmz where
  "main_ibmz R jobs set_order time_start fuel =
     seqM (on_lib (set_default ''ipport'' (PInt 6794)))
    (seqM (on_lib (set_default ''power_timeout'' (PStr ''300'')))
    (seqM (on_lib (set_shortdesc ''port'' ''Physical plug id in the format cpc-name/partition-name (case-sensitive)''))
    (seqM (on_lib (set_help ''port'' ''-n, --plug=[id]                Physical plug id in the format cpc-name/partition-name (case-sensitive)''))
    (seqM (on_lib (add_opts new_opts_ibmz))
    (seqM (on_lib (read_options device_opt_ibmz False))
    (seqM (on_lib (show_docs set_order (Some docs_ibmz)))
    (seqM (run_delay time_start 0 0)
    (bindM (showoptM ''--ip'') (\<lambda>ip.
     bindM (optM ''--username'') (\<lambda>user.
     bindM (optM ''--password'') (\<lambda>password.
     bindM config_of (\<lambda>config.
       operate_ibmz fuel jobs R \<lparr>hmc_host = ip, hmc_user = user, hmc_passwd = password, hmc_config = config\<rparr>))))))))))))"

end
