(* ===== verification/Fence_Nutanix.thy ===== *)
theory Fence_Nutanix
  imports Web_Client
begin

text \<open>
  \<open>agents/nutanix_ahv/fence_nutanix_ahv.py\<close> (virtual machines of a Nutanix cluster). The class
  \<open>NutanixV4Client\<close> with its base class is a record of the attributes that do not change; the headers
  of its session, to which every request adds its own, are in the world. The package requests and the
  generator of UUIDs, which looks at the time, are parameters. An exception that is raised from
  another one has no text.
\<close>

section \<open>The client\<close>

record nutanix =
  ahv_host :: json
  ahv_username :: pyval
  ahv_password :: pyval
  ahv_verify :: bool

record 'd ahv =
  ahv_net :: 'd
  ahv_headers :: "(string \<times> string) list"

definition MIN_TIMEOUT :: int where "MIN_TIMEOUT = 60"

definition POWER_STATES :: "(string \<times> string) list" where
  "POWER_STATES = [(''ON'', ''on''), (''OFF'', ''off''), (''PAUSED'', ''off''), (''UNKNOWN'', ''unknown'')]"

definition ahv_base_url :: "nutanix \<Rightarrow> string" where
  "ahv_base_url N = ''https://'' @ json_str (ahv_host N) @ '':9440/api''"

definition vm_url :: "nutanix \<Rightarrow> string" where
  "vm_url N = ahv_base_url N @ ''/vmm/v4.0/ahv/config/vms''"

definition task_url :: "nutanix \<Rightarrow> string" where
  "task_url N = ahv_base_url N @ ''/prism/v4.0/config/tasks''"

section \<open>Exceptions\<close>

definition AHVFenceAgentException :: "string \<Rightarrow> exn" where
  "AHVFenceAgentException t = ClassError ''AHVFenceAgentException'' t"

definition TaskTimedOutException :: "string \<Rightarrow> exn" where
  "TaskTimedOutException t = ClassError ''TaskTimedOutException'' t"

definition InvalidArgsException :: "string \<Rightarrow> exn" where
  "InvalidArgsException t = ClassError ''InvalidArgsException'' t"

definition NutanixClientException :: "string \<Rightarrow> exn" where
  "NutanixClientException t = ClassError ''NutanixClientException'' t"

definition class_of :: "exn \<Rightarrow> string" where
  "class_of e = (case e of ClassError c _ \<Rightarrow> c | _ \<Rightarrow> [])"

definition reraise :: "(string \<times> string list) list \<Rightarrow> ('w, 'a) prog \<Rightarrow> ('w, 'a) prog" where
  \<comment> \<open>\<open>except C as err: logging.error(\<dots>); raise AHVFenceAgentException from err\<close>, for each of the classes\<close>
  "reraise handlers m = tryM m (\<lambda>e. map_option
     (\<lambda>messages. seqM (forM messages logM) (raiseM (AHVFenceAgentException []))) (map_of handlers (class_of e)))"

section \<open>Requests\<close>

definition request_session :: "nutanix \<Rightarrow> string \<Rightarrow> string \<Rightarrow> (string \<times> string) list \<Rightarrow> web_request" where
  "request_session N meth url hs =
     (request_for meth url)\<lparr>req_headers := hs, req_auth := Some (py_str (ahv_username N), ahv_password N),
        req_verify := ahv_verify N, req_retries := [(''total'', 5)]\<rparr>"

definition status_error :: "web_request \<Rightarrow> http_reply \<Rightarrow> string" where
  \<comment> \<open>the text of \<open>raise_for_status\<close>\<close>
  "status_error q r = show_int (r_code r) @ (if r_code r < 500 then '' Client Error: '' else '' Server Error: '')
     @ r_reason r @ '' for url: '' @ target q"

definition ahv_query :: "'d requests \<Rightarrow> web_request \<Rightarrow> ('d ahv, http_reply) prog" where
  "ahv_query R q s = (case R q (ahv_net (world s)) of (a, t, d) \<Rightarrow>
     (answer_outcome a, s\<lparr>clock := clock s + t, world := (world s)\<lparr>ahv_net := d\<rparr>\<rparr>))"

definition no_response :: "exn \<Rightarrow> ('w, 'a) prog" where
  \<comment> \<open>the handlers of a request that was not answered: the second one asks for the text of the answer\<close>
  "no_response e =
     (if class_of e = ''SSLError'' then
        seqM (logM ''Secure connection failed, verify SSL certificate'')
       (seqM (logM (''Error message: '' @ exn_text e)) (raiseM (NutanixClientException ''Secure connection failed'')))
      else raiseM (AttributeError ([CHR 0x27] @ ''NoneType'' @ [CHR 0x27] @ '' object has no attribute '' @ [CHR 0x27] @ ''text'' @ [CHR 0x27])))"

definition request_ahv :: "'d requests \<Rightarrow> nutanix \<Rightarrow> string \<Rightarrow> string \<Rightarrow> (string \<times> string) list \<Rightarrow> ('d ahv, http_reply) prog" where
  "request_ahv R N meth url hs =
     seqM (modM (\<lambda>s. s\<lparr>world := (world s)\<lparr>ahv_headers := fold (\<lambda>(k, v). AList.update k v) hs (ahv_headers (world s))\<rparr>\<rparr>))
    (bindM (getM (\<lambda>s. ahv_headers (world s))) (\<lambda>all.
     let q = request_session N meth url all in
     bindM (tryM (ahv_query R q) (\<lambda>e. Some (no_response e))) (\<lambda>r.
     if 400 \<le> r_code r \<and> r_code r < 600 then
       seqM (logM (''API call failed: '' @ r_text r))
      (seqM (logM (''Error message: '' @ status_error q r))
            (raiseM (NutanixClientException (''API call failed: '' @ status_error q r))))
     else if r_code r \<notin> {200, 202} then
       seqM (logM (''API call returned status code '' @ show_int (r_code r)))
            (raiseM (NutanixClientException (''API call failed: <Response ['' @ show_int (r_code r) @ '']>'')))
     else retM r)))"

definition json_headers :: "(string \<times> string) list" where
  "json_headers = [(''Accept'', ''application/json''), (''Content-Type'', ''application/json'')]"

definition get_vm :: "'d requests \<Rightarrow> nutanix \<Rightarrow> json \<Rightarrow> ('d ahv, http_reply) prog" where
  "get_vm R N vm_uuid =
     (if \<not> json_true vm_uuid then
        seqM (logM ''VM UUID was not provided'') (raiseM (AHVFenceAgentException ''VM UUID not provided''))
      else reraise [(''NutanixClientException'', [''Failed to retrieve VM details for VM UUID: '' @ json_str vm_uuid])]
        (request_ahv R N ''GET'' (vm_url N @ ''/'' @ json_str vm_uuid) json_headers))"

definition get_headers :: "'d requests \<Rightarrow> nutanix \<Rightarrow> (rat \<Rightarrow> string) \<Rightarrow> json \<Rightarrow> ('d ahv, (string \<times> string) list) prog" where
  \<comment> \<open>\<open>_get_headers(vm_uuid)\<close> for a UUID that is not empty\<close>
  "get_headers R N uuid1 vm_uuid =
     bindM (reraise [(''AHVFenceAgentException'', [''Unable to retrieve etag''])] (get_vm R N vm_uuid)) (\<lambda>r.
     case map_of (r_headers r) ''etag'' of
       None \<Rightarrow> raiseM (KeyError ''etag'')
     | Some etag \<Rightarrow> bindM (getM clock) (\<lambda>now.
         retM (json_headers @ [(''If-Match'', etag), (''Ntnx-Request-Id'', uuid1 now)])))"

section \<open>Virtual machines\<close>

definition vms_url :: "nutanix \<Rightarrow> json \<Rightarrow> json \<Rightarrow> string" where
  "vms_url N filter_str limit =
     vm_url N @ (if json_true filter_str \<and> json_true limit then ''?$filter='' @ json_str filter_str @ ''&$limit='' @ json_str limit
       else if json_true filter_str then ''?$filter='' @ json_str filter_str
       else if json_true limit then ''?$limit='' @ json_str limit else [])"

definition get_all_vms :: "'d requests \<Rightarrow> nutanix \<Rightarrow> json \<Rightarrow> json \<Rightarrow> ('d ahv, json) prog" where
  "get_all_vms R N filter_str limit =
     bindM (reraise [(''NutanixClientException'', [''Unable to retrieve VM info''])]
         (request_ahv R N ''GET'' (vms_url N filter_str limit) json_headers)) (\<lambda>r. liftM (json_loads (r_text r)))"

definition is_filled_dict :: "json \<Rightarrow> bool" where
  "is_filled_dict v \<longleftrightarrow> json_true v \<and> json_type v = ''dict''"

definition find_vm :: "json \<Rightarrow> json list \<Rightarrow> json outcome" where
  \<comment> \<open>the UUID of the first machine of the name; \<open>JNull\<close> stands for None\<close>
  "find_vm vm_name vms = bindO (foldO (\<lambda>found vm. if found \<noteq> None then Ret found
       else bindO (json_item ''name'' vm) (\<lambda>n.
         if n = vm_name then bindO (json_item ''extId'' vm) (\<lambda>u. Ret (Some u)) else Ret None)) None vms)
     (\<lambda>found. Ret (case found of Some u \<Rightarrow> u | None \<Rightarrow> JNull))"

definition get_vm_uuid :: "'d requests \<Rightarrow> nutanix \<Rightarrow> json \<Rightarrow> ('d ahv, json) prog" where
  "get_vm_uuid R N vm_name =
     (let failed = ''Failed to retrieve VM UUID for VM '' @ json_str vm_name in
      if \<not> json_true vm_name then
        seqM (logM ''VM name was not provided'') (raiseM (AHVFenceAgentException ''VM name not provided''))
      else
        bindM (reraise [(''AHVFenceAgentException'', [''Failed to get VM info for VM '' @ json_str vm_name])]
          (get_all_vms R N (JStr (''name eq '' @ [CHR 0x27] @ json_str vm_name @ [CHR 0x27])) JNull)) (\<lambda>v.
        if \<not> is_filled_dict v then
          seqM (logM failed) (raiseM (AHVFenceAgentException (''Failed to get VM UUID for '' @ json_str vm_name)))
        else (case json_member ''data'' v of
            None \<Rightarrow> seqM (logM failed) (raiseM (AHVFenceAgentException (''Error: Unsuccessful match for VM name: '' @ json_str vm_name)))
          | Some data \<Rightarrow> bindM (liftM (json_iter data)) (\<lambda>vms. liftM (find_vm vm_name vms)))))"

section \<open>Tasks\<close>

definition task_status :: "'d requests \<Rightarrow> nutanix \<Rightarrow> string \<Rightarrow> ('d ahv, json) prog" where
  \<comment> \<open>every exception becomes one of the agent\<close>
  "task_status R N url = tryM
     (bindM (request_ahv R N ''GET'' url json_headers) (\<lambda>r.
      bindM (liftM (json_loads (r_text r))) (pathM [''data'', ''status''])))
     (\<lambda>e. Some (seqM (logM (if class_of e = ''NutanixClientException'' then ''Unable to retrieve task status'' else ''Unknown error''))
       (raiseM (AHVFenceAgentException []))))"

function poll_task :: "'d requests \<Rightarrow> nutanix \<Rightarrow> json \<Rightarrow> string \<Rightarrow> int \<Rightarrow> ('d ahv, unit) prog" where
  "poll_task R N task_uuid url timeout =
     (if timeout \<le> 0 then raiseM (TaskTimedOutException (''Task timed out: '' @ json_str task_uuid))
      else
        seqM (sleepM 5)
       (bindM (task_status R N url) (\<lambda>status.
          if status = JStr ''FAILED'' then raiseM (AHVFenceAgentException (''Task failed, task uuid: '' @ json_str task_uuid))
          else if status = JStr ''SUCCEEDED'' then retM ()
          else poll_task R N task_uuid url (timeout - 5))))"
  by pat_completeness auto
termination by (relation "measure (\<lambda>(_, _, _, _, timeout). nat timeout)") auto

declare poll_task.simps [simp del]

definition task_timeout :: "pyval \<Rightarrow> int outcome" where
  "task_timeout timeout = (if timeout \<in> {PNone, PInt 0, PStr [], PList []} then Ret MIN_TIMEOUT
     else (case py_int timeout of Raise (ValueError _) \<Rightarrow> Ret MIN_TIMEOUT | r \<Rightarrow> r))"

definition wait_for_task :: "'d requests \<Rightarrow> nutanix \<Rightarrow> json \<Rightarrow> pyval \<Rightarrow> ('d ahv, unit) prog" where
  "wait_for_task R N task_uuid timeout =
     (if \<not> json_true task_uuid then
        seqM (logM ''Task UUID was not provided'') (raiseM (AHVFenceAgentException ''Task UUID not provided''))
      else bindM (liftM (task_timeout timeout)) (poll_task R N task_uuid (task_url N @ ''/'' @ json_str task_uuid)))"

section \<open>Operations of the client\<close>

definition power_on_off_vm :: "'d requests \<Rightarrow> nutanix \<Rightarrow> (rat \<Rightarrow> string) \<Rightarrow> string \<Rightarrow> json \<Rightarrow> ('d ahv, http_reply) prog" where
  "power_on_off_vm R N uuid1 power_state vm_uuid =
     (if \<not> json_true vm_uuid then
        seqM (logM ''VM UUID was not provided'') (raiseM (AHVFenceAgentException ''VM UUID not provided''))
      else if power_state = [] then seqM (logM ''Requested VM power state is None'') (raiseM (InvalidArgsException []))
      else if py_lower power_state \<notin> {''on'', ''off''} then
        seqM (logM (''Invalid power state specified: '' @ py_lower power_state)) (raiseM (InvalidArgsException []))
      else reraise [(''NutanixClientException'', [''Failed to power off VM '' @ json_str vm_uuid]), (''AHVFenceAgentException'', [''Failed to retrieve etag from headers''])]
        (bindM (get_headers R N uuid1 vm_uuid) (\<lambda>hs.
             request_ahv R N ''POST'' (vm_url N @ ''/'' @ json_str vm_uuid @ ''/$actions/power-'' @ py_lower power_state) hs)))"

definition power_cycle_vm_request :: "'d requests \<Rightarrow> nutanix \<Rightarrow> (rat \<Rightarrow> string) \<Rightarrow> json \<Rightarrow> ('d ahv, http_reply) prog" where
  \<comment> \<open>\<open>_power_cycle_vm\<close>\<close>
  "power_cycle_vm_request R N uuid1 vm_uuid =
     (if \<not> json_true vm_uuid then
        seqM (logM ''VM UUID was not provided'') (raiseM (AHVFenceAgentException ''VM UUID not provided''))
      else reraise [(''NutanixClientException'', [''Failed to power on VM '' @ json_str vm_uuid]), (''AHVFenceAgentException'', [''Failed to retrieve etag from headers''])]
        (bindM (get_headers R N uuid1 vm_uuid) (\<lambda>hs.
             request_ahv R N ''POST'' (vm_url N @ ''/'' @ json_str vm_uuid @ ''/$actions/power-cycle'') hs)))"

definition list_vms :: "'d requests \<Rightarrow> nutanix \<Rightarrow> json \<Rightarrow> json \<Rightarrow> ('d ahv, outlet list) prog" where
  "list_vms R N filter_str limit =
     bindM (reraise [(''NutanixClientException'', [''Failed to retrieve VM list''])] (get_all_vms R N filter_str limit)) (\<lambda>v.
     if \<not> is_filled_dict v then
       seqM (logM ''Failed to retrieve VM list'') (raiseM (AHVFenceAgentException ''Unable to get VM list''))
     else (case json_member ''data'' v of
         None \<Rightarrow> retM []
       | Some data \<Rightarrow>
           bindM (liftM (json_iter data)) (\<lambda>vms.
           liftM (foldO (\<lambda>vm_list vm.
             bindO (json_item ''name'' vm) (\<lambda>vm_name.
             bindO (json_item ''extId'' vm) (\<lambda>ext_id.
             bindO (json_item ''powerState'' vm) (\<lambda>power_state.
             bindO (outlet_key vm_name) (\<lambda>k.
             bindO (outlet_status power_state) (\<lambda>st. Ret (AList.update k (json_str ext_id, st) vm_list))))))) [] vms))))"

definition needs_name :: "json \<Rightarrow> json \<Rightarrow> ('w, 'a) prog \<Rightarrow> ('w, 'a) prog" where
  "needs_name vm_name vm_uuid m =
     (if \<not> json_true vm_name \<and> \<not> json_true vm_uuid then
        seqM (logM ''Require at least one of VM name or VM UUID'') (raiseM (InvalidArgsException ''No arguments provided''))
      else m)"

definition get_power_state :: "'d requests \<Rightarrow> nutanix \<Rightarrow> json \<Rightarrow> json \<Rightarrow> ('d ahv, string) prog" where
  "get_power_state R N vm_name vm_uuid = needs_name vm_name vm_uuid
     (bindM (if json_true vm_uuid then retM vm_uuid
        else reraise [(''AHVFenceAgentException'', [''Unable to retrieve UUID of VM, '' @ json_str vm_name])] (get_vm_uuid R N vm_name)) (\<lambda>uuid.
      bindM (reraise [(''AHVFenceAgentException'', [''Unable to retrieve power state of VM '' @ json_str uuid])] (get_vm R N uuid)) (\<lambda>r.
      bindM (liftM (json_loads (r_text r))) (\<lambda>v.
      bindM (pathM [''data'', ''powerState''] v) (\<lambda>state. liftM (state_entry POWER_STATES state))))))"

definition await_task :: "'d requests \<Rightarrow> nutanix \<Rightarrow> string list \<Rightarrow> string list \<Rightarrow> http_reply \<Rightarrow> pyval \<Rightarrow> ('d ahv, unit) prog" where
  \<comment> \<open>with the messages for a failure and for a timeout\<close>
  "await_task R N failed timed_out r timeout =
     bindM (liftM (json_loads (r_text r))) (\<lambda>v.
     bindM (pathM [''data'', ''extId''] v) (\<lambda>task_id.
       tryM (wait_for_task R N task_id timeout) (\<lambda>e.
         if class_of e = ''AHVFenceAgentException'' then Some (seqM (forM failed logM) (raiseM (AHVFenceAgentException [])))
         else if class_of e = ''TaskTimedOutException'' then Some (seqM (forM timed_out logM) (raiseM (TaskTimedOutException [])))
         else None)))"

definition or_min :: "pyval \<Rightarrow> pyval" where
  \<comment> \<open>\<open>if not timeout: timeout = MIN_TIMEOUT\<close>\<close>
  "or_min timeout = (if timeout \<in> {PNone, PInt 0, PStr [], PList []} then PInt MIN_TIMEOUT else timeout)"

definition set_power_state :: "'d requests \<Rightarrow> nutanix \<Rightarrow> (rat \<Rightarrow> string) \<Rightarrow> json \<Rightarrow> json \<Rightarrow> string \<Rightarrow> pyval \<Rightarrow> ('d ahv, unit) prog" where
  "set_power_state R N uuid1 vm_name vm_uuid power_state timeout = needs_name vm_name vm_uuid
     (let want = py_lower power_state in
      bindM (if json_true vm_uuid then retM vm_uuid else get_vm_uuid R N vm_name) (\<lambda>uuid.
      bindM (reraise [(''AHVFenceAgentException'', [])] (get_power_state R N JNull uuid)) (\<lambda>current.
      if py_lower current = want then retM ()
      else if want \<notin> {''on'', ''off''} then
        raiseM (AttributeError ([CHR 0x27] @ ''NoneType'' @ [CHR 0x27] @ '' object has no attribute '' @ [CHR 0x27] @ ''json'' @ [CHR 0x27]))
      else
        bindM (power_on_off_vm R N uuid1 want uuid) (\<lambda>r.
          await_task R N [''Failed to power '' @ want @ '' VM'', ''VM power '' @ want @ '' task failed'']
            [''Timed out powering '' @ want @ '' VM '' @ json_str uuid] r (or_min timeout)))))"

definition power_cycle_vm :: "'d requests \<Rightarrow> nutanix \<Rightarrow> (rat \<Rightarrow> string) \<Rightarrow> json \<Rightarrow> json \<Rightarrow> pyval \<Rightarrow> ('d ahv, unit) prog" where
  "power_cycle_vm R N uuid1 vm_name vm_uuid timeout = needs_name vm_name vm_uuid
     (bindM (if json_true vm_uuid then retM vm_uuid else get_vm_uuid R N vm_name) (\<lambda>uuid.
      bindM (power_cycle_vm_request R N uuid1 uuid) (\<lambda>r.
        await_task R N [''Failed to power-cycle VM '' @ json_str uuid, ''VM power-cycle task failed with status, None'']
          [''Timed out power-cycling VM '' @ json_str uuid] r (or_min timeout))))"

section \<open>Callbacks\<close>

definition option_json :: "string \<Rightarrow> ('w, json) prog" where
  \<comment> \<open>\<open>options.get(k, None)\<close>\<close>
  "option_json k = getM (\<lambda>s. case opts s k of None \<Rightarrow> JNull | Some v \<Rightarrow> py_json v)"

definition optional :: "string \<Rightarrow> ('w, pyval) prog" where
  "optional k = getM (\<lambda>s. case opts s k of None \<Rightarrow> PNone | Some v \<Rightarrow> v)"

definition exception_codes :: "string list \<Rightarrow> ('w, 'a) prog \<Rightarrow> ('w, 'a) prog" where
  \<comment> \<open>the handlers of the callbacks; those that log the exception are given\<close>
  "exception_codes logged m = tryM m (\<lambda>e.
     let stop = (\<lambda>code. Some (seqM (if class_of e \<in> set logged then logM (exn_text e) else retM ())
        (seqM (fail code True) (raiseM (ClassError ''UnboundLocalError'' []))))) in
     if class_of e = ''AHVFenceAgentException'' then stop EC_GENERIC_ERROR
     else if class_of e = ''TaskTimedOutException'' then stop EC_TIMED_OUT
     else if class_of e = ''InvalidArgsException'' then stop EC_BAD_ARGS
     else None)"

definition named_vm :: "string \<Rightarrow> (json \<Rightarrow> json \<Rightarrow> ('w, 'a) prog) \<Rightarrow> ('w, 'a) prog" where
  "named_vm message m =
     bindM (option_json ''--uuid'') (\<lambda>vmid.
     bindM (option_json ''--plug'') (\<lambda>name.
       seqM (if \<not> json_true vmid \<and> \<not> json_true name then seqM (logM message) (fail EC_BAD_ARGS True) else retM ()) (m name vmid)))"

definition get_power_status_ahv :: "'d requests \<Rightarrow> nutanix \<Rightarrow> ('d ahv, string option) prog" where
  \<comment> \<open>no timeout can come out of it\<close>
  "get_power_status_ahv R N = named_vm ''Need VM name or VM UUID for power op'' (\<lambda>name vmid.
     exception_codes [] (bindM (get_power_state R N name vmid) (\<lambda>t. retM (Some t))))"

definition set_power_status_ahv :: "'d requests \<Rightarrow> nutanix \<Rightarrow> (rat \<Rightarrow> string) \<Rightarrow> ('d ahv, unit) prog" where
  "set_power_status_ahv R N uuid1 =
     bindM (stroptM ''--action'') (\<lambda>action.
     bindM (optional ''--power-timeout'') (\<lambda>timeout.
       named_vm ''Need VM name or VM UUID to set power state of a VM'' (\<lambda>name vmid.
         exception_codes [''AHVFenceAgentException'', ''TaskTimedOutException''] (set_power_state R N uuid1 name vmid (py_lower action) timeout))))"

definition power_cycle_ahv :: "'d requests \<Rightarrow> nutanix \<Rightarrow> (rat \<Rightarrow> string) \<Rightarrow> ('d ahv, bool) prog" where
  \<comment> \<open>it returns nothing, which is false\<close>
  "power_cycle_ahv R N uuid1 =
     bindM (optional ''--power-timeout'') (\<lambda>timeout.
       named_vm ''Need VM name or VM UUID to set power cycling a VM'' (\<lambda>name vmid.
         seqM (exception_codes [''AHVFenceAgentException'', ''TaskTimedOutException''] (power_cycle_vm R N uuid1 name vmid timeout)) (retM False)))"

definition get_list_ahv :: "'d requests \<Rightarrow> nutanix \<Rightarrow> ('d ahv, outlet list) prog" where
  "get_list_ahv R N =
     bindM (option_json ''--filter'') (\<lambda>filter_str.
     bindM (option_json ''--limit'') (\<lambda>limit.
       tryM (list_vms R N filter_str limit) (\<lambda>e.
         if class_of e = ''AHVFenceAgentException'' then
           Some (seqM (logM ''Failed to list VMs'') (seqM (logM (exn_text e)) (seqM (fail EC_GENERIC_ERROR True) (retM []))))
         else None)))"

definition connect_ahv :: "'d requests \<Rightarrow> nutanix \<Rightarrow> ('d ahv, unit) prog" where
  "connect_ahv R N = tryM (seqM (list_vms R N JNull (JInt 1)) (retM ())) (\<lambda>e.
     if class_of e = ''AHVFenceAgentException'' then
       Some (seqM (logM ''Connection to Prism Central Failed'') (seqM (logM (exn_text e)) (fail EC_LOGIN_DENIED True)))
     else None)"

definition fns_nutanix_ahv :: "'d requests \<Rightarrow> nutanix \<Rightarrow> (rat \<Rightarrow> string) \<Rightarrow> 'd ahv power_fns" where
  "fns_nutanix_ahv R N uuid1 = \<lparr>set_power_fn = Some (set_power_status_ahv R N uuid1), get_power_fn = Some (get_power_status_ahv R N),
     get_outlet_list = Some (get_list_ahv R N), reboot_cycle_fn = Some (power_cycle_ahv R N uuid1), sync_set_power_fn = None\<rparr>"

section \<open>The main function\<close>

definition new_opts_nutanix_ahv :: "(string \<times> optdef) list" where
  "new_opts_nutanix_ahv =
    [(''filter'', \<lparr>o_getopt = '':'', o_longopt = Some ''filter'',
        o_help = nl @ ''            --filter=[filter]'' @ [CHR 0x09] @ ''Filter list, list VMs actions.'' @ nl @ ''            --filter=\"name eq '' @ [CHR 0x27] @ ''node1-vm'' @ [CHR 0x27] @ ''\"'' @ nl @ ''            --filter=\"startswith(name,'' @ [CHR 0x27] @ ''node'' @ [CHR 0x27] @ '')\"'' @ nl @ ''            --filter=\"name in ('' @ [CHR 0x27] @ ''node1-vm'' @ [CHR 0x27] @ '','' @ [CHR 0x27] @ ''node-3-vm'' @ [CHR 0x27] @ '')\" '',
        o_required = Some ''0'', o_shortdesc = Some (''Filter list, get_liste.g: \"name eq '' @ [CHR 0x27] @ ''node1-vm'' @ [CHR 0x27] @ ''\"''),
        o_type = None, o_default = None, o_choices = None, o_order = 2\<rparr>)]"

definition device_opt_nutanix_ahv :: "string list" where
  "device_opt_nutanix_ahv = [''ipaddr'', ''login'', ''passwd'', ''ssl'', ''notls'', ''web'', ''port'', ''filter'', ''method'', ''disable_timeout'', ''power_timeout'']"

definition docs_nutanix_ahv :: docs where
  "docs_nutanix_ahv = \<lparr>agent_name = None, shortdesc = ''Fence agent for Nutanix AHV Cluster VMs.'',
     longdesc = ''fence_nutanix_ahv is a Power Fencing agent for virtual machines deployed on Nutanix AHV cluster with the AHV cluster being managed by Prism Central.'',
     vendorurl = Some ''https://www.nutanix.com'', symlink = []\<rparr>"

definition client_of :: "('w, nutanix) prog" where
  "client_of =
     bindM (optM ''--ip'') (\<lambda>host.
     bindM (optM ''--username'') (\<lambda>username.
     bindM (optM ''--password'') (\<lambda>password.
     bindM (hasoptM ''--ssl-insecure'') (\<lambda>insecure.
       retM \<lparr>ahv_host = py_json host, ahv_username = username, ahv_password = password, ahv_verify = (\<not> insecure)\<rparr>))))"

definition main_nutanix_ahv where
  "main_nutanix_ahv R uuid1 set_order time_start fuel =
     seqM (on_lib (add_opts new_opts_nutanix_ahv))
    (seqM (on_lib (set_default ''power_timeout'' (PStr ''60'')))
    (seqM (on_lib (read_options device_opt_nutanix_ahv False))
    (seqM (on_lib (show_docs set_order (Some docs_nutanix_ahv)))
    (seqM (run_delay time_start 0 0)
    (bindM client_of (\<lambda>N.
     seqM (on_dev (connect_ahv R N))
          (exit_with (on_dev (fence_action fuel (fns_nutanix_ahv R N uuid1))))))))))"

end
