(* ===== verification/Fence_Xenapi.thy ===== *)
theory Fence_Xenapi
  imports Client_Lib
begin

text \<open>
  \<open>agents/xenapi/fence_xenapi.py\<close> (Citrix XenServer) with the module \<open>lib/XenAPI.py.py\<close> that it uses: a
  session over XML-RPC, which logs in again and repeats a call when the server has dropped the session.
  The server, with the XML-RPC client, is a parameter. The state of the session is in the world.
\<close>

section \<open>The session\<close>

type_synonym 'd xmlrpc = "string \<Rightarrow> json list \<Rightarrow> ('d, json) ask"

record 'd xen =
  xen_server :: 'd
  xen_session :: json
  last_login :: "(string \<times> json list) option"

definition Fault :: "int \<Rightarrow> string \<Rightarrow> exn" where
  "Fault code t = ClassError ''Fault'' (''<Fault '' @ show_int code @ '': '' @ py_repr t @ ''>'')"

definition one_less :: "json \<Rightarrow> json outcome" where
  \<comment> \<open>\<open>str(int(v) - 1)\<close>\<close>
  "one_less v = (case v of
      JStr t \<Rightarrow> bindO (py_int (PStr t)) (\<lambda>n. Ret (JStr (show_int (n - 1))))
    | JInt n \<Rightarrow> Ret (JStr (show_int (n - 1)))
    | _ \<Rightarrow> Raise (TypeError ''int() argument must be a string''))"

definition failure_details :: "json \<Rightarrow> json" where
  \<comment> \<open>the session that every call has as its first argument is not counted\<close>
  "failure_details details =
     (case (case json_index 0 details of
         Ret c \<Rightarrow> if c \<noteq> JStr ''MESSAGE_PARAMETER_COUNT_MISMATCH'' then Ret details
           else (case details of
               JList ds \<Rightarrow>
                 bindO (json_index 2 details) (\<lambda>a. bindO (one_less a) (\<lambda>a'.
                 bindO (json_index 3 details) (\<lambda>b. bindO (one_less b) (\<lambda>b'. Ret (JList (ds[2 := a', 3 := b']))))))
             | _ \<Rightarrow> Raise (TypeError ''object does not support item assignment''))
       | Raise e \<Rightarrow> Raise e | Exit c \<Rightarrow> Exit c | Running \<Rightarrow> Running) of
       Ret d \<Rightarrow> d
     | Raise e \<Rightarrow> JList [JStr ''INTERNAL_ERROR'', JStr (''Client-side: '' @ exn_text e)]
     | _ \<Rightarrow> details)"

definition Failure :: "json \<Rightarrow> exn" where
  \<comment> \<open>its text: the catalogue of messages has no method \<open>ugettext\<close>\<close>
  "Failure details = ClassError ''Failure'' (''Xen-API failure: '' @ json_repr (failure_details details))"

definition parse_result :: "json \<Rightarrow> json option outcome" where
  \<comment> \<open>nothing stands for \<open>_RECONNECT_AND_RETRY\<close>\<close>
  "parse_result result = (case json_member ''Status'' result of
      None \<Rightarrow> bindO (json_text result) (\<lambda>t. Raise (Fault 500 (''Missing Status in response from server'' @ t)))
    | Some status \<Rightarrow>
        if status = JStr ''Success'' then
          (case json_member ''Value'' result of
             Some v \<Rightarrow> Ret (Some v)
           | None \<Rightarrow> Raise (Fault 500 ''Missing Value in response from server''))
        else (case json_member ''ErrorDescription'' result of
            None \<Rightarrow> Raise (Fault 500 ''Missing ErrorDescription in response from server'')
          | Some details \<Rightarrow> bindO (json_index 0 details) (\<lambda>c.
              if c = JStr ''SESSION_INVALID'' then Ret None else Raise (Failure details))))"

definition xen_call :: "'d xmlrpc \<Rightarrow> string \<Rightarrow> json list \<Rightarrow> ('d xen, json option) prog" where
  "xen_call X meth params = bindM (\<lambda>s. case X meth params (xen_server (world s)) of (a, t, d) \<Rightarrow>
       (answer_outcome a, s\<lparr>clock := clock s + t, world := (world s)\<lparr>xen_server := d\<rparr>\<rparr>)) (\<lambda>v. liftM (parse_result v))"

definition login_xen :: "'d xmlrpc \<Rightarrow> string \<Rightarrow> json list \<Rightarrow> ('d xen, unit) prog" where
  "login_xen X meth params =
     bindM (xen_call X (''session.'' @ meth) params) (\<lambda>r. case r of
         None \<Rightarrow> raiseM (Fault 500 ''Received SESSION_INVALID when logging in'')
       | Some v \<Rightarrow> modM (\<lambda>s. s\<lparr>world := (world s)\<lparr>xen_session := v, last_login := Some (meth, params)\<rparr>\<rparr>))"

fun xen_retry :: "nat \<Rightarrow> 'd xmlrpc \<Rightarrow> string \<Rightarrow> json list \<Rightarrow> ('d xen, json) prog" where
  \<comment> \<open>with the number of times that are left\<close>
  "xen_retry 0 X meth params = raiseM (Fault 500 ''Tried 3 times to get a valid session, but failed'')"
| "xen_retry (Suc n) X meth params =
     bindM (getM (\<lambda>s. xen_session (world s))) (\<lambda>session.
     bindM (xen_call X meth (session # params)) (\<lambda>r. case r of
         Some v \<Rightarrow> retM v
       | None \<Rightarrow>
           bindM (getM (\<lambda>s. last_login (world s))) (\<lambda>before. case before of
               None \<Rightarrow> raiseM (Fault 401 ''You must log in'')
             | Some (m, ps) \<Rightarrow> seqM (login_xen X m ps) (xen_retry n X meth params))))"

definition xenapi_request :: "'d xmlrpc \<Rightarrow> string \<Rightarrow> json list \<Rightarrow> ('d xen, json) prog" where
  "xenapi_request X meth params =
     (if py_startswith ''login'' meth then seqM (login_xen X meth params) (retM JNull) else xen_retry 3 X meth params)"

section \<open>The agent\<close>

definition print_exception :: "exn \<Rightarrow> ('w, unit) prog" where
  \<comment> \<open>\<open>print(str(exn))\<close>: the text of a failure of the server is not found without an error message\<close>
  "print_exception e =
     seqM (if class_name e = ''Failure'' then
         logM ([CHR 0x27] @ ''NullTranslations'' @ [CHR 0x27] @ '' object has no attribute '' @ [CHR 0x27] @ ''ugettext'' @ [CHR 0x27] @ nl)
       else retM ())
     (printM (exn_text e))"

definition verboseM :: "('w, unit) prog \<Rightarrow> ('w, unit) prog" where
  "verboseM m = bindM (hasoptM ''--verbose'') (\<lambda>verbose. if verbose then m else retM ())"

definition return_vm_reference :: "'d xmlrpc \<Rightarrow> ('d xen, json) prog" where
  "return_vm_reference X =
     bindM (hasoptM ''--uuid'') (\<lambda>by_uuid.
     if by_uuid then
       bindM (stroptM ''--uuid'') (\<lambda>t. let uuid = py_lower t in
       tryM (xenapi_request X ''VM.get_by_uuid'' [JStr uuid])
         (\<lambda>e. Some (seqM (verboseM (printM (''No VM'' @ [CHR 0x27] @ ''s found with a UUID of \"'' @ uuid @ ''\"''))) (raiseM e))))
     else
       bindM (hasoptM ''--plug'') (\<lambda>by_name.
       if \<not> by_name then raiseM (ClassError ''Exception'' ''VM_LOGIC_ERROR'')
       else
         bindM (showoptM ''--plug'') (\<lambda>vm_name.
         bindM (xenapi_request X ''VM.get_by_name_label'' [JStr vm_name]) (\<lambda>vm_arr.
         bindM (liftM (json_len vm_arr)) (\<lambda>n.
         if n = 1 then liftM (json_index 0 vm_arr)
         else if n = 0 then
           seqM (verboseM (printM (''No VM'' @ [CHR 0x27] @ ''s found with a name of \"'' @ vm_name @ ''\"''))) (raiseM (ClassError ''Exception'' ''NAME_INVALID''))
         else
           seqM (verboseM (printM (''Multiple VM'' @ [CHR 0x27] @ ''s have the name \"'' @ vm_name @ ''\", use UUID instead'')))
                (raiseM (ClassError ''Exception'' ''MULTIPLE_VMS_FOUND'')))))))"

definition is_machine :: "json \<Rightarrow> bool outcome" where
  \<comment> \<open>neither a template nor the control domain\<close>
  "is_machine rec =
     bindO (json_item ''is_a_template'' rec) (\<lambda>t.
     if json_true t then Ret False else bindO (json_item ''is_control_domain'' rec) (\<lambda>c. Ret (\<not> json_true c)))"

definition show_machine :: "json \<Rightarrow> ('w, unit) prog" where
  "show_machine rec =
     bindM (itemM ''uuid'' rec) (\<lambda>uuid.
     bindM (itemM ''name_label'' rec) (\<lambda>name.
     bindM (itemM ''power_state'' rec) (\<lambda>state.
       printM (''UUID: '' @ json_str uuid @ '' NAME: '' @ json_str name @ '' POWER STATUS: '' @ json_str state))))"

definition get_power_fn_xenapi :: "'d xmlrpc \<Rightarrow> ('d xen, string option) prog" where
  "get_power_fn_xenapi X = tryM
     (bindM (return_vm_reference X) (\<lambda>vm.
      bindM (xenapi_request X ''VM.get_record'' [vm]) (\<lambda>rec.
      bindM (liftM (is_machine rec)) (\<lambda>ok.
      if \<not> ok then retM (Some ''Error'')
      else
        bindM (itemM ''power_state'' rec) (\<lambda>status.
        seqM (verboseM (show_machine rec)) (retM (Some (if status = JStr ''Halted'' then ''off'' else ''on''))))))))
     (\<lambda>e. Some (seqM (print_exception e) (retM (Some ''Error''))))"

definition set_power_fn_xenapi :: "'d xmlrpc \<Rightarrow> ('d xen, unit) prog" where
  "set_power_fn_xenapi X = tryM
     (bindM (return_vm_reference X) (\<lambda>vm.
      bindM (xenapi_request X ''VM.get_record'' [vm]) (\<lambda>rec.
      bindM (liftM (is_machine rec)) (\<lambda>ok.
      if \<not> ok then retM ()
      else
        bindM (optM ''--action'') (\<lambda>action.
        if action = PStr ''on'' then seqM (xenapi_request X ''VM.start'' [vm, JBool False, JBool True]) (retM ())
        else if action = PStr ''off'' then seqM (xenapi_request X ''VM.hard_shutdown'' [vm]) (retM ())
        else if action = PStr ''reboot'' then seqM (xenapi_request X ''VM.hard_reboot'' [vm]) (retM ())
        else retM ())))))
     (\<lambda>e. Some (print_exception e))"

definition xen_entry :: "'d xmlrpc \<Rightarrow> outlet list \<Rightarrow> json \<Rightarrow> ('d xen, outlet list) prog" where
  "xen_entry X result vm =
     bindM (xenapi_request X ''VM.get_record'' [vm]) (\<lambda>rec.
     bindM (liftM (is_machine rec)) (\<lambda>ok.
     if \<not> ok then retM result
     else
       bindM (itemM ''name_label'' rec) (\<lambda>name.
       bindM (itemM ''uuid'' rec) (\<lambda>uuid.
       bindM (itemM ''power_state'' rec) (\<lambda>status.
       bindM (liftM (outlet_key uuid)) (\<lambda>k.
       bindM (liftM (outlet_status status)) (\<lambda>st.
       seqM (verboseM (show_machine rec)) (retM (AList.update k (json_str name, st) result)))))))))"

definition get_outlet_list_xenapi :: "'d xmlrpc \<Rightarrow> ('d xen, outlet list) prog" where
  "get_outlet_list_xenapi X =
     bindM (tryM
       (bindM (xenapi_request X ''VM.get_all'' []) (\<lambda>vms.
        bindM (liftM (json_iter vms)) (fill_until (xen_entry X) [])))
       (\<lambda>e. Some (retM ([], Some e)))) (\<lambda>(result, failure).
     seqM (case failure of None \<Rightarrow> retM () | Some e \<Rightarrow> print_exception e) (retM result))"

definition connect_and_login :: "'d xmlrpc \<Rightarrow> ('d xen, unit) prog" where
  "connect_and_login X =
     bindM (showoptM ''--session-url'') (\<lambda>url.
     bindM (json_opt ''--username'') (\<lambda>username.
     bindM (json_opt ''--password'') (\<lambda>password.
       tryM (if py_startswith ''http://'' url \<or> py_startswith ''https://'' url
             then seqM (xenapi_request X ''login_with_password'' [username, password]) (retM ())
             else raiseM (OSErr ''unsupported XML-RPC protocol''))
         (\<lambda>e. Some (seqM (print_exception e) (exitM 1))))))"

definition fns_xenapi :: "'d xmlrpc \<Rightarrow> 'd xen power_fns" where
  "fns_xenapi X = \<lparr>set_power_fn = Some (set_power_fn_xenapi X), get_power_fn = Some (get_power_fn_xenapi X),
     get_outlet_list = Some (get_outlet_list_xenapi X), reboot_cycle_fn = None, sync_set_power_fn = None\<rparr>"

definition device_opt_xenapi :: "string list" where
  "device_opt_xenapi = [''login'', ''passwd'', ''port'', ''no_login'', ''no_password'', ''session_url'', ''web'']"

definition docs_xenapi :: docs where
  "docs_xenapi = \<lparr>agent_name = None, shortdesc = ''Fence agent for Citrix XenServer over XenAPI'',
     longdesc = ''fence_xenapi is a Power Fencing agent used on Citrix XenServer hosts. It uses the XenAPI, supplied by Citrix, to establish an XML-RPC session to a XenServer host. Once the session is established, further XML-RPC commands are issued in order to switch on, switch off, restart and query the status of virtual machines running on the host.'',
     vendorurl = Some ''http://www.xenproject.org'', symlink = []\<rparr>"

definition main_xenapi where
  "main_xenapi X set_order time_start fuel =
     seqM (on_lib (read_options device_opt_xenapi False))
    (seqM (on_lib (show_docs set_order (Some docs_xenapi)))
    (seqM (run_delay time_start 0 0)
    (seqM (on_dev (connect_and_login X))
          (exit_with (on_dev (fence_action fuel (fns_xenapi X)))))))"

end
