(* ===== verification/Web_Guarantees.thy ===== *)
theory Web_Guarantees
  imports Fence_Guarantees Web_Props Fence_Ibmz Fence_Nutanix Fence_Xenapi
begin

text \<open>
  The properties of the agents that reach a web service or the client library of one. Nothing is
  assumed of the service but where a property says so; the witnesses run the agents against simulated
  services.
\<close>

section \<open>Simulated services\<close>

definition web_opts :: "string \<Rightarrow> (string \<times> string) list \<Rightarrow> pydict" where
  \<comment> \<open>the options of the library, and those of an agent\<close>
  "web_opts action extra = [''--action'' \<mapsto> PStr action, ''--plug-separator'' \<mapsto> PStr '','', ''--ip'' \<mapsto> PStr ''host'',
     ''--ipport'' \<mapsto> PStr ''443'', ''--username'' \<mapsto> PStr ''admin'', ''--password'' \<mapsto> PStr ''x'',
     ''--shell-timeout'' \<mapsto> PStr ''3'', ''--login-timeout'' \<mapsto> PStr ''5'', ''--power-timeout'' \<mapsto> PStr ''20'',
     ''--power-wait'' \<mapsto> PStr ''0'', ''--stonith-status-sleep'' \<mapsto> PStr ''1'', ''--retry-on'' \<mapsto> PStr ''1'',
     ''device_opt'' \<mapsto> PList [''port'']] ++ map_of (map (\<lambda>(k, v). (k, PStr v)) extra)"

definition web_st :: "string \<Rightarrow> (string \<times> string) list \<Rightarrow> 'w \<Rightarrow> 'w st" where
  "web_st action extra w = \<lparr>opts = web_opts action extra, outp = [], errs = [], clock = 0, world = w\<rparr>"

definition bmc :: "bool requests" where
  \<comment> \<open>a management controller whose world is whether the machine is on; a POST of any action switches it off\<close>
  "bmc q on = (if verb q = ''POST'' then (Ans (reply 204 []), 1, False)
     else (Ans (reply 200 (json_dumps (JObj [(''PowerState'', JStr (if on then ''On'' else ''Off'')),
         (''Actions'', JObj [(''#ComputerSystem.Reset'', JObj [(''target'', JStr ''/reset'')])])]))), 1, on))"

definition ec2 :: "bool client" where
  \<comment> \<open>a cloud with one instance, whose world is whether it runs\<close>
  "ec2 f args running =
     (if f = ''instances.filter'' then
        (Ans (JList [JObj [(''id'', JStr ''i-1''), (''tags'', JNull),
           (''state'', JObj [(''Name'', JStr (if running then ''running'' else ''stopped''))])]]), 1, running)
      else if f = ''instances.stop'' then (Ans JNull, 1, False) else (Ans JNull, 1, running))"

section \<open>Asking for the status\<close>

definition cloud_agents ::
  "'d client \<Rightarrow> 'd aliyun \<Rightarrow> ((string \<times> (string \<times> json) list) list \<times> 'd) requests \<Rightarrow> bool \<Rightarrow>
     (((string \<times> (string \<times> json) list) list \<times> 'd) power_fns \<times> string list) list" where
  \<comment> \<open>with the calls that ask\<close>
  "cloud_agents C A R online =
    [(fns_aws (recorded_client C) R, [''instances.filter'']),
     (fns_aliyun (recorded_client A) online, [''DescribeInstances'']),
     (fns_kubevirt (recorded_client C), [''list_kube_config_contexts'', ''resources.get'', ''get'']),
     (fns_openstack (recorded_client C), [''servers.get''])]"

definition rest_agents :: "'d requests \<Rightarrow> skalar_env \<Rightarrow> web_request \<Rightarrow> bool \<Rightarrow> nat \<Rightarrow> (web_request list \<times> 'd) power_fns list" where
  "rest_agents R V session diag n =
    [fns_redfish (recorded R) diag, fns_ecloud (recorded R), fns_skalar (recorded R) V, fns_ovm n (recorded R) session]"

text \<open>
  C32. Asking a cloud for the status changes nothing there: each call that the agents for AWS, Aliyun,
  KubeVirt and OpenStack make of their client libraries during the action "status" is one of those
  that only read, whatever the services answer and whichever calls fail.
\<close>

theorem cloud_status_only_asks:
  assumes "(F, names) \<in> set (cloud_agents C A R online)"
    and "opts s ''--action'' = Some (PStr ''status'')"
    and "fence_action fuel F s = (r, s')"
  shows "\<exists>calls. fst (world s') = fst (world s) @ calls \<and> list_all (\<lambda>(f, args). f \<in> set names) calls"
proof -
  from assms(1) have "asks_for (calls_of names) F"
    using aws_asks aliyun_asks kubevirt_asks openstack_asks by (auto simp: cloud_agents_def)
  from status_asks_for [OF this assms(2,3)] show ?thesis by (simp add: calls_of_def)
qed

theorem cloud_status_only_asks_witness:
  "\<exists>s' calls. fence_action 3 (fns_aws (recorded_client ec2) undefined) (web_st ''status'' [(''--plug'', ''i-1'')] ([], False)) = (Ret 2, s') \<and>
     fst (world s') = calls \<and> length calls = 1 \<and> list_all (\<lambda>(f, args). f \<in> set [''instances.filter'']) calls"
proof -
  let ?s = "web_st ''status'' [(''--plug'', ''i-1'')] ([], False)"
  have runs: "fst (fence_action 3 (fns_aws (recorded_client ec2) undefined) ?s) = Ret 2"
    "length (fst (world (snd (fence_action 3 (fns_aws (recorded_client ec2) undefined) ?s)))) = 1" by code_simp+
  note run = run_pair [OF runs(1)]
  have "(fns_aws (recorded_client ec2) undefined, [''instances.filter'']) \<in> set (cloud_agents ec2 undefined undefined True)"
    by (simp add: cloud_agents_def)
  from cloud_status_only_asks [OF this _ run] runs(2) run show ?thesis
    by (auto simp: web_st_def web_opts_def)
qed

text \<open>
  C33. Asking over HTTP for the status changes nothing either: during the action "status" the agents for
  Redfish, eCloud, Skala-R and Oracle VM send requests of the method GET only.
\<close>

theorem rest_status_only_gets:
  assumes "F \<in> set (rest_agents R V session diag n)"
    and "opts s ''--action'' = Some (PStr ''status'')"
    and "fence_action fuel F s = (r, s')"
  shows "\<exists>qs. fst (world s') = fst (world s) @ qs \<and> list_all (\<lambda>q. verb q = ''GET'') qs"
proof -
  from assms(1) have "asks_for gets F"
    using redfish_asks ecloud_asks skalar_asks ovm_asks by (auto simp: rest_agents_def)
  from status_asks_for [OF this assms(2,3)] show ?thesis by (auto simp: gets_def list_all_iff)
qed

theorem rest_status_only_gets_witness:
  "\<exists>s' qs. fence_action 3 (fns_redfish (recorded bmc) False)
       (web_st ''status'' [(''--systems-uri'', ''/redfish/v1/Systems/1'')] ([], True)) = (Ret 0, s') \<and>
     fst (world s') = qs \<and> length qs = 1 \<and> list_all (\<lambda>q. verb q = ''GET'') qs"
proof -
  let ?s = "web_st ''status'' [(''--systems-uri'', ''/redfish/v1/Systems/1'')] ([], True)"
  have runs: "fst (fence_action 3 (fns_redfish (recorded bmc) False) ?s) = Ret 0"
    "length (fst (world (snd (fence_action 3 (fns_redfish (recorded bmc) False) ?s)))) = 1" by code_simp+
  note run = run_pair [OF runs(1)]
  have "fns_redfish (recorded bmc) False \<in> set (rest_agents bmc undefined undefined False 0)"
    by (simp add: rest_agents_def)
  from rest_status_only_gets [OF this _ run] runs(2) run show ?thesis by (auto simp: web_st_def web_opts_def)
qed


section \<open>Off over Redfish\<close>

text \<open>
  C30. An off over Redfish that succeeds has been read back from the machine, through the whole library:
  the last request of the process before it prints its success was a GET, and what it was answered is a
  JSON document whose PowerState is Off. Nothing is assumed of the management controller, which may
  answer the request that switches in any way.
\<close>

theorem redfish_off_read_back:
  assumes "opts s ''--action'' = Some (PStr ''off'')"
    and "fence_action fuel (fns_redfish R diag) s = (Ret r, s')"
    and "plugs_of (split_opts (opts s)) = Some ps" "ps \<noteq> []"
  shows "r = 0 \<and> (\<exists>q d resp t data state. R q d = (Ans resp, t, world s') \<and> verb q = ''GET'' \<and>
    json_loads (r_text resp) = Ret data \<and> json_item ''PowerState'' data = Ret (JStr state) \<and> py_strip state = ''Off'')"
proof -
  have "get_power_fn (fns_redfish R diag) = Some (get_power_status_redfish R)"
    "set_power_fn (fns_redfish R diag) = Some (seqM (set_power_status_redfish R) (retM ()))" by (simp_all add: fns_redfish_def)
  from asked_device.off_read_back [OF redfish_device this assms(1-3)]
  have "r = 0" and "off_was_read (get_power_status_redfish R) ps s'" by auto
  with off_was_read_last [OF _ assms(4)] redfish_reads_off show ?thesis by metis
qed

theorem redfish_off_read_back_witness:
  "\<exists>s'. fence_action 3 (fns_redfish bmc False) (web_st ''off'' [(''--systems-uri'', ''/redfish/v1/Systems/1'')] True) = (Ret 0, s') \<and>
     (\<exists>q d resp t data state. bmc q d = (Ans resp, t, world s') \<and> verb q = ''GET'' \<and>
        json_loads (r_text resp) = Ret data \<and> json_item ''PowerState'' data = Ret (JStr state) \<and> py_strip state = ''Off'')"
proof -
  let ?s = "web_st ''off'' [(''--systems-uri'', ''/redfish/v1/Systems/1'')] True"
  have runs: "fst (fence_action 3 (fns_redfish bmc False) ?s) = Ret 0" by code_simp
  note run = run_pair [OF this]
  have "plugs_of (split_opts (opts ?s)) = Some ['''']" "opts ?s ''--action'' = Some (PStr ''off'')"
    by (simp_all add: plugs_of_def split_opts_def web_st_def web_opts_def)
  from redfish_off_read_back [OF this(2) run this(1)] run show ?thesis
    by (intro exI [of _ "snd (fence_action 3 (fns_redfish bmc False) ?s)"]) simp
qed

section \<open>The race check of AWS\<close>



text \<open>
  The race check is no protection where it is needed most: on a node that cannot reach the metadata
  service, and so does not know its own identifier, the client library refuses the question about an
  instance without one; the agent takes this for an old version of the library and stops the other node
  without the check.
\<close>

theorem aws_race_check_bypassed:
  assumes "opts s ''--action'' = Some (PStr ''off'')" "opts s ''--skip-race-check'' = None"
    and "opts s ''--skip-os-shutdown'' = Some (PStr v)"
    and "R (metadata_request ''PUT'' ''api/token'' (''X-aws-ec2-metadata-token-ttl-seconds'', ''21600'')) (world s) = (Fails e, t1, d1)"
    and "C ''instances.filter'' [(''Filters'', aws_filter ''instance-id'' JNull)] d1 = (Fails (ClassError ''ParamValidationError'' m), t2, d2)"
  shows "\<exists>s2. opts s2 = opts s \<and> world s2 = d2 \<and> set_power_status_aws C R s = stop_aws C [(''Force'', JBool True)] s2"
proof -
  obtain s1 where own: "get_instance_id R s = (Ret JNull, s1)" and s1: "world s1 = d1"
    using assms(2,4) by (cases "class_name e = ''HTTPError''")
      (auto simp: get_instance_id_def tryM_def bindM_def queryM_def answer_outcome_def run_prims)
  have o1: "opts s1 = opts s" using still_optsD [OF aws_still_opts(1) own] .
  let ?s2 = "s1\<lparr>clock := clock s1 + t2, world := d2\<rparr>"
  have "get_self_power_status C JNull s1 = (Raise (ClassError ''ParamValidationError'' m), ?s2)"
    using assms(5) s1 by (simp add: get_self_power_status_def aws_find_def tryM_def bindM_def clientM_def queryM_def answer_outcome_def
      class_name_def)
  then have "switch_aws C JNull s1 = (Raise (ClassError ''ParamValidationError'' m), ?s2)"
    using switch_aws_off [of s1 v C JNull] assms(1-3) o1 by (auto simp: bindM_step)
  then have "set_power_status_aws C R s = stop_aws C [(''Force'', JBool True)] ?s2"
    using own assms(1) o1 by (simp add: set_power_status_aws_def bindM_step tryM_step class_name_def run_simps)
  then show ?thesis using o1 by (intro exI [of _ ?s2]) simp
qed

theorem aws_race_check_bypassed_witness:
  "let s = web_st ''off'' [(''--plug'', ''i-1''), (''--skip-os-shutdown'', ''true'')] True;
       R = (\<lambda>q d. (Fails (ClassError ''ConnectTimeout'' ''no route''), 5, d));
       C = (\<lambda>f args. if f = ''instances.filter'' \<and> args = [(''Filters'', aws_filter ''instance-id'' JNull)]
              then (\<lambda>d. (Fails (ClassError ''ParamValidationError'' ''Invalid type''), 0, d)) else ec2 f args)
   in \<exists>s'. set_power_status_aws C R s = (Ret (), s') \<and> \<not> world s'"
proof -
  let ?s = "web_st ''off'' [(''--plug'', ''i-1''), (''--skip-os-shutdown'', ''true'')] True"
  let ?R = "\<lambda>q d. (Fails (ClassError ''ConnectTimeout'' ''no route''), 5, d) :: http_reply answer \<times> rat \<times> bool"
  let ?C = "\<lambda>f args. if f = ''instances.filter'' \<and> args = [(''Filters'', aws_filter ''instance-id'' JNull)]
    then (\<lambda>d. (Fails (ClassError ''ParamValidationError'' ''Invalid type''), 0, d)) else ec2 f args"
  have "opts ?s ''--action'' = Some (PStr ''off'')" "opts ?s ''--skip-race-check'' = None"
    "opts ?s ''--skip-os-shutdown'' = Some (PStr ''true'')" "opts ?s ''--plug'' = Some (PStr ''i-1'')"
    by (simp_all add: web_st_def web_opts_def)
  moreover from aws_race_check_bypassed [OF this(1-3), of ?R _ _ _ ?C] obtain s2 where
    "opts s2 = opts ?s" "set_power_status_aws ?C ?R ?s = stop_aws ?C [(''Force'', JBool True)] s2" by auto
  ultimately show ?thesis unfolding Let_def
    by (simp add: stop_aws_def json_opt_def bindM_def optM_def clientM_def queryM_def answer_outcome_def retM_def ec2_def)
qed

end
