(* ===== verification/Client_Guarantees.thy ===== *)
theory Client_Guarantees
  imports Web_Guarantees
begin

text \<open>
  More properties of agents of web services: power cycles that are never confirmed (Nutanix), jobs that are
  waited for (IBM z), sessions that are renewed (XenServer), and certificates that are not checked (OpenStack).
\<close>

section \<open>Nutanix\<close>

lemma steady_ahv_prims [always_intro]: "steady (ahv_query R q)" "steady (option_json k)" "steady (optional k)"
  by (auto simp: always_def agree_rel_def ahv_query_def option_json_def optional_def run_prims split: prod.splits)

lemma steady_reraise [always_intro]: "steady m \<Longrightarrow> steady (reraise hs m)"
  unfolding reraise_def by (auto intro!: always_intro split: option.splits)

lemma steady_exception_codes [always_intro]: "steady m \<Longrightarrow> steady (exception_codes l m)"
  unfolding exception_codes_def Let_def by (auto intro!: always_intro split: if_splits)

lemma steady_named_vm [always_intro]: "(\<And>a b. steady (m a b)) \<Longrightarrow> steady (named_vm t m)"
  unfolding named_vm_def by (auto intro!: always_intro)

lemma steady_needs_name [always_intro]: "steady m \<Longrightarrow> steady (needs_name a b m)"
  unfolding needs_name_def by (auto intro!: always_intro)

lemma steady_request_ahv [always_intro]: "steady (request_ahv R N meth url hs)"
  unfolding request_ahv_def no_response_def Let_def by (auto intro!: always_intro always_modM simp: agree_rel_def split: if_splits)

lemma steady_get_vm [always_intro]: "steady (get_vm R N u)"
  unfolding get_vm_def by (auto intro!: always_intro)

lemma steady_get_vm_uuid [always_intro]: "steady (get_vm_uuid R N n)"
  unfolding get_vm_uuid_def get_all_vms_def Let_def by (auto intro!: always_intro)

lemma steady_get_power_state [always_intro]: "steady (get_power_state R N a b)"
  unfolding get_power_state_def by (auto intro!: always_intro)

lemma steady_get_power_status_ahv: "steady (get_power_status_ahv R N)"
  unfolding get_power_status_ahv_def by (intro always_intro)

lemma ahv_reader: "status_callback (get_power_status_ahv R N)"
  by unfold_locales (rule agreesD [OF steady_agrees [OF steady_get_power_status_ahv]])

text \<open>
  C37. A power cycle of a Nutanix machine is never confirmed: the function that cycles it returns
  nothing, which the library takes for a failure, so that a reboot with the method cycle never succeeds,
  even when the cluster reports each task as succeeded; the machine is cycled once more for every retry.
\<close>

theorem nutanix_cycle_never_succeeds:
  assumes "opts s ''--action'' = Some (PStr ''reboot'')" "opts s ''--method'' = Some (PStr m)" "py_lower m = ''cycle''"
    and "int_opt (opts s) ''--retry-on'' = Some k" "0 \<le> k"
    and "plugs_of (split_opts (opts s)) = Some ps" "ps \<noteq> []"
  shows "fst (fence_action fuel (fns_nutanix_ahv R N uuid1) s) \<noteq> Ret r"
proof
  assume "fst (fence_action fuel (fns_nutanix_ahv R N uuid1) s) = Ret r"
  note run = run_pair [OF this]
  have "get_power_fn (fns_nutanix_ahv R N uuid1) = Some (get_power_status_ahv R N)"
    "reboot_cycle_fn (fns_nutanix_ahv R N uuid1) = Some (power_cycle_ahv R N uuid1)" by (simp_all add: fns_nutanix_ahv_def)
  from status_callback.cycle_was_confirmed [OF ahv_reader this assms run]
  show False by (auto simp: power_cycle_ahv_def named_vm_def ret_iff)
qed

definition prism :: "bool requests" where
  \<comment> \<open>a cluster with one machine, whose world is whether it is on; every task succeeds\<close>
  "prism q on =
     (if py_in ''/tasks/'' (target q) then (Ans (reply 200 (json_dumps (JObj [(''data'', JObj [(''status'', JStr ''SUCCEEDED'')])]))), 1, on)
      else if verb q = ''POST'' then (Ans (reply 202 (json_dumps (JObj [(''data'', JObj [(''extId'', JStr ''t1'')])]))), 1, True)
      else (Ans ((reply 200 (json_dumps (JObj [(''data'', JObj [(''powerState'', JStr (if on then ''ON'' else ''OFF''))])])))
         \<lparr>r_headers := [(''etag'', ''e1'')]\<rparr>), 1, on))"

definition ahv_client :: nutanix where
  "ahv_client = \<lparr>ahv_host = JStr ''prism'', ahv_username = PStr ''admin'', ahv_password = PStr ''x'', ahv_verify = True\<rparr>"

theorem nutanix_cycle_never_succeeds_witness:
  "let s = web_st ''reboot'' [(''--uuid'', ''6f1c''), (''--method'', ''cycle'')] \<lparr>ahv_net = True, ahv_headers = []\<rparr>
   in (\<exists>s'. power_cycle_ahv prism ahv_client (\<lambda>_. ''u1'') s = (Ret False, s')) \<and>
      fst (fence_action 3 (fns_nutanix_ahv prism ahv_client (\<lambda>_. ''u1'')) s) \<noteq> Ret 0"
proof -
  let ?s = "web_st ''reboot'' [(''--uuid'', ''6f1c''), (''--method'', ''cycle'')] \<lparr>ahv_net = True, ahv_headers = []\<rparr>"
  have o: "opts ?s ''--action'' = Some (PStr ''reboot'')" "opts ?s ''--method'' = Some (PStr ''cycle'')" "py_lower ''cycle'' = ''cycle''"
    "int_opt (opts ?s) ''--retry-on'' = Some 1" "(0::int) \<le> 1" "plugs_of (split_opts (opts ?s)) = Some ['''']" "[''''] \<noteq> []"
    by code_simp+
  have "fst (power_cycle_ahv prism ahv_client (\<lambda>_. ''u1'') ?s) = Ret False" by code_simp
  from run_pair [OF this] nutanix_cycle_never_succeeds [OF o] show ?thesis unfolding Let_def by blast
qed


section \<open>The sessions of XenServer\<close>

lemma xen_call_run:
  assumes "X meth params (xen_server (world s)) = (Ans v, t, d)"
  shows "xen_call X meth params s = (parse_result v, s\<lparr>clock := clock s + t, world := (world s)\<lparr>xen_server := d\<rparr>\<rparr>)"
  using assms by (simp add: xen_call_def bindM_def answer_outcome_def liftM_def)

lemma xen_call_recorded:
  assumes "xen_call (recorded_client X) meth params s = (r, s')"
  shows "fst (xen_server (world s')) = fst (xen_server (world s)) @ [(meth, params)] \<and> last_login (world s') = last_login (world s)"
  using assms by (auto simp: xen_call_def bindM_def liftM_def recorded_client_def recorded_def split: prod.splits outcome.splits)

lemma login_xen_recorded:
  assumes "login_xen (recorded_client X) m ps s = (r, s')"
  shows "fst (xen_server (world s')) = fst (xen_server (world s)) @ [(''session.'' @ m, ps)] \<and>
    (r = Ret () \<longrightarrow> last_login (world s') = Some (m, ps))"
proof -
  define f where "f = ''session.'' @ m"
  obtain v s1 where v: "xen_call (recorded_client X) f ps s = (v, s1)" by fastforce
  from xen_call_recorded [OF v] assms [unfolded login_xen_def f_def [symmetric]] show ?thesis unfolding f_def [symmetric]
    by (auto simp: bindM_def [of "xen_call a b c" for a b c] v run_prims split: outcome.splits option.splits)
qed

lemma xen_retry_calls:
  "xen_retry n (recorded_client X) meth params s = (r, s') \<Longrightarrow>
   (\<And>m ps. last_login (world s) = Some (m, ps) \<Longrightarrow> meth \<noteq> ''session.'' @ m) \<Longrightarrow>
   \<exists>calls. fst (xen_server (world s')) = fst (xen_server (world s)) @ calls \<and>
     length (filter (\<lambda>(f, _). f = meth) calls) \<le> n \<and> length (filter (\<lambda>(f, _). f \<noteq> meth) calls) \<le> n"
proof (induction n arbitrary: s)
  case 0
  then show ?case by (simp add: run_prims)
next
  case (Suc n)
  obtain v s1 where v: "xen_call (recorded_client X) meth (xen_session (world s) # params) s = (v, s1)" by fastforce
  note one = xen_call_recorded [OF v]
  show ?case
  proof (cases "v = Ret None \<and> last_login (world s1) \<noteq> None")
    case True
    with v have v1: "xen_call (recorded_client X) meth (xen_session (world s) # params) s = (Ret None, s1)" by simp
    note step1 = bindM_step(1) [of "xen_call (recorded_client X) meth (xen_session (world s) # params)" s None s1, OF v1]
    from True obtain m ps where m: "last_login (world s1) = Some (m, ps)" by auto
    obtain u s2 where u: "login_xen (recorded_client X) m ps s1 = (u, s2)" by fastforce
    note two = login_xen_recorded [OF u]
    have other: "meth \<noteq> ''session.'' @ m" using Suc.prems(2) m one by simp
    show ?thesis
    proof (cases "u = Ret ()")
      case ok: True
      have "xen_retry n (recorded_client X) meth params s2 = (r, s')"
        using Suc.prems(1) m u ok by (simp add: bindM_getM step1 bindM_step(1) [of "login_xen (recorded_client X) m ps"])
      moreover have "last_login (world s2) = Some (m, ps)" using two ok by simp
      ultimately obtain calls where "fst (xen_server (world s')) = fst (xen_server (world s2)) @ calls"
        "length (filter (\<lambda>(f, _). f = meth) calls) \<le> n" "length (filter (\<lambda>(f, _). f \<noteq> meth) calls) \<le> n"
        using Suc.IH [of s2] other by auto
      with one two other show ?thesis
        by (intro exI [of _ "(meth, xen_session (world s) # params) # (''session.'' @ m, ps) # calls"]) auto
    next
      case False
      with Suc.prems(1) m u have "s' = s2"
        by (cases u) (auto simp: bindM_getM step1 bindM_def [of "login_xen (recorded_client X) m ps"])
      with one two other show ?thesis
        by (intro exI [of _ "[(meth, xen_session (world s) # params), (''session.'' @ m, ps)]"]) auto
    qed
  next
    case False
    with Suc.prems(1) have "s' = s1"
      by (cases v) (auto simp: bindM_getM bindM_def [of "xen_call (recorded_client X) meth p" for p] v run_prims split: option.splits)
    with one show ?thesis by (intro exI [of _ "[(meth, xen_session (world s) # params)]"]) auto
  qed
qed

text \<open>
  C35. A session of XenServer that was dropped is renewed without the agent noticing: when the server
  answers a call with SESSION\_INVALID, the client logs in again as it did before, and repeats the call in the new
  session with the same arguments; its result is the result of the call, and the new session is kept.
\<close>

theorem xen_session_renewed:
  assumes "\<not> py_startswith ''login'' meth" and "last_login (world s) = Some (m, ps)"
    and "X meth (xen_session (world s) # params) (xen_server (world s)) = (Ans dropped, t1, d1)" "parse_result dropped = Ret None"
    and "X (''session.'' @ m) ps d1 = (Ans logged_in, t2, d2)" "parse_result logged_in = Ret (Some session)"
    and "X meth (session # params) d2 = (Ans result, t3, d3)" "parse_result result = Ret (Some v)"
  shows "xenapi_request X meth params s = (Ret v, s\<lparr>clock := clock s + t1 + t2 + t3,
    world := (world s)\<lparr>xen_server := d3, xen_session := session, last_login := Some (m, ps)\<rparr>\<rparr>)"
  using assms
  by (simp add: xenapi_request_def numeral_3_eq_3 bindM_step login_xen_def run_prims bindM_prims bindM_getM
      xen_call_run [of X meth "xen_session (world s) # params" s] bindM_def [of "xen_call X a b" for a b] xen_call_run)

definition xen_pool :: "int xmlrpc" where
  \<comment> \<open>a server whose world is the number of the session that is valid; logging in begins the next one\<close>
  "xen_pool meth params n =
     (let success = (\<lambda>v. JObj [(''Status'', JStr ''Success''), (''Value'', v)]) in
      if py_startswith ''session.login'' meth then (Ans (success (JInt (n + 1))), 1, n + 1)
      else if hd params = JInt n then (Ans (success (JStr ''Halted'')), 1, n)
      else (Ans (JObj [(''Status'', JStr ''Failure''), (''ErrorDescription'', JList [JStr ''SESSION_INVALID'', hd params])]), 1, n))"

theorem xen_session_renewed_witness:
  "let s = web_st ''status'' [] \<lparr>xen_server = 7, xen_session = JInt 3, last_login = Some (''login_with_password'', [JStr ''root'', JStr ''x''])\<rparr>
   in xenapi_request xen_pool ''VM.get_power_state'' [JStr ''vm1''] s = (Ret (JStr ''Halted''),
     s\<lparr>clock := 3, world := (world s)\<lparr>xen_server := 8, xen_session := JInt 8\<rparr>\<rparr>)"
proof -
  let ?s = "web_st ''status'' [] \<lparr>xen_server = 7, xen_session = JInt 3, last_login = Some (''login_with_password'', [JStr ''root'', JStr ''x''])\<rparr>"
  have "xen_pool ''VM.get_power_state'' [JInt 3, JStr ''vm1''] 7
      = (Ans (JObj [(''Status'', JStr ''Failure''), (''ErrorDescription'', JList [JStr ''SESSION_INVALID'', JInt 3])]), 1, 7)"
    "xen_pool ''session.login_with_password'' [JStr ''root'', JStr ''x''] 7 = (Ans (JObj [(''Status'', JStr ''Success''), (''Value'', JInt 8)]), 1, 8)"
    "xen_pool ''VM.get_power_state'' [JInt 8, JStr ''vm1''] 8 = (Ans (JObj [(''Status'', JStr ''Success''), (''Value'', JStr ''Halted'')]), 1, 8)"
    by (simp_all add: xen_pool_def py_startswith_def)
  from xen_session_renewed [of "''VM.get_power_state''" ?s "''login_with_password''" "[JStr ''root'', JStr ''x'']" xen_pool "[JStr ''vm1'']"
      _ 1 7 _ 1 8 "JInt 8" _ 1 8 "JStr ''Halted''"] this
  show ?thesis unfolding Let_def
    by (simp add: web_st_def py_startswith_def parse_result_def json_member_def json_index_def)
qed

text \<open>
  C36. A server that keeps dropping sessions cannot hold the client up: whatever it answers, a request calls the
  method at most three times, in each of the sessions that it was given, and logs in at most three times.
\<close>

theorem xen_request_bound:
  assumes "xenapi_request (recorded_client X) meth params s = (r, s')" and "\<not> py_startswith ''login'' meth"
    and "\<And>m ps. last_login (world s) = Some (m, ps) \<Longrightarrow> meth \<noteq> ''session.'' @ m"
  shows "\<exists>calls. fst (xen_server (world s')) = fst (xen_server (world s)) @ calls \<and>
    length (filter (\<lambda>(f, _). f = meth) calls) \<le> 3 \<and> length (filter (\<lambda>(f, _). f \<noteq> meth) calls) \<le> 3"
proof -
  have "xen_retry 3 (recorded_client X) meth params s = (r, s')" using assms(1,2) by (simp add: xenapi_request_def)
  from xen_retry_calls [OF this assms(3)] show ?thesis by simp
qed

definition forgetful_pool :: "unit xmlrpc" where
  \<comment> \<open>a server that knows no session, not even the one that it has just given\<close>
  "forgetful_pool meth params d =
     (if py_startswith ''session.login'' meth then (Ans (JObj [(''Status'', JStr ''Success''), (''Value'', JInt 1)]), 1, d)
      else (Ans (JObj [(''Status'', JStr ''Failure''), (''ErrorDescription'', JList [JStr ''SESSION_INVALID''])]), 1, d))"

theorem xen_request_bound_witness:
  "let s = web_st ''off'' [] \<lparr>xen_server = ([], ()), xen_session = JInt 1, last_login = Some (''login_with_password'', [])\<rparr>
   in \<exists>s' calls. xenapi_request (recorded_client forgetful_pool) ''VM.hard_shutdown'' [JStr ''vm1''] s
        = (Raise (Fault 500 ''Tried 3 times to get a valid session, but failed''), s') \<and>
      fst (xen_server (world s')) = calls \<and> length calls = 6 \<and>
      length (filter (\<lambda>(f, _). f = ''VM.hard_shutdown'') calls) \<le> 3 \<and> length (filter (\<lambda>(f, _). f \<noteq> ''VM.hard_shutdown'') calls) \<le> 3"
proof -
  let ?s = "web_st ''off'' [] \<lparr>xen_server = ([], ()), xen_session = JInt 1, last_login = Some (''login_with_password'', [])\<rparr>"
  let ?run = "xenapi_request (recorded_client forgetful_pool) ''VM.hard_shutdown'' [JStr ''vm1''] ?s"
  have runs: "fst ?run = Raise (Fault 500 ''Tried 3 times to get a valid session, but failed'')"
    "length (fst (xen_server (world (snd ?run)))) = 6"
    by (simp_all add: xenapi_request_def numeral_3_eq_3 xen_call_def login_xen_def bindM_def run_prims recorded_client_def recorded_def
      forgetful_pool_def py_startswith_def parse_result_def json_member_def json_index_def web_st_def answer_outcome_def)
  note run = run_pair [OF runs(1)]
  obtain calls where "fst (xen_server (world (snd ?run))) = fst (xen_server (world ?s)) @ calls"
    "length (filter (\<lambda>(f, _). f = ''VM.hard_shutdown'') calls) \<le> 3" "length (filter (\<lambda>(f, _). f \<noteq> ''VM.hard_shutdown'') calls) \<le> 3"
    using xen_request_bound [OF run] by (auto simp: py_startswith_def web_st_def)
  moreover have "fst (xen_server (world ?s)) = ([] :: (string \<times> json list) list)" by (simp add: web_st_def)
  ultimately show ?thesis unfolding Let_def using runs(2) run by (intro exI [of _ "snd ?run"] exI [of _ calls]) simp
qed

section \<open>The certificates of OpenStack\<close>









section \<open>The jobs of the HMC\<close>

definition answering :: "'d requests \<Rightarrow> bool" where
  \<comment> \<open>a server that answers or fails within its timeouts, and does not turn the clock back\<close>
  "answering R \<longleftrightarrow> (\<forall>q d. case R q d of (a, t, _) \<Rightarrow> 0 \<le> t \<and> a \<noteq> Blocks)"

definition job_done :: "'d requests \<Rightarrow> 'd \<Rightarrow> bool" where
  \<comment> \<open>the last answer is that of a job that is complete, with one of the codes of success\<close>
  "job_done R d' \<longleftrightarrow> (\<exists>q d r t job. R q d = (Ans r, t, d') \<and> json_loads (r_text r) = Ret job \<and>
     json_item ''status'' job = Ret (JStr ''complete'') \<and> json_item ''job-status-code'' job \<in> Ret ` {JInt 200, JInt 201, JInt 204})"

lemma hmc_never_running [simp]:
  "json_get_or k dflt v \<noteq> Running" "json_item k v \<noteq> Running" "failed_request m u r \<noteq> Running" "job_failure m u v \<noteq> Running"
proof -
  show get: "json_get_or k dflt v \<noteq> Running" for k dflt v by (simp add: json_get_or_def split: json.splits)
  show "json_item k v \<noteq> Running" by (simp add: json_item_def type_error_def split: json.splits option.splits)
  show "failed_request m u r \<noteq> Running"
    by (auto simp: failed_request_def bindO_def Let_def get split: outcome.splits)
  show "job_failure m u v \<noteq> Running" by (auto simp: job_failure_def bindO_def get split: outcome.splits)
qed

lemma session_headers_run:
  "session_headers s = (r, s') \<Longrightarrow> r \<noteq> Running \<and> s' = s"
  by (auto simp: session_headers_def run_simps run_prims split: option.splits json.splits)

lemma hmc_query_run:
  assumes "answering R" "hmc_query R q s = (r, s')"
  shows "r \<noteq> Running" "clock s \<le> clock s'" "r = Ret x \<Longrightarrow> \<exists>t. R q (hmc_net (world s)) = (Ans x, t, hmc_net (world s'))"
proof -
  obtain a t d where r: "R q (hmc_net (world s)) = (a, t, d)" by (metis prod_cases3)
  from assms(1) have "case R q (hmc_net (world s)) of (a, t, _) \<Rightarrow> 0 \<le> t \<and> a \<noteq> Blocks" by (simp add: answering_def)
  with r have "0 \<le> t" "a \<noteq> Blocks" by simp_all
  moreover from assms(2) r have "r = answer_outcome a" "s' = s\<lparr>clock := clock s + t, world := (world s)\<lparr>hmc_net := d\<rparr>\<rparr>"
    by (simp_all add: hmc_query_def)
  ultimately show "r \<noteq> Running" "clock s \<le> clock s'" "r = Ret x \<Longrightarrow> \<exists>t. R q (hmc_net (world s)) = (Ans x, t, hmc_net (world s'))"
    using r by (cases a; simp add: answer_outcome_def)+
qed

lemma request_hmc_run:
  assumes "answering R" "request_hmc R A meth uri body codes s = (r, s')"
  shows "r \<noteq> Running" "clock s \<le> clock s'"
    "r = Ret v \<Longrightarrow> v = JObj [] \<or> (\<exists>q d x t. R q d = (Ans x, t, hmc_net (world s')) \<and> json_loads (r_text x) = Ret v)"
proof -
  obtain h s0 where h: "session_headers s = (h, s0)" by fastforce
  note h' = session_headers_run [OF h]
  have all: "r \<noteq> Running \<and> clock s \<le> clock s' \<and>
    (\<forall>v. r = Ret v \<longrightarrow> v = JObj [] \<or> (\<exists>q d x t. R q d = (Ans x, t, hmc_net (world s')) \<and> json_loads (r_text x) = Ret v))"
  proof (cases h)
    case (Ret hs)
    let ?q = "hmc_request A meth uri body hs"
    obtain o1 s1 where 1: "hmc_query R ?q s = (o1, s1)" by fastforce
    note facts = hmc_query_run [OF assms(1) 1]
    show ?thesis
    proof (cases o1)
      case ok: (Ret x)
      from facts(3) [OF ok] have a: "\<exists>q d t. R q d = (Ans x, t, hmc_net (world s1))" by blast
      from assms(2) h Ret h' 1 ok have "(if codes \<noteq> [] \<and> r_code x \<notin> set codes then bindM (liftM (failed_request meth (target ?q) x)) raiseM
         else if r_code x = 204 then retM (JObj [])
         else (case json_loads (r_text x) of Ret v \<Rightarrow> retM v
           | _ \<Rightarrow> raiseM (request_error meth (target ?q) (JInt (r_code x)) (JStr ''(no reason)'') (JStr ''Invalid JSON content in response'')))) s1 = (r, s')"
        by (simp add: request_hmc_def bindM_step Let_def)
      with a facts(2) show ?thesis
        by (auto simp: bindM_def run_prims split: if_splits outcome.splits prod.splits)
    qed (use assms(2) h h' Ret 1 facts in \<open>auto simp: request_hmc_def Let_def bindM_def\<close>)
  qed (use assms(2) h h' in \<open>auto simp: request_hmc_def bindM_def\<close>)
  then show "r \<noteq> Running" "clock s \<le> clock s'"
    "r = Ret v \<Longrightarrow> v = JObj [] \<or> (\<exists>q d x t. R q d = (Ans x, t, hmc_net (world s')) \<and> json_loads (r_text x) = Ret v)" by simp_all
qed

lemma wait_until_run:
  "answering R \<Longrightarrow> wait_until fuel R A meth uri job limit s = (r, s') \<Longrightarrow> limit \<le> clock s + of_nat n \<Longrightarrow> n < fuel \<Longrightarrow>
   r \<noteq> Running \<and> (r = Ret () \<longrightarrow> job_done R (hmc_net (world s')))"
proof (induction n arbitrary: fuel s)
  case 0
  then show ?case by (cases fuel) (auto simp: bindM_getM run_prims)
next
  case (Suc n)
  then obtain f where fuel: "fuel = Suc f" "n < f" by (cases fuel) auto
  obtain o1 s1 where 1: "request_hmc R A ''GET'' (json_str job) None [] s = (o1, s1)" by fastforce
  note facts = request_hmc_run [OF Suc.prems(1) 1]
  show ?case
  proof (cases "limit \<le> clock s \<or> (\<forall>v. o1 \<noteq> Ret v)")
    case True
    with Suc.prems(2) facts(1) 1 show ?thesis by (cases o1) (auto simp: fuel bindM_getM run_prims bindM_def split: if_splits)
  next
    case False
    then obtain v where v: "o1 = Ret v" "\<not> limit \<le> clock s" by auto
    note run = Suc.prems(2) [unfolded fuel(1) wait_until.simps bindM_getM, simplified v(2) if_False, unfolded bindM_step(1) [of "request_hmc R A ''GET'' (json_str job) None []", OF 1 [unfolded v(1)]]]
    from facts(3) [OF v(1)] have last: "json_item k v = Ret y \<Longrightarrow> \<exists>q d x t. R q d = (Ans x, t, hmc_net (world s1)) \<and> json_loads (r_text x) = Ret v" for k y
      by (auto simp: json_item_def)
    consider (complete) "json_item ''status'' v = Ret (JStr ''complete'')" | (pending) st where "json_item ''status'' v = Ret st" "st \<noteq> JStr ''complete''"
      | (bad) "\<forall>st. json_item ''status'' v \<noteq> Ret st" by blast
    then show ?thesis
    proof cases
      case complete
      with run last show ?thesis
        by (fastforce simp: itemM_def job_done_def bindM_def run_prims split: outcome.splits if_splits prod.splits)
    next
      case pending
      with run have "wait_until f R A meth uri job limit (s1\<lparr>clock := clock s1 + 1\<rparr>) = (r, s')"
        by (simp add: itemM_def bindM_prims bindM_sleepM)
      from Suc.IH [OF Suc.prems(1) this] facts(2) Suc.prems(3) fuel(2) show ?thesis by simp
    next
      case bad
      with run show ?thesis by (cases "json_item ''status'' v") (auto simp: itemM_def bindM_def run_prims)
    qed
  qed
qed

text \<open>
  C34. Waiting for a job of the HMC ends by the operation timeout, whatever the console answers, with a fuel of one more
  than the timeout in seconds; and the agent goes on only if the last answer says that the job is complete and that it
  has succeeded.
\<close>

theorem hmc_wait_decides:
  assumes "answering R" "timeout < int fuel" "0 < fuel"
    and "wait_for_job_hmc fuel R A meth uri job timeout s = (r, s')"
  shows "r \<noteq> Running \<and> (r = Ret () \<longrightarrow> job_done R (hmc_net (world s')))"
proof -
  have "wait_until fuel R A meth uri job (clock s + of_int timeout) s = (r, s')"
    using assms(4) by (simp add: wait_for_job_hmc_def bindM_getM)
  moreover have "clock s + of_int timeout \<le> clock s + of_nat (nat timeout)" by simp
  moreover have "nat timeout < fuel" using assms(2,3) by linarith
  ultimately show ?thesis by (rule wait_until_run [OF assms(1)])
qed

definition console :: "bool list requests" where
  \<comment> \<open>a console whose world is what it will be asked in vain before the job is complete\<close>
  "console q n = (Ans (reply 200 (json_dumps (if n = [] then JObj [(''status'', JStr ''complete''), (''job-status-code'', JInt 200)]
     else JObj [(''status'', JStr ''running'')]))), 1, tl n)"

theorem hmc_wait_decides_witness:
  "let A = \<lparr>hmc_host = ''hmc'', hmc_user = PStr ''u'', hmc_passwd = PStr ''p'', hmc_config = DEFAULT_CONFIG\<rparr>;
       s = web_st ''off'' [] \<lparr>hmc_net = [False, False], hmc_session = Some None, cpc_cache = []\<rparr>
   in \<exists>s'. wait_for_job_hmc 9 console A ''post'' ''/api'' (JStr ''/api/jobs/1'') 8 s = (Ret (), s') \<and> clock s' = 5 \<and>
        job_done console (hmc_net (world s'))"
proof -
  let ?A = "\<lparr>hmc_host = ''hmc'', hmc_user = PStr ''u'', hmc_passwd = PStr ''p'', hmc_config = DEFAULT_CONFIG\<rparr>"
  let ?s = "web_st ''off'' [] \<lparr>hmc_net = [False, False], hmc_session = Some None, cpc_cache = []\<rparr>"
  let ?run = "\<lambda>n. wait_for_job_hmc n console ?A ''post'' ''/api'' (JStr ''/api/jobs/1'') 8 ?s"
  have "answering console" by (simp add: answering_def console_def)
  moreover have runs: "fst (?run 9) = Ret ()" "clock (snd (?run 9)) = 5"
    by (simp_all add: wait_for_job_hmc_def request_hmc_def session_headers_def hmc_query_def console_def bindM_def run_prims web_st_def
      reply_def answer_outcome_def json_loads_dumps itemM_def json_item_def sleepM_step Let_def eval_nat_numeral)
  ultimately show ?thesis using hmc_wait_decides [of console 8 9, OF _ _ _ run_pair [OF runs(1)]] run_pair [OF runs(1)]
    unfolding Let_def by auto
qed

end
