(* ===== verification/Nova_Agents.thy ===== *)
theory Nova_Agents
  imports Client_Lib Run_Command
begin

text \<open>
  \<open>agents/compute/fence_compute.py\<close>, which tells the compute service of OpenStack that a host is down, and
  \<open>agents/evacuate/fence_evacuate.py\<close>, which has the machines of such a host started elsewhere. The clients of
  Nova and Keystone are a parameter, as is the program \<open>attrd_updater\<close>, and which attributes the
  client that is installed has. A connection that could not be made is a flag.
\<close>

section \<open>The state of a host\<close>

definition service_status :: "json \<Rightarrow> json \<Rightarrow> string" where
  "service_status state status =
     (if state = JStr ''up'' \<and> status = JStr ''enabled'' then ''on''
      else if state = JStr ''down'' \<and> status = JStr ''disabled'' then ''off''
      else if state = JStr ''down'' then ''failed''
      else if state = JStr ''up'' then ''running''
      else json_str state @ '' '' @ json_str status)"

definition host_status :: "'d client \<Rightarrow> ('d, string) prog" where
  \<comment> \<open>of the first service, if there is one. The class named for exceptions does not exist, so that every
    exception becomes another\<close>
  "host_status C = tryM
     (bindM (json_opt ''--plug'') (\<lambda>plug.
      bindM (clientM C ''services.list'' [(''host'', plug), (''binary'', JStr ''nova-compute'')]) (\<lambda>v.
      bindM (liftM (json_iter v)) (\<lambda>services. case services of
          [] \<Rightarrow> retM ''unknown''
        | service # _ \<Rightarrow>
            seqM (attrM ''binary'' service)
           (bindM (attrM ''state'' service) (\<lambda>state.
            bindM (attrM ''status'' service) (\<lambda>status. retM (service_status state status))))))))
     (\<lambda>_. Some (raiseM (AttributeError (''module '' @ [CHR 0x27] @ ''requests'' @ [CHR 0x27] @ '' has no attribute '' @ [CHR 0x27] @ ''exception'' @ [CHR 0x27]))))"

definition host_entry :: "outlet list \<Rightarrow> json \<Rightarrow> outlet list outcome" where
  \<comment> \<open>under its long and its short name\<close>
  "host_entry result service =
     bindO (json_attr ''host'' service) (\<lambda>v.
     bindO (json_method ''split'' v) (\<lambda>longhost.
       Ret (AList.update (hd (py_split ''.'' longhost)) ([], None) (AList.update longhost ([], None) result))))"

definition get_plugs_list :: "'d client \<Rightarrow> bool \<Rightarrow> ('d, outlet list) prog" where
  "get_plugs_list C online =
     (if online then
        bindM (clientM C ''services.list'' [(''binary'', JStr ''nova-compute'')]) (\<lambda>v.
        liftM (bindO (json_iter v) (foldO host_entry [])))
      else retM [])"

section \<open>The connection\<close>

record nova_env =
  novaclient :: bool                 \<comment> \<open>the package is installed\<close>
  positional :: bool                 \<comment> \<open>\<open>Client\<close> takes positional arguments\<close>
  has_images :: bool
  has_glance :: bool

definition text_after_v :: "json \<Rightarrow> json outcome" where
  \<comment> \<open>\<open>v[1:]\<close>\<close>
  "text_after_v v = (case v of
      JStr t \<Rightarrow> Ret (JStr (drop 1 t)) | JList l \<Rightarrow> Ret (JList (drop 1 l))
    | JObj _ \<Rightarrow> Raise (TypeError (''unhashable type: '' @ [CHR 0x27] @ ''slice'' @ [CHR 0x27]))
    | _ \<Rightarrow> Raise (type_error v '' object is not subscriptable''))"

definition keystone_options :: "'d client \<Rightarrow> ('d, (string \<times> json) list) prog" where
  "keystone_options C =
     bindM (json_opt ''--auth-url'') (\<lambda>url.
     bindM (clientM C ''available_versions'' [(''url'', url)]) (\<lambda>versions.
     bindM (liftM (bindO (json_index 0 versions) (\<lambda>v. bindO (json_item ''id'' v) text_after_v))) (\<lambda>version.
     bindM (json_opt ''--username'') (\<lambda>user.
     bindM (json_opt ''--password'') (\<lambda>pass.
     let always = [(''auth_url'', url), (''username'', user), (''password'', pass)] in
     bindM (clientM C ''version_match'' [(''required'', JStr ''2''), (''candidate'', version)]) (\<lambda>two.
     if json_true two then bindM (json_opt ''--tenant-name'') (\<lambda>t. retM (always @ [(''tenant_name'', t)]))
     else
       bindM (clientM C ''version_match'' [(''required'', JStr ''3''), (''candidate'', version)]) (\<lambda>three.
       if json_true three then
         bindM (json_opt ''--tenant-name'') (\<lambda>t.
         bindM (json_opt ''--user-domain'') (\<lambda>u.
         bindM (json_opt ''--project-domain'') (\<lambda>p.
           retM (always @ [(''project_name'', t), (''user_domain_name'', u), (''project_domain_name'', p)]))))
       else retM always)))))))"

definition client_args :: "bool \<Rightarrow> string \<Rightarrow> json \<Rightarrow> json \<Rightarrow> ('w, (string \<times> json) list) prog" where
  "client_args with_positions version session auth =
     bindM (hasoptM ''--insecure'') (\<lambda>insecure.
     bindM (json_opt ''--region-name'') (\<lambda>region.
     bindM (json_opt ''--endpoint-type'') (\<lambda>endpoint.
     bindM (hasoptM ''--verbose'') (\<lambda>verbose.
       retM ((''version'', JStr version)
         # (if with_positions then [(''username'', JNull), (''password'', JNull), (''project_id'', JNull), (''auth_url'', JNull),
              (''insecure'', JBool insecure)] else [])
         @ [(''region_name'', region), (''endpoint_type'', endpoint), (''session'', session), (''auth'', auth),
            (''http_log_debug'', JBool verbose)])))))"

definition try_version :: "nova_env \<Rightarrow> 'd client \<Rightarrow> json \<Rightarrow> json \<Rightarrow> string \<Rightarrow> ('d, bool) prog" where
  "try_version E C session auth version =
     bindM (client_args (positional E) version session auth) (\<lambda>args.
     seqM (clientM C ''Client'' args)
          (tryM (seqM (clientM C ''hypervisors.list'' []) (retM True)) (\<lambda>_. Some (retM False))))"

definition create_nova_connection :: "nova_env \<Rightarrow> 'd client \<Rightarrow> ('d, bool) prog" where
  "create_nova_connection E C =
     seqM (if novaclient E then retM () else fail_usage ''Nova not found or not accessible'' True)
    (bindM (keystone_options C) (\<lambda>kwargs.
     bindM (clientM C ''get_plugin_loader'' [(''name'', JStr ''password'')]) (\<lambda>loader.
     bindM (clientM C ''load_from_options'' ((''loader'', loader) # kwargs)) (\<lambda>auth.
     bindM (hasoptM ''--insecure'') (\<lambda>insecure.
     bindM (clientM C ''Session'' [(''auth'', auth), (''verify'', JBool (\<not> insecure))]) (\<lambda>session.
     bindM (try_version E C session auth ''2.11'') (\<lambda>ok.
       if ok then retM True else try_version E C session auth ''2'')))))))"

definition drop_compute_domain :: "('w, unit) prog" where
  \<comment> \<open>the new value is deleted at once, and with it what was there\<close>
  "drop_compute_domain = bindM (nonempty_opt ''--compute-domain'') (\<lambda>given.
     if given then bindM (optM ''--compute-domain'') (\<lambda>v. seqM (setoptM ''--domain'' v) (deloptM ''--domain''))
     else retM ())"

section \<open>\<open>fence_compute\<close>\<close>

definition override_status :: string where
  \<comment> \<open>the global variable: \<open>set_power_status_on\<close> assigns to a local one of this name\<close>
  "override_status = []"

definition get_power_status_compute :: "'d client \<Rightarrow> bool \<Rightarrow> ('d, string) prog" where
  "get_power_status_compute C online =
     (if override_status \<noteq> [] then retM override_status
      else
        seqM (stroptM ''--action'')
       (bindM (if online then host_status C else retM ''unknown'') (\<lambda>status.
        seqM (optM ''--plug'') (retM status))))"

definition get_power_status_simple :: "'d client \<Rightarrow> bool \<Rightarrow> ('d, string option) prog" where
  "get_power_status_simple C online =
     bindM (get_power_status_compute C online) (\<lambda>status. retM (Some (if status = ''off'' then status else ''on'')))"

definition set_attrd_status :: "'d tools \<Rightarrow> string \<Rightarrow> string \<Rightarrow> ('d, unit) prog" where
  "set_attrd_status tool host status =
     seqM (run_command (start tool) (''attrd_updater -p -n evacuate -Q -N '' @ host @ '' -U '' @ status)) (retM ())"

definition get_attrd_status :: "'d tools \<Rightarrow> string \<Rightarrow> ('d, string) prog" where
  "get_attrd_status tool host =
     bindM (run_command (start tool) (''attrd_updater -p -n evacuate -Q -N '' @ host)) (\<lambda>(_, out, _).
     let fields = py_split [dquote] out in
       retM (if length fields > 6 then fields ! 5 else []))"

fun await_evacuations :: "nat \<Rightarrow> 'd tools \<Rightarrow> ('d, unit) prog" where
  "await_evacuations 0 tool = runningM"
| "await_evacuations (Suc fuel) tool =
     bindM (showoptM ''--plug'') (\<lambda>plug.
     bindM (get_attrd_status tool plug) (\<lambda>current.
       if current \<in> {''no'', []} then retM () else seqM (sleepM 2) (await_evacuations fuel tool)))"

definition set_power_status_on :: "nat \<Rightarrow> 'd client \<Rightarrow> 'd tools \<Rightarrow> bool \<Rightarrow> ('d, unit) prog" where
  "set_power_status_on fuel C tool online =
     seqM (await_evacuations fuel tool)
    (bindM (get_power_status_compute C online) (\<lambda>status.
     if status \<in> {''off'', ''running'', ''failed''} then
       seqM (tryM (bindM (stroptM ''--plug'') (\<lambda>plug.
            seqM (clientM C ''services.force_down'' [(''host'', JStr plug), (''binary'', JStr ''nova-compute''), (''force_down'', JBool False)]) (retM ())))
          (\<lambda>_. Some (retM ())))
      (bindM (stroptM ''--plug'') (\<lambda>plug.
       seqM (clientM C ''services.enable'' [(''host'', JStr plug), (''binary'', JStr ''nova-compute'')]) (retM ())))
     else if status \<noteq> ''on'' then setoptM ''--power-timeout'' (PStr ''0'')
     else retM ()))"

fun await_down :: "nat \<Rightarrow> 'd client \<Rightarrow> bool \<Rightarrow> ('d, unit) prog" where
  "await_down 0 C online = runningM"
| "await_down (Suc fuel) C online =
     bindM (get_power_status_compute C online) (\<lambda>status.
       if status = ''off'' then retM () else seqM (sleepM 1) (await_down fuel C online))"

definition force_down :: "'d client \<Rightarrow> ('d, unit) prog" where
  "force_down C =
     bindM (json_opt ''--plug'') (\<lambda>plug.
     seqM (clientM C ''services.force_down'' [(''host'', plug), (''binary'', JStr ''nova-compute''), (''force_down'', JBool True)])
    (seqM (clientM C ''services.disable'' [(''host'', plug), (''binary'', JStr ''nova-compute'')]) (retM ())))"

definition set_power_status_off :: "nat \<Rightarrow> 'd client \<Rightarrow> 'd tools \<Rightarrow> bool \<Rightarrow> ('d, unit) prog" where
  "set_power_status_off fuel C tool online =
     bindM (get_power_status_compute C online) (\<lambda>status.
     if status = ''off'' then retM ()
     else
       seqM (tryM (force_down C) (\<lambda>e. Some
         (seqM (logM (''Exception from attempt to force host down via nova API: '' @ class_name e @ '': '' @ exn_text e))
               (await_down fuel C online))))
      (bindM (showoptM ''--plug'') (\<lambda>plug. set_attrd_status tool plug ''yes'')))"

definition set_power_status_compute :: "nat \<Rightarrow> 'd client \<Rightarrow> 'd tools \<Rightarrow> bool \<Rightarrow> ('d, unit) prog" where
  \<comment> \<open>with a connection it ends the process\<close>
  "set_power_status_compute fuel C tool online =
     bindM (stroptM ''--action'') (\<lambda>action.
     if \<not> online then retM ()
     else
       seqM (if action \<in> {''off'', ''reboot''} then set_power_status_off fuel C tool online
             else set_power_status_on fuel C tool online)
            (exitM 0))"

definition domain_of :: "string \<Rightarrow> string" where
  \<comment> \<open>what follows the first part of a name; \<open>replace\<close> takes out every occurrence of that part\<close>
  "domain_of host = (let shorthost = hd (py_split ''.'' host) in
     if shorthost = host then [] else py_replace (shorthost @ ''.'') [] host)"

definition next_domain :: "(string \<times> string) list \<times> string option \<Rightarrow> json \<Rightarrow> ((string \<times> string) list \<times> string option) outcome" where
  \<comment> \<open>the domains found so far with a host in each, and the last one\<close>
  "next_domain found service = (case found of (domains, last_domain) \<Rightarrow>
     bindO (json_attr ''host'' service) (\<lambda>v.
     bindO (json_method ''split'' v) (\<lambda>host.
       let calculated = domain_of host in
       Ret (if Some calculated = last_domain then (domains, last_domain)
            else (AList.update calculated host domains, Some calculated)))))"

definition fix_domain :: "'d client \<Rightarrow> bool \<Rightarrow> ('d, string option) prog" where
  "fix_domain C online =
     bindM (if online then
         bindM (clientM C ''services.list'' [(''binary'', JStr ''nova-compute'')]) (\<lambda>v.
           liftM (bindO (json_iter v) (foldO next_domain ([], None))))
       else retM ([], None)) (\<lambda>(domains, last_domain).
     bindM (hasoptM ''--domain'') (\<lambda>given.
     seqM (case (domains, last_domain) of
         ([(_, host)], Some d) \<Rightarrow>
           if \<not> given then setoptM ''--domain'' (PStr d)
           else
             bindM (optM ''--domain'') (\<lambda>v.
             if v \<noteq> PStr d then
               seqM (logM (''Overriding supplied domain '' @ [CHR 0x27] @ py_str v @ [CHR 0x27]
                   @ '' as it does not match the one calculated from: '' @ host))
                    (setoptM ''--domain'' (PStr d))
             else retM ())
       | ([], _) \<Rightarrow> if given then retM () else logM ''Could not calculate the domain names used by compute nodes in nova''
       | _ \<Rightarrow>
           bindM (showoptM ''--domain'') (\<lambda>v.
           seqM (logM (''The supplied domain '' @ [CHR 0x27] @ v @ [CHR 0x27] @ '' did not match any used inside nova: ''
               @ json_repr (JObj (map (\<lambda>(k, h). (k, JStr h)) domains))))
                (exitM 1)))
       (retM last_domain)))"

definition fix_plug_name :: "'d client \<Rightarrow> bool \<Rightarrow> ('d, unit) prog" where
  "fix_plug_name C online =
     bindM (optM ''--action'') (\<lambda>action.
     bindM (hasoptM ''--plug'') (\<lambda>named.
     if action = PStr ''list'' \<or> \<not> named then retM ()
     else
       bindM (fix_domain C online) (\<lambda>calculated.
       bindM (hasoptM ''--domain'') (\<lambda>given.
       if calculated = None \<or> \<not> given then retM ()
       else
         bindM (stroptM ''--plug'') (\<lambda>plug.
         let short_plug = hd (py_split ''.'' plug) in
         bindM (stroptM ''--domain'') (\<lambda>domain.
           if domain = [] then setoptM ''--plug'' (PStr short_plug)
           else if py_endswith domain plug then retM ()
           else setoptM ''--plug'' (PStr (short_plug @ ''.'' @ domain))))))))"

fun poll_action :: "nat \<Rightarrow> ('d, string option) prog \<Rightarrow> ('d, bool) prog" where
  \<comment> \<open>the inner loop, with the number of turns that are left\<close>
  "poll_action 0 get_fn = retM False"
| "poll_action (Suc n) get_fn =
     bindM get_fn (\<lambda>status.
     bindM (stroptM ''--action'') (\<lambda>action.
       if status \<noteq> Some action then seqM (sleepM 1) (poll_action n get_fn) else retM True))"

fun set_multi_power_fn_compute :: "nat \<Rightarrow> ('d, unit) prog \<Rightarrow> ('d, string option) prog \<Rightarrow> ('d, bool) prog" where
  "set_multi_power_fn_compute 0 set_fn get_fn = retM False"
| "set_multi_power_fn_compute (Suc n) set_fn get_fn =
     seqM set_fn
    (bindM (intoptM ''--power-wait'') (\<lambda>wait.
     seqM (sleepM (of_int wait))
    (bindM (intoptM ''--power-timeout'') (\<lambda>timeout.
     bindM (poll_action (nat timeout) get_fn) (\<lambda>reached.
       if reached then retM True else set_multi_power_fn_compute n set_fn get_fn)))))"

definition fns_compute :: "nat \<Rightarrow> 'd client \<Rightarrow> 'd tools \<Rightarrow> bool \<Rightarrow> 'd power_fns" where
  "fns_compute rounds C tool online = \<lparr>set_power_fn = Some (set_power_status_compute rounds C tool online),
     get_power_fn = Some (get_power_status_simple C online), get_outlet_list = Some (get_plugs_list C online),
     reboot_cycle_fn = None, sync_set_power_fn = None\<rparr>"

definition operate_compute :: "nat \<Rightarrow> 'd client \<Rightarrow> 'd tools \<Rightarrow> bool \<Rightarrow> nat \<Rightarrow> ('d, int) prog" where
  \<comment> \<open>from the connection to the exit code\<close>
  "operate_compute rounds C tool online fuel =
     bindM (stroptM ''--action'') (\<lambda>asked.
     seqM (if asked \<in> {''off'', ''on'', ''reboot'', ''status''} then fix_plug_name C online else retM ())
    (seqM (if asked = ''reboot'' then setoptM ''--action'' (PStr ''off'') else retM ())
    (bindM (stroptM ''--action'') (\<lambda>action.
     if action \<in> {''off'', ''on''} then
       bindM (intoptM ''--retry-on'') (\<lambda>retry.
       bindM (set_multi_power_fn_compute (nat (1 + retry)) (set_power_status_compute rounds C tool online) (get_power_status_simple C online))
         (\<lambda>ok. retM (if ok then 0 else 1)))
     else if action = ''monitor'' then retM 0
     else fence_action fuel (fns_compute rounds C tool online)))))"

definition check_record_only :: "('w, unit) prog" where
  "check_record_only = bindM (optM ''--record-only'') (\<lambda>v.
     if v \<in> PStr ` {''2'', ''Disabled'', ''disabled''} then exitM 0 else retM ())"

definition new_opts_compute :: "(string \<times> optdef) list" where
  "new_opts_compute =
    [(''endpoint_type'', \<lparr>o_getopt = ''e:'', o_longopt = Some ''endpoint-type'',
        o_help = ''-e, --endpoint-type=[endpoint] Nova Endpoint type (publicURL, internalURL, adminURL)'',
        o_required = Some ''0'', o_shortdesc = Some ''Nova Endpoint type'',
        o_type = None, o_default = Some (PStr ''internalURL''), o_choices = None, o_order = 1\<rparr>),
     (''tenant_name'', \<lparr>o_getopt = ''t:'', o_longopt = Some ''tenant-name'',
        o_help = ''-t, --tenant-name=[name]       Keystone v2 Tenant or v3 Project Name'',
        o_required = Some ''0'', o_shortdesc = Some ''Keystone Admin Tenant or v3 Project'',
        o_type = None, o_default = Some (PStr []), o_choices = None, o_order = 1\<rparr>),
     (''user-domain'', \<lparr>o_getopt = ''u:'', o_longopt = Some ''user-domain'',
        o_help = ''-u, --user-domain=[name]       Keystone v3 User Domain'',
        o_required = Some ''0'', o_shortdesc = Some ''Keystone v3 User Domain'',
        o_type = None, o_default = Some (PStr ''Default''), o_choices = None, o_order = 2\<rparr>),
     (''project-domain'', \<lparr>o_getopt = ''P:'', o_longopt = Some ''project-domain'',
        o_help = ''-P, --project-domain=[name]    Keystone v3 Project Domain'',
        o_required = Some ''0'', o_shortdesc = Some ''Keystone v3 Project Domain'',
        o_type = None, o_default = Some (PStr ''Default''), o_choices = None, o_order = 2\<rparr>),
     (''auth_url'', \<lparr>o_getopt = ''k:'', o_longopt = Some ''auth-url'',
        o_help = ''-k, --auth-url=[url]           Keystone Admin Auth URL'',
        o_required = Some ''0'', o_shortdesc = Some ''Keystone Admin Auth URL'',
        o_type = None, o_default = Some (PStr []), o_choices = None, o_order = 1\<rparr>),
     (''region_name'', \<lparr>o_getopt = '':'', o_longopt = Some ''region-name'',
        o_help = ''--region-name=[region]         Region Name'',
        o_required = Some ''0'', o_shortdesc = Some ''Region Name'',
        o_type = None, o_default = Some (PStr []), o_choices = None, o_order = 1\<rparr>),
     (''insecure'', \<lparr>o_getopt = [], o_longopt = Some ''insecure'',
        o_help = ''--insecure                     Explicitly allow agent to perform \"insecure\" TLS (https) requests'',
        o_required = Some ''0'', o_shortdesc = Some ''Allow Insecure TLS Requests'',
        o_type = None, o_default = None, o_choices = None, o_order = 2\<rparr>),
     (''domain'', \<lparr>o_getopt = ''d:'', o_longopt = Some ''domain'',
        o_help = ''-d, --domain=[string]          DNS domain in which hosts live, useful when the cluster uses short names and nova uses FQDN'',
        o_required = Some ''0'', o_shortdesc = Some ''DNS domain in which hosts live'',
        o_type = None, o_default = None, o_choices = None, o_order = 5\<rparr>),
     (''record_only'', \<lparr>o_getopt = ''r:'', o_longopt = Some ''record-only'',
        o_help = ''--record-only                  Record the target as needing evacuation but as yet do not intiate it'',
        o_required = Some ''0'', o_shortdesc = Some ''Only record the target as needing evacuation'',
        o_type = None, o_default = Some (PStr ''False''), o_choices = None, o_order = 5\<rparr>),
     (''instance_filtering'', \<lparr>o_getopt = [], o_longopt = Some ''instance-filtering'',
        o_help = ''--instance-filtering           Allow instances created from images and flavors with evacuable=true to be evacuated (or all if no images/flavors have been tagged)'',
        o_required = Some ''0'', o_shortdesc = Some ''Allow instances to be evacuated'',
        o_type = None, o_default = Some (PStr ''True''), o_choices = None, o_order = 5\<rparr>),
     (''no_shared_storage'', \<lparr>o_getopt = [], o_longopt = Some ''no-shared-storage'',
        o_help = ''--no-shared-storage            Disable functionality for shared storage'',
        o_required = Some ''0'', o_shortdesc = Some ''Disable functionality for dealing with shared storage'',
        o_type = None, o_default = Some (PStr ''False''), o_choices = None, o_order = 5\<rparr>),
     (''compute-domain'', \<lparr>o_getopt = '':'', o_longopt = Some ''compute-domain'',
        o_help = ''--compute-domain=[string]      Replaced by --domain'',
        o_required = Some ''0'', o_shortdesc = Some ''Replaced by domain'',
        o_type = None, o_default = None, o_choices = None, o_order = 6\<rparr>)]"

definition device_opt_compute :: "string list" where
  "device_opt_compute = [''login'', ''passwd'', ''tenant_name'', ''auth_url'', ''fabric_fencing'', ''no_login'', ''no_password'', ''port'', ''domain'', ''compute-domain'', ''project-domain'', ''user-domain'', ''no_shared_storage'', ''endpoint_type'', ''record_only'', ''instance_filtering'', ''insecure'', ''region_name'']"

definition docs_compute :: docs where
  "docs_compute = \<lparr>agent_name = None, shortdesc = ''Fence agent for the automatic resurrection of OpenStack compute instances'',
     longdesc = ''Used to tell Nova that compute nodes are down and to reschedule flagged instances'',
     vendorurl = Some [], symlink = []\<rparr>"

definition main_compute where
  "main_compute E C tool rounds set_order time_start fuel =
     seqM (on_lib (add_opts new_opts_compute))
    (seqM (on_lib (set_default ''shell_timeout'' (PStr ''180'')))
    (seqM (on_lib (read_options device_opt_compute False))
    (seqM (on_lib (show_docs set_order (Some docs_compute)))
    (seqM check_record_only
    (seqM (run_delay time_start 0 0)
    (seqM drop_compute_domain
    (bindM (on_dev (create_nova_connection E C)) (\<lambda>online.
       exit_with (on_dev (operate_compute rounds C tool online fuel))))))))))"

section \<open>\<open>fence_evacuate\<close>\<close>

definition get_power_status_evacuate :: "'d client \<Rightarrow> bool \<Rightarrow> ('d, string) prog" where
  "get_power_status_evacuate C online =
     seqM (stroptM ''--action'') (if online then host_status C else retM ''unknown'')"

definition server_evacuate :: "'d client \<Rightarrow> json \<Rightarrow> bool \<Rightarrow> ('d, bool \<times> string) prog" where
  \<comment> \<open>accepted, and the reason; a reply with the code of success counts, with or without a reason\<close>
  "server_evacuate C server on_shared_storage =
     (let failed = (\<lambda>accepted e. Some (retM (accepted, ''Error while evacuating instance: '' @ exn_text e))) in
      tryM
       (bindM (clientM C ''servers.evacuate'' [(''server'', server), (''on_shared_storage'', JBool on_shared_storage)]) (\<lambda>answer.
        bindM (liftM (json_iter answer)) (\<lambda>vs. case vs of
            [response, _] \<Rightarrow>
              if response = JNull then retM (False, ''No response while evacuating instance'')
              else
                bindM (attrM ''status_code'' response) (\<lambda>code.
                tryM (bindM (attrM ''reason'' response) (\<lambda>reason. retM (code = JInt 200, json_str reason)))
                  (failed (code = JInt 200)))
          | _ \<Rightarrow> raiseM (ValueError (if length vs < 2 then ''not enough values to unpack'' else ''too many values to unpack'')))))
       (failed False))"

definition is_server_evacuable :: "json list \<Rightarrow> json list \<Rightarrow> json \<Rightarrow> bool outcome" where
  "is_server_evacuable evac_flavors evac_images server =
     bindO (json_attr ''flavor'' server) (\<lambda>flavor.
     bindO (json_get ''id'' flavor) (\<lambda>f.
     bindO (json_text f) (\<lambda>_.
     if f \<in> set evac_flavors then Ret True
     else
       bindO (json_attr ''image'' server) (\<lambda>image. case image of
           JObj _ \<Rightarrow>
             bindO (json_get ''id'' image) (\<lambda>i.
             if i \<in> set evac_images then Ret True else bindO (json_text i) (\<lambda>_. Ret False))
         | _ \<Rightarrow> Ret False))))"

definition true_tag :: "json \<Rightarrow> bool outcome" where
  "true_tag tag = (if json_true tag then bindO (json_method ''strip'' tag) (\<lambda>t. Ret (py_lower (py_strip t) = ''true'')) else Ret False)"

definition get_evacuable_flavors :: "'d client \<Rightarrow> ('d, json list) prog" where
  "get_evacuable_flavors C =
     bindM (clientM C ''flavors.list'' [(''is_public'', JNull)]) (\<lambda>v.
     bindM (liftM (json_iter v)) (\<lambda>flavors.
       foldM (\<lambda>result flavor.
         bindM (clientM C ''flavors.get_keys'' [(''flavor'', flavor)]) (\<lambda>keys.
         bindM (liftM (bindO (json_get ''evacuable'' keys) true_tag)) (\<lambda>tagged.
         if tagged then bindM (attrM ''id'' flavor) (\<lambda>i. retM (result @ [i])) else retM result))) [] flavors))"

definition evacuable_image :: "json list \<Rightarrow> json \<Rightarrow> json list outcome" where
  "evacuable_image result img =
     bindO (case json_member ''metadata'' img of
         Some meta \<Rightarrow> bindO (json_get ''evacuable'' meta) true_tag
       | None \<Rightarrow> (case json_member ''tags'' img of Some tags \<Rightarrow> json_has ''evacuable'' tags | None \<Rightarrow> Ret False)) (\<lambda>tagged.
     if tagged then bindO (json_attr ''id'' img) (\<lambda>i. Ret (result @ [i])) else Ret result)"

definition get_evacuable_images :: "nova_env \<Rightarrow> 'd client \<Rightarrow> ('d, json list) prog" where
  "get_evacuable_images E C =
     bindM (if has_images E then clientM C ''images.list'' [(''detailed'', JBool True)]
            else if has_glance E then clientM C ''glance.list'' [] else retM (JList [])) (\<lambda>v.
       liftM (bindO (json_iter v) (foldO evacuable_image [])))"

definition evacuate_one :: "'d client \<Rightarrow> bool \<Rightarrow> bool \<Rightarrow> json \<Rightarrow> ('d, bool) prog" where
  \<comment> \<open>a server without an identifier leaves the result as it is\<close>
  "evacuate_one C on_shared_storage result server = (case json_member ''id'' server of
       Some i \<Rightarrow>
         bindM (server_evacuate C i on_shared_storage) (\<lambda>(accepted, reason).
         bindM (showoptM ''--plug'') (\<lambda>plug.
           if accepted then retM result
           else seqM (logM (''Evacuation of '' @ json_str i @ '' on '' @ plug @ '' failed: '' @ reason)) (retM False)))
     | None \<Rightarrow>
         bindM (clientM C ''servers.to_dict'' [(''server'', server)]) (\<lambda>d.
         seqM (logM (''Could not evacuate instance: '' @ json_str d)) (retM result)))"

definition evacuables :: "json list \<Rightarrow> json list \<Rightarrow> json \<Rightarrow> ('w, json list) prog" where
  \<comment> \<open>those with a tag, or all if no flavor and no image has one\<close>
  "evacuables flavors images servers =
     bindM (optM ''--instance-filtering'') (\<lambda>filtering.
     if filtering = PStr ''False'' then retM []
     else
       bindM (liftM (json_iter servers)) (\<lambda>all.
       if flavors \<noteq> [] \<or> images \<noteq> [] then
         liftM (foldO (\<lambda>l server. bindO (is_server_evacuable flavors images server) (\<lambda>b. Ret (if b then l @ [server] else l))) [] all)
       else retM all))"

definition host_evacuate :: "nova_env \<Rightarrow> 'd client \<Rightarrow> ('d, bool) prog" where
  "host_evacuate E C =
     bindM (get_evacuable_images E C) (\<lambda>images.
     bindM (get_evacuable_flavors C) (\<lambda>flavors.
     bindM (json_opt ''--plug'') (\<lambda>plug.
     bindM (clientM C ''servers.list'' [(''search_opts'', JObj [(''host'', plug), (''all_tenants'', JInt 1)])]) (\<lambda>servers.
     bindM (evacuables flavors images servers) (\<lambda>chosen.
     bindM (optM ''--no-shared-storage'') (\<lambda>v.
       foldM (evacuate_one C (v = PStr ''False'')) True chosen))))))"

definition set_power_status_evacuate :: "bool \<Rightarrow> ('w, unit) prog" where
  \<comment> \<open>\<open>_host_evacuate\<close> is called without the connection\<close>
  "set_power_status_evacuate online =
     bindM (stroptM ''--action'') (\<lambda>action.
     if \<not> online then retM ()
     else
       seqM (if action = ''off'' then raiseM (TypeError (''_host_evacuate() missing 1 required positional argument: '' @ [CHR 0x27] @ ''options'' @ [CHR 0x27]))
             else retM ())
            (exitM 0))"

definition fns_evacuate :: "'d client \<Rightarrow> bool \<Rightarrow> 'd power_fns" where
  "fns_evacuate C online = \<lparr>set_power_fn = Some (set_power_status_evacuate online),
     get_power_fn = Some (bindM (get_power_status_evacuate C online) (\<lambda>t. retM (Some t))),
     get_outlet_list = Some (get_plugs_list C online), reboot_cycle_fn = None, sync_set_power_fn = None\<rparr>"

definition operate_evacuate :: "nova_env \<Rightarrow> 'd client \<Rightarrow> bool \<Rightarrow> nat \<Rightarrow> ('d, int) prog" where
  "operate_evacuate E C online fuel =
     bindM (stroptM ''--action'') (\<lambda>action.
     if action = ''on'' then seqM (logM ''Action on is not supported by this agent'') (exitM 1)
     else if action \<in> {''off'', ''reboot''} then
       bindM (get_power_status_evacuate C online) (\<lambda>status.
       bindM (showoptM ''--plug'') (\<lambda>plug.
       if status \<noteq> ''off'' then
         seqM (logM (''Cannot resurrect instances from '' @ plug @ '' in state '' @ [CHR 0x27] @ status @ [CHR 0x27])) (exitM 1)
       else
         bindM (host_evacuate E C) (\<lambda>ok.
         if \<not> ok then seqM (logM (''Resurrection of instances from '' @ plug @ '' failed'')) (exitM 1)
         else exitM 0)))
     else fence_action fuel (fns_evacuate C online))"

definition new_opts_evacuate :: "(string \<times> optdef) list" where
  "new_opts_evacuate =
    [(''endpoint_type'', \<lparr>o_getopt = ''e:'', o_longopt = Some ''endpoint-type'',
        o_help = ''-e, --endpoint-type=[endpoint] Nova Endpoint type (publicURL, internalURL, adminURL)'',
        o_required = Some ''0'', o_shortdesc = Some ''Nova Endpoint type'',
        o_type = None, o_default = Some (PStr ''internalURL''), o_choices = None, o_order = 1\<rparr>),
     (''tenant_name'', \<lparr>o_getopt = ''t:'', o_longopt = Some ''tenant-name'',
        o_help = ''-t, --tenant-name=[name]       Keystone v2 Tenant or v3 Project Name'',
        o_required = Some ''0'', o_shortdesc = Some ''Keystone Admin Tenant or v3 Project'',
        o_type = None, o_default = Some (PStr []), o_choices = None, o_order = 1\<rparr>),
     (''user-domain'', \<lparr>o_getopt = ''u:'', o_longopt = Some ''user-domain'',
        o_help = ''-u, --user-domain=[name]       Keystone v3 User Domain'',
        o_required = Some ''0'', o_shortdesc = Some ''Keystone v3 User Domain'',
        o_type = None, o_default = Some (PStr ''Default''), o_choices = None, o_order = 2\<rparr>),
     (''project-domain'', \<lparr>o_getopt = ''P:'', o_longopt = Some ''project-domain'',
        o_help = ''-P, --project-domain=[name]    Keystone v3 Project Domain'',
        o_required = Some ''0'', o_shortdesc = Some ''Keystone v3 Project Domain'',
        o_type = None, o_default = Some (PStr ''Default''), o_choices = None, o_order = 2\<rparr>),
     (''auth_url'', \<lparr>o_getopt = ''k:'', o_longopt = Some ''auth-url'',
        o_help = ''-k, --auth-url=[url]                   Keystone Admin Auth URL'',
        o_required = Some ''0'', o_shortdesc = Some ''Keystone Admin Auth URL'',
        o_type = None, o_default = Some (PStr []), o_choices = None, o_order = 1\<rparr>),
     (''region_name'', \<lparr>o_getopt = '':'', o_longopt = Some ''region-name'',
        o_help = ''--region-name=[region]                 Region Name'',
        o_required = Some ''0'', o_shortdesc = Some ''Region Name'',
        o_type = None, o_default = Some (PStr []), o_choices = None, o_order = 1\<rparr>),
     (''insecure'', \<lparr>o_getopt = [], o_longopt = Some ''insecure'',
        o_help = ''--insecure                                     Explicitly allow agent to perform \"insecure\" TLS (https) requests'',
        o_required = Some ''0'', o_shortdesc = Some ''Allow Insecure TLS Requests'',
        o_type = None, o_default = None, o_choices = None, o_order = 2\<rparr>),
     (''domain'', \<lparr>o_getopt = ''d:'', o_longopt = Some ''domain'',
        o_help = ''-d, --domain=[string]                  DNS domain in which hosts live, useful when the cluster uses short names and nova uses FQDN'',
        o_required = Some ''0'', o_shortdesc = Some ''DNS domain in which hosts live'',
        o_type = None, o_default = None, o_choices = None, o_order = 5\<rparr>),
     (''instance_filtering'', \<lparr>o_getopt = [], o_longopt = Some ''instance-filtering'',
        o_help = ''--instance-filtering                   Allow instances created from images and flavors with evacuable=true to be evacuated (or all if no images/flavors have been tagged)'',
        o_required = Some ''0'', o_shortdesc = Some ''Allow instances to be evacuated'',
        o_type = None, o_default = Some (PStr ''True''), o_choices = None, o_order = 5\<rparr>),
     (''no_shared_storage'', \<lparr>o_getopt = [], o_longopt = Some ''no-shared-storage'',
        o_help = ''--no-shared-storage            Disable functionality for shared storage'',
        o_required = Some ''0'', o_shortdesc = Some ''Disable functionality for dealing with shared storage'',
        o_type = None, o_default = Some (PStr ''False''), o_choices = None, o_order = 5\<rparr>),
     (''compute-domain'', \<lparr>o_getopt = '':'', o_longopt = Some ''compute-domain'',
        o_help = ''--compute-domain=[string]      Replaced by --domain'',
        o_required = Some ''0'', o_shortdesc = Some ''Replaced by domain'',
        o_type = None, o_default = None, o_choices = None, o_order = 6\<rparr>)]"

definition device_opt_evacuate :: "string list" where
  "device_opt_evacuate = [''login'', ''passwd'', ''tenant_name'', ''auth_url'', ''no_login'', ''no_password'', ''port'', ''domain'', ''compute-domain'', ''project-domain'', ''user-domain'', ''no_shared_storage'', ''endpoint_type'', ''instance_filtering'', ''insecure'', ''region_name'']"

definition docs_evacuate :: docs where
  "docs_evacuate = \<lparr>agent_name = None, shortdesc = ''Fence agent for the automatic resurrection of OpenStack compute instances'',
     longdesc = ''Used to reschedule flagged instances'',
     vendorurl = Some [], symlink = []\<rparr>"

definition main_evacuate where
  "main_evacuate E C set_order time_start fuel =
     seqM (on_lib (add_opts new_opts_evacuate))
    (seqM (on_lib (set_default ''shell_timeout'' (PStr ''180'')))
    (seqM (on_lib (read_options device_opt_evacuate False))
    (seqM (on_lib (show_docs set_order (Some docs_evacuate)))
    (seqM (run_delay time_start 0 0)
    (seqM drop_compute_domain
    (bindM (on_dev (create_nova_connection E C)) (\<lambda>online.
       exit_with (on_dev (operate_evacuate E C online fuel)))))))))"

end
