(* ===== verification/Nova_Guarantees.thy ===== *)
theory Nova_Guarantees
  imports Web_Guarantees Nova_Agents Session_Exits
begin

text \<open>
  Properties of the two agents for the hosts of OpenStack: machines are started elsewhere only when their host is
  fenced, and what it means that the other agent has switched a host off.
\<close>

section \<open>OpenStack hosts\<close>

lemma service_status_off: "service_status state status = ''off'' \<longleftrightarrow> state = JStr ''down'' \<and> status = JStr ''disabled''"
proof -
  have "t @ '' '' @ u \<noteq> ''off''" for t u :: string
  proof
    assume "t @ '' '' @ u = ''off''"
    then have "CHR '' '' \<in> set ''off''" by (metis append_Cons in_set_conv_decomp)
    then show False by simp
  qed
  then show ?thesis by (auto simp: service_status_def)
qed

definition host_down :: "'d client \<Rightarrow> pyval \<Rightarrow> 'd \<Rightarrow> 'd \<Rightarrow> bool" where
  \<comment> \<open>Nova says that the service of the host is down and disabled\<close>
  "host_down C plug d d' \<longleftrightarrow> (\<exists>v t service services.
     C ''services.list'' [(''host'', py_json plug), (''binary'', JStr ''nova-compute'')] d = (Ans v, t, d') \<and>
     json_iter v = Ret (service # services) \<and> json_attr ''state'' service = Ret (JStr ''down'') \<and>
     json_attr ''status'' service = Ret (JStr ''disabled''))"

lemma recorded_client_iff:
  "recorded_client C f args w = (a, t, w') \<longleftrightarrow> (\<exists>d. C f args (snd w) = (a, t, d) \<and> w' = (fst w @ [(f, args)], d))"
  by (auto simp: recorded_client_def recorded_def split: prod.splits)

lemma host_status_off:
  assumes "host_status C s = (Ret ''off'', s')"
  shows "\<exists>plug. opts s ''--plug'' = Some plug \<and> host_down C plug (world s) (world s')" "opts s' = opts s"
  using assms
  by (auto simp: host_status_def ret_iff json_opt_def clientM_def queryM_Ret host_down_def attrM_def eq_commute [of "''off''"] service_status_off
      neq_Nil_conv split: list.split_asm)

lemma exits_1_client [exits_intro]:
  "exits_1 (clientM C f args)" "exits_1 (json_opt k)" "exits_1 (attrM k v)" "exits_1 (itemM k v)" "exits_1 (unbound x)" "exits_1 (optional_json k)"
proof -
  show "exits_1 (clientM C f args)"
    by (auto simp: exits_1_def clientM_def queryM_def answer_outcome_def split: prod.splits answer.splits)
  show "exits_1 (json_opt k)" "exits_1 (optional_json k)" "exits_1 (unbound x)"
    by (auto simp: json_opt_def optional_json_def unbound_def intro!: exits_intro)
  show "exits_1 (attrM k v)" "exits_1 (itemM k v)"
    by (auto simp: attrM_def json_attr_def itemM_def json_item_def intro!: exits_intro split: option.splits json.splits)
qed

lemma json_iter_not_Exit [simp]: "json_iter v \<noteq> Exit c"
  by (simp add: json_iter_def split: json.splits)

lemma exits_1_host_status [exits_intro]: "exits_1 (host_status C)"
  by (auto simp: host_status_def intro!: exits_intro split: list.splits)

lemmas evacuate_defs = get_evacuable_images_def get_evacuable_flavors_def evacuables_def evacuate_one_def server_evacuate_def
  host_evacuate_def host_status_def get_power_status_evacuate_def

lemma evacuate_asks: "always (asked_rel (\<lambda>_. True)) (host_evacuate E (recorded_client C))"
  by (auto simp: evacuate_defs Let_def intro!: always_intro split: option.splits list.splits)

lemma host_status_asks: "always (asked_rel (\<lambda>(f, _). f = ''services.list'')) (host_status (recorded_client C))"
  by (auto simp: host_status_def intro!: always_intro split: list.splits)


text \<open>
  C39. Machines are started elsewhere only when their host is fenced, since two copies of one machine would destroy its data:
  if fence\_evacuate asks for the evacuation of any machine, then the first thing it has asked was the state of the
  service of the host, and the answer was that it is down and disabled. In every other case it does not report
  success and has only read.
\<close>

theorem evacuated_only_when_down:
  assumes "operate_evacuate E (recorded_client C) online fuel s = (r, s')"
    and "opts s ''--action'' = Some (PStr action)" "action \<in> {''off'', ''reboot''}"
  shows "(\<exists>plug d. opts s ''--plug'' = Some plug \<and> host_down C plug (snd (world s)) d) \<or>
    r \<noteq> Exit 0 \<and> (\<exists>calls. fst (world s') = fst (world s) @ calls \<and> list_all (\<lambda>(f, _). f = ''services.list'') calls)"
proof -
  obtain o1 s1 where 1: "get_power_status_evacuate (recorded_client C) online s = (o1, s1)" by fastforce
  show ?thesis
  proof (cases "o1 = Ret ''off''")
    case True
    with 1 have "host_status (recorded_client C) s = (Ret ''off'', s1)"
      by (auto simp: get_power_status_evacuate_def ret_iff split: if_splits)
    from host_status_off(1) [OF this] obtain plug d where "opts s ''--plug'' = Some plug" "host_down C plug (snd (world s)) d"
      by (fastforce simp: host_down_def recorded_client_iff)
    then show ?thesis by blast
  next
    case False
    have "always (asked_rel (\<lambda>(f, _). f = ''services.list'')) (get_power_status_evacuate (recorded_client C) online)"
      by (auto simp: get_power_status_evacuate_def intro!: always_intro host_status_asks)
    from alwaysD [OF this 1] obtain calls where c: "fst (world s1) = fst (world s) @ calls" "list_all (\<lambda>(f, _). f = ''services.list'') calls"
      by (auto simp: asked_rel_def)
    have "exits_1 (get_power_status_evacuate (recorded_client C) online)" by (auto simp: get_power_status_evacuate_def intro!: exits_intro)
    with 1 have "o1 \<noteq> Exit 0" unfolding exits_1_def by (metis zero_neq_one)
    with assms 1 False have "world s' = world s1 \<and> r \<noteq> Exit 0"
      by (cases o1) (auto simp: operate_evacuate_def run_simps stroptM_def showoptM_def bindM_def optM_def run_prims
          split: option.split_asm if_split_asm)
    with c show ?thesis by auto
  qed
qed


definition one_host :: "string \<Rightarrow> string \<Rightarrow> unit client" where
  \<comment> \<open>a host with one machine and no tags, and the state of its service\<close>
  "one_host state status f args d =
     (if f = ''services.list'' then (Ans (JList [JObj [(''binary'', JStr ''nova-compute''), (''host'', JStr ''h1''), (''state'', JStr state), (''status'', JStr status)]]), 1, d)
      else if f = ''servers.list'' then (Ans (JList [JObj [(''id'', JStr ''vm1'')]]), 1, d)
      else if f = ''servers.evacuate'' then (Ans (JList [JObj [(''status_code'', JInt 200), (''reason'', JStr ''OK'')], JObj []]), 1, d)
      else (Ans (JList []), 1, d))"

definition nova_env1 :: nova_env where
  "nova_env1 = \<lparr>novaclient = True, positional = False, has_images = False, has_glance = True\<rparr>"

theorem evacuated_only_when_down_witness:
  "let s = web_st ''off'' [(''--plug'', ''h1''), (''--instance-filtering'', ''True''), (''--no-shared-storage'', ''False'')] ([], ())
   in \<exists>s' s''. operate_evacuate nova_env1 (recorded_client (one_host ''down'' ''disabled'')) True 3 s = (Exit 0, s') \<and>
        ''servers.evacuate'' \<in> fst ` set (fst (world s')) \<and>
        operate_evacuate nova_env1 (recorded_client (one_host ''down'' ''enabled'')) True 3 s = (Exit 1, s'') \<and>
        ''servers.evacuate'' \<notin> fst ` set (fst (world s''))"
proof -
  let ?s = "web_st ''off'' [(''--plug'', ''h1''), (''--instance-filtering'', ''True''), (''--no-shared-storage'', ''False'')] ([], ())"
  let ?run = "\<lambda>status. operate_evacuate nova_env1 (recorded_client (one_host ''down'' status)) True 3 ?s"
  have runs: "fst (?run ''disabled'') = Exit 0" "fst (?run ''enabled'') = Exit 1"
    "map fst (fst (world (snd (?run ''disabled'')))) = [''services.list'', ''glance.list'', ''flavors.list'', ''servers.list'', ''servers.evacuate'']"
    by code_simp+
  have asked: "''servers.evacuate'' \<in> fst ` set (fst (world (snd (?run ''disabled''))))"
    using arg_cong [OF runs(3), of set] by (simp del: set_map add: set_map [symmetric])
  have "opts ?s ''--action'' = Some (PStr ''off'')" "''off'' \<in> {''off'', ''reboot''}" "fst (world ?s) = ([] :: (string \<times> (string \<times> json) list) list)"
    by (simp_all add: web_st_def web_opts_def)
  moreover have "\<not> host_down (one_host ''down'' ''enabled'') plug d d'" for plug d d'
    by (simp add: host_down_def one_host_def json_iter_def json_attr_def json_member_def)
  ultimately have "list_all (\<lambda>(f, _). f = ''services.list'') (fst (world (snd (?run ''enabled''))))"
    using evacuated_only_when_down [OF run_pair [OF runs(2)], of "''off''"] by simp
  then have "''servers.evacuate'' \<notin> fst ` set (fst (world (snd (?run ''enabled''))))" by (auto simp: list_all_iff)
  with asked run_pair [OF runs(1)] run_pair [OF runs(2)] show ?thesis unfolding Let_def by blast
qed

section \<open>Hosts marked as down\<close>


lemma shlex_not_Exit [simp]: "shlex m w q cs \<noteq> Exit c"
  by (induction m w q cs rule: shlex.induct) (auto split: if_splits outcome.splits option.splits)

lemma run_command_not_Exit [simp]: "timeout_opt od \<noteq> Exit c" "shlex_split t \<noteq> Exit c"
  by (auto simp: timeout_opt_def shlex_split_def split: option.splits outcome.splits)

lemma exits_1_run_command [exits_intro]: "exits_1 (run_command (start tool) c)"
proof -
  have "exits_1 (await limit p)" for limit p
    by (auto simp: await_def killed_def passM_def intro!: exits_intro split: option.splits)
  moreover have "exits_1 (start tool args)" for args by (auto simp: exits_1_def start_def split: prod.splits)
  ultimately show ?thesis by (auto simp: run_command_def intro!: exits_intro split: option.splits)
qed

lemma exits_1_compute_status [exits_intro]: "exits_1 (get_power_status_compute C online)"
  by (auto simp: get_power_status_compute_def intro!: exits_intro)








end
