(* ===== verification/Sha256.thy ===== *)
theory Sha256
  imports Md5
begin

text \<open>
  \<open>hashlib.sha256(text).hexdigest()\<close> on ASCII text, over 32-bit words: the name of the file in which
  fence\_ibm\_vpc keeps its token holds the hash of the API key.
\<close>

unbundle bit_operations_syntax

definition sha_consts :: "32 word list" where
  \<comment> \<open>of the cube roots of the first 64 primes, the first 32 bits after the point\<close>
  "sha_consts =
    [1116352408, 1899447441, 3049323471, 3921009573, 961987163, 1508970993, 2453635748, 2870763221,
     3624381080, 310598401, 607225278, 1426881987, 1925078388, 2162078206, 2614888103, 3248222580,
     3835390401, 4022224774, 264347078, 604807628, 770255983, 1249150122, 1555081692, 1996064986,
     2554220882, 2821834349, 2952996808, 3210313671, 3336571891, 3584528711, 113926993, 338241895,
     666307205, 773529912, 1294757372, 1396182291, 1695183700, 1986661051, 2177026350, 2456956037,
     2730485921, 2820302411, 3259730800, 3345764771, 3516065817, 3600352804, 4094571909, 275423344,
     430227734, 506948616, 659060556, 883997877, 958139571, 1322822218, 1537002063, 1747873779,
     1955562222, 2024104815, 2227730452, 2361852424, 2428436474, 2756734187, 3204031479, 3329325298]"

definition sha_init :: "32 word list" where
  "sha_init = [1779033703, 3144134277, 1013904242, 2773480762, 1359893119, 2600822924, 528734635, 1541459225]"

definition be_word :: "int list \<Rightarrow> 32 word" where
  \<comment> \<open>four bytes, the most significant first\<close>
  "be_word bs = le_word (rev bs)"

definition schedule_word :: "32 word list \<Rightarrow> 32 word" where
  \<comment> \<open>the next word, from the last sixteen\<close>
  "schedule_word w =
     (let x = w ! 1; y = w ! 14;
          s0 = word_rotr 7 x XOR word_rotr 18 x XOR drop_bit 3 x;
          s1 = word_rotr 17 y XOR word_rotr 19 y XOR drop_bit 10 y
      in w ! 0 + s0 + w ! 9 + s1)"

definition sha_round :: "32 word \<Rightarrow> 32 word \<Rightarrow> 32 word list \<Rightarrow> 32 word list" where
  \<comment> \<open>with a word of the message and a constant\<close>
  "sha_round wd k v = (case v of
      [a, b, c, d, e, f, g, h] \<Rightarrow>
        (let s1 = word_rotr 6 e XOR word_rotr 11 e XOR word_rotr 25 e;
             ch = (e AND f) XOR (NOT e AND g);
             t1 = h + s1 + ch + k + wd;
             s0 = word_rotr 2 a XOR word_rotr 13 a XOR word_rotr 22 a;
             maj = (a AND b) XOR (a AND c) XOR (b AND c)
         in [t1 + s0 + maj, a, b, c, d + t1, e, f, g])
    | _ \<Rightarrow> v)"

fun sha_rounds :: "32 word list \<Rightarrow> 32 word list \<Rightarrow> 32 word list \<Rightarrow> 32 word list" where
  \<comment> \<open>the constants left, the last sixteen words of the schedule, the working variables\<close>
  "sha_rounds [] w v = v"
| "sha_rounds (k # ks) w v = sha_rounds ks (tl w @ [schedule_word w]) (sha_round (hd w) k v)"

definition sha_block :: "int list \<Rightarrow> 32 word list \<Rightarrow> 32 word list" where
  "sha_block block v = map2 (+) v (sha_rounds sha_consts (map be_word (groups_of 4 block)) v)"

definition be_bytes :: "nat \<Rightarrow> int \<Rightarrow> int list" where
  "be_bytes n x = rev (le_bytes n x)"

definition sha_pad :: "int list \<Rightarrow> int list" where
  "sha_pad bs = bs @ 128 # replicate (nat ((55 - int (length bs)) mod 64)) 0 @ be_bytes 8 (8 * int (length bs))"

definition sha256_hex :: "string \<Rightarrow> string" where
  "sha256_hex t = concat (map (\<lambda>w. hex_of 8 (uint w)) (fold sha_block (groups_of 64 (sha_pad (map of_char t))) sha_init))"

end
