(* ===== verification/Fence_Ibm_Vpc.thy ===== *)
theory Fence_Ibm_Vpc
  imports Web_Client Sha256
begin

text \<open>
  \<open>agents/ibm_vpc/fence_ibm_vpc.py\<close>: virtual servers of IBM Cloud over an HTTP interface. The agent
  keeps the token it was given in a file that is named after the hash of the API key. The world
  holds the files and directories beside the handle; which of the operations on files the
  system refuses is a parameter. The texts of \<open>OSError\<close> are left out of the log.
\<close>

section \<open>The interface\<close>

record 'd vpc = "'d web" +
  vpc_files :: "string \<rightharpoonup> string"
  vpc_dirs :: "string \<Rightarrow> bool"

record fs_limits =
  removable :: "string \<Rightarrow> bool"
  creatable :: "string \<Rightarrow> bool"
  makedirs_error :: "string \<Rightarrow> exn option"

definition state_ibm_vpc :: "(string \<times> string) list" where
  "state_ibm_vpc = [(''running'', ''on''), (''stopped'', ''off'')]
     @ map (\<lambda>t. (t, ''unknown'')) [''starting'', ''stopping'', ''restarting'', ''pending'', ''deleting'', ''failed'']"

definition send_command_vpc :: "'d curl \<Rightarrow> string \<Rightarrow> string option \<Rightarrow> int \<Rightarrow> ('d vpc, json) prog" where
  \<comment> \<open>with the body of a POST. For a code that says that the token has expired the code reads a variable
    that it does not have, so that the rest of that branch is never run. The message of another error
    is looked for in the text of the reply as if it was JSON\<close>
  "send_command_vpc C cmd action expected_rc =
     bindM base_urlM (\<lambda>base.
     let url = (if py_startswith ''https'' cmd then cmd else base @ cmd) in
     seqM (setopts [(''URL'', CStr url), (case action of None \<Rightarrow> (''POST'', CInt 0) | Some a \<Rightarrow> (''POSTFIELDS'', CStr a))])
    (bindM (performM C) (\<lambda>r.
     if r_code r \<in> {400, 401, 415} then
       raiseM (ClassError ''NameError'' (''name '' @ [CHR 0x27] @ ''opt'' @ [CHR 0x27] @ '' is not defined''))
     else if r_code r \<noteq> expected_rc then
       (if r_text r \<noteq> [] then raiseM (TypeError ''string indices must be integers'')
        else raiseM (ClassError ''Exception'' (''Remote returned '' @ show_int (r_code r) @ '' for request to '' @ url)))
     else if r_text r = [] then retM (JStr [])
     else liftM (json_loads (r_text r)))))"

definition vpc_entry :: "outlet list \<Rightarrow> json \<Rightarrow> outlet list outcome" where
  "vpc_entry outlets r =
     bindO (json_item ''name'' r) (\<lambda>name.
     bindO (json_item ''status'' r) (\<lambda>status.
     bindO (state_entry state_ibm_vpc status) (\<lambda>st.
     bindO (json_item ''id'' r) (\<lambda>ident.
     bindO (outlet_key ident) (\<lambda>k. Ret (AList.update k (json_str name, Some st) outlets))))))"

definition get_list_ibm_vpc :: "'d curl \<Rightarrow> ('d vpc, outlet list) prog" where
  "get_list_ibm_vpc C =
     bindM (tryM (bindM (showoptM ''--limit'') (\<lambda>limit.
              bindM (send_command_vpc C (''instances?version=2021-05-25&generation=2&limit='' @ limit) None 200) (\<lambda>v. retM (Some v))))
            (\<lambda>_. Some (retM None))) (\<lambda>answer. case answer of
       None \<Rightarrow> retM []
     | Some res \<Rightarrow>
         bindM (itemM ''instances'' res) (\<lambda>v.
         bindM (liftM (json_iter v)) (\<lambda>rs. liftM (foldO vpc_entry [] rs))))"

definition get_power_status_ibm_vpc :: "'d curl \<Rightarrow> ('d vpc, string option) prog" where
  "get_power_status_ibm_vpc C =
     handle_errors
       (bindM (showoptM ''--plug'') (\<lambda>plug.
        bindM (send_command_vpc C (''instances/'' @ plug @ ''?version=2021-05-25&generation=2'') None 200) (\<lambda>res.
        bindM (itemM ''status'' res) (\<lambda>status.
        bindM (liftM (state_entry state_ibm_vpc status)) (\<lambda>t. retM (Some t))))))
       (\<lambda>_. fail EC_STATUS True)"

definition set_power_status_ibm_vpc :: "'d curl \<Rightarrow> ('d vpc, unit) prog" where
  "set_power_status_ibm_vpc C =
     bindM (by_action [(''on'', ''{\"type\" : \"start\"}''), (''off'', ''{\"type\" : \"stop\"}'')]) (\<lambda>action.
     handle_errors
       (bindM (showoptM ''--plug'') (\<lambda>plug.
        seqM (send_command_vpc C (''instances/'' @ plug @ ''/actions?version=2021-05-25&generation=2'') (Some action) 201) (retM ())))
       (\<lambda>_. fail EC_STATUS True))"

section \<open>Tokens\<close>

definition token_path :: "('w, string) prog" where
  "token_path =
     bindM (stroptM ''--apikey'') (\<lambda>apikey.
     bindM (stroptM ''--token-file'') (\<lambda>file.
       retM (py_replace ''[hash]'' (sha256_hex apikey) file)))"

definition set_file :: "string \<Rightarrow> string option \<Rightarrow> ('d vpc, unit) prog" where
  "set_file path text = modM (\<lambda>s. s\<lparr>world := (world s)\<lparr>vpc_files := (vpc_files (world s))(path := text)\<rparr>\<rparr>)"

definition make_dir :: "fs_limits \<Rightarrow> string \<Rightarrow> ('d vpc, unit) prog" where
  "make_dir L dir = bindM (getM (\<lambda>s. vpc_dirs (world s) dir)) (\<lambda>there.
     if there then retM ()
     else (case makedirs_error L dir of
         Some e \<Rightarrow> raiseM e
       | None \<Rightarrow> modM (\<lambda>s. s\<lparr>world := (world s)\<lparr>vpc_dirs := (vpc_dirs (world s))(dir := True)\<rparr>\<rparr>)))"

definition create_token_file :: "fs_limits \<Rightarrow> string \<Rightarrow> ('d vpc, unit) prog" where
  \<comment> \<open>an old file is removed first, if the system lets it; the new one must not be there then\<close>
  "create_token_file L path =
     seqM (make_dir L (dirname path))
    (seqM (if removable L path then set_file path None else retM ())
    (bindM (getM (\<lambda>s. vpc_files (world s) path)) (\<lambda>old.
     if old \<noteq> None then seqM (logM ''Failed: File already exists: '') (exitM EC_GENERIC_ERROR)
     else if \<not> creatable L path then seqM (logM ''Failed: Unable to open file: '') (exitM EC_GENERIC_ERROR)
     else set_file path (Some []))))"

definition get_bearer_token :: "fs_limits \<Rightarrow> 'd curl \<Rightarrow> ('d vpc, json) prog" where
  \<comment> \<open>a failure leaves the empty file behind\<close>
  "get_bearer_token L C =
     bindM token_path (\<lambda>path.
     seqM (create_token_file L path)
    (bindM (handle_errors
         (seqM (setopts [(''HTTPHEADER'', CList [''Content-Type: application/x-www-form-urlencoded'', ''User-Agent: curl''])])
         (bindM (showoptM ''--apikey'') (\<lambda>apikey.
          bindM (send_command_vpc C ''https://iam.cloud.ibm.com/identity/token''
            (Some (''grant_type=urn:ibm:params:oauth:grant-type:apikey&apikey='' @ apikey)) 200) (itemM ''access_token''))))
         (\<lambda>e. seqM (logM (''Failed: Unable to authenticate: '' @ exn_text e)) (fail EC_LOGIN_DENIED True))) (\<lambda>token.
     bindM (liftM (json_len token)) (\<lambda>n.
     seqM (if n < 1 then fail EC_LOGIN_DENIED True else retM ())
    (bindM (liftM (json_text token)) (\<lambda>t.
     seqM (set_file path (Some t)) (retM token)))))))"

definition set_bearer_token :: "json \<Rightarrow> ('d vpc, unit) prog" where
  "set_bearer_token token = setopts [(''HTTPHEADER'', CList [''Content-Type: application/json'',
     ''Authorization: Bearer '' @ json_str token, ''User-Agent: curl''])]"

definition connect_ibm_vpc :: "fs_limits \<Rightarrow> 'd curl \<Rightarrow> ('d vpc, unit) prog" where
  "connect_ibm_vpc L C =
     bindM (stroptM ''--region'') (\<lambda>region.
     seqM (set_base_url (''https://'' @ region @ ''.iaas.cloud.ibm.com/v1/''))
    (bindM (intoptM ''--shell-timeout'') (\<lambda>timeout.
     bindM (showoptM ''--proxy'') (\<lambda>proxy.
     seqM (setopts ([(''TIMEOUT'', CInt timeout)] @ verify_opts True @ [(''PROXY'', CStr proxy)]))
    (bindM token_path (\<lambda>path.
     bindM (getM (\<lambda>s. vpc_files (world s) path)) (\<lambda>kept.
     bindM (case kept of Some t \<Rightarrow> retM (JStr t) | None \<Rightarrow> get_bearer_token L C) (\<lambda>token.
     seqM (set_bearer_token token)
          (tryM (seqM (send_command_vpc C ''instances?version=2021-05-25&generation=2&limit=1'' None 200) (retM ()))
             (\<lambda>_. Some (bindM (get_bearer_token L C) set_bearer_token)))))))))))"

section \<open>The main function\<close>

definition fns_ibm_vpc :: "'d curl \<Rightarrow> 'd vpc power_fns" where
  "fns_ibm_vpc C = \<lparr>set_power_fn = Some (set_power_status_ibm_vpc C), get_power_fn = Some (get_power_status_ibm_vpc C),
     get_outlet_list = Some (get_list_ibm_vpc C), reboot_cycle_fn = None, sync_set_power_fn = None\<rparr>"

definition new_opts_ibm_vpc :: "(string \<times> optdef) list" where
  "new_opts_ibm_vpc =
    [(''apikey'', \<lparr>o_getopt = '':'', o_longopt = Some ''apikey'',
        o_help = ''--apikey=[key]                 API Key'',
        o_required = Some ''1'', o_shortdesc = Some ''API Key'',
        o_type = None, o_default = None, o_choices = None, o_order = 0\<rparr>),
     (''region'', \<lparr>o_getopt = '':'', o_longopt = Some ''region'',
        o_help = ''--region=[region]              Region'',
        o_required = Some ''1'', o_shortdesc = Some ''Region'',
        o_type = None, o_default = None, o_choices = None, o_order = 0\<rparr>),
     (''proxy'', \<lparr>o_getopt = '':'', o_longopt = Some ''proxy'',
        o_help = ''--proxy=[http://<URL>:<PORT>]  Proxy: '' @ [CHR 0x27] @ ''http://<URL>:<PORT>'' @ [CHR 0x27],
        o_required = Some ''0'', o_shortdesc = Some ''Network proxy'',
        o_type = None, o_default = Some (PStr []), o_choices = None, o_order = 0\<rparr>),
     (''limit'', \<lparr>o_getopt = '':'', o_longopt = Some ''limit'',
        o_help = ''--limit=[number]               Limit number of nodes returned by API'',
        o_required = Some ''0'', o_shortdesc = Some ''Number of nodes returned by API'',
        o_type = None, o_default = Some (PInt 50), o_choices = None, o_order = 0\<rparr>),
     (''token_file'', \<lparr>o_getopt = '':'', o_longopt = Some ''token-file'',
        o_help = ''--token-file=[path]            Path to the token cache file'' @ nl @ [CHR 0x09] @ [CHR 0x09] @ [CHR 0x09] @ [CHR 0x09] @ ''  (Default: @FENCETMPDIR@/fence_ibm_vpc/[hash].token)'' @ nl @ [CHR 0x09] @ [CHR 0x09] @ [CHR 0x09] @ [CHR 0x09] @ ''  [hash] will be replaced by a hashed value'',
        o_required = Some ''0'', o_shortdesc = Some ''Path to the token cache file'',
        o_type = None, o_default = Some (PStr ''@FENCETMPDIR@/fence_ibm_vpc/[hash].token''), o_choices = None, o_order = 0\<rparr>)]"

definition device_opt_ibm_vpc :: "string list" where
  "device_opt_ibm_vpc = [''apikey'', ''region'', ''proxy'', ''limit'', ''token_file'', ''port'', ''no_password'']"

definition docs_ibm_vpc :: docs where
  "docs_ibm_vpc = \<lparr>agent_name = None, shortdesc = ''Fence agent for IBM Cloud VPC'',
     longdesc = ''fence_ibm_vpc is a Power Fencing agent which can be used with IBM Cloud VPC to fence virtual machines.'',
     vendorurl = Some ''https://www.ibm.com'', symlink = []\<rparr>"

definition load_apikey :: "('d vpc, unit) prog" where
  "load_apikey = bindM (stroptM ''--apikey'') (\<lambda>apikey. case apikey of
       [] \<Rightarrow> raiseM (IndexError ''string index out of range'')
     | c # path \<Rightarrow>
         if c \<noteq> CHR ''@'' then retM ()
         else bindM (getM (\<lambda>s. vpc_files (world s) path)) (\<lambda>text. case text of
             None \<Rightarrow> seqM (logM (''Failed: Cannot open file '' @ path)) (exitM EC_BAD_ARGS)
           | Some t \<Rightarrow> bindM (liftM (key_of_file t)) (\<lambda>k. setoptM ''--apikey'' (option_value k))))"

definition main_ibm_vpc where
  "main_ibm_vpc L C set_order time_start fuel =
     seqM (on_lib (add_opts new_opts_ibm_vpc))
    (seqM (on_lib (set_default ''shell_timeout'' (PStr ''15'')))
    (seqM (on_lib (set_default ''power_timeout'' (PStr ''30'')))
    (seqM (on_lib (set_default ''power_wait'' (PStr ''1'')))
    (seqM (on_lib (read_options device_opt_ibm_vpc False))
    (seqM (on_lib (show_docs set_order (Some docs_ibm_vpc)))
    (seqM (run_delay time_start 0 0)
    (seqM (on_dev load_apikey)
    (seqM (on_dev (connect_ibm_vpc L C))
          (exit_with (on_dev (fence_action fuel (fns_ibm_vpc C))))))))))))"

end
