(* ===== verification/Fence_Zvm.thy ===== *)
theory Fence_Zvm
  imports Rest_Agents
begin

text \<open>
  \<open>agents/zvm/fence_zvmip.py\<close> (z/VM, through its Systems Management API). A request is a packet of
  fields, each a length and the bytes of a text, over a TCP or TLS connection; the answer starts with
  five numbers and may end with a list of names. The sockets are parameters: the addresses of a host,
  connecting, sending, receiving at most so many bytes (for a connection without TLS all of them, if the
  flag \<open>MSG_WAITALL\<close> was given) and closing. Texts are ASCII: a byte of the list of names that is not
  cannot be decoded.
\<close>

section \<open>Packed numbers and texts\<close>

definition struct_error :: exn where
  "struct_error = ClassError ''error'' ''unpack requires a buffer of other length''"

definition pack_int :: "int \<Rightarrow> string outcome" where
  \<comment> \<open>\<open>struct.pack("!i", n)\<close>: 32 bits, the most significant byte first\<close>
  "pack_int n = (if - (2 ^ 31) \<le> n \<and> n < 2 ^ 31
     then Ret (map char_of [n div 2 ^ 24 mod 2 ^ 8, n div 2 ^ 16 mod 2 ^ 8, n div 2 ^ 8 mod 2 ^ 8, n mod 2 ^ 8])
     else Raise (ClassError ''error'' ''argument out of range''))"

fun unpack_int :: "string \<Rightarrow> int outcome" where
  \<comment> \<open>\<open>struct.unpack("!i", data)[0]\<close>\<close>
  "unpack_int [a, b, c, d] =
     (let u = of_char a * 2 ^ 24 + of_char b * 2 ^ 16 + of_char c * 2 ^ 8 + of_char d :: int in
      Ret (if u < 2 ^ 31 then u else u - 2 ^ 32))"
| "unpack_int _ = Raise struct_error"

definition smapi_pack_string :: "string \<Rightarrow> string outcome" where
  "smapi_pack_string t = bindO (pack_int (int (length t))) (\<lambda>n. Ret (n @ t))"

fun pack_strings :: "string list \<Rightarrow> string outcome" where
  "pack_strings [] = Ret []"
| "pack_strings (t # ts) = bindO (smapi_pack_string t) (\<lambda>p. bindO (pack_strings ts) (\<lambda>q. Ret (p @ q)))"

definition packet_size :: "string \<Rightarrow> string \<Rightarrow> string \<Rightarrow> string list \<Rightarrow> int" where
  "packet_size fn user password args =
     3 * 4 + int (length fn) + int (length user) + int (length password) + sum_list (map (\<lambda>arg. 4 + int (length arg)) args)"

definition smapi_packet :: "string \<Rightarrow> string \<Rightarrow> string \<Rightarrow> string list \<Rightarrow> string outcome" where
  "smapi_packet fn user password args =
     bindO (pack_int (packet_size fn user password args)) (\<lambda>n.
     bindO (pack_strings ([fn, user, password] @ args)) (\<lambda>body. Ret (n @ body)))"

definition prepare_smapi_command :: "string \<Rightarrow> string list \<Rightarrow> ('w, string) prog" where
  "prepare_smapi_command fn args =
     bindM (stroptM ''--username'') (\<lambda>user.
     bindM (stroptM ''--password'') (\<lambda>password. liftM (smapi_packet fn user password args)))"

section \<open>The connection\<close>

record socket_to =
  peer :: string
  tls :: "(bool \<times> string) option"            \<comment> \<open>whether the certificate is checked, and the name of the server\<close>
  limit_seconds :: "rat option"

record 'd sockets =
  getaddrinfo :: "string \<Rightarrow> string \<Rightarrow> string \<Rightarrow> ('d, string list) ask"
  connect_socket :: "socket_to \<Rightarrow> ('d, unit) ask"
  send_bytes :: "string \<Rightarrow> ('d, unit) ask"
  recv_bytes :: "nat \<Rightarrow> bool \<Rightarrow> ('d, string) ask"
  close_socket :: "('d, unit) ask"

definition protocol_of :: "pydict \<Rightarrow> string" where
  "protocol_of od = (if od ''--inet6-only'' \<noteq> None then ''AF_INET6'' else if od ''--inet4-only'' \<noteq> None then ''AF_INET'' else ''0'')"

definition uses_ssl :: "pydict \<Rightarrow> bool" where
  "uses_ssl od \<longleftrightarrow> od ''--ssl-secure'' \<noteq> None \<or> od ''--ssl-insecure'' \<noteq> None"

definition resolve_address :: "'d sockets \<Rightarrow> ('d, string) prog" where
  "resolve_address S =
     bindM (getM opts) (\<lambda>od.
     bindM (showoptM ''--ip'') (\<lambda>ip.
     bindM (showoptM ''--ipport'') (\<lambda>port.
     bindM (tryM (queryM (getaddrinfo S ip port (protocol_of od)))
       (\<lambda>e. case e of
          ClassError c _ \<Rightarrow> if c = ''gaierror'' then Some (seqM (fail EC_LOGIN_DENIED True) (raiseM (ClassError ''UnboundLocalError'' ''addr''))) else None
        | _ \<Rightarrow> None)) (\<lambda>addrs. case addrs of
         [] \<Rightarrow> raiseM (IndexError ''list index out of range'')
       | a # _ \<Rightarrow> retM a))))"

definition socket_error :: "exn \<Rightarrow> bool" where
  \<comment> \<open>the classes below OSError\<close>
  "socket_error e = (case e of OSErr _ \<Rightarrow> True | SocketTimeout _ \<Rightarrow> True
     | ClassError c _ \<Rightarrow> c \<in> {''SSLError'', ''SSLCertVerificationError'', ''gaierror'', ''ConnectionRefusedError''} | _ \<Rightarrow> False)"

definition open_socket :: "'d sockets \<Rightarrow> ('d, unit) prog" where
  "open_socket S =
     bindM (resolve_address S) (\<lambda>addr.
     bindM (getM opts) (\<lambda>od.
     bindM (if uses_ssl od then bindM (showoptM ''--ip'') (\<lambda>ip. retM (Some (od ''--ssl-insecure'' = None, ip))) else retM None) (\<lambda>t.
     bindM (optM ''--shell-timeout'') (\<lambda>v.
     bindM (liftM (py_float_val v)) (\<lambda>seconds.
       tryM (queryM (connect_socket S \<lparr>peer = addr, tls = t, limit_seconds = (if seconds = 0 then None else Some seconds)\<rparr>))
         (\<lambda>e. if socket_error e then Some (fail EC_LOGIN_DENIED True) else None))))))"

definition answer_head :: "'d sockets \<Rightarrow> ('d, int \<times> int \<times> int) prog" where
  \<comment> \<open>the length of the output, the return code and the reason code\<close>
  "answer_head S =
     bindM (queryM (recv_bytes S 4 False)) (\<lambda>a.
     bindM (liftM (unpack_int a)) (\<lambda>_.
     bindM (queryM (recv_bytes S 16 False)) (\<lambda>b.
     if length b \<noteq> 16 then raiseM struct_error
     else
       bindM (liftM (unpack_int (take 4 b))) (\<lambda>output_len.
       bindM (liftM (unpack_int (take 4 (drop 8 b)))) (\<lambda>return_code.
       bindM (liftM (unpack_int (drop 12 b))) (\<lambda>reason_code.
         retM (output_len, return_code, reason_code)))))))"

section \<open>Lists of images\<close>

definition decode_utf8 :: "string \<Rightarrow> string outcome" where
  "decode_utf8 t = (if \<exists>c\<in>set t. (of_char c :: nat) \<ge> 128 then Raise (ClassError ''UnicodeDecodeError'' ''invalid start byte'') else Ret t)"

fun read_array :: "nat \<Rightarrow> 'd sockets \<Rightarrow> bool \<Rightarrow> int \<Rightarrow> string \<Rightarrow> ('d, string) prog" where
  \<comment> \<open>the loop that collects the list of names; more data than was announced never ends it\<close>
  "read_array 0 S waitall array_len data = runningM"
| "read_array (Suc fuel) S waitall array_len data =
     bindM (queryM (recv_bytes S 1024 waitall)) (\<lambda>raw.
     bindM (liftM (decode_utf8 raw)) (\<lambda>read_data.
     if array_len = int (length (data @ read_data)) then retM (data @ read_data)
     else if read_data = [] then
       seqM (logM ''Failed: Not enough data read from socket'') (seqM (fail EC_TIMED_OUT True) (retM data))
     else read_array fuel S waitall array_len (data @ read_data)))"

function parse_images :: "int \<Rightarrow> string \<Rightarrow> string list outcome" where
  \<comment> \<open>what is left to be parsed, and how much of it belongs to the list\<close>
  "parse_images left data =
     (if left \<le> 0 then Ret []
      else (case unpack_int (take 4 data) of
         Ret string_len \<Rightarrow>
           if string_len < 0 \<or> int (length (drop 4 data)) < string_len then Raise struct_error
           else
             let image_name = take (nat string_len) (drop 4 data) in
             bindO (parse_images (left - 4 - string_len) (drop (nat string_len) (drop 4 data))) (\<lambda>names. Ret (image_name # names))
       | _ \<Rightarrow> Raise struct_error))"
  by pat_completeness auto
termination by (relation "measure (\<lambda>(left, _). nat left)") auto

declare parse_images.simps [simp del]

definition images_of :: "nat \<Rightarrow> 'd sockets \<Rightarrow> int \<Rightarrow> ('d, string list) prog" where
  "images_of fuel S output_len =
     (if output_len \<le> 3 * 4 then retM []
      else
        bindM (getM opts) (\<lambda>od.
        bindM (queryM (recv_bytes S 4 False)) (\<lambda>a.
        bindM (liftM (unpack_int a)) (\<lambda>array_len.
        bindM (read_array fuel S (\<not> uses_ssl od) array_len []) (\<lambda>data.
          liftM (parse_images array_len data))))))"

definition cannot_connect :: "('w, 'a) prog" where
  "cannot_connect =
     bindM (showoptM ''--ip'') (\<lambda>ip.
     bindM (showoptM ''--ipport'') (\<lambda>port.
     bindM (hasoptM ''--ssl'') (\<lambda>ssl.
     seqM (fail_usage (''Failed: Unable to connect to '' @ ip @ '' port: '' @ port @ '' SSL: ''
         @ (if ssl then ''True'' else ''False'') @ '' '' @ nl) True)
       (raiseM (ClassError ''UnboundLocalError'' ''output_len'')))))"

definition get_list_of_images :: "nat \<Rightarrow> 'd sockets \<Rightarrow> string \<Rightarrow> string option \<Rightarrow> ('d, int \<times> int \<times> string list) prog" where
  "get_list_of_images fuel S cmd data_as_plug =
     seqM (open_socket S)
    (bindM (prepare_smapi_command cmd (case data_as_plug of None \<Rightarrow> [] | Some t \<Rightarrow> [t])) (\<lambda>packet.
     seqM (queryM (send_bytes S packet))
    (bindM (tryM (answer_head S) (\<lambda>e. if e = struct_error then Some cannot_connect else None)) (\<lambda>(output_len, return_code, reason_code).
     bindM (images_of fuel S output_len) (\<lambda>images.
     seqM (queryM (close_socket S)) (retM (return_code, reason_code, images)))))))"

section \<open>Callbacks\<close>

definition power_status_zvmip :: "nat \<Rightarrow> 'd sockets \<Rightarrow> (string list \<Rightarrow> string list) \<Rightarrow> ('d, dual) prog" where
  \<comment> \<open>\<open>get_power_status\<close>, for one image or for the list, which comes in the order of a set\<close>
  "power_status_zvmip fuel S set_order =
     bindM (getM (\<lambda>s. opts s ''--original-action'')) (\<lambda>original.
     if original = Some (PStr ''monitor'') then
       bindM (get_list_of_images fuel S ''Check_Authentication'' None) (\<lambda>(return_code, _, _).
         if return_code = 0 then retM (IsOutlets [])
         else seqM (fail EC_LOGIN_DENIED True) (raiseM (ClassError ''UnboundLocalError'' [])))
     else
       bindM (optM ''--action'') (\<lambda>action.
       let listing = (action = PStr ''list'') in
       seqM (if listing then setoptM ''--plug'' (PStr ''*'') else retM ())
      (bindM (stroptM ''--plug'') (\<lambda>plug.
       bindM (get_list_of_images fuel S ''Image_Status_Query'' (Some plug)) (\<lambda>(return_code, reason_code, images_active).
       if listing then
         bindM (stroptM ''--username'') (\<lambda>user.
         bindM (get_list_of_images fuel S ''Image_Name_Query_DM'' (Some user)) (\<lambda>(_, _, images_defined).
           retM (IsOutlets (map (\<lambda>i. (i, [], if i \<in> set images_active then ''on'' else ''off'')) (set_order images_defined)))))
       else if return_code = 0 \<and> reason_code = 0 then retM (IsStatus ''on'')
       else if return_code = 0 \<and> reason_code = 12 then retM (IsStatus ''off'')
       else retM (IsStatus ''unknown''))))))"

definition set_power_status_zvmip :: "'d sockets \<Rightarrow> ('d, unit) prog" where
  "set_power_status_zvmip S =
     seqM (open_socket S)
    (bindM (optM ''--action'') (\<lambda>action.
     bindM (if action = PStr ''on'' then
              bindM (stroptM ''--plug'') (\<lambda>plug. prepare_smapi_command ''Image_Activate'' [plug])
            else if action = PStr ''off'' then
              bindM (stroptM ''--plug'') (\<lambda>plug. prepare_smapi_command ''Image_Deactivate'' [plug, ''IMMED''])
            else raiseM (TypeError ''a bytes-like object is required'')) (\<lambda>packet.
     seqM (queryM (send_bytes S packet))
    (seqM (answer_head S) (queryM (close_socket S))))))"

definition fns_zvmip :: "nat \<Rightarrow> 'd sockets \<Rightarrow> (string list \<Rightarrow> string list) \<Rightarrow> 'd power_fns" where
  "fns_zvmip fuel S set_order = \<lparr>set_power_fn = Some (set_power_status_zvmip S),
     get_power_fn = Some (as_status (power_status_zvmip fuel S set_order)),
     get_outlet_list = Some (as_outlets (power_status_zvmip fuel S set_order)), reboot_cycle_fn = None, sync_set_power_fn = None\<rparr>"

section \<open>The main function\<close>

definition new_opts_zvmip :: "(string \<times> optdef) list" where
  "new_opts_zvmip =
    [(''disable_ssl'', \<lparr>o_getopt = [], o_longopt = Some ''disable-ssl'',
        o_help = ''--disable-ssl                  Don'' @ [CHR 0x27] @ ''t use SSL connection'',
        o_required = Some ''0'', o_shortdesc = Some (''Don'' @ [CHR 0x27] @ ''t use SSL''),
        o_type = None, o_default = None, o_choices = None, o_order = 2\<rparr>)]"

definition device_opt_zvmip :: "string list" where
  "device_opt_zvmip = [''ipaddr'', ''login'', ''passwd'', ''port'', ''method'', ''missing_as_off'', ''inet4_only'', ''inet6_only'', ''ssl'', ''disable_ssl'']"

definition docs_zvmip :: docs where
  "docs_zvmip = \<lparr>agent_name = None, shortdesc = ''Fence agent for use with z/VM Virtual Machines'',
     longdesc = ''fence_zvmip is a Power Fencing agent for z/VM SMAPI service via TCP/IP.'' @ nl @ nl @ ''The z/VM SMAPI service must be configured so that the virtual machine running'' @ nl @ ''the agent can connect to the service, access the system'' @ [CHR 0x27] @ ''s directory manager,'' @ nl @ ''and shortly thereafter run image_deactivate and image_activate. This involves'' @ nl @ ''updating the VSMWORK1 NAMELIST and VSMWORK1 AUTHLIST VMSYS:VSMWORK1 files.'' @ nl @ nl @ ''The NAMELIST entry assigns all the required functions to one nick and should'' @ nl @ ''look similar to this:'' @ nl @ nl @ '':nick.ZVM_FENCE'' @ nl @ ''.br'' @ nl @ '':list.'' @ nl @ ''.br'' @ nl @ ''IMAGE_ACTIVATE'' @ nl @ ''.br'' @ nl @ ''IMAGE_DEACTIVATE'' @ nl @ ''.br'' @ nl @ ''IMAGE_STATUS_QUERY'' @ nl @ ''.br'' @ nl @ ''CHECK_AUTHENTICATION'' @ nl @ ''.br'' @ nl @ ''IMAGE_NAME_QUERY_DM'' @ nl @ nl @ nl @ ''The AUTHLIST entry authorizes the user to perform all the functions associated'' @ nl @ ''with the nick, and should look similar to this:'' @ nl @ nl @ ''Column 1                   Column 66                Column 131'' @ nl @ nl @ ''|                          |                        |'' @ nl @ ''.br'' @ nl @ ''V                          V                        V'' @ nl @ nl @ ''XXXXXXXX                   ALL                      ZVM_FENCE'' @ nl @ nl @ ''where XXXXXXXX is the name of the user in the authuser field of the request.'' @ nl @ nl @ ''Refer to the official z/VM documentation for complete instructions and'' @ nl @ ''reference materials.'' @ nl,
     vendorurl = Some ''http://www.ibm.com'', symlink = []\<rparr>"

definition check_zvmip :: "('w, unit) prog" where
  \<comment> \<open>between the options and the help texts\<close>
  "check_zvmip =
     seqM no_ssl_docker
    (bindM (getM (\<lambda>s. opts s ''--plug'')) (\<lambda>plug.
     bindM (case plug of None \<Rightarrow> retM 0 | Some (PStr t) \<Rightarrow> retM (length t) | Some _ \<Rightarrow> raiseM (TypeError ''len'')) (\<lambda>n.
     seqM (if n > 8 then fail_usage ''Failed: Name of image can not be longer than 8 characters'' True else retM ())
    (bindM (optM ''--action'') (\<lambda>action. if action = PStr ''validate-all'' then exitM 0 else retM ())))))"

definition main_zvmip where
  "main_zvmip S images set_order time_start fuel =
     seqM (on_lib (add_opts new_opts_zvmip))
    (seqM (on_lib (set_help ''ssl'' ''-z, --ssl                      Use SSL connection with verifying certificate (Default)''))
    (seqM (on_lib (set_default ''ipport'' (PStr ''44444'')))
    (seqM (on_lib (set_default ''shell_timeout'' (PStr ''5'')))
    (seqM (on_lib (set_default ''missing_as_off'' (PStr ''1'')))
    (seqM (on_lib (set_default ''ssl'' (PStr ''1'')))
    (seqM (on_lib (read_options device_opt_zvmip True))
    (seqM check_zvmip
    (seqM (on_lib (show_docs set_order (Some docs_zvmip)))
    (seqM (run_delay time_start 0 0)
          (exit_with (on_dev (fence_action fuel (fns_zvmip images S set_order)))))))))))))"

section \<open>What is packed can be read\<close>

lemma unpack_pack_int:
  assumes "pack_int n = Ret p"
  shows "unpack_int p = Ret n \<and> length p = 4"
proof -
  from assms have r: "- (2 ^ 31) \<le> n" "n < 2 ^ 31"
    and p: "p = [char_of (n div 2 ^ 24 mod 2 ^ 8), char_of (n div 2 ^ 16 mod 2 ^ 8), char_of (n div 2 ^ 8 mod 2 ^ 8), char_of (n mod 2 ^ 8)]"
    by (auto simp: pack_int_def split: if_splits)
  define a b c e where "a = n div 256" and "b = a div 256" and "c = b div 256" and "e = c div 256"
  have quotients: "n div 2 ^ 24 = c" "n div 2 ^ 16 = b" "n div 2 ^ 8 = a"
    by (simp_all add: a_def b_def c_def zdiv_zmult2_eq [symmetric])
  define u where "u = c mod 256 * 2 ^ 24 + b mod 256 * 2 ^ 16 + a mod 256 * 2 ^ 8 + n mod 256"
  have whole: "n = a * 256 + n mod 256" "a = b * 256 + a mod 256" "b = c * 256 + b mod 256" "c = e * 256 + c mod 256"
    by (simp_all add: a_def b_def c_def e_def)
  have bytes: "0 \<le> n mod 256" "n mod 256 < 256" "0 \<le> a mod 256" "a mod 256 < 256" "0 \<le> b mod 256" "b mod 256 < 256"
    "0 \<le> c mod 256" "c mod 256 < 256" by simp_all
  have "n = e * 2 ^ 32 + u" using whole by (simp add: u_def)
  moreover have "0 \<le> u" "u < 2 ^ 32" using bytes by (simp_all add: u_def)
  ultimately have "(if u < 2 ^ 31 then u else u - 2 ^ 32) = n"
    using r by (cases "e = 0"; cases "e = - 1") auto
  moreover have "unpack_int p = Ret (if u < 2 ^ 31 then u else u - 2 ^ 32)"
    by (simp only: p quotients unpack_int.simps Let_def of_char_of u_def [symmetric] list.map) (simp only: mod_mod_trivial power_numeral pow.simps sqr.simps u_def refl)
  ultimately show ?thesis by (simp add: p)
qed

lemma pack_string_parts:
  "smapi_pack_string t = Ret p \<Longrightarrow> \<exists>n. pack_int (int (length t)) = Ret n \<and> p = n @ t \<and> length p = 4 + length t"
  by (auto simp: smapi_pack_string_def ret_iff dest: unpack_pack_int)

lemma length_pack_strings:
  "pack_strings ts = Ret d \<Longrightarrow> int (length d) = sum_list (map (\<lambda>t. 4 + int (length t)) ts)"
  by (induction ts arbitrary: d) (auto simp: ret_iff dest!: pack_string_parts)

lemma parse_pack_strings:
  "pack_strings ts = Ret d \<Longrightarrow> parse_images (int (length d)) d = Ret ts"
proof (induction ts arbitrary: d)
  case Nil
  then show ?case by (simp add: parse_images.simps)
next
  case (Cons t ts)
  then obtain p q where p: "smapi_pack_string t = Ret p" and q: "pack_strings ts = Ret q" and d: "d = p @ q"
    by (auto simp: ret_iff)
  from pack_string_parts [OF p] obtain n where n: "pack_int (int (length t)) = Ret n" and pn: "p = n @ t" by blast
  from unpack_pack_int [OF n] have u: "unpack_int n = Ret (int (length t))" and four: "length n = 4" by auto
  have cut: "take 4 d = n" "drop 4 d = t @ q" using d pn four by auto
  have left: "int (length d) - 4 - int (length t) = int (length q)" using d pn four by simp
  have "parse_images (int (length d)) d = bindO (parse_images (int (length q)) q) (\<lambda>names. Ret (t # names))"
    using u four left d pn by (subst parse_images.simps) (simp add: cut Let_def)
  then show ?case by (simp add: Cons.IH [OF q])
qed

text \<open>
  The packets of the z/VM agent can be read by who receives them. The number at the start of a
  request is the number of bytes that follow it, also for texts of any length, and the fields after it
  are, in order, the name of the function, the user, the password and the arguments. They are packed in
  the same way as the names in an answer: the code that reads the list of images gives them back.
\<close>

theorem smapi_round_trip:
  assumes "smapi_packet fn user password args = Ret packet"
  shows "unpack_int (take 4 packet) = Ret (int (length packet) - 4) \<and>
    parse_images (int (length packet) - 4) (drop 4 packet) = Ret ([fn, user, password] @ args)"
proof -
  from assms obtain n body where n: "pack_int (packet_size fn user password args) = Ret n"
    and body: "pack_strings ([fn, user, password] @ args) = Ret body" and packet: "packet = n @ body"
    by (auto simp: smapi_packet_def ret_iff)
  have "packet_size fn user password args = int (length body)"
    using length_pack_strings [OF body] by (simp add: packet_size_def)
  with unpack_pack_int [OF n] parse_pack_strings [OF body] packet show ?thesis by simp
qed

theorem smapi_round_trip_witness:
  "\<exists>packet. smapi_packet ''Image_Deactivate'' ''FENCE'' ''secret'' [''LINUX01'', ''IMMED''] = Ret packet \<and>
     length packet = 63 \<and> parse_images (int (length packet) - 4) (drop 4 packet)
       = Ret [''Image_Deactivate'', ''FENCE'', ''secret'', ''LINUX01'', ''IMMED'']"
proof -
  have "case smapi_packet ''Image_Deactivate'' ''FENCE'' ''secret'' [''LINUX01'', ''IMMED''] of Ret packet \<Rightarrow> length packet = 63 | _ \<Rightarrow> False"
    by code_simp
  then obtain packet where p: "smapi_packet ''Image_Deactivate'' ''FENCE'' ''secret'' [''LINUX01'', ''IMMED''] = Ret packet"
    and n: "length packet = 63" by (auto split: outcome.splits)
  from smapi_round_trip [OF p] have "parse_images (int (length packet) - 4) (drop 4 packet)
      = Ret [''Image_Deactivate'', ''FENCE'', ''secret'', ''LINUX01'', ''IMMED'']" by simp
  with p n show ?thesis by blast
qed

end
