(* ===== verification/Fence_Lindypdu.thy ===== *)
theory Fence_Lindypdu
  imports Snmp_Pdu Fence_Login
begin

text \<open>
  \<open>agents/lindy_pdu/fence_lindypdu.py\<close>: a power strip whose outlets are read and written together, as
  the list of their states in one SNMP variable. The global variable \<open>device\<close> is the one of the
  other agents for power strips; its class has two more object identifiers.
\<close>

section \<open>Python lists\<close>

definition place_of :: "int \<Rightarrow> 'a list \<Rightarrow> nat option" where
  \<comment> \<open>the place that an index means; a negative one counts from the end\<close>
  "place_of i xs = (let n = int (length xs); j = (if i < 0 then i + n else i)
     in if 0 \<le> j \<and> j < n then Some (nat j) else None)"

definition py_item :: "int \<Rightarrow> 'a list \<Rightarrow> 'a outcome" where
  "py_item i xs = (case place_of i xs of Some j \<Rightarrow> Ret (xs ! j) | None \<Rightarrow> Raise (IndexError ''list index out of range''))"

definition from_end :: "int \<Rightarrow> 'a list \<Rightarrow> 'a outcome" where
  \<comment> \<open>\<open>t[len(t)-k]\<close>\<close>
  "from_end k t = py_item (int (length t) - k) t"

section \<open>The device\<close>

definition LindyPDU :: pdu where
  "LindyPDU = \<lparr>status_oid = ''.1.3.6.1.4.1.17420.1.2.9.%d.13.0'',
     control_oid = ''.1.3.6.1.4.1.17420.1.2.9.%d.13.0'', outlet_table_oid = ''.1.3.6.1.4.1.17420.1.2.9.%d.14'',
     ident_str = ''Lindy  32657 PDU'', state_on = 1, state_off = 0, turn_on = 1, turn_off = 0, has_switches = True\<rparr>"

definition pdu_table_oid :: string where
  "pdu_table_oid = ''.1.3.6.1.4.1.17420.1.2.9''"

definition attached_pdus :: string where
  "attached_pdus = ''.1.3.6.1.4.1.17420.1.2.5.0''"

definition lpdu_set_device :: "'d pexpect_run \<Rightarrow> ('d, unit) pdu_prog" where
  "lpdu_set_device run = set_device run [''.1.3.6.1.4.1.17420'' \<mapsto> LindyPDU] None"

definition first_field :: "string \<Rightarrow> string" where
  \<comment> \<open>\<open>x.strip('"').split(',')[0]\<close>\<close>
  "first_field t = hd (py_split '','' (unquoted t))"

definition match_name :: "pdu \<Rightarrow> string \<Rightarrow> int option \<times> int option \<Rightarrow> string list \<Rightarrow> ('d, int option \<times> int option) pdu_prog" where
  \<comment> \<open>a row of the table with the name: the last component is taken for the port and the one two before it for the switch\<close>
  "match_name m plug found x = bindM (row_value x) (\<lambda>v.
     if first_field v \<noteq> plug then retM found
     else bindM (row_oid x) (\<lambda>t.
          bindM (liftM (from_end 1 t)) (\<lambda>p.
          bindM (int_of p) (\<lambda>port.
            if has_switches m
            then bindM (liftM (from_end 3 t)) (\<lambda>w. bindM (int_of w) (\<lambda>sw. retM (Some sw, Some port)))
            else retM (fst found, Some port)))))"

definition lpdu_resolv_port_id :: "'d pexpect_run \<Rightarrow> ('d, int option \<times> int) pdu_prog" where
  "lpdu_resolv_port_id run =
     bindM (globalM device) (\<lambda>d.
     seqM (if d = None then lpdu_set_device run else retM ())
    (bindM the_device (\<lambda>m.
     bindM (stroptM ''--plug'') (\<lambda>plug.
     bindM (numbered_outlet m plug) (\<lambda>numbered.
     bindM (if numbered then
              bindM (int_of plug) (\<lambda>port.
                if has_switches m then bindM (intoptM ''--switch'') (\<lambda>sw. retM (Some sw, Some port)) else retM (None, Some port))
            else bindM (snmp_walk run pdu_table_oid 30) (\<lambda>table. foldM (match_name m plug) (None, None) table)) (\<lambda>(sw, found).
       case found of
         None \<Rightarrow> seqM (fail_usage (''Can'' @ [CHR 0x27] @ ''t find port with name '' @ plug @ ''!'') True) (retM (sw, 0))
       | Some port \<Rightarrow> retM (sw, port)))))))"

definition switch_oid :: "(pdu \<Rightarrow> string) \<Rightarrow> pdu \<Rightarrow> int option \<Rightarrow> int \<Rightarrow> string outcome" where
  \<comment> \<open>\<open>device.has_switches and oid % switch_id or oid % port_id\<close>\<close>
  "switch_oid oid m sw port =
     (if has_switches m then (case sw of None \<Rightarrow> Raise (TypeError ''%d format'') | Some w \<Rightarrow> Ret (format_d (oid m) [w]))
      else Ret (format_d (oid m) [port]))"

definition outlet_states :: "string \<Rightarrow> string list" where
  "outlet_states t = py_split '','' (unquoted t)"

definition get_power_status_lindypdu :: "'d pexpect_run \<Rightarrow> ('d, string option) pdu_prog" where
  "get_power_status_lindypdu run =
     bindM (lpdu_resolv_port_id run) (\<lambda>(sw, port).
     bindM the_device (\<lambda>m.
     bindM (liftM (switch_oid status_oid m sw port)) (\<lambda>oid.
     tryM (bindM (snmp_value run oid) (\<lambda>text.
           bindM (liftM (py_item (port - 1) (outlet_states text))) (\<lambda>state.
             retM (if state = show_int (state_on m) then Some ''on''
                   else if state = show_int (state_off m) then Some ''off'' else None))))
       (\<lambda>_. Some (retM None)))))"

definition set_power_status_lindypdu :: "'d pexpect_run \<Rightarrow> ('d, unit) pdu_prog" where
  "set_power_status_lindypdu run =
     bindM (lpdu_resolv_port_id run) (\<lambda>(sw, port).
     bindM the_device (\<lambda>m.
     bindM (liftM (switch_oid control_oid m sw port)) (\<lambda>oid.
     bindM (snmp_value run oid) (\<lambda>text.
     let states = outlet_states text in
     bindM is_on (\<lambda>on_action.
       (case place_of (port - 1) states of
          None \<Rightarrow> raiseM (IndexError ''list assignment index out of range'')
        | Some j \<Rightarrow> snmp_set run oid (PStr (py_join '',''
            (states[j := show_int (and_or on_action (turn_on m) (turn_off m))])))))))))"

section \<open>The list of outlets\<close>

definition switch_ids :: "'d pexpect_run \<Rightarrow> pdu \<Rightarrow> ('d, string list) pdu_prog" where
  "switch_ids run m =
     (if \<not> has_switches m then retM []
      else bindM (stroptM ''--switch'') (\<lambda>sw.
        if py_isdigit sw then retM [sw]
        else bindM (snmp_walk run attached_pdus 30) (\<lambda>pdus.
             bindM (liftM (py_item 0 pdus)) (\<lambda>row.
             bindM (row_value row) (\<lambda>v. retM (tl (outlet_states v)))))))"

definition outlet_row :: "pdu \<Rightarrow> string list \<Rightarrow> outlet list \<Rightarrow> string list \<Rightarrow> ('d, outlet list) pdu_prog" where
  \<comment> \<open>here the port is the last component but one, and the switch stands two before it\<close>
  "outlet_row m states result x =
     bindM (row_oid x) (\<lambda>t.
     bindM (if has_switches m
            then bindM (liftM (from_end 4 t)) (\<lambda>w. bindM (liftM (from_end 2 t)) (\<lambda>p. retM (w @ '':'' @ p)))
            else liftM (from_end 2 t)) (\<lambda>port_num.
     bindM (row_value x) (\<lambda>v.
     bindM (liftM (from_end 2 t)) (\<lambda>p.
     bindM (int_of p) (\<lambda>n.
     bindM (liftM (py_item (n - 1) states)) (\<lambda>state.
       retM (put_outlet result (port_num, first_field v, Some (on_off (state = ''1''))))))))))"

definition get_outlets_status_lindypdu :: "'d pexpect_run \<Rightarrow> ('d, outlet list) pdu_prog" where
  "get_outlets_status_lindypdu run =
     bindM (globalM device) (\<lambda>d.
     seqM (if d = None then lpdu_set_device run else retM ())
    (bindM the_device (\<lambda>m.
     bindM (switch_ids run m) (\<lambda>ids.
     foldM (\<lambda>result ident.
       bindM (int_of ident) (\<lambda>n.
       bindM (snmp_walk run (format_d (outlet_table_oid m) [n]) 30) (\<lambda>res_ports.
       bindM (snmp_walk run (format_d (status_oid m) [n]) 30) (\<lambda>port_status.
       bindM (liftM (py_item 0 port_status)) (\<lambda>row.
       bindM (row_value row) (\<lambda>v. foldM (outlet_row m (outlet_states v)) result res_ports)))))) [] ids))))"

definition fns_lindypdu :: "'d pexpect_run \<Rightarrow> ('d, pdu_globals) snmp_world power_fns" where
  "fns_lindypdu run = \<lparr>set_power_fn = Some (set_power_status_lindypdu run),
     get_power_fn = Some (get_power_status_lindypdu run), get_outlet_list = Some (get_outlets_status_lindypdu run),
     reboot_cycle_fn = None, sync_set_power_fn = None\<rparr>"

definition device_opt_lindypdu :: "string list" where
  "device_opt_lindypdu = [''ipaddr'', ''login'', ''passwd'', ''no_login'', ''no_password'', ''port'', ''snmp_version'', ''snmp'', ''switch'']"

definition docs_lindypdu :: docs where
  "docs_lindypdu = \<lparr>agent_name = None, shortdesc = ''Fence agent for Lindy over SNMP'',
     longdesc = ''fence_lindypdu is a Power Fencing agent which can be used with the Lindy PDU network power switch. It logs into a device via SNMP and reboots a specified outlet. It supports SNMP v1 with all combinations of authenticity/privacy settings.'',
     vendorurl = Some ''http://www.lindy.co.uk'', symlink = []\<rparr>"

definition main_lindypdu where
  "main_lindypdu run set_order time_start fuel =
     seqM (on_lib (set_default ''snmp_version'' (PStr ''1'')))
    (seqM (on_lib (set_default ''community'' (PStr ''public'')))
    (seqM (on_lib (set_default ''switch'' (PStr ''1'')))
    (seqM (on_dev (snmp_globals (\<lambda>g. g\<lparr>device := Some LindyPDU\<rparr>)))
    (seqM (on_lib (read_options device_opt_lindypdu False))
          (snmp_operate set_order time_start docs_lindypdu fuel (fns_lindypdu run))))))"

section \<open>Names are resolved to the wrong outlet\<close>

text \<open>
  The rows of the table of names end in the number of the switch, 14, the number of the outlet and
  0. The list of outlets reads them so; the search for a name takes the last component for the
  outlet and 14 for the switch.
\<close>

definition name_row :: "nat \<Rightarrow> nat \<Rightarrow> string \<Rightarrow> string list" where
  \<comment> \<open>as \<open>FencingSnmp.walk\<close> gives it\<close>
  "name_row sw port name = [''.1.3.6.1.4.1.17420.1.2.9.'' @ show_nat sw @ ''.14.'' @ show_nat port @ ''.0'', [CHR 0x22] @ name @ '',1'' @ [CHR 0x22]]"

lemma py_split_dot: "CHR ''.'' \<notin> set a \<Longrightarrow> py_split ''.'' (a @ CHR ''.'' # b) = a # py_split ''.'' b"
  by (induction a) (auto simp: py_split_sing)

lemma py_split_dots:
  "\<forall>a\<in>set as. CHR ''.'' \<notin> set a \<Longrightarrow> py_split ''.'' (concat (map (\<lambda>a. a @ ''.'') as) @ b) = as @ py_split ''.'' b"
  by (induction as) (simp_all add: py_split_dot)

lemma no_dot: "CHR ''.'' \<notin> set (show_nat n)"
proof
  assume "CHR ''.'' \<in> set (show_nat n)"
  then obtain d where "d < 10" "CHR ''.'' = hex_digit d" using show_nat_chars by blast
  moreover have "\<forall>d\<in>{..<10}. CHR ''.'' \<noteq> hex_digit d" by code_simp
  ultimately show False by blast
qed

lemma name_row_split:
  "py_split ''.'' (hd (name_row sw port name)) =
     [[], ''1'', ''3'', ''6'', ''1'', ''4'', ''1'', ''17420'', ''1'', ''2'', ''9'', show_nat sw, ''14'', show_nat port, ''0'']"
proof -
  let ?as = "[[], ''1'', ''3'', ''6'', ''1'', ''4'', ''1'', ''17420'', ''1'', ''2'', ''9'', show_nat sw, ''14'', show_nat port]"
  have "hd (name_row sw port name) = concat (map (\<lambda>a. a @ ''.'') ?as) @ ''0''"
    by (simp add: name_row_def)
  moreover have "py_split ''.'' (concat (map (\<lambda>a. a @ ''.'') ?as) @ ''0'') = ?as @ py_split ''.'' ''0''"
    by (rule py_split_dots) (simp add: no_dot)
  moreover have "py_split ''.'' ''0'' = [''0'']" by (simp add: py_split_sing)
  ultimately show ?thesis by (simp only: append.simps)
qed

lemma first_field_row: "CHR '','' \<notin> set name \<Longrightarrow> CHR 0x22 \<notin> set name \<Longrightarrow> first_field (hd (tl (name_row sw port name))) = name"
proof -
  assume n: "CHR '','' \<notin> set name" "CHR 0x22 \<notin> set name"
  have "dropWhile (\<lambda>c. c = CHR 0x22) (name @ '',1'' @ [CHR 0x22]) = name @ '',1'' @ [CHR 0x22]"
    using n by (cases name) auto
  then have "unquoted (hd (tl (name_row sw port name))) = name @ '',1''"
    by (simp add: unquoted_def strip_by_def name_row_def)
  moreover have "hd (py_split '','' (name @ '',1'')) = name" using n(1) by (induction name) (auto simp: py_split_sing)
  ultimately show ?thesis by (simp add: first_field_def)
qed

lemma row_facts:
  "row_oid (name_row sw port name) s = (Ret (py_split ''.'' (hd (name_row sw port name))), s)"
  "row_value (name_row sw port name) s = (Ret (hd (tl (name_row sw port name))), s)"
  by (simp_all add: row_oid_def row_value_def name_row_def run_simps)

lemma int_of_show: "int_of (show_nat n) s = (Ret (int n), s)"
  using py_int_show [of "int n"] by (simp add: int_of_def py_int_def show_int_def run_simps)

text \<open>
  fence\_lindypdu lists a named outlet under its switch and number, but resolves the same name
  to outlet 0 of a switch 14: whatever the row of the table of names says, a plug given by its name
  is not the outlet of that name.
\<close>

theorem lindy_name_misresolved:
  assumes "CHR '','' \<notin> set name" "CHR 0x22 \<notin> set name" "1 \<le> port" "port \<le> length states"
  shows "outlet_row LindyPDU states [] (name_row sw port name) s
           = (Ret [(show_nat sw @ '':'' @ show_nat port, name, Some (on_off (states ! (port - 1) = ''1'')))], s)
       \<and> match_name LindyPDU name found (name_row sw port name) s = (Ret (Some 14, Some 0), s)"
proof
  note row = name_row_split [of sw port name] first_field_row [OF assms(1,2), of sw port] row_facts
  have "py_item (int port - 1) states = Ret (states ! (port - 1))"
    using assms(3,4) by (simp add: py_item_def place_of_def Let_def nat_diff_distrib)
  then show "outlet_row LindyPDU states [] (name_row sw port name) s
           = (Ret [(show_nat sw @ '':'' @ show_nat port, name, Some (on_off (states ! (port - 1) = ''1'')))], s)"
    by (simp add: outlet_row_def bindM_def run_simps row from_end_def py_item_def place_of_def LindyPDU_def int_of_show put_outlet_def)
  have "int_of ''0'' t = (Ret 0, t)" "int_of ''14'' t = (Ret 14, t)" for t :: "('a, pdu_globals) snmp_world st"
    by (simp_all add: int_of_def py_int_def py_int_str_def py_int_base_def py_startswith_def strip_by_def is_space_def run_simps)
  then show "match_name LindyPDU name found (name_row sw port name) s = (Ret (Some 14, Some 0), s)"
    by (simp add: match_name_def bindM_def run_simps row from_end_def py_item_def place_of_def LindyPDU_def)
qed

theorem lindy_name_misresolved_witness:
  "\<forall>s. outlet_row LindyPDU [''1'', ''0''] [] (name_row 1 2 ''node2'') s = (Ret [(''1:2'', ''node2'', Some ''off'')], s)
     \<and> match_name LindyPDU ''node2'' (None, None) (name_row 1 2 ''node2'') s = (Ret (Some 14, Some 0), s)"
proof
  fix s
  have "show_nat 1 = ''1''" "show_nat 2 = ''2''" by (subst show_nat.simps; simp add: hex_digit_def)+
  then show "outlet_row LindyPDU [''1'', ''0''] [] (name_row 1 2 ''node2'') s = (Ret [(''1:2'', ''node2'', Some ''off'')], s)
     \<and> match_name LindyPDU ''node2'' (None, None) (name_row 1 2 ''node2'') s = (Ret (Some 14, Some 0), s)"
    using lindy_name_misresolved [of "''node2''" 2 "[''1'', ''0'']" 1 s "(None, None)"] by (simp add: on_off_def)
qed

end
