(* ===== verification/Fence_Eps.thy ===== *)
theory Fence_Eps
  imports Web_Client Md5
begin

text \<open>
  \<open>agents/eps/fence_eps.py\<close> (ePowerSwitch, also as fence\_epsr2): one GET request per command, with
  \<open>http.client\<close> and \<open>base64\<close> of the standard library. The exchange with the server is a parameter: host,
  path and headers of the request, and what is answered. The file name of the program, which
  tells the two kinds of device apart, is an argument.
\<close>

section \<open>Base 64\<close>

definition b64_char :: "nat \<Rightarrow> char" where
  "b64_char n = (if n < 26 then char_of (65 + n) else if n < 52 then char_of (71 + n)
     else if n < 62 then char_of (n - 4) else if n = 62 then CHR ''+'' else CHR ''/'')"

fun b64 :: "nat list \<Rightarrow> string" where
  "b64 [] = []"
| "b64 [a] = [b64_char (a div 4), b64_char (a mod 4 * 16), CHR ''='', CHR ''='']"
| "b64 [a, b] = [b64_char (a div 4), b64_char (a mod 4 * 16 + b div 16), b64_char (b mod 16 * 4), CHR ''='']"
| "b64 (a # b # c # bytes) =
     [b64_char (a div 4), b64_char (a mod 4 * 16 + b div 16), b64_char (b mod 16 * 4 + c div 64), b64_char (c mod 64)] @ b64 bytes"

definition encodebytes :: "nat list \<Rightarrow> string" where
  \<comment> \<open>a line for every 57 bytes, each with its line break\<close>
  "encodebytes bytes = concat (map (\<lambda>g. b64 g @ nl) (groups_of 57 bytes))"

section \<open>Requests\<close>

type_synonym 'd http_get = "string \<Rightarrow> string \<Rightarrow> (string \<times> string) list \<Rightarrow> ('d, http_reply) ask"

fun illegal_value :: "string \<Rightarrow> bool" where
  \<comment> \<open>\<open>putheader\<close> refuses a line break that does not continue the header\<close>
  "illegal_value [] = False"
| "illegal_value (c # cs) =
     (c = CHR 0x0A \<and> (cs = [] \<or> hd cs \<notin> {CHR '' '', CHR 0x09})
      \<or> c = CHR 0x0D \<and> (cs = [] \<or> hd cs \<notin> {CHR '' '', CHR 0x09, CHR 0x0A})
      \<or> illegal_value cs)"

definition invalid_url :: "string \<Rightarrow> bool" where
  \<comment> \<open>\<open>putrequest\<close> refuses blanks and control characters\<close>
  "invalid_url t \<longleftrightarrow> (\<exists>c\<in>set t. (of_char c :: nat) \<le> 32 \<or> (of_char c :: nat) = 127)"

definition auth_header :: "('w, (string \<times> string) list) prog" where
  "auth_header =
     bindM (hasoptM ''--username'') (\<lambda>given.
     if \<not> given then retM []
     else
       bindM (hasoptM ''--password'') (\<lambda>password.
       seqM (if password then retM () else setoptM ''--password'' (PStr []))
      (bindM (stroptM ''--username'') (\<lambda>user.
       bindM (stroptM ''--password'') (\<lambda>pass.
       let v = ''Basic '' @ py_strip (encodebytes (map of_char (user @ '':'' @ pass))) in
         if illegal_value v then raiseM (ValueError ''Invalid header value'') else retM [(''Authorization'', v)])))))"

definition eps_run_command :: "'d http_get \<Rightarrow> string \<Rightarrow> ('d, string) prog" where
  "eps_run_command H query = tryM
     (bindM (stroptM ''--ip'') (\<lambda>ip.
      bindM (stroptM ''--page'') (\<lambda>page.
      let request_str = ''/'' @ page @ (if query \<noteq> [] then ''?'' @ query else []) in
      seqM (if invalid_url request_str then raiseM (ClassError ''InvalidURL'' request_str) else retM ())
     (bindM auth_header (\<lambda>hs.
      bindM (queryM (H ip request_str hs)) (\<lambda>r.
      seqM (if r_code r \<noteq> 200 then fail EC_LOGIN_DENIED True else retM ())
           (retM (r_text r))))))))
     (\<lambda>e. case e of
        SocketTimeout _ \<Rightarrow> Some (seqM (fail EC_TIMED_OUT True) (raiseM (ClassError ''UnboundLocalError'' ''result'')))
      | OSErr m \<Rightarrow> Some (seqM (logM (''Failed: '' @ m)) (seqM (fail EC_LOGIN_DENIED True) (raiseM (ClassError ''UnboundLocalError'' ''result''))))
      | _ \<Rightarrow> None)"

section \<open>Callbacks\<close>

definition eps_re :: re where
  "eps_re = Seq (Lit ''p'') (Seq (Grp 1 (Seq Dig Dig)) (Seq (Lit ''='')
     (Seq (Grp 2 (Alt (Lit ''0'') (Lit ''1''))) (Seq (Star Spc) (Lit ''<br>'')))))"

definition epsr2_re :: re where
  "epsr2_re = Seq (Lit ''m0:o'') (Seq (Grp 1 Dig) (Seq (Lit ''='') (Seq (Grp 2 (Alt (Lit ''on'') (Lit ''off''))) (Star Spc))))"

definition eps_outlets :: "string \<Rightarrow> string \<Rightarrow> entries outcome" where
  \<comment> \<open>for a program of another name the matches are unbound\<close>
  "eps_outlets file t =
     (if file = ''fence_eps'' then
        Ret (fold (\<lambda>st d. AList.update (group 1 st) ([], if group 2 st = ''1'' then ''on'' else ''off'') d) (re_findall eps_re None (py_lower t)) [])
      else if file = ''fence_epsr2'' then
        Ret (fold (\<lambda>st d. AList.update (group 1 st) ([], group 2 st) d) (re_findall epsr2_re None (py_lower t)) [])
      else Raise (ClassError ''UnboundLocalError'' ''status''))"

definition power_status_eps :: "string \<Rightarrow> 'd http_get \<Rightarrow> ('d, dual) prog" where
  \<comment> \<open>\<open>get_power_status\<close>, for one plug or for the list\<close>
  "power_status_eps file H =
     bindM (eps_run_command H []) (\<lambda>ret_val.
     bindM (liftM (eps_outlets file ret_val)) (\<lambda>result.
     bindM is_listing (\<lambda>listing.
     if listing then retM (IsOutlets result)
     else bindM (optM ''--plug'') (\<lambda>plug. case plug of
         PStr p \<Rightarrow> (case map_of result p of
             None \<Rightarrow> seqM (fail_usage ''Failed: You have to enter existing physical plug!'' True) (retM (IsStatus []))
           | Some (_, status) \<Rightarrow> retM (IsStatus status))
       | _ \<Rightarrow> seqM (fail_usage ''Failed: You have to enter existing physical plug!'' True) (retM (IsStatus []))))))"

definition set_power_status_eps :: "string \<Rightarrow> 'd http_get \<Rightarrow> ('d, unit) prog" where
  "set_power_status_eps file H =
     (if file = ''fence_eps'' then
        bindM (showoptM ''--plug'') (\<lambda>plug.
        bindM is_on (\<lambda>on_action.
        seqM (eps_run_command H (''P'' @ plug @ ''='' @ (if on_action then ''1'' else ''0''))) (retM ())))
      else if file = ''fence_epsr2'' then
        bindM (optM ''--action'') (\<lambda>action.
        seqM (if action = PStr ''reboot'' then setoptM ''--action'' (PStr ''off'') else retM ())
       (bindM (showoptM ''--plug'') (\<lambda>plug.
        bindM (showoptM ''--action'') (\<lambda>a.
        seqM (eps_run_command H (''M0:O'' @ plug @ ''='' @ a)) (retM ())))))
      else retM ())"

definition fns_eps :: "string \<Rightarrow> 'd http_get \<Rightarrow> 'd power_fns" where
  "fns_eps file H = \<lparr>set_power_fn = Some (set_power_status_eps file H), get_power_fn = Some (as_status (power_status_eps file H)),
     get_outlet_list = Some (as_outlets (power_status_eps file H)), reboot_cycle_fn = None, sync_set_power_fn = None\<rparr>"

section \<open>The main function\<close>

definition new_opts_eps :: "(string \<times> optdef) list" where
  "new_opts_eps =
    [(''hidden_page'', \<lparr>o_getopt = ''c:'', o_longopt = Some ''page'',
        o_help = ''-c, --page=[page]              Name of hidden page (default: hidden.htm)'',
        o_required = Some ''0'', o_shortdesc = Some ''Name of hidden page'',
        o_type = None, o_default = Some (PStr ''hidden.htm''), o_choices = None, o_order = 1\<rparr>)]"

definition device_opt_eps :: "string list" where
  "device_opt_eps = [''ipaddr'', ''login'', ''passwd'', ''no_login'', ''no_password'', ''port'', ''hidden_page'', ''web'']"

definition docs_eps :: "string \<Rightarrow> docs" where
  \<comment> \<open>with the file name of the agent\<close>
  "docs_eps file = \<lparr>agent_name = Some ''fence_eps'', shortdesc = ''Fence agent for ePowerSwitch'',
     longdesc = file @ '' is a Power Fencing agent which can be used with the ePowerSwitch 8M+ power switch to fence connected machines. It ONLY works on 8M+ devices, as they support the hidden page feature. '' @ nl
       @ ''.TP'' @ nl @ ''The agent works by connecting to the hidden page and pass the appropriate arguments to GET request. This means, that the hidden page feature must be enabled and properly configured. '' @ nl
       @ ''.TP'' @ nl @ ''NOTE: In most cases you want to use fence_epsr2, as fence_eps only works with older hardware.'',
     vendorurl = Some ''https://www.neol.com'',
     symlink = [(''fence_epsr2'', ''Fence agent for ePowerSwitch R2 and newer'')]\<rparr>"

definition main_eps where
  "main_eps H set_order time_start fuel =
     seqM (on_lib (add_opts new_opts_eps))
    (seqM (on_lib (read_options device_opt_eps False))
    (bindM (on_lib (getM (\<lambda>s. basename (argv0 (world s))))) (\<lambda>file.
     seqM (on_lib (show_docs set_order (Some (docs_eps file))))
    (seqM (run_delay time_start 0 0)
          (exit_with (on_dev (fence_action fuel (fns_eps file H))))))))"

section \<open>Long credentials\<close>

lemma is_space_code: "is_space c \<Longrightarrow> (of_char c :: nat) \<le> 32"
  by (auto simp: is_space_def)

lemma b64_char_plain: "\<not> is_space (b64_char n)"
proof
  assume "is_space (b64_char n)"
  then have "(of_char (b64_char n) :: nat) \<le> 32" by (rule is_space_code)
  then show False by (auto simp: b64_char_def split: if_splits)
qed

lemma b64_start:
  assumes "xs \<noteq> []"
  obtains c r where "b64 xs = c # r" "\<not> is_space c"
  using assms by (cases xs rule: b64.cases) (auto simp: b64_char_plain intro: that)

lemma illegal_break: "\<not> is_space b \<Longrightarrow> illegal_value (a @ CHR 0x0A # b # c)"
  by (induction a) (auto simp: is_space_def)

lemma strip_keeps_break:
  assumes "\<not> P (hd a)" "a \<noteq> []" "\<not> P b"
  shows "\<exists>c'. strip_by P (a @ x # b # c) = a @ x # b # c'"
proof -
  have "strip_by P (a @ x # b # c) = rev (dropWhile P (rev c @ [b, x] @ rev a))"
    using assms by (cases a) (simp_all add: strip_by_def)
  also have "\<exists>d. dropWhile P (rev c @ [b, x] @ rev a) = d @ [b, x] @ rev a"
    using assms(3) by (induction c rule: rev_induct) auto
  then obtain d where "dropWhile P (rev c @ [b, x] @ rev a) = d @ [b, x] @ rev a" by blast
  finally show ?thesis by simp
qed

lemma long_credentials_illegal:
  assumes "57 < length xs"
  shows "illegal_value (pre @ py_strip (encodebytes xs))"
proof -
  have "groups_of 57 xs = take 57 xs # take 57 (drop 57 xs) # groups_of 57 (drop 57 (drop 57 xs))"
    using assms by (subst groups_of.simps, subst groups_of.simps) auto
  then have e: "encodebytes xs = b64 (take 57 xs) @ CHR 0x0A # b64 (take 57 (drop 57 xs)) @ nl @ encodebytes (drop 57 (drop 57 xs))"
    by (simp add: encodebytes_def nl_def)
  have "take 57 xs \<noteq> []" "take 57 (drop 57 xs) \<noteq> []" using assms by auto
  then obtain c r d q where s: "b64 (take 57 xs) = c # r" "\<not> is_space c"
    "b64 (take 57 (drop 57 xs)) = d # q" "\<not> is_space d" by (metis b64_start)
  from strip_keeps_break [of is_space "c # r" d "CHR 0x0A"] s
  obtain z where "py_strip (encodebytes xs) = (c # r) @ CHR 0x0A # d # z" unfolding e by auto
  with illegal_break [OF s(4), of "pre @ c # r"] show ?thesis by simp
qed

text \<open>
  With a user name and password of more than 56 characters together fence\_eps asks the device
  nothing at all: the header for the authorisation has a line break in it, which the HTTP client
  refuses with an exception that the agent does not handle, for every server and every command.
\<close>

theorem eps_long_credentials:
  assumes "opts s ''--username'' = Some (PStr user)" "opts s ''--password'' = Some (PStr pass)" "56 < length user + length pass"
    "opts s ''--ip'' = Some (PStr ip)" "opts s ''--page'' = Some (PStr page)" "\<not> invalid_url (''/'' @ page @ ''?'' @ query)"
  shows "eps_run_command H query s = (Raise (ValueError ''Invalid header value''), s)"
proof -
  let ?xs = "map of_char (user @ '':'' @ pass) :: nat list"
  have "illegal_value (''Basic '' @ py_strip (encodebytes ?xs))" using assms(3) by (intro long_credentials_illegal) auto
  then have "auth_header s = (Raise (ValueError ''Invalid header value''), s)"
    using assms(1,2) by (simp add: auth_header_def stroptM_def run_simps Let_def del: map_append illegal_value.simps)
  moreover have "\<not> invalid_url (''/'' @ page @ (if query \<noteq> [] then ''?'' @ query else []))"
    using assms(6) by (auto simp: invalid_url_def)
  ultimately show ?thesis
    using assms(4,5) by (simp add: eps_run_command_def tryM_def bindM_def stroptM_def run_simps Let_def)
qed

theorem eps_long_credentials_witness:
  "let s = \<lparr>opts = [''--username'' \<mapsto> PStr (replicate 30 CHR ''u''), ''--password'' \<mapsto> PStr (replicate 30 CHR ''p''),
       ''--ip'' \<mapsto> PStr ''pdu'', ''--page'' \<mapsto> PStr ''hidden.htm''], outp = [], errs = [], clock = 0, world = ()\<rparr>
   in eps_run_command (\<lambda>_ _ _ d. (Ans (reply 200 []), 1, d)) ''P01=0'' s = (Raise (ValueError ''Invalid header value''), s)"
  unfolding Let_def by (rule eps_long_credentials) (auto simp: invalid_url_def)

end
