(* ===== verification/Xml_Agents.thy ===== *)
theory Xml_Agents
  imports Web_Client
begin

text \<open>
  Agents that read the answers of an HTTP interface with regular expressions:
  \<open>agents/rhevm/fence_rhevm.py\<close> and \<open>agents/cisco_ucs/fence_cisco_ucs.py\<close> with pycurl, and
  \<open>agents/eps/fence_eps.py\<close> with \<open>http.client\<close> of the standard library. For the last one the parameter
  is the exchange of one request with the server.
\<close>

definition between :: "string \<Rightarrow> string \<Rightarrow> re" where
  \<comment> \<open>a lazy group between two texts, without regard to case\<close>
  "between a b = Seq (LitI a) (Seq (Grp 1 (LStar Any)) (LitI b))"

definition group_of :: "re \<Rightarrow> nat \<Rightarrow> string \<Rightarrow> string option" where
  "group_of r n t = map_option (group n) (re_search r t)"

section \<open>RHEV-M\<close>

definition RE_GET_ID :: re where
  "RE_GET_ID = Seq (LitI ''<vm'') (Seq (Opt (Grp 1 (Seq (LitI '' '') (Star Any))))
     (Seq (LitI '' id=\"'') (Seq (Grp 2 (LStar Any)) (LitI [CHR 0x22]))))"

definition RE_STATUS :: re where "RE_STATUS = between ''<status>'' ''</status>''"
definition RE_STATE :: re where "RE_STATE = between ''<state>'' ''</state>''"
definition RE_GET_NAME :: re where "RE_GET_NAME = between ''<name>'' ''</name>''"

definition cookie_opts :: "string \<Rightarrow> ('w, handle) prog" where
  \<comment> \<open>with the directory for temporary files\<close>
  "cookie_opts tmpdir =
     bindM (getM opts) (\<lambda>od.
     if od ''cookie'' \<noteq> None then bindM (stroptM ''cookie'') (\<lambda>c. retM [(''COOKIE'', CStr c)])
     else
       bindM (stroptM ''--username'') (\<lambda>user.
       bindM (stroptM ''--password'') (\<lambda>password.
       bindM (if od ''--use-cookies'' = None then retM []
              else bindM (if od ''--cookie-file'' \<noteq> None then stroptM ''--cookie-file''
                          else bindM (stroptM ''--ip'') (\<lambda>ip. retM (tmpdir @ ''/fence_rhevm_'' @ ip @ ''_'' @ user @ ''_cookie.dat''))) (\<lambda>file.
                   retM [(''COOKIEFILE'', CStr file), (''COOKIEJAR'', CStr file)])) (\<lambda>jar.
         retM ([(''HTTPAUTH'', CStr ''HTTPAUTH_BASIC''), (''USERPWD'', CStr (user @ '':'' @ password))] @ jar)))))"

definition url_rhevm :: "string \<Rightarrow> ('w, string) prog" where
  "url_rhevm cmd =
     bindM (getM opts) (\<lambda>od.
     bindM (if od ''--api-path'' \<noteq> None then stroptM ''--api-path'' else retM ''/ovirt-engine/api'') (\<lambda>path.
     bindM (stroptM ''--ip'') (\<lambda>ip.
     bindM (showoptM ''--ipport'') (\<lambda>port.
       retM (url_scheme od @ ''//'' @ ip @ '':'' @ port @ path @ ''/'' @ cmd)))))"

definition handle_rhevm :: "string \<Rightarrow> string \<Rightarrow> string \<Rightarrow> ('w, handle) prog" where
  "handle_rhevm tmpdir cmd meth =
     bindM (getM opts) (\<lambda>od.
     bindM (url_rhevm cmd) (\<lambda>url.
     bindM (showoptM ''--api-version'') (\<lambda>version.
     bindM (cookie_opts tmpdir) (\<lambda>cookies.
     bindM (intoptM ''--shell-timeout'') (\<lambda>timeout.
       retM ([(''URL'', CStr url), (''HTTPHEADER'', CList [''Version: '' @ version, ''Content-type: application/xml'',
           ''Accept: application/xml'', ''Prefer: persistent-auth'',
           ''Filter: '' @ (if od ''--disable-http-filter'' \<noteq> None then ''false'' else ''true'')])]
         @ cookies @ [(''TIMEOUT'', CInt timeout)] @ ssl_opts od
         @ (if meth = ''POST'' then [(''POSTFIELDS'', CStr ''<action />'')] else [])))))))"

fun join_cookies :: "string list \<Rightarrow> string outcome" where
  \<comment> \<open>name and value are the last two of seven fields; an eighth would hold what follows\<close>
  "join_cookies [] = Ret []"
| "join_cookies (c # cs) =
     (let tokens = py_split [CHR 0x09] c in
      if length tokens < 7 then Raise (IndexError ''list index out of range'')
      else bindO (join_cookies cs) (\<lambda>r. Ret (tokens ! 5 @ ''='' @ tokens ! 6 @ '';'' @ r)))"

definition send_once_rhevm :: "string \<Rightarrow> 'd curl \<Rightarrow> string \<Rightarrow> string \<Rightarrow> ('d, string) prog" where
  \<comment> \<open>\<open>send_command\<close> with a version that is not auto\<close>
  "send_once_rhevm tmpdir C cmd meth =
     bindM (handle_rhevm tmpdir cmd meth) (\<lambda>h.
     bindM (queryM (C h)) (\<lambda>r.
     bindM (getM opts) (\<lambda>od.
     seqM (if od ''cookie'' = None \<and> od ''--use-cookies'' \<noteq> None then
             bindM (liftM (join_cookies (r_cookie_lines r))) (\<lambda>c. setoptM ''cookie'' (PStr c))
           else retM ())
          (retM (r_text r)))))"

definition send_command_rhevm :: "string \<Rightarrow> 'd curl \<Rightarrow> string \<Rightarrow> string \<Rightarrow> ('d, string) prog" where
  "send_command_rhevm tmpdir C cmd meth =
     bindM (optM ''--api-version'') (\<lambda>version.
     seqM (if version = PStr ''auto'' then
             seqM (setoptM ''--api-version'' (PStr ''4''))
            (bindM (send_once_rhevm tmpdir C [] ''GET'') (\<lambda>res.
               if re_search (Lit ''<title>Error</title>'') res \<noteq> None then setoptM ''--api-version'' (PStr ''3'') else retM ()))
           else retM ())
          (send_once_rhevm tmpdir C cmd meth))"

definition major_version :: "('w, int) prog" where
  \<comment> \<open>\<open>tuple(map(int, options["--api-version"].split(".")))[0]\<close>\<close>
  "major_version = bindM (stroptM ''--api-version'') (\<lambda>v.
     liftM (bindO (foldO (\<lambda>ns t. bindO (py_int (PStr t)) (\<lambda>n. Ret (ns @ [n]))) [] (py_split ''.'' v)) (\<lambda>ns. Ret (hd ns))))"

definition status_re :: "('w, re) prog" where
  "status_re = bindM major_version (\<lambda>n. retM (if n > 3 then RE_STATUS else RE_STATE))"

definition get_power_status_rhevm :: "string \<Rightarrow> 'd curl \<Rightarrow> ('d, string option) prog" where
  \<comment> \<open>an answer without a status is off\<close>
  "get_power_status_rhevm tmpdir C =
     bindM (stroptM ''--plug'') (\<lambda>plug.
     bindM (send_command_rhevm tmpdir C (''vms/?search=name%3D'' @ plug) ''GET'') (\<lambda>res.
     bindM (case group_of RE_GET_ID 2 res of
         None \<Rightarrow> seqM (fail EC_FETCH_VM_UUID True) (raiseM (AttributeError ''group''))
       | Some i \<Rightarrow> retM i) (\<lambda>ident.
     seqM (setoptM ''id'' (PStr ident))
    (bindM status_re (\<lambda>r.
       retM (Some (case group_of r 1 res of
           None \<Rightarrow> ''off''
         | Some status \<Rightarrow> if py_lower status = ''down'' then ''off'' else ''on'')))))))"

definition set_power_status_rhevm :: "string \<Rightarrow> 'd curl \<Rightarrow> ('d, unit) prog" where
  "set_power_status_rhevm tmpdir C =
     bindM (by_action [(''on'', ''start''), (''off'', ''stop'')]) (\<lambda>action.
     bindM (stroptM ''id'') (\<lambda>ident.
     seqM (send_command_rhevm tmpdir C (''vms/'' @ ident @ ''/'' @ action) ''POST'') (retM ())))"

definition empty_on_mismatch :: "('w, outlet list) prog \<Rightarrow> ('w, outlet list) prog" where
  \<comment> \<open>\<open>except AttributeError: return {}; except IndexError: return {}\<close>\<close>
  "empty_on_mismatch m = tryM m (\<lambda>e. case e of AttributeError _ \<Rightarrow> Some (retM []) | IndexError _ \<Rightarrow> Some (retM []) | _ \<Rightarrow> None)"

definition get_list_rhevm :: "string \<Rightarrow> 'd curl \<Rightarrow> ('d, outlet list) prog" where
  "get_list_rhevm tmpdir C = empty_on_mismatch
     (bindM (send_command_rhevm tmpdir C ''vms'' ''GET'') (\<lambda>res.
      foldM (\<lambda>outlets line.
        bindM (liftM (match_group RE_GET_NAME 1 line)) (\<lambda>name.
        bindM status_re (\<lambda>r.
        bindM (liftM (match_group r 1 line)) (\<lambda>status.
          retM (AList.update name ([], Some status) outlets))))) [] (tl (py_split ''<vm '' res))))"

definition fns_rhevm :: "string \<Rightarrow> 'd curl \<Rightarrow> 'd power_fns" where
  "fns_rhevm tmpdir C = \<lparr>set_power_fn = Some (set_power_status_rhevm tmpdir C),
     get_power_fn = Some (get_power_status_rhevm tmpdir C), get_outlet_list = Some (get_list_rhevm tmpdir C),
     reboot_cycle_fn = None, sync_set_power_fn = None\<rparr>"

definition new_opts_rhevm :: "(string \<times> optdef) list" where
  "new_opts_rhevm =
    [(''port'', \<lparr>o_getopt = ''n:'', o_longopt = Some ''plug'',
        o_help = ''-n, --plug=[name]              VM name in RHV'',
        o_required = Some ''1'', o_shortdesc = None,
        o_type = None, o_default = None, o_choices = None, o_order = 1\<rparr>),
     (''use_cookies'', \<lparr>o_getopt = [], o_longopt = Some ''use-cookies'',
        o_help = ''--use-cookies                  Reuse cookies for authentication'',
        o_required = Some ''0'', o_shortdesc = Some ''Reuse cookies for authentication'',
        o_type = None, o_default = None, o_choices = None, o_order = 1\<rparr>),
     (''cookie_file'', \<lparr>o_getopt = '':'', o_longopt = Some ''cookie-file'',
        o_help = ''--cookie-file                  Path to cookie file for authentication'' @ nl @ [CHR 0x09] @ [CHR 0x09] @ [CHR 0x09] @ [CHR 0x09] @ ''  (Default: /tmp/fence_rhevm_ip_username_cookie.dat)'',
        o_required = Some ''0'', o_shortdesc = Some ''Path to cookie file for authentication'',
        o_type = None, o_default = None, o_choices = None, o_order = 2\<rparr>),
     (''api_version'', \<lparr>o_getopt = '':'', o_longopt = Some ''api-version'',
        o_help = ''--api-version                  Version of RHEV API (default: auto)'',
        o_required = Some ''0'', o_shortdesc = None,
        o_type = None, o_default = Some (PStr ''auto''), o_choices = None, o_order = 2\<rparr>),
     (''api_path'', \<lparr>o_getopt = '':'', o_longopt = Some ''api-path'',
        o_help = ''--api-path=[path]              The path part of the API URL'',
        o_required = Some ''0'', o_shortdesc = Some ''The path part of the API URL'',
        o_type = None, o_default = Some (PStr ''/ovirt-engine/api''), o_choices = None, o_order = 3\<rparr>),
     (''disable_http_filter'', \<lparr>o_getopt = [], o_longopt = Some ''disable-http-filter'',
        o_help = ''--disable-http-filter          Set HTTP Filter header to false'',
        o_required = Some ''0'', o_shortdesc = Some ''Set HTTP Filter header to false'',
        o_type = None, o_default = None, o_choices = None, o_order = 4\<rparr>)]"

definition device_opt_rhevm :: "string list" where
  "device_opt_rhevm = [''ipaddr'', ''login'', ''passwd'', ''ssl'', ''notls'', ''web'', ''port'', ''use_cookies'', ''cookie_file'', ''api_version'', ''api_path'', ''disable_http_filter'']"

definition docs_rhevm :: docs where
  "docs_rhevm = \<lparr>agent_name = None, shortdesc = ''Fence agent for RHEV-M REST API'',
     longdesc = ''fence_rhevm is a Power Fencing agent which can be used with RHEV-M REST API to fence virtual machines.'',
     vendorurl = Some ''http://www.redhat.com'', symlink = []\<rparr>"

definition main_rhevm where
  "main_rhevm tmpdir C set_order time_start fuel =
     seqM (on_lib (add_opts new_opts_rhevm))
    (seqM (on_lib (set_default ''power_wait'' (PStr ''1'')))
    (seqM (on_lib (set_default ''shell_timeout'' (PStr ''5'')))
    (seqM (on_lib (read_options device_opt_rhevm False))
    (seqM (on_lib (show_docs set_order (Some docs_rhevm)))
    (seqM (run_delay time_start 0 0)
          (exit_with (on_dev (fence_action fuel (fns_rhevm tmpdir C)))))))))"

section \<open>Cisco UCS\<close>

definition RE_COOKIE :: re where
  "RE_COOKIE = Seq (LitI ''<aaaLogin '') (Seq (Star Any) (between '' outCookie=\"'' [CHR 0x22]))"

definition RE_GET_DN :: re where "RE_GET_DN = between '' dn=\"'' [CHR 0x22]"
definition RE_GET_PNDN :: re where "RE_GET_PNDN = between '' pndn=\"'' [CHR 0x22]"
definition RE_GET_DESC :: re where "RE_GET_DESC = between '' descr=\"'' [CHR 0x22]"
definition RE_GET_OPERPOWER :: re where "RE_GET_OPERPOWER = between '' operPower=\"'' [CHR 0x22]"
definition RE_GET_PRESENCE :: re where "RE_GET_PRESENCE = between '' presence=\"'' [CHR 0x22]"

definition send_command_ucs :: "'d curl \<Rightarrow> string \<Rightarrow> string \<Rightarrow> ('d, string) prog" where
  \<comment> \<open>with the option that holds the timeout\<close>
  "send_command_ucs C cmd timeout_option =
     bindM (intoptM timeout_option) (\<lambda>timeout.
     bindM (getM opts) (\<lambda>od.
     bindM (stroptM ''--ip'') (\<lambda>ip.
     bindM (showoptM ''--ipport'') (\<lambda>port.
     bindM (queryM (C ([(''URL'', CStr (url_scheme od @ ''//'' @ ip @ '':'' @ port @ ''/nuova'')),
         (''HTTPHEADER'', CList [''Content-type: text/xml'']), (''POSTFIELDS'', CStr cmd), (''TIMEOUT'', CInt timeout)] @ ssl_opts od))) (\<lambda>r.
       retM (r_text r))))))"

definition quoted :: "string \<Rightarrow> string" where
  "quoted t = [CHR 0x22] @ t @ [CHR 0x22]"

definition resolve_dn :: "string \<Rightarrow> ('w, string) prog" where
  "resolve_dn dn = bindM (stroptM ''cookie'') (\<lambda>cookie.
     retM (''<configResolveDn cookie='' @ quoted cookie @ '' inHierarchical=\"false\" dn='' @ quoted dn @ ''/>''))"

definition group_or_fail :: "re \<Rightarrow> string \<Rightarrow> ('w, string) prog" where
  "group_or_fail r t = (case group_of r 1 t of
      None \<Rightarrow> seqM (fail EC_STATUS True) (raiseM (ClassError ''UnboundLocalError'' []))
    | Some x \<Rightarrow> retM x)"

definition get_power_status_ucs :: "'d curl \<Rightarrow> ('d, string option) prog" where
  "get_power_status_ucs C =
     bindM (stroptM ''--suborg'') (\<lambda>suborg.
     bindM (stroptM ''--plug'') (\<lambda>plug.
     bindM (resolve_dn (''org-root'' @ suborg @ ''/ls-'' @ plug)) (\<lambda>cmd.
     bindM (send_command_ucs C cmd ''--shell-timeout'') (\<lambda>res.
     let pndn = (case group_of RE_GET_PNDN 1 res of None \<Rightarrow> [] | Some t \<Rightarrow> t) in
     bindM (hasoptM ''--missing-as-off'') (\<lambda>missing_as_off.
     if py_strip pndn = [] \<and> missing_as_off then retM (Some ''off'')
     else
       seqM (if py_strip pndn = [] then fail EC_STATUS True else retM ())
      (bindM (resolve_dn pndn) (\<lambda>cmd'.
       bindM (send_command_ucs C cmd' ''--shell-timeout'') (\<lambda>res'.
       bindM (group_or_fail RE_GET_PRESENCE res') (\<lambda>presence.
       if presence \<in> {''missing'', ''mismatch''} then retM (Some ''off'')
       else bindM (group_or_fail RE_GET_OPERPOWER res') (\<lambda>power.
         retM (Some (if power = ''on'' then ''on'' else ''off''))))))))))))"

definition set_power_status_ucs :: "'d curl \<Rightarrow> ('d, unit) prog" where
  \<comment> \<open>the name of the changed object is without the suborganisation that its key has\<close>
  "set_power_status_ucs C =
     bindM (by_action [(''on'', ''admin-up''), (''off'', ''admin-down'')]) (\<lambda>action.
     bindM (stroptM ''cookie'') (\<lambda>cookie.
     bindM (stroptM ''--suborg'') (\<lambda>suborg.
     bindM (stroptM ''--plug'') (\<lambda>plug.
     seqM (send_command_ucs C
       (''<configConfMos cookie='' @ quoted cookie @ '' inHierarchical=\"no\"><inConfigs><pair key=''
          @ quoted (''org-root'' @ suborg @ ''/ls-'' @ plug @ ''/power'') @ ''><lsPower dn='' @ quoted (''org-root/ls-'' @ plug @ ''/power'')
          @ '' state='' @ quoted action @ '' status=\"modified\" /></pair></inConfigs></configConfMos>'') ''--shell-timeout'') (retM ())))))"

definition get_list_ucs :: "'d curl \<Rightarrow> ('d, outlet list) prog" where
  "get_list_ucs C = empty_on_mismatch
     (bindM (stroptM ''cookie'') (\<lambda>cookie.
      bindM (send_command_ucs C (''<configResolveClass cookie='' @ quoted cookie @ '' inHierarchical=\"false\" classId=\"lsServer\"/>'')
        ''--shell-timeout'') (\<lambda>res.
      liftM (foldO (\<lambda>outlets line.
        bindO (match_group RE_GET_DN 1 line) (\<lambda>name.
        bindO (match_group RE_GET_DESC 1 line) (\<lambda>desc.
          Ret (AList.update name (desc, None) outlets)))) [] (tl (py_split ''<lsServer '' res))))))"

definition fns_ucs :: "'d curl \<Rightarrow> 'd power_fns" where
  "fns_ucs C = \<lparr>set_power_fn = Some (set_power_status_ucs C), get_power_fn = Some (get_power_status_ucs C),
     get_outlet_list = Some (get_list_ucs C), reboot_cycle_fn = None, sync_set_power_fn = None\<rparr>"

definition logout_ucs :: "'d curl \<Rightarrow> ('d, unit) prog" where
  "logout_ucs C = tryM
     (bindM (stroptM ''cookie'') (\<lambda>cookie.
      seqM (send_command_ucs C (''<aaaLogout inCookie='' @ quoted cookie @ '' />'') ''--shell-timeout'') (retM ())))
     (\<lambda>_. Some (retM ()))"

definition login_ucs :: "'d curl \<Rightarrow> ('d, unit) prog" where
  "login_ucs C =
     bindM (handle_errors
       (bindM (stroptM ''--username'') (\<lambda>user.
        bindM (stroptM ''--password'') (\<lambda>password.
        bindM (send_command_ucs C (''<aaaLogin inName='' @ quoted user @ '' inPassword='' @ quoted password @ '' />'') ''--login-timeout'') (\<lambda>res.
        case group_of RE_COOKIE 1 res of
          None \<Rightarrow> seqM (fail EC_LOGIN_DENIED True) (raiseM (AttributeError ''group''))
        | Some c \<Rightarrow> retM c))))
       (\<lambda>e. seqM (logM (''Failed: '' @ exn_text e)) (fail EC_LOGIN_DENIED True))) (\<lambda>cookie.
     setoptM ''cookie'' (PStr cookie))"

definition format_suborg :: "('w, unit) prog" where
  "format_suborg = bindM (stroptM ''--suborg'') (\<lambda>t.
     if t = [] then retM () else setoptM ''--suborg'' (PStr (''/'' @ strip_by (\<lambda>c. c = CHR ''/'') t)))"

definition new_opts_ucs :: "(string \<times> optdef) list" where
  "new_opts_ucs =
    [(''suborg'', \<lparr>o_getopt = '':'', o_longopt = Some ''suborg'',
        o_help = ''--suborg=[path]                Additional path needed to access suborganization'',
        o_required = Some ''0'', o_shortdesc = Some ''Additional path needed to access suborganization'',
        o_type = None, o_default = Some (PStr []), o_choices = None, o_order = 1\<rparr>)]"

definition device_opt_ucs :: "string list" where
  "device_opt_ucs = [''ipaddr'', ''login'', ''passwd'', ''ssl'', ''notls'', ''port'', ''web'', ''suborg'', ''missing_as_off'']"

definition docs_ucs :: docs where
  "docs_ucs = \<lparr>agent_name = None, shortdesc = ''Fence agent for Cisco UCS'',
     longdesc = ''fence_cisco_ucs is a Power Fencing agent which can be used with Cisco UCS to fence machines.'',
     vendorurl = Some ''http://www.cisco.com'', symlink = []\<rparr>"

definition main_ucs where
  \<comment> \<open>the logout is registered before everything else; without a cookie it does nothing\<close>
  "main_ucs C set_order time_start fuel =
     with_exit_handler (on_dev (logout_ucs C))
    (seqM (on_lib (add_opts new_opts_ucs))
    (seqM (on_lib (read_options device_opt_ucs False))
    (seqM (on_lib (show_docs set_order (Some docs_ucs)))
    (seqM (run_delay time_start 0 0)
    (seqM (on_dev (login_ucs C))
    (seqM format_suborg
          (exit_with (on_dev (fence_action fuel (fns_ucs C))))))))))"

end
