(* ===== verification/Api_Agents.thy ===== *)
theory Api_Agents
  imports Web_Client
begin

text \<open>
  Agents that talk to an HTTP interface with JSON over one curl handle that they keep:
  \<open>agents/vmware_rest/fence_vmware_rest.py\<close>, \<open>agents/shelly/fence_shelly_gen2.py\<close>,
  \<open>agents/hetzner_cloud/fence_hetzner_cloud.py\<close> and \<open>agents/ibm_powervs/fence_ibm_powervs.py\<close>. An
  empty body stays the empty text, all others are read as JSON.
\<close>

definition body_json :: "http_reply \<Rightarrow> json outcome" where
  \<comment> \<open>\<open>if len(result) > 0: result = json.loads(result)\<close>\<close>
  "body_json r = (if r_text r = [] then Ret (JStr []) else json_loads (r_text r))"

definition request_to :: "string \<Rightarrow> string \<Rightarrow> ('d web, string) prog" where
  \<comment> \<open>the URL, and the options for the method\<close>
  "request_to path meth =
     bindM base_urlM (\<lambda>base.
     seqM (setopts ([(''URL'', CStr (base @ path))] @ method_opts meth)) (retM (base @ path)))"

definition basic_auth :: "string \<Rightarrow> string \<Rightarrow> handle" where
  "basic_auth user password = [(''HTTPAUTH'', CStr ''HTTPAUTH_BASIC''), (''USERPWD'', CStr (user @ '':'' @ password))]"

section \<open>VMware REST\<close>

definition state_vmware_rest :: "(string \<times> string) list" where
  "state_vmware_rest = [(''POWERED_ON'', ''on''), (''POWERED_OFF'', ''off''), (''SUSPENDED'', ''off'')]"

definition remote_error :: "int \<Rightarrow> json \<Rightarrow> exn outcome" where
  \<comment> \<open>the text of the first message; it may raise something else\<close>
  "remote_error rc v =
     bindO (json_item ''value'' v) (\<lambda>value.
     bindO (json_item ''messages'' value) (\<lambda>messages.
     bindO (json_index 0 messages) (\<lambda>m.
     bindO (json_item ''default_message'' m) (\<lambda>t.
       Ret (ClassError ''Exception'' (show_int rc @ '': '' @ json_str t))))))"

definition send_command_vmware_rest :: "'d curl \<Rightarrow> string \<Rightarrow> string \<Rightarrow> ('d web, json) prog" where
  "send_command_vmware_rest C cmd meth =
     bindM (request_to cmd meth) (\<lambda>url.
     bindM (performM C) (\<lambda>r.
     bindM (liftM (body_json r)) (\<lambda>v.
       if r_code r = 200 then retM v
       else bindM (liftM (json_len v)) (\<lambda>n.
         if n > 0 then bindM (liftM (remote_error (r_code r) v)) raiseM
         else raiseM (ClassError ''Exception'' (''Remote returned '' @ show_int (r_code r) @ '' for request to '' @ url))))))"

definition get_power_status_vmware_rest :: "'d curl \<Rightarrow> ('d web, string option) prog" where
  "get_power_status_vmware_rest C =
     bindM (handle_errors
         (bindM (stroptM ''--plug'') (\<lambda>plug.
          bindM (send_command_vmware_rest C (''vcenter/vm?filter.names='' @ url_quote plug) ''GET'') (itemM ''value'')))
         (\<lambda>_. fail EC_STATUS True)) (\<lambda>res.
     bindM (liftM (json_len res)) (\<lambda>n.
     seqM (if n = 0 then fail EC_STATUS True else retM ())
    (bindM (liftM (json_index 0 res)) (\<lambda>vm.
     bindM (itemM ''vm'' vm) (\<lambda>ident.
     seqM (setoptM ''id'' (option_value ident))
    (bindM (itemM ''power_state'' vm) (\<lambda>state.
     bindM (liftM (state_entry state_vmware_rest state)) (\<lambda>t. retM (Some t)))))))))"

definition set_power_status_vmware_rest :: "'d curl \<Rightarrow> ('d web, unit) prog" where
  "set_power_status_vmware_rest C =
     bindM (by_action [(''on'', ''start''), (''off'', ''stop'')]) (\<lambda>action.
     handle_errors
       (bindM (showoptM ''id'') (\<lambda>ident.
        seqM (send_command_vmware_rest C (''vcenter/vm/'' @ ident @ ''/power/'' @ action) ''POST'') (retM ())))
       (\<lambda>_. fail EC_STATUS True))"

definition is_monitor :: "('w, bool) prog" where
  \<comment> \<open>\<open>options.get("--original-action") == "monitor"\<close>\<close>
  "is_monitor = getM (\<lambda>s. opts s ''--original-action'' = Some (PStr ''monitor''))"

definition vm_entry :: "outlet list \<Rightarrow> json \<Rightarrow> outlet list outcome" where
  "vm_entry outlets r =
     bindO (json_item ''power_state'' r) (\<lambda>p.
     bindO (state_entry state_vmware_rest p) (\<lambda>st.
     bindO (json_item ''name'' r) (\<lambda>name.
     bindO (outlet_key name) (\<lambda>k. Ret (AList.update k ([], Some st) outlets)))))"

definition list_command :: "('w, string) prog" where
  "list_command = bindM (hasoptM ''--filter'') (\<lambda>given.
     if given then bindM (stroptM ''--filter'') (\<lambda>f. retM (''vcenter/vm?'' @ f)) else retM ''vcenter/vm'')"

definition get_list_vmware_rest :: "'d curl \<Rightarrow> ('d web, outlet list) prog" where
  \<comment> \<open>\<open>None\<close> is the early return of an empty dictionary\<close>
  "get_list_vmware_rest C =
     bindM (tryM (bindM list_command (\<lambda>cmd. bindM (send_command_vmware_rest C cmd ''GET'') (\<lambda>v. retM (Some v))))
       (\<lambda>e. Some (bindM is_monitor (\<lambda>monitor.
          if py_startswith ''400'' (exn_text e) then
            if monitor then retM None
            else seqM (logM ''More than 1000 VMs returned. Use --filter parameter to limit which VMs to list.'')
                (seqM (fail EC_STATUS True) (retM None))
          else seqM (fail EC_STATUS True) (retM None))))) (\<lambda>answer.
     case answer of
       None \<Rightarrow> retM []
     | Some res \<Rightarrow>
         bindM is_monitor (\<lambda>monitor.
         bindM (if monitor then bindM (itemM ''value'' res) (\<lambda>v. retM (\<not> json_true v)) else retM False) (\<lambda>powerless.
         seqM (if powerless then
                 seqM (logM ''API user does not have sufficient rights to manage the power status.'') (fail EC_STATUS True)
               else retM ())
        (bindM (itemM ''value'' res) (\<lambda>v.
         bindM (liftM (json_iter v)) (\<lambda>vms.
           liftM (foldO vm_entry [] vms)))))))"

definition set_base_vmware_rest :: "('d web, unit) prog" where
  "set_base_vmware_rest =
     bindM (getM opts) (\<lambda>od.
     bindM (if od ''--api-path'' \<noteq> None then stroptM ''--api-path'' else retM ''/rest'') (\<lambda>path.
     bindM (stroptM ''--ip'') (\<lambda>ip.
     bindM (showoptM ''--ipport'') (\<lambda>port.
       set_base_url (url_scheme od @ ''//'' @ ip @ '':'' @ port @ path @ ''/'')))))"

definition connect_vmware_rest :: "'d curl \<Rightarrow> ('d web, unit) prog" where
  "connect_vmware_rest C =
     seqM set_base_vmware_rest
    (bindM (getM opts) (\<lambda>od.
     bindM (stroptM ''--username'') (\<lambda>user.
     bindM (stroptM ''--password'') (\<lambda>password.
     bindM (intoptM ''--shell-timeout'') (\<lambda>timeout.
     seqM (setopts ([(''HTTPHEADER'', CList [''Accept: application/json''])] @ basic_auth user password
            @ [(''TIMEOUT'', CInt timeout)] @ ssl_opts od))
    (bindM (handle_errors (send_command_vmware_rest C ''com/vmware/cis/session'' ''POST'') (\<lambda>_. fail EC_LOGIN_DENIED True)) (\<lambda>result.
     bindM (itemM ''value'' result) (\<lambda>session.
       setopts [(''HTTPHEADER'', CList [''Accept: application/json'', ''vmware-api-session-id: '' @ json_str session])]))))))))"

definition disconnect_vmware_rest :: "'d curl \<Rightarrow> ('d web, unit) prog" where
  "disconnect_vmware_rest C =
     tryM (seqM (send_command_vmware_rest C ''com/vmware/cis/session'' ''DELETE'') (retM ())) (\<lambda>_. Some (retM ()))"

definition fns_vmware_rest :: "'d curl \<Rightarrow> 'd web power_fns" where
  "fns_vmware_rest C = \<lparr>set_power_fn = Some (set_power_status_vmware_rest C),
     get_power_fn = Some (get_power_status_vmware_rest C), get_outlet_list = Some (get_list_vmware_rest C),
     reboot_cycle_fn = None, sync_set_power_fn = None\<rparr>"

definition new_opts_vmware_rest :: "(string \<times> optdef) list" where
  "new_opts_vmware_rest =
    [(''api_path'', \<lparr>o_getopt = '':'', o_longopt = Some ''api-path'',
        o_help = ''--api-path=[path]              The path part of the API URL'',
        o_required = Some ''0'', o_shortdesc = Some ''The path part of the API URL'',
        o_type = None, o_default = Some (PStr ''/rest''), o_choices = None, o_order = 2\<rparr>),
     (''filter'', \<lparr>o_getopt = '':'', o_longopt = Some ''filter'',
        o_help = ''--filter=[filter]              Filter to only return relevant VMs (e.g. \"filter.names=node1&filter.names=node2\").'',
        o_required = Some ''0'', o_shortdesc = Some ''Filter to only return relevant VMs. It can be used to avoid the agent failing when more than 1000 VMs should be returned.'',
        o_type = None, o_default = None, o_choices = None, o_order = 2\<rparr>)]"

definition device_opt_vmware_rest :: "string list" where
  "device_opt_vmware_rest = [''ipaddr'', ''api_path'', ''login'', ''passwd'', ''ssl'', ''notls'', ''web'', ''port'', ''filter'']"

definition docs_vmware_rest :: docs where
  "docs_vmware_rest = \<lparr>agent_name = None, shortdesc = ''Fence agent for VMware REST API'',
     longdesc = ''fence_vmware_rest is a Power Fencing agent which can be used with VMware API to fence virtual machines.'' @ nl @ nl @ ''NOTE: If there'' @ [CHR 0x27] @ ''s more than 1000 VMs there is a filter parameter to work around the API limit. See https://code.vmware.com/apis/62/vcenter-management#/VM%20/get_vcenter_vm for full list of filters.'',
     vendorurl = Some ''https://www.vmware.com'', symlink = []\<rparr>"

definition main_vmware_rest where
  "main_vmware_rest C set_order time_start fuel =
     seqM (on_lib (add_opts new_opts_vmware_rest))
    (seqM (on_lib (set_default ''shell_timeout'' (PStr ''5'')))
    (seqM (on_lib (set_default ''power_wait'' (PStr ''1'')))
    (seqM (on_lib (read_options device_opt_vmware_rest False))
    (seqM (on_lib (show_docs set_order (Some docs_vmware_rest)))
    (seqM (run_delay time_start 0 0)
    (seqM (on_dev (connect_vmware_rest C))
          (with_exit_handler (on_dev (disconnect_vmware_rest C))
             (exit_with (on_dev (fence_action fuel (fns_vmware_rest C)))))))))))"

section \<open>Shelly switches\<close>

definition state_shelly :: "json \<Rightarrow> string outcome" where
  \<comment> \<open>the dictionary \<open>{True: "on", False: "off"}\<close>; the numbers 1 and 0 are equal to its keys\<close>
  "state_shelly v =
     (if v \<in> {JBool True, JInt 1} then Ret ''on'' else if v \<in> {JBool False, JInt 0} then Ret ''off''
      else bindO (outlet_key v) (\<lambda>k. Raise (KeyError k)))"

definition send_command_shelly :: "'d curl \<Rightarrow> json \<Rightarrow> ('d web, json) prog" where
  "send_command_shelly C content =
     bindM base_urlM (\<lambda>base.
     seqM (setopts [(''URL'', CStr base), (''POSTFIELDS'', CStr (json_dumps content))])
    (bindM (performM C) (\<lambda>r.
     if r_code r \<noteq> 200 then
       raiseM (ClassError ''Exception'' (''Remote returned '' @ show_int (r_code r)
         @ (if r_text r \<noteq> [] then '': '' @ r_text r else '' for request to '' @ base)))
     else liftM (body_json r))))"

definition gen_payload :: "string \<Rightarrow> bool option \<Rightarrow> ('w, json) prog" where
  "gen_payload meth output = bindM (optM ''--plug'') (\<lambda>plug.
     retM (JObj [(''id'', JInt 1), (''method'', JStr meth),
       (''params'', JObj ([(''id'', py_json plug)] @ (case output of None \<Rightarrow> [] | Some b \<Rightarrow> [(''on'', JBool b)])))]))"

definition get_power_status_shelly :: "'d curl \<Rightarrow> ('d web, string option) prog" where
  "get_power_status_shelly C =
     bindM (handle_errors (bindM (gen_payload ''Switch.GetStatus'' None) (send_command_shelly C)) (\<lambda>_. fail EC_STATUS True)) (\<lambda>result.
     bindM (liftM (json_has ''params'' result)) (\<lambda>given.
     bindM (if given then retM ''params''
            else bindM (liftM (json_has ''result'' result)) (\<lambda>given.
              if given then retM ''result'' else raiseM (ClassError ''UnboundLocalError'' ''subkey''))) (\<lambda>subkey.
     bindM (pathM [subkey, ''output''] result) (\<lambda>v.
     bindM (liftM (state_shelly v)) (\<lambda>t. retM (Some t))))))"

definition set_power_status_shelly :: "'d curl \<Rightarrow> ('d web, unit) prog" where
  \<comment> \<open>a reply with an error in its JSON is a reply like any other\<close>
  "set_power_status_shelly C =
     bindM (by_action [(''on'', True), (''off'', False)]) (\<lambda>output.
     handle_errors (bindM (gen_payload ''Switch.Set'' (Some output)) (\<lambda>p. seqM (send_command_shelly C p) (retM ())))
       (\<lambda>_. fail EC_STATUS True))"

definition connect_shelly :: "'d curl \<Rightarrow> ('d web, unit) prog" where
  "connect_shelly C =
     bindM (getM opts) (\<lambda>od.
     bindM (stroptM ''--ip'') (\<lambda>ip.
     bindM (showoptM ''--ipport'') (\<lambda>port.
     seqM (set_base_url (url_scheme od @ ''//'' @ ip @ '':'' @ port @ ''/rpc''))
    (bindM (if od ''--password'' \<noteq> None then bindM (stroptM ''--password'') (\<lambda>p.
              retM [(''HTTPAUTH'', CStr ''HTTPAUTH_ANY''), (''USERPWD'', CStr (''admin:'' @ p))]) else retM []) (\<lambda>auth.
     bindM (intoptM ''--shell-timeout'') (\<lambda>timeout.
     seqM (setopts ([(''HTTPHEADER'', CList [''Accept: application/json''])] @ auth @ [(''TIMEOUT'', CInt timeout)] @ ssl_opts od))
    (seqM (handle_errors (send_command_shelly C (JObj [(''id'', JInt 1), (''method'', JStr ''Shelly.GetDeviceInfo'')]))
             (\<lambda>_. fail EC_LOGIN_DENIED True))
          (tryM (bindM (gen_payload ''Switch.GetStatus'' None) (\<lambda>p. seqM (send_command_shelly C p) (retM ())))
             (\<lambda>_. Some (retM ()))))))))))"

definition fns_shelly :: "'d curl \<Rightarrow> 'd web power_fns" where
  "fns_shelly C = \<lparr>set_power_fn = Some (set_power_status_shelly C), get_power_fn = Some (get_power_status_shelly C),
     get_outlet_list = None, reboot_cycle_fn = None, sync_set_power_fn = None\<rparr>"

definition device_opt_shelly :: "string list" where
  "device_opt_shelly = [''ipaddr'', ''passwd'', ''ssl'', ''notls'', ''web'', ''port'']"

definition docs_shelly :: docs where
  "docs_shelly = \<lparr>agent_name = None, shortdesc = ''Fence agent for Shelly Gen 2+ Switches'',
     longdesc = ''fence_shelly_gen2 is a Power Fencing agent which can be used with Shelly Switches supporting the gen 2+ API to fence attached hardware.'',
     vendorurl = Some ''https://shelly-api-docs.shelly.cloud/gen2/'', symlink = []\<rparr>"

definition main_shelly where
  "main_shelly C set_order time_start fuel =
     seqM (on_lib (set_default ''shell_timeout'' (PStr ''5'')))
    (seqM (on_lib (set_default ''power_wait'' (PStr ''1'')))
    (seqM (on_lib (read_options device_opt_shelly False))
    (seqM (on_lib (show_docs set_order (Some docs_shelly)))
    (seqM (run_delay time_start 0 0)
    (seqM (on_dev (connect_shelly C))
          (exit_with (on_dev (fence_action fuel (fns_shelly C)))))))))"

section \<open>Hetzner Cloud\<close>

definition FENCE_STATUS :: "json \<Rightarrow> string" where
  \<comment> \<open>\<open>FENCE_STATUS_MAP[status not in HETZNER_STATUSES_OFF]\<close>\<close>
  "FENCE_STATUS v = (if v = JStr ''off'' then ''off'' else ''on'')"

definition send_request_hetzner :: "'d curl \<Rightarrow> string \<Rightarrow> string \<Rightarrow> (string \<times> json) list \<Rightarrow> ('d web, json) prog" where
  "send_request_hetzner C path meth query =
     bindM (request_to (path @ (if query = [] then [] else ''?'' @ urlencode (map (\<lambda>(k, v). (k, json_str v)) query))) meth) (\<lambda>url.
     bindM (performM C) (\<lambda>r.
     bindM (liftM (body_json r)) (\<lambda>v.
       if 200 \<le> r_code r \<and> r_code r < 300 then retM v
       else raiseM (ClassError ''Exception'' (''RESULT '' @ show_int (r_code r) @ '' '' @ json_str v)))))"

fun send_pages :: "nat \<Rightarrow> 'd curl \<Rightarrow> string \<Rightarrow> string \<Rightarrow> nat option \<Rightarrow> (string \<times> json) list \<Rightarrow> json list \<Rightarrow> json
    \<Rightarrow> ('d web, json list) prog" where
  \<comment> \<open>the loop of \<open>send_command\<close>: a service that always names a next page keeps it going\<close>
  "send_pages 0 C path meth pages_max query results result = runningM"
| "send_pages (Suc n) C path meth pages_max query results result =
     bindM (pathM [''meta'', ''pagination'', ''next_page''] result) (\<lambda>next_page.
     if json_true next_page \<and> (case pages_max of None \<Rightarrow> True | Some m \<Rightarrow> m = 0 \<or> length results < m) then
       let query' = AList.update ''page'' next_page query in
       bindM (send_request_hetzner C path meth query') (\<lambda>r.
         if meth \<noteq> ''GET'' then retM (results @ [r])
         else send_pages n C path meth pages_max query' (results @ [r]) r)
     else retM results)"

definition send_command_hetzner :: "nat \<Rightarrow> 'd curl \<Rightarrow> string \<Rightarrow> string \<Rightarrow> nat option \<Rightarrow> (string \<times> json) list \<Rightarrow> ('d web, json list) prog" where
  \<comment> \<open>the default for the query is one dictionary for all calls, but each call sets its only key, page, anew\<close>
  "send_command_hetzner n C path meth pages_max query =
     send_pages n C path meth pages_max query [] (JObj [(''meta'', JObj [(''pagination'', JObj [(''next_page'', JInt 1)])])])"

definition logged_failure :: "int \<Rightarrow> exn \<Rightarrow> ('w, unit) prog" where
  \<comment> \<open>\<open>logging.error(e); fail(code)\<close>\<close>
  "logged_failure code e = seqM (logM (exn_text e)) (fail code True)"

definition connect_hetzner :: "nat \<Rightarrow> 'd curl \<Rightarrow> ('d web, unit) prog" where
  "connect_hetzner n C =
     bindM (stroptM ''--api-url'') (\<lambda>base.
     seqM (set_base_url base)
    (bindM (showoptM ''--api-token'') (\<lambda>token.
     bindM (intoptM ''--shell-timeout'') (\<lambda>timeout.
     seqM (setopts [(''HTTPHEADER'', CList [''Authorization: Bearer '' @ token]), (''TIMEOUT'', CInt timeout)])
    (seqM (handle_errors (send_command_hetzner n C ''/server_types'' ''GET'' (Some 1) [(''per_page'', JInt 1)])
             (logged_failure EC_LOGIN_DENIED))
          (retM ()))))))"

definition server_ips :: "json \<Rightarrow> json list outcome" where
  "server_ips server =
     bindO (json_item ''public_net'' server) (\<lambda>net.
     bindO (json_item ''ipv4'' net) (\<lambda>v4.
     bindO (json_item ''ip'' v4) (\<lambda>a.
     bindO (json_item ''ipv6'' net) (\<lambda>v6.
     bindO (json_item ''ip'' v6) (\<lambda>b.
     bindO (json_item ''private_net'' server) (\<lambda>private.
     bindO (json_iter private) (\<lambda>es.
     bindO (foldO (\<lambda>ips e. bindO (json_item ''ip'' e) (\<lambda>ip. Ret (ips @ [ip]))) [] es) (\<lambda>cs.
       Ret ([a, b] @ cs)))))))))"

fun server_with_ip :: "json \<Rightarrow> json list \<Rightarrow> json option outcome" where
  "server_with_ip plug [] = Ret None"
| "server_with_ip plug (server # servers) = bindO (server_ips server) (\<lambda>ips.
     if plug \<in> set ips then Ret (Some server) else server_with_ip plug servers)"

definition servers_of :: "json \<Rightarrow> ('w, json list) prog" where
  "servers_of result =
     bindM (liftM (json_has ''servers'' result)) (\<lambda>given.
     seqM (if given then retM () else fail EC_STATUS True)
    (bindM (itemM ''servers'' result) (\<lambda>v. liftM (json_iter v))))"

fun scan_servers :: "json \<Rightarrow> json list \<Rightarrow> ('w, json) prog" where
  \<comment> \<open>the failure stands inside of the loop over the pages\<close>
  "scan_servers plug [] = retM JNull"
| "scan_servers plug (result # results) =
     bindM (servers_of result) (\<lambda>servers.
     bindM (liftM (server_with_ip plug servers)) (\<lambda>found. case found of
         Some server \<Rightarrow> retM server
       | None \<Rightarrow> seqM (fail EC_STATUS True) (scan_servers plug results)))"

definition get_server :: "nat \<Rightarrow> 'd curl \<Rightarrow> ('d web, json) prog" where
  "get_server n C =
     bindM (handle_errors (bindM (optM ''--plug'') (\<lambda>plug.
              send_command_hetzner n C ''/servers'' ''GET'' (Some 1) [(''name'', py_json plug)]))
             (logged_failure EC_STATUS)) (\<lambda>results.
     seqM (if length results \<noteq> 1 then fail EC_STATUS True else retM ())
    (bindM (itemM ''servers'' (hd results)) (\<lambda>servers.
     bindM (liftM (json_len servers)) (\<lambda>k.
     if k = 1 then liftM (json_index 0 servers)
     else
       bindM (handle_errors (send_command_hetzner n C ''/servers'' ''GET'' None []) (logged_failure EC_STATUS)) (\<lambda>pages.
       bindM (optM ''--plug'') (\<lambda>plug. scan_servers (py_json plug) pages))))))"

definition get_power_status_hetzner :: "nat \<Rightarrow> 'd curl \<Rightarrow> ('d web, string option) prog" where
  "get_power_status_hetzner n C =
     bindM (get_server n C) (\<lambda>server.
     bindM (itemM ''status'' server) (\<lambda>status.
     seqM (itemM ''id'' server) (retM (Some (FENCE_STATUS status)))))"

definition set_power_status_hetzner :: "nat \<Rightarrow> 'd curl \<Rightarrow> ('d web, unit) prog" where
  "set_power_status_hetzner n C =
     bindM (get_server n C) (\<lambda>server.
     bindM (itemM ''id'' server) (\<lambda>ident.
     bindM (by_action [(''on'', ''poweron''), (''off'', ''poweroff'')]) (\<lambda>action.
     handle_errors (seqM (send_command_hetzner n C (''/servers/'' @ json_str ident @ ''/actions/'' @ action) ''POST'' None []) (retM ()))
       (logged_failure EC_STATUS))))"

definition server_entry :: "outlet list \<Rightarrow> json \<Rightarrow> outlet list outcome" where
  "server_entry outlets server =
     bindO (json_item ''status'' server) (\<lambda>status.
     bindO (json_item ''id'' server) (\<lambda>_.
     bindO (json_item ''name'' server) (\<lambda>name.
     bindO (outlet_key name) (\<lambda>k. Ret (AList.update k ([], Some (FENCE_STATUS status)) outlets)))))"

definition get_list_hetzner :: "nat \<Rightarrow> 'd curl \<Rightarrow> ('d web, outlet list) prog" where
  "get_list_hetzner n C =
     bindM (handle_errors (send_command_hetzner n C ''/servers'' ''GET'' None []) (logged_failure EC_STATUS)) (\<lambda>pages.
     foldM (\<lambda>outlets page. bindM (servers_of page) (\<lambda>servers. liftM (foldO server_entry outlets servers))) [] pages)"

definition fns_hetzner_cloud :: "nat \<Rightarrow> 'd curl \<Rightarrow> 'd web power_fns" where
  "fns_hetzner_cloud n C = \<lparr>set_power_fn = Some (set_power_status_hetzner n C),
     get_power_fn = Some (get_power_status_hetzner n C), get_outlet_list = Some (get_list_hetzner n C),
     reboot_cycle_fn = None, sync_set_power_fn = None\<rparr>"

definition new_opts_hetzner_cloud :: "(string \<times> optdef) list" where
  "new_opts_hetzner_cloud =
    [(''api_url'', \<lparr>o_getopt = '':'', o_longopt = Some ''api-url'',
        o_help = ''--api-url=[url]                API URL'',
        o_required = Some ''0'', o_shortdesc = Some ''API URL'',
        o_type = None, o_default = Some (PStr ''https://api.hetzner.cloud/v1''), o_choices = None, o_order = 0\<rparr>),
     (''api_token'', \<lparr>o_getopt = '':'', o_longopt = Some ''api-token'',
        o_help = ''--api-token=[token]            API token'',
        o_required = Some ''1'', o_shortdesc = Some ''API token'',
        o_type = None, o_default = None, o_choices = None, o_order = 0\<rparr>)]"

definition device_opt_hetzner_cloud :: "string list" where
  "device_opt_hetzner_cloud = [''api_url'', ''api_token'', ''no_password'', ''port'', ''web'']"

definition docs_hetzner_cloud :: docs where
  "docs_hetzner_cloud = \<lparr>agent_name = None, shortdesc = ''Fence agent for Hetzner Cloud'',
     longdesc = ''fence_hetzner_cloud is a Power Fencing agent which can be used with Hetzner Cloud via its API to fence cloud servers.'',
     vendorurl = Some ''https://www.hetzner.com'', symlink = []\<rparr>"

definition main_hetzner_cloud where
  "main_hetzner_cloud n C set_order time_start fuel =
     seqM (on_lib (add_opts new_opts_hetzner_cloud))
    (seqM (on_lib (set_default ''shell_timeout'' (PStr ''5'')))
    (seqM (on_lib (set_default ''power_wait'' (PStr ''5'')))
    (seqM (on_lib (read_options device_opt_hetzner_cloud False))
    (seqM (on_lib (show_docs set_order (Some docs_hetzner_cloud)))
    (seqM (run_delay time_start 0 0)
    (seqM (on_dev (connect_hetzner n C))
          (exit_with (on_dev (fence_action fuel (fns_hetzner_cloud n C))))))))))"

section \<open>IBM PowerVS\<close>

text \<open>A file that holds an API key is a parameter: its text, or None if there is no such file.\<close>

definition state_powervs :: "(string \<times> string) list" where
  "state_powervs = [(''ACTIVE'', ''on''), (''SHUTOFF'', ''off''), (''HARD_REBOOT'', ''on''), (''SOFT_REBOOT'', ''on''), (''ERROR'', ''unknown'')]"

definition send_command_powervs :: "'d curl \<Rightarrow> string \<Rightarrow> handle \<Rightarrow> ('d web, json) prog" where
  \<comment> \<open>with the options that stand for the method: \<open>POST\<close> 0 for GET, the fields for POST\<close>
  "send_command_powervs C cmd method_options =
     bindM base_urlM (\<lambda>base.
     seqM (setopts ([(''URL'', CStr (base @ cmd))] @ method_options))
    (bindM (tryM (performM C) (\<lambda>e. Some (seqM (logM (''send_command(): '' @ exn_text e)) (raiseM e)))) (\<lambda>r.
     if r_code r \<noteq> 200 then
       raiseM (ClassError ''Exception'' (if r_text r \<noteq> [] then show_int (r_code r) @ '': '' @ r_text r
         else ''Remote returned '' @ show_int (r_code r) @ '' for request to '' @ base @ cmd))
     else liftM (body_json r))))"

definition missing_token :: json where
  "missing_token = JStr ''TOKEN_IS_MISSING_OR_WRONG''"

definition read_key :: "(string \<Rightarrow> string option) \<Rightarrow> string \<Rightarrow> json option outcome" where
  \<comment> \<open>\<open>None\<close>: the file is not there\<close>
  "read_key files token = (case token of
      [] \<Rightarrow> Raise (IndexError ''string index out of range'')
    | c # path \<Rightarrow>
        if c = CHR ''@'' then (case files path of None \<Rightarrow> Ret None | Some text \<Rightarrow> bindO (key_of_file text) (\<lambda>k. Ret (Some k)))
        else Ret (Some (JStr token)))"

definition get_token :: "(string \<Rightarrow> string option) \<Rightarrow> 'd curl \<Rightarrow> ('d web, json) prog" where
  "get_token files C =
     bindM (tryM (bindM (stroptM ''--token'') (\<lambda>token.
         bindM (liftM (read_key files token)) (\<lambda>key. case key of
           None \<Rightarrow> retM None
         | Some k \<Rightarrow>
             bindM (send_command_powervs C ''identity/token'' [(''POSTFIELDS'',
               CStr (''grant_type=urn%3Aibm%3Aparams%3Aoauth%3Agrant-type%3Aapikey&apikey='' @ json_str k))]) (\<lambda>res. retM (Some res)))))
       (\<lambda>_. Some (retM None))) (\<lambda>answer. case answer of
       None \<Rightarrow> retM missing_token
     | Some res \<Rightarrow> itemM ''access_token'' res)"

definition lpar_entry :: "outlet list \<Rightarrow> json \<Rightarrow> outlet list outcome" where
  "lpar_entry outlets r =
     bindO (json_item ''serverName'' r) (\<lambda>name.
     bindO (json_item ''status'' r) (\<lambda>status.
     bindO (state_word state_powervs status) (\<lambda>st.
     bindO (json_item ''pvmInstanceID'' r) (\<lambda>ident.
     bindO (outlet_key ident) (\<lambda>k.
       Ret (AList.update k (json_str name, Some (case st of None \<Rightarrow> ''unknown'' | Some t \<Rightarrow> t)) outlets))))))"

definition get_list_powervs :: "'d curl \<Rightarrow> ('d web, outlet list) prog" where
  "get_list_powervs C =
     bindM (tryM (bindM (showoptM ''--instance'') (\<lambda>inst.
              bindM (send_command_powervs C (''cloud-instances/'' @ inst @ ''/pvm-instances'') [(''POST'', CInt 0)]) (\<lambda>v. retM (Some v))))
            (\<lambda>_. Some (retM None))) (\<lambda>answer. case answer of
       None \<Rightarrow> retM []
     | Some res \<Rightarrow>
         bindM (itemM ''pvmInstances'' res) (\<lambda>v.
         bindM (liftM (json_iter v)) (\<lambda>rs. liftM (foldO lpar_entry [] rs))))"

definition lpar_path :: "('w, string) prog" where
  "lpar_path = bindM (stroptM ''--instance'') (\<lambda>inst. bindM (stroptM ''--plug'') (\<lambda>plug.
     retM (''cloud-instances/'' @ inst @ ''/pvm-instances/'' @ plug)))"

definition lpar_status :: "'d curl \<Rightarrow> ('d web, string option) prog" where
  "lpar_status C =
     bindM lpar_path (\<lambda>path.
     bindM (send_command_powervs C path [(''POST'', CInt 0)]) (\<lambda>res.
     bindM (itemM ''serverName'' res) (\<lambda>_.
     bindM (itemM ''status'' res) (\<lambda>status.
     bindM (liftM (state_entry state_powervs status)) (\<lambda>t.
     bindM (itemM ''pvmInstanceID'' res) (\<lambda>ident.
     bindM (liftM (outlet_key ident)) (\<lambda>k.
     bindM (optM ''--plug'') (\<lambda>plug.
       if ident = py_json plug then retM (Some t) else raiseM (KeyError (py_str plug))))))))))"

definition get_power_status_powervs :: "'d curl \<Rightarrow> ('d web, string option) prog" where
  \<comment> \<open>only a missing key leads to the list and to \<open>fail\<close>; other exceptions go through\<close>
  "get_power_status_powervs C =
     tryM (lpar_status C) (\<lambda>e. case e of
       KeyError _ \<Rightarrow> Some (tryM
         (bindM (get_list_powervs C) (\<lambda>outlets. bindM (plug_entry outlets) (\<lambda>(_, st). retM st)))
         (\<lambda>e'. case e' of
            KeyError _ \<Rightarrow> Some (seqM (fail EC_STATUS True) (raiseM (ClassError ''UnboundLocalError'' ''result'')))
          | _ \<Rightarrow> None))
     | _ \<Rightarrow> None)"

definition lpar_action :: "'d curl \<Rightarrow> string \<Rightarrow> ('d web, unit) prog" where
  "lpar_action C action =
     bindM lpar_path (\<lambda>path. seqM (send_command_powervs C (path @ ''/action'') [(''POSTFIELDS'', CStr action)]) (retM ()))"

definition set_power_status_powervs :: "'d curl \<Rightarrow> ('d web, unit) prog" where
  "set_power_status_powervs C =
     bindM (by_action [(''on'', ''{\"action\" : \"start\"}''), (''off'', ''{\"action\" : \"immediate-shutdown\"}'')]) (\<lambda>action.
     handle_errors (lpar_action C action) (\<lambda>_. fail EC_STATUS True))"

definition reboot_cycle_powervs :: "'d curl \<Rightarrow> ('d web, bool) prog" where
  "reboot_cycle_powervs C =
     bindM (by_action [(''reboot'', ''{\"action\" : \"hard-reboot\"}'')]) (\<lambda>action.
     tryM (seqM (lpar_action C action) (retM True))
       (\<lambda>_. Some (bindM (get_power_status_powervs C) (\<lambda>result.
          if result = Some ''off'' then retM True else seqM (fail EC_STATUS True) (retM True)))))"

definition timeouts_powervs :: "('w, handle) prog" where
  "timeouts_powervs = bindM (intoptM ''--shell-timeout'') (\<lambda>t.
     bindM (showoptM ''--proxy'') (\<lambda>proxy.
     retM ([(''CONNECTTIMEOUT'', CInt t), (''TIMEOUT'', CInt t)] @ verify_opts True @ [(''PROXY'', CStr proxy)])))"

definition is_private :: "('w, bool) prog" where
  "is_private = bindM (optM ''--api-type'') (\<lambda>v. retM (v = PStr ''private''))"

definition new_handle :: "('d web, unit) prog" where
  \<comment> \<open>\<open>pycurl.Curl()\<close>\<close>
  "new_handle = modM (\<lambda>s. s\<lparr>world := (world s)\<lparr>handle := []\<rparr>\<rparr>)"

definition auth_connect :: "('d web, unit) prog" where
  "auth_connect =
     seqM new_handle
    (bindM is_private (\<lambda>private.
     seqM (set_base_url (if private then ''https://private.iam.cloud.ibm.com/'' else ''https://iam.cloud.ibm.com/''))
    (bindM timeouts_powervs (\<lambda>os.
       setopts (os @ [(''HTTPHEADER'', CList [''Content-type: application/x-www-form-urlencoded'', ''Accept: application/json'', ''User-Agent: curl''])])))))"

definition connect_powervs :: "json \<Rightarrow> ('d web, unit) prog" where
  "connect_powervs token =
     seqM new_handle
    (bindM (stroptM ''--region'') (\<lambda>region.
     bindM is_private (\<lambda>private.
     seqM (set_base_url (''https://'' @ (if private then ''private.'' else []) @ region @ ''.power-iaas.cloud.ibm.com/pcloud/v1/''))
    (bindM timeouts_powervs (\<lambda>os.
     bindM (showoptM ''--crn'') (\<lambda>crn.
       setopts (os @ [(''HTTPHEADER'', CList [''Content-Type: application/json'', ''Authorization: Bearer '' @ json_str token,
         ''CRN: '' @ crn, ''User-Agent: curl''])])))))))"

definition fns_ibm_powervs :: "'d curl \<Rightarrow> 'd web power_fns" where
  "fns_ibm_powervs C = \<lparr>set_power_fn = Some (set_power_status_powervs C), get_power_fn = Some (get_power_status_powervs C),
     get_outlet_list = Some (get_list_powervs C), reboot_cycle_fn = Some (reboot_cycle_powervs C), sync_set_power_fn = None\<rparr>"

definition new_opts_ibm_powervs :: "(string \<times> optdef) list" where
  "new_opts_ibm_powervs =
    [(''token'', \<lparr>o_getopt = '':'', o_longopt = Some ''token'',
        o_help = ''--token=[token]                API Token'',
        o_required = Some ''1'', o_shortdesc = Some ''API Token'',
        o_type = None, o_default = None, o_choices = None, o_order = 0\<rparr>),
     (''crn'', \<lparr>o_getopt = '':'', o_longopt = Some ''crn'',
        o_help = ''--crn=[crn]                    CRN'',
        o_required = Some ''1'', o_shortdesc = Some ''CRN'',
        o_type = None, o_default = None, o_choices = None, o_order = 0\<rparr>),
     (''instance'', \<lparr>o_getopt = '':'', o_longopt = Some ''instance'',
        o_help = ''--instance=[instance]          PowerVS Instance'',
        o_required = Some ''1'', o_shortdesc = Some ''PowerVS Instance'',
        o_type = None, o_default = None, o_choices = None, o_order = 0\<rparr>),
     (''region'', \<lparr>o_getopt = '':'', o_longopt = Some ''region'',
        o_help = ''--region=[region]              Region'',
        o_required = Some ''1'', o_shortdesc = Some ''Region'',
        o_type = None, o_default = None, o_choices = None, o_order = 0\<rparr>),
     (''api-type'', \<lparr>o_getopt = '':'', o_longopt = Some ''api-type'',
        o_help = ''--api-type=[private|public]          API-type: '' @ [CHR 0x27] @ ''private'' @ [CHR 0x27] @ '' (default) or '' @ [CHR 0x27] @ ''public'' @ [CHR 0x27],
        o_required = Some ''0'', o_shortdesc = Some ''API-type (private|public)'',
        o_type = None, o_default = Some (PStr ''private''), o_choices = None, o_order = 0\<rparr>),
     (''proxy'', \<lparr>o_getopt = '':'', o_longopt = Some ''proxy'',
        o_help = ''--proxy=[http://<URL>:<PORT>]          Proxy: '' @ [CHR 0x27] @ ''http://<URL>:<PORT>'' @ [CHR 0x27],
        o_required = Some ''0'', o_shortdesc = Some ''Network proxy'',
        o_type = None, o_default = None, o_choices = None, o_order = 0\<rparr>)]"

definition device_opt_ibm_powervs :: "string list" where
  "device_opt_ibm_powervs = [''token'', ''crn'', ''instance'', ''region'', ''api-type'', ''proxy'', ''port'', ''no_password'', ''method'']"

definition docs_ibm_powervs :: docs where
  "docs_ibm_powervs = \<lparr>agent_name = None, shortdesc = ''Fence agent for IBM PowerVS'',
     longdesc = ''fence_ibm_powervs is a power fencing agent for IBM Power Virtual Server (IBM PowerVS) to fence virtual server instances.'',
     vendorurl = Some ''https://www.ibm.com'', symlink = []\<rparr>"

definition main_ibm_powervs where
  "main_ibm_powervs files C set_order time_start fuel =
     seqM (on_lib (add_opts new_opts_ibm_powervs))
    (seqM (on_lib (set_default ''shell_timeout'' (PStr ''500'')))
    (seqM (on_lib (set_default ''power_timeout'' (PStr ''120'')))
    (seqM (on_lib (set_default ''power_wait'' (PStr ''15'')))
    (seqM (on_lib (set_default ''stonith_status_sleep'' (PStr ''10'')))
    (seqM (on_lib (set_default ''proxy'' (PStr [])))
    (seqM (on_lib (read_options device_opt_ibm_powervs False))
    (seqM (on_lib (show_docs set_order (Some docs_ibm_powervs)))
    (seqM (run_delay time_start 0 0)
    (seqM (on_dev auth_connect)
    (bindM (on_dev (get_token files C)) (\<lambda>token.
     seqM (on_dev (connect_powervs token))
          (exit_with (on_dev (fence_action fuel (fns_ibm_powervs C)))))))))))))))"

end
