(* ===== verification/Xml.thy ===== *)
theory Xml
  imports Json
begin

text \<open>
  XML as \<open>xml.etree.ElementTree\<close> presents it: \<open>fromstring\<close> with namespaces, entities, comments,
  processing instructions and CDATA sections, and the searches that the agents make. The name of an
  element or attribute in a namespace is \<open>{uri}name\<close>. A document with a DOCTYPE is not accepted.
\<close>

datatype node = Text string | Elem string "(string \<times> string) list" "node list"

section \<open>Scanning\<close>

definition xml_space :: "char \<Rightarrow> bool" where
  "xml_space c \<longleftrightarrow> c \<in> {CHR '' '', CHR 0x09, CHR 0x0A, CHR 0x0D}"

definition name_char :: "char \<Rightarrow> bool" where
  "name_char c \<longleftrightarrow> upper_letter c \<or> lower_letter c \<or> is_digit c \<or> c \<in> set ''_:.-'' \<or> (of_char c :: nat) \<ge> 128"

definition xskip :: "string \<Rightarrow> string" where
  "xskip t = dropWhile xml_space t"

fun after :: "string \<Rightarrow> string \<Rightarrow> string option" where
  \<comment> \<open>what follows the first place of a text\<close>
  "after e [] = None"
| "after e (c # t) = (if py_startswith e (c # t) then Some (drop (length e) (c # t)) else after e t)"

fun before :: "string \<Rightarrow> string \<Rightarrow> string" where
  "before e [] = []"
| "before e (c # t) = (if py_startswith e (c # t) then [] else c # before e t)"

definition xml_entity :: "string \<Rightarrow> char option" where
  "xml_entity n =
     (case map_of [(''lt'', CHR ''<''), (''gt'', CHR ''>''), (''amp'', CHR ''&''), (''quot'', CHR 0x22), (''apos'', CHR 0x27)] n of
        Some c \<Rightarrow> Some c
      | None \<Rightarrow>
          if py_startswith ''#x'' n then map_option char_of (digits_val 16 0 False (drop 2 n))
          else if py_startswith ''#'' n then map_option char_of (digits_val 10 0 False (drop 1 n))
          else None)"

fun entities :: "nat \<Rightarrow> string \<Rightarrow> string option" where
  \<comment> \<open>with as much fuel as there are characters\<close>
  "entities 0 t = (if t = [] then Some [] else None)"
| "entities (Suc n) [] = Some []"
| "entities (Suc n) (c # t) =
     (if c \<noteq> CHR ''&'' then map_option (\<lambda>r. c # r) (entities n t)
      else (case (after '';'' t, xml_entity (before '';'' t)) of
          (Some r, Some d) \<Rightarrow> map_option (\<lambda>r'. d # r') (entities n r)
        | _ \<Rightarrow> None))"

definition decoded :: "string \<Rightarrow> string option" where
  "decoded t = entities (length t) t"

definition attr_value :: "string \<Rightarrow> (string \<times> string) option" where
  "attr_value t = (case t of
      q # r \<Rightarrow> if q \<in> {CHR 0x22, CHR 0x27} \<and> q \<in> set r \<and> CHR ''<'' \<notin> set (before [q] r)
        then map_option (\<lambda>v. (v, drop 1 (dropWhile (\<lambda>c. c \<noteq> q) r)))
          (decoded (map (\<lambda>c. if xml_space c then CHR '' '' else c) (before [q] r)))
        else None
    | [] \<Rightarrow> None)"

fun xml_attrs :: "nat \<Rightarrow> string \<Rightarrow> ((string \<times> string) list \<times> string) option" where
  "xml_attrs 0 t = None"
| "xml_attrs (Suc n) t =
     (let u = xskip t; name = takeWhile name_char u; r = xskip (dropWhile name_char u) in
      if u = [] then None
      else if \<not> name_char (hd u) then Some ([], u)
      else if u = t \<or> r = [] \<or> hd r \<noteq> CHR ''='' then None
      else (case attr_value (xskip (tl r)) of
          None \<Rightarrow> None
        | Some (v, rest') \<Rightarrow> map_option (\<lambda>(as, w). ((name, v) # as, w)) (xml_attrs n rest')))"

section \<open>Namespaces\<close>

type_synonym namespaces = "(string \<times> string) list"

definition declared :: "(string \<times> string) list \<Rightarrow> namespaces" where
  \<comment> \<open>the default namespace has the empty prefix\<close>
  "declared as = List.map_filter (\<lambda>(k, v). if k = ''xmlns'' then Some ([], v)
     else if py_startswith ''xmlns:'' k then Some (drop 6 k, v) else None) as"

definition expanded :: "namespaces \<Rightarrow> bool \<Rightarrow> string \<Rightarrow> string option" where
  \<comment> \<open>an attribute without a prefix is in no namespace\<close>
  "expanded ns attribute name =
     (if CHR '':'' \<in> set name then
        map_option (\<lambda>u. ''{'' @ u @ ''}'' @ drop 1 (dropWhile (\<lambda>c. c \<noteq> CHR '':'') name)) (map_of ns (takeWhile (\<lambda>c. c \<noteq> CHR '':'') name))
      else if attribute then Some name
      else (case map_of ns [] of Some u \<Rightarrow> Some (if u = [] then name else ''{'' @ u @ ''}'' @ name) | None \<Rightarrow> Some name))"

fun expand_attrs :: "namespaces \<Rightarrow> (string \<times> string) list \<Rightarrow> (string \<times> string) list option" where
  "expand_attrs ns [] = Some []"
| "expand_attrs ns ((k, v) # as) =
     (if k = ''xmlns'' \<or> py_startswith ''xmlns:'' k then expand_attrs ns as
      else (case (expanded ns True k, expand_attrs ns as) of
          (Some n, Some r) \<Rightarrow> Some ((n, v) # r)
        | _ \<Rightarrow> None))"

section \<open>Elements\<close>

definition add_text :: "string \<Rightarrow> node list \<Rightarrow> node list" where
  \<comment> \<open>adjacent texts are one\<close>
  "add_text t ns = (if t = [] then ns else (case ns of Text u # r \<Rightarrow> Text (t @ u) # r | _ \<Rightarrow> Text t # ns))"

fun xml_element :: "nat \<Rightarrow> namespaces \<Rightarrow> string \<Rightarrow> (node \<times> string) option"
  and xml_content :: "nat \<Rightarrow> namespaces \<Rightarrow> string \<Rightarrow> string \<Rightarrow> (node list \<times> string) option" where
  \<comment> \<open>an element, after its first bracket; the content of an element of the given name up to its end\<close>
  "xml_element 0 ns t = None"
| "xml_element (Suc n) ns t =
     (let name = takeWhile name_char t in
      if name = [] then None
      else (case xml_attrs n (dropWhile name_char t) of
         None \<Rightarrow> None
       | Some (as, r) \<Rightarrow>
           let ns' = declared as @ ns in
           (case (expanded ns' False name, expand_attrs ns' as) of
              (Some tag, Some bs) \<Rightarrow>
                if py_startswith ''/>'' r then Some (Elem tag bs [], drop 2 r)
                else if py_startswith ''>'' r then
                  map_option (\<lambda>(kids, w). (Elem tag bs kids, w)) (xml_content n ns' name (drop 1 r))
                else None
            | _ \<Rightarrow> None)))"
| "xml_content 0 ns name t = None"
| "xml_content (Suc n) ns name t =
     (if py_startswith ''</'' t then
        (let r = drop 2 t; w = xskip (dropWhile name_char r) in
         if takeWhile name_char r = name \<and> py_startswith ''>'' w then Some ([], drop 1 w) else None)
      else if py_startswith ''<!--'' t then Option.bind (after ''-->'' (drop 4 t)) (xml_content n ns name)
      else if py_startswith ''<?'' t then Option.bind (after ''?>'' (drop 2 t)) (xml_content n ns name)
      else if py_startswith ''<![CDATA['' t then
        Option.bind (after '']]>'' (drop 9 t)) (\<lambda>r.
          map_option (\<lambda>(kids, w). (add_text (before '']]>'' (drop 9 t)) kids, w)) (xml_content n ns name r))
      else if py_startswith ''<'' t then
        (case xml_element n ns (drop 1 t) of
           None \<Rightarrow> None
         | Some (e, r) \<Rightarrow> map_option (\<lambda>(kids, w). (e # kids, w)) (xml_content n ns name r))
      else if t = [] then None
      else (case decoded (before ''<'' t) of
           None \<Rightarrow> None
         | Some u \<Rightarrow> map_option (\<lambda>(kids, w). (add_text u kids, w)) (xml_content n ns name (dropWhile (\<lambda>c. c \<noteq> CHR ''<'') t))))"

fun xml_misc :: "nat \<Rightarrow> string \<Rightarrow> string" where
  \<comment> \<open>without blanks, comments and processing instructions\<close>
  "xml_misc 0 t = t"
| "xml_misc (Suc n) t =
     (let u = xskip t in
      if py_startswith ''<!--'' u then (case after ''-->'' (drop 4 u) of Some r \<Rightarrow> xml_misc n r | None \<Rightarrow> u)
      else if py_startswith ''<?'' u then (case after ''?>'' (drop 2 u) of Some r \<Rightarrow> xml_misc n r | None \<Rightarrow> u)
      else u)"

definition ParseError :: exn where
  "ParseError = ClassError ''ParseError'' ''not well-formed (invalid token)''"

definition xml_fromstring :: "string \<Rightarrow> node outcome" where
  \<comment> \<open>\<open>ElementTree.fromstring\<close>; every step of the scan but the two of an empty element uses up a character\<close>
  "xml_fromstring t =
     (let u = xml_misc (length t) t in
      if py_startswith ''<'' u then
        (case xml_element (2 * length t + 2) [(''xml'', ''http://www.w3.org/XML/1998/namespace'')] (drop 1 u) of
           Some (e, r) \<Rightarrow> if xml_misc (length t) r = [] then Ret e else Raise ParseError
         | None \<Rightarrow> Raise ParseError)
      else Raise ParseError)"

section \<open>Looking at elements\<close>

fun elements :: "node \<Rightarrow> node list" where
  \<comment> \<open>an element and all below it, in the order of the document\<close>
  "elements (Text t) = []"
| "elements (Elem tag as kids) = Elem tag as kids # concat (map elements kids)"

fun tag_of :: "node \<Rightarrow> string" where
  "tag_of (Elem tag as kids) = tag"
| "tag_of (Text t) = []"

definition xml_iter :: "string \<Rightarrow> node \<Rightarrow> node list" where
  "xml_iter tag e = filter (\<lambda>x. tag_of x = tag) (elements e)"

definition find_below :: "string \<Rightarrow> node \<Rightarrow> node option" where
  \<comment> \<open>\<open>e.find(".//tag")\<close>\<close>
  "find_below tag e = List.find (\<lambda>x. tag_of x = tag) (tl (elements e))"

fun text_of :: "node \<Rightarrow> string option" where
  \<comment> \<open>\<open>e.text\<close>\<close>
  "text_of (Elem tag as (Text t # kids)) = Some t"
| "text_of _ = None"

fun attrib_of :: "node \<Rightarrow> (string \<times> string) list" where
  "attrib_of (Elem tag as kids) = as"
| "attrib_of (Text t) = []"

fun children_of :: "node \<Rightarrow> node list" where
  "children_of (Elem tag as kids) = filter (\<lambda>x. elements x \<noteq> []) kids"
| "children_of (Text t) = []"

definition xml_attr :: "string \<Rightarrow> node \<Rightarrow> string outcome" where
  \<comment> \<open>\<open>e.attrib[k]\<close>\<close>
  "xml_attr k e = (case map_of (attrib_of e) k of Some v \<Rightarrow> Ret v | None \<Rightarrow> Raise (KeyError k))"

lemma xml_sample:
  "xml_fromstring ''<?xml version=\"1.0\"?><a xmlns=\"u\" k=\"1&amp;2\">t<b:c xmlns:b=\"v\"/></a> ''
     = Ret (Elem ''{u}a'' [(''k'', ''1&2'')] [Text ''t'', Elem ''{v}c'' [] []])"
  by code_simp

end
