(* ===== verification/Vcloud_Amt_Agents.thy ===== *)
theory Vcloud_Amt_Agents
  imports Api_Agents Xml
begin

text \<open>
  Two agents whose devices answer with XML: \<open>agents/vmware_vcloud/fence_vmware_vcloud.py\<close> (over
  pycurl) and \<open>agents/amt_ws/fence_amt_ws.py\<close> (Intel AMT, over the package pywsman, whose client is a
  parameter: what its calls \<open>get\<close> and \<open>invoke\<close> return is the text of a document, or nothing; the documents
  that are sent are trees).
\<close>

section \<open>vCloud Director\<close>

definition state_vcloud :: "(string \<times> string) list" where
  "state_vcloud = [(''POWERED_ON'', ''on''), (''POWERED_OFF'', ''off''), (''SUSPENDED'', ''off'')]"

definition head_line_end :: string where "head_line_end = [CHR 0x0D, CHR 0x0A]"

definition header_field :: "string \<Rightarrow> string \<times> string" where
  "header_field line = (py_lower (py_strip (takeWhile (\<lambda>c. c \<noteq> CHR '':'') line)),
     py_strip (drop 1 (dropWhile (\<lambda>c. c \<noteq> CHR '':'') line)))"

definition parse_headers :: "string \<Rightarrow> (string \<times> string) list" where
  "parse_headers data = fold (\<lambda>(k, v). AList.update k v)
     (map header_field (takeWhile (\<lambda>line. CHR '':'' \<in> set line) (tl (py_split head_line_end data)))) []"

definition no_attribute :: "string \<Rightarrow> exn" where
  \<comment> \<open>of the empty text that an empty answer stays\<close>
  "no_attribute a = AttributeError ([CHR 0x27] @ ''str'' @ [CHR 0x27] @ '' object has no attribute '' @ [CHR 0x27] @ a @ [CHR 0x27])"

definition send_command_vcloud :: "'d curl \<Rightarrow> string \<Rightarrow> string \<Rightarrow> ('d web, node option \<times> (string \<times> string) list) prog" where
  \<comment> \<open>with the headers of the answer. A message is looked for in the document as if it was a dictionary\<close>
  "send_command_vcloud C cmd meth =
     bindM (request_to cmd meth) (\<lambda>url.
     bindM (performM C) (\<lambda>r.
     bindM (if r_text r = [] then retM None else bindM (liftM (xml_fromstring (r_text r))) (\<lambda>e. retM (Some e))) (\<lambda>result.
     if r_code r \<in> {200, 202, 204} then retM (result, parse_headers (r_head r))
     else if (case result of Some e \<Rightarrow> children_of e \<noteq> [] | None \<Rightarrow> False) then
       raiseM (TypeError ''element indices must be integers'')
     else raiseM (ClassError ''Exception'' (''Remote returned '' @ show_int (r_code r) @ '' for request to '' @ url)))))"

definition vm_id_of :: "string \<Rightarrow> string outcome" where
  \<comment> \<open>\<open>href.split('/vm-', 1)[1]\<close>\<close>
  "vm_id_of href = (case after ''/vm-'' href of Some t \<Rightarrow> Ret t | None \<Rightarrow> Raise (IndexError ''list index out of range''))"

definition get_power_status_vcloud :: "'d curl \<Rightarrow> ('d web, string option) prog" where
  \<comment> \<open>for any other state the code returns the number \<open>EC_STATUS\<close>, which is neither on nor off\<close>
  "get_power_status_vcloud C =
     bindM (handle_errors (bindM (showoptM ''--plug'') (\<lambda>plug. send_command_vcloud C (''vApp/vm-'' @ plug) ''GET'')) (\<lambda>_. fail EC_STATUS True)) (\<lambda>(vm, _).
     case vm of
       None \<Rightarrow> raiseM (no_attribute ''attrib'')
     | Some e \<Rightarrow>
         bindM (liftM (xml_attr ''href'' e)) (\<lambda>href.
         bindM (liftM (vm_id_of href)) (\<lambda>ident.
         seqM (setoptM ''id'' (PStr ident))
        (bindM (liftM (xml_attr ''status'' e)) (\<lambda>status.
           retM (Some (if status = ''3'' then ''off'' else if status = ''4'' then ''on'' else if status = ''8'' then ''off''
             else show_int EC_STATUS)))))))"

definition set_power_status_vcloud :: "'d curl \<Rightarrow> ('d web, unit) prog" where
  "set_power_status_vcloud C =
     bindM (by_action [(''on'', ''powerOn''), (''off'', ''powerOff''), (''shutdown'', ''shutdown''), (''suspend'', ''suspend''), (''reset'', ''reset'')]) (\<lambda>action.
       seqM (handle_errors (bindM (showoptM ''--plug'') (\<lambda>plug.
          send_command_vcloud C (''vApp/vm-'' @ plug @ ''/power/action/'' @ action) ''POST'')) (\<lambda>_. fail EC_STATUS True)) (retM ()))"

definition record_entry :: "outlet list \<Rightarrow> node \<Rightarrow> outlet list outcome" where
  "record_entry outlets e =
     bindO (xml_attr ''href'' e) (\<lambda>href.
     if \<not> py_in ''/vApp/'' href then Ret outlets
     else
       bindO (vm_id_of href) (\<lambda>uuid.
       bindO (xml_attr ''status'' e) (\<lambda>status.
       bindO (case map_of state_vcloud status of Some t \<Rightarrow> Ret t | None \<Rightarrow> Raise (KeyError status)) (\<lambda>t.
       bindO (xml_attr ''containerName'' e) (\<lambda>container.
       bindO (xml_attr ''name'' e) (\<lambda>name.
         Ret (AList.update (''['' @ uuid @ ''] '' @ container @ [CHR 0x5C] @ name) (status, Some t) outlets)))))))"

definition get_list_vcloud :: "'d curl \<Rightarrow> ('d web, outlet list) prog" where
  "get_list_vcloud C =
     bindM (send_command_vcloud C ''vms/query'' ''GET'') (\<lambda>(vms, _). case vms of
       None \<Rightarrow> raiseM (no_attribute ''iter'')
     | Some e \<Rightarrow> liftM (foldO record_entry [] (xml_iter ''{http://www.vmware.com/vcloud/v1.5}VMRecord'' e)))"

definition connect_vcloud :: "'d curl \<Rightarrow> ('d web, unit) prog" where
  "connect_vcloud C =
     bindM (getM opts) (\<lambda>od.
     bindM (stroptM ''--ip'') (\<lambda>ip.
     bindM (showoptM ''--ipport'') (\<lambda>port.
     bindM (stroptM ''--api-path'') (\<lambda>path.
     seqM (set_base_url (url_scheme od @ ''//'' @ ip @ '':'' @ port @ path @ ''/''))
    (bindM (stroptM ''--username'') (\<lambda>user.
     bindM (stroptM ''--password'') (\<lambda>password.
     bindM (intoptM ''--shell-timeout'') (\<lambda>timeout.
     let accept = ''Accept: application/*+xml;version=1.5'' in
     seqM (setopts ([(''HTTPHEADER'', CList [accept])] @ basic_auth user password @ [(''TIMEOUT'', CInt timeout)] @ ssl_opts od))
    (bindM (handle_errors (send_command_vcloud C ''sessions'' ''POST'') (\<lambda>_. fail EC_LOGIN_DENIED True)) (\<lambda>(_, headers).
     case map_of headers ''x-vcloud-authorization'' of
       None \<Rightarrow> raiseM (KeyError ''x-vcloud-authorization'')
     | Some token \<Rightarrow> setopts [(''HTTPHEADER'', CList [accept, ''x-vcloud-authorization: '' @ token])]))))))))))"

definition disconnect_vcloud :: "'d curl \<Rightarrow> ('d web, unit) prog" where
  "disconnect_vcloud C = seqM (send_command_vcloud C ''session'' ''DELETE'') (retM ())"

definition fns_vmware_vcloud :: "'d curl \<Rightarrow> 'd web power_fns" where
  "fns_vmware_vcloud C = \<lparr>set_power_fn = Some (set_power_status_vcloud C),
     get_power_fn = Some (get_power_status_vcloud C), get_outlet_list = Some (get_list_vcloud C),
     reboot_cycle_fn = None, sync_set_power_fn = None\<rparr>"

definition new_opts_vmware_vcloud :: "(string \<times> optdef) list" where
  "new_opts_vmware_vcloud =
    [(''api_path'', \<lparr>o_getopt = '':'', o_longopt = Some ''api-path'',
        o_help = ''--api-path=[path]              The path part of the API URL'',
        o_required = Some ''0'', o_shortdesc = Some ''The path part of the API URL'',
        o_type = None, o_default = Some (PStr ''/api''), o_choices = None, o_order = 2\<rparr>)]"

definition device_opt_vmware_vcloud :: "string list" where
  "device_opt_vmware_vcloud = [''ipaddr'', ''api_path'', ''login'', ''passwd'', ''ssl'', ''notls'', ''web'', ''port'']"

definition docs_vmware_vcloud :: docs where
  "docs_vmware_vcloud = \<lparr>agent_name = None, shortdesc = ''Fence agent for VMware vCloud Director API'',
     longdesc = ''fence_vmware_vcloud is a Power Fencing agent which can be used with VMware vCloud Director API to fence virtual machines.'',
     vendorurl = Some ''https://www.vmware.com'', symlink = []\<rparr>"

definition main_vmware_vcloud where
  "main_vmware_vcloud C set_order time_start fuel =
     seqM (on_lib (add_opts new_opts_vmware_vcloud))
    (seqM (on_lib (set_default ''shell_timeout'' (PStr ''5'')))
    (seqM (on_lib (set_default ''power_wait'' (PStr ''1'')))
    (seqM (on_lib (read_options device_opt_vmware_vcloud False))
    (seqM (on_lib (show_docs set_order (Some docs_vmware_vcloud)))
    (seqM (run_delay time_start 0 0)
    (seqM (on_dev (connect_vcloud C))
          (with_exit_handler (on_dev (disconnect_vcloud C))
             (exit_with (on_dev (fence_action fuel (fns_vmware_vcloud C)))))))))))"

section \<open>Intel AMT\<close>

record endpoint =
  ws_host :: string
  ws_port :: int
  ws_password :: pyval

record 'd wsman =
  ws_get :: "endpoint \<Rightarrow> string \<Rightarrow> ('d, string option) ask"
  ws_invoke :: "endpoint \<Rightarrow> (string \<times> string) list \<Rightarrow> string \<Rightarrow> string \<Rightarrow> node \<Rightarrow> ('d, string option) ask"

definition cim :: "string \<Rightarrow> string" where
  "cim c = ''http://schemas.dmtf.org/wbem/wscim/1/cim-schema/2/'' @ c"

definition addressing :: string where
  "addressing = ''http://schemas.xmlsoap.org/ws/2004/08/addressing''"

definition wsman_ns :: string where
  "wsman_ns = ''http://schemas.dmtf.org/wbem/wsman/1/wsman.xsd''"

definition in_ns :: "string \<Rightarrow> string \<Rightarrow> string" where
  "in_ns ns name = ''{'' @ ns @ ''}'' @ name"

definition xml_find :: "string option \<Rightarrow> string \<Rightarrow> string \<Rightarrow> node option outcome" where
  "xml_find doc ns item = (case doc of
      None \<Rightarrow> Ret None
    | Some t \<Rightarrow> bindO (xml_fromstring t) (\<lambda>tree. Ret (find_below (in_ns ns item) tree)))"

definition found_text :: "node option \<Rightarrow> string option outcome" where
  \<comment> \<open>\<open>xml_find(\<dots>).text\<close>\<close>
  "found_text e = (case e of
      Some x \<Rightarrow> Ret (text_of x)
    | None \<Rightarrow> Raise (AttributeError ([CHR 0x27] @ ''NoneType'' @ [CHR 0x27] @ '' object has no attribute '' @ [CHR 0x27] @ ''text'' @ [CHR 0x27])))"

definition reference_to :: "string \<Rightarrow> node list \<Rightarrow> node list" where
  \<comment> \<open>an address, and the selectors of a resource\<close>
  "reference_to resource selectors =
     [Elem (in_ns addressing ''Address'') [] [Text (addressing @ ''/role/anonymous'')],
      Elem (in_ns addressing ''ReferenceParameters'') []
        [Elem (in_ns wsman_ns ''ResourceURI'') [] [Text resource],
         Elem (in_ns wsman_ns ''SelectorSet'') [] selectors]]"

definition selector :: "string \<Rightarrow> string \<Rightarrow> node" where
  "selector name v = Elem (in_ns wsman_ns ''Selector'') [(in_ns wsman_ns ''Name'', name)] [Text v]"

definition generate_power_action_input :: "string \<Rightarrow> node" where
  "generate_power_action_input action =
     (let ns = cim ''CIM_PowerManagementService'' in
      Elem (in_ns ns ''RequestPowerStateChange_INPUT'') []
        [Elem (in_ns ns ''PowerState'') [] [Text action],
         Elem (in_ns ns ''ManagedElement'') [] (reference_to (cim ''CIM_ComputerSystem'') [selector ''Name'' ''ManagedSystem''])])"

definition endpointM :: "('w, endpoint) prog" where
  "endpointM =
     bindM (showoptM ''--ip'') (\<lambda>ip.
     bindM (intoptM ''--ipport'') (\<lambda>port.
     bindM (optM ''--password'') (\<lambda>password.
       retM \<lparr>ws_host = ip, ws_port = port, ws_password = password\<rparr>)))"

definition no_power_state :: "('w, unit) prog" where
  "no_power_state =
     bindM (showoptM ''--ip'') (\<lambda>ip.
     bindM (showoptM ''--ipport'') (\<lambda>port.
     seqM (logM (''Failed to get power state for: '' @ ip @ '' port:'' @ port)) (fail EC_STATUS True)))"

definition get_power_status_amt_ws :: "'d wsman \<Rightarrow> ('d, string option) prog" where
  "get_power_status_amt_ws W =
     bindM endpointM (\<lambda>client.
     let ns = cim ''CIM_AssociatedPowerManagementService'' in
     bindM (queryM (ws_get W client ns)) (\<lambda>doc.
     bindM (liftM (xml_find doc ''http://www.w3.org/2003/05/soap-envelope'' ''Fault'')) (\<lambda>fault.
     seqM (if fault \<noteq> None then no_power_state else retM ())
    (bindM (tryM (liftM (bindO (xml_find doc ns ''PowerState'') found_text))
        (\<lambda>e. case e of AttributeError _ \<Rightarrow> Some (seqM no_power_state (raiseM e)) | _ \<Rightarrow> None)) (\<lambda>power_state.
     if power_state = Some ''2'' then retM (Some ''on'')
     else if power_state = Some ''8'' then retM (Some ''off'')
     else seqM (fail EC_STATUS True) (retM None))))))"

definition boot_device :: "string \<Rightarrow> string option" where
  "boot_device boot =
     (if boot = ''PXE'' then Some ''Intel(r) AMT: Force PXE Boot''
      else if boot \<in> {''HD'', ''HDSAFE''} then Some ''Intel(r) AMT: Force Hard-drive Boot''
      else if boot = ''CD'' then Some ''Intel(r) AMT: Force CD/DVD Boot''
      else if boot = ''DIAG'' then Some ''Intel(r) AMT: Force Diagnostic Boot'' else None)"

definition boot_order_input :: "string \<Rightarrow> string \<Rightarrow> node" where
  \<comment> \<open>safe mode is asked for with an option in small letters\<close>
  "boot_order_input boot dev_name =
     Elem (in_ns (cim ''CIM_BootConfigSetting'') ''ChangeBootOrder_INPUT'') []
       [Elem (in_ns (cim ''CIM_BootConfigSetting'') ''Source'') []
         (reference_to (cim ''CIM_BootSourceSetting'')
           (selector ''InstanceID'' dev_name # (if boot = ''hdsafe'' then [selector ''UseSafeMode'' ''True''] else [])))]"

definition invoke_amt_ws :: "'d wsman \<Rightarrow> endpoint \<Rightarrow> string \<times> string \<Rightarrow> string \<Rightarrow> string \<Rightarrow> node \<Rightarrow> string \<Rightarrow> ('d, unit) prog" where
  \<comment> \<open>with the selector, the class, the method, its input and the message for a return value that is not 0\<close>
  "invoke_amt_ws W client sel class meth doc message =
     bindM (queryM (ws_invoke W client [sel] (cim class) meth doc)) (\<lambda>client_doc.
     bindM (liftM (bindO (xml_find client_doc (cim class) ''ReturnValue'') found_text)) (\<lambda>return_value.
     if return_value \<noteq> Some ''0'' then seqM (logM message) (fail EC_STATUS True) else retM ()))"

definition set_boot_order :: "'d wsman \<Rightarrow> endpoint \<Rightarrow> ('d, unit) prog" where
  "set_boot_order W client =
     bindM (showoptM ''--boot-option'') (\<lambda>boot.
     bindM (showoptM ''--ip'') (\<lambda>ip.
     case boot_device boot of
       None \<Rightarrow> logM (''Boot device: '' @ boot @ '' not supported.'')
     | Some d \<Rightarrow> invoke_amt_ws W client (''InstanceID'', ''Intel(r) AMT: Boot Configuration 0'') ''CIM_BootConfigSetting'' ''ChangeBootOrder''
         (boot_order_input boot d) (''Failed to set boot device to: '' @ boot @ '' for: '' @ ip)))"

definition target_state :: "pyval \<Rightarrow> string outcome" where
  "target_state action =
     (if action = PStr ''on'' then Ret ''2'' else if action = PStr ''off'' then Ret ''8'' else if action = PStr ''reboot'' then Ret ''10''
      else Raise (ClassError ''UnboundLocalError'' ''target_state''))"

definition set_power_status_amt_ws :: "'d wsman \<Rightarrow> ('d, unit) prog" where
  "set_power_status_amt_ws W =
     bindM endpointM (\<lambda>client.
     bindM (optM ''--action'') (\<lambda>action.
     bindM (hasoptM ''--boot-option'') (\<lambda>boot.
     seqM (if action \<in> {PStr ''on'', PStr ''off'', PStr ''reboot''} \<and> boot then set_boot_order W client else retM ())
    (bindM (liftM (target_state action)) (\<lambda>target_state.
     bindM (showoptM ''--ip'') (\<lambda>ip.
       invoke_amt_ws W client (''Name'', ''Intel(r) AMT Power Management Service'') ''CIM_PowerManagementService'' ''RequestPowerStateChange''
         (generate_power_action_input target_state) (''Failed to set power state: '' @ py_str action @ '' for: '' @ ip)))))))"

definition reboot_cycle_amt_ws :: "'d wsman \<Rightarrow> ('d, bool) prog" where
  \<comment> \<open>what is negated is always None\<close>
  "reboot_cycle_amt_ws W = seqM (set_power_status_amt_ws W) (retM True)"

definition fns_amt_ws :: "'d wsman \<Rightarrow> 'd power_fns" where
  "fns_amt_ws W = \<lparr>set_power_fn = Some (set_power_status_amt_ws W), get_power_fn = Some (get_power_status_amt_ws W),
     get_outlet_list = None, reboot_cycle_fn = Some (reboot_cycle_amt_ws W), sync_set_power_fn = None\<rparr>"

definition new_opts_amt_ws :: "(string \<times> optdef) list" where
  "new_opts_amt_ws =
    [(''boot_option'', \<lparr>o_getopt = ''b:'', o_longopt = Some ''boot-option'',
        o_help = ''-b, --boot-option=[option]     Change the default boot behavior of the'' @ nl @ ''                                  machine. (pxe|hd|hdsafe|cd|diag)'',
        o_required = Some ''0'', o_shortdesc = Some ''Change the default boot behavior of the machine.'',
        o_type = None, o_default = None, o_choices = Some [''pxe'', ''hd'', ''hdsafe'', ''cd'', ''diag''], o_order = 1\<rparr>)]"

definition device_opt_amt_ws :: "string list" where
  "device_opt_amt_ws = [''ipaddr'', ''no_login'', ''passwd'', ''boot_option'', ''no_port'', ''method'']"

definition docs_amt_ws :: docs where
  "docs_amt_ws = \<lparr>agent_name = None, shortdesc = ''Fence agent for AMT (WS)'',
     longdesc = ''fence_amt_ws is a Power Fencing agent which can be used with Intel AMT (WS). This agent requires the pywsman Python library which is included in OpenWSMAN. (http://openwsman.github.io/).'',
     vendorurl = Some ''http://www.intel.com/'', symlink = []\<rparr>"

definition main_amt_ws where
  "main_amt_ws W set_order time_start fuel =
     seqM (on_lib (add_opts new_opts_amt_ws))
    (seqM (on_lib (set_default ''ipport'' (PStr ''16992'')))
    (seqM (on_lib (read_options device_opt_amt_ws False))
    (seqM (on_lib (show_docs set_order (Some docs_amt_ws)))
    (seqM (run_delay time_start 0 0)
          (exit_with (on_dev (fence_action fuel (fns_amt_ws W))))))))"

end
