(* ===== verification/Soap_Agents.thy ===== *)
theory Soap_Agents
  imports Client_Lib
begin

text \<open>
  Two agents over the SOAP client suds, which is a parameter: \<open>agents/vmware_soap/fence_vmware_soap.py\<close>
  and \<open>agents/ovh/fence_ovh.py\<close>. What the first one keeps from its login among the options is in the world.
  Temporary directories and signal handlers are left out.
\<close>

section \<open>VMware\<close>

record 'd soap =
  soap_net :: 'd
  service_content :: json
  session_manager :: json

definition soap_call :: "'d client \<Rightarrow> string \<Rightarrow> (string \<times> json) list \<Rightarrow> ('d soap, json) prog" where
  "soap_call C f args s = (case C f args (soap_net (world s)) of (a, t, d) \<Rightarrow>
     (answer_outcome a, s\<lparr>clock := clock s + t, world := (world s)\<lparr>soap_net := d\<rparr>\<rparr>))"

definition Property :: "string \<Rightarrow> json \<Rightarrow> json" where
  \<comment> \<open>a reference to a managed object, with its type\<close>
  "Property type v = JObj [(''value'', v), (''_type'', JStr type)]"

definition content_ref :: "string \<Rightarrow> string \<Rightarrow> ('d soap, json) prog" where
  \<comment> \<open>\<open>Property(options["ServiceContent"].k.value)\<close>\<close>
  "content_ref k type =
     bindM (getM (\<lambda>s. service_content (world s))) (\<lambda>content.
     bindM (attrM k content) (\<lambda>r. bindM (attrM ''value'' r) (\<lambda>v. retM (Property type v))))"

definition soap_url :: "('w, string \<times> bool) prog" where
  \<comment> \<open>and whether certificates are checked\<close>
  "soap_url =
     bindM (getM opts) (\<lambda>od.
     bindM (stroptM ''--ip'') (\<lambda>ip.
     bindM (showoptM ''--ipport'') (\<lambda>port.
     let ssl = (od ''--ssl-secure'' \<noteq> None \<or> od ''--ssl-insecure'' \<noteq> None) in
       retM ((if ssl then ''https://'' else ''http://'') @ ip @ '':'' @ port @ ''/sdk'', ssl \<and> od ''--ssl-insecure'' = None))))"

definition soap_session :: "'d client \<Rightarrow> string \<Rightarrow> bool \<Rightarrow> ('d soap, unit) prog" where
  "soap_session C url verify =
     bindM (intoptM ''--login-timeout'') (\<lambda>n.
     seqM (soap_call C ''Client'' [(''url'', JStr (url @ ''/vimService.wsdl'')), (''location'', JStr url), (''verify'', JBool verify),
         (''headers'', JObj [(''Content-Type'', JStr ''text/xml;charset=UTF-8''), (''SOAPAction'', JStr ''vim25'')]),
         (''timeout'', JInt (if n = 0 then 15 else n))])
    (bindM (soap_call C ''RetrieveServiceContent'' [(''_this'', Property ''ServiceInstance'' (JStr ''ServiceInstance''))]) (\<lambda>content.
     bindM (attrM ''sessionManager'' content) (\<lambda>m.
     bindM (attrM ''value'' m) (\<lambda>v.
     bindM (json_opt ''--username'') (\<lambda>user.
     bindM (json_opt ''--password'') (\<lambda>pass.
     seqM (soap_call C ''Login'' [(''_this'', Property ''SessionManager'' v), (''userName'', user), (''password'', pass)])
          (modM (\<lambda>s. s\<lparr>world := (world s)\<lparr>service_content := content, session_manager := Property ''SessionManager'' v\<rparr>\<rparr>)))))))))"

definition soap_login_vmware :: "'d client \<Rightarrow> rat \<Rightarrow> ('d soap, unit) prog" where
  "soap_login_vmware C time_start =
     seqM (run_delay time_start 0 0)
    (bindM soap_url (\<lambda>(url, verify).
       tryM (soap_session C url verify) (\<lambda>e. Some
         (if class_name e = ''SSLError'' then fail_usage (''Server side certificate verification failed: '' @ exn_text e) True
          else seqM (logM (''Server side certificate verification failed: '' @ exn_text e)) (fail EC_LOGIN_DENIED True)))))"

record machines =
  by_name :: "(json \<times> json \<times> json) list"
  by_uuid :: "(json \<times> json) list"
  by_object :: "(json \<times> json) list"

definition no_machines :: machines where
  "no_machines = \<lparr>by_name = [], by_uuid = [], by_object = []\<rparr>"

definition props_of :: "json \<Rightarrow> (string \<times> json) list outcome" where
  \<comment> \<open>the dictionary \<open>info\<close>\<close>
  "props_of m =
     bindO (json_attr ''propSet'' m) (\<lambda>ps.
     bindO (json_iter ps) (foldO (\<lambda>info i.
       bindO (json_attr ''val'' i) (\<lambda>v. bindO (json_attr ''name'' i) (\<lambda>n.
         Ret (AList.update (json_str n) v info)))) []))"

definition add_machine :: "machines \<Rightarrow> json \<Rightarrow> machines outcome" where
  \<comment> \<open>a machine without a UUID is passed over\<close>
  "add_machine M m =
     bindO (props_of m) (\<lambda>info.
     case map_of info ''config.uuid'' of
       None \<Rightarrow> Ret M
     | Some u \<Rightarrow>
         bindO (json_item ''summary.runtime.powerState'' (JObj info)) (\<lambda>state.
         bindO (json_item ''name'' (JObj info)) (\<lambda>name.
         bindO (json_attr ''obj'' m) (\<lambda>ref.
         bindO (json_attr ''value'' ref) (\<lambda>v.
           Ret \<lparr>by_name = AList.update name (u, state) (by_name M), by_uuid = AList.update u state (by_uuid M),
             by_object = AList.update v u (by_object M)\<rparr>)))))"

definition process_results :: "json \<Rightarrow> machines \<Rightarrow> machines outcome" where
  "process_results results M =
     bindO (json_attr ''objects'' results) (\<lambda>v. bindO (json_iter v) (foldO add_machine M))"

definition update_all :: "('k \<times> 'v) list \<Rightarrow> ('k \<times> 'v) list \<Rightarrow> ('k \<times> 'v) list" where
  \<comment> \<open>\<open>d.update(later)\<close>\<close>
  "update_all d later = fold (\<lambda>(k, v). AList.update k v) later d"

definition more_machines :: "machines \<Rightarrow> machines \<Rightarrow> machines" where
  "more_machines M N = \<lparr>by_name = update_all (by_name M) (by_name N), by_uuid = update_all (by_uuid M) (by_uuid N),
     by_object = update_all (by_object M) (by_object N)\<rparr>"

definition retrieve_soap :: "'d client \<Rightarrow> string \<Rightarrow> (string \<times> json) list \<Rightarrow> ('d soap, json) prog" where
  "retrieve_soap C f args = tryM (soap_call C f args)
     (\<lambda>e. Some (seqM (logM (''Failed: '' @ exn_text e)) (seqM (fail EC_STATUS True) (unbound ''raw_machines''))))"

fun continue_retrieve :: "nat \<Rightarrow> 'd client \<Rightarrow> json \<Rightarrow> json \<Rightarrow> machines \<Rightarrow> ('d soap, machines) prog" where
  \<comment> \<open>as long as the results have a token, or until the machine that is looked for has come\<close>
  "continue_retrieve 0 C collector raw M = runningM"
| "continue_retrieve (Suc fuel) C collector raw M =
     (case json_member ''token'' raw of
        None \<Rightarrow> retM M
      | Some token \<Rightarrow>
          bindM (retrieve_soap C ''ContinueRetrievePropertiesEx'' [(''_this'', collector), (''token'', token)]) (\<lambda>raw'.
          bindM (liftM (process_results raw' no_machines)) (\<lambda>N.
          bindM (optional_json ''--uuid'') (\<lambda>u.
          if u \<noteq> JNull \<and> u \<in> set (map fst (by_uuid (more_machines M N))) then retM (more_machines M N)
          else continue_retrieve fuel C collector raw' (more_machines M N)))))"

definition property_filter :: "json \<Rightarrow> json" where
  \<comment> \<open>the specification of what is asked of the machines in a view\<close>
  "property_filter view = JObj
     [(''propSet'', JList [JObj [(''all'', JBool False),
         (''pathSet'', JList [JStr ''name'', JStr ''summary.runtime.powerState'', JStr ''config.uuid'']), (''type'', JStr ''VirtualMachine'')]]),
      (''objectSet'', JList [JObj [(''obj'', view),
         (''selectSet'', JList [JObj [(''name'', JStr ''traverseEntities''), (''path'', JStr ''view''), (''skip'', JBool False), (''type'', JStr ''ContainerView'')]]),
         (''skip'', JBool True)]])]"

definition all_machines :: "nat \<Rightarrow> 'd client \<Rightarrow> ('d soap, machines) prog" where
  "all_machines fuel C =
     bindM (content_ref ''viewManager'' ''ViewManager'') (\<lambda>view_manager.
     bindM (content_ref ''rootFolder'' ''Folder'') (\<lambda>root.
     bindM (content_ref ''propertyCollector'' ''PropertyCollector'') (\<lambda>collector.
     bindM (soap_call C ''CreateContainerView'' [(''_this'', view_manager), (''recursive'', JInt 1), (''container'', root),
         (''type'', JList [JStr ''VirtualMachine''])]) (\<lambda>container.
     bindM (attrM ''value'' container) (\<lambda>v.
     bindM (retrieve_soap C ''RetrievePropertiesEx'' [(''_this'', collector), (''specSet'', property_filter (Property ''ContainerView'' v))]) (\<lambda>raw.
     bindM (liftM (process_results raw no_machines)) (\<lambda>M.
       continue_retrieve fuel C collector raw M)))))))"

definition stop_status :: "('w, 'a) prog" where
  "stop_status = seqM (fail EC_STATUS True) (unbound [])"

definition resolve_uuid :: "'d client \<Rightarrow> machines \<Rightarrow> ('d soap, unit) prog" where
  \<comment> \<open>unless there is an option already, the UUID of the plug becomes one\<close>
  "resolve_uuid C M =
     bindM (hasoptM ''--uuid'') (\<lambda>known.
     if known then retM ()
     else
       bindM (stroptM ''--plug'') (\<lambda>plug.
       if py_startswith ''/'' plug then
         bindM (content_ref ''searchIndex'' ''SearchIndex'') (\<lambda>index.
         bindM (soap_call C ''FindByInventoryPath'' [(''_this'', index), (''inventoryPath'', JStr plug)]) (\<lambda>vm.
         case json_attr ''value'' vm of
           Ret v \<Rightarrow> (case map_of (by_object M) v of Some u \<Rightarrow> setoptM ''--uuid'' (option_value u) | None \<Rightarrow> stop_status)
         | _ \<Rightarrow> stop_status))
       else (case map_of (by_name M) (JStr plug) of
           Some (u, _) \<Rightarrow> setoptM ''--uuid'' (option_value u)
         | None \<Rightarrow> stop_status)))"

definition power_status_soap :: "nat \<Rightarrow> 'd client \<Rightarrow> ('d soap, machines + string) prog" where
  \<comment> \<open>\<open>get_power_status\<close>: the machines, or the status of one\<close>
  "power_status_soap fuel C =
     bindM (all_machines fuel C) (\<lambda>M.
     bindM is_listing (\<lambda>listing.
     if listing then retM (Inl M)
     else
       seqM (resolve_uuid C M)
      (bindM (json_opt ''--uuid'') (\<lambda>u. case map_of (by_uuid M) u of
           Some state \<Rightarrow> retM (Inr (if state = JStr ''poweredOn'' then ''on'' else ''off''))
         | None \<Rightarrow> stop_status))))"

definition get_power_status_soap :: "nat \<Rightarrow> 'd client \<Rightarrow> ('d soap, string option) prog" where
  "get_power_status_soap fuel C = bindM (power_status_soap fuel C) (\<lambda>r. retM (Some (case r of Inl _ \<Rightarrow> no_status | Inr t \<Rightarrow> t)))"

definition get_list_soap :: "nat \<Rightarrow> 'd client \<Rightarrow> ('d soap, outlet list) prog" where
  "get_list_soap fuel C = bindM (power_status_soap fuel C) (\<lambda>r. case r of
      Inl M \<Rightarrow> liftM (foldO (\<lambda>outlets (name, u, state).
        bindO (outlet_key name) (\<lambda>k. bindO (outlet_status state) (\<lambda>st. Ret (AList.update k (json_str u, st) outlets)))) [] (by_name M))
    | Inr _ \<Rightarrow> raiseM (AttributeError ''keys''))"

definition set_power_status_soap :: "'d client \<Rightarrow> ('d soap, unit) prog" where
  "set_power_status_soap C =
     bindM (content_ref ''searchIndex'' ''SearchIndex'') (\<lambda>index.
     bindM (json_opt ''--uuid'') (\<lambda>u.
     bindM (soap_call C ''FindByUuid'' [(''_this'', index), (''vmSearch'', JInt 1), (''uuid'', u)]) (\<lambda>vm.
     bindM (attrM ''value'' vm) (\<lambda>v.
     bindM (optM ''--action'') (\<lambda>action.
       tryM (seqM (soap_call C (if action = PStr ''on'' then ''PowerOnVM_Task'' else ''PowerOffVM_Task'') [(''_this'', Property ''VirtualMachine'' v)]) (retM ()))
         (\<lambda>e. if class_name e \<noteq> ''WebFault'' then None
            else Some (fail (if py_in ''Permission to perform this operation was denied'' (exn_text e) then EC_INVALID_PRIVILEGES
              else if action = PStr ''on'' then EC_WAITING_ON else EC_WAITING_OFF) True)))))))"

definition logout_soap :: "'d client \<Rightarrow> ('d soap, unit) prog" where
  "logout_soap C = tryM (bindM (getM (\<lambda>s. session_manager (world s))) (\<lambda>m. seqM (soap_call C ''Logout'' [(''_this'', m)]) (retM ())))
     (\<lambda>_. Some (retM ()))"

definition fns_vmware_soap :: "nat \<Rightarrow> 'd client \<Rightarrow> 'd soap power_fns" where
  "fns_vmware_soap pages C = \<lparr>set_power_fn = Some (set_power_status_soap C), get_power_fn = Some (get_power_status_soap pages C),
     get_outlet_list = Some (get_list_soap pages C), reboot_cycle_fn = None, sync_set_power_fn = None\<rparr>"

definition device_opt_vmware_soap :: "string list" where
  "device_opt_vmware_soap = [''ipaddr'', ''login'', ''passwd'', ''web'', ''ssl'', ''notls'', ''port'']"

definition docs_vmware_soap :: docs where
  "docs_vmware_soap = \<lparr>agent_name = None, shortdesc = ''Fence agent for VMWare over SOAP API'',
     longdesc = ''fence_vmware_soap is a Power Fencing agent which can be used with the virtual machines managed by VMWare products that have SOAP API v4.1+. '' @ nl @ ''.P'' @ nl @ ''Name of virtual machine (-n / port) has to be used in inventory path format (e.g. /datacenter/vm/Discovered virtual machine/myMachine). In the cases when name of yours VM is unique you can use it instead. Alternatively you can always use UUID to access virtual machine.'',
     vendorurl = Some ''http://www.vmware.com'', symlink = []\<rparr>"

definition main_vmware_soap where
  \<comment> \<open>before there is a connection, logging out does nothing\<close>
  "main_vmware_soap C pages set_order time_start fuel =
     seqM (on_lib (read_options device_opt_vmware_soap False))
    (seqM (on_lib (show_docs set_order (Some docs_vmware_soap)))
    (seqM (on_dev (soap_login_vmware C time_start))
          (with_exit_handler (on_dev (logout_soap C))
             (exit_with (on_dev (fence_action fuel (fns_vmware_soap pages C)))))))"

section \<open>Dates\<close>

definition leap_year :: "int \<Rightarrow> bool" where
  "leap_year y \<longleftrightarrow> y mod 4 = 0 \<and> (y mod 100 \<noteq> 0 \<or> y mod 400 = 0)"

definition month_days :: "int \<Rightarrow> int list" where
  "month_days y = [31, if leap_year y then 29 else 28, 31, 30, 31, 30, 31, 31, 30, 31, 30, 31]"

definition seconds_of :: "int \<Rightarrow> int \<Rightarrow> int \<Rightarrow> int \<Rightarrow> int \<Rightarrow> int \<Rightarrow> int" where
  \<comment> \<open>since the first of January of the year 1\<close>
  "seconds_of y m d hh mm ss =
     (let p = y - 1;
          days = 365 * p + p div 4 - p div 100 + p div 400 + sum_list (take (nat (m - 1)) (month_days y)) + d - 1
      in ((days * 24 + hh) * 60 + mm) * 60 + ss)"

definition strptime :: "string \<Rightarrow> int outcome" where
  \<comment> \<open>for the format \<open>%Y-%m-%d %H:%M:%S\<close>\<close>
  "strptime t =
     (let bad = Raise (ValueError (''time data '' @ py_repr t @ '' does not match format''));
          num = digits_val 10 0 False in
      (case py_split '' '' t of
         [date, time] \<Rightarrow>
           (case (map num (py_split ''-'' date), map num (py_split '':'' time)) of
              ([Some y, Some m, Some d], [Some hh, Some mm, Some ss]) \<Rightarrow>
                if 1 \<le> y \<and> y \<le> 9999 \<and> 1 \<le> m \<and> m \<le> 12 \<and> 1 \<le> d \<and> d \<le> month_days y ! nat (m - 1) \<and> hh < 24 \<and> mm < 60 \<and> ss < 60
                then Ret (seconds_of y m d hh mm ss) else bad
            | _ \<Rightarrow> bad)
       | _ \<Rightarrow> bad))"

section \<open>OVH\<close>

definition netboot_reboot :: "'d client \<Rightarrow> string \<Rightarrow> ('d, unit) prog" where
  \<comment> \<open>the last call is one of the client itself\<close>
  "netboot_reboot C mode =
     bindM (json_opt ''session'') (\<lambda>session.
     bindM (json_opt ''--plug'') (\<lambda>plug.
     bindM (json_opt ''--email'') (\<lambda>email.
     seqM (clientM C ''service.dedicatedNetbootModifyById'' [(''session'', session), (''hostname'', plug), (''netbootId'', JStr mode),
        (''options'', JStr []), (''email'', email)])
    (seqM (clientM C ''service.dedicatedHardRebootDo'' [(''session'', session), (''hostname'', plug), (''comment'', JStr ''Fencing initiated by cluster''),
        (''mail'', JStr []), (''language'', JStr ''en'')])
    (seqM (clientM C ''logout'' [(''session'', session)]) (retM ()))))))"

definition reboot_time :: "'d client \<Rightarrow> ('d, int \<times> int) prog" where
  "reboot_time C =
     bindM (json_opt ''session'') (\<lambda>session.
     bindM (json_opt ''--plug'') (\<lambda>plug.
     bindM (clientM C ''service.dedicatedHardRebootStatus'' [(''session'', session), (''hostname'', plug)]) (\<lambda>result.
     bindM (attrM ''start'' result) (\<lambda>a.
     bindM (liftM (bindO (json_text a) strptime)) (\<lambda>tmpstart.
     bindM (attrM ''end'' result) (\<lambda>b.
     bindM (liftM (bindO (json_text b) strptime)) (\<lambda>tmpend. retM (tmpstart, tmpend))))))))"

definition soap_login_ovh :: "'d client \<Rightarrow> ('d, unit) prog" where
  "soap_login_ovh C =
     bindM (tryM
       (seqM (clientM C ''Client'' [(''url'', JStr ''https://www.ovh.com/soapi/soapi-re-1.59.wsdl'')])
       (bindM (json_opt ''--username'') (\<lambda>user.
        bindM (json_opt ''--password'') (\<lambda>pass.
          clientM C ''service.login'' [(''nic'', user), (''password'', pass), (''language'', JStr ''en''), (''multisession'', JInt 0)]))))
       (\<lambda>e. Some (seqM (logM (''Failed: '' @ exn_text e)) (seqM (fail EC_LOGIN_DENIED True) (unbound ''session''))))) (\<lambda>session.
     setoptM ''session'' (option_value session))"

definition logout_ovh :: "'d client \<Rightarrow> ('d, unit) prog" where
  "logout_ovh C = tryM (bindM (json_opt ''session'') (\<lambda>session. seqM (clientM C ''service.logout'' [(''session'', session)]) (retM ())))
     (\<lambda>_. Some (retM ()))"

definition new_opts_ovh :: "(string \<times> optdef) list" where
  "new_opts_ovh =
    [(''email'', \<lparr>o_getopt = ''Z:'', o_longopt = Some ''email'',
        o_help = ''-Z, --email=[email]          email for reboot message: admin@domain.com'',
        o_required = Some ''1'', o_shortdesc = Some ''Reboot email'',
        o_type = None, o_default = None, o_choices = None, o_order = 1\<rparr>)]"

definition device_opt_ovh :: "string list" where
  "device_opt_ovh = [''login'', ''passwd'', ''port'', ''email'', ''no_status'', ''web'']"

definition docs_ovh :: docs where
  "docs_ovh = \<lparr>agent_name = None, shortdesc = ''Fence agent for OVH'',
     longdesc = ''fence_ovh is a Power Fencing agent which can be used within OVH datecentre. Poweroff is simulated with a reboot into rescue-pro mode.'',
     vendorurl = Some ''http://www.ovh.net'', symlink = []\<rparr>"

definition check_ovh :: "('w, unit) prog" where
  "check_ovh =
     bindM (optM ''--action'') (\<lambda>action.
     seqM (if action = PStr ''list'' then fail_usage (''Action '' @ [CHR 0x27] @ ''list'' @ [CHR 0x27] @ '' is not supported in this fence agent'') True else retM ())
    (seqM (if action = PStr ''list-status'' then fail_usage (''Action '' @ [CHR 0x27] @ ''list-status'' @ [CHR 0x27] @ '' is not supported in this fence agent'') True else retM ())
    (bindM (hasoptM ''--email'') (\<lambda>email.
     seqM (if email then retM () else fail_usage ''You have to enter e-mail address which is notified by fence agent'' True)
    (seqM (if action = PStr ''validate-all'' then exitM 0 else retM ())
          (if action = PStr ''monitor'' then retM ()
           else bindM (stroptM ''--plug'') (\<lambda>plug.
             if py_endswith ''.ovh.net'' plug then retM () else setoptM ''--plug'' (PStr (plug @ ''.ovh.net'')))))))))"

definition switch_ovh :: "(rat \<Rightarrow> rat) \<Rightarrow> 'd client \<Rightarrow> ('d, int) prog" where
  \<comment> \<open>with the local time in seconds since the year 1, which depends on the clock\<close>
  "switch_ovh now C =
     bindM (optM ''--action'') (\<lambda>action.
     seqM (if action = PStr ''off'' then seqM (netboot_reboot C ''28'') (sleepM 150)
           else if action \<in> {PStr ''on'', PStr ''reboot''} then seqM (netboot_reboot C ''1'') (sleepM 240)
           else retM ())
    (bindM (getM clock) (\<lambda>after_reboot.
     bindM (reboot_time C) (\<lambda>(started, ended).
     seqM (logout_ovh C)
          (retM (if of_int started < now after_reboot \<and> now after_reboot < of_int ended then 0 else 1))))))"

definition main_ovh where
  "main_ovh now C set_order time_start =
     seqM (on_lib (add_opts new_opts_ovh))
    (seqM (on_lib (read_options device_opt_ovh True))
    (seqM (on_lib (show_docs set_order (Some docs_ovh)))
    (seqM check_ovh
    (seqM (run_delay time_start 0 0)
    (seqM (on_dev (soap_login_ovh C))
    (bindM (optM ''--action'') (\<lambda>action.
       if action = PStr ''monitor'' then seqM (on_dev (logout_ovh C)) (exitM 0)
       else exit_with (on_dev (switch_ovh now C)))))))))"

end
