(* ===== verification/Fence_Dummy_Main.thy ===== *)
theory Fence_Dummy_Main
  imports Agent_Main Fence_Dummy
begin

text \<open>
  \<open>agents/dummy/fence_dummy.py\<close>: the main function of the dummy agent. The number that
  \<open>random.randint\<close> draws is a parameter.
\<close>

definition new_opts_dummy :: "(string \<times> optdef) list" where
  "new_opts_dummy =
    [(''status_file'', \<lparr>o_getopt = '':'', o_longopt = Some ''status-file'',
        o_help = ''--status-file=[file]           Name of file that holds current status'',
        o_required = Some ''0'', o_shortdesc = Some ''File with status'',
        o_type = None, o_default = Some (PStr ''/tmp/fence_dummy.status''), o_choices = None, o_order = 1\<rparr>),
     (''random_sleep_range'', \<lparr>o_getopt = '':'', o_longopt = Some ''random_sleep_range'',
        o_help = ''--random_sleep_range=[seconds] Issue a sleep between 1 and [seconds]'',
        o_required = Some ''0'', o_shortdesc = Some ''Issue a sleep between 1 and X seconds. Used for testing.'',
        o_type = None, o_default = None, o_choices = None, o_order = 1\<rparr>),
     (''type'', \<lparr>o_getopt = '':'', o_longopt = Some ''type'',
        o_help = ''--type=[type]                  Possible types are: file, fail, and recorder'',
        o_required = Some ''0'', o_shortdesc = Some ''Type of the dummy fence agent'',
        o_type = None, o_default = Some (PStr ''file''), o_choices = None, o_order = 1\<rparr>),
     (''request_path'', \<lparr>o_getopt = '':'', o_longopt = Some ''request-path'',
        o_help = ''--request-path=[path]          Directory for fence request files (recorder mode)'',
        o_required = Some ''0'', o_shortdesc = Some ''Request directory path for recorder mode'',
        o_type = None, o_default = Some (PStr ''@FENCETMPDIR@/fence_dummy/requests''), o_choices = None, o_order = 1\<rparr>),
     (''response_path'', \<lparr>o_getopt = '':'', o_longopt = Some ''response-path'',
        o_help = ''--response-path=[path]         Directory for fence response files (recorder mode)'',
        o_required = Some ''0'', o_shortdesc = Some ''Response directory path for recorder mode'',
        o_type = None, o_default = Some (PStr ''@FENCETMPDIR@/fence_dummy/responses''), o_choices = None, o_order = 1\<rparr>),
     (''recorder_timeout'', \<lparr>o_getopt = '':'', o_longopt = Some ''recorder-timeout'',
        o_help = ''--recorder-timeout=[seconds]   Timeout for external response (recorder mode)'',
        o_required = Some ''0'', o_shortdesc = Some ''Response timeout for recorder mode'',
        o_type = None, o_default = Some (PStr ''60''), o_choices = None, o_order = 1\<rparr>),
     (''recorder_poll_interval'', \<lparr>o_getopt = '':'', o_longopt = Some ''recorder-poll-interval'',
        o_help = ''--recorder-poll-interval=[sec] Poll interval for response check (recorder mode)'',
        o_required = Some ''0'', o_shortdesc = Some ''Poll interval for recorder mode'',
        o_type = None, o_default = Some (PStr ''0.5''), o_choices = None, o_order = 1\<rparr>),
     (''log_path'', \<lparr>o_getopt = '':'', o_longopt = Some ''log-path'',
        o_help = ''--log-path=[path]              Directory for fence event logs (recorder mode)'',
        o_required = Some ''0'', o_shortdesc = Some ''Log directory path for fence events'',
        o_type = None, o_default = Some (PStr ''@LOGDIR@''), o_choices = None, o_order = 1\<rparr>)]"

definition device_opt_dummy :: "string list" where
  "device_opt_dummy = [''no_password'', ''status_file'', ''random_sleep_range'', ''type'', ''port'', ''no_port'', ''request_path'', ''response_path'', ''recorder_timeout'', ''recorder_poll_interval'', ''log_path'']"

definition docs_dummy :: docs where
  "docs_dummy = \<lparr>agent_name = None, shortdesc = ''Dummy fence agent'',
     longdesc = ''fence_dummy is a fake fence agent for testing. It supports three modes: '' @ [CHR 0x27] @ ''file'' @ [CHR 0x27] @ '' (status in file), '' @ [CHR 0x27] @ ''fail'' @ [CHR 0x27] @ '' (simulated failures), and '' @ [CHR 0x27] @ ''recorder'' @ [CHR 0x27] @ '' (request/response coordination with external systems).'',
     vendorurl = Some ''http://www.example.com'', symlink = []\<rparr>"

definition setup_recorder_logging :: "unit dummy_prog" where
  \<comment> \<open>the directory and the file of the log; what is logged there is below the level error\<close>
  "setup_recorder_logging =
     bindM (stroptM ''--log-path'') (\<lambda>log_path.
     seqM (makedirs log_path)
    (bindM (getM (\<lambda>s. writable (world s) (path_join log_path ''fence-events.log''))) (\<lambda>ok.
       if ok then retM () else raiseM (OSErr (path_join log_path ''fence-events.log'')))))"

definition random_sleep :: "(int \<Rightarrow> int) \<Rightarrow> ('w, unit) prog" where
  \<comment> \<open>\<open>draw val\<close> is what \<open>random.randint(1, val)\<close> gives\<close>
  "random_sleep draw = bindM (hasoptM ''--random_sleep_range'') (\<lambda>given.
     if \<not> given then retM () else
       bindM (intoptM ''--random_sleep_range'') (\<lambda>val.
         if val < 1 then raiseM (ValueError ''empty range for randrange()'') else sleepM (of_int (draw val))))"

definition dummy_fns :: "pyval \<Rightarrow> nat \<Rightarrow> dummy_world power_fns" where
  "dummy_fns type fuel =
     (if type = PStr ''fail'' then dummy_fail_fns
      else if type = PStr ''recorder'' then dummy_recorder_fns fuel
      else dummy_file_fns)"

definition main_dummy where
  "main_dummy draw set_order time_start fuel =
     seqM (on_lib (settabM ''port'' (\<lambda>d. d\<lparr>o_required := Some ''0''\<rparr>)))
    (seqM (on_lib (add_opts new_opts_dummy))
    (seqM (on_lib (read_options device_opt_dummy False))
    (seqM (on_lib (show_docs set_order (Some docs_dummy)))
    (bindM (getM (\<lambda>s. opts s ''--type'')) (\<lambda>mode.
     seqM (if mode = Some (PStr ''recorder'') then on_dev setup_recorder_logging else retM ())
    (seqM (run_delay time_start 0 0)
    (seqM (random_sleep draw)
    (bindM (optM ''--type'') (\<lambda>type.
       exit_with (on_dev (fence_action fuel (dummy_fns type fuel))))))))))))"

end
