(* ===== verification/Fence_Rcd_Serial.thy ===== *)
theory Fence_Rcd_Serial
  imports Agent_Main
begin

text \<open>
  \<open>agents/rcd_serial/fence_rcd_serial.py\<close>: a cable at a serial port whose control line is wired to
  the reset switch of the other node. The port is a parameter: what opening it, raising and
  lowering its control lines and closing it do to its state, and what they raise.
\<close>

section \<open>The port\<close>

datatype pin = TIOCM_RTS | TIOCM_DTR

record 'd serial =
  os_open :: "string \<Rightarrow> 'd \<Rightarrow> unit outcome \<times> 'd"
  set_pins :: "pin list \<Rightarrow> rat \<Rightarrow> 'd \<Rightarrow> unit outcome \<times> 'd"       \<comment> \<open>\<open>TIOCMBIS\<close>, at a given time\<close>
  clear_pins :: "pin list \<Rightarrow> rat \<Rightarrow> 'd \<Rightarrow> unit outcome \<times> 'd"     \<comment> \<open>\<open>TIOCMBIC\<close>\<close>
  os_close :: "'d \<Rightarrow> unit outcome \<times> 'd"

definition portM :: "(rat \<Rightarrow> 'd \<Rightarrow> unit outcome \<times> 'd) \<Rightarrow> ('d, unit) prog" where
  "portM f s = (case f (clock s) (world s) of (r, d) \<Rightarrow> (r, s\<lparr>world := d\<rparr>))"

section \<open>The class \<open>RCDSerial\<close>\<close>

definition open_RCDSerial :: "'d serial \<Rightarrow> string \<Rightarrow> ('d, unit) prog" where
  \<comment> \<open>\<open>__init__\<close>\<close>
  "open_RCDSerial P port = seqM (portM (\<lambda>_. os_open P port)) (portM (clear_pins P [TIOCM_RTS, TIOCM_DTR]))"

definition close_RCDSerial :: "'d serial \<Rightarrow> ('d, unit) prog" where
  "close_RCDSerial P = portM (\<lambda>_. os_close P)"

definition toggle_pin :: "'d serial \<Rightarrow> pin \<Rightarrow> pyval \<Rightarrow> ('d, unit) prog" where
  \<comment> \<open>\<open>time\<close> is in milliseconds\<close>
  "toggle_pin P pin time =
     seqM (portM (set_pins P [pin]))
    (bindM (liftM (py_float_val time)) (\<lambda>ms.
     seqM (sleepM (ms / 1000)) (portM (clear_pins P [pin]))))"

section \<open>The agent\<close>

definition reboot_device :: "'d serial \<Rightarrow> ('d, bool) prog" where
  "reboot_device P = bindM (optM ''--power-wait'') (\<lambda>time. seqM (toggle_pin P TIOCM_DTR time) (retM True))"

definition fns_rcd_serial :: "'d serial \<Rightarrow> 'd power_fns" where
  "fns_rcd_serial P = \<lparr>set_power_fn = None, get_power_fn = None, get_outlet_list = None,
     reboot_cycle_fn = Some (reboot_device P), sync_set_power_fn = None\<rparr>"

definition new_opts_rcd_serial :: "(string \<times> optdef) list" where
  "new_opts_rcd_serial =
    [(''serial_port'', \<lparr>o_getopt = '':'', o_longopt = Some ''serial-port'',
        o_help = ''--serial-port=[port]           Port of the serial device (e.g. /dev/ttyS0)'',
        o_required = Some ''1'', o_shortdesc = Some ''Port of the serial device'',
        o_type = None, o_default = Some (PStr ''/dev/ttyS0''), o_choices = None, o_order = 1\<rparr>)]"

definition device_opt_rcd_serial :: "string list" where
  "device_opt_rcd_serial = [''serial_port'', ''no_status'', ''no_password'', ''no_login'', ''method'', ''no_on'', ''no_off'']"

definition docs_rcd_serial :: docs where
  "docs_rcd_serial = \<lparr>agent_name = None, shortdesc = ''rcd_serial fence agent'',
     longdesc = ''fence_rcd_serial is a Power Fencing agent that operates a serial cable that toggles a reset of an opposing server using the reset switch on its motherboard. The cable itself is simple with no power, network or moving parts. An example of the cable is available here: https://smcleod.net/rcd-stonith/ and the circuit design is available in the fence-agents src as SVG'',
     vendorurl = Some ''https://github.com/sammcj/fence_rcd_serial'', symlink = []\<rparr>"

definition wait_delay :: "('w, unit) prog" where
  "wait_delay = bindM (optM ''--action'') (\<lambda>action.
     if action \<in> {PStr ''off'', PStr ''reboot''} then sleep_opt ''--delay'' else retM ())"

definition run_rcd_serial :: "'d serial \<Rightarrow> nat \<Rightarrow> ('d, unit) prog" where
  "run_rcd_serial P fuel =
     bindM (stroptM ''--serial-port'') (\<lambda>port.
     seqM (open_RCDSerial P port)
    (bindM (fence_action fuel (fns_rcd_serial P)) (\<lambda>result.
     seqM (close_RCDSerial P) (exitM result))))"

definition main_rcd_serial where
  "main_rcd_serial P set_order fuel =
     seqM (on_lib (add_opts new_opts_rcd_serial))
    (seqM (on_lib (set_default ''method'' (PStr ''cycle'')))
    (seqM (on_lib (set_default ''power_wait'' (PStr ''2'')))
    (seqM (on_lib (set_help ''method'' ''-m, --method=[method]          Method to fence (onoff|cycle) (Default: cycle)''))
    (seqM (on_lib (read_options device_opt_rcd_serial False))
    (seqM (on_lib (show_docs set_order (Some docs_rcd_serial)))
    (seqM wait_delay
          (on_dev (run_rcd_serial P fuel))))))))"

section \<open>The pulse\<close>

text \<open>
  On a port that works, a reboot raises the control line and lowers it again after as many
  thousandths of a second as \<open>--power-wait\<close> says: the option of the library in seconds is read
  as milliseconds.
\<close>

definition recorder :: "(bool \<times> pin list \<times> rat) list serial" where
  \<comment> \<open>a port that works and records its lines with the time\<close>
  "recorder = \<lparr>os_open = (\<lambda>_ d. (Ret (), d)), set_pins = (\<lambda>ps t d. (Ret (), d @ [(True, ps, t)])),
     clear_pins = (\<lambda>ps t d. (Ret (), d @ [(False, ps, t)])), os_close = (\<lambda>d. (Ret (), d))\<rparr>"

lemma reboot_pulse:
  assumes "opts s ''--power-wait'' = Some v" and "py_float_val v = Ret w" and "0 \<le> w"
  shows "reboot_device recorder s = (Ret True, s\<lparr>clock := clock s + w / 1000,
     world := world s @ [(True, [TIOCM_DTR], clock s), (False, [TIOCM_DTR], clock s + w / 1000)]\<rparr>)"
  using assms
  by (simp add: reboot_device_def toggle_pin_def bindM_def optM_def run_prims portM_def recorder_def sleepM_def)

end
