(* ===== verification/Spec2Isabelle.thy ===== *)
theory Spec2Isabelle
  imports Fence_Guarantees Option_Guarantees Snmp_Guarantees Ping_Guarantees Scsi_Guarantees Ipmi_Guarantees Mpath_Guarantees
    Session_Guarantees Tool_Guarantees Client_Guarantees Nova_Guarantees Fence_Ibm_Vpc Fence_Zvm Fence_Lindypdu Fence_Eps Xml_Agents
    Vcloud_Amt_Agents Soap_Agents Fence_Dummy_Main Fence_Rcd_Serial
begin

text \<open>
  A verification of the fence agents of ClusterLabs: programs that cut a cluster node off from
  power or storage. An agent is a Python module under \<open>agents/\<close> with callbacks that read and switch
  one kind of device; \<open>lib/fencing.py.py\<close> does everything that is common to them.

  \<^bold>\<open>How a run goes, and where it is modelled.\<close> The \<open>main\<close> function of an agent extends the table of
  options (\<open>All_Opt\<close>, \<open>Agent_Main\<close>), reads the options from the command line or standard input
  (\<open>Parse_Input\<close>), checks and completes them (\<open>Check_Input\<close>, with \<open>Join_Wrap\<close> for the messages),
  prints the help text or the XML description if that was asked for (\<open>Show_Docs\<close>), and calls
  \<open>fence_action\<close> with its callbacks (\<open>Fence_Action\<close>). That reads the status of the plugs, decides
  whether something has to be done, and drives the loops that switch all plugs and poll their
  status (\<open>Multi_Power\<close>). Agents that run programs use \<open>run_command\<close> (\<open>Run_Command\<close>) or race several
  processes with \<open>run_commands\<close> (\<open>Run_Commands\<close>), those for SNMP devices the class \<open>FencingSnmp\<close> of
  \<open>lib/fencing_snmp.py.py\<close> (\<open>Fencing_Snmp\<close>). Agents that hold a conversation with their device log in
  with \<open>fence_login\<close> over ssh, telnet or SSL (\<open>Fence_Login\<close>), talk through the class \<open>fspawn\<close>
  (\<open>Fspawn\<close>) and end with \<open>fence_logout\<close>. Agents of services on the network send requests over HTTP
  (\<open>Web_Client\<close>), read their answers as JSON (\<open>Json\<close>) or XML (\<open>Xml\<close>), or call a client library
  (\<open>Client_Lib\<close>).

  \<^bold>\<open>State and effects.\<close> A program of the model maps the state of the process to an outcome and the
  next state (\<open>Prelude\<close>). The state holds the options dictionary, what was printed, the error
  log, a clock and the world: the table of options and the environment for the library
  (\<open>lib_world\<close>), the files, the device and the module's global variables for an agent. An outcome is
  a value, an exception, the end of the process with an exit code, or \<open>Running\<close>. Python's strings,
  numbers, dictionaries and regular expressions are modelled as far as the sources use them
  (\<open>Py_String\<close>, \<open>Py_Regex\<close>, \<open>Md5\<close>). Strings are ASCII text.

  \<^bold>\<open>What is a parameter.\<close> Programs that the agents run (\<open>sg_persist\<close>, \<open>ipmitool\<close>, the net-snmp
  tools, \<open>ping\<close>) are arguments of the definitions: a function from the words of the command (or
  the command line for \<open>pexpect.run\<close>) and the state of the device to the process and the next
  state. What the theorems rely on about them are named predicates (\<open>snmp_truthful\<close>,
  \<open>pr_truthful\<close>, \<open>ipmi_truthful\<close>): that reading prints what is there and changes nothing. Each of
  them is shown to hold for a simulated device in the witnesses. For a conversation the parameter
  is \<open>'d pexpect\<close>: what starting a program, sending, waiting for patterns, reading and closing do
  to the state of the peer and what they answer or raise; waiting without a limit may never end.
  The order in which Python walks over a set is a parameter as well (\<open>set_order\<close>, \<open>order\<close>).
  A service on the network is a parameter of the same kind: a function from a request and the state of
  the service to an answer (a reply, an exception, or none ever), the time it takes, and the next state
  (\<open>ask\<close>). The requests are those of pycurl (\<open>'d curl\<close>, with the options that are set on the handle), of
  the packages requests and http.client (\<open>'d requests\<close>, \<open>'d http_get\<close>), of a socket (\<open>'d sockets\<close>), of
  WS-Management (\<open>'d wsman\<close>) and XML-RPC (\<open>'d xmlrpc\<close>), and the calls of a client library by name with their
  arguments (\<open>'d client\<close>: boto3, the clients of OpenStack and Kubernetes, suds; \<open>'d aliyun\<close>). What the
  library gives back is JSON, with objects for its records. No property assumes that a service
  tells the truth; where one has to answer in time, this is the predicate \<open>answering\<close>.

  \<^bold>\<open>Contracts.\<close> \<open>Power_Contract\<close> states what \<open>fence_action\<close> needs of callbacks as locales: a callback
  leaves the options of the library alone (\<open>callback\<close>, \<open>status_callback\<close>, \<open>setter_callback\<close>,
  \<open>sync_callback\<close>), a reader tells the truth about its plugs (\<open>status_reader\<close>), a device is a
  reader with a setter (\<open>power_device\<close>), its callbacks end (\<open>ending_device\<close>). The theorems on
  \<open>fence_action\<close> are proved in these locales (\<open>Fence_Action_Props\<close>) and hold for the callbacks of the
  agents by the interpretations in \<open>Fence_Dummy\<close>, \<open>Snmp_Props\<close>, \<open>Scsi_Props\<close>, \<open>Ipmi_Guarantees\<close> and
  \<open>Fence_Heuristics_Ping\<close>. The locale \<open>run_relation\<close> of \<open>Fspawn\<close> is the interface for what holds of a
  program however it ends; it is interpreted for the texts that were sent, for the options of
  the library, and for the variables an agent keeps beside its connection. \<open>Web_Props\<close> has the
  locales for agents of services: \<open>asked_device\<close> for a device that is known only by its answers, so that an
  off is confirmed by what was read, and \<open>world_relation\<close>, interpreted for the calls that were recorded.

  \<^bold>\<open>Agents.\<close> \<open>Fence_Dummy\<close> and \<open>Fence_Dummy_Main\<close> (dummy), \<open>Snmp_Agents\<close> (emerson, ibmblade,
  intelmodular, cisco\_mds), \<open>Snmp_Pdu\<close>
  (apc\_snmp, ipdu, eaton\_snmp, ifmib), \<open>Fence_Heuristics_Ping\<close> (heuristics\_ping), \<open>Fence_Scsi\<close> and
  \<open>Fence_Scsi_Main\<close> (scsi and its watchdog scripts), \<open>Fence_Mpath\<close> (mpath), \<open>Fence_Ipmilan\<close> (ipmilan
  and the agents that are links to it), \<open>Fence_Amt\<close> (amt), \<open>Fence_Sbd\<close> (sbd), \<open>Command_Agents\<close>
  (crosslink, ironic, powerman), \<open>Fence_Vmware\<close> (vmware), \<open>Fence_Rcd_Serial\<close> (rcd\_serial). Session agents:
  \<open>Console_Agents\<close> (alom, ilo\_mp, ilo\_ssh, drac, rsa, rsb), \<open>Blade_Agents\<close> (bladecenter, hds\_cb, hpblade,
  ilo\_moonshot, drac5), \<open>Vm_Agents\<close> (virsh, vbox, ldom, lpar), \<open>Switch_Agents\<close> (brocade, sanbox2,
  cyberpower\_ssh, netio, raritan, cdu), \<open>Menu_Agents\<close> (apc, eaton\_ssh), \<open>Fence_Wti\<close> (wti),
  \<open>Stateful_Agents\<close> (raritan\_px3, ilo). Agents of services: \<open>Rest_Agents\<close> (pve, docker, redfish,
  ecloud), \<open>Api_Agents\<close> (vmware\_rest, shelly\_gen2, hetzner\_cloud, ibm\_powervs), \<open>Fence_Ibm_Vpc\<close> (ibm\_vpc, with
  \<open>Sha256\<close> for the name of its token file), \<open>Requests_Agents\<close> (skalar, ovm), \<open>Fence_Ibmz\<close> (ibmz),
  \<open>Fence_Nutanix\<close> (nutanix\_ahv), \<open>Xml_Agents\<close> (rhevm, cisco\_ucs), \<open>Vcloud_Amt_Agents\<close> (vmware\_vcloud, amt\_ws),
  \<open>Fence_Eps\<close> (eps), \<open>Fence_Zvm\<close> (zvmip), \<open>Fence_Lindypdu\<close> (lindypdu), \<open>Cloud_Agents\<close> (aws, aliyun, kubevirt),
  \<open>Fence_Openstack\<close> (openstack), \<open>Fence_Xenapi\<close> (xenapi, and \<open>lib/XenAPI.py.py\<close>), \<open>Soap_Agents\<close>
  (vmware\_soap, ovh), \<open>Nova_Agents\<close> (compute, evacuate). Names that several agents use carry the agent as a suffix,
  as in \<open>get_power_status_apc\<close> and \<open>main_scsi\<close>.

  \<^bold>\<open>What is shown.\<close>
  \<^item> \<open>Fence_Guarantees\<close>: an \<open>off\<close> or \<open>on\<close> that returns has been read back, a reboot passes through off,
    what is done in no case, exit codes and results, bounds of the polling loop, termination with a
    positive power timeout, the delay.
  \<^item> \<open>Option_Guarantees\<close>: what holds of the options when \<open>check_input\<close> returns (the action is offered,
    numbers are numbers, defaults are filled in), that the validation decides the conditions it is
    meant to and that its two modes agree, verbosity and timeouts.
  \<^item> \<open>Snmp_Guarantees\<close>: quoting for the SNMP programs is undone by splitting; \<open>off\<close> is confirmed on the
    device for the agents without cached outlets and for single outlets of the others; the cache
    of fence\_apc\_snmp makes an \<open>off\<close> of two plugs succeed with the second one on.
  \<^item> \<open>Scsi_Guarantees\<close>: fence\_scsi implements a specification of fencing by reservations; what its
    setter has verified when it returns; a node never fences itself; the reports of \<open>sg_persist\<close>
    are read back exactly; the length of generated keys.
  \<^item> \<open>Ipmi_Guarantees\<close>: the command carries user name and password as words of any content, the
    password is not logged, \<open>off\<close> is confirmed. \<open>Ping_Guarantees\<close>: the test decides by the number of
    failed targets; IPv6 addresses are cut short. \<open>Mpath_Guarantees\<close>: \<open>monitor\<close> checks nothing.
  \<^item> \<open>Session_Guarantees\<close>, on \<open>Session_Props\<close> and \<open>Session_Exits\<close>: asking for the status sends queries only,
    whatever the peer does; a session ends with exit code 1 or with the result of the action and
    lets no lost connection out; fence\_raritan\_px3 never confirms an \<open>off\<close>; a UUID among several
    plugs makes fence\_virsh miss the others.
  \<^item> \<open>Web_Guarantees\<close>, on \<open>Web_Props\<close>: asking a cloud or a REST service for the status only reads; an off over
    Redfish that succeeds was read back in the last request; the race check of fence\_aws, and how it
    is passed over.
  \<^item> \<open>Client_Guarantees\<close>: a power cycle of a Nutanix machine is never confirmed; a session of
    XenServer is renewed, with a bound on the calls whatever the server answers; with clouds.yaml
    fence\_openstack checks no certificates; waiting for a job of the HMC ends and decides.
  \<^item> \<open>Nova_Guarantees\<close>: fence\_evacuate has machines started elsewhere only when their host is down and
    disabled; what an off by fence\_compute stands for, since it is not read back.
  \<^item> \<open>Json\<close>: what is written as JSON is read back. \<open>Fence_Zvm\<close>: so are the packets for z/VM. \<open>Fence_Lindypdu\<close>:
    a listed name is resolved to another outlet. \<open>Fence_Eps\<close>: long credentials break the request.
  \<^item> \<open>Tool_Guarantees\<close>: \<open>run_commands\<close> ends by its timeout and answers by what the processes did; the power
    cycle of fence\_amt runs echo only; the lines of the helper of fence\_vmware are read back.

  \<^bold>\<open>Fuel.\<close> The polling loop has no bound when the power timeout is 0, so it runs on fuel: a run out
  of fuel is \<open>Running\<close>, never a result. \<open>fence_action_terminates\<close> shows that as much fuel as the power
  timeout is enough when that is positive. The recursion over stacked multipath devices has fuel
  as well; the kernel bounds the depth of a stack. The loops of fence\_apc over the pages of its menus
  end when the device says so and run on fuel (\<open>pages\<close>); the waiting loop of \<open>run_commands\<close> does so
  without a timeout, and \<open>run_commands_decides\<close> gives the fuel that is enough with one. So do the loops whose
  end is up to a service: pages of results (hetzner\_cloud, vmware\_soap), the jobs of ovm and of the
  HMC (\<open>hmc_wait_decides\<close> gives the fuel that is enough there), the chunks of an answer of z/VM, and the waiting of fence\_compute for Nova. The recursion
  of fence\_pve over the nodes ends after a number of calls that is a parameter, as Python ends it.

  \<^bold>\<open>Not modelled.\<close> The configuration of logging and messages below the level error; temporary directories,
  signal handlers, and the messages for packages that are not installed; the transport over Unix
  sockets in \<open>lib/XenAPI.py.py\<close>, which no agent uses. Of the agents: azure\_arm with
  \<open>lib/azure_fence.py.py\<close>, gce and aws\_vpc\_net, which are sequences of calls of the libraries of
  their clouds; and the copies of the library and of agents under \<open>agents/autodetect\<close>. A pattern that an
  agent waits for is given to the parameter as its text; a pattern that an agent applies itself to
  what it received is a regular expression of the model, and text pasted into one is
  modelled for names without metacharacters other than the dot.
\<close>

end
